(* ===== verification/Prelude.thy ===== *)
theory Prelude
  imports Complex_Main
begin

text \<open>
  What every component of the development shares: the names of the model's base types,
  the two ways a piece of the backend can fail (inside a database transaction, where
  nothing is kept, and in a service handler, where what was committed before the failure
  stays), tables as lists of rows, and the fixed-point columns of the database.
\<close>

section \<open>Base types\<close>

text \<open>
  Identifiers, dates and JSON documents are opaque to the code: an identifier is the
  string the code handles, a date the number of milliseconds \<open>Date.getTime\<close> returns,
  a JSON document the list of its fields. A \<open>Prisma.Decimal\<close> is an exact rational.
\<close>

type_synonym uuid = string
type_synonym time = int
type_synonym json = "(string \<times> string) list"
type_synonym dec = rat

named_theorems step_simps \<open>one-step unfolding of the operations of a component\<close>
named_theorems frame \<open>what an operation leaves alone\<close>

section \<open>Failure inside a transaction\<close>

text \<open>
  The body of a transaction returns its result with the new state, or throws. A throw
  rolls the transaction back, so the error carries no state.
\<close>

definition andThen :: "'e + 'a \<Rightarrow> ('a \<Rightarrow> 'e + 'b) \<Rightarrow> 'e + 'b" where
  "andThen m f = (case m of Inl e \<Rightarrow> Inl e | Inr a \<Rightarrow> f a)"

definition throw_if :: "bool \<Rightarrow> 'e \<Rightarrow> 'e + unit" where
  "throw_if c e = (if c then Inl e else Inr ())"

lemma andThen_simps [simp]:
  "andThen (Inl e) f = Inl e"
  "andThen (Inr a) f = f a"
  by (simp_all add: andThen_def)

lemma andThen_Inr_iff:
  "andThen m f = Inr b \<longleftrightarrow> (\<exists>a. m = Inr a \<and> f a = Inr b)"
  by (cases m) auto

lemma andThen_Inl_iff:
  "andThen m f = Inl e \<longleftrightarrow> m = Inl e \<or> (\<exists>a. m = Inr a \<and> f a = Inl e)"
  by (cases m) auto

lemma andThen_assoc: "andThen (andThen m f) g = andThen m (\<lambda>a. andThen (f a) g)"
  by (cases m) auto

lemma throw_if_iff [simp]:
  "throw_if c e = Inr u \<longleftrightarrow> \<not> c"
  "throw_if c e = Inl e' \<longleftrightarrow> c \<and> e' = e"
  by (auto simp: throw_if_def)

lemma throw_if_simps [simp]:
  "throw_if True e = Inl e"
  "throw_if False e = Inr ()"
  by (simp_all add: throw_if_def)

section \<open>Failure in a service handler\<close>

text \<open>
  A handler runs several committed database operations one after the other. When a later
  one throws, the earlier ones stay: the result pairs the outcome with the state reached.
\<close>

type_synonym ('s, 'e, 'a) io = "'s \<Rightarrow> ('e + 'a) \<times> 's"

definition returnM :: "'a \<Rightarrow> ('s, 'e, 'a) io" where
  "returnM a s = (Inr a, s)"

definition throwM :: "'e \<Rightarrow> ('s, 'e, 'a) io" where
  "throwM e s = (Inl e, s)"

definition bindM :: "('s, 'e, 'a) io \<Rightarrow> ('a \<Rightarrow> ('s, 'e, 'b) io) \<Rightarrow> ('s, 'e, 'b) io" where
  "bindM m f s = (case m s of (Inl e, s') \<Rightarrow> (Inl e, s') | (Inr a, s') \<Rightarrow> f a s')"

definition getsM :: "('s \<Rightarrow> 'a) \<Rightarrow> ('s, 'e, 'a) io" where
  "getsM g s = (Inr (g s), s)"

definition modifyM :: "('s \<Rightarrow> 's) \<Rightarrow> ('s, 'e, unit) io" where
  "modifyM g s = (Inr (), g s)"

definition failIfM :: "bool \<Rightarrow> 'e \<Rightarrow> ('s, 'e, unit) io" where
  "failIfM c e s = (if c then (Inl e, s) else (Inr (), s))"

definition requireM :: "'e \<Rightarrow> 'a option \<Rightarrow> ('s, 'e, 'a) io" where
  "requireM e x s = (case x of None \<Rightarrow> (Inl e, s) | Some a \<Rightarrow> (Inr a, s))"

definition transactM :: "('s \<Rightarrow> 'e + 'a \<times> 's) \<Rightarrow> ('s, 'e, 'a) io" where
  "transactM t s = (case t s of Inl e \<Rightarrow> (Inl e, s) | Inr (a, s') \<Rightarrow> (Inr a, s'))"

definition whenM :: "bool \<Rightarrow> ('s, 'e, unit) io \<Rightarrow> ('s, 'e, unit) io" where
  "whenM c m s = (if c then m s else (Inr (), s))"

fun forM :: "'x list \<Rightarrow> ('x \<Rightarrow> ('s, 'e, unit) io) \<Rightarrow> ('s, 'e, unit) io" where
  "forM [] f s = (Inr (), s)"
| "forM (x # xs) f s = (case f x s of (Inl e, s') \<Rightarrow> (Inl e, s') | (Inr _, s') \<Rightarrow> forM xs f s')"

lemmas io_defs = returnM_def throwM_def getsM_def modifyM_def failIfM_def requireM_def
  transactM_def whenM_def

lemma bindM_Inr_iff:
  "bindM m f s = (Inr b, s'') \<longleftrightarrow> (\<exists>a s'. m s = (Inr a, s') \<and> f a s' = (Inr b, s''))"
  by (auto simp: bindM_def split: prod.splits sum.splits)

lemma bindM_Inl_iff:
  "bindM m f s = (Inl e, s'') \<longleftrightarrow>
     m s = (Inl e, s'') \<or> (\<exists>a s'. m s = (Inr a, s') \<and> f a s' = (Inl e, s''))"
  by (auto simp: bindM_def split: prod.splits sum.splits)

lemma failIfM_iff [simp]:
  "failIfM c e s = (Inr u, s') \<longleftrightarrow> \<not> c \<and> s' = s"
  "failIfM c e s = (Inl e', s') \<longleftrightarrow> c \<and> e' = e \<and> s' = s"
  by (auto simp: failIfM_def)

lemma requireM_iff [simp]:
  "requireM e x s = (Inr a, s') \<longleftrightarrow> x = Some a \<and> s' = s"
  "requireM e x s = (Inl e', s') \<longleftrightarrow> x = None \<and> e' = e \<and> s' = s"
  by (auto simp: requireM_def split: option.splits)

lemma getsM_iff [simp]:
  "getsM g s = (r, s') \<longleftrightarrow> r = Inr (g s) \<and> s' = s"
  by (auto simp: getsM_def)

lemma returnM_iff [simp]:
  "returnM a s = (r, s') \<longleftrightarrow> r = Inr a \<and> s' = s"
  by (auto simp: returnM_def)

lemma modifyM_iff [simp]:
  "modifyM g s = (r, s') \<longleftrightarrow> r = Inr () \<and> s' = g s"
  by (auto simp: modifyM_def)

lemma throwM_iff [simp]:
  "throwM e s = (r, s') \<longleftrightarrow> r = Inl e \<and> s' = s"
  by (auto simp: throwM_def)

section \<open>What a handler may do to the state\<close>

text \<open>
  The contract under which handlers compose: a reflexive and transitive relation on
  states. A handler is \<^emph>\<open>confined to\<close> the relation if every run of it, successful or not,
  moves the state along it. The rules below discharge a handler call by call.
\<close>

definition confined :: "('s \<Rightarrow> 's \<Rightarrow> bool) \<Rightarrow> ('s, 'e, 'a) io \<Rightarrow> bool" where
  "confined R m \<longleftrightarrow> (\<forall>s r s'. m s = (r, s') \<longrightarrow> R s s')"

lemma confinedI: "(\<And>s r s'. m s = (r, s') \<Longrightarrow> R s s') \<Longrightarrow> confined R m"
  by (auto simp: confined_def)

lemma confinedD: "confined R m \<Longrightarrow> m s = (r, s') \<Longrightarrow> R s s'"
  by (auto simp: confined_def)

locale evolution =
  fixes R :: "'s \<Rightarrow> 's \<Rightarrow> bool"
  assumes stays: "R s s"
    and continues: "R s s' \<Longrightarrow> R s' s'' \<Longrightarrow> R s s''"
begin

lemma confined_return: "confined R (returnM a)"
  by (auto simp: confined_def stays)

lemma confined_throw: "confined R (throwM e)"
  by (auto simp: confined_def stays)

lemma confined_gets: "confined R (getsM g)"
  by (auto simp: confined_def stays)

lemma confined_failIf: "confined R (failIfM c e)"
  by (auto simp: confined_def failIfM_def stays)

lemma confined_require: "confined R (requireM e x)"
  by (auto simp: confined_def requireM_def stays split: option.splits)

lemma confined_modify: "(\<And>s. R s (g s)) \<Longrightarrow> confined R (modifyM g)"
  by (auto simp: confined_def)

lemma confined_when: "confined R m \<Longrightarrow> confined R (whenM c m)"
  by (auto simp: confined_def whenM_def stays)

lemma confined_transact:
  "(\<And>s a s'. t s = Inr (a, s') \<Longrightarrow> R s s') \<Longrightarrow> confined R (transactM t)"
  by (auto simp: confined_def transactM_def stays split: sum.splits)

lemma confined_bind:
  assumes "confined R m" and "\<And>a. confined R (f a)"
  shows "confined R (bindM m f)"
proof (rule confinedI)
  fix s r s'' assume run: "bindM m f s = (r, s'')"
  obtain r1 s1 where m: "m s = (r1, s1)" by (cases "m s")
  with assms(1) have R1: "R s s1" by (rule confinedD)
  show "R s s''"
  proof (cases r1)
    case (Inl e)
    with m run R1 show ?thesis by (simp add: bindM_def)
  next
    case (Inr a)
    with m run have "f a s1 = (r, s'')" by (simp add: bindM_def)
    with assms(2) have "R s1 s''" by (rule confinedD)
    with R1 show ?thesis by (rule continues)
  qed
qed

lemma confined_for:
  assumes "\<And>x. confined R (f x)"
  shows "confined R (forM xs f)"
proof (rule confinedI)
  fix s r s'' show "forM xs f s = (r, s'') \<Longrightarrow> R s s''"
  proof (induction xs arbitrary: s)
    case Nil
    then show ?case by (simp add: stays)
  next
    case (Cons x xs)
    obtain r1 s1 where m: "f x s = (r1, s1)" by (cases "f x s")
    with assms have R1: "R s s1" by (rule confinedD)
    show ?case
    proof (cases r1)
      case (Inl e)
      with m Cons.prems R1 show ?thesis by simp
    next
      case (Inr a)
      with m Cons.prems have "forM xs f s1 = (r, s'')" by simp
      then have "R s1 s''" by (rule Cons.IH)
      with R1 show ?thesis by (rule continues)
    qed
  qed
qed

lemmas confined_rules = confined_return confined_throw confined_gets confined_failIf confined_require
  confined_when confined_bind confined_for

end

section \<open>Tables\<close>

text \<open>
  A table is the list of its rows in insertion order. \<open>find_row\<close> is \<open>findUnique\<close>,
  \<open>upd_row\<close> is \<open>update\<close> by primary key.
\<close>

definition find_row :: "('r \<Rightarrow> 'k) \<Rightarrow> 'k \<Rightarrow> 'r list \<Rightarrow> 'r option" where
  "find_row key k rows = find (\<lambda>r. key r = k) rows"

definition upd_row :: "('r \<Rightarrow> 'k) \<Rightarrow> 'k \<Rightarrow> ('r \<Rightarrow> 'r) \<Rightarrow> 'r list \<Rightarrow> 'r list" where
  "upd_row key k f rows = map (\<lambda>r. if key r = k then f r else r) rows"

lemma find_row_Some_iff:
  assumes "distinct (map key rows)"
  shows "find_row key k rows = Some r \<longleftrightarrow> r \<in> set rows \<and> key r = k"
  using assms
  by (induction rows) (auto simp: find_row_def)

lemma find_SomeD: "find P xs = Some x \<Longrightarrow> x \<in> set xs \<and> P x"
  by (induction xs) (auto split: if_splits)

lemma find_NoneD: "find P xs = None \<Longrightarrow> x \<in> set xs \<Longrightarrow> \<not> P x"
  by (auto simp: find_None_iff)

lemma find_row_SomeD: "find_row key k rows = Some r \<Longrightarrow> r \<in> set rows \<and> key r = k"
  unfolding find_row_def by (rule find_SomeD)

lemma find_row_None_iff: "find_row key k rows = None \<longleftrightarrow> k \<notin> key ` set rows"
  by (auto simp: find_row_def find_None_iff)

lemma set_upd_row: "set (upd_row key k f rows) = (\<lambda>r. if key r = k then f r else r) ` set rows"
  by (simp add: upd_row_def)

lemma length_upd_row [simp]: "length (upd_row key k f rows) = length rows"
  by (simp add: upd_row_def)

lemma upd_row_append [simp]: "upd_row key k f (xs @ ys) = upd_row key k f xs @ upd_row key k f ys"
  by (simp add: upd_row_def)

lemma map_upd_row:
  assumes "\<And>r. key r = k \<Longrightarrow> g (f r) = g r"
  shows "map g (upd_row key k f rows) = map g rows"
  using assms by (auto simp: upd_row_def)

lemma upd_row_notin: "k \<notin> key ` set rows \<Longrightarrow> upd_row key k f rows = rows"
  by (induction rows) (auto simp: upd_row_def)

lemma find_row_upd_row:
  assumes "\<And>r. key r = k \<Longrightarrow> key (f r) = k"
  shows "find_row key j (upd_row key k f rows) =
    (if j = k then map_option f (find_row key j rows) else find_row key j rows)"
  using assms by (induction rows) (auto simp: find_row_def upd_row_def)

lemma find_row_append:
  "find_row key k (xs @ ys) =
     (case find_row key k xs of None \<Rightarrow> find_row key k ys | Some r \<Rightarrow> Some r)"
  by (induction xs) (auto simp: find_row_def)

lemma sum_list_filter_upd_row:
  fixes q :: "'r \<Rightarrow> rat"
  assumes "distinct (map key rows)" and "r \<in> set rows" and "key r = k"
  shows "sum_list (map q (filter P (upd_row key k f rows))) =
    sum_list (map q (filter P rows))
      - (if P r then q r else 0) + (if P (f r) then q (f r) else 0)"
  using assms
proof (induction rows)
  case Nil
  then show ?case by simp
next
  case (Cons x rows)
  show ?case
  proof (cases "key x = k")
    case True
    with Cons.prems have x: "x = r" by (auto simp: image_iff)
    with True Cons.prems have "upd_row key k f rows = rows"
      by (intro upd_row_notin) auto
    with x Cons.prems(3) show ?thesis by (simp add: upd_row_def)
  next
    case False
    with Cons show ?thesis by (auto simp: upd_row_def)
  qed
qed

section \<open>Decimal numerals\<close>

fun decimal_digits :: "nat \<Rightarrow> string" where
  "decimal_digits n =
     (if n < 10 then [char_of (n + 48)] else decimal_digits (n div 10) @ [char_of (n mod 10 + 48)])"

declare decimal_digits.simps [simp del]

section \<open>Fixed-point columns\<close>

text \<open>
  A column \<open>Decimal(p, s)\<close> stores a number rounded to \<open>s\<close> fractional digits, a
  tie going away from zero (PostgreSQL's \<open>numeric\<close>), and refuses one with more than
  \<open>p - s\<close> integral digits.
\<close>

definition half_away :: "rat \<Rightarrow> int" where
  "half_away x = (if 0 \<le> x then \<lfloor>x + 1 / 2\<rfloor> else - \<lfloor>- x + 1 / 2\<rfloor>)"

definition to_scale :: "nat \<Rightarrow> dec \<Rightarrow> dec" where
  "to_scale s q = of_int (half_away (q * 10 ^ s)) / 10 ^ s"

definition fits :: "nat \<Rightarrow> nat \<Rightarrow> dec \<Rightarrow> bool" where
  "fits p s q \<longleftrightarrow> \<bar>to_scale s q\<bar> < 10 ^ (p - s)"

definition on_scale :: "nat \<Rightarrow> dec \<Rightarrow> bool" where
  "on_scale s q \<longleftrightarrow> q * 10 ^ s = of_int \<lfloor>q * 10 ^ s\<rfloor>"

definition ties :: "nat \<Rightarrow> dec \<Rightarrow> bool" where
  "ties s q \<longleftrightarrow> frac (q * 10 ^ s) = 1 / 2"

lemma floor_one_half [simp]: "\<lfloor>1 / 2 :: rat\<rfloor> = 0"
  by (simp add: floor_eq_iff)

lemma half_away_of_int [simp]: "half_away (of_int n) = n"
proof -
  have "\<lfloor>(of_int n :: rat) + 1 / 2\<rfloor> = n" and "\<lfloor>- (of_int n :: rat) + 1 / 2\<rfloor> = - n"
    by (auto simp: floor_eq_iff)
  then show ?thesis by (simp add: half_away_def)
qed

lemma half_away_nonneg: "0 \<le> x \<Longrightarrow> half_away x = \<lfloor>x + 1 / 2\<rfloor>"
  by (simp add: half_away_def)

lemma half_away_ge0: "0 \<le> x \<Longrightarrow> 0 \<le> half_away x"
  by (simp add: half_away_def)

lemma half_away_mono: "x \<le> y \<Longrightarrow> 0 \<le> x \<Longrightarrow> half_away x \<le> half_away y"
  by (simp add: half_away_def floor_mono)

text \<open>Two parts of an integer round to that integer, unless the cut is at a half.\<close>

lemma half_away_split:
  assumes "0 \<le> x" and "x \<le> of_int n"
  shows "half_away x + half_away (of_int n - x) = n + (if frac x = 1 / 2 then 1 else 0)"
proof -
  define k where "k = \<lfloor>x\<rfloor>"
  define f where "f = frac x"
  have x: "x = of_int k + f" by (simp add: k_def f_def frac_def)
  have f: "0 \<le> f" "f < 1" by (simp_all add: f_def frac_lt_1)
  have a: "half_away x = k + \<lfloor>f + 1 / 2\<rfloor>"
  proof -
    have "x + 1 / 2 = (f + 1 / 2) + of_int k" by (simp add: x)
    then have "\<lfloor>x + 1 / 2\<rfloor> = \<lfloor>f + 1 / 2\<rfloor> + k" by (simp only: floor_add_int)
    with assms(1) show ?thesis by (simp add: half_away_nonneg)
  qed
  have b: "half_away (of_int n - x) = n - k + \<lfloor>1 / 2 - f\<rfloor>"
  proof -
    have "of_int n - x + 1 / 2 = (1 / 2 - f) + of_int (n - k)" by (simp add: x)
    then have "\<lfloor>of_int n - x + 1 / 2\<rfloor> = \<lfloor>1 / 2 - f\<rfloor> + (n - k)"
      by (simp only: floor_add_int)
    with assms(2) show ?thesis by (simp add: half_away_nonneg)
  qed
  have "\<lfloor>f + 1 / 2\<rfloor> + \<lfloor>1 / 2 - f\<rfloor> = (if f = 1 / 2 then 1 else 0)"
  proof -
    consider "f < 1 / 2" | "f = 1 / 2" | "1 / 2 < f" by linarith
    then show ?thesis
    proof cases
      case 1
      with f have "\<lfloor>f + 1 / 2\<rfloor> = 0" "\<lfloor>1 / 2 - f\<rfloor> = 0" by (auto simp: floor_eq_iff)
      with 1 show ?thesis by simp
    next
      case 2
      show ?thesis unfolding 2 by simp
    next
      case 3
      with f have "\<lfloor>f + 1 / 2\<rfloor> = 1" "\<lfloor>1 / 2 - f\<rfloor> = -1" by (auto simp: floor_eq_iff)
      with 3 show ?thesis by simp
    qed
  qed
  with a b show ?thesis by (simp add: f_def)
qed

lemma to_scale_on_scale [simp]: "on_scale s (to_scale s q)"
  by (simp add: on_scale_def to_scale_def)

lemma to_scale_id: "on_scale s q \<Longrightarrow> to_scale s q = q"
proof -
  assume "on_scale s q"
  then have "q * 10 ^ s = of_int \<lfloor>q * 10 ^ s\<rfloor>" by (simp add: on_scale_def)
  then have "half_away (q * 10 ^ s) = \<lfloor>q * 10 ^ s\<rfloor>" by (metis half_away_of_int)
  with \<open>q * 10 ^ s = _\<close> show ?thesis by (simp add: to_scale_def) 
qed

lemma to_scale_idem [simp]: "to_scale s (to_scale s q) = to_scale s q"
  by (simp add: to_scale_id)

lemma to_scale_nonneg: "0 \<le> q \<Longrightarrow> 0 \<le> to_scale s q"
  by (simp add: to_scale_def half_away_ge0)

lemma to_scale_mono: "0 \<le> p \<Longrightarrow> p \<le> q \<Longrightarrow> to_scale s p \<le> to_scale s q"
  by (simp add: to_scale_def divide_right_mono half_away_mono mult_right_mono)

lemma to_scale_split:
  assumes "0 \<le> p" and "p \<le> q" and "on_scale s q"
  shows "to_scale s p + to_scale s (q - p) = q + (if ties s p then 1 / 10 ^ s else 0)"
proof -
  let ?n = "\<lfloor>q * 10 ^ s\<rfloor>"
  from assms(3) have q: "q * 10 ^ s = of_int ?n" by (simp add: on_scale_def)
  have "p * 10 ^ s \<le> q * 10 ^ s" using assms(2) by simp
  then have le: "p * 10 ^ s \<le> of_int ?n" by (simp only: q [symmetric])
  have ge: "0 \<le> p * 10 ^ s" using assms(1) by simp
  have "half_away (p * 10 ^ s) + half_away (of_int ?n - p * 10 ^ s)
      = ?n + (if frac (p * 10 ^ s) = 1 / 2 then 1 else 0)"
    by (rule half_away_split [OF ge le])
  moreover have "(q - p) * 10 ^ s = of_int ?n - p * 10 ^ s" by (simp only: q [symmetric] left_diff_distrib)
  ultimately have "to_scale s p + to_scale s (q - p)
      = (of_int ?n + (if frac (p * 10 ^ s) = 1 / 2 then 1 else 0)) / 10 ^ s"
    by (simp add: to_scale_def add_divide_distrib [symmetric] of_int_add [symmetric] del: of_int_add)
  also have "\<dots> = q + (if ties s p then 1 / 10 ^ s else 0)"
    by (simp add: q [symmetric] ties_def add_divide_distrib)
  finally show ?thesis .
qed

lemma on_scale_not_ties: "on_scale s q \<Longrightarrow> \<not> ties s q"
  by (metis frac_of_int on_scale_def ties_def zero_neq_one divide_eq_0_iff zero_neq_numeral)

lemma fits_le: "fits p s q \<Longrightarrow> 0 \<le> x \<Longrightarrow> x \<le> q \<Longrightarrow> fits p s x"
  using to_scale_mono [of x q s] to_scale_nonneg [of x s] to_scale_nonneg [of q s]
  by (simp add: fits_def)

lemma fits_to_scale [simp]: "fits p s (to_scale s q) = fits p s q"
  by (simp add: fits_def)

end
