(* ===== verification/Inventory_Types.thy ===== *)
theory Inventory_Types
  imports Prelude
begin

text \<open>
  The enums of the database schema the inventory uses, the exceptions of the backend, and
  \<open>src/inventory/inventory.types.ts\<close>: which statuses hold volume, which are closed,
  and the group (Active, Liened, Cancelled) the receipt tables are filtered by.
\<close>

section \<open>Enums of the schema\<close>

datatype receipt_status =
    ACTIVE | PENDING_APPROVAL
  | HELD_WITHDRAWAL | HELD_LOAN | HELD_TRADE | HELD_PLEDGE_PENDING | HELD_LIEN
  | WITHDRAWN | TRADED_OUT | SEIZED | EXPIRED | CANCELLED | SPLIT

datatype approval_status = PENDING | APPROVED | REJECTED

datatype txn_type = T_DEPOSIT | T_WITHDRAWAL | T_LOAN | T_TRADE | T_ADJUSTMENT | T_PLEDGE

datatype event_type =
    E_DEPOSIT | E_APPROVED | E_REJECTED | E_HOLD_PLACED | E_HOLD_RELEASED
  | E_PLEDGE_ACCEPTED | E_CONSUMED | E_OWNERSHIP_TRANSFERRED | E_SEIZED | E_EXPIRED
  | E_CANCELLED | E_LEGACY_RECONCILIATION

section \<open>Exceptions\<close>

text \<open>
  The five exceptions of \<open>inventory.types.ts\<close> with what their messages interpolate,
  the HTTP exceptions the services throw with their machine code or message head, and the
  errors the database engine raises.
\<close>

datatype found = Found_Status receipt_status | Found_Approval approval_status

datatype db_error =
    P2002 string \<comment> \<open>unique constraint, with the column it is on\<close>
  | Numeric_Overflow
  | Serialization_Failure
  | Row_Missing

datatype err =
    ReceiptNotFound uuid
  | ReceiptNotTransactable uuid receipt_status approval_status
  | InsufficientQuantity dec dec
  | InvalidStateTransition uuid found
  | BadRequest string
  | NotFound string
  | Forbidden string
  | Conflict string
  | Unauthorized string
  | OtpInvalid nat \<comment> \<open>400 \<open>OTP_INVALID\<close> with \<open>attemptsRemaining\<close>\<close>
  | TypeError string \<comment> \<open>a read of a property of \<open>undefined\<close>\<close>
  | Db db_error

section \<open>Held and closed statuses\<close>

datatype held_status = Held_Withdrawal | Held_Loan | Held_Trade | Held_Pledge_Pending | Held_Lien

fun of_held :: "held_status \<Rightarrow> receipt_status" where
  "of_held Held_Withdrawal = HELD_WITHDRAWAL"
| "of_held Held_Loan = HELD_LOAN"
| "of_held Held_Trade = HELD_TRADE"
| "of_held Held_Pledge_Pending = HELD_PLEDGE_PENDING"
| "of_held Held_Lien = HELD_LIEN"

definition HELD :: "receipt_status list" where
  "HELD = [HELD_WITHDRAWAL, HELD_LOAN, HELD_TRADE, HELD_PLEDGE_PENDING, HELD_LIEN]"

definition CLOSED :: "receipt_status list" where
  "CLOSED = [WITHDRAWN, TRADED_OUT, SEIZED, EXPIRED, CANCELLED, SPLIT]"

datatype receipt_group = G_ACTIVE | G_LIENED | G_CANCELLED

definition deriveGroup :: "receipt_status \<Rightarrow> approval_status \<Rightarrow> receipt_group" where
  "deriveGroup st ap =
     (if st \<in> set CLOSED then G_CANCELLED
      else if st = PENDING_APPROVAL \<or> st \<in> set HELD \<or> ap = PENDING then G_LIENED
      else G_ACTIVE)"

fun statusesForGroup :: "receipt_group \<Rightarrow> receipt_status list" where
  "statusesForGroup G_CANCELLED = CLOSED"
| "statusesForGroup G_LIENED = PENDING_APPROVAL # HELD"
| "statusesForGroup G_ACTIVE = [ACTIVE]"

lemma of_held_in_HELD [simp]: "of_held h \<in> set HELD"
  by (cases h) (simp_all add: HELD_def)

lemma HELD_iff: "st \<in> set HELD \<longleftrightarrow> (\<exists>h. st = of_held h)"
proof
  show "st \<in> set HELD \<Longrightarrow> \<exists>h. st = of_held h"
    unfolding HELD_def
    by (auto intro: exI [of _ Held_Withdrawal] exI [of _ Held_Loan] exI [of _ Held_Trade]
        exI [of _ Held_Pledge_Pending] exI [of _ Held_Lien])
qed auto

lemma of_held_neq [simp]:
  "of_held h \<noteq> ACTIVE" "of_held h \<noteq> SPLIT" "of_held h \<noteq> PENDING_APPROVAL" "of_held h \<noteq> SEIZED"
  by (cases h, simp_all)+

lemma not_held [simp]:
  "ACTIVE \<notin> set HELD" "PENDING_APPROVAL \<notin> set HELD" "SPLIT \<notin> set HELD" "SEIZED \<notin> set HELD"
  "WITHDRAWN \<notin> set HELD" "EXPIRED \<notin> set HELD" "CANCELLED \<notin> set HELD" "TRADED_OUT \<notin> set HELD"
  by (simp_all add: HELD_def)

lemma is_held [simp]:
  "HELD_WITHDRAWAL \<in> set HELD" "HELD_LOAN \<in> set HELD" "HELD_TRADE \<in> set HELD"
  "HELD_PLEDGE_PENDING \<in> set HELD" "HELD_LIEN \<in> set HELD"
  by (simp_all add: HELD_def)

text \<open>The three groups partition the statuses.\<close>

lemma statusesForGroup_cover: "\<exists>g. st \<in> set (statusesForGroup g)"
  by (cases st)
    (auto simp: HELD_def CLOSED_def intro: exI [of _ G_ACTIVE] exI [of _ G_LIENED] exI [of _ G_CANCELLED])

lemma statusesForGroup_disjoint:
  "st \<in> set (statusesForGroup g) \<Longrightarrow> st \<in> set (statusesForGroup h) \<Longrightarrow> g = h"
  by (cases g; cases h) (auto simp: HELD_def CLOSED_def)

text \<open>
  The group shown for a row and the group a list is filtered by agree on every row but an
  ACTIVE one whose approval is still pending.
\<close>

lemma deriveGroup_agrees:
  "st \<in> set (statusesForGroup (deriveGroup st ap)) \<longleftrightarrow> \<not> (st = ACTIVE \<and> ap = PENDING)"
  by (cases st; cases ap) (auto simp: deriveGroup_def HELD_def CLOSED_def)

end
