(* ===== verification/Receipt_Number.thy ===== *)
theory Receipt_Number
  imports Inventory_Types "HOL-Library.List_Lexorder" "HOL-Library.Char_ord"
    "HOL-Library.Product_Lexorder" "HOL-Library.Sublist"
begin

text \<open>
  Receipt numbers, from \<open>src/inventory/inventory.tx.ts\<close>: the number a split leaf's
  children share, and the next free letter suffix (A, B, ..., Z, AA, AB, ...). The numbers
  are unique in the database, so a suffix already taken would abort the split; the
  theorems show it never is.
\<close>

section \<open>The code\<close>

definition is_upper :: "char \<Rightarrow> bool" where
  "is_upper c \<longleftrightarrow> CHR ''A'' \<le> c \<and> c \<le> CHR ''Z''"

text \<open>The test \<open>/^[A-Z]+$/\<close>.\<close>

definition is_suffix :: "string \<Rightarrow> bool" where
  "is_suffix s \<longleftrightarrow> s \<noteq> [] \<and> list_all is_upper s"

text \<open>\<open>parentNumber.replace(/-[A-Z]+$/, '')\<close>.\<close>

definition baseReceiptNumber :: "string \<Rightarrow> string" where
  "baseReceiptNumber parentNumber =
     (let r = rev parentNumber;
          letters = takeWhile is_upper r;
          before = dropWhile is_upper r
      in if letters \<noteq> [] \<and> before \<noteq> [] \<and> hd before = CHR ''-'' then rev (tl before)
         else parentNumber)"

definition next_char :: "char \<Rightarrow> char" where
  "next_char c = char_of (of_char c + 1 :: nat)"

text \<open>
  The carry loop of \<open>nextSuffix\<close>: position \<open>i - 1\<close> downwards, an A for each Z
  passed, one more letter in front when every position was a Z.
\<close>

fun carry :: "nat \<Rightarrow> string \<Rightarrow> string" where
  "carry 0 chars = CHR ''A'' # chars"
| "carry (Suc i) chars =
     (if chars ! i \<noteq> CHR ''Z'' then chars[i := next_char (chars ! i)]
      else carry i (chars[i := CHR ''A'']))"

definition nextSuffix :: "string list \<Rightarrow> string" where
  "nextSuffix existing =
     (if existing = [] then ''A''
      else let sorted = sort_key (\<lambda>s. (length s, s)) existing;
               last = List.last sorted
           in if length last = 1 \<and> last \<noteq> ''Z'' then [next_char (hd last)]
              else if last = ''Z'' then ''AA''
              else carry (length last) last)"

definition existingChildSuffixes :: "string list \<Rightarrow> string \<Rightarrow> string list" where
  "existingChildSuffixes numbers base =
     filter is_suffix (map (drop (length base + 1)) (filter (prefix (base @ ''-'')) numbers))"

lemma numbering_examples:
  "nextSuffix [] = ''A''" "nextSuffix [''A'', ''B''] = ''C''" "nextSuffix [''Z'', ''AA''] = ''AB''"
  "nextSuffix [''AZ'', ''A''] = ''BA''" "nextSuffix [''ZZ''] = ''AAA''"
  "baseReceiptNumber ''WR-2025-0001-AB'' = ''WR-2025-0001''"
  "baseReceiptNumber ''WR-2025-0001'' = ''WR-2025-0001''"
  "existingChildSuffixes [''W-1-A'', ''W-1'', ''W-1-2'', ''W-12-B'', ''W-1-BB''] ''W-1'' = [''A'', ''BB'']"
  by code_simp+

section \<open>Suffixes count in base 26\<close>

text \<open>
  A suffix is a number in the letters A = 1, ..., Z = 26; the order \<open>nextSuffix\<close> sorts
  by (length first, then letters) is the order of these numbers, and the suffix it returns
  is the successor of the last one.
\<close>

definition digit :: "char \<Rightarrow> nat" where
  "digit c = of_char c - 64"

definition suffix_value :: "string \<Rightarrow> nat" where
  "suffix_value s = foldl (\<lambda>v c. 26 * v + digit c) 0 s"

lemma of_char_eq_iff: "(of_char c :: nat) = of_char d \<longleftrightarrow> c = d"
  by simp

lemma is_upper_iff: "is_upper c \<longleftrightarrow> 65 \<le> (of_char c :: nat) \<and> (of_char c :: nat) \<le> 90"
  by (simp add: is_upper_def less_eq_char_def)

lemma upper_digit: "is_upper c \<Longrightarrow> 1 \<le> digit c \<and> digit c \<le> 26 \<and> of_char c = digit c + 64"
  unfolding is_upper_iff digit_def by linarith

lemma digit_A [simp]: "digit CHR ''A'' = 1" and digit_Z [simp]: "digit CHR ''Z'' = 26"
  by (simp_all add: digit_def)

lemma upper_A [simp]: "is_upper CHR ''A''" and upper_Z [simp]: "is_upper CHR ''Z''"
  by (simp_all add: is_upper_iff)

lemma upper_Z_iff: "is_upper c \<Longrightarrow> digit c = 26 \<longleftrightarrow> c = CHR ''Z''"
proof -
  assume "is_upper c"
  then have "of_char c = digit c + (64::nat)" by (simp add: upper_digit)
  moreover have "c = CHR ''Z'' \<longleftrightarrow> (of_char c :: nat) = of_char CHR ''Z''" by (simp only: of_char_eq_iff)
  ultimately show ?thesis by simp
qed

lemma of_char_next_char: "is_upper c \<Longrightarrow> (of_char (next_char c) :: nat) = of_char c + 1"
  by (simp add: next_char_def is_upper_iff)

lemma next_char_upper:
  assumes "is_upper c" and "c \<noteq> CHR ''Z''"
  shows "is_upper (next_char c)" and "digit (next_char c) = digit c + 1"
proof -
  from assms have "digit c \<noteq> 26" by (simp add: upper_Z_iff)
  with upper_digit [OF assms(1)] of_char_next_char [OF assms(1)]
  show "is_upper (next_char c)" and "digit (next_char c) = digit c + 1"
    by (auto simp: is_upper_iff digit_def)
qed

lemma suffix_value_Nil [simp]: "suffix_value [] = 0"
  by (simp add: suffix_value_def)

lemma suffix_value_snoc [simp]: "suffix_value (s @ [c]) = 26 * suffix_value s + digit c"
  by (simp add: suffix_value_def)

lemma foldl_digits: "foldl (\<lambda>v c. 26 * v + digit c) v s = 26 ^ length s * v + suffix_value s"
proof (induction s rule: rev_induct)
  case Nil
  show ?case by simp
next
  case (snoc c s)
  then show ?case by (simp add: algebra_simps)
qed

lemma suffix_value_append: "suffix_value (s @ t) = 26 ^ length t * suffix_value s + suffix_value t"
proof -
  have "suffix_value (s @ t) = foldl (\<lambda>v c. 26 * v + digit c) (suffix_value s) t"
    by (simp add: suffix_value_def)
  then show ?thesis by (simp only: foldl_digits)
qed

lemma suffix_value_Cons: "suffix_value (c # s) = 26 ^ length s * digit c + suffix_value s"
  using suffix_value_append [of "[c]" s] by (simp add: suffix_value_def)

text \<open>The suffixes of length \<open>n\<close> take the values from \<open>low n\<close> up to \<open>26 * low n\<close>.\<close>

definition low :: "nat \<Rightarrow> nat" where
  "low n = (\<Sum>i<n. 26 ^ i)"

lemma low_Suc: "low (Suc n) = 26 ^ n + low n"
  by (simp add: low_def)

lemma low_Suc': "low (Suc n) = 26 * low n + 1"
  by (induction n) (simp_all add: low_Suc, simp add: low_def)

lemma low_mono: "m \<le> n \<Longrightarrow> low m \<le> low n"
  unfolding low_def by (rule sum_mono2) auto

lemma suffix_value_bounds:
  "list_all is_upper s \<Longrightarrow> low (length s) \<le> suffix_value s \<and> suffix_value s \<le> 26 * low (length s)"
proof (induction s)
  case Nil
  then show ?case by (simp add: low_def)
next
  case (Cons c s)
  then have c: "1 \<le> digit c" "digit c \<le> 26" by (auto dest: upper_digit)
  then have d: "26 ^ length s \<le> 26 ^ length s * digit c" "26 ^ length s * digit c \<le> 26 * 26 ^ length s"
    by simp_all
  from Cons have "low (length s) \<le> suffix_value s" "suffix_value s \<le> 26 * low (length s)" by auto
  with d show ?case unfolding suffix_value_Cons list.size add_Suc_right add_0_right low_Suc distrib_left
    by (intro conjI) linarith+
qed

lemma suffix_value_shorter:
  assumes "list_all is_upper s" and "list_all is_upper t" and "length s < length t"
  shows "suffix_value s < suffix_value t"
proof -
  have "26 * low (length s) < low (Suc (length s))" by (simp add: low_Suc')
  also have "\<dots> \<le> low (length t)" using assms(3) by (simp add: low_mono)
  finally show ?thesis using suffix_value_bounds [OF assms(1)] suffix_value_bounds [OF assms(2)]
    by linarith
qed

lemma suffix_value_lex:
  assumes "length s = length t" and "s \<le> t" and "list_all is_upper s" and "list_all is_upper t"
  shows "suffix_value s \<le> suffix_value t"
  using assms
proof (induction s t rule: list_induct2)
  case Nil
  then show ?case by simp
next
  case (Cons c s d t)
  show ?case
  proof (cases "c = d")
    case True
    with Cons show ?thesis by (simp add: suffix_value_Cons)
  next
    case False
    with Cons.prems have "c < d" by auto
    then have "digit c < digit d"
      using Cons.prems by (auto simp: less_char_def dest!: upper_digit)
    then have "26 ^ length t * (digit c + 1) \<le> 26 ^ length t * digit d"
      by (simp only: Suc_eq_plus1 [symmetric] Suc_leI mult_le_mono2)
    moreover have "suffix_value s < suffix_value t + 26 ^ length t"
    proof -
      have "suffix_value s \<le> 26 * low (length s)" using Cons.prems suffix_value_bounds by simp
      also have "\<dots> < low (Suc (length t))" using Cons.hyps by (simp add: low_Suc')
      also have "\<dots> = 26 ^ length t + low (length t)" by (rule low_Suc)
      also have "\<dots> \<le> 26 ^ length t + suffix_value t"
        using Cons.prems suffix_value_bounds by simp
      finally show ?thesis by simp
    qed
    ultimately show ?thesis using Cons.hyps by (simp add: suffix_value_Cons)
  qed
qed

lemma suffix_value_mono:
  assumes "(length s, s) \<le> (length t, t)" and "list_all is_upper s" and "list_all is_upper t"
  shows "suffix_value s \<le> suffix_value t"
proof (cases "length s < length t")
  case True
  with assms show ?thesis by (simp add: suffix_value_shorter less_imp_le)
next
  case False
  with assms(1) have "length s = length t" "s \<le> t" by auto
  with assms(2,3) show ?thesis by (simp add: suffix_value_lex)
qed

section \<open>The next suffix is the successor\<close>

lemma carry_correct:
  assumes "list_all is_upper cs" and "i \<le> length cs" and "\<forall>j. i \<le> j \<and> j < length cs \<longrightarrow> cs ! j = CHR ''A''"
  shows "list_all is_upper (carry i cs) \<and>
    suffix_value (carry i cs) = suffix_value cs + 26 ^ (length cs - i)"
  using assms
proof (induction i cs rule: carry.induct)
  case (1 cs)
  then show ?case by (simp add: suffix_value_Cons)
next
  case (2 i cs)
  define pre post where "pre = take i cs" and "post = drop (Suc i) cs"
  have i: "i < length cs" using "2.prems" by simp
  then have cs: "cs = pre @ cs ! i # post" by (simp add: pre_def post_def id_take_nth_drop)
  have len: "length pre = i" "length post = length cs - Suc i" using i by (simp_all add: pre_def post_def)
  have up: "is_upper (cs ! i)" using "2.prems"(1) i by (simp add: list_all_length)
  have upd: "cs[i := x] = pre @ x # post" for x
    using i by (simp add: pre_def post_def upd_conv_take_nth_drop)
  have all: "list_all is_upper (pre @ x # post)" if "is_upper x" for x
    using "2.prems"(1) that by (subst (asm) cs) simp
  have val: "suffix_value (pre @ x # post) =
      26 ^ Suc (length post) * suffix_value pre + 26 ^ length post * digit x + suffix_value post" for x
    by (simp add: suffix_value_append suffix_value_Cons)
  show ?case
  proof (cases "cs ! i = CHR ''Z''")
    case False
    with next_char_upper [OF up] all val [of "cs ! i"] val [of "next_char (cs ! i)"] cs len upd
    show ?thesis by (simp add: algebra_simps)
  next
    case True
    have prem: "\<forall>j. i \<le> j \<and> j < length (cs[i := CHR ''A'']) \<longrightarrow> cs[i := CHR ''A''] ! j = CHR ''A''"
      using "2.prems"(3) by (auto simp: nth_list_update Suc_le_eq le_neq_implies_less)
    have "list_all is_upper (cs[i := CHR ''A''])" using all [OF upper_A] by (simp only: upd)
    moreover have "i \<le> length (cs[i := CHR ''A''])" using i by simp
    ultimately have "list_all is_upper (carry i (cs[i := CHR ''A''])) \<and>
        suffix_value (carry i (cs[i := CHR ''A''])) =
        suffix_value (cs[i := CHR ''A'']) + 26 ^ (length (cs[i := CHR ''A'']) - i)"
      using True prem by (intro "2.IH") simp_all
    moreover have "suffix_value (cs[i := CHR ''A'']) + 26 ^ (length cs - i)
        = suffix_value cs + 26 ^ (length cs - Suc i)"
    proof -
      have "suffix_value cs = suffix_value (cs[i := CHR ''A'']) + 25 * 26 ^ length post"
      proof -
        have "suffix_value cs = suffix_value (pre @ CHR ''Z'' # post)" using cs True by simp
        moreover have "suffix_value (cs[i := CHR ''A'']) = suffix_value (pre @ CHR ''A'' # post)"
          by (simp only: upd)
        ultimately show ?thesis using val [of "CHR ''Z''"] val [of "CHR ''A''"] by simp
      qed
      moreover have "(26::nat) ^ (length cs - i) = 26 * 26 ^ length post"
        using i by (simp add: len Suc_diff_Suc [symmetric])
      ultimately show ?thesis using len by simp
    qed
    ultimately show ?thesis using True by simp
  qed
qed

lemma suffix_shapes:
  "l \<noteq> [] \<Longrightarrow> (\<exists>c. l = [c] \<and> c \<noteq> CHR ''Z'') \<or> l = ''Z'' \<or> 1 < length l"
  by (cases l; cases "tl l") auto

lemma sorted_last_max:
  fixes f :: "'a \<Rightarrow> 'b::linorder"
  shows "sorted (map f ys) \<Longrightarrow> x \<in> set ys \<Longrightarrow> f x \<le> f (last ys)"
  by (induction ys) (auto intro: order_trans)

lemma last_sort_key_max:
  fixes f :: "'a \<Rightarrow> 'b::linorder"
  assumes "x \<in> set xs"
  shows "f x \<le> f (last (sort_key f xs))" and "last (sort_key f xs) \<in> set xs"
proof -
  have ne: "sort_key f xs \<noteq> []" using assms by (metis empty_iff list.set(1) set_sort)
  then show "last (sort_key f xs) \<in> set xs" using last_in_set by force
  show "f x \<le> f (last (sort_key f xs))" using assms by (intro sorted_last_max) simp_all
qed

lemma nextSuffix_successor:
  assumes "\<forall>s \<in> set existing. is_suffix s" and "existing \<noteq> []"
  shows "is_suffix (nextSuffix existing)"
    and "suffix_value (nextSuffix existing)
      = suffix_value (last (sort_key (\<lambda>s. (length s, s)) existing)) + 1"
proof -
  let ?l = "last (sort_key (\<lambda>s. (length s, s)) existing)"
  from assms(2) obtain x where "x \<in> set existing" by (cases existing) auto
  then have "?l \<in> set existing" by (rule last_sort_key_max)
  with assms(1) have l: "?l \<noteq> []" "list_all is_upper ?l" by (auto simp: is_suffix_def)
  consider c where "?l = [c]" "c \<noteq> CHR ''Z''" | "?l = ''Z''" | "1 < length ?l"
    using suffix_shapes [OF l(1)] by blast
  then have "is_suffix (nextSuffix existing) \<and> suffix_value (nextSuffix existing) = suffix_value ?l + 1"
  proof cases
    case 1
    with l(2) have up: "is_upper c" by simp
    show ?thesis using assms(2) 1 next_char_upper [OF up 1(2)]
      by (simp add: nextSuffix_def is_suffix_def suffix_value_def)
  next
    case 2
    then show ?thesis using assms(2) by (simp add: nextSuffix_def is_suffix_def suffix_value_def)
  next
    case 3
    then have eq: "nextSuffix existing = carry (length ?l) ?l"
      using assms(2) by (auto simp: nextSuffix_def Let_def)
    have vac: "\<forall>j. length ?l \<le> j \<and> j < length ?l \<longrightarrow> ?l ! j = CHR ''A''" by auto
    have c: "list_all is_upper (carry (length ?l) ?l) \<and> suffix_value (carry (length ?l) ?l) = suffix_value ?l + 1"
      using carry_correct [OF l(2) order_refl vac] by simp
    then have "carry (length ?l) ?l \<noteq> []" by auto
    with c eq show ?thesis by (simp add: is_suffix_def)
  qed
  then show "is_suffix (nextSuffix existing)"
    and "suffix_value (nextSuffix existing) = suffix_value ?l + 1" by auto
qed

lemma nextSuffix_is_suffix: "\<forall>s \<in> set existing. is_suffix s \<Longrightarrow> is_suffix (nextSuffix existing)"
  by (cases "existing = []") (simp_all add: nextSuffix_successor, simp add: nextSuffix_def is_suffix_def)

lemma nextSuffix_greatest:
  assumes "\<forall>s \<in> set existing. is_suffix s" and "s \<in> set existing"
  shows "suffix_value s < suffix_value (nextSuffix existing)"
proof -
  let ?l = "last (sort_key (\<lambda>s. (length s, s)) existing)"
  have "(length s, s) \<le> (length ?l, ?l)" and "?l \<in> set existing"
    using last_sort_key_max [OF assms(2), where f = "\<lambda>s. (length s, s)"] by simp_all
  then have "suffix_value s \<le> suffix_value ?l"
    using assms by (intro suffix_value_mono) (auto simp: is_suffix_def)
  moreover have "existing \<noteq> []" using assms(2) by auto
  ultimately show ?thesis using nextSuffix_successor [OF assms(1)] by simp
qed

lemma nextSuffix_fresh:
  assumes "\<forall>s \<in> set existing. is_suffix s"
  shows "nextSuffix existing \<notin> set existing"
  using nextSuffix_greatest [OF assms] by blast

section \<open>Numbering the children of a split\<close>

text \<open>The template \<open>`${base}-${suffix}`\<close>.\<close>

definition childNumber :: "string \<Rightarrow> string \<Rightarrow> string" where
  "childNumber base sfx = base @ ''-'' @ sfx"

lemma hyphen_not_upper [simp]: "\<not> is_upper CHR ''-''"
  by (simp add: is_upper_iff)

lemma childNumber_inject [simp]: "childNumber base s = childNumber base t \<longleftrightarrow> s = t"
  by (simp add: childNumber_def)

lemma takeWhile_dropWhile_suffix:
  assumes "list_all P s" and "\<not> P x"
  shows "takeWhile P (s @ x # t) = s" and "dropWhile P (s @ x # t) = x # t"
  using assms by (induction s) auto

text \<open>A child's base is the base it was numbered under.\<close>

lemma base_of_child: "is_suffix s \<Longrightarrow> baseReceiptNumber (childNumber base s) = base"
proof -
  assume s: "is_suffix s"
  then have "list_all is_upper (rev s)" "rev s \<noteq> []" by (simp_all add: is_suffix_def)
  moreover have "rev (childNumber base s) = rev s @ CHR ''-'' # rev base" by (simp add: childNumber_def)
  ultimately show ?thesis
    by (simp add: baseReceiptNumber_def Let_def takeWhile_dropWhile_suffix)
qed

lemma taken_suffixes: "\<forall>s \<in> set (existingChildSuffixes numbers base). is_suffix s"
  by (auto simp: existingChildSuffixes_def)

lemma taken_iff:
  assumes s: "is_suffix s"
  shows "s \<in> set (existingChildSuffixes numbers base) \<longleftrightarrow> childNumber base s \<in> set numbers"
proof
  assume "s \<in> set (existingChildSuffixes numbers base)"
  then obtain n where n: "n \<in> set numbers" "prefix (base @ ''-'') n" "s = drop (length base + 1) n"
    by (auto simp: existingChildSuffixes_def)
  from n(2) obtain m where m: "n = (base @ ''-'') @ m" by (rule prefixE)
  have "drop (length base + 1) n = m" unfolding m by simp
  with n(3) m have "n = childNumber base s" by (simp add: childNumber_def)
  with n(1) show "childNumber base s \<in> set numbers" by simp
next
  assume "childNumber base s \<in> set numbers"
  moreover have "prefix (base @ ''-'') (childNumber base s)" by (simp add: childNumber_def)
  moreover have "drop (length base + 1) (childNumber base s) = s" by (simp add: childNumber_def)
  ultimately have "s \<in> drop (length base + 1) ` {n \<in> set numbers. prefix (base @ ''-'') n}"
    by (intro image_eqI [of _ _ "childNumber base s"]) simp_all
  with s show "s \<in> set (existingChildSuffixes numbers base)" by (simp add: existingChildSuffixes_def)
qed

text \<open>
  What the ledger's splits rely on: a supply of suffixes that stays in the suffix alphabet
  and never repeats one already there.
\<close>

locale suffix_supply =
  fixes pick :: "string list \<Rightarrow> string"
  assumes pick_suffix: "\<forall>s \<in> set xs. is_suffix s \<Longrightarrow> is_suffix (pick xs)"
    and pick_unused: "\<forall>s \<in> set xs. is_suffix s \<Longrightarrow> pick xs \<notin> set xs"
begin

lemma first_child:
  "childNumber base (pick (existingChildSuffixes numbers base)) \<notin> set numbers"
  using taken_iff [of "pick (existingChildSuffixes numbers base)" numbers base]
    pick_suffix [OF taken_suffixes, of numbers base] pick_unused [OF taken_suffixes, of numbers base]
  by simp

lemma second_child:
  fixes numbers base
  defines "taken \<equiv> existingChildSuffixes numbers base"
  shows "childNumber base (pick (taken @ [pick taken])) \<notin> set numbers"
    and "childNumber base (pick (taken @ [pick taken])) \<noteq> childNumber base (pick taken)"
proof -
  let ?two = "taken @ [pick taken]"
  have ok: "\<forall>s \<in> set ?two. is_suffix s"
    using taken_suffixes pick_suffix [of taken] by (auto simp: taken_def)
  have two: "is_suffix (pick ?two)" "pick ?two \<notin> set ?two"
    using pick_suffix [OF ok] pick_unused [OF ok] by blast+
  then have "pick ?two \<notin> set (existingChildSuffixes numbers base)" by (simp add: taken_def)
  with taken_iff [OF two(1)] show "childNumber base (pick ?two) \<notin> set numbers" by simp
  from two(2) show "childNumber base (pick ?two) \<noteq> childNumber base (pick taken)" by auto
qed

lemma same_base:
  "\<forall>s \<in> set xs. is_suffix s \<Longrightarrow> baseReceiptNumber (childNumber (baseReceiptNumber n) (pick xs)) = baseReceiptNumber n"
  by (simp add: base_of_child pick_suffix)

end

interpretation suffixes: suffix_supply nextSuffix
  by unfold_locales (simp_all add: nextSuffix_is_suffix nextSuffix_fresh)

end
