(* ===== verification/Grading.thy ===== *)
theory Grading
  imports Inventory_Types
begin

text \<open>
  The grading scorer, \<open>src/grading/grading.scorer.ts\<close>: a sample gets, parameter by
  parameter, the best grade whose threshold its measurement does not exceed, and as a whole
  the worst of these; it is rejected when some measurement exceeds every threshold.

  A \<open>Record<string, number>\<close> is the list of its entries in insertion order with
  distinct keys; the numbers are exact. Names an object inherits (\<open>constructor\<close>,
  \<open>toString\<close>) are taken to name no parameter.
\<close>

section \<open>Inputs and results\<close>

type_synonym numbers = "(string \<times> dec) list"

record grading_input =
  gi_name :: string
  gi_unit :: string
  gi_isDefective :: bool
  gi_thresholds :: numbers

record score_input =
  si_parameters :: "grading_input list"
  si_measurements :: numbers
  si_numberOfGrades :: int

record parameter_result =
  pr_name :: string
  pr_value :: dec
  pr_grade :: string
  pr_withinThreshold :: bool

text \<open>
  \<open>sc_computedGrade\<close> is \<open>None\<close> where the code reads past the labels, which
  takes no parameter and no grade; an absent \<open>failingParameters\<close> is the empty list.
\<close>

record score_result =
  sc_computedGrade :: "string option"
  sc_totalDefectivePct :: dec
  sc_standardDeductionPct :: dec
  sc_perParameter :: "parameter_result list"
  sc_failingParameters :: "string list"

text \<open>The \<open>gradingScores\<close> document a deposit stores.\<close>

record grading_scores =
  gs_measurementsById :: numbers
  gs_computedGrade :: "string option"
  gs_totalDefectivePct :: dec
  gs_standardDeductionPct :: dec
  gs_perParameter :: "parameter_result list"

section \<open>The scorer\<close>

definition gradeLabel :: "nat \<Rightarrow> string" where
  "gradeLabel i = ''Grade '' @ decimal_digits (i + 1)"

definition gradeLabels :: "int \<Rightarrow> string list" where
  "gradeLabels n = map gradeLabel [0 ..< nat n]"

fun comma_join :: "string list \<Rightarrow> string" where
  "comma_join [] = []"
| "comma_join [x] = x"
| "comma_join (x # xs) = x @ '', '' @ comma_join xs"

text \<open>\<open>measurements[name]\<close>, read only after every name was found there.\<close>

definition measured :: "numbers \<Rightarrow> string \<Rightarrow> dec" where
  "measured m name = (case map_of m name of Some v \<Rightarrow> v | None \<Rightarrow> 0)"

text \<open>The inner loop: the first label whose threshold is defined and not exceeded.\<close>

fun assignGrade :: "string list \<Rightarrow> numbers \<Rightarrow> dec \<Rightarrow> nat \<Rightarrow> nat option" where
  "assignGrade [] thresholds value i = None"
| "assignGrade (label # labels) thresholds value i =
     (case map_of thresholds label of
        Some threshold \<Rightarrow> if value \<le> threshold then Some i else assignGrade labels thresholds value (i + 1)
      | None \<Rightarrow> assignGrade labels thresholds value (i + 1))"

text \<open>The outer loop, with its three variables.\<close>

record score_state =
  ss_perParameter :: "parameter_result list"
  ss_failingParameters :: "string list"
  ss_worstGradeIndex :: nat

definition scoreStep :: "string list \<Rightarrow> numbers \<Rightarrow> grading_input \<Rightarrow> score_state \<Rightarrow> score_state" where
  "scoreStep labels m p st =
     (let value = measured m (gi_name p);
          assigned = assignGrade labels (gi_thresholds p) value 0
      in \<lparr>ss_perParameter = ss_perParameter st @
            [\<lparr>pr_name = gi_name p, pr_value = value,
              pr_grade = (case assigned of Some i \<Rightarrow> labels ! i | None \<Rightarrow> ''REJECTED''),
              pr_withinThreshold = (assigned \<noteq> None)\<rparr>],
          ss_failingParameters = (if assigned = None then ss_failingParameters st @ [gi_name p]
            else ss_failingParameters st),
          ss_worstGradeIndex = (case assigned of
              Some i \<Rightarrow> if ss_worstGradeIndex st < i then i else ss_worstGradeIndex st
            | None \<Rightarrow> ss_worstGradeIndex st)\<rparr>)"

fun scoreLoop :: "string list \<Rightarrow> numbers \<Rightarrow> grading_input list \<Rightarrow> score_state \<Rightarrow> score_state" where
  "scoreLoop labels m [] st = st"
| "scoreLoop labels m (p # ps) st = scoreLoop labels m ps (scoreStep labels m p st)"

definition standardDeduction :: "grading_input list \<Rightarrow> string option \<Rightarrow> dec" where
  "standardDeduction ps grade =
     (case find (\<lambda>p. gi_name p = ''Standard Deduction'') ps of
        None \<Rightarrow> 0
      | Some p \<Rightarrow> (case grade of None \<Rightarrow> 0
          | Some g \<Rightarrow> (case map_of (gi_thresholds p) g of None \<Rightarrow> 0 | Some t \<Rightarrow> t)))"

definition scoreSample :: "score_input \<Rightarrow> string + score_result" where
  "scoreSample inp =
     (let ps = si_parameters inp; m = si_measurements inp;
          labels = gradeLabels (si_numberOfGrades inp);
          missing = filter (\<lambda>name. name \<notin> fst ` set m) (map gi_name ps);
          extra = filter (\<lambda>k. k \<notin> gi_name ` set ps) (map fst m)
      in if missing \<noteq> [] then Inl (''Missing measurements for: '' @ comma_join missing)
         else if extra \<noteq> [] then Inl (''Unknown measurement parameters: '' @ comma_join extra)
         else let st = scoreLoop labels m ps
                    \<lparr>ss_perParameter = [], ss_failingParameters = [], ss_worstGradeIndex = 0\<rparr>
              in if ss_failingParameters st \<noteq> []
                 then Inr \<lparr>sc_computedGrade = Some ''REJECTED'', sc_totalDefectivePct = 0,
                        sc_standardDeductionPct = 0, sc_perParameter = ss_perParameter st,
                        sc_failingParameters = ss_failingParameters st\<rparr>
                 else let grade = (if ss_worstGradeIndex st < length labels
                                   then Some (labels ! ss_worstGradeIndex st) else None)
                      in Inr \<lparr>sc_computedGrade = grade,
                           sc_totalDefectivePct = (\<Sum>p\<leftarrow>filter gi_isDefective ps. measured m (gi_name p)),
                           sc_standardDeductionPct = standardDeduction ps grade,
                           sc_perParameter = ss_perParameter st, sc_failingParameters = []\<rparr>)"

section \<open>What a parameter is assigned\<close>

text \<open>Label \<open>i\<close> admits the sample on parameter \<open>p\<close>.\<close>

definition admits :: "string list \<Rightarrow> numbers \<Rightarrow> grading_input \<Rightarrow> nat \<Rightarrow> bool" where
  "admits labels m p i \<longleftrightarrow> i < length labels \<and>
     (case map_of (gi_thresholds p) (labels ! i) of Some t \<Rightarrow> measured m (gi_name p) \<le> t | None \<Rightarrow> False)"

definition passes :: "string list \<Rightarrow> numbers \<Rightarrow> grading_input \<Rightarrow> bool" where
  "passes labels m p \<longleftrightarrow> list_ex (admits labels m p) [0 ..< length labels]"

definition gradeIndex :: "string list \<Rightarrow> numbers \<Rightarrow> grading_input \<Rightarrow> nat" where
  "gradeIndex labels m p = (LEAST i. admits labels m p i)"

lemma passes_iff: "passes labels m p \<longleftrightarrow> (\<exists>i. admits labels m p i)"
  by (auto simp: passes_def list_ex_iff admits_def)

lemma assignGrade_bound: "assignGrade labels th v i = Some j \<Longrightarrow> i \<le> j \<and> j < i + length labels"
  by (induction labels th v i rule: assignGrade.induct) (force split: option.splits if_splits)+

lemma assignGrade_Some:
  "assignGrade labels th v i = Some (i + k) \<longleftrightarrow> k < length labels \<and>
     (\<exists>t. map_of th (labels ! k) = Some t \<and> v \<le> t) \<and>
     (\<forall>j<k. \<not> (\<exists>t. map_of th (labels ! j) = Some t \<and> v \<le> t))"
proof (induction labels arbitrary: i k)
  case Nil
  then show ?case by simp
next
  case (Cons l labels)
  show ?case
  proof (cases k)
    case 0
    have "assignGrade labels th v (i + 1) \<noteq> Some i" using assignGrade_bound by fastforce
    with 0 show ?thesis by (auto split: option.splits)
  next
    case (Suc n)
    with Cons.IH [of "i + 1" n] show ?thesis
      by (auto simp: less_Suc_eq_0_disj split: option.splits)
  qed
qed

lemma assignGrade_None:
  "assignGrade labels th v i = None \<longleftrightarrow>
     (\<forall>k<length labels. \<not> (\<exists>t. map_of th (labels ! k) = Some t \<and> v \<le> t))"
  by (induction labels arbitrary: i) (auto simp: All_less_Suc2 split: option.splits)

lemma admits_iff:
  "admits labels m p k \<longleftrightarrow> k < length labels \<and>
     (\<exists>t. map_of (gi_thresholds p) (labels ! k) = Some t \<and> measured m (gi_name p) \<le> t)"
  by (auto simp: admits_def split: option.splits)

lemma assignGrade_eq:
  "assignGrade labels (gi_thresholds p) (measured m (gi_name p)) 0 =
     (if passes labels m p then Some (gradeIndex labels m p) else None)"
proof (cases "passes labels m p")
  case False
  then show ?thesis by (auto simp: assignGrade_None passes_iff admits_iff)
next
  case True
  then obtain i where "admits labels m p i" by (auto simp: passes_iff)
  then have least: "admits labels m p (gradeIndex labels m p)"
    unfolding gradeIndex_def by (rule LeastI)
  have "\<not> admits labels m p j" if "j < gradeIndex labels m p" for j
    using that unfolding gradeIndex_def by (rule not_less_Least)
  with least have "assignGrade labels (gi_thresholds p) (measured m (gi_name p)) 0 = Some (0 + gradeIndex labels m p)"
    unfolding assignGrade_Some by (auto simp: admits_iff)
  with True show ?thesis by simp
qed

section \<open>What the loop computes\<close>

lemma scoreLoop_failing:
  "ss_failingParameters (scoreLoop labels m ps st) =
     ss_failingParameters st @ map gi_name (filter (\<lambda>p. \<not> passes labels m p) ps)"
  by (induction labels m ps st rule: scoreLoop.induct) (auto simp: scoreStep_def Let_def assignGrade_eq)

lemma scoreLoop_perParameter:
  "ss_perParameter (scoreLoop labels m ps st) = ss_perParameter st @
     map (\<lambda>p. \<lparr>pr_name = gi_name p, pr_value = measured m (gi_name p),
        pr_grade = (if passes labels m p then labels ! gradeIndex labels m p else ''REJECTED''),
        pr_withinThreshold = passes labels m p\<rparr>) ps"
  by (induction labels m ps st rule: scoreLoop.induct) (auto simp: scoreStep_def Let_def assignGrade_eq)

text \<open>The worst of a list of grade indices, from the best one on.\<close>

definition worst_of :: "nat list \<Rightarrow> nat" where
  "worst_of ks = foldr max ks 0"

lemma worst_of_simps [simp]: "worst_of [] = 0" "worst_of (k # ks) = max k (worst_of ks)"
  by (simp_all add: worst_of_def)

lemma worst_of_Max: "ks \<noteq> [] \<Longrightarrow> worst_of ks = Max (set ks)"
  by (induction ks rule: list_nonempty_induct) auto

lemma worst_of_less: "worst_of ks < n \<longleftrightarrow> 0 < n \<and> list_all (\<lambda>k. k < n) ks"
  by (induction ks) auto

lemma worst_of_mono: "list_all2 (\<le>) ks ks' \<Longrightarrow> worst_of ks \<le> worst_of ks'"
  by (induction rule: list_all2_induct) (auto simp: max.coboundedI1 max.coboundedI2)

lemma scoreLoop_worst:
  "ss_worstGradeIndex (scoreLoop labels m ps st) =
     max (ss_worstGradeIndex st) (worst_of (map (gradeIndex labels m) (filter (passes labels m) ps)))"
proof (induction labels m ps st rule: scoreLoop.induct)
  case (2 labels m p ps st)
  have "ss_worstGradeIndex (scoreStep labels m p st) =
      (if passes labels m p then max (ss_worstGradeIndex st) (gradeIndex labels m p) else ss_worstGradeIndex st)"
    by (simp add: scoreStep_def Let_def assignGrade_eq)
  with 2 show ?case by (simp add: max.assoc)
qed simp

lemmas scoreLoop_results = scoreLoop_failing scoreLoop_perParameter scoreLoop_worst

section \<open>The reference the scorer is compared with\<close>

text \<open>
  The grade of a sample, stated without loops: \<open>REJECTED\<close> when a parameter passes no
  label, else the label of the worst of the parameters' best grades.
\<close>

definition worst_grade :: "score_input \<Rightarrow> string option" where
  "worst_grade inp =
     (let labels = gradeLabels (si_numberOfGrades inp); m = si_measurements inp; ps = si_parameters inp
      in if list_all (passes labels m) ps
         then (let k = worst_of (map (gradeIndex labels m) ps)
               in if k < length labels then Some (gradeLabel k) else None)
         else Some ''REJECTED'')"

definition names_match :: "score_input \<Rightarrow> bool" where
  "names_match inp \<longleftrightarrow> fst ` set (si_measurements inp) = gi_name ` set (si_parameters inp)"

lemma length_gradeLabels [simp]: "length (gradeLabels n) = nat n"
  by (simp add: gradeLabels_def)

lemma nth_gradeLabels: "k < nat n \<Longrightarrow> gradeLabels n ! k = gradeLabel k"
  by (simp add: gradeLabels_def)

lemma scoreSample_Inl: "(\<exists>e. scoreSample inp = Inl e) \<longleftrightarrow> \<not> names_match inp"
proof -
  let ?m = "map fst (si_measurements inp)" and ?n = "map gi_name (si_parameters inp)"
  have "names_match inp \<longleftrightarrow> filter (\<lambda>name. name \<notin> fst ` set (si_measurements inp)) ?n = [] \<and>
      filter (\<lambda>k. k \<notin> gi_name ` set (si_parameters inp)) ?m = []"
    by (auto simp: names_match_def filter_empty_conv)
  then show ?thesis by (simp add: scoreSample_def Let_def)
qed

lemma scoreSample_match:
  assumes "names_match inp"
  shows "scoreSample inp =
    (let labels = gradeLabels (si_numberOfGrades inp); m = si_measurements inp; ps = si_parameters inp;
         failing = map gi_name (filter (\<lambda>p. \<not> passes labels m p) ps)
     in Inr \<lparr>sc_computedGrade = worst_grade inp,
          sc_totalDefectivePct = (if failing = [] then \<Sum>p\<leftarrow>filter gi_isDefective ps. measured m (gi_name p) else 0),
          sc_standardDeductionPct = (if failing = [] then standardDeduction ps (worst_grade inp) else 0),
          sc_perParameter = map (\<lambda>p. \<lparr>pr_name = gi_name p, pr_value = measured m (gi_name p),
            pr_grade = (if passes labels m p then labels ! gradeIndex labels m p else ''REJECTED''),
            pr_withinThreshold = passes labels m p\<rparr>) ps,
          sc_failingParameters = failing\<rparr>)"
proof -
  let ?l = "gradeLabels (si_numberOfGrades inp)" and ?m = "si_measurements inp" and ?ps = "si_parameters inp"
  have e1: "filter (\<lambda>name. name \<notin> fst ` set ?m) (map gi_name ?ps) = []"
    using assms by (auto simp: names_match_def filter_empty_conv)
  have e2: "filter (\<lambda>k. k \<notin> gi_name ` set ?ps) (map fst ?m) = []"
    using assms by (auto simp: names_match_def filter_empty_conv)
  show ?thesis
  proof (cases "list_all (passes ?l ?m) ?ps")
    case True
    then have f: "filter (\<lambda>p. \<not> passes ?l ?m p) ?ps = []" "filter (passes ?l ?m) ?ps = ?ps"
      by (auto simp: list_all_iff filter_empty_conv filter_id_conv)
    from True show ?thesis
      by (simp add: scoreSample_def Let_def e1 e2 scoreLoop_results f worst_grade_def nth_gradeLabels)
  next
    case False
    then have f: "filter (\<lambda>p. \<not> passes ?l ?m p) ?ps \<noteq> []"
      by (auto simp: list_all_iff filter_empty_conv)
    with False show ?thesis
      by (simp add: scoreSample_def Let_def e1 e2 scoreLoop_results worst_grade_def)
  qed
qed

section \<open>Cleaner samples do not grade worse\<close>

lemma admits_antimono:
  "admits labels m' p k \<Longrightarrow> measured m (gi_name p) \<le> measured m' (gi_name p) \<Longrightarrow> admits labels m p k"
  by (auto simp: admits_iff intro: order_trans)

lemma gradeIndex_antimono:
  assumes "passes labels m' p" and "measured m (gi_name p) \<le> measured m' (gi_name p)"
  shows "passes labels m p \<and> gradeIndex labels m p \<le> gradeIndex labels m' p"
proof -
  from assms(1) obtain i where "admits labels m' p i" by (auto simp: passes_iff)
  then have "admits labels m' p (gradeIndex labels m' p)" unfolding gradeIndex_def by (rule LeastI)
  then have a: "admits labels m p (gradeIndex labels m' p)" using assms(2) by (rule admits_antimono)
  then have "gradeIndex labels m p \<le> gradeIndex labels m' p" unfolding gradeIndex_def [of labels m] by (rule Least_le)
  with a show ?thesis by (auto simp: passes_iff)
qed

lemma cleaner_grades_better:
  assumes "list_all (passes labels m') ps"
    and "list_all (\<lambda>p. measured m (gi_name p) \<le> measured m' (gi_name p)) ps"
  shows "list_all (passes labels m) ps \<and>
    worst_of (map (gradeIndex labels m) ps) \<le> worst_of (map (gradeIndex labels m') ps)"
  using assms
proof (induction ps)
  case (Cons p ps)
  then show ?case using gradeIndex_antimono [of labels m' p m] by (auto simp: max.coboundedI1 max.coboundedI2)
qed simp

end
