(* ===== verification/Ledger.thy ===== *)
theory Ledger
  imports Receipt_Number Grading
begin

text \<open>
  The inventory ledger, \<open>src/inventory/inventory-ledger.service.ts\<close>: the receipt and
  event tables and every operation of \<open>InventoryLedgerService\<close>. A receipt is a leaf of
  a tree that a split turns into an internal node with one or two children; every operation
  writes one or two events under an idempotency key.

  Each operation is a transaction body (suffix \<open>Tx\<close>: all of it happens or, when it
  throws, nothing) wrapped in \<open>runIdempotent\<close>. The identifiers
  \<open>randomUUID\<close> and the database draw, and the instant \<open>new Date()\<close>, are
  arguments. Foreign keys are not modelled; primary keys, unique columns and the width of
  the numeric columns are.
\<close>

section \<open>Tables\<close>

record receipt =
  r_id :: uuid
  r_receiptNumber :: string
  r_status :: receipt_status
  r_tenantId :: uuid
  r_commodityId :: uuid
  r_quantity :: dec
  r_grade :: "string option"
  r_warehouseId :: uuid
  r_clientId :: uuid
  r_approvalStatus :: approval_status
  r_approvedById :: "uuid option"
  r_approvedAt :: "time option"
  r_rejectionReason :: "string option"
  r_gradingScores :: "grading_scores option"
  r_computedGrade :: "string option"
  r_totalDefectivePct :: "dec option"
  r_standardDeductionPct :: "dec option"
  r_parentReceiptId :: "uuid option"
  r_rootReceiptId :: uuid
  r_isParent :: bool
  r_supersededAt :: "time option"
  r_sourceTxnType :: "txn_type option"
  r_sourceTxnId :: "uuid option"
  r_sourceEventId :: "uuid option"
  r_dateOfDeposit :: time
  r_expiryDate :: "time option"

record inv_event =
  e_id :: uuid
  e_tenantId :: uuid
  e_rootReceiptId :: uuid
  e_fromReceiptId :: "uuid option"
  e_eventType :: event_type
  e_txnType :: "txn_type option"
  e_txnId :: "uuid option"
  e_quantity :: dec
  e_actorUserId :: "uuid option"
  e_idempotencyKey :: "string option"
  e_reversalOfEventId :: "uuid option"
  e_metadata :: "json option"

record ledger =
  receipts :: "receipt list"
  events :: "inv_event list"

text \<open>The columns a \<open>create\<close> leaves out, with the schema's defaults.\<close>

definition receipt_defaults :: receipt where
  "receipt_defaults =
     \<lparr>r_id = [], r_receiptNumber = [], r_status = PENDING_APPROVAL, r_tenantId = [],
      r_commodityId = [], r_quantity = 0, r_grade = None, r_warehouseId = [], r_clientId = [],
      r_approvalStatus = PENDING, r_approvedById = None, r_approvedAt = None,
      r_rejectionReason = None, r_gradingScores = None, r_computedGrade = None, r_totalDefectivePct = None, r_standardDeductionPct = None,
      r_parentReceiptId = None, r_rootReceiptId = [], r_isParent = False,
      r_supersededAt = None, r_sourceTxnType = None, r_sourceTxnId = None,
      r_sourceEventId = None, r_dateOfDeposit = 0, r_expiryDate = None\<rparr>"

section \<open>Database primitives\<close>

definition createReceipt :: "receipt \<Rightarrow> 'z ledger_scheme \<Rightarrow> err + receipt \<times> 'z ledger_scheme" where
  "createReceipt r s =
     (if r_id r \<in> r_id ` set (receipts s) then Inl (Db (P2002 ''id''))
      else if r_receiptNumber r \<in> r_receiptNumber ` set (receipts s)
      then Inl (Db (P2002 ''receipt_number''))
      else if \<not> fits 18 3 (r_quantity r) then Inl (Db Numeric_Overflow)
      else let row = r\<lparr>r_quantity := to_scale 3 (r_quantity r)\<rparr>
           in Inr (row, s\<lparr>receipts := receipts s @ [row]\<rparr>))"

definition updateReceipt ::
    "uuid \<Rightarrow> (receipt \<Rightarrow> receipt) \<Rightarrow> 'z ledger_scheme \<Rightarrow> err + receipt \<times> 'z ledger_scheme" where
  "updateReceipt i f s =
     (case find_row r_id i (receipts s) of
        None \<Rightarrow> Inl (Db Row_Missing)
      | Some r \<Rightarrow> Inr (f r, s\<lparr>receipts := upd_row r_id i f (receipts s)\<rparr>))"

definition event :: "inv_event \<Rightarrow> 'z ledger_scheme \<Rightarrow> err + inv_event \<times> 'z ledger_scheme" where
  "event e s =
     (if e_id e \<in> e_id ` set (events s) then Inl (Db (P2002 ''id''))
      else if e_idempotencyKey e \<noteq> None \<and> e_idempotencyKey e \<in> e_idempotencyKey ` set (events s)
      then Inl (Db (P2002 ''idempotency_key''))
      else if \<not> fits 18 3 (e_quantity e) then Inl (Db Numeric_Overflow)
      else let row = e\<lparr>e_quantity := to_scale 3 (e_quantity e)\<rparr>
           in Inr (row, s\<lparr>events := events s @ [row]\<rparr>))"

definition findEventByKey :: "string \<Rightarrow> 'z ledger_scheme \<Rightarrow> inv_event option" where
  "findEventByKey key s = find (\<lambda>e. e_idempotencyKey e = Some key) (events s)"

text \<open>
  \<open>SELECT ... FOR UPDATE\<close>: whether the row exists. Its callers ignore the answer; the
  lock itself orders concurrent transactions, which run here one after the other.
\<close>

definition lockReceiptForUpdate :: "'z ledger_scheme \<Rightarrow> uuid \<Rightarrow> uuid \<Rightarrow> bool" where
  "lockReceiptForUpdate s i tenantId =
     (find (\<lambda>r. r_id r = i \<and> r_tenantId r = tenantId) (receipts s) \<noteq> None)"

section \<open>Helpers of the service\<close>

text \<open>
  \<open>s0\<close> is the database the first lookup sees, \<open>s\<close> the one the transaction runs
  on: another session may have committed in between. A unique violation inside the
  transaction sends the operation back to the event another session wrote.
\<close>

definition runIdempotent ::
    "string \<Rightarrow> (inv_event \<Rightarrow> 'z ledger_scheme \<Rightarrow> err + 'a)
     \<Rightarrow> ('z ledger_scheme \<Rightarrow> err + 'a \<times> 'z ledger_scheme)
     \<Rightarrow> 'z ledger_scheme \<Rightarrow> ('z ledger_scheme, err, 'a) io" where
  "runIdempotent key reconstruct work s0 s =
     (case findEventByKey key s0 of
        Some prior \<Rightarrow> (reconstruct prior s, s)
      | None \<Rightarrow>
          (case work s of
             Inr (a, s') \<Rightarrow> (Inr a, s')
           | Inl (Db (P2002 target)) \<Rightarrow>
               (case findEventByKey key s of
                  Some ev \<Rightarrow> (reconstruct ev s, s)
                | None \<Rightarrow> (Inl (Db (P2002 target)), s))
           | Inl e \<Rightarrow> (Inl e, s)))"

text \<open>An operation called with no other session in between.\<close>

definition atOnce :: "('s \<Rightarrow> ('s, err, 'a) io) \<Rightarrow> ('s, err, 'a) io" where
  "atOnce op s = op s s"

definition loadOrThrow :: "'z ledger_scheme \<Rightarrow> uuid \<Rightarrow> uuid \<Rightarrow> err + receipt" where
  "loadOrThrow s i tenantId =
     (case find (\<lambda>r. r_id r = i \<and> r_tenantId r = tenantId) (receipts s) of
        None \<Rightarrow> Inl (ReceiptNotFound i)
      | Some r \<Rightarrow> Inr r)"

definition byEvent :: "inv_event \<Rightarrow> 'z ledger_scheme \<Rightarrow> receipt list" where
  "byEvent e s = filter (\<lambda>r. r_sourceEventId r = Some (e_id e)) (receipts s)"

definition affected :: "inv_event \<Rightarrow> 'z ledger_scheme \<Rightarrow> err + receipt" where
  "affected e s =
     (case e_fromReceiptId e of
        None \<Rightarrow> Inl (TypeError ''fromReceiptId'')
      | Some i \<Rightarrow> loadOrThrow s i (e_tenantId e))"

definition assertHeld :: "receipt \<Rightarrow> err + unit" where
  "assertHeld r =
     throw_if (r_status r \<notin> set HELD) (InvalidStateTransition (r_id r) (Found_Status (r_status r)))"

record primary_spec =
  ps_status :: receipt_status
  ps_approvalStatus :: approval_status
  ps_clientId :: uuid
  ps_sourceTxnType :: "txn_type option"
  ps_sourceTxnId :: "uuid option"

text \<open>The columns both children take over from the node that is split.\<close>

definition childData :: "uuid \<Rightarrow> string \<Rightarrow> receipt \<Rightarrow> dec \<Rightarrow> uuid \<Rightarrow> receipt" where
  "childData i number source qty eventId = receipt_defaults\<lparr>
     r_id := i, r_receiptNumber := number, r_tenantId := r_tenantId source,
     r_commodityId := r_commodityId source, r_quantity := qty, r_grade := r_grade source,
     r_warehouseId := r_warehouseId source, r_parentReceiptId := Some (r_id source),
     r_rootReceiptId := r_rootReceiptId source, r_sourceEventId := Some eventId,
     r_dateOfDeposit := r_dateOfDeposit source, r_expiryDate := r_expiryDate source\<rparr>"

text \<open>\<open>partition\<close>: a primary child, an ACTIVE remainder when anything remains, the source SPLIT.\<close>

definition partition ::
    "uuid \<Rightarrow> uuid \<Rightarrow> time \<Rightarrow> receipt \<Rightarrow> dec \<Rightarrow> primary_spec \<Rightarrow> uuid
     \<Rightarrow> 'z ledger_scheme \<Rightarrow> err + (receipt \<times> receipt option) \<times> 'z ledger_scheme" where
  "partition id1 id2 now source primaryQty primary eventId s =
     (let base = baseReceiptNumber (r_receiptNumber source);
          taken = existingChildSuffixes (map r_receiptNumber (receipts s)) base;
          primarySuffix = nextSuffix taken
      in andThen
        (createReceipt
          ((childData id1 (childNumber base primarySuffix) source primaryQty eventId)\<lparr>
            r_status := ps_status primary, r_approvalStatus := ps_approvalStatus primary,
            r_clientId := ps_clientId primary, r_sourceTxnType := ps_sourceTxnType primary,
            r_sourceTxnId := ps_sourceTxnId primary\<rparr>) s)
        (\<lambda>(primaryRow, s1).
          let remQty = r_quantity source - primaryQty
          in andThen
            (if 0 < remQty
             then andThen
               (createReceipt
                 ((childData id2 (childNumber base (nextSuffix (taken @ [primarySuffix])))
                     source remQty eventId)\<lparr>
                   r_status := ACTIVE, r_approvalStatus := APPROVED,
                   r_clientId := r_clientId source\<rparr>) s1)
               (\<lambda>(row, s2). Inr (Some row, s2))
             else Inr (None, s1))
            (\<lambda>(remainder, s2).
              andThen
                (updateReceipt (r_id source)
                  (\<lambda>r. r\<lparr>r_status := SPLIT, r_isParent := True, r_supersededAt := Some now\<rparr>) s2)
                (\<lambda>(_, s3). Inr ((primaryRow, remainder), s3)))))"

section \<open>Deposit and its approval\<close>

record deposit_input =
  di_tenantId :: uuid
  di_clientId :: uuid
  di_commodityId :: uuid
  di_warehouseId :: uuid
  di_quantity :: dec
  di_grade :: "string option"
  di_dateOfDeposit :: time
  di_expiryDate :: "time option"
  di_receiptNumber :: "string option"
  di_actorUserId :: "uuid option"
  di_idempotencyKey :: string
  di_gradingScores :: "grading_scores option"

definition to_upper :: "char \<Rightarrow> char" where
  "to_upper c = (if CHR ''a'' \<le> c \<and> c \<le> CHR ''z'' then char_of (of_char c - 32 :: nat) else c)"

definition depositNumber :: "string \<Rightarrow> uuid \<Rightarrow> string" where
  "depositNumber fullYear i = ''WR-'' @ fullYear @ ''-'' @ map to_upper (take 8 i)"

definition depositTx ::
    "uuid \<Rightarrow> uuid \<Rightarrow> string \<Rightarrow> deposit_input \<Rightarrow> 'z ledger_scheme
     \<Rightarrow> err + receipt \<times> 'z ledger_scheme" where
  "depositTx i evId fullYear inp s =
     (let number = (case di_receiptNumber inp of Some n \<Rightarrow> n | None \<Rightarrow> depositNumber fullYear i)
      in andThen
        (createReceipt (receipt_defaults\<lparr>
           r_id := i, r_receiptNumber := number, r_status := PENDING_APPROVAL,
           r_tenantId := di_tenantId inp, r_commodityId := di_commodityId inp,
           r_quantity := di_quantity inp, r_grade := di_grade inp,
           r_warehouseId := di_warehouseId inp, r_clientId := di_clientId inp,
           r_approvalStatus := PENDING, r_gradingScores := di_gradingScores inp,
           r_parentReceiptId := None, r_rootReceiptId := i, r_sourceTxnType := Some T_DEPOSIT,
           r_dateOfDeposit := di_dateOfDeposit inp, r_expiryDate := di_expiryDate inp\<rparr>) s)
        (\<lambda>(_, s1). andThen
          (event \<lparr>e_id = evId, e_tenantId = di_tenantId inp, e_rootReceiptId = i,
             e_fromReceiptId = Some i, e_eventType = E_DEPOSIT, e_txnType = Some T_DEPOSIT,
             e_txnId = None, e_quantity = di_quantity inp, e_actorUserId = di_actorUserId inp,
             e_idempotencyKey = Some (di_idempotencyKey inp), e_reversalOfEventId = None,
             e_metadata = None\<rparr> s1)
          (\<lambda>(ev, s2). updateReceipt i (\<lambda>r. r\<lparr>r_sourceEventId := Some (e_id ev)\<rparr>) s2)))"

definition deposit ::
    "uuid \<Rightarrow> uuid \<Rightarrow> string \<Rightarrow> deposit_input \<Rightarrow> 'z ledger_scheme
     \<Rightarrow> ('z ledger_scheme, err, receipt) io" where
  "deposit i evId fullYear inp s0 s =
     (if di_quantity inp \<le> 0 then (Inl (InsufficientQuantity (di_quantity inp) 0), s)
      else runIdempotent (di_idempotencyKey inp) affected (depositTx i evId fullYear inp) s0 s)"

text \<open>What every operation on an existing receipt is told, and what it records.\<close>

record actor_args =
  a_tenantId :: uuid
  a_receiptId :: uuid
  a_actorUserId :: "uuid option"
  a_idempotencyKey :: string

definition eventOn ::
    "uuid \<Rightarrow> actor_args \<Rightarrow> receipt \<Rightarrow> event_type \<Rightarrow> dec \<Rightarrow> txn_type option \<Rightarrow> uuid option
     \<Rightarrow> inv_event" where
  "eventOn evId a r ty qty txnTy txn =
     \<lparr>e_id = evId, e_tenantId = a_tenantId a, e_rootReceiptId = r_rootReceiptId r,
      e_fromReceiptId = Some (r_id r), e_eventType = ty, e_txnType = txnTy, e_txnId = txn,
      e_quantity = qty, e_actorUserId = a_actorUserId a,
      e_idempotencyKey = Some (a_idempotencyKey a), e_reversalOfEventId = None,
      e_metadata = None\<rparr>"

definition approveReceiptTx ::
    "uuid \<Rightarrow> time \<Rightarrow> actor_args \<Rightarrow> string option \<Rightarrow> grading_scores option \<Rightarrow> 'z ledger_scheme
     \<Rightarrow> err + receipt \<times> 'z ledger_scheme" where
  "approveReceiptTx evId now a computedGrade gradingScores s =
     andThen (loadOrThrow s (a_receiptId a) (a_tenantId a)) (\<lambda>r.
     andThen (throw_if (r_status r \<noteq> PENDING_APPROVAL)
               (InvalidStateTransition (r_id r) (Found_Status (r_status r)))) (\<lambda>_.
     andThen (event (eventOn evId a r E_APPROVED (r_quantity r) (Some T_DEPOSIT) None) s) (\<lambda>(_, s1).
       updateReceipt (r_id r) (\<lambda>x. x\<lparr>
         r_status := ACTIVE, r_approvalStatus := APPROVED, r_approvedById := a_actorUserId a,
         r_approvedAt := Some now,
         r_computedGrade := (case computedGrade of None \<Rightarrow> r_computedGrade r | Some g \<Rightarrow> Some g),
         r_gradingScores := (case gradingScores of None \<Rightarrow> r_gradingScores r | Some g \<Rightarrow> Some g)\<rparr>) s1)))"

definition approveReceipt ::
    "uuid \<Rightarrow> time \<Rightarrow> actor_args \<Rightarrow> string option \<Rightarrow> grading_scores option \<Rightarrow> 'z ledger_scheme
     \<Rightarrow> ('z ledger_scheme, err, receipt) io" where
  "approveReceipt evId now a computedGrade gradingScores =
     runIdempotent (a_idempotencyKey a) affected
       (approveReceiptTx evId now a computedGrade gradingScores)"

definition rejectReceiptTx ::
    "uuid \<Rightarrow> time \<Rightarrow> actor_args \<Rightarrow> string \<Rightarrow> 'z ledger_scheme \<Rightarrow> err + receipt \<times> 'z ledger_scheme" where
  "rejectReceiptTx evId now a reason s =
     andThen (loadOrThrow s (a_receiptId a) (a_tenantId a)) (\<lambda>r.
     andThen (throw_if (r_status r \<noteq> PENDING_APPROVAL)
               (InvalidStateTransition (r_id r) (Found_Status (r_status r)))) (\<lambda>_.
     andThen (event ((eventOn evId a r E_REJECTED (r_quantity r) (Some T_DEPOSIT) None)\<lparr>
               e_metadata := Some [(''reason'', reason)]\<rparr>) s) (\<lambda>(_, s1).
       updateReceipt (r_id r) (\<lambda>x. x\<lparr>
         r_status := CANCELLED, r_approvalStatus := REJECTED, r_rejectionReason := Some reason,
         r_approvedById := a_actorUserId a, r_approvedAt := Some now\<rparr>) s1)))"

definition rejectReceipt ::
    "uuid \<Rightarrow> time \<Rightarrow> actor_args \<Rightarrow> string \<Rightarrow> 'z ledger_scheme \<Rightarrow> ('z ledger_scheme, err, receipt) io" where
  "rejectReceipt evId now a reason =
     runIdempotent (a_idempotencyKey a) affected (rejectReceiptTx evId now a reason)"

section \<open>Hold\<close>

record hold_input =
  h_tenantId :: uuid
  h_sourceReceiptId :: uuid
  h_quantity :: dec
  h_heldStatus :: held_status
  h_txnType :: txn_type
  h_txnId :: uuid
  h_actorUserId :: "uuid option"
  h_idempotencyKey :: string
  h_metadata :: "json option"

text \<open>
  The result's \<open>held\<close> is typed as a receipt, but a replay looks it up among the
  children by their present status and may find none: \<open>undefined\<close>, here \<open>None\<close>.
\<close>

record hold_result =
  hr_source :: receipt
  hr_held :: "receipt option"
  hr_remainder :: "receipt option"

definition holdTx ::
    "uuid \<Rightarrow> uuid \<Rightarrow> uuid \<Rightarrow> time \<Rightarrow> hold_input \<Rightarrow> 'z ledger_scheme
     \<Rightarrow> err + hold_result \<times> 'z ledger_scheme" where
  "holdTx evId id1 id2 now inp s =
     andThen (loadOrThrow s (h_sourceReceiptId inp) (h_tenantId inp)) (\<lambda>src.
     andThen (throw_if (r_status src \<noteq> ACTIVE \<or> r_approvalStatus src \<noteq> APPROVED)
               (ReceiptNotTransactable (r_id src) (r_status src) (r_approvalStatus src))) (\<lambda>_.
     andThen (throw_if (r_isParent src)
               (ReceiptNotTransactable (r_id src) SPLIT (r_approvalStatus src))) (\<lambda>_.
     andThen (throw_if (h_quantity inp \<le> 0) (InsufficientQuantity (h_quantity inp) 0)) (\<lambda>_.
     andThen (throw_if (r_quantity src < h_quantity inp)
               (InsufficientQuantity (h_quantity inp) (r_quantity src))) (\<lambda>_.
     andThen (event \<lparr>e_id = evId, e_tenantId = h_tenantId inp,
               e_rootReceiptId = r_rootReceiptId src, e_fromReceiptId = Some (r_id src),
               e_eventType = E_HOLD_PLACED, e_txnType = Some (h_txnType inp),
               e_txnId = Some (h_txnId inp), e_quantity = h_quantity inp,
               e_actorUserId = h_actorUserId inp,
               e_idempotencyKey = Some (h_idempotencyKey inp), e_reversalOfEventId = None,
               e_metadata = h_metadata inp\<rparr> s) (\<lambda>(ev, s1).
     andThen (partition id1 id2 now src (h_quantity inp)
               \<lparr>ps_status = of_held (h_heldStatus inp), ps_approvalStatus = PENDING,
                ps_clientId = r_clientId src, ps_sourceTxnType = Some (h_txnType inp),
                ps_sourceTxnId = Some (h_txnId inp)\<rparr> (e_id ev) s1) (\<lambda>((primary, remainder), s2).
       Inr (\<lparr>hr_source = src\<lparr>r_status := SPLIT, r_isParent := True\<rparr>,
             hr_held = Some primary, hr_remainder = remainder\<rparr>, s2))))))))"

definition holdReplay :: "inv_event \<Rightarrow> 'z ledger_scheme \<Rightarrow> err + hold_result" where
  "holdReplay e s =
     (let kids = byEvent e s
      in andThen (affected e s) (\<lambda>src.
         Inr \<lparr>hr_source = src,
              hr_held = find (\<lambda>k. r_status k \<in> set HELD) kids,
              hr_remainder = find (\<lambda>k. r_status k = ACTIVE) kids\<rparr>))"

definition hold ::
    "uuid \<Rightarrow> uuid \<Rightarrow> uuid \<Rightarrow> time \<Rightarrow> hold_input \<Rightarrow> 'z ledger_scheme
     \<Rightarrow> ('z ledger_scheme, err, hold_result) io" where
  "hold evId id1 id2 now inp =
     runIdempotent (h_idempotencyKey inp) holdReplay (holdTx evId id1 id2 now inp)"

section \<open>Status-only transitions of a held node\<close>

definition approveHoldTx ::
    "uuid \<Rightarrow> time \<Rightarrow> actor_args \<Rightarrow> 'z ledger_scheme \<Rightarrow> err + receipt \<times> 'z ledger_scheme" where
  "approveHoldTx evId now a s =
     andThen (loadOrThrow s (a_receiptId a) (a_tenantId a)) (\<lambda>r.
     andThen (assertHeld r) (\<lambda>_.
     andThen (throw_if (r_approvalStatus r \<noteq> PENDING)
               (InvalidStateTransition (r_id r) (Found_Approval (r_approvalStatus r)))) (\<lambda>_.
     andThen (event (eventOn evId a r E_APPROVED (r_quantity r) (r_sourceTxnType r) (r_sourceTxnId r)) s)
       (\<lambda>(_, s1).
       updateReceipt (r_id r) (\<lambda>x. x\<lparr>r_approvalStatus := APPROVED,
         r_approvedById := a_actorUserId a, r_approvedAt := Some now\<rparr>) s1))))"

definition approveHold ::
    "uuid \<Rightarrow> time \<Rightarrow> actor_args \<Rightarrow> 'z ledger_scheme \<Rightarrow> ('z ledger_scheme, err, receipt) io" where
  "approveHold evId now a = runIdempotent (a_idempotencyKey a) affected (approveHoldTx evId now a)"

definition releaseTx ::
    "uuid \<Rightarrow> actor_args \<Rightarrow> string option \<Rightarrow> 'z ledger_scheme \<Rightarrow> err + receipt \<times> 'z ledger_scheme" where
  "releaseTx evId a reason s =
     andThen (loadOrThrow s (a_receiptId a) (a_tenantId a)) (\<lambda>r.
     andThen (assertHeld r) (\<lambda>_.
     andThen (event ((eventOn evId a r E_HOLD_RELEASED (r_quantity r) (r_sourceTxnType r)
                 (r_sourceTxnId r))\<lparr>e_reversalOfEventId := r_sourceEventId r,
                 e_metadata := (case reason of None \<Rightarrow> None | Some w \<Rightarrow>
                    if w = [] then None else Some [(''reason'', w)])\<rparr>) s) (\<lambda>(_, s1).
       updateReceipt (r_id r) (\<lambda>x. x\<lparr>r_status := ACTIVE, r_approvalStatus := APPROVED\<rparr>) s1)))"

definition release ::
    "uuid \<Rightarrow> actor_args \<Rightarrow> string option \<Rightarrow> 'z ledger_scheme \<Rightarrow> ('z ledger_scheme, err, receipt) io" where
  "release evId a reason = runIdempotent (a_idempotencyKey a) affected (releaseTx evId a reason)"

definition consumeTx ::
    "uuid \<Rightarrow> actor_args \<Rightarrow> 'z ledger_scheme \<Rightarrow> err + receipt \<times> 'z ledger_scheme" where
  "consumeTx evId a s =
     andThen (loadOrThrow s (a_receiptId a) (a_tenantId a)) (\<lambda>r.
     andThen (assertHeld r) (\<lambda>_.
     andThen (event (eventOn evId a r E_CONSUMED (r_quantity r) (r_sourceTxnType r) (r_sourceTxnId r)) s)
       (\<lambda>(_, s1). updateReceipt (r_id r) (\<lambda>x. x\<lparr>r_status := WITHDRAWN\<rparr>) s1)))"

definition consume ::
    "uuid \<Rightarrow> actor_args \<Rightarrow> 'z ledger_scheme \<Rightarrow> ('z ledger_scheme, err, receipt) io" where
  "consume evId a = runIdempotent (a_idempotencyKey a) affected (consumeTx evId a)"

section \<open>Collateral: partial release of a lien, pledge to lien\<close>

record release_partial_input =
  rp_tenantId :: uuid
  rp_heldReceiptId :: uuid
  rp_releaseQuantity :: dec
  rp_releaseRequestId :: uuid
  rp_actorUserId :: "uuid option"
  rp_idempotencyKey :: string
  rp_metadata :: "json option"

record release_partial_result =
  rr_released :: "receipt option"
  rr_remainingHeld :: "receipt option"

definition releasePartialTx ::
    "uuid \<Rightarrow> uuid \<Rightarrow> uuid \<Rightarrow> time \<Rightarrow> release_partial_input \<Rightarrow> 'z ledger_scheme
     \<Rightarrow> err + release_partial_result \<times> 'z ledger_scheme" where
  "releasePartialTx evId id1 id2 now inp s =
     andThen (loadOrThrow s (rp_heldReceiptId inp) (rp_tenantId inp)) (\<lambda>src.
     andThen (throw_if (r_status src \<noteq> HELD_LIEN)
               (InvalidStateTransition (r_id src) (Found_Status (r_status src)))) (\<lambda>_.
     andThen (throw_if (rp_releaseQuantity inp \<le> 0)
               (InsufficientQuantity (rp_releaseQuantity inp) 0)) (\<lambda>_.
     andThen (throw_if (r_quantity src \<le> rp_releaseQuantity inp)
               (InsufficientQuantity (rp_releaseQuantity inp) (r_quantity src))) (\<lambda>_.
     andThen (event \<lparr>e_id = evId, e_tenantId = rp_tenantId inp,
               e_rootReceiptId = r_rootReceiptId src, e_fromReceiptId = Some (r_id src),
               e_eventType = E_HOLD_RELEASED, e_txnType = Some T_PLEDGE,
               e_txnId = Some (rp_releaseRequestId inp), e_quantity = rp_releaseQuantity inp,
               e_actorUserId = rp_actorUserId inp,
               e_idempotencyKey = Some (rp_idempotencyKey inp), e_reversalOfEventId = None,
               e_metadata = rp_metadata inp\<rparr> s) (\<lambda>(ev, s1).
     let base = baseReceiptNumber (r_receiptNumber src);
         taken = existingChildSuffixes (map r_receiptNumber (receipts s1)) base;
         primarySuffix = nextSuffix taken
     in
     andThen (createReceipt
       ((childData id1 (childNumber base primarySuffix) src (rp_releaseQuantity inp) (e_id ev))\<lparr>
          r_status := ACTIVE, r_approvalStatus := APPROVED, r_clientId := r_clientId src\<rparr>) s1)
       (\<lambda>(released, s2).
     andThen (createReceipt
       ((childData id2 (childNumber base (nextSuffix (taken @ [primarySuffix]))) src
            (r_quantity src - rp_releaseQuantity inp) (e_id ev))\<lparr>
          r_status := HELD_LIEN, r_approvalStatus := r_approvalStatus src,
          r_clientId := r_clientId src, r_sourceTxnType := r_sourceTxnType src,
          r_sourceTxnId := r_sourceTxnId src\<rparr>) s2) (\<lambda>(remainingHeld, s3).
     andThen (updateReceipt (r_id src)
       (\<lambda>x. x\<lparr>r_status := SPLIT, r_isParent := True, r_supersededAt := Some now\<rparr>) s3)
       (\<lambda>(_, s4). Inr (\<lparr>rr_released = Some released, rr_remainingHeld = Some remainingHeld\<rparr>, s4)))))))))"

definition releasePartialReplay ::
    "inv_event \<Rightarrow> 'z ledger_scheme \<Rightarrow> err + release_partial_result" where
  "releasePartialReplay e s =
     (let kids = byEvent e s
      in Inr \<lparr>rr_released = find (\<lambda>k. r_status k = ACTIVE) kids,
              rr_remainingHeld = find (\<lambda>k. r_status k = HELD_LIEN) kids\<rparr>)"

definition releasePartial ::
    "uuid \<Rightarrow> uuid \<Rightarrow> uuid \<Rightarrow> time \<Rightarrow> release_partial_input \<Rightarrow> 'z ledger_scheme
     \<Rightarrow> ('z ledger_scheme, err, release_partial_result) io" where
  "releasePartial evId id1 id2 now inp =
     runIdempotent (rp_idempotencyKey inp) releasePartialReplay (releasePartialTx evId id1 id2 now inp)"

definition transitionPledgeToLienTx ::
    "uuid \<Rightarrow> actor_args \<Rightarrow> uuid \<Rightarrow> json option \<Rightarrow> 'z ledger_scheme
     \<Rightarrow> err + receipt \<times> 'z ledger_scheme" where
  "transitionPledgeToLienTx evId a pledgeId metadata s =
     andThen (loadOrThrow s (a_receiptId a) (a_tenantId a)) (\<lambda>r.
     andThen (throw_if (r_status r \<noteq> HELD_PLEDGE_PENDING)
               (InvalidStateTransition (r_id r) (Found_Status (r_status r)))) (\<lambda>_.
     andThen (event ((eventOn evId a r E_PLEDGE_ACCEPTED (r_quantity r) (Some T_PLEDGE) (Some pledgeId))\<lparr>
               e_metadata := metadata\<rparr>) s) (\<lambda>(_, s1).
       updateReceipt (r_id r) (\<lambda>x. x\<lparr>r_status := HELD_LIEN\<rparr>) s1)))"

definition transitionPledgeToLien ::
    "uuid \<Rightarrow> actor_args \<Rightarrow> uuid \<Rightarrow> json option \<Rightarrow> 'z ledger_scheme
     \<Rightarrow> ('z ledger_scheme, err, receipt) io" where
  "transitionPledgeToLien evId a pledgeId metadata =
     runIdempotent (a_idempotencyKey a) affected (transitionPledgeToLienTx evId a pledgeId metadata)"

section \<open>Seizure\<close>

record seize_result =
  sr_seized :: "receipt option"
  sr_remainder :: "receipt option"

definition seizeTx ::
    "uuid \<Rightarrow> uuid \<Rightarrow> uuid \<Rightarrow> time \<Rightarrow> actor_args \<Rightarrow> uuid \<Rightarrow> dec option \<Rightarrow> 'z ledger_scheme
     \<Rightarrow> err + seize_result \<times> 'z ledger_scheme" where
  "seizeTx evId id1 id2 now a financierUserId partialQuantity s =
     andThen (loadOrThrow s (a_receiptId a) (a_tenantId a)) (\<lambda>r.
     andThen (throw_if (r_status r \<noteq> HELD_LOAN)
               (InvalidStateTransition (r_id r) (Found_Status (r_status r)))) (\<lambda>_.
     andThen (event ((eventOn evId a r E_SEIZED (r_quantity r) (Some T_LOAN) (r_sourceTxnId r))\<lparr>
               e_metadata := Some [(''financierUserId'', financierUserId)]\<rparr>) s) (\<lambda>(ev, s1).
     case partialQuantity of
       Some pq \<Rightarrow>
         andThen (throw_if (pq \<le> 0 \<or> r_quantity r \<le> pq) (InsufficientQuantity pq (r_quantity r))) (\<lambda>_.
         andThen (partition id1 id2 now r pq
             \<lparr>ps_status = SEIZED, ps_approvalStatus = APPROVED, ps_clientId = financierUserId,
              ps_sourceTxnType = Some T_LOAN, ps_sourceTxnId = r_sourceTxnId r\<rparr> (e_id ev) s1)
           (\<lambda>((primary, remainder), s2).
             Inr (\<lparr>sr_seized = Some primary, sr_remainder = remainder\<rparr>, s2)))
     | None \<Rightarrow>
         andThen (updateReceipt (r_id r) (\<lambda>x. x\<lparr>r_status := SEIZED, r_clientId := financierUserId\<rparr>) s1)
           (\<lambda>(row, s2). Inr (\<lparr>sr_seized = Some row, sr_remainder = None\<rparr>, s2)))))"

definition seizeReplay :: "inv_event \<Rightarrow> 'z ledger_scheme \<Rightarrow> err + seize_result" where
  "seizeReplay e s =
     (let kids = byEvent e s
      in if kids \<noteq> []
         then Inr \<lparr>sr_seized = find (\<lambda>k. r_status k = SEIZED) kids,
                   sr_remainder = find (\<lambda>k. r_status k = ACTIVE) kids\<rparr>
         else andThen (affected e s) (\<lambda>r. Inr \<lparr>sr_seized = Some r, sr_remainder = None\<rparr>))"

definition seize ::
    "uuid \<Rightarrow> uuid \<Rightarrow> uuid \<Rightarrow> time \<Rightarrow> actor_args \<Rightarrow> uuid \<Rightarrow> dec option \<Rightarrow> 'z ledger_scheme
     \<Rightarrow> ('z ledger_scheme, err, seize_result) io" where
  "seize evId id1 id2 now a financierUserId partialQuantity =
     runIdempotent (a_idempotencyKey a) seizeReplay
       (seizeTx evId id1 id2 now a financierUserId partialQuantity)"

section \<open>Ownership, expiry\<close>

definition transferOwnershipTx ::
    "uuid \<Rightarrow> actor_args \<Rightarrow> uuid \<Rightarrow> txn_type \<Rightarrow> uuid \<Rightarrow> 'z ledger_scheme
     \<Rightarrow> err + receipt \<times> 'z ledger_scheme" where
  "transferOwnershipTx evId a newOwnerId txnTy txn s =
     andThen (loadOrThrow s (a_receiptId a) (a_tenantId a)) (\<lambda>r.
     andThen (event ((eventOn evId a r E_OWNERSHIP_TRANSFERRED (r_quantity r) (Some txnTy) (Some txn))\<lparr>
               e_metadata := Some [(''from'', r_clientId r), (''to'', newOwnerId)]\<rparr>) s) (\<lambda>(_, s1).
       updateReceipt (r_id r) (\<lambda>x. x\<lparr>r_clientId := newOwnerId\<rparr>) s1))"

definition transferOwnership ::
    "uuid \<Rightarrow> actor_args \<Rightarrow> uuid \<Rightarrow> txn_type \<Rightarrow> uuid \<Rightarrow> 'z ledger_scheme
     \<Rightarrow> ('z ledger_scheme, err, receipt) io" where
  "transferOwnership evId a newOwnerId txnTy txn =
     runIdempotent (a_idempotencyKey a) affected (transferOwnershipTx evId a newOwnerId txnTy txn)"

text \<open>
  Two events, the second under the key with \<open>:release\<close> appended; the caller's
  \<open>withinTx\<close> runs last, inside the transaction.
\<close>

definition transferAndReleaseTx ::
    "uuid \<Rightarrow> uuid \<Rightarrow> actor_args \<Rightarrow> uuid \<Rightarrow> txn_type \<Rightarrow> uuid
     \<Rightarrow> (receipt \<Rightarrow> 'z ledger_scheme \<Rightarrow> err + unit \<times> 'z ledger_scheme) option
     \<Rightarrow> 'z ledger_scheme \<Rightarrow> err + receipt \<times> 'z ledger_scheme" where
  "transferAndReleaseTx evId evId2 a newOwnerId txnTy txn withinTx s =
     andThen (loadOrThrow s (a_receiptId a) (a_tenantId a)) (\<lambda>r.
     andThen (assertHeld r) (\<lambda>_.
     andThen (event ((eventOn evId a r E_OWNERSHIP_TRANSFERRED (r_quantity r) (Some txnTy) (Some txn))\<lparr>
               e_metadata := Some [(''from'', r_clientId r), (''to'', newOwnerId)]\<rparr>) s) (\<lambda>(_, s1).
     andThen (event ((eventOn evId2 a r E_HOLD_RELEASED (r_quantity r) (Some txnTy) (Some txn))\<lparr>
               e_idempotencyKey := Some (a_idempotencyKey a @ '':release''),
               e_reversalOfEventId := r_sourceEventId r\<rparr>) s1) (\<lambda>(_, s2).
     andThen (updateReceipt (r_id r) (\<lambda>x. x\<lparr>r_clientId := newOwnerId, r_status := ACTIVE,
               r_approvalStatus := APPROVED\<rparr>) s2) (\<lambda>(updated, s3).
       case withinTx of
         None \<Rightarrow> Inr (updated, s3)
       | Some w \<Rightarrow> andThen (w updated s3) (\<lambda>(_, s4). Inr (updated, s4)))))))"

definition transferAndRelease ::
    "uuid \<Rightarrow> uuid \<Rightarrow> actor_args \<Rightarrow> uuid \<Rightarrow> txn_type \<Rightarrow> uuid
     \<Rightarrow> (receipt \<Rightarrow> 'z ledger_scheme \<Rightarrow> err + unit \<times> 'z ledger_scheme) option
     \<Rightarrow> 'z ledger_scheme \<Rightarrow> ('z ledger_scheme, err, receipt) io" where
  "transferAndRelease evId evId2 a newOwnerId txnTy txn withinTx =
     runIdempotent (a_idempotencyKey a) affected
       (transferAndReleaseTx evId evId2 a newOwnerId txnTy txn withinTx)"

definition expireTx :: "uuid \<Rightarrow> actor_args \<Rightarrow> 'z ledger_scheme \<Rightarrow> err + receipt \<times> 'z ledger_scheme" where
  "expireTx evId a s =
     andThen (loadOrThrow s (a_receiptId a) (a_tenantId a)) (\<lambda>r.
     andThen (throw_if (r_status r \<noteq> ACTIVE)
               (InvalidStateTransition (r_id r) (Found_Status (r_status r)))) (\<lambda>_.
     andThen (event (eventOn evId a r E_EXPIRED (r_quantity r) None None) s) (\<lambda>(_, s1).
       updateReceipt (r_id r) (\<lambda>x. x\<lparr>r_status := EXPIRED\<rparr>) s1)))"

definition expire :: "uuid \<Rightarrow> actor_args \<Rightarrow> 'z ledger_scheme \<Rightarrow> ('z ledger_scheme, err, receipt) io" where
  "expire evId a = runIdempotent (a_idempotencyKey a) affected (expireTx evId a)"

end
