(* ===== verification/Transactions.thy ===== *)
theory Transactions
  imports Ledger "HOL-Library.Sublist"
begin

text \<open>
  \<open>withSerializableTx\<close> and \<open>isRetryableTxError\<close> of
  \<open>src/inventory/inventory.tx.ts\<close>: the retry loop around every ledger transaction.
  What \<open>prisma.$transaction\<close> does on each attempt is an argument; the contract it is
  documented to honour, that a failed transaction leaves nothing behind, is a locale, and
  the ledger's operations under an engine that aborts some attempts are its instance.
\<close>

section \<open>Which errors are retried\<close>

definition lower_char :: "char \<Rightarrow> char" where
  "lower_char c = (if CHR ''A'' \<le> c \<and> c \<le> CHR ''Z'' then char_of (of_char c + 32 :: nat) else c)"

text \<open>\<open>text\<close> is the JSON rendering of the error, its message and its own fields.\<close>

definition isRetryableTxError :: "string \<Rightarrow> bool" where
  "isRetryableTxError text =
     (let s = map lower_char text
      in sublist ''40001'' s \<or> sublist ''40p01'' s \<or>
         sublist ''could not serialize'' s \<or> sublist ''deadlock detected'' s)"

section \<open>The retry loop\<close>

text \<open>
  Attempt number \<open>n\<close> runs \<open>attempt n\<close>; \<open>jitter n\<close> is
  \<open>Math.floor(Math.random() * 25)\<close>. The result carries the pauses made.
\<close>

function retryLoop ::
    "(nat \<Rightarrow> ('s, 'e, 'a) io) \<Rightarrow> ('e \<Rightarrow> bool) \<Rightarrow> (nat \<Rightarrow> nat) \<Rightarrow> nat \<Rightarrow> nat \<Rightarrow> 's
     \<Rightarrow> (('e + 'a) \<times> 's) \<times> nat list" where
  "retryLoop attempt retryable jitter retries n s =
     (case attempt n s of
        (Inr a, s') \<Rightarrow> ((Inr a, s'), [])
      | (Inl e, s') \<Rightarrow>
          if n < retries \<and> retryable e
          then (case retryLoop attempt retryable jitter retries (Suc n) s' of
                  (result, pauses) \<Rightarrow> (result, (25 * Suc n + jitter (Suc n)) # pauses))
          else ((Inl e, s'), []))"
  by pat_completeness auto
termination by (relation "measure (\<lambda>(_, _, _, retries, n, _). retries - n)") auto

declare retryLoop.simps [simp del]

definition withSerializableTx ::
    "(nat \<Rightarrow> ('s, 'e, 'a) io) \<Rightarrow> ('e \<Rightarrow> bool) \<Rightarrow> (nat \<Rightarrow> nat) \<Rightarrow> nat option \<Rightarrow> 's
     \<Rightarrow> (('e + 'a) \<times> 's) \<times> nat list" where
  "withSerializableTx attempt retryable jitter retries s =
     retryLoop attempt retryable jitter (case retries of None \<Rightarrow> 3 | Some n \<Rightarrow> n) 0 s"

definition pause :: "(nat \<Rightarrow> nat) \<Rightarrow> nat \<Rightarrow> nat" where
  "pause jitter n = 25 * n + jitter n"

text \<open>
  The contract of \<open>prisma.$transaction\<close>: a failed attempt leaves the database as it
  was. Under it, the loop returns the outcome of its last attempt, run on the state the
  loop was entered in; every earlier attempt failed with an error worth retrying, and a
  failure is returned only when it is not, or when the retries are used up.
\<close>

locale transactional =
  fixes attempt :: "nat \<Rightarrow> ('s, 'e, 'a) io"
  assumes atomic: "attempt n s = (Inl e, s') \<Longrightarrow> s' = s"
begin

lemma loop_outcome:
  assumes "retryLoop attempt retryable jitter retries n s = (res, ps)" and "n \<le> retries"
  shows "\<exists>m. n + m \<le> retries \<and> ps = map (pause jitter) [Suc n ..< Suc n + m] \<and>
    (\<forall>k < m. \<exists>e. attempt (n + k) s = (Inl e, s) \<and> retryable e) \<and> attempt (n + m) s = res \<and>
    (\<forall>e. fst res = Inl e \<longrightarrow> n + m = retries \<or> \<not> retryable e)"
  using assms
proof (induction "retries - n" arbitrary: n ps)
  case 0
  then show ?case
    by (intro exI [of _ 0]) (auto simp: retryLoop.simps [of attempt retryable jitter n n s] split: prod.splits sum.splits)
next
  case (Suc d)
  obtain r s1 where a: "attempt n s = (r, s1)" by (cases "attempt n s")
  show ?case
  proof (cases "\<exists>e. r = Inl e \<and> retryable e")
    case False
    with a Suc.prems(1) have "res = (r, s1) \<and> ps = []"
      by (simp add: retryLoop.simps [of attempt retryable jitter retries n s] split: sum.splits if_splits)
    with a False Suc.prems(2) show ?thesis by (intro exI [of _ 0]) auto
  next
    case True
    then obtain e where e: "r = Inl e" "retryable e" by blast
    with a atomic have s1: "s1 = s" by blast
    have lt: "n < retries" using Suc.hyps(2) by simp
    obtain res' ps' where rest: "retryLoop attempt retryable jitter retries (Suc n) s = (res', ps')"
      by (cases "retryLoop attempt retryable jitter retries (Suc n) s")
    have "res' = res" and ps: "ps = pause jitter (Suc n) # ps'"
      using Suc.prems(1) a e s1 lt rest
      by (simp_all add: retryLoop.simps [of attempt retryable jitter retries n s] pause_def)
    have "d = retries - Suc n" "Suc n \<le> retries" using Suc.hyps(2) lt by simp_all
    from Suc.hyps(1) [OF this(1) rest [unfolded \<open>res' = res\<close>] this(2)] obtain m where
      m: "Suc n + m \<le> retries" "ps' = map (pause jitter) [Suc (Suc n) ..< Suc (Suc n) + m]"
        "\<forall>k < m. \<exists>e. attempt (Suc n + k) s = (Inl e, s) \<and> retryable e" "attempt (Suc n + m) s = res"
        "\<forall>e. fst res = Inl e \<longrightarrow> Suc n + m = retries \<or> \<not> retryable e" by blast
    have "\<exists>e. attempt (n + k) s = (Inl e, s) \<and> retryable e" if "k < Suc m" for k
      using that m(3) a e s1 by (cases k) auto
    moreover have "ps = map (pause jitter) [Suc n ..< Suc n + Suc m]"
      using ps m(2) upt_conv_Cons [of "Suc n" "Suc n + Suc m"] by (simp del: upt_Suc)
    ultimately show ?thesis using m by (intro exI [of _ "Suc m"]) auto
  qed
qed

lemma tx_outcome:
  assumes "withSerializableTx attempt retryable jitter retries s = (res, ps)"
  shows "\<exists>m \<le> (case retries of None \<Rightarrow> 3 | Some n \<Rightarrow> n). ps = map (pause jitter) [1 ..< Suc m] \<and>
    (\<forall>k < m. \<exists>e. attempt k s = (Inl e, s) \<and> retryable e) \<and> attempt m s = res \<and>
    (\<forall>e. fst res = Inl e \<longrightarrow> m = (case retries of None \<Rightarrow> 3 | Some n \<Rightarrow> n) \<or> \<not> retryable e)"
  using loop_outcome [OF assms [unfolded withSerializableTx_def]] by auto

end

text \<open>
  A ledger transaction under an engine that may abort an attempt with a serialization
  failure: \<open>aborts n\<close> says whether it aborts attempt \<open>n\<close>.
\<close>

definition underFaults ::
    "(nat \<Rightarrow> bool) \<Rightarrow> ('s \<Rightarrow> err + 'a \<times> 's) \<Rightarrow> nat \<Rightarrow> ('s, err, 'a) io" where
  "underFaults aborts work n s = (if aborts n then (Inl (Db Serialization_Failure), s) else transactM work s)"

interpretation engine: transactional "underFaults aborts work" for aborts work
  by unfold_locales (auto simp: underFaults_def transactM_def split: if_splits sum.splits prod.splits)

text \<open>Which of the model's errors are of the database's retryable kind.\<close>

definition retryable_err :: "err \<Rightarrow> bool" where
  "retryable_err e \<longleftrightarrow> e = Db Serialization_Failure"

text \<open>At most \<open>retries\<close> aborts in a row are invisible: the operation runs as if there were none.\<close>

lemma aborts_invisible:
  assumes "n \<le> (case retries of None \<Rightarrow> 3 | Some n \<Rightarrow> n)" and "\<not> aborts n"
    and work: "work s \<noteq> Inl (Db Serialization_Failure)"
  shows "fst (withSerializableTx (underFaults aborts work) retryable_err jitter retries s) = transactM work s"
proof -
  obtain res ps where run: "withSerializableTx (underFaults aborts work) retryable_err jitter retries s = (res, ps)"
    by (cases "withSerializableTx (underFaults aborts work) retryable_err jitter retries s")
  let ?R = "case retries of None \<Rightarrow> 3 | Some n \<Rightarrow> n"
  from engine.tx_outcome [OF run] obtain m where m: "m \<le> ?R"
    "\<forall>k < m. \<exists>e. underFaults aborts work k s = (Inl e, s) \<and> retryable_err e" "underFaults aborts work m s = res"
    "\<forall>e. fst res = Inl e \<longrightarrow> m = ?R \<or> \<not> retryable_err e" by blast
  have live: "underFaults aborts work k s = transactM work s" if "\<not> aborts k" for k
    using that by (simp add: underFaults_def)
  have final: "\<not> (\<exists>e s'. transactM work s = (Inl e, s') \<and> retryable_err e)"
    using work by (auto simp: transactM_def retryable_err_def split: sum.splits)
  have "m \<le> n"
  proof (rule ccontr)
    assume "\<not> m \<le> n"
    with m(2) have "\<exists>e. underFaults aborts work n s = (Inl e, s) \<and> retryable_err e" by simp
    with live [OF assms(2)] final show False by auto
  qed
  have "\<not> aborts m"
  proof
    assume a: "aborts m"
    with m(3) have "res = (Inl (Db Serialization_Failure), s)" by (simp add: underFaults_def)
    with m(4) have "m = ?R" by (simp add: retryable_err_def)
    with assms(1) \<open>m \<le> n\<close> have "m = n" by simp
    with a assms(2) show False by simp
  qed
  with live m(3) run show ?thesis by simp
qed

end
