(* ===== verification/Ledger_Moves.thy ===== *)
theory Ledger_Moves
  imports Ledger
begin

text \<open>
  The abstract ledger: three kinds of move, a status-only change of one row, the split of
  a leaf, and the deposit of a root, each logged by events. Every operation of the ledger
  is one move, so what the moves keep, all operations keep.
\<close>

section \<open>Lifecycle of a receipt\<close>

text \<open>How the status and the approval of a row may change in place.\<close>

inductive lifecycle :: "receipt_status \<Rightarrow> approval_status \<Rightarrow> receipt_status \<Rightarrow> approval_status \<Rightarrow> bool" where
  unchanged: "lifecycle st ap st ap"
| approve: "lifecycle PENDING_APPROVAL ap ACTIVE APPROVED"
| reject: "lifecycle PENDING_APPROVAL ap CANCELLED REJECTED"
| approve_hold: "st \<in> set HELD \<Longrightarrow> lifecycle st PENDING st APPROVED"
| release: "st \<in> set HELD \<Longrightarrow> lifecycle st ap ACTIVE APPROVED"
| consume: "st \<in> set HELD \<Longrightarrow> lifecycle st ap WITHDRAWN ap"
| to_lien: "lifecycle HELD_PLEDGE_PENDING ap HELD_LIEN ap"
| seize: "lifecycle HELD_LOAN ap SEIZED ap"
| expire: "lifecycle ACTIVE ap EXPIRED ap"

inductive_cases lifecycle_fromE: "lifecycle st ap st' ap'"

text \<open>The columns no in-place change touches.\<close>

definition same_identity :: "receipt \<Rightarrow> receipt \<Rightarrow> bool" where
  "same_identity x y \<longleftrightarrow>
     r_id y = r_id x \<and> r_receiptNumber y = r_receiptNumber x \<and> r_tenantId y = r_tenantId x \<and>
     r_commodityId y = r_commodityId x \<and> r_quantity y = r_quantity x \<and> r_grade y = r_grade x \<and>
     r_warehouseId y = r_warehouseId x \<and> r_parentReceiptId y = r_parentReceiptId x \<and>
     r_rootReceiptId y = r_rootReceiptId x \<and> r_isParent y = r_isParent x \<and>
     r_supersededAt y = r_supersededAt x \<and> r_dateOfDeposit y = r_dateOfDeposit x \<and>
     r_expiryDate y = r_expiryDate x"

section \<open>Moves\<close>

definition volume :: "receipt list \<Rightarrow> dec" where
  "volume rs = sum_list (map r_quantity rs)"

definition splitMark :: "time \<Rightarrow> receipt \<Rightarrow> receipt" where
  "splitMark now r = r\<lparr>r_status := SPLIT, r_isParent := True, r_supersededAt := Some now\<rparr>"

definition events_wf :: "inv_event list \<Rightarrow> bool" where
  "events_wf es \<longleftrightarrow> distinct (map e_id es) \<and>
     (\<forall>e \<in> set es. \<exists>k. e_idempotencyKey e = Some k) \<and> distinct (map e_idempotencyKey es)"

text \<open>A child of a split: a fresh leaf under its source, in the source's tree.\<close>

definition child_of :: "receipt \<Rightarrow> receipt \<Rightarrow> bool" where
  "child_of src k \<longleftrightarrow>
     r_parentReceiptId k = Some (r_id src) \<and> r_rootReceiptId k = r_rootReceiptId src \<and>
     r_tenantId k = r_tenantId src \<and> r_commodityId k = r_commodityId src \<and>
     r_warehouseId k = r_warehouseId src \<and> \<not> r_isParent k \<and>
     on_scale 3 (r_quantity k) \<and> 0 \<le> r_quantity k \<and> fits 18 3 (r_quantity k) \<and>
     (r_status k = ACTIVE \<and> r_approvalStatus k = APPROVED \<or> r_status k = SEIZED \<or>
      r_status k \<in> set HELD)"

text \<open>
  A move is indexed by the volume it gains: nothing, but for a split cut at half a
  thousandth, where both parts are rounded up by the column.
\<close>

inductive ledger_move :: "dec \<Rightarrow> 'z ledger_scheme \<Rightarrow> 'z ledger_scheme \<Rightarrow> bool" where
  in_place: "\<lbrakk>r \<in> set (receipts s); \<And>x. same_identity x (f x);
      lifecycle (r_status r) (r_approvalStatus r) (r_status (f r)) (r_approvalStatus (f r));
      receipts s' = upd_row r_id (r_id r) f (receipts s); events s' = events s @ evs;
      events_wf (events s) \<longrightarrow> events_wf (events s'); \<forall>e \<in> set evs. e_eventType e \<noteq> E_DEPOSIT\<rbrakk>
    \<Longrightarrow> ledger_move 0 s s'"
| split: "\<lbrakk>src \<in> set (receipts s); r_status src \<in> {ACTIVE, HELD_LOAN, HELD_LIEN};
      \<forall>k \<in> set kids. child_of src k; kids \<noteq> [];
      distinct (map r_id kids); r_id ` set kids \<inter> r_id ` set (receipts s) = {};
      distinct (map r_receiptNumber kids);
      r_receiptNumber ` set kids \<inter> r_receiptNumber ` set (receipts s) = {};
      volume kids = r_quantity src + g; g = 0 \<or> g = 1 / 1000;
      receipts s' = upd_row r_id (r_id src) (splitMark now) (receipts s) @ kids;
      events s' = events s @ evs;
      events_wf (events s) \<longrightarrow> events_wf (events s'); \<forall>e \<in> set evs. e_eventType e \<noteq> E_DEPOSIT\<rbrakk>
    \<Longrightarrow> ledger_move g s s'"
| root: "\<lbrakk>r_id r \<notin> r_id ` set (receipts s); r_receiptNumber r \<notin> r_receiptNumber ` set (receipts s);
      r_status r = PENDING_APPROVAL; r_approvalStatus r = PENDING; \<not> r_isParent r;
      r_parentReceiptId r = None; r_rootReceiptId r = r_id r;
      on_scale 3 (r_quantity r); 0 \<le> r_quantity r; fits 18 3 (r_quantity r);
      receipts s' = receipts s @ [r]; events s' = events s @ [e];
      events_wf (events s) \<longrightarrow> events_wf (events s');
      e_eventType e = E_DEPOSIT; e_rootReceiptId e = r_id r; e_quantity e = r_quantity r\<rbrakk>
    \<Longrightarrow> ledger_move 0 s s'"

section \<open>Well-formed ledgers\<close>

definition ids_unique :: "'z ledger_scheme \<Rightarrow> bool" where
  "ids_unique s \<longleftrightarrow> distinct (map r_id (receipts s)) \<and> distinct (map r_receiptNumber (receipts s))"

definition quantities_ok :: "'z ledger_scheme \<Rightarrow> bool" where
  "quantities_ok s \<longleftrightarrow>
     (\<forall>r \<in> set (receipts s). on_scale 3 (r_quantity r) \<and> 0 \<le> r_quantity r \<and> fits 18 3 (r_quantity r))"

definition statuses_ok :: "'z ledger_scheme \<Rightarrow> bool" where
  "statuses_ok s \<longleftrightarrow>
     (\<forall>r \<in> set (receipts s). (r_isParent r \<longleftrightarrow> r_status r = SPLIT) \<and>
        (r_status r = ACTIVE \<longrightarrow> r_approvalStatus r = APPROVED) \<and>
        (r_status r = PENDING_APPROVAL \<longrightarrow> r_approvalStatus r = PENDING) \<and> r_status r \<noteq> TRADED_OUT)"

text \<open>A parent stands before its children and shares their root; a root is its own.\<close>

definition tree_ok :: "'z ledger_scheme \<Rightarrow> bool" where
  "tree_ok s \<longleftrightarrow>
     (\<forall>i < length (receipts s).
        case r_parentReceiptId (receipts s ! i) of
          None \<Rightarrow> r_rootReceiptId (receipts s ! i) = r_id (receipts s ! i)
        | Some p \<Rightarrow> (\<exists>j < i. r_id (receipts s ! j) = p \<and> r_isParent (receipts s ! j) \<and>
            r_rootReceiptId (receipts s ! j) = r_rootReceiptId (receipts s ! i) \<and>
            r_tenantId (receipts s ! j) = r_tenantId (receipts s ! i)))"

definition genesis_ok :: "'z ledger_scheme \<Rightarrow> bool" where
  "genesis_ok s \<longleftrightarrow>
     (\<forall>e \<in> set (events s). e_eventType e = E_DEPOSIT \<longrightarrow>
        (\<exists>r \<in> set (receipts s). r_id r = e_rootReceiptId e \<and> r_quantity r = e_quantity e)) \<and>
     (\<forall>r \<in> set (receipts s). r_parentReceiptId r = None \<longrightarrow>
        (\<exists>e \<in> set (events s). e_eventType e = E_DEPOSIT \<and> e_rootReceiptId e = r_id r \<and>
           e_quantity e = r_quantity r))"

definition ledger_wf :: "'z ledger_scheme \<Rightarrow> bool" where
  "ledger_wf s \<longleftrightarrow> ids_unique s \<and> quantities_ok s \<and> statuses_ok s \<and> tree_ok s \<and>
     events_wf (events s) \<and> genesis_ok s"

lemmas ledger_wf_defs = ids_unique_def quantities_ok_def statuses_ok_def tree_ok_def genesis_ok_def

section \<open>Results of the primitives\<close>

lemma createReceipt_Inr_iff:
  "createReceipt r s = Inr (row, s') \<longleftrightarrow>
     r_id r \<notin> r_id ` set (receipts s) \<and> r_receiptNumber r \<notin> r_receiptNumber ` set (receipts s) \<and>
     fits 18 3 (r_quantity r) \<and> row = r\<lparr>r_quantity := to_scale 3 (r_quantity r)\<rparr> \<and>
     s' = s\<lparr>receipts := receipts s @ [row]\<rparr>"
  by (auto simp: createReceipt_def Let_def)

lemma updateReceipt_Inr_iff:
  "updateReceipt i f s = Inr (row, s') \<longleftrightarrow>
     (\<exists>r. find_row r_id i (receipts s) = Some r \<and> row = f r) \<and>
     s' = s\<lparr>receipts := upd_row r_id i f (receipts s)\<rparr>"
  by (auto simp: updateReceipt_def split: option.splits)

lemma event_Inr_iff:
  "event e s = Inr (row, s') \<longleftrightarrow>
     e_id e \<notin> e_id ` set (events s) \<and>
     (e_idempotencyKey e \<noteq> None \<longrightarrow> e_idempotencyKey e \<notin> e_idempotencyKey ` set (events s)) \<and>
     fits 18 3 (e_quantity e) \<and> row = e\<lparr>e_quantity := to_scale 3 (e_quantity e)\<rparr> \<and>
     s' = s\<lparr>events := events s @ [row]\<rparr>"
  by (auto simp: event_def Let_def)

lemma loadOrThrow_Inr_iff:
  "loadOrThrow s i tenantId = Inr r \<longleftrightarrow>
     find (\<lambda>r. r_id r = i \<and> r_tenantId r = tenantId) (receipts s) = Some r"
  by (auto simp: loadOrThrow_def split: option.splits)

lemma loadOrThrow_InrD:
  "loadOrThrow s i tenantId = Inr r \<Longrightarrow> r \<in> set (receipts s) \<and> r_id r = i \<and> r_tenantId r = tenantId"
  unfolding loadOrThrow_Inr_iff by (rule find_SomeD)

lemma assertHeld_Inr_iff [simp]: "assertHeld r = Inr u \<longleftrightarrow> r_status r \<in> set HELD"
  by (simp add: assertHeld_def)

lemmas tx_results = createReceipt_Inr_iff updateReceipt_Inr_iff event_Inr_iff andThen_Inr_iff

lemma events_wf_snoc:
  assumes "events_wf es" and "e_id e \<notin> e_id ` set es"
    and "e_idempotencyKey e = Some k" and "Some k \<notin> e_idempotencyKey ` set es"
  shows "events_wf (es @ [e])"
  using assms by (auto simp: events_wf_def)

lemma eventOn_simps [simp]:
  "e_id (eventOn evId a r ty qty t x) = evId"
  "e_idempotencyKey (eventOn evId a r ty qty t x) = Some (a_idempotencyKey a)"
  "e_eventType (eventOn evId a r ty qty t x) = ty"
  "e_quantity (eventOn evId a r ty qty t x) = qty"
  "e_fromReceiptId (eventOn evId a r ty qty t x) = Some (r_id r)"
  "e_tenantId (eventOn evId a r ty qty t x) = a_tenantId a"
  "e_rootReceiptId (eventOn evId a r ty qty t x) = r_rootReceiptId r"
  by (simp_all add: eventOn_def)

section \<open>Every operation is a move\<close>

text \<open>One event, then one row changed in place: eight operations have this shape.\<close>

lemma event_then_update_move:
  assumes "event e s = Inr (ev, s1)" and "updateReceipt (r_id r) f s1 = Inr (row, s')"
    and "r \<in> set (receipts s)" and "\<And>x. same_identity x (f x)"
    and "lifecycle (r_status r) (r_approvalStatus r) (r_status (f r)) (r_approvalStatus (f r))"
    and "e_idempotencyKey e = Some k" and "e_eventType e \<noteq> E_DEPOSIT"
  shows "ledger_move 0 s s'"
proof (rule ledger_move.in_place [OF assms(3-5)])
  from assms(1,2) show "receipts s' = upd_row r_id (r_id r) f (receipts s)"
    and "events s' = events s @ [ev]" by (auto simp: tx_results)
  then show "events_wf (events s) \<longrightarrow> events_wf (events s')"
    using assms(1,6) by (auto simp: event_Inr_iff intro!: events_wf_snoc)
  show "\<forall>e \<in> set [ev]. e_eventType e \<noteq> E_DEPOSIT" using assms(1,7) by (auto simp: event_Inr_iff)
qed

lemma approveReceiptTx_move:
  "approveReceiptTx evId now a g sc s = Inr (row, s') \<Longrightarrow> ledger_move 0 s s'"
  unfolding approveReceiptTx_def andThen_Inr_iff
  by (auto dest!: loadOrThrow_InrD intro: event_then_update_move [where k = "a_idempotencyKey a"]
      simp: same_identity_def lifecycle.approve)

lemma rejectReceiptTx_move:
  "rejectReceiptTx evId now a reason s = Inr (row, s') \<Longrightarrow> ledger_move 0 s s'"
  unfolding rejectReceiptTx_def andThen_Inr_iff
  by (auto dest!: loadOrThrow_InrD intro: event_then_update_move [where k = "a_idempotencyKey a"]
      simp: same_identity_def lifecycle.reject)

lemma event_keeps_wf:
  assumes "event e s = Inr (ev, s1)" and "e_idempotencyKey e = Some k" and "events_wf (events s)"
  shows "events_wf (events s1)"
  using assms by (auto simp: event_Inr_iff intro!: events_wf_snoc)

lemma approveHoldTx_move:
  "approveHoldTx evId now a s = Inr (row, s') \<Longrightarrow> ledger_move 0 s s'"
  unfolding approveHoldTx_def andThen_Inr_iff
  by (auto dest!: loadOrThrow_InrD intro!: lifecycle.approve_hold
      intro: event_then_update_move [where k = "a_idempotencyKey a"] simp: same_identity_def)

lemma releaseTx_move:
  "releaseTx evId a reason s = Inr (row, s') \<Longrightarrow> ledger_move 0 s s'"
  unfolding releaseTx_def andThen_Inr_iff
  by (auto dest!: loadOrThrow_InrD intro!: lifecycle.release
      intro: event_then_update_move [where k = "a_idempotencyKey a"] simp: same_identity_def)

lemma consumeTx_move:
  "consumeTx evId a s = Inr (row, s') \<Longrightarrow> ledger_move 0 s s'"
  unfolding consumeTx_def andThen_Inr_iff
  by (auto dest!: loadOrThrow_InrD intro!: lifecycle.consume
      intro: event_then_update_move [where k = "a_idempotencyKey a"] simp: same_identity_def)

lemma transitionPledgeToLienTx_move:
  "transitionPledgeToLienTx evId a p m s = Inr (row, s') \<Longrightarrow> ledger_move 0 s s'"
  unfolding transitionPledgeToLienTx_def andThen_Inr_iff
  by (auto dest!: loadOrThrow_InrD intro: event_then_update_move [where k = "a_idempotencyKey a"]
      simp: same_identity_def lifecycle.to_lien)

lemma transferOwnershipTx_move:
  "transferOwnershipTx evId a o' t x s = Inr (row, s') \<Longrightarrow> ledger_move 0 s s'"
  unfolding transferOwnershipTx_def andThen_Inr_iff
  by (auto dest!: loadOrThrow_InrD intro: event_then_update_move [where k = "a_idempotencyKey a"]
      simp: same_identity_def lifecycle.unchanged)

lemma expireTx_move:
  "expireTx evId a s = Inr (row, s') \<Longrightarrow> ledger_move 0 s s'"
  unfolding expireTx_def andThen_Inr_iff
  by (auto dest!: loadOrThrow_InrD intro: event_then_update_move [where k = "a_idempotencyKey a"]
      simp: same_identity_def lifecycle.expire)

text \<open>A sale's callback writes other tables: it leaves the ledger's own alone.\<close>

definition keeps_ledger :: "(receipt \<Rightarrow> 'z ledger_scheme \<Rightarrow> err + unit \<times> 'z ledger_scheme) option \<Rightarrow> bool" where
  "keeps_ledger w \<longleftrightarrow>
     (\<forall>g. w = Some g \<longrightarrow> (\<forall>r s u s'. g r s = Inr (u, s') \<longrightarrow> receipts s' = receipts s \<and> events s' = events s))"

lemma transferAndReleaseTx_move:
  assumes run: "transferAndReleaseTx evId evId2 a o' t x w s = Inr (row, s')" and "keeps_ledger w"
  shows "ledger_move 0 s s'"
proof -
  let ?f = "\<lambda>y. y\<lparr>r_clientId := o', r_status := ACTIVE, r_approvalStatus := APPROVED\<rparr>"
  obtain r e1 s1 e2 s2 s3 where
    r: "loadOrThrow s (a_receiptId a) (a_tenantId a) = Inr r" "r_status r \<in> set HELD"
    and e1: "event ((eventOn evId a r E_OWNERSHIP_TRANSFERRED (r_quantity r) (Some t) (Some x))\<lparr>
               e_metadata := Some [(''from'', r_clientId r), (''to'', o')]\<rparr>) s = Inr (e1, s1)"
    and e2: "event ((eventOn evId2 a r E_HOLD_RELEASED (r_quantity r) (Some t) (Some x))\<lparr>
               e_idempotencyKey := Some (a_idempotencyKey a @ '':release''),
               e_reversalOfEventId := r_sourceEventId r\<rparr>) s1 = Inr (e2, s2)"
    and u: "updateReceipt (r_id r) ?f s2 = Inr (row, s3)"
    and w: "case w of None \<Rightarrow> s' = s3 | Some g \<Rightarrow> \<exists>u. g row s3 = Inr (u, s')"
    using run unfolding transferAndReleaseTx_def andThen_Inr_iff
    by (auto simp: andThen_Inr_iff split: option.splits)
  have rows: "receipts s' = receipts s3 \<and> events s' = events s3"
    using w assms(2) by (auto simp: keeps_ledger_def split: option.splits)
  have evs: "events s' = events s @ [e1, e2]" and rs: "receipts s' = upd_row r_id (r_id r) ?f (receipts s)"
    using rows e1 e2 u by (auto simp: tx_results)
  have "events_wf (events s) \<longrightarrow> events_wf (events s2)"
    using event_keeps_wf [OF e1] event_keeps_wf [OF e2] by simp
  moreover have "events s' = events s2" using rows u by (auto simp: tx_results)
  ultimately have wf: "events_wf (events s) \<longrightarrow> events_wf (events s')" by simp
  show ?thesis
  proof (rule ledger_move.in_place [of r s ?f s' "[e1, e2]"])
    show "r \<in> set (receipts s)" using r(1) by (auto dest: loadOrThrow_InrD)
    show "same_identity y (?f y)" for y by (simp add: same_identity_def)
    show "lifecycle (r_status r) (r_approvalStatus r) (r_status (?f r)) (r_approvalStatus (?f r))"
      using r(2) by (auto intro: lifecycle.release)
  qed (use evs rs wf e1 e2 in \<open>auto simp: event_Inr_iff\<close>)
qed

section \<open>Splits\<close>

lemma childData_simps [simp]:
  "r_id (childData i n src q e) = i"
  "r_receiptNumber (childData i n src q e) = n"
  "r_tenantId (childData i n src q e) = r_tenantId src"
  "r_commodityId (childData i n src q e) = r_commodityId src"
  "r_warehouseId (childData i n src q e) = r_warehouseId src"
  "r_quantity (childData i n src q e) = q"
  "r_parentReceiptId (childData i n src q e) = Some (r_id src)"
  "r_rootReceiptId (childData i n src q e) = r_rootReceiptId src"
  "r_sourceEventId (childData i n src q e) = Some e"
  "r_isParent (childData i n src q e) = False"
  by (simp_all add: childData_def receipt_defaults_def)

definition kidsOf :: "receipt \<Rightarrow> receipt option \<Rightarrow> receipt list" where
  "kidsOf p rem = p # (case rem of None \<Rightarrow> [] | Some k \<Rightarrow> [k])"

lemma partition_steps:
  assumes "partition id1 id2 now src q ps ev s = Inr ((p, rem), s')"
  obtains n1 n2 s1 s2 row where
    "createReceipt ((childData id1 n1 src q ev)\<lparr>
        r_status := ps_status ps, r_approvalStatus := ps_approvalStatus ps,
        r_clientId := ps_clientId ps, r_sourceTxnType := ps_sourceTxnType ps,
        r_sourceTxnId := ps_sourceTxnId ps\<rparr>) s = Inr (p, s1)"
    "case rem of None \<Rightarrow> r_quantity src \<le> q \<and> s2 = s1
     | Some k \<Rightarrow> q < r_quantity src \<and> createReceipt ((childData id2 n2 src (r_quantity src - q) ev)\<lparr>
          r_status := ACTIVE, r_approvalStatus := APPROVED, r_clientId := r_clientId src\<rparr>) s1 = Inr (k, s2)"
    "updateReceipt (r_id src) (splitMark now) s2 = Inr (row, s')"
proof -
  have mark: "(\<lambda>r. r\<lparr>r_status := SPLIT, r_isParent := True, r_supersededAt := Some now\<rparr>) = splitMark now"
    by (simp add: fun_eq_iff splitMark_def)
  show ?thesis
    using assms that unfolding partition_def Let_def andThen_Inr_iff mark
    by (auto simp: andThen_Inr_iff split: if_splits)
qed

lemma partition_result:
  assumes run: "partition id1 id2 now src q ps ev s = Inr ((p, rem), s')"
    and src: "r_id src \<in> r_id ` set (receipts s)"
  shows "receipts s' = upd_row r_id (r_id src) (splitMark now) (receipts s) @ kidsOf p rem"
    and "events s' = events s"
    and "rem = None \<longleftrightarrow> r_quantity src \<le> q"
    and "r_quantity p = to_scale 3 q" and "fits 18 3 q"
    and "p = (childData (r_id p) (r_receiptNumber p) src (r_quantity p) ev)\<lparr>
            r_status := ps_status ps, r_approvalStatus := ps_approvalStatus ps,
            r_clientId := ps_clientId ps, r_sourceTxnType := ps_sourceTxnType ps,
            r_sourceTxnId := ps_sourceTxnId ps\<rparr>"
    and "rem = Some k \<Longrightarrow> r_quantity k = to_scale 3 (r_quantity src - q) \<and> fits 18 3 (r_quantity src - q) \<and>
       k = (childData (r_id k) (r_receiptNumber k) src (r_quantity k) ev)\<lparr>
         r_status := ACTIVE, r_approvalStatus := APPROVED, r_clientId := r_clientId src\<rparr>"
    and "distinct (map r_id (kidsOf p rem))" "r_id ` set (kidsOf p rem) \<inter> r_id ` set (receipts s) = {}"
    and "distinct (map r_receiptNumber (kidsOf p rem))"
      "r_receiptNumber ` set (kidsOf p rem) \<inter> r_receiptNumber ` set (receipts s) = {}"
proof -
  from partition_steps [OF run] obtain n1 n2 s1 s2 row where
    c1: "createReceipt ((childData id1 n1 src q ev)\<lparr>
            r_status := ps_status ps, r_approvalStatus := ps_approvalStatus ps,
            r_clientId := ps_clientId ps, r_sourceTxnType := ps_sourceTxnType ps,
            r_sourceTxnId := ps_sourceTxnId ps\<rparr>) s = Inr (p, s1)"
    and c2: "case rem of None \<Rightarrow> r_quantity src \<le> q \<and> s2 = s1
       | Some k \<Rightarrow> q < r_quantity src \<and> createReceipt ((childData id2 n2 src (r_quantity src - q) ev)\<lparr>
            r_status := ACTIVE, r_approvalStatus := APPROVED, r_clientId := r_clientId src\<rparr>) s1 = Inr (k, s2)"
    and c3: "updateReceipt (r_id src) (splitMark now) s2 = Inr (row, s')" .
  note c1 = c1 [unfolded createReceipt_Inr_iff]
  show facts: "events s' = events s" "rem = None \<longleftrightarrow> r_quantity src \<le> q"
    "r_quantity p = to_scale 3 q" "fits 18 3 q"
    using c1 c2 c3 by (auto simp: updateReceipt_Inr_iff createReceipt_Inr_iff split: option.splits)
  show "p = (childData (r_id p) (r_receiptNumber p) src (r_quantity p) ev)\<lparr>
            r_status := ps_status ps, r_approvalStatus := ps_approvalStatus ps,
            r_clientId := ps_clientId ps, r_sourceTxnType := ps_sourceTxnType ps,
            r_sourceTxnId := ps_sourceTxnId ps\<rparr>"
    using c1 by (auto simp: childData_def)
  show "rem = Some k \<Longrightarrow> r_quantity k = to_scale 3 (r_quantity src - q) \<and> fits 18 3 (r_quantity src - q) \<and>
       k = (childData (r_id k) (r_receiptNumber k) src (r_quantity k) ev)\<lparr>
         r_status := ACTIVE, r_approvalStatus := APPROVED, r_clientId := r_clientId src\<rparr>"
    using c2 by (auto simp: createReceipt_Inr_iff childData_def)
  have rows: "receipts s2 = receipts s @ kidsOf p rem"
    using c1 c2 by (auto simp: createReceipt_Inr_iff kidsOf_def split: option.splits)
  show fresh: "r_id ` set (kidsOf p rem) \<inter> r_id ` set (receipts s) = {}"
    using c1 c2 by (auto simp: createReceipt_Inr_iff kidsOf_def split: option.splits)
  with src have "r_id src \<notin> r_id ` set (kidsOf p rem)" by blast
  with rows c3 show "receipts s' = upd_row r_id (r_id src) (splitMark now) (receipts s) @ kidsOf p rem"
    by (simp add: updateReceipt_Inr_iff upd_row_notin)
  show "distinct (map r_id (kidsOf p rem))" "distinct (map r_receiptNumber (kidsOf p rem))"
    "r_receiptNumber ` set (kidsOf p rem) \<inter> r_receiptNumber ` set (receipts s) = {}"
    using c1 c2 by (auto simp: createReceipt_Inr_iff kidsOf_def split: option.splits)
qed

definition roundingGain :: "dec \<Rightarrow> dec" where
  "roundingGain q = (if ties 3 q then 1 / 1000 else 0)"

lemma split_volume:
  assumes "0 \<le> q" and "q \<le> t" and "on_scale 3 t"
  shows "to_scale 3 q + (if t \<le> q then 0 else to_scale 3 (t - q)) = t + roundingGain q"
proof (cases "t \<le> q")
  case True
  with assms have "q = t" by simp
  with assms on_scale_not_ties show ?thesis by (simp add: to_scale_id roundingGain_def)
next
  case False
  with to_scale_split [OF assms] show ?thesis by (simp add: roundingGain_def)
qed

lemma child_ofI:
  assumes "k = (childData i n src q ev)\<lparr>r_status := st, r_approvalStatus := ap, r_clientId := c,
      r_sourceTxnType := t, r_sourceTxnId := x\<rparr>"
    and "on_scale 3 q" "0 \<le> q" "fits 18 3 q"
    and "st = ACTIVE \<and> ap = APPROVED \<or> st = SEIZED \<or> st \<in> set HELD"
  shows "child_of src k"
  using assms by (auto simp: child_of_def)

lemma partition_move:
  assumes e: "event e s = Inr (ev, s1)" "e_idempotencyKey e = Some k" "e_eventType e \<noteq> E_DEPOSIT"
    and run: "partition id1 id2 now src q ps (e_id ev) s1 = Inr ((p, rem), s')"
    and src: "src \<in> set (receipts s)" "r_status src \<in> {ACTIVE, HELD_LOAN, HELD_LIEN}"
    and q: "0 < q" "q \<le> r_quantity src" "on_scale 3 (r_quantity src)"
    and ps: "ps_status ps = SEIZED \<or> ps_status ps \<in> set HELD"
  shows "ledger_move (roundingGain q) s s'"
proof -
  have s1: "receipts s1 = receipts s" "events s1 = events s @ [ev]" "e_eventType ev \<noteq> E_DEPOSIT"
    using e by (auto simp: event_Inr_iff)
  have wf: "events_wf (events s) \<longrightarrow> events_wf (events s1)" using event_keeps_wf [OF e(1,2)] by simp
  have "r_id src \<in> r_id ` set (receipts s1)" using src(1) s1 by simp
  note res = partition_result [OF run this]
  have p: "r_quantity p = to_scale 3 q" "fits 18 3 q"
    "p = (childData (r_id p) (r_receiptNumber p) src (r_quantity p) (e_id ev))\<lparr>
            r_status := ps_status ps, r_approvalStatus := ps_approvalStatus ps,
            r_clientId := ps_clientId ps, r_sourceTxnType := ps_sourceTxnType ps,
            r_sourceTxnId := ps_sourceTxnId ps\<rparr>" by (fact res)+
  have "child_of src p"
    by (rule child_ofI [OF p(3)]) (use p(1,2) q ps in \<open>auto simp: to_scale_nonneg\<close>)
  moreover have "child_of src x" if "rem = Some x" for x
  proof -
    from res(7) [OF that] have x: "r_quantity x = to_scale 3 (r_quantity src - q)"
      "fits 18 3 (r_quantity src - q)"
      "x = (childData (r_id x) (r_receiptNumber x) src (r_quantity x) (e_id ev))\<lparr>
         r_status := ACTIVE, r_approvalStatus := APPROVED, r_clientId := r_clientId src\<rparr>" by auto
    show ?thesis
      by (rule ssubst [OF x(3), of "child_of src"])
        (use x(1,2) q in \<open>simp add: to_scale_nonneg child_of_def\<close>)
  qed
  ultimately have kids: "\<forall>x \<in> set (kidsOf p rem). child_of src x"
    by (auto simp: kidsOf_def split: option.splits)
  have vol: "volume (kidsOf p rem) = r_quantity src + roundingGain q"
    using split_volume [OF _ q(2,3)] q(1) res(3,4,7)
    by (auto simp: kidsOf_def volume_def split: option.splits if_splits)
  show ?thesis
    by (rule ledger_move.split [OF src kids _ res(8) _ res(10) _ vol, where evs = "[ev]"])
      (use res(1,2,9,11) s1 wf in \<open>auto simp: kidsOf_def roundingGain_def\<close>)
qed

lemma holdTx_move:
  assumes run: "holdTx evId id1 id2 now inp s = Inr (res, s')" and "quantities_ok s"
  shows "ledger_move (roundingGain (h_quantity inp)) s s'"
proof -
  obtain src e ev s1 ps p rem where
    l: "loadOrThrow s (h_sourceReceiptId inp) (h_tenantId inp) = Inr src" "r_status src = ACTIVE"
      "0 < h_quantity inp" "h_quantity inp \<le> r_quantity src"
    and e: "event e s = Inr (ev, s1)" "e_idempotencyKey e = Some (h_idempotencyKey inp)"
      "e_eventType e \<noteq> E_DEPOSIT"
    and p: "partition id1 id2 now src (h_quantity inp) ps (e_id ev) s1 = Inr ((p, rem), s')"
    and ps: "ps_status ps = SEIZED \<or> ps_status ps \<in> set HELD"
    using run unfolding holdTx_def
    by (auto simp: andThen_Inr_iff linorder_not_less)
  show ?thesis
    by (rule partition_move [OF e p _ _ _ _ _ ps])
      (use loadOrThrow_InrD [OF l(1)] l assms(2) in \<open>auto simp: quantities_ok_def\<close>)
qed

lemma seizeTx_move:
  assumes run: "seizeTx evId id1 id2 now a fin pq s = Inr (res, s')" and "quantities_ok s"
  shows "ledger_move (case pq of None \<Rightarrow> 0 | Some q \<Rightarrow> roundingGain q) s s'"
proof (cases pq)
  case None
  with run show ?thesis unfolding seizeTx_def andThen_Inr_iff
    by (auto simp: andThen_Inr_iff same_identity_def lifecycle.seize dest!: loadOrThrow_InrD
        intro: event_then_update_move [where k = "a_idempotencyKey a"])
next
  case (Some q)
  obtain src e ev s1 ps p rem where
    l: "loadOrThrow s (a_receiptId a) (a_tenantId a) = Inr src" "r_status src = HELD_LOAN"
      "0 < q" "q \<le> r_quantity src"
    and e: "event e s = Inr (ev, s1)" "e_idempotencyKey e = Some (a_idempotencyKey a)"
      "e_eventType e \<noteq> E_DEPOSIT"
    and p: "partition id1 id2 now src q ps (e_id ev) s1 = Inr ((p, rem), s')"
    and ps: "ps_status ps = SEIZED \<or> ps_status ps \<in> set HELD"
    using run Some unfolding seizeTx_def
    by (auto simp: andThen_Inr_iff linorder_not_less not_le)
  have "ledger_move (roundingGain q) s s'"
    by (rule partition_move [OF e p _ _ _ _ _ ps])
      (use loadOrThrow_InrD [OF l(1)] l assms(2) in \<open>auto simp: quantities_ok_def\<close>)
  with Some show ?thesis by simp
qed

lemma releasePartialTx_move:
  assumes run: "releasePartialTx evId id1 id2 now inp s = Inr (res, s')" and ok: "quantities_ok s"
  shows "ledger_move (roundingGain (rp_releaseQuantity inp)) s s'"
proof -
  let ?q = "rp_releaseQuantity inp"
  have mark: "(\<lambda>r. r\<lparr>r_status := SPLIT, r_isParent := True, r_supersededAt := Some now\<rparr>) = splitMark now"
    by (simp add: fun_eq_iff splitMark_def)
  obtain src e ev s1 n1 n2 k1 k2 s2 s3 row where
    l: "loadOrThrow s (rp_heldReceiptId inp) (rp_tenantId inp) = Inr src" "r_status src = HELD_LIEN"
      "0 < ?q" "?q < r_quantity src"
    and e: "event e s = Inr (ev, s1)" "e_idempotencyKey e = Some (rp_idempotencyKey inp)"
      "e_eventType e \<noteq> E_DEPOSIT"
    and c1: "createReceipt ((childData id1 n1 src ?q (e_id ev))\<lparr>
          r_status := ACTIVE, r_approvalStatus := APPROVED, r_clientId := r_clientId src\<rparr>) s1 = Inr (k1, s2)"
    and c2: "createReceipt ((childData id2 n2 src (r_quantity src - ?q) (e_id ev))\<lparr>
          r_status := HELD_LIEN, r_approvalStatus := r_approvalStatus src,
          r_clientId := r_clientId src, r_sourceTxnType := r_sourceTxnType src,
          r_sourceTxnId := r_sourceTxnId src\<rparr>) s2 = Inr (k2, s3)"
    and u: "updateReceipt (r_id src) (splitMark now) s3 = Inr (row, s')"
    using run unfolding releasePartialTx_def Let_def mark
    by (auto simp: andThen_Inr_iff linorder_not_less not_le)
  note c1 = c1 [unfolded createReceipt_Inr_iff] and c2 = c2 [unfolded createReceipt_Inr_iff]
  from loadOrThrow_InrD [OF l(1)] have src: "src \<in> set (receipts s)" by simp
  with ok have os: "on_scale 3 (r_quantity src)" by (simp add: quantities_ok_def)
  have s1: "receipts s1 = receipts s" "events s1 = events s @ [ev]" "e_eventType ev \<noteq> E_DEPOSIT"
    using e by (auto simp: event_Inr_iff)
  have wf: "events_wf (events s) \<longrightarrow> events_wf (events s1)" using event_keeps_wf [OF e(1,2)] by simp
  have kids: "\<forall>x \<in> set [k1, k2]. child_of src x"
    using c1 c2 l(3,4) by (auto simp: child_of_def to_scale_nonneg)
  have vol: "volume [k1, k2] = r_quantity src + roundingGain ?q"
    using split_volume [of ?q "r_quantity src"] l(3,4) os c1 c2 by (simp add: volume_def)
  have r3: "receipts s3 = receipts s @ [k1, k2]" "events s3 = events s1" using c1 c2 s1 by auto
  have "r_id src \<notin> r_id ` set [k1, k2]" using c1 c2 s1(1) src by auto
  with u r3 have s': "receipts s' = upd_row r_id (r_id src) (splitMark now) (receipts s) @ [k1, k2]"
    "events s' = events s1"
    by (simp_all add: updateReceipt_Inr_iff upd_row_notin)
  show ?thesis
    by (rule ledger_move.split [OF src _ kids _ _ _ _ _ vol, where evs = "[ev]"])
      (use s' s1 wf l(2) c1 c2 in \<open>auto simp: roundingGain_def\<close>)
qed

lemma depositTx_move:
  assumes run: "depositTx i evId y inp s = Inr (row, s')" and pos: "0 < di_quantity inp"
  shows "ledger_move 0 s s'"
proof -
  have "\<exists>r0 r s1 e ev s2. createReceipt r0 s = Inr (r, s1) \<and> event e s1 = Inr (ev, s2) \<and>
      updateReceipt i (\<lambda>r. r\<lparr>r_sourceEventId := Some (e_id ev)\<rparr>) s2 = Inr (row, s') \<and>
      r_id r0 = i \<and> r_status r0 = PENDING_APPROVAL \<and> r_approvalStatus r0 = PENDING \<and>
      \<not> r_isParent r0 \<and> r_parentReceiptId r0 = None \<and> r_rootReceiptId r0 = i \<and>
      r_quantity r0 = di_quantity inp \<and> e_idempotencyKey e = Some (di_idempotencyKey inp) \<and>
      e_eventType e = E_DEPOSIT \<and> e_rootReceiptId e = i \<and> e_quantity e = di_quantity inp"
    using run unfolding depositTx_def Let_def
    by (clarsimp simp: andThen_Inr_iff receipt_defaults_def)
      (intro exI conjI, assumption, assumption, (assumption | simp (no_asm))+)
  then obtain r0 r s1 e ev s2 where
    c: "createReceipt r0 s = Inr (r, s1)" and e: "event e s1 = Inr (ev, s2)"
      "e_idempotencyKey e = Some (di_idempotencyKey inp)"
      "e_eventType e = E_DEPOSIT" "e_rootReceiptId e = i" "e_quantity e = di_quantity inp"
    and u: "updateReceipt i (\<lambda>r. r\<lparr>r_sourceEventId := Some (e_id ev)\<rparr>) s2 = Inr (row, s')"
    and r0: "r_id r0 = i" "r_status r0 = PENDING_APPROVAL" "r_approvalStatus r0 = PENDING"
      "\<not> r_isParent r0" "r_parentReceiptId r0 = None" "r_rootReceiptId r0 = i"
      "r_quantity r0 = di_quantity inp"
    by auto
  let ?r = "r\<lparr>r_sourceEventId := Some (e_id ev)\<rparr>"
  note c = c [unfolded createReceipt_Inr_iff]
  have s2: "receipts s2 = receipts s @ [r]" "events s2 = events s @ [ev]"
    using c e by (auto simp: event_Inr_iff)
  have "receipts s' = receipts s @ [?r]" "events s' = events s @ [ev]"
    using u s2 c r0(1) by (auto simp: updateReceipt_Inr_iff upd_row_notin) (simp add: upd_row_def)
  moreover have "events_wf (events s) \<longrightarrow> events_wf (events s2)"
    using event_keeps_wf [OF e(1,2)] c by simp
  ultimately show ?thesis
    by (intro ledger_move.root [of ?r s s' ev])
      (use r0 c e s2 pos in \<open>auto simp: event_Inr_iff to_scale_nonneg\<close>)
qed

section \<open>What every move keeps\<close>

lemma map_id_upd_row:
  assumes "\<And>x. r_id (f x) = r_id x" and "\<And>x. r_receiptNumber (f x) = r_receiptNumber x"
  shows "map r_id (upd_row r_id i f rs) = map r_id rs"
    and "map r_receiptNumber (upd_row r_id i f rs) = map r_receiptNumber rs"
  using assms by (simp_all add: map_upd_row)

lemma identity_keys:
  assumes "\<And>x. same_identity x (f x)"
  shows "r_id (f x) = r_id x" "r_receiptNumber (f x) = r_receiptNumber x"
    "r_quantity (f x) = r_quantity x" "r_isParent (f x) = r_isParent x"
    "r_rootReceiptId (f x) = r_rootReceiptId x" "r_parentReceiptId (f x) = r_parentReceiptId x"
    "r_tenantId (f x) = r_tenantId x" "r_commodityId (f x) = r_commodityId x"
  using assms [of x] by (simp_all add: same_identity_def)

lemma splitMark_simps [simp]:
  "r_id (splitMark now r) = r_id r" "r_receiptNumber (splitMark now r) = r_receiptNumber r"
  "r_quantity (splitMark now r) = r_quantity r" "r_rootReceiptId (splitMark now r) = r_rootReceiptId r"
  "r_parentReceiptId (splitMark now r) = r_parentReceiptId r" "r_tenantId (splitMark now r) = r_tenantId r"
  "r_isParent (splitMark now r)" "r_status (splitMark now r) = SPLIT"
  "r_commodityId (splitMark now r) = r_commodityId r" "r_clientId (splitMark now r) = r_clientId r"
  by (simp_all add: splitMark_def)

lemma move_ids_unique: "ledger_move g s s' \<Longrightarrow> ids_unique s \<Longrightarrow> ids_unique s'"
proof (induction rule: ledger_move.induct)
  case (in_place r s f s' evs)
  then show ?case by (simp add: ids_unique_def map_id_upd_row identity_keys)
next
  case (split src s kids g s' now evs)
  then show ?case by (simp add: ids_unique_def map_id_upd_row image_Un Int_commute)
next
  case (root r s s' e)
  then show ?case by (simp add: ids_unique_def)
qed

lemma move_quantities_ok: "ledger_move g s s' \<Longrightarrow> quantities_ok s \<Longrightarrow> quantities_ok s'"
proof (induction rule: ledger_move.induct)
  case (in_place r s f s' evs)
  then show ?case by (auto simp: quantities_ok_def set_upd_row identity_keys)
next
  case (split src s kids g s' now evs)
  then show ?case by (auto simp: quantities_ok_def set_upd_row child_of_def)
next
  case (root r s s' e)
  then show ?case by (auto simp: quantities_ok_def)
qed

text \<open>A row the update hits is the row the operation loaded, ids being unique.\<close>

lemma upd_row_cases:
  assumes "ids_unique s" and "r \<in> set (receipts s)" and "y \<in> set (upd_row r_id (r_id r) f (receipts s))"
  shows "y = f r \<or> y \<in> set (receipts s) \<and> r_id y \<noteq> r_id r"
proof -
  from assms(3) obtain x where x: "x \<in> set (receipts s)" "y = (if r_id x = r_id r then f x else x)"
    by (auto simp: set_upd_row)
  moreover from assms(1) have "inj_on r_id (set (receipts s))" by (simp add: ids_unique_def distinct_map)
  ultimately show ?thesis using assms(2) by (auto dest: inj_onD)
qed

definition status_ok :: "receipt \<Rightarrow> bool" where
  "status_ok r \<longleftrightarrow> (r_isParent r \<longleftrightarrow> r_status r = SPLIT) \<and>
     (r_status r = ACTIVE \<longrightarrow> r_approvalStatus r = APPROVED) \<and>
     (r_status r = PENDING_APPROVAL \<longrightarrow> r_approvalStatus r = PENDING) \<and> r_status r \<noteq> TRADED_OUT"

lemma statuses_ok_iff: "statuses_ok s \<longleftrightarrow> (\<forall>r \<in> set (receipts s). status_ok r)"
  by (simp add: statuses_ok_def status_ok_def)

lemma lifecycle_status_ok:
  assumes "lifecycle (r_status x) (r_approvalStatus x) (r_status y) (r_approvalStatus y)"
    and "r_isParent y = r_isParent x" and "status_ok x"
  shows "status_ok y"
  using assms by (cases rule: lifecycle.cases) (auto simp: status_ok_def)

lemma child_status_ok: "child_of src k \<Longrightarrow> status_ok k"
  by (auto simp: child_of_def status_ok_def HELD_def)

lemma move_statuses_ok:
  "ledger_move g s s' \<Longrightarrow> ids_unique s \<Longrightarrow> statuses_ok s \<Longrightarrow> statuses_ok s'"
proof (induction rule: ledger_move.induct)
  case (in_place r s f s' evs)
  have "status_ok (f r)"
    using in_place.hyps(1,3) in_place.prems lifecycle_status_ok identity_keys(4) [OF in_place.hyps(2)]
    by (simp add: statuses_ok_iff)
  moreover have "y = f r \<or> y \<in> set (receipts s)" if "y \<in> set (receipts s')" for y
    using upd_row_cases [OF in_place.prems(1) in_place.hyps(1), of y f] that in_place.hyps(4) by auto
  ultimately show ?case using in_place.prems(2) by (auto simp: statuses_ok_iff)
next
  case (split src s kids g s' now evs)
  have "status_ok (splitMark now src)" by (simp add: status_ok_def)
  moreover have "y = splitMark now src \<or> y \<in> set (receipts s) \<or> y \<in> set kids" if "y \<in> set (receipts s')" for y
    using upd_row_cases [OF split.prems(1) split.hyps(1), of y "splitMark now"] that split.hyps(11) by auto
  ultimately show ?case
    using split.prems(2) split.hyps(3) child_status_ok unfolding statuses_ok_iff by blast
next
  case (root r s s' e)
  then show ?case by (auto simp: statuses_ok_iff status_ok_def)
qed

definition placed :: "receipt list \<Rightarrow> receipt \<Rightarrow> bool" where
  "placed older r \<longleftrightarrow>
     (case r_parentReceiptId r of
        None \<Rightarrow> r_rootReceiptId r = r_id r
      | Some p \<Rightarrow> (\<exists>x \<in> set older. r_id x = p \<and> r_isParent x \<and>
          r_rootReceiptId x = r_rootReceiptId r \<and> r_tenantId x = r_tenantId r))"

lemma tree_ok_iff:
  "tree_ok s \<longleftrightarrow> (\<forall>i < length (receipts s). placed (take i (receipts s)) (receipts s ! i))"
  unfolding tree_ok_def placed_def
  by (intro all_cong1 imp_cong refl) (auto simp: nth_image [symmetric] split: option.split)

lemma placed_map:
  assumes "placed older r" and "\<And>x. r_id (f x) = r_id x" "\<And>x. r_rootReceiptId (f x) = r_rootReceiptId x"
    "\<And>x. r_parentReceiptId (f x) = r_parentReceiptId x" "\<And>x. r_tenantId (f x) = r_tenantId x"
    "\<And>x. r_isParent x \<Longrightarrow> r_isParent (f x)"
  shows "placed (map f older) (f r)"
  using assms by (auto simp: placed_def split: option.splits) 

lemma placed_more: "placed older r \<Longrightarrow> placed (older @ newer) r"
  by (auto simp: placed_def split: option.splits)

lemma tree_map:
  assumes "tree_ok s" and "receipts s' = map f (receipts s)" and "\<And>x. r_id (f x) = r_id x"
    "\<And>x. r_rootReceiptId (f x) = r_rootReceiptId x" "\<And>x. r_parentReceiptId (f x) = r_parentReceiptId x"
    "\<And>x. r_tenantId (f x) = r_tenantId x" "\<And>x. r_isParent x \<Longrightarrow> r_isParent (f x)"
  shows "tree_ok s'"
  using assms placed_map [where f = f] by (auto simp: tree_ok_iff take_map)

lemma tree_append:
  assumes "tree_ok s" and "receipts s' = receipts s @ kids" and "\<forall>k \<in> set kids. placed (receipts s) k"
  shows "tree_ok s'"
  unfolding tree_ok_iff
proof (intro allI impI)
  fix i assume i: "i < length (receipts s')"
  show "placed (take i (receipts s')) (receipts s' ! i)"
  proof (cases "i < length (receipts s)")
    case True
    with assms show ?thesis by (simp add: tree_ok_iff nth_append)
  next
    case False
    with i assms have "placed (receipts s) (receipts s' ! i)" by (simp add: nth_append)
    with False assms(2) show ?thesis by (simp add: placed_more)
  qed
qed

lemma move_tree_ok: "ledger_move g s s' \<Longrightarrow> tree_ok s \<Longrightarrow> tree_ok s'"
proof (induction rule: ledger_move.induct)
  case (in_place r s f s' evs)
  note k = identity_keys [OF in_place.hyps(2)]
  show ?case
    by (rule tree_map [OF in_place.prems in_place.hyps(4) [unfolded upd_row_def]]) (simp_all add: k)
next
  case (split src s kids g s' now evs)
  let ?m = "s\<lparr>receipts := upd_row r_id (r_id src) (splitMark now) (receipts s)\<rparr>"
  have "tree_ok ?m"
    by (rule tree_map [OF split.prems, where f = "\<lambda>x. if r_id x = r_id src then splitMark now x else x"])
      (simp_all add: upd_row_def)
  then show ?case
  proof (rule tree_append)
    show "receipts s' = receipts ?m @ kids" using split.hyps(11) by simp
    have "splitMark now src \<in> set (receipts ?m)" using split.hyps(1) by (auto simp: set_upd_row)
    then show "\<forall>k \<in> set kids. placed (receipts ?m) k"
      using split.hyps(3) by (intro ballI) (auto simp: placed_def child_of_def intro!: bexI [of _ "splitMark now src"])
  qed
next
  case (root r s s' e)
  then show ?case by (auto intro!: tree_append [of s s' "[r]"] simp: placed_def)
qed

lemma move_events_wf: "ledger_move g s s' \<Longrightarrow> events_wf (events s) \<Longrightarrow> events_wf (events s')"
  by (auto elim: ledger_move.cases)

lemma kept_row:
  "r \<in> set rs \<Longrightarrow> (if r_id r = i then f r else r) \<in> set (upd_row r_id i f rs)"
  by (auto simp: set_upd_row)

lemma genesis_keeps:
  assumes "genesis_ok s" and "\<forall>r \<in> set (receipts s). g r \<in> set (receipts s')"
    and "\<And>r. r_id (g r) = r_id r" "\<And>r. r_quantity (g r) = r_quantity r"
    and "\<forall>r' \<in> set (receipts s'). r_parentReceiptId r' = None \<longrightarrow>
          (\<exists>r \<in> set (receipts s). r_parentReceiptId r = None \<and> r_id r' = r_id r \<and> r_quantity r' = r_quantity r)"
    and "events s' = events s @ evs" and "\<forall>e \<in> set evs. e_eventType e \<noteq> E_DEPOSIT"
  shows "genesis_ok s'"
proof -
  have "\<exists>r \<in> set (receipts s'). r_id r = e_rootReceiptId e \<and> r_quantity r = e_quantity e"
    if "e \<in> set (events s')" "e_eventType e = E_DEPOSIT" for e
  proof -
    from that assms(6,7) have "e \<in> set (events s)" by auto
    with that(2) assms(1) obtain r where "r \<in> set (receipts s)" "r_id r = e_rootReceiptId e" "r_quantity r = e_quantity e"
      unfolding genesis_ok_def by blast
    with assms(2-4) show ?thesis by (intro bexI [of _ "g r"]) auto
  qed
  moreover have "\<exists>e \<in> set (events s'). e_eventType e = E_DEPOSIT \<and> e_rootReceiptId e = r_id r \<and> e_quantity e = r_quantity r"
    if "r \<in> set (receipts s')" "r_parentReceiptId r = None" for r
  proof -
    from that assms(5) obtain x where x: "x \<in> set (receipts s)" "r_parentReceiptId x = None" "r_id r = r_id x"
      "r_quantity r = r_quantity x" by blast
    with assms(1) obtain e where "e \<in> set (events s)" "e_eventType e = E_DEPOSIT" "e_rootReceiptId e = r_id x"
      "e_quantity e = r_quantity x" unfolding genesis_ok_def by blast
    with assms(6) x show ?thesis by (intro bexI [of _ e]) auto
  qed
  ultimately show ?thesis unfolding genesis_ok_def by blast
qed

lemma move_genesis_ok: "ledger_move g s s' \<Longrightarrow> genesis_ok s \<Longrightarrow> genesis_ok s'"
proof (induction rule: ledger_move.induct)
  case (in_place r s f s' evs)
  note k = identity_keys [OF in_place.hyps(2)]
  show ?case
    by (rule genesis_keeps [OF in_place.prems _ _ _ _ in_place.hyps(5) in_place.hyps(7),
          where g = "\<lambda>x. if r_id x = r_id r then f x else x"])
      (auto simp: in_place.hyps(4) set_upd_row k)
next
  case (split src s kids g s' now evs)
  show ?case
    by (rule genesis_keeps [OF split.prems _ _ _ _ split.hyps(12) split.hyps(14),
          where g = "\<lambda>x. if r_id x = r_id src then splitMark now x else x"])
      (use split.hyps(3) in \<open>auto simp: split.hyps(11) set_upd_row child_of_def\<close>)
next
  case (root r s s' e)
  then show ?case by (auto simp: genesis_ok_def)
qed

theorem move_ledger_wf: "ledger_move g s s' \<Longrightarrow> ledger_wf s \<Longrightarrow> ledger_wf s'"
  by (auto simp: ledger_wf_def intro: move_ids_unique move_quantities_ok move_statuses_ok move_tree_ok
      move_events_wf move_genesis_ok)

end
