(* ===== verification/Ledger_Runs.thy ===== *)
theory Ledger_Runs
  imports Ledger_Moves
begin

text \<open>
  Histories of the ledger: what any sequence of moves keeps (rows, their identity, closed
  statuses, the event log), how much volume it can create, and the calls of the service's
  public operations as a sequence of such moves.
\<close>

section \<open>Sequences of moves\<close>

text \<open>The index lists the gain of each move; other tables may change in between.\<close>

inductive ledger_run :: "dec list \<Rightarrow> 'z ledger_scheme \<Rightarrow> 'z ledger_scheme \<Rightarrow> bool" where
  idle: "ledger_run [] s s"
| move: "ledger_run gs s s1 \<Longrightarrow> ledger_move g s1 s2 \<Longrightarrow> ledger_run (gs @ [g]) s s2"
| aside: "ledger_run gs s s1 \<Longrightarrow> receipts s2 = receipts s1 \<Longrightarrow> events s2 = events s1
    \<Longrightarrow> ledger_run gs s s2"

definition evolves :: "'z ledger_scheme \<Rightarrow> 'z ledger_scheme \<Rightarrow> bool" where
  "evolves s s' \<longleftrightarrow> (\<exists>gs. ledger_run gs s s')"

lemma ledger_run_trans: "ledger_run hs s1 s2 \<Longrightarrow> ledger_run gs s s1 \<Longrightarrow> ledger_run (gs @ hs) s s2"
proof (induction rule: ledger_run.induct)
  case (move hs s1 t g u)
  then show ?case using ledger_run.move [of "gs @ hs"] by simp
qed (auto intro: ledger_run.aside)

interpretation ledger_evolution: evolution evolves
  by unfold_locales (auto simp: evolves_def intro: ledger_run.idle ledger_run_trans)

lemma evolves_move: "ledger_move g s s' \<Longrightarrow> evolves s s'"
  unfolding evolves_def using ledger_run.move [OF ledger_run.idle] by blast

lemma evolves_aside: "receipts s' = receipts s \<Longrightarrow> events s' = events s \<Longrightarrow> evolves s s'"
  unfolding evolves_def using ledger_run.aside [OF ledger_run.idle] by blast

lemma wf_cong:
  assumes "receipts s' = receipts s" and "events s' = events s"
  shows "ledger_wf s' = ledger_wf s"
  by (simp only: ledger_wf_def ledger_wf_defs assms)

lemma run_ledger_wf: "ledger_run gs s s' \<Longrightarrow> ledger_wf s \<Longrightarrow> ledger_wf s'"
proof (induction rule: ledger_run.induct)
  case (aside gs s s1 s2)
  then show ?case using wf_cong [OF aside.hyps(2,3)] by simp
qed (auto intro: move_ledger_wf)

lemma evolves_ledger_wf: "evolves s s' \<Longrightarrow> ledger_wf s \<Longrightarrow> ledger_wf s'"
  by (auto simp: evolves_def intro: run_ledger_wf)

text \<open>
  What every handler may do to a well-formed ledger. A split is a move only when the
  quantities are on the column's scale, so the well-formedness is part of the relation.
\<close>

definition lawful :: "'z ledger_scheme \<Rightarrow> 'z ledger_scheme \<Rightarrow> bool" where
  "lawful s s' \<longleftrightarrow> (ledger_wf s \<longrightarrow> evolves s s')"

interpretation ledger_lawful: evolution lawful
proof
  show "lawful s s" for s :: "'z ledger_scheme" by (simp add: lawful_def ledger_evolution.stays)
  show "lawful s s' \<Longrightarrow> lawful s' s'' \<Longrightarrow> lawful s s''" for s s' s'' :: "'z ledger_scheme"
    using evolves_ledger_wf ledger_evolution.continues unfolding lawful_def by blast
qed

lemma lawful_aside: "receipts s' = receipts s \<Longrightarrow> events s' = events s \<Longrightarrow> lawful s s'"
  by (simp add: lawful_def evolves_aside)

lemma lawful_move: "(quantities_ok s \<Longrightarrow> ledger_move g s s') \<Longrightarrow> lawful s s'"
  by (auto simp: lawful_def ledger_wf_def intro: evolves_move)

lemma confined_wf: "confined lawful m \<Longrightarrow> m s = (r, s') \<Longrightarrow> ledger_wf s \<Longrightarrow> ledger_wf s'"
  by (auto dest!: confinedD simp: lawful_def intro: evolves_ledger_wf)

section \<open>Rows persist\<close>

text \<open>
  What may have become of a row: its identity is for ever, a node once split stays split,
  and a closed status is final.
\<close>

definition later_row :: "receipt \<Rightarrow> receipt \<Rightarrow> bool" where
  "later_row x y \<longleftrightarrow>
     r_id y = r_id x \<and> r_receiptNumber y = r_receiptNumber x \<and> r_tenantId y = r_tenantId x \<and>
     r_commodityId y = r_commodityId x \<and> r_quantity y = r_quantity x \<and> r_grade y = r_grade x \<and>
     r_warehouseId y = r_warehouseId x \<and> r_parentReceiptId y = r_parentReceiptId x \<and>
     r_rootReceiptId y = r_rootReceiptId x \<and> r_dateOfDeposit y = r_dateOfDeposit x \<and>
     r_expiryDate y = r_expiryDate x \<and> (r_isParent x \<longrightarrow> r_isParent y) \<and>
     (r_status x \<in> set CLOSED \<longrightarrow> r_status y = r_status x)"

lemma later_row_refl: "later_row x x" by (simp add: later_row_def)

lemma later_row_trans: "later_row x y \<Longrightarrow> later_row y z \<Longrightarrow> later_row x z"
  by (auto simp: later_row_def)

lemma lifecycle_closed: "lifecycle st ap st' ap' \<Longrightarrow> st \<in> set CLOSED \<Longrightarrow> st' = st"
  by (erule lifecycle.cases) (auto simp: CLOSED_def HELD_def)

definition persists :: "'z ledger_scheme \<Rightarrow> 'z ledger_scheme \<Rightarrow> bool" where
  "persists s s' \<longleftrightarrow> (\<forall>x \<in> set (receipts s). \<exists>y \<in> set (receipts s'). later_row x y) \<and>
     (\<exists>evs. events s' = events s @ evs)"

lemma persists_updI:
  assumes "ids_unique s" and "r \<in> set (receipts s)" and "later_row r (f r)"
    and "receipts s' = upd_row r_id (r_id r) f (receipts s) @ kids" and "events s' = events s @ evs"
  shows "persists s s'"
proof -
  have "\<exists>y \<in> set (receipts s'). later_row x y" if x: "x \<in> set (receipts s)" for x
  proof (cases "r_id x = r_id r")
    case True
    with x assms(1,2) have "x = r" by (auto simp: ids_unique_def distinct_map dest: inj_onD)
    with kept_row [OF x, of "r_id r" f] assms(3,4) show ?thesis by auto
  next
    case False
    with kept_row [OF x, of "r_id r" f] assms(4) later_row_refl show ?thesis by auto
  qed
  with assms(5) show ?thesis by (auto simp: persists_def)
qed

lemma move_persists: "ledger_move g s s' \<Longrightarrow> ids_unique s \<Longrightarrow> persists s s'"
proof (induction rule: ledger_move.induct)
  case (in_place r s f s' evs)
  have "later_row r (f r)"
    using in_place.hyps(2) [of r] lifecycle_closed [OF in_place.hyps(3)]
    by (simp add: same_identity_def later_row_def)
  with in_place show ?case by (intro persists_updI [where kids = "[]"]) auto
next
  case (split src s kids g s' now evs)
  have "later_row src (splitMark now src)"
    using split.hyps(2) by (auto simp: later_row_def splitMark_def CLOSED_def)
  with split show ?case by (intro persists_updI) auto
next
  case (root r s s' e)
  then show ?case by (auto simp: persists_def intro: later_row_refl)
qed

lemma persists_trans: "persists s s' \<Longrightarrow> persists s' s'' \<Longrightarrow> persists s s''"
  unfolding persists_def by (metis append_assoc later_row_trans)

lemma run_persists: "ledger_run gs s s' \<Longrightarrow> ids_unique s \<Longrightarrow> persists s s' \<and> ids_unique s'"
proof (induction rule: ledger_run.induct)
  case (idle s)
  then show ?case by (auto simp: persists_def intro: later_row_refl)
next
  case (move gs s s1 g s2)
  then show ?case by (auto intro: persists_trans move_persists move_ids_unique)
next
  case (aside gs s s1 s2)
  then show ?case by (simp add: persists_def ids_unique_def)
qed

lemma evolves_persists: "evolves s s' \<Longrightarrow> ids_unique s \<Longrightarrow> persists s s'"
  by (auto simp: evolves_def dest: run_persists)

section \<open>Volume of a tree\<close>

text \<open>
  The volume of a deposit's tree is that of its leaves; its genesis is the quantity of the
  root. The drift is what splits have added.
\<close>

definition leafVolume :: "uuid \<Rightarrow> 'z ledger_scheme \<Rightarrow> dec" where
  "leafVolume rt s = volume (filter (\<lambda>r. r_rootReceiptId r = rt \<and> \<not> r_isParent r) (receipts s))"

definition genesisVolume :: "uuid \<Rightarrow> 'z ledger_scheme \<Rightarrow> dec" where
  "genesisVolume rt s = volume (filter (\<lambda>r. r_id r = rt \<and> r_parentReceiptId r = None) (receipts s))"

definition drift :: "uuid \<Rightarrow> 'z ledger_scheme \<Rightarrow> dec" where
  "drift rt s = leafVolume rt s - genesisVolume rt s"

lemma volume_simps [simp]:
  "volume [] = 0" "volume (r # rs) = r_quantity r + volume rs"
  "volume (xs @ ys) = volume xs + volume ys"
  by (simp_all add: volume_def)

lemma volume_filter_map:
  assumes "\<And>x. P (h x) = P x" and "\<And>x. r_quantity (h x) = r_quantity x"
  shows "volume (filter P (map h rs)) = volume (filter P rs)"
  using assms by (induction rs) auto

lemma volume_filter_all: "\<forall>k \<in> set ks. P k \<Longrightarrow> volume (filter P ks) = volume ks"
  by (simp add: filter_True)

lemma volume_filter_none: "\<forall>k \<in> set ks. \<not> P k \<Longrightarrow> volume (filter P ks) = 0"
  by (simp add: filter_False)

lemma move_drift:
  "ledger_move g s s' \<Longrightarrow> ids_unique s \<Longrightarrow> statuses_ok s \<Longrightarrow>
     \<exists>i. \<forall>rt. drift rt s' = drift rt s + (if rt = i then g else 0)"
proof (induction rule: ledger_move.induct)
  case (in_place r s f s' evs)
  note k = identity_keys [OF in_place.hyps(2)]
  have "drift rt s' = drift rt s" for rt
    unfolding drift_def leafVolume_def genesisVolume_def in_place.hyps(4) upd_row_def
    by (subst (1 2) volume_filter_map) (auto simp: k)
  then show ?case by simp
next
  case (split src s kids g s' now evs)
  have leaf: "\<not> r_isParent src" using split.hyps(1,2) split.prems(2) by (auto simp: statuses_ok_def)
  have kid: "r_rootReceiptId k = r_rootReceiptId src" "\<not> r_isParent k" "r_parentReceiptId k \<noteq> None"
    if "k \<in> set kids" for k using split.hyps(3) that by (auto simp: child_of_def)
  have d: "distinct (map r_id (receipts s))" using split.prems(1) by (simp add: ids_unique_def)
  have lv: "leafVolume rt s' = leafVolume rt s + (if rt = r_rootReceiptId src then g else 0)" for rt
  proof -
    have "volume (filter (\<lambda>r. r_rootReceiptId r = rt \<and> \<not> r_isParent r) kids)
        = (if rt = r_rootReceiptId src then r_quantity src + g else 0)"
      using kid split.hyps(9) by (auto simp: volume_filter_all volume_filter_none)
    with leaf show ?thesis
      unfolding leafVolume_def split.hyps(11)
      by (simp add: volume_def sum_list_filter_upd_row [OF d split.hyps(1) refl])
  qed
  have "volume (filter (\<lambda>r. r_id r = rt \<and> r_parentReceiptId r = None) kids) = 0" for rt
    using kid by (intro volume_filter_none) auto
  then have "genesisVolume rt s' = genesisVolume rt s" for rt
    unfolding genesisVolume_def split.hyps(11) upd_row_def filter_append volume_simps
    by (subst volume_filter_map) auto
  with lv show ?case by (auto simp: drift_def)
next
  case (root r s s' e)
  then show ?case by (auto simp: drift_def leafVolume_def genesisVolume_def)
qed

lemma run_drift:
  assumes "ledger_run gs s s'" and "ids_unique s" and "statuses_ok s"
  shows "drift rt s \<le> drift rt s' \<and> drift rt s' \<le> drift rt s + sum_list gs \<and>
    set gs \<subseteq> {0, 1 / 1000} \<and> ids_unique s' \<and> statuses_ok s'"
  using assms
proof (induction rule: ledger_run.induct)
  case (idle s)
  then show ?case by simp
next
  case (move gs s s1 g s2)
  then have ih: "drift rt s \<le> drift rt s1" "drift rt s1 \<le> drift rt s + sum_list gs"
    "set gs \<subseteq> {0, 1 / 1000}" "ids_unique s1" "statuses_ok s1" by auto
  obtain i where i: "drift rt s2 = drift rt s1 + (if rt = i then g else 0)"
    using move_drift [OF move.hyps(2) ih(4,5)] by blast
  have g: "g = 0 \<or> g = 1 / 1000" using move.hyps(2) by (auto elim: ledger_move.cases)
  have "ids_unique s2" "statuses_ok s2"
    using ih(4,5) move_ids_unique [OF move.hyps(2)] move_statuses_ok [OF move.hyps(2)] by auto
  moreover have "0 \<le> drift rt s2 - drift rt s1" "drift rt s2 - drift rt s1 \<le> g" using i g by auto
  then have "drift rt s \<le> drift rt s2" "drift rt s2 \<le> drift rt s + sum_list (gs @ [g])"
    using ih(1,2) by simp_all
  moreover have "set (gs @ [g]) \<subseteq> {0, 1 / 1000}" using ih(3) g by simp
  ultimately show ?case by blast
next
  case (aside gs s s1 s2)
  have "drift rt s2 = drift rt s1" "ids_unique s2 = ids_unique s1" "statuses_ok s2 = statuses_ok s1"
    by (simp_all only: drift_def leafVolume_def genesisVolume_def ids_unique_def statuses_ok_def aside.hyps(2))
  with aside.IH aside.prems show ?case by simp
qed

section \<open>Calls of the service\<close>

datatype ledger_call =
    Call_deposit uuid uuid string deposit_input
  | Call_approveReceipt uuid time actor_args "string option" "grading_scores option"
  | Call_rejectReceipt uuid time actor_args string
  | Call_hold uuid uuid uuid time hold_input
  | Call_approveHold uuid time actor_args
  | Call_release uuid actor_args "string option"
  | Call_consume uuid actor_args
  | Call_releasePartial uuid uuid uuid time release_partial_input
  | Call_transitionPledgeToLien uuid actor_args uuid "json option"
  | Call_seize uuid uuid uuid time actor_args uuid "dec option"
  | Call_transferOwnership uuid actor_args uuid txn_type uuid
  | Call_transferAndRelease uuid uuid actor_args uuid txn_type uuid
  | Call_expire uuid actor_args

text \<open>
  The database after a call, given the snapshot \<open>s0\<close> its first lookup read. Failed
  calls and replays are included: what they leave behind is the result.
\<close>

fun after_call :: "ledger_call \<Rightarrow> 'z ledger_scheme \<Rightarrow> 'z ledger_scheme \<Rightarrow> 'z ledger_scheme" where
  "after_call (Call_deposit i ev y inp) s0 s = snd (deposit i ev y inp s0 s)"
| "after_call (Call_approveReceipt ev now a g sc) s0 s = snd (approveReceipt ev now a g sc s0 s)"
| "after_call (Call_rejectReceipt ev now a why) s0 s = snd (rejectReceipt ev now a why s0 s)"
| "after_call (Call_hold ev i j now inp) s0 s = snd (hold ev i j now inp s0 s)"
| "after_call (Call_approveHold ev now a) s0 s = snd (approveHold ev now a s0 s)"
| "after_call (Call_release ev a why) s0 s = snd (release ev a why s0 s)"
| "after_call (Call_consume ev a) s0 s = snd (consume ev a s0 s)"
| "after_call (Call_releasePartial ev i j now inp) s0 s = snd (releasePartial ev i j now inp s0 s)"
| "after_call (Call_transitionPledgeToLien ev a p m) s0 s = snd (transitionPledgeToLien ev a p m s0 s)"
| "after_call (Call_seize ev i j now a f pq) s0 s = snd (seize ev i j now a f pq s0 s)"
| "after_call (Call_transferOwnership ev a n t x) s0 s = snd (transferOwnership ev a n t x s0 s)"
| "after_call (Call_transferAndRelease ev ev2 a n t x) s0 s = snd (transferAndRelease ev ev2 a n t x None s0 s)"
| "after_call (Call_expire ev a) s0 s = snd (expire ev a s0 s)"

text \<open>The quantity a call may cut a leaf at.\<close>

fun cut_at :: "ledger_call \<Rightarrow> dec option" where
  "cut_at (Call_hold ev i j now inp) = Some (h_quantity inp)"
| "cut_at (Call_releasePartial ev i j now inp) = Some (rp_releaseQuantity inp)"
| "cut_at (Call_seize ev i j now a f pq) = pq"
| "cut_at _ = None"

definition call_gain :: "ledger_call \<Rightarrow> dec" where
  "call_gain c = (case cut_at c of None \<Rightarrow> 0 | Some q \<Rightarrow> roundingGain q)"

text \<open>Calls of any sessions, one after the other, each with the snapshot it started from.\<close>

fun after_calls :: "(ledger_call \<times> 'z ledger_scheme) list \<Rightarrow> 'z ledger_scheme \<Rightarrow> 'z ledger_scheme" where
  "after_calls [] s = s"
| "after_calls ((c, s0) # cs) s = after_calls cs (after_call c s0 s)"

text \<open>What a call may do: nothing, or one move.\<close>

definition may_move :: "dec \<Rightarrow> 'z ledger_scheme \<Rightarrow> 'z ledger_scheme \<Rightarrow> bool" where
  "may_move g s s' \<longleftrightarrow> s' = s \<or> ledger_move g s s'"

lemma runIdempotent_outcome:
  "runIdempotent key rec work s0 s = (r, s') \<Longrightarrow>
     s' = s \<or> (\<exists>a. r = Inr a \<and> work s = Inr (a, s'))"
  by (auto simp: runIdempotent_def split: option.splits sum.splits err.splits db_error.splits)

lemma idempotent_move:
  assumes "\<And>a s'. work s = Inr (a, s') \<Longrightarrow> ledger_move g s s'"
  shows "may_move g s (snd (runIdempotent key rec work s0 s))"
  using runIdempotent_outcome [of key rec work s0 s "fst (runIdempotent key rec work s0 s)"
      "snd (runIdempotent key rec work s0 s)"] assms
  by (auto simp: may_move_def)

lemmas operation_defs = deposit_def approveReceipt_def rejectReceipt_def hold_def approveHold_def
  release_def consume_def releasePartial_def transitionPledgeToLien_def seize_def
  transferOwnership_def transferAndRelease_def expire_def

lemmas operation_moves = depositTx_move approveReceiptTx_move rejectReceiptTx_move holdTx_move
  approveHoldTx_move releaseTx_move consumeTx_move releasePartialTx_move
  transitionPledgeToLienTx_move seizeTx_move transferOwnershipTx_move transferAndReleaseTx_move expireTx_move

lemma call_move:
  assumes "quantities_ok s"
  shows "may_move (call_gain c) s (after_call c s0 s)"
proof (cases c)
  case (Call_deposit i ev y inp)
  then show ?thesis
    by (cases "0 < di_quantity inp")
      (simp_all add: deposit_def call_gain_def depositTx_move idempotent_move, simp add: may_move_def)
next
  case (Call_seize ev i j now a f pq)
  then show ?thesis
    using seizeTx_move [OF _ assms, where pq = pq] by (auto simp: seize_def call_gain_def intro!: idempotent_move)
qed (auto simp: operation_defs call_gain_def keeps_ledger_def assms intro!: idempotent_move elim: operation_moves)

section \<open>Histories\<close>

definition total_gain :: "ledger_call list \<Rightarrow> dec" where
  "total_gain cs = sum_list (map call_gain cs)"

lemma call_gain_ge0: "0 \<le> call_gain c"
  by (simp add: call_gain_def roundingGain_def split: option.split)

lemma total_gain_simps [simp]: "total_gain [] = 0" "total_gain (c # cs) = call_gain c + total_gain cs"
  by (simp_all add: total_gain_def)

text \<open>A history keeps the ledger well formed and drifts by the ties of its cuts at most.\<close>

lemma after_calls_run:
  "ledger_wf s \<Longrightarrow> \<exists>gs. ledger_run gs s (after_calls cs s) \<and> sum_list gs \<le> total_gain (map fst cs)"
proof (induction cs s rule: after_calls.induct)
  case (1 s)
  then show ?case by (auto intro: ledger_run.idle exI [of _ "[]"])
next
  case (2 c s0 cs s)
  let ?t = "after_call c s0 s"
  have "may_move (call_gain c) s ?t" using 2(2) by (intro call_move) (simp add: ledger_wf_def)
  then obtain gs where gs: "ledger_run gs s ?t" "sum_list gs \<le> call_gain c"
  proof (unfold may_move_def, elim disjE)
    assume "?t = s"
    then show ?thesis using that [of "[]"] ledger_run.idle call_gain_ge0 by auto
  next
    assume "ledger_move (call_gain c) s ?t"
    then show ?thesis using that [of "[call_gain c]"] ledger_run.move [OF ledger_run.idle] by auto
  qed
  have "ledger_wf ?t" using run_ledger_wf [OF gs(1) 2(2)] .
  from 2(1) [OF this] obtain hs where
    "ledger_run hs ?t (after_calls cs ?t)" "sum_list hs \<le> total_gain (map fst cs)" by blast
  with gs show ?case by (intro exI [of _ "gs @ hs"]) (auto intro: ledger_run_trans)
qed

definition emptyLedger :: ledger where
  "emptyLedger = \<lparr>receipts = [], events = []\<rparr>"

lemma emptyLedger_wf: "ledger_wf emptyLedger"
  by (simp add: ledger_wf_def ledger_wf_defs events_wf_def emptyLedger_def)

lemma emptyLedger_drift: "drift rt emptyLedger = 0"
  by (simp add: drift_def leafVolume_def genesisVolume_def emptyLedger_def)

lemma after_calls_empty:
  "ledger_wf (after_calls cs emptyLedger)"
  "0 \<le> drift rt (after_calls cs emptyLedger)"
  "drift rt (after_calls cs emptyLedger) \<le> total_gain (map fst cs)"
proof -
  obtain gs where gs: "ledger_run gs emptyLedger (after_calls cs emptyLedger)"
    "sum_list gs \<le> total_gain (map fst cs)" using after_calls_run [OF emptyLedger_wf] by blast
  then show "ledger_wf (after_calls cs emptyLedger)" using run_ledger_wf emptyLedger_wf by blast
  have "ids_unique emptyLedger" "statuses_ok emptyLedger" using emptyLedger_wf by (simp_all add: ledger_wf_def)
  from run_drift [OF gs(1) this, of rt] gs(2)
  show "0 \<le> drift rt (after_calls cs emptyLedger)"
    "drift rt (after_calls cs emptyLedger) \<le> total_gain (map fst cs)"
    by (simp_all add: emptyLedger_drift)
qed

section \<open>Exactly once\<close>

text \<open>An operation that commits found its key unused, and leaves it used.\<close>

definition logs :: "string \<Rightarrow> 'z ledger_scheme \<Rightarrow> 'z ledger_scheme \<Rightarrow> bool" where
  "logs k s s' \<longleftrightarrow> Some k \<notin> e_idempotencyKey ` set (events s) \<and> Some k \<in> e_idempotencyKey ` set (events s')"

lemma logsI:
  "event e s = Inr (ev, s1) \<Longrightarrow> e_idempotencyKey e = Some k \<Longrightarrow> set (events s1) \<subseteq> set (events s') \<Longrightarrow> logs k s s'"
  by (auto simp: logs_def event_Inr_iff image_iff intro!: bexI [of _ ev])

lemma createReceipt_events: "createReceipt r s = Inr (x, s') \<Longrightarrow> events s' = events s"
  by (simp add: createReceipt_Inr_iff)

lemma updateReceipt_events: "updateReceipt i f s = Inr (x, s') \<Longrightarrow> events s' = events s"
  by (simp add: updateReceipt_Inr_iff)

lemma event_events: "event e s = Inr (x, s') \<Longrightarrow> set (events s) \<subseteq> set (events s')"
  by (auto simp: event_Inr_iff)

lemma partition_events: "partition i j now src q ps ev s = Inr (x, s') \<Longrightarrow> events s' = events s"
  unfolding partition_def Let_def andThen_Inr_iff
  by (auto simp: andThen_Inr_iff dest!: createReceipt_events updateReceipt_events split: if_splits)

lemmas writes_log = createReceipt_events updateReceipt_events partition_events

lemma depositTx_logs: "depositTx i ev y inp s = Inr (a, s') \<Longrightarrow> logs (di_idempotencyKey inp) s s'"
  unfolding depositTx_def Let_def
  by (auto simp: andThen_Inr_iff logs_def event_Inr_iff image_iff dest!: writes_log)

lemma approveReceiptTx_logs: "approveReceiptTx ev now a g sc s = Inr (r, s') \<Longrightarrow> logs (a_idempotencyKey a) s s'"
  unfolding approveReceiptTx_def by (auto simp: andThen_Inr_iff dest!: writes_log intro: logsI)

lemma rejectReceiptTx_logs: "rejectReceiptTx ev now a why s = Inr (r, s') \<Longrightarrow> logs (a_idempotencyKey a) s s'"
  unfolding rejectReceiptTx_def by (auto simp: andThen_Inr_iff dest!: writes_log intro: logsI)

lemma holdTx_logs: "holdTx ev i j now inp s = Inr (r, s') \<Longrightarrow> logs (h_idempotencyKey inp) s s'"
  unfolding holdTx_def by (auto simp: andThen_Inr_iff dest!: writes_log intro: logsI)

lemma approveHoldTx_logs: "approveHoldTx ev now a s = Inr (r, s') \<Longrightarrow> logs (a_idempotencyKey a) s s'"
  unfolding approveHoldTx_def by (auto simp: andThen_Inr_iff dest!: writes_log intro: logsI)

lemma releaseTx_logs: "releaseTx ev a why s = Inr (r, s') \<Longrightarrow> logs (a_idempotencyKey a) s s'"
  unfolding releaseTx_def by (auto simp: andThen_Inr_iff dest!: writes_log intro: logsI)

lemma consumeTx_logs: "consumeTx ev a s = Inr (r, s') \<Longrightarrow> logs (a_idempotencyKey a) s s'"
  unfolding consumeTx_def by (auto simp: andThen_Inr_iff dest!: writes_log intro: logsI)

lemma releasePartialTx_logs: "releasePartialTx ev i j now inp s = Inr (r, s') \<Longrightarrow> logs (rp_idempotencyKey inp) s s'"
  unfolding releasePartialTx_def Let_def by (auto simp: andThen_Inr_iff dest!: writes_log intro: logsI)

lemma transitionPledgeToLienTx_logs:
  "transitionPledgeToLienTx ev a p m s = Inr (r, s') \<Longrightarrow> logs (a_idempotencyKey a) s s'"
  unfolding transitionPledgeToLienTx_def by (auto simp: andThen_Inr_iff dest!: writes_log intro: logsI)

lemma seizeTx_logs: "seizeTx ev i j now a f pq s = Inr (r, s') \<Longrightarrow> logs (a_idempotencyKey a) s s'"
  unfolding seizeTx_def
  by (auto simp: andThen_Inr_iff dest!: writes_log intro!: logsI split: option.splits)

lemma transferOwnershipTx_logs: "transferOwnershipTx ev a n t x s = Inr (r, s') \<Longrightarrow> logs (a_idempotencyKey a) s s'"
  unfolding transferOwnershipTx_def by (auto simp: andThen_Inr_iff dest!: writes_log intro: logsI)

lemma transferAndReleaseTx_logs:
  assumes "transferAndReleaseTx ev ev2 a n t x w s = Inr (r, s')" and "keeps_ledger w"
  shows "logs (a_idempotencyKey a) s s'"
proof -
  obtain e e1 s1 e' e2 s2 i f row s3 where
    e1: "event e s = Inr (e1, s1)" "e_idempotencyKey e = Some (a_idempotencyKey a)"
    and e2: "event e' s1 = Inr (e2, s2)" and u: "updateReceipt i f s2 = Inr (row, s3)"
    and w: "case w of None \<Rightarrow> s' = s3 | Some g \<Rightarrow> \<exists>u. g row s3 = Inr (u, s')"
    using assms(1) unfolding transferAndReleaseTx_def
    by (auto simp: andThen_Inr_iff split: option.splits)
  have "events s' = events s3" using w assms(2) by (auto simp: keeps_ledger_def split: option.splits)
  then have "events s' = events s2" using updateReceipt_events [OF u] by simp
  with logsI [OF e1] event_events [OF e2] show ?thesis by simp
qed

lemma expireTx_logs: "expireTx ev a s = Inr (r, s') \<Longrightarrow> logs (a_idempotencyKey a) s s'"
  unfolding expireTx_def by (auto simp: andThen_Inr_iff dest!: writes_log intro: logsI)

lemmas operation_logs = depositTx_logs approveReceiptTx_logs rejectReceiptTx_logs holdTx_logs
  approveHoldTx_logs releaseTx_logs consumeTx_logs releasePartialTx_logs
  transitionPledgeToLienTx_logs seizeTx_logs transferOwnershipTx_logs transferAndReleaseTx_logs expireTx_logs

lemma findEventByKey_None_iff: "findEventByKey k s = None \<longleftrightarrow> Some k \<notin> e_idempotencyKey ` set (events s)"
  by (auto simp: findEventByKey_def find_None_iff image_iff)

definition may_log :: "string \<Rightarrow> 'z ledger_scheme \<Rightarrow> 'z ledger_scheme \<Rightarrow> bool" where
  "may_log k s s' \<longleftrightarrow> s' = s \<or> logs k s s'"

lemma idempotent_log:
  assumes "\<And>a s'. work s = Inr (a, s') \<Longrightarrow> logs k s s'"
  shows "may_log k s (snd (runIdempotent k rec work s0 s))"
  using runIdempotent_outcome [of k rec work s0 s "fst (runIdempotent k rec work s0 s)"
      "snd (runIdempotent k rec work s0 s)"] assms
  by (auto simp: may_log_def)

fun call_key :: "ledger_call \<Rightarrow> string" where
  "call_key (Call_deposit i ev y inp) = di_idempotencyKey inp"
| "call_key (Call_approveReceipt ev now a g sc) = a_idempotencyKey a"
| "call_key (Call_rejectReceipt ev now a why) = a_idempotencyKey a"
| "call_key (Call_hold ev i j now inp) = h_idempotencyKey inp"
| "call_key (Call_approveHold ev now a) = a_idempotencyKey a"
| "call_key (Call_release ev a why) = a_idempotencyKey a"
| "call_key (Call_consume ev a) = a_idempotencyKey a"
| "call_key (Call_releasePartial ev i j now inp) = rp_idempotencyKey inp"
| "call_key (Call_transitionPledgeToLien ev a p m) = a_idempotencyKey a"
| "call_key (Call_seize ev i j now a f pq) = a_idempotencyKey a"
| "call_key (Call_transferOwnership ev a n t x) = a_idempotencyKey a"
| "call_key (Call_transferAndRelease ev ev2 a n t x) = a_idempotencyKey a"
| "call_key (Call_expire ev a) = a_idempotencyKey a"

lemma call_logs: "may_log (call_key c) s (after_call c s0 s)"
proof (cases c)
  case (Call_deposit i ev y inp)
  then show ?thesis
    by (cases "di_quantity inp \<le> 0")
      (simp_all add: deposit_def depositTx_logs idempotent_log, simp add: may_log_def)
qed (auto simp: operation_defs keeps_ledger_def intro!: idempotent_log elim: operation_logs)

lemma call_once: "findEventByKey (call_key c) s \<noteq> None \<Longrightarrow> after_call c s0 s = s"
  using call_logs [of c s s0] by (auto simp: may_log_def logs_def findEventByKey_None_iff)

end
