(* ===== verification/Store.thy ===== *)
theory Store
  imports Ledger_Runs
begin

text \<open>
  The tables beside the ledger's own that the collateral, security and query services use
  (\<open>prisma/schema.prisma\<close>), and the store that holds all of them. A table lists its rows in
  the order they were created, so \<open>orderBy createdAt desc\<close> is its reverse.
\<close>

section \<open>Enums\<close>

text \<open>PostgreSQL orders an enum by its declaration, which listings sort by.\<close>

datatype pledge_status = PL_PENDING | PL_ACCEPTED | PL_REJECTED | PL_EXPIRED | PL_CANCELLED

datatype release_status = RQ_PENDING | RQ_APPROVED | RQ_REJECTED | RQ_CANCELLED

datatype lien_status = LN_ACTIVE | LN_PARTIALLY_RELEASED | LN_RELEASED | LN_FORCE_RELEASED

datatype org_status = ORG_ACTIVE | ORG_SUSPENDED | ORG_OFFBOARDED

datatype link_status = LINK_PENDING | LINK_ACTIVE | LINK_OFFBOARDED

datatype user_status = USER_ACTIVE | USER_INACTIVE | USER_SUSPENDED | USER_DEACTIVATED

datatype warehouse_status = WH_ACTIVE | WH_INACTIVE | WH_MAINTENANCE

datatype tenant_status = TENANT_ACTIVE | TENANT_SUSPENDED

datatype tenant_type = TENANT_INTERNAL | TENANT_EXTERNAL

datatype client_mode = MODE_INDIVIDUAL | MODE_ORGANIZATION

datatype client_type = CT_FARMER | CT_TRADER | CT_COMPANY | CT_OTHER

datatype document_scope = SCOPE_COMPANY | SCOPE_REPRESENTATIVE | SCOPE_DIRECTOR

datatype otp_purpose =
    OTP_WITHDRAWAL | OTP_LOAN | OTP_TRADE | OTP_DISABLE_2FA | OTP_CHANGE_PASSWORD
  | OTP_PLEDGE_ACCEPT | OTP_RELEASE_APPROVE

text \<open>The kinds of notification the modelled services send.\<close>

datatype notification_type =
    N_PLEDGE_CREATED | N_PLEDGE_ACCEPTED | N_PLEDGE_REJECTED | N_PLEDGE_EXPIRED
  | N_RELEASE_REQUESTED | N_RELEASE_APPROVED | N_RELEASE_REJECTED | N_LIEN_FORCE_RELEASED
  | N_LOAN_REQUESTED | N_LOAN_APPROVED | N_LOAN_REJECTED | N_LOAN_REPAID
  | N_TRADE_LISTED | N_TRADE_SOLD | N_TRADE_CANCELLED
  | N_WITHDRAWAL_REQUESTED | N_WITHDRAWAL_PAYMENT_CONFIRMED | N_WITHDRAWAL_APPROVED
  | N_WITHDRAWAL_REJECTED | N_WITHDRAWAL_DISPATCHED | N_WITHDRAWAL_BLOCKED_BY_LIEN
  | N_CLIENT_CREDENTIALS_ISSUED | N_CLIENT_REGISTERED
  | N_DEPOSIT_PENDING_APPROVAL | N_DEPOSIT_APPROVED | N_DEPOSIT_REJECTED
  | N_WAREHOUSE_LINK_REQUESTED | N_WAREHOUSE_LINK_APPROVED | N_WAREHOUSE_LINK_REJECTED

datatype withdrawal_status = WD_PENDING_PAYMENT | WD_PAID_PENDING_APPROVAL | WD_APPROVED | WD_REJECTED | WD_COMPLETED

datatype loan_status = LO_PENDING | LO_APPROVED | LO_ACTIVE | LO_REPAID | LO_DEFAULTED | LO_REJECTED | LO_CANCELLED

datatype trade_status = TR_LISTED | TR_PENDING_SETTLEMENT | TR_SETTLED | TR_CANCELLED

datatype fee_type = PER_MT_PER_MONTH | PER_BAG_PER_WEEK | PER_MT_PER_DAY | FLAT_RATE

datatype billing_frequency = DAILY | WEEKLY | MONTHLY | QUARTERLY | ANNUALLY

fun pledge_rank :: "pledge_status \<Rightarrow> nat" where
  "pledge_rank PL_PENDING = 0"
| "pledge_rank PL_ACCEPTED = 1"
| "pledge_rank PL_REJECTED = 2"
| "pledge_rank PL_EXPIRED = 3"
| "pledge_rank PL_CANCELLED = 4"

lemma pledge_rank_inj: "pledge_rank a = pledge_rank b \<longleftrightarrow> a = b"
  by (cases a; cases b) auto

instantiation pledge_status :: linorder
begin

definition less_eq_pledge_status :: "pledge_status \<Rightarrow> pledge_status \<Rightarrow> bool" where
  "less_eq_pledge_status a b \<longleftrightarrow> pledge_rank a \<le> pledge_rank b"

definition less_pledge_status :: "pledge_status \<Rightarrow> pledge_status \<Rightarrow> bool" where
  "less_pledge_status a b \<longleftrightarrow> pledge_rank a < pledge_rank b"

instance
  by standard (auto simp: less_eq_pledge_status_def less_pledge_status_def pledge_rank_inj)

end

fun release_rank :: "release_status \<Rightarrow> nat" where
  "release_rank RQ_PENDING = 0"
| "release_rank RQ_APPROVED = 1"
| "release_rank RQ_REJECTED = 2"
| "release_rank RQ_CANCELLED = 3"

lemma release_rank_inj: "release_rank a = release_rank b \<longleftrightarrow> a = b"
  by (cases a; cases b) auto

instantiation release_status :: linorder
begin

definition less_eq_release_status :: "release_status \<Rightarrow> release_status \<Rightarrow> bool" where
  "less_eq_release_status a b \<longleftrightarrow> release_rank a \<le> release_rank b"

definition less_release_status :: "release_status \<Rightarrow> release_status \<Rightarrow> bool" where
  "less_release_status a b \<longleftrightarrow> release_rank a < release_rank b"

instance
  by standard (auto simp: less_eq_release_status_def less_release_status_def release_rank_inj)

end

section \<open>Rows\<close>

record user =
  u_id :: uuid
  u_tenantId :: uuid
  u_email :: string
  u_password :: string
  u_firstName :: string
  u_lastName :: string
  u_contactEmail :: "string option"
  u_status :: user_status
  u_financierOrgId :: "uuid option"
  u_transactionPinHash :: "string option"
  u_transactionPinUpdatedAt :: "time option"
  u_twoFactorEnabled :: bool
  u_twoFactorEnabledAt :: "time option"
  u_roles :: "string list"
  u_middleName :: "string option"
  u_phoneNumber :: "string option"
  u_gender :: "string option"
  u_dateOfBirth :: "time option"
  u_residentialAddress :: "string option"
  u_employmentDate :: "time option"
  u_managerCode :: "string option"
  u_profilePhotoUrl :: "string option"
  u_permissions :: "json option"
  u_notificationPrefs :: "json option"

text \<open>The columns a \<open>user.create\<close> leaves out, with the schema's defaults.\<close>

definition user_defaults :: user where
  "user_defaults = \<lparr>u_id = [], u_tenantId = [], u_email = [], u_password = [], u_firstName = [], u_lastName = [],
     u_contactEmail = None, u_status = USER_ACTIVE, u_financierOrgId = None, u_transactionPinHash = None,
     u_transactionPinUpdatedAt = None, u_twoFactorEnabled = False, u_twoFactorEnabledAt = None, u_roles = [],
     u_middleName = None, u_phoneNumber = None, u_gender = None, u_dateOfBirth = None, u_residentialAddress = None,
     u_employmentDate = None, u_managerCode = None, u_profilePhotoUrl = None, u_permissions = None,
     u_notificationPrefs = None\<rparr>"

record financier_org =
  fo_id :: uuid
  fo_name :: string
  fo_logoUrl :: "string option"
  fo_status :: org_status
  fo_pledgeTtlDays :: "int option"
  fo_licenseNumber :: "string option"
  fo_licenseDocUrl :: "string option"
  fo_contactEmail :: "string option"
  fo_phoneNumber :: "string option"
  fo_address :: "string option"
  fo_tin :: "string option"
  fo_regulator :: "string option"
  fo_website :: "string option"
  fo_createdAt :: time

definition financier_org_defaults :: financier_org where
  "financier_org_defaults = \<lparr>fo_id = [], fo_name = [], fo_logoUrl = None, fo_status = ORG_ACTIVE, fo_pledgeTtlDays = None,
     fo_licenseNumber = None, fo_licenseDocUrl = None, fo_contactEmail = None, fo_phoneNumber = None,
     fo_address = None, fo_tin = None, fo_regulator = None, fo_website = None, fo_createdAt = 0\<rparr>"

record tenant =
  tn_id :: uuid
  tn_name :: string
  tn_status :: tenant_status
  tn_type :: tenant_type
  tn_slug :: string
  tn_logoUrl :: "string option"
  tn_contactEmail :: "string option"
  tn_phoneNumber :: "string option"
  tn_address :: "string option"
  tn_createdAt :: time

definition tenant_defaults :: tenant where
  "tenant_defaults = \<lparr>tn_id = [], tn_name = [], tn_status = TENANT_ACTIVE, tn_type = TENANT_EXTERNAL, tn_slug = [],
     tn_logoUrl = None, tn_contactEmail = None, tn_phoneNumber = None, tn_address = None, tn_createdAt = 0\<rparr>"

record warehouse =
  wh_id :: uuid
  wh_tenantId :: uuid
  wh_name :: string
  wh_location :: string
  wh_code :: "string option"
  wh_status :: warehouse_status
  wh_type :: "string option"
  wh_state :: "string option"
  wh_address :: "string option"
  wh_capacityMt :: "dec option"
  wh_email :: "string option"
  wh_passwordHash :: "string option"
  wh_passwordSetAt :: "time option"
  wh_mustChangePassword :: bool

definition warehouse_defaults :: warehouse where
  "warehouse_defaults = \<lparr>wh_id = [], wh_tenantId = [], wh_name = [], wh_location = [], wh_code = None,
     wh_status = WH_ACTIVE, wh_type = None, wh_state = None, wh_address = None, wh_capacityMt = None,
     wh_email = None, wh_passwordHash = None, wh_passwordSetAt = None, wh_mustChangePassword = True\<rparr>"

record warehouse_link =
  wl_id :: uuid
  wl_tenantId :: uuid
  wl_financierOrgId :: uuid
  wl_warehouseId :: uuid
  wl_status :: link_status
  wl_agreementDocUrl :: "string option"
  wl_signedAt :: "time option"
  wl_createdById :: uuid
  wl_decidedById :: "uuid option"
  wl_decidedAt :: "time option"
  wl_decisionReason :: "string option"
  wl_createdAt :: time

record commodity =
  co_id :: uuid
  co_tenantId :: uuid
  co_name :: string
  co_unitOfMeasure :: string
  co_standardBagWeightKg :: "dec option"
  co_code :: "string option"
  co_description :: "string option"
  co_gradingLogic :: string
  co_numberOfGrades :: int

record grading_parameter =
  gp_id :: uuid
  gp_tenantId :: uuid
  gp_commodityId :: uuid
  gp_name :: string
  gp_unit :: string
  gp_isDefective :: bool
  gp_thresholds :: numbers

record warehouse_commodity =
  wc_id :: uuid
  wc_warehouseId :: uuid
  wc_commodityId :: uuid
  wc_tenantId :: uuid
  wc_storageFeePerUnit :: dec

record commodity_price =
  cp_id :: uuid
  cp_tenantId :: uuid
  cp_commodityId :: uuid
  cp_unit :: string
  cp_pricePerUnit :: dec
  cp_currency :: string
  cp_setById :: uuid
  cp_effectiveAt :: time
  cp_source :: string

record fee_policy =
  fp_id :: uuid
  fp_tenantId :: uuid
  fp_warehouseId :: "uuid option"
  fp_commodityId :: "uuid option"
  fp_isActive :: bool
  fp_feeType :: fee_type
  fp_rate :: dec
  fp_billingFrequency :: billing_frequency
  fp_gracePeriodDays :: int
  fp_latePenaltyPct :: dec
  fp_currency :: string

record pledge =
  p_id :: uuid
  p_tenantId :: uuid
  p_receiptId :: uuid
  p_heldReceiptId :: "uuid option"
  p_clientId :: uuid
  p_financierOrgId :: uuid
  p_warehouseId :: uuid
  p_quantity :: dec
  p_unit :: string
  p_valuationAtPledge :: "dec option"
  p_currency :: string
  p_status :: pledge_status
  p_clientNote :: "string option"
  p_decisionReason :: "string option"
  p_decidedById :: "uuid option"
  p_decidedAt :: "time option"
  p_expiresAt :: time
  p_createdAt :: time

record lien =
  ln_id :: uuid
  ln_tenantId :: uuid
  ln_pledgeId :: uuid
  ln_receiptId :: uuid
  ln_clientId :: uuid
  ln_financierOrgId :: uuid
  ln_quantity :: dec
  ln_remainingQuantity :: dec
  ln_status :: lien_status
  ln_placedAt :: time
  ln_releasedAt :: "time option"

record release_request =
  rq_id :: uuid
  rq_tenantId :: uuid
  rq_clientId :: uuid
  rq_financierOrgId :: uuid
  rq_requestedDate :: time
  rq_note :: "string option"
  rq_status :: release_status
  rq_decisionReason :: "string option"
  rq_decidedById :: "uuid option"
  rq_decidedAt :: "time option"
  rq_createdAt :: time

record release_line =
  rl_id :: uuid
  rl_releaseRequestId :: uuid
  rl_lienId :: uuid
  rl_receiptId :: uuid
  rl_quantity :: dec

record force_release =
  fr_id :: uuid
  fr_tenantId :: uuid
  fr_lienId :: uuid
  fr_adminId :: uuid
  fr_reason :: string
  fr_courtOrderDocUrl :: string

record otp =
  o_id :: uuid
  o_userId :: uuid
  o_codeHash :: string
  o_purpose :: otp_purpose
  o_expiresAt :: time
  o_usedAt :: "time option"
  o_attempts :: nat

record notification =
  n_tenantId :: uuid
  n_userId :: uuid
  n_type :: notification_type
  n_relatedEntityType :: string
  n_relatedEntityId :: uuid

record activity =
  al_tenantId :: "uuid option"
  al_userId :: "uuid option"
  al_action :: string
  al_entityType :: string
  al_entityId :: uuid
  al_changes :: "string list"

text \<open>
  The tables of the loan, trade and withdrawal services. Their amounts and quantities are
  \<open>Float\<close> columns; the model computes with them exactly, without the rounding of a double.
\<close>

record financier =
  fi_id :: uuid
  fi_name :: string
  fi_interestRate :: dec
  fi_minTenure :: int
  fi_maxTenure :: int
  fi_approvalTime :: string
  fi_tenantId :: uuid

record loan =
  l_id :: uuid
  l_reference :: string
  l_tenantId :: uuid
  l_receiptId :: uuid
  l_clientId :: uuid
  l_financierId :: uuid
  l_amount :: dec
  l_interestRate :: dec
  l_tenureMonths :: int
  l_totalInterest :: dec
  l_monthlyPayment :: dec
  l_status :: loan_status
  l_notes :: "string option"
  l_approvedAt :: "time option"
  l_repaidAt :: "time option"

record trade =
  t_id :: uuid
  t_reference :: string
  t_tenantId :: uuid
  t_receiptId :: uuid
  t_sellerId :: uuid
  t_buyerId :: "uuid option"
  t_quantity :: dec
  t_pricePerUnit :: dec
  t_totalPrice :: dec
  t_status :: trade_status
  t_settledAt :: "time option"

record withdrawal =
  w_id :: uuid
  w_reference :: string
  w_tenantId :: uuid
  w_receiptId :: uuid
  w_clientId :: uuid
  w_quantity :: dec
  w_reason :: "string option"
  w_plannedDate :: time
  w_status :: withdrawal_status
  w_storageFee :: dec
  w_handlingFee :: dec
  w_totalFee :: dec
  w_approvedById :: "uuid option"
  w_approvedAt :: "time option"
  w_rejectionReason :: "string option"
  w_feesBilledAt :: "time option"
  w_createdAt :: time

record manager_assignment =
  ma_id :: uuid
  ma_tenantId :: uuid
  ma_warehouseId :: uuid
  ma_managerId :: uuid
  ma_assignedBy :: uuid
  ma_unassignedAt :: "time option"

text \<open>
  The columns of a profile the services look at; the other nullable ones, which they only copy
  from the request, are kept by name in \<open>cf_details\<close>.
\<close>

record client_profile =
  cf_id :: uuid
  cf_userId :: uuid
  cf_tenantId :: uuid
  cf_clientCode :: string
  cf_registeredByManagerId :: "uuid option"
  cf_mode :: client_mode
  cf_type :: client_type
  cf_nin :: "string option"
  cf_bvn :: "string option"
  cf_nationalId :: "string option"
  cf_idNumber :: "string option"
  cf_rcNumber :: "string option"
  cf_companyName :: "string option"
  cf_companyCategory :: "string option"
  cf_companyCategoryOther :: "string option"
  cf_details :: json

definition client_profile_defaults :: client_profile where
  "client_profile_defaults = \<lparr>cf_id = [], cf_userId = [], cf_tenantId = [], cf_clientCode = [],
     cf_registeredByManagerId = None, cf_mode = MODE_INDIVIDUAL, cf_type = CT_FARMER, cf_nin = None, cf_bvn = None,
     cf_nationalId = None, cf_idNumber = None, cf_rcNumber = None, cf_companyName = None,
     cf_companyCategory = None, cf_companyCategoryOther = None, cf_details = []\<rparr>"

record client_director =
  dr_id :: uuid
  dr_tenantId :: uuid
  dr_clientProfileId :: uuid
  dr_firstName :: string
  dr_lastName :: string
  dr_details :: json

record client_document =
  dc_id :: uuid
  dc_tenantId :: uuid
  dc_clientProfileId :: uuid
  dc_type :: string
  dc_scope :: document_scope
  dc_scopeRefId :: "uuid option"
  dc_url :: string
  dc_fileName :: "string option"
  dc_fileSize :: "int option"
  dc_mimeType :: "string option"

record focus_commodity =
  fc_tenantId :: uuid
  fc_clientProfileId :: uuid
  fc_commodityId :: uuid

record lookup_audit =
  la_tenantId :: uuid
  la_managerId :: uuid
  la_warehouseId :: "uuid option"
  la_identifierType :: string
  la_identifierHash :: string
  la_result :: string
  la_matchedClientId :: "uuid option"

text \<open>What the client registry keeps beside the profiles.\<close>

record client_tables =
  directors :: "client_director list"
  documents :: "client_document list"
  focusCommodities :: "focus_commodity list"
  lookupAudits :: "lookup_audit list"

record reset_token =
  rt_id :: uuid
  rt_userId :: uuid
  rt_tokenHash :: string
  rt_expiresAt :: time
  rt_usedAt :: "time option"

record refresh_token =
  ft_id :: uuid
  ft_userId :: uuid
  ft_tokenHash :: string
  ft_expiresAt :: time
  ft_revokedAt :: "time option"

record session_tables =
  resetTokens :: "reset_token list"
  refreshTokens :: "refresh_token list"

record attachment =
  at_id :: uuid
  at_tenantId :: uuid
  at_clientId :: uuid
  at_warehouseId :: uuid
  at_attachedById :: uuid
  at_detachedById :: "uuid option"
  at_detachedAt :: "time option"
  at_reason :: "string option"

text \<open>In \<open>outbox\<close>, the mails handed to the mailer: the address and the code.\<close>

record store = ledger +
  users :: "user list"
  orgs :: "financier_org list"
  warehouses :: "warehouse list"
  links :: "warehouse_link list"
  commodities :: "commodity list"
  prices :: "commodity_price list"
  policies :: "fee_policy list"
  pledges :: "pledge list"
  liens :: "lien list"
  requests :: "release_request list"
  lines_of_requests :: "release_line list"
  forceReleases :: "force_release list"
  otps :: "otp list"
  notifications :: "notification list"
  activities :: "activity list"
  outbox :: "(string \<times> string) list"
  financiers :: "financier list"
  loans :: "loan list"
  trades :: "trade list"
  withdrawals :: "withdrawal list"
  assignments :: "manager_assignment list"
  roleTable :: "string list"
  tenants :: "tenant list"
  gradingParameters :: "grading_parameter list"
  warehouseCommodities :: "warehouse_commodity list"
  clientProfiles :: "client_profile list"
  attachments :: "attachment list"
  clientTables :: client_tables
  sessions :: session_tables

type_synonym 'a handler = "(store, err, 'a) io"

section \<open>Shared reads and writes\<close>

text \<open>An absent and an empty string are both falsy.\<close>

definition truthy_opt :: "string option \<Rightarrow> string option" where
  "truthy_opt t = (if t = Some [] then None else t)"

definition findUser :: "uuid \<Rightarrow> store \<Rightarrow> user option" where
  "findUser i s = find_row u_id i (users s)"

text \<open>\<open>NotificationsService.notifyUser\<close>: a row in the recipient's list; its failure is swallowed.\<close>

definition notifyUser :: "uuid \<Rightarrow> notification_type \<Rightarrow> string \<Rightarrow> uuid \<Rightarrow> uuid \<Rightarrow> unit handler" where
  "notifyUser tenantId ty entityType entityId userId =
     modifyM (\<lambda>s. s\<lparr>notifications := notifications s @
       [\<lparr>n_tenantId = tenantId, n_userId = userId, n_type = ty, n_relatedEntityType = entityType,
         n_relatedEntityId = entityId\<rparr>]\<rparr>)"

definition notifyFinancierUsers :: "uuid \<Rightarrow> uuid \<Rightarrow> notification_type \<Rightarrow> string \<Rightarrow> uuid \<Rightarrow> unit handler" where
  "notifyFinancierUsers financierOrgId tenantId ty entityType entityId =
     bindM (getsM (\<lambda>s. filter (\<lambda>u. u_financierOrgId u = Some financierOrgId \<and> u_status u = USER_ACTIVE) (users s)))
       (\<lambda>us. forM us (\<lambda>u. notifyUser tenantId ty entityType entityId (u_id u)))"

text \<open>\<open>dispatchMany\<close>: the same notification to each recipient once.\<close>

definition dispatchMany :: "uuid list \<Rightarrow> uuid \<Rightarrow> notification_type \<Rightarrow> string \<Rightarrow> uuid \<Rightarrow> unit handler" where
  "dispatchMany recipients tenantId ty entityType entityId =
     forM (rev (remdups (rev recipients))) (notifyUser tenantId ty entityType entityId)"

definition tenantAdminIds :: "uuid \<Rightarrow> store \<Rightarrow> uuid list" where
  "tenantAdminIds tenantId s = map u_id (filter (\<lambda>u. u_tenantId u = tenantId \<and> u_status u = USER_ACTIVE \<and>
     list_ex (\<lambda>r. r = ''TENANT_ADMIN'' \<or> r = ''GLOBAL_ADMIN'') (u_roles u)) (users s))"

definition warehouseManagerIdsOf :: "uuid \<Rightarrow> uuid \<Rightarrow> store \<Rightarrow> uuid list" where
  "warehouseManagerIdsOf tenantId warehouseId s = map ma_managerId (filter (\<lambda>a. ma_tenantId a = tenantId \<and>
     ma_warehouseId a = warehouseId \<and> ma_unassignedAt a = None) (assignments s))"

definition notifyTenantAdmins :: "uuid \<Rightarrow> notification_type \<Rightarrow> string \<Rightarrow> uuid \<Rightarrow> unit handler" where
  "notifyTenantAdmins tenantId ty entityType entityId =
     bindM (getsM (tenantAdminIds tenantId)) (\<lambda>ids. dispatchMany ids tenantId ty entityType entityId)"

definition notifyWarehouseManagersOf :: "uuid \<Rightarrow> uuid \<Rightarrow> notification_type \<Rightarrow> string \<Rightarrow> uuid \<Rightarrow> unit handler" where
  "notifyWarehouseManagersOf tenantId warehouseId ty entityType entityId =
     bindM (getsM (warehouseManagerIdsOf tenantId warehouseId)) (\<lambda>ids. dispatchMany ids tenantId ty entityType entityId)"

text \<open>The organisation of a financier user: 403 without one, or when it is suspended.\<close>

definition requireFinancierOrg :: "uuid \<Rightarrow> financier_org handler" where
  "requireFinancierOrg userId =
     bindM (getsM (\<lambda>s. case findUser userId s of
         None \<Rightarrow> None
       | Some u \<Rightarrow> (case u_financierOrgId u of None \<Rightarrow> None | Some oid \<Rightarrow> find_row fo_id oid (orgs s))))
       (\<lambda>org. bindM (requireM (Forbidden ''This account is not associated with a FinancierOrg'') org)
       (\<lambda>org. bindM (failIfM (fo_status org = ORG_SUSPENDED) (Forbidden ''FINANCIER_ORG_SUSPENDED''))
       (\<lambda>_. returnM org)))"

text \<open>
  Pagination, the same in every listing: \<open>parseInt(..., 10)\<close> of the query parameters,
  absent or empty ones defaulted, both clamped. \<open>None\<close> is NaN, which the clamps pass on
  and the database client refuses.
\<close>

definition is_digit :: "char \<Rightarrow> bool" where
  "is_digit c \<longleftrightarrow> CHR ''0'' \<le> c \<and> c \<le> CHR ''9''"

definition digits_value :: "string \<Rightarrow> int" where
  "digits_value ds = foldl (\<lambda>v c. 10 * v + (of_char c - 48)) 0 ds"

definition parseInt :: "string \<Rightarrow> int option" where
  "parseInt text =
     (let t = dropWhile (\<lambda>c. c \<in> {CHR '' '', CHR 0x09, CHR 0x0A, CHR 0x0D}) text;
          negative = (t \<noteq> [] \<and> hd t = CHR ''-'');
          body = (if t \<noteq> [] \<and> (hd t = CHR ''-'' \<or> hd t = CHR ''+'') then tl t else t);
          ds = takeWhile is_digit body
      in if ds = [] then None
         else Some (if negative then - digits_value ds else digits_value ds))"

definition param :: "string option \<Rightarrow> string \<Rightarrow> int option" where
  "param q deflt = parseInt (case q of None \<Rightarrow> deflt | Some t \<Rightarrow> if t = [] then deflt else t)"

definition pageParam :: "string option \<Rightarrow> nat option" where
  "pageParam q = map_option (\<lambda>n. nat (max 1 n)) (param q ''1'')"

definition limitParam :: "string option \<Rightarrow> nat option" where
  "limitParam q = map_option (\<lambda>n. nat (min 100 (max 1 n))) (param q ''20'')"

text \<open>A page is a slice of the matching rows, in the listing's order.\<close>

record 'r page =
  pg_items :: "'r list"
  pg_total :: nat
  pg_page :: nat
  pg_limit :: nat
  pg_totalPages :: nat

definition page_of :: "nat \<Rightarrow> nat \<Rightarrow> 'r list \<Rightarrow> 'r list" where
  "page_of page limit rows = take limit (drop ((page - 1) * limit) rows)"

definition total_pages :: "nat \<Rightarrow> nat \<Rightarrow> nat" where
  "total_pages n limit = (n + limit - 1) div limit"

definition paginate :: "string option \<Rightarrow> string option \<Rightarrow> (store \<Rightarrow> 'r list) \<Rightarrow> 'r page handler" where
  "paginate page limit rows =
     bindM (requireM (TypeError ''NaN'') (pageParam page)) (\<lambda>p.
     bindM (requireM (TypeError ''NaN'') (limitParam limit)) (\<lambda>l.
     bindM (getsM rows) (\<lambda>rs.
       returnM \<lparr>pg_items = page_of p l rs, pg_total = length rs, pg_page = p, pg_limit = l,
         pg_totalPages = total_pages (length rs) l\<rparr>)))"

section \<open>What no collateral handler does to the ledger but through its operations\<close>

lemma confined_modify_aside:
  assumes "\<And>s. receipts (g s) = receipts s" and "\<And>s. events (g s) = events (s :: store)"
  shows "confined lawful (modifyM g)"
  by (rule ledger_lawful.confined_modify) (intro lawful_aside assms)

lemma confined_notifyUser: "confined lawful (notifyUser t ty et i u)"
  unfolding notifyUser_def by (rule confined_modify_aside) simp_all

lemma confined_notifyFinancierUsers: "confined lawful (notifyFinancierUsers org t ty et i)"
  unfolding notifyFinancierUsers_def
  by (intro ledger_lawful.confined_rules confined_notifyUser)

lemma confined_notifyTenantAdmins: "confined lawful (notifyTenantAdmins t ty et i)"
  unfolding notifyTenantAdmins_def dispatchMany_def
  by (intro ledger_lawful.confined_rules confined_notifyUser)

lemma confined_notifyWarehouseManagersOf: "confined lawful (notifyWarehouseManagersOf t w ty et i)"
  unfolding notifyWarehouseManagersOf_def dispatchMany_def
  by (intro ledger_lawful.confined_rules confined_notifyUser)

lemma confined_requireFinancierOrg: "confined lawful (requireFinancierOrg u)"
  unfolding requireFinancierOrg_def by (intro ledger_lawful.confined_rules)

text \<open>The tables of the store that are not the ledger's are its extension.\<close>

lemma same_more:
  assumes "ledger.more s' = ledger.more (s :: store)"
  shows "users s' = users s" "orgs s' = orgs s" "pledges s' = pledges s" "liens s' = liens s"
    "requests s' = requests s" "lines_of_requests s' = lines_of_requests s"
    "forceReleases s' = forceReleases s" "otps s' = otps s" "notifications s' = notifications s"
    "links s' = links s" "commodities s' = commodities s" "prices s' = prices s"
    "loans s' = loans s" "trades s' = trades s" "withdrawals s' = withdrawals s"
    "policies s' = policies s" "financiers s' = financiers s" "assignments s' = assignments s"
    "activities s' = activities s" "roleTable s' = roleTable s" "tenants s' = tenants s"
    "gradingParameters s' = gradingParameters s" "warehouseCommodities s' = warehouseCommodities s"
    "clientProfiles s' = clientProfiles s" "attachments s' = attachments s" "warehouses s' = warehouses s"
    "clientTables s' = clientTables s" "sessions s' = sessions s"
  using assms by (cases s; cases s'; simp)+

text \<open>Slices tile the table: the pages of a listing show every row once.\<close>

lemma pages_tile:
  assumes "0 < limit"
  shows "concat (map (\<lambda>p. page_of p limit rows) [1 ..< Suc (total_pages (length rows) limit)]) = rows"
proof -
  have "concat (map (\<lambda>p. page_of p limit rows) [1 ..< Suc n]) = take (n * limit) rows" for n
  proof (induction n)
    case (Suc n)
    have "take (Suc n * limit) rows = take (n * limit) rows @ take limit (drop (n * limit) rows)"
      by (simp only: mult_Suc add.commute [of limit] take_add)
    with Suc show ?case by (simp add: page_of_def)
  qed simp
  moreover have "length rows \<le> total_pages (length rows) limit * limit"
  proof -
    have "length rows \<le> (length rows + limit - 1) div limit * limit"
      using assms div_mult_mod_eq [of "length rows + limit - 1" limit]
        mod_less_divisor [OF assms, of "length rows + limit - 1"] by linarith
    then show ?thesis by (simp add: total_pages_def)
  qed
  ultimately show ?thesis by simp
qed

end
