(* ===== verification/Ledger_Spec.thy ===== *)
theory Ledger_Spec
  imports Ledger_Runs
begin

text \<open>
  What the operations promise their callers: when a split goes through and what it
  leaves, and the contract the collateral services (pledges, liens, release requests)
  build on.
\<close>

section \<open>When a split goes through\<close>

text \<open>The database draws identifiers not in use, and the caller a key not in use.\<close>

definition fresh_draw :: "uuid \<Rightarrow> uuid \<Rightarrow> uuid \<Rightarrow> string \<Rightarrow> 'z ledger_scheme \<Rightarrow> bool" where
  "fresh_draw evId id1 id2 key s \<longleftrightarrow>
     evId \<notin> e_id ` set (events s) \<and> id1 \<noteq> id2 \<and> {id1, id2} \<inter> r_id ` set (receipts s) = {} \<and>
     findEventByKey key s = None"

lemma createReceipt_ok:
  "r_id r \<notin> r_id ` set (receipts s) \<Longrightarrow> r_receiptNumber r \<notin> r_receiptNumber ` set (receipts s) \<Longrightarrow>
   fits 18 3 (r_quantity r) \<Longrightarrow>
   createReceipt r s = Inr (r\<lparr>r_quantity := to_scale 3 (r_quantity r)\<rparr>,
     s\<lparr>receipts := receipts s @ [r\<lparr>r_quantity := to_scale 3 (r_quantity r)\<rparr>]\<rparr>)"
  by (simp add: createReceipt_def Let_def)

lemma updateReceipt_ok:
  "i \<in> r_id ` set (receipts s) \<Longrightarrow> \<exists>row. updateReceipt i f s = Inr (row, s\<lparr>receipts := upd_row r_id i f (receipts s)\<rparr>)"
  by (auto simp: updateReceipt_def find_row_None_iff split: option.splits)

text \<open>A split of fresh rows never runs into a receipt number in use.\<close>

lemma partition_succeeds:
  assumes src: "r_id src \<in> r_id ` set (receipts s)" and q: "0 < q" "q \<le> r_quantity src"
    and fit: "fits 18 3 (r_quantity src)"
    and ids: "id1 \<noteq> id2" "{id1, id2} \<inter> r_id ` set (receipts s) = {}"
  shows "\<exists>p rem s'. partition id1 id2 now src q ps ev s = Inr ((p, rem), s') \<and>
    r_id p = id1 \<and> (\<forall>k. rem = Some k \<longrightarrow> r_id k = id2)"
proof -
  let ?base = "baseReceiptNumber (r_receiptNumber src)"
  let ?taken = "existingChildSuffixes (map r_receiptNumber (receipts s)) ?base"
  let ?n1 = "childNumber ?base (nextSuffix ?taken)"
  let ?n2 = "childNumber ?base (nextSuffix (?taken @ [nextSuffix ?taken]))"
  have n: "?n1 \<notin> r_receiptNumber ` set (receipts s)" "?n2 \<notin> r_receiptNumber ` set (receipts s)" "?n2 \<noteq> ?n1"
    using suffixes.first_child [of ?base "map r_receiptNumber (receipts s)"]
      suffixes.second_child [of ?base "map r_receiptNumber (receipts s)"] by simp_all
  have f: "fits 18 3 q" "fits 18 3 (r_quantity src - q)" using fits_le [OF fit] q by simp_all
  define k1 where "k1 = (childData id1 ?n1 src q ev)\<lparr>
            r_status := ps_status ps, r_approvalStatus := ps_approvalStatus ps,
            r_clientId := ps_clientId ps, r_sourceTxnType := ps_sourceTxnType ps,
            r_sourceTxnId := ps_sourceTxnId ps\<rparr>"
  define k2 where "k2 = (childData id2 ?n2 src (r_quantity src - q) ev)\<lparr>
            r_status := ACTIVE, r_approvalStatus := APPROVED, r_clientId := r_clientId src\<rparr>"
  define r1 where "r1 = k1\<lparr>r_quantity := to_scale 3 (r_quantity k1)\<rparr>"
  define r2 where "r2 = k2\<lparr>r_quantity := to_scale 3 (r_quantity k2)\<rparr>"
  let ?s1 = "s\<lparr>receipts := receipts s @ [r1]\<rparr>" and ?s2 = "s\<lparr>receipts := receipts s @ [r1, r2]\<rparr>"
  have k: "r_id k1 = id1" "r_receiptNumber k1 = ?n1" "r_quantity k1 = q"
    "r_id k2 = id2" "r_receiptNumber k2 = ?n2" "r_quantity k2 = r_quantity src - q"
    by (simp_all add: k1_def k2_def)
  have c1: "createReceipt k1 s = Inr (r1, ?s1)"
    unfolding r1_def using k n ids f by (intro createReceipt_ok) auto
  have "createReceipt k2 ?s1 = Inr (r2, ?s1\<lparr>receipts := receipts ?s1 @ [r2]\<rparr>)"
    unfolding r2_def using k n ids f by (intro createReceipt_ok) (auto simp: r1_def)
  then have c2: "createReceipt k2 ?s1 = Inr (r2, ?s2)" by simp
  let ?mark = "\<lambda>r. r\<lparr>r_status := SPLIT, r_isParent := True, r_supersededAt := Some now\<rparr>"
  obtain row1 t1 where u1: "updateReceipt (r_id src) ?mark ?s1 = Inr (row1, t1)"
    using updateReceipt_ok [of "r_id src" ?s1 ?mark] src by auto
  obtain row2 t2 where u2: "updateReceipt (r_id src) ?mark ?s2 = Inr (row2, t2)"
    using updateReceipt_ok [of "r_id src" ?s2 ?mark] src by auto
  have ids12: "r_id r1 = id1" "r_id r2 = id2" using k by (simp_all add: r1_def r2_def)
  show ?thesis
  proof (cases "0 < r_quantity src - q")
    case True
    have "partition id1 id2 now src q ps ev s = Inr ((r1, Some r2), t2)"
      unfolding partition_def Let_def k1_def [symmetric] k2_def [symmetric]
      by (simp only: c1 c2 u2 True andThen_simps prod.case if_True)
    with ids12 show ?thesis by blast
  next
    case False
    have "partition id1 id2 now src q ps ev s = Inr ((r1, None), t1)"
      unfolding partition_def Let_def k1_def [symmetric] k2_def [symmetric]
      by (simp only: c1 c2 u1 False andThen_simps prod.case if_False)
    with ids12 show ?thesis by blast
  qed
qed

lemma loadOrThrow_iff:
  assumes "ids_unique s"
  shows "loadOrThrow s i t = Inr r \<longleftrightarrow> r \<in> set (receipts s) \<and> r_id r = i \<and> r_tenantId r = t"
proof
  show "loadOrThrow s i t = Inr r \<Longrightarrow> r \<in> set (receipts s) \<and> r_id r = i \<and> r_tenantId r = t"
    by (rule loadOrThrow_InrD)
  assume r: "r \<in> set (receipts s) \<and> r_id r = i \<and> r_tenantId r = t"
  then obtain x where x: "find (\<lambda>r. r_id r = i \<and> r_tenantId r = t) (receipts s) = Some x"
    by (cases "find (\<lambda>r. r_id r = i \<and> r_tenantId r = t) (receipts s)") (auto dest: find_NoneD)
  from find_SomeD [OF x] r assms have "x = r" by (auto simp: ids_unique_def distinct_map dest: inj_onD)
  with x show "loadOrThrow s i t = Inr r" by (simp add: loadOrThrow_Inr_iff)
qed

lemma event_ok:
  "e_id e \<notin> e_id ` set (events s) \<Longrightarrow> e_idempotencyKey e = Some k \<Longrightarrow> findEventByKey k s = None \<Longrightarrow>
   fits 18 3 (e_quantity e) \<Longrightarrow> \<exists>row. event e s = Inr (row, s\<lparr>events := events s @ [row]\<rparr>)"
  by (simp add: event_def Let_def findEventByKey_None_iff)

lemma runIdempotent_first:
  "findEventByKey key s0 = None \<Longrightarrow> findEventByKey key s = None \<Longrightarrow>
   runIdempotent key rec work s0 s = transactM work s"
  by (auto simp: runIdempotent_def transactM_def split: sum.splits err.splits db_error.splits option.splits)

definition holdable :: "hold_input \<Rightarrow> receipt \<Rightarrow> bool" where
  "holdable inp src \<longleftrightarrow> r_id src = h_sourceReceiptId inp \<and> r_tenantId src = h_tenantId inp \<and>
     r_status src = ACTIVE \<and> 0 < h_quantity inp \<and> h_quantity inp \<le> r_quantity src"

lemma holdTx_cases:
  assumes wf: "ledger_wf s" and draw: "fresh_draw evId id1 id2 (h_idempotencyKey inp) s"
  shows "(\<exists>res s'. holdTx evId id1 id2 now inp s = Inr (res, s')) \<longleftrightarrow>
    (\<exists>src \<in> set (receipts s). holdable inp src)"
proof
  assume "\<exists>res s'. holdTx evId id1 id2 now inp s = Inr (res, s')"
  then show "\<exists>src \<in> set (receipts s). holdable inp src"
    unfolding holdTx_def by (auto simp: andThen_Inr_iff holdable_def not_le not_less dest!: loadOrThrow_InrD)
next
  assume "\<exists>src \<in> set (receipts s). holdable inp src"
  then obtain src where src: "src \<in> set (receipts s)" "holdable inp src" by blast
  from wf have u: "ids_unique s" and q: "quantities_ok s" and st: "statuses_ok s"
    by (simp_all add: ledger_wf_def)
  have load: "loadOrThrow s (h_sourceReceiptId inp) (h_tenantId inp) = Inr src"
    using src by (simp add: loadOrThrow_iff [OF u] holdable_def)
  have fit: "fits 18 3 (r_quantity src)" using q src(1) by (simp add: quantities_ok_def)
  have ok: "r_status src = ACTIVE" "r_approvalStatus src = APPROVED" "\<not> r_isParent src"
    "0 < h_quantity inp" "h_quantity inp \<le> r_quantity src"
    using src st by (auto simp: holdable_def statuses_ok_def)
  let ?e = "\<lparr>e_id = evId, e_tenantId = h_tenantId inp,
               e_rootReceiptId = r_rootReceiptId src, e_fromReceiptId = Some (r_id src),
               e_eventType = E_HOLD_PLACED, e_txnType = Some (h_txnType inp),
               e_txnId = Some (h_txnId inp), e_quantity = h_quantity inp,
               e_actorUserId = h_actorUserId inp,
               e_idempotencyKey = Some (h_idempotencyKey inp), e_reversalOfEventId = None,
               e_metadata = h_metadata inp\<rparr>"
  have "fits 18 3 (h_quantity inp)" using fits_le [OF fit] ok by simp
  with draw obtain row where ev: "event ?e s = Inr (row, s\<lparr>events := events s @ [row]\<rparr>)"
    using event_ok [of ?e s "h_idempotencyKey inp"] by (auto simp: fresh_draw_def)
  let ?ps = "\<lparr>ps_status = of_held (h_heldStatus inp), ps_approvalStatus = PENDING,
                ps_clientId = r_clientId src, ps_sourceTxnType = Some (h_txnType inp),
                ps_sourceTxnId = Some (h_txnId inp)\<rparr>"
  have "\<exists>p rem s'. partition id1 id2 now src (h_quantity inp) ?ps (e_id row) (s\<lparr>events := events s @ [row]\<rparr>)
      = Inr ((p, rem), s')"
    using partition_succeeds [of src "s\<lparr>events := events s @ [row]\<rparr>" "h_quantity inp" id1 id2 now ?ps "e_id row"]
      src ok fit draw unfolding fresh_draw_def by auto
  then obtain p rem s' where
    "partition id1 id2 now src (h_quantity inp) ?ps (e_id row) (s\<lparr>events := events s @ [row]\<rparr>) = Inr ((p, rem), s')"
    by blast
  with load ok ev show "\<exists>res s'. holdTx evId id1 id2 now inp s = Inr (res, s')"
    unfolding holdTx_def by (simp add: not_less)
qed

text \<open>What a committed hold leaves.\<close>

lemma holdTx_leaves:
  assumes run: "holdTx evId id1 id2 now inp s = Inr (res, s')" and wf: "ledger_wf s"
  obtains src p where
    "src \<in> set (receipts s)" "holdable inp src"
    "hr_held res = Some p" "r_status p = of_held (h_heldStatus inp)" "r_approvalStatus p = PENDING"
    "r_clientId p = r_clientId src" "r_commodityId p = r_commodityId src" "r_tenantId p = r_tenantId src"
    "r_sourceTxnId p = Some (h_txnId inp)" "r_quantity p = to_scale 3 (h_quantity inp)"
    "receipts s' = upd_row r_id (r_id src) (splitMark now) (receipts s) @ kidsOf p (hr_remainder res)"
    "hr_remainder res = None \<longleftrightarrow> h_quantity inp = r_quantity src"
    "\<forall>k. hr_remainder res = Some k \<longrightarrow> r_status k = ACTIVE \<and> r_approvalStatus k = APPROVED \<and>
       r_clientId k = r_clientId src \<and> r_commodityId k = r_commodityId src \<and> r_tenantId k = r_tenantId src \<and>
       r_quantity k = to_scale 3 (r_quantity src - h_quantity inp)"
    "volume (kidsOf p (hr_remainder res)) = r_quantity src + roundingGain (h_quantity inp)"
proof -
  obtain src e row s1 p rem where
    load: "loadOrThrow s (h_sourceReceiptId inp) (h_tenantId inp) = Inr src"
    and ok: "r_status src = ACTIVE" "0 < h_quantity inp" "h_quantity inp \<le> r_quantity src"
    and ev: "event e s = Inr (row, s1)"
    and part: "partition id1 id2 now src (h_quantity inp)
        \<lparr>ps_status = of_held (h_heldStatus inp), ps_approvalStatus = PENDING,
          ps_clientId = r_clientId src, ps_sourceTxnType = Some (h_txnType inp),
          ps_sourceTxnId = Some (h_txnId inp)\<rparr> (e_id row) s1 = Inr ((p, rem), s')"
    and res: "hr_held res = Some p" "hr_remainder res = rem"
    using run unfolding holdTx_def by (auto simp: andThen_Inr_iff not_less not_le)
  have src: "src \<in> set (receipts s)" "r_id src = h_sourceReceiptId inp" "r_tenantId src = h_tenantId inp"
    using loadOrThrow_InrD [OF load] by simp_all
  have s1: "receipts s1 = receipts s" using ev by (auto simp: event_Inr_iff)
  have "r_id src \<in> r_id ` set (receipts s1)" unfolding s1 using src(1) by (rule imageI)
  note pr = partition_result [OF part this, unfolded s1]
  have os: "on_scale 3 (r_quantity src)" using wf src(1) by (simp add: ledger_wf_def quantities_ok_def)
  have p: "r_status p = of_held (h_heldStatus inp)" "r_approvalStatus p = PENDING"
    "r_clientId p = r_clientId src" "r_commodityId p = r_commodityId src" "r_tenantId p = r_tenantId src"
    "r_sourceTxnId p = Some (h_txnId inp)"
    using arg_cong [OF pr(6), of r_status] arg_cong [OF pr(6), of r_approvalStatus]
      arg_cong [OF pr(6), of r_clientId] arg_cong [OF pr(6), of r_commodityId]
      arg_cong [OF pr(6), of r_tenantId] arg_cong [OF pr(6), of r_sourceTxnId] by simp_all
  have rem: "\<forall>k. rem = Some k \<longrightarrow> r_status k = ACTIVE \<and> r_approvalStatus k = APPROVED \<and>
       r_clientId k = r_clientId src \<and> r_commodityId k = r_commodityId src \<and> r_tenantId k = r_tenantId src \<and>
       r_quantity k = to_scale 3 (r_quantity src - h_quantity inp)"
  proof (intro allI impI)
    fix k assume "rem = Some k"
    from pr(7) [OF this] have k: "r_quantity k = to_scale 3 (r_quantity src - h_quantity inp)"
      and e: "k = (childData (r_id k) (r_receiptNumber k) src (r_quantity k) (e_id row))\<lparr>
         r_status := ACTIVE, r_approvalStatus := APPROVED, r_clientId := r_clientId src\<rparr>" by auto
    show "r_status k = ACTIVE \<and> r_approvalStatus k = APPROVED \<and>
       r_clientId k = r_clientId src \<and> r_commodityId k = r_commodityId src \<and> r_tenantId k = r_tenantId src \<and>
       r_quantity k = to_scale 3 (r_quantity src - h_quantity inp)"
      using k arg_cong [OF e, of r_status] arg_cong [OF e, of r_approvalStatus]
        arg_cong [OF e, of r_clientId] arg_cong [OF e, of r_commodityId] arg_cong [OF e, of r_tenantId] by simp
  qed
  have vol: "volume (kidsOf p rem) = r_quantity src + roundingGain (h_quantity inp)"
    using split_volume [of "h_quantity inp" "r_quantity src"] ok os pr(3,4) rem
    by (auto simp: kidsOf_def split: option.splits if_splits)
  have h: "holdable inp src" using src ok by (simp add: holdable_def)
  have none: "rem = None \<longleftrightarrow> h_quantity inp = r_quantity src" using pr(3) ok by auto
  show thesis
    by (rule that [OF src(1) h res(1) p pr(4)], unfold res(2)) (fact pr(1) none rem vol)+
qed

end
