(* ===== verification/Recon.thy ===== *)
theory Recon
  imports Ledger_Runs "HOL-Library.Multiset"
begin

text \<open>
  The reconciliation service, \<open>src/inventory/inventory.recon.ts\<close>. Its recursive queries
  are run level by level, as \<open>WITH RECURSIVE ... UNION ALL\<close> does; the fuel bounds the
  number of levels, and \<open>None\<close> stands for a query that would go on.
\<close>

section \<open>Recursive queries\<close>

definition next_level :: "receipt list \<Rightarrow> receipt list \<Rightarrow> receipt list" where
  "next_level rows lvl = concat (map (\<lambda>t. filter (\<lambda>r. r_parentReceiptId r = Some (r_id t)) rows) lvl)"

fun tree_cte :: "nat \<Rightarrow> receipt list \<Rightarrow> receipt list \<Rightarrow> receipt list option" where
  "tree_cte fuel rows [] = Some []"
| "tree_cte 0 rows (x # lvl) = None"
| "tree_cte (Suc n) rows (x # lvl) = map_option (\<lambda>rest. (x # lvl) @ rest) (tree_cte n rows (next_level rows (x # lvl)))"

definition treeOf :: "uuid \<Rightarrow> 'z ledger_scheme \<Rightarrow> receipt list option" where
  "treeOf i s = tree_cte (length (receipts s)) (receipts s) (filter (\<lambda>r. r_id r = i) (receipts s))"

section \<open>The three checks\<close>

record recon_result =
  rc_rootReceiptId :: uuid
  rc_rootQuantity :: dec
  rc_leafSum :: dec
  rc_balanced :: bool
  rc_gap :: dec

definition reconcileRoot :: "uuid \<Rightarrow> 'z ledger_scheme \<Rightarrow> recon_result option" where
  "reconcileRoot i s =
     map_option (\<lambda>tree.
       let rootQty = (case find_row r_id i (receipts s) of None \<Rightarrow> 0 | Some r \<Rightarrow> r_quantity r);
           leafSum = volume (filter (\<lambda>r. \<not> r_isParent r) tree);
           gap = rootQty - leafSum
       in \<lparr>rc_rootReceiptId = i, rc_rootQuantity = rootQty, rc_leafSum = leafSum,
           rc_balanced = (gap = 0), rc_gap = gap\<rparr>) (treeOf i s)"

text \<open>
  The parents whose direct children do not add up. The join is an inner one: a parent
  without children makes no group.
\<close>

definition childrenOf :: "receipt \<Rightarrow> 'z ledger_scheme \<Rightarrow> receipt list" where
  "childrenOf p s = filter (\<lambda>c. r_parentReceiptId c = Some (r_id p)) (receipts s)"

definition violates :: "'z ledger_scheme \<Rightarrow> receipt \<Rightarrow> bool" where
  "violates s p \<longleftrightarrow> r_isParent p \<and> childrenOf p s \<noteq> [] \<and> r_quantity p \<noteq> volume (childrenOf p s)"

datatype reason = Root_Missing uuid | Genesis_Mismatch | Parents_Violate nat | Null_Roots nat

definition replayVerify :: "uuid \<Rightarrow> 'z ledger_scheme \<Rightarrow> (bool \<times> reason list) option" where
  "replayVerify i s =
     (let genesis = find (\<lambda>e. e_rootReceiptId e = i \<and> e_eventType e = E_DEPOSIT) (events s)
      in case find_row r_id i (receipts s) of
           None \<Rightarrow> Some (False, [Root_Missing i])
         | Some rootRow \<Rightarrow>
             map_option (\<lambda>tree.
               let bad = filter (\<lambda>p. violates s p \<and> r_id p \<in> set (map r_id tree)) (receipts s);
                   reasons = (case genesis of
                       None \<Rightarrow> [Genesis_Mismatch]
                     | Some e \<Rightarrow> if e_quantity e = r_quantity rootRow then [] else [Genesis_Mismatch])
                     @ (if bad = [] then [] else [Parents_Violate (length bad)])
               in (reasons = [], reasons)) (treeOf i s))"

text \<open>
  The column \<open>root_receipt_id\<close> may not be null in the schema, so its count is zero;
  an empty tenant id is no scope.
\<close>

definition verifyAll :: "uuid option \<Rightarrow> 'z ledger_scheme \<Rightarrow> bool \<times> reason list" where
  "verifyAll tenantId s =
     (let scoped = (case tenantId of None \<Rightarrow> (\<lambda>r. True)
            | Some t \<Rightarrow> if t = [] then (\<lambda>r. True) else (\<lambda>r. r_tenantId r = t));
          bad = filter (\<lambda>p. violates s p \<and> scoped p) (receipts s);
          failures = (if bad = [] then [] else [Parents_Violate (length bad)])
      in (failures = [], failures))"

section \<open>The query visits a tree once\<close>

primrec level :: "receipt list \<Rightarrow> receipt list \<Rightarrow> nat \<Rightarrow> receipt list" where
  "level rows lvl 0 = lvl"
| "level rows lvl (Suc k) = next_level rows (level rows lvl k)"

lemma next_level_Nil [simp]: "next_level rows [] = []" by (simp add: next_level_def)

lemma level_shift: "level rows (next_level rows lvl) k = level rows lvl (Suc k)"
  by (induction k) auto

lemma level_Nil [simp]: "level rows [] k = []"
  by (induction k) auto

lemma tree_cte_levels:
  "level rows lvl n = [] \<Longrightarrow> tree_cte n rows lvl = Some (concat (map (level rows lvl) [0 ..< n]))"
proof (induction n rows lvl rule: tree_cte.induct)
  case (3 n rows x lvl)
  have "level rows (next_level rows (x # lvl)) n = []" using 3(2) by (simp add: level_shift)
  with 3(1) have "tree_cte n rows (next_level rows (x # lvl))
      = Some (concat (map (level rows (next_level rows (x # lvl))) [0 ..< n]))" by blast
  moreover have "map (level rows (next_level rows (x # lvl))) [0 ..< n] = map (level rows (x # lvl)) [1 ..< Suc n]"
    by (simp add: level_shift map_Suc_upt [symmetric] del: upt_Suc)
  moreover have "concat (map (level rows (x # lvl)) [0 ..< Suc n])
      = (x # lvl) @ concat (map (level rows (x # lvl)) [1 ..< Suc n])"
    by (subst upt_conv_Cons) (simp_all del: upt_Suc)
  ultimately show ?case by simp
qed auto

lemma count_list_distinct: "distinct xs \<Longrightarrow> count_list xs x = (if x \<in> set xs then 1 else 0)"
  by (induction xs) auto

lemma filter_is: "distinct xs \<Longrightarrow> x \<in> set xs \<Longrightarrow> filter (\<lambda>y. y = x) xs = [x]"
  by (induction xs) (auto simp: filter_empty_conv)

lemma count_level_Suc:
  assumes "distinct rows" and "distinct (map r_id rows)" and "set lvl \<subseteq> set rows"
    and "r \<in> set rows" and "p \<in> set rows" and "r_parentReceiptId r = Some (r_id p)"
  shows "count_list (next_level rows lvl) r = count_list lvl p"
  using assms(3)
proof (induction lvl)
  case (Cons t lvl)
  have "count_list (filter (\<lambda>x. r_parentReceiptId x = Some (r_id t)) rows) r = (if t = p then 1 else 0)"
  proof (cases "t = p")
    case True
    with assms show ?thesis by (simp add: count_list_distinct)
  next
    case False
    with Cons.prems assms have "r_id t \<noteq> r_id p" by (auto simp: distinct_map dest: inj_onD)
    with assms(6) False show ?thesis by (simp add: count_list_0_iff)
  qed
  with Cons show ?case by (simp add: next_level_def)
qed (simp add: next_level_def)

lemma count_level_orphan:
  "r_parentReceiptId r = None \<Longrightarrow> count_list (next_level rows lvl) r = 0"
  by (auto simp: next_level_def count_list_0_iff)

lemma level_subset: "set lvl \<subseteq> set rows \<Longrightarrow> set (level rows lvl k) \<subseteq> set rows"
  by (cases k) (auto simp: next_level_def)

text \<open>Each row of a tree is met at exactly one depth, at most its position in the table.\<close>

definition depth_in :: "receipt list \<Rightarrow> receipt list \<Rightarrow> receipt \<Rightarrow> nat \<Rightarrow> bool \<Rightarrow> bool" where
  "depth_in rows lvl r i inside \<longleftrightarrow>
     (\<exists>d \<le> i. \<forall>k. count_list (level rows lvl k) r = (if inside \<and> k = d then 1 else 0))"

lemma depth_of_row:
  assumes wf: "ids_unique s" "tree_ok s" and rt: "rt \<in> set (receipts s)" "r_parentReceiptId rt = None"
    and i: "i < length (receipts s)"
  shows "depth_in (receipts s) [rt] (receipts s ! i) i (r_rootReceiptId (receipts s ! i) = r_id rt)"
  using i
proof (induction i rule: less_induct)
  case (less i)
  let ?rows = "receipts s" and ?r = "receipts s ! i"
  from wf(1) have d: "distinct ?rows" "distinct (map r_id ?rows)" by (auto simp: ids_unique_def distinct_map)
  have sub: "set (level ?rows [rt] k) \<subseteq> set ?rows" for k using rt(1) by (intro level_subset) simp
  have place: "placed (take i ?rows) ?r" using wf(2) less.prems by (simp add: tree_ok_iff)
  show ?case
  proof (cases "r_parentReceiptId ?r")
    case None
    with place have own: "r_rootReceiptId ?r = r_id ?r" by (simp add: placed_def)
    have same: "r_id ?r = r_id rt \<longleftrightarrow> ?r = rt"
      using d(2) less.prems rt(1) by (auto simp: distinct_map dest: inj_onD)
    have "count_list (level ?rows [rt] k) ?r = (if ?r = rt \<and> k = 0 then 1 else 0)" for k
      using None by (cases k) (auto simp: count_level_orphan)
    with own same show ?thesis unfolding depth_in_def by (intro exI [of _ 0]) simp
  next
    case (Some p)
    then obtain x where x: "x \<in> set (take i ?rows)" "r_id x = p" "r_rootReceiptId x = r_rootReceiptId ?r"
      using place by (auto simp: placed_def)
    then obtain j where j: "j < i" "x = ?rows ! j" by (auto simp: in_set_conv_nth)
    from less.IH [OF j(1)] less.prems j obtain e where e: "e \<le> j"
      "\<And>k. count_list (level ?rows [rt] k) x = (if r_rootReceiptId x = r_id rt \<and> k = e then 1 else 0)"
      by (auto simp: depth_in_def)
    have xin: "x \<in> set ?rows" using x(1) by (rule in_set_takeD)
    have "count_list (level ?rows [rt] k) ?r
        = (if r_rootReceiptId ?r = r_id rt \<and> k = Suc e then 1 else 0)" for k
    proof (cases k)
      case 0
      then show ?thesis using Some rt(2) by auto
    next
      case (Suc m)
      with count_level_Suc [OF d sub _ xin, of ?r m] Some x(2) less.prems e(2) [of m] x(3)
      show ?thesis by simp
    qed
    with e(1) j(1) show ?thesis unfolding depth_in_def by (intro exI [of _ "Suc e"]) simp
  qed
qed

lemma sum_list_one: "(\<Sum>k \<leftarrow> [0 ..< n]. if k = d then 1 else 0 :: nat) = (if d < n then 1 else 0)"
  by (induction n) auto

lemma count_list_concat: "count_list (concat xss) x = sum_list (map (\<lambda>xs. count_list xs x) xss)"
  by (induction xss) auto

theorem treeOf_root:
  assumes wf: "ids_unique s" "tree_ok s" and rt: "rt \<in> set (receipts s)" "r_parentReceiptId rt = None"
  shows "\<exists>tree. treeOf (r_id rt) s = Some tree \<and>
    mset tree = mset (filter (\<lambda>r. r_rootReceiptId r = r_id rt) (receipts s))"
proof -
  let ?rows = "receipts s" and ?n = "length (receipts s)"
  from wf(1) have d: "distinct ?rows" "distinct (map r_id ?rows)" by (auto simp: ids_unique_def distinct_map)
  have start: "filter (\<lambda>r. r_id r = r_id rt) ?rows = [rt]"
  proof -
    have "filter (\<lambda>r. r_id r = r_id rt) ?rows = filter (\<lambda>r. r = rt) ?rows"
      using d(2) rt(1) by (intro filter_cong) (auto simp: distinct_map dest: inj_onD)
    with d(1) rt(1) show ?thesis by (simp add: filter_is)
  qed
  have counts: "\<exists>e < ?n. \<forall>k. count_list (level ?rows [rt] k) r = (if r_rootReceiptId r = r_id rt \<and> k = e then 1 else 0)"
    if "r \<in> set ?rows" for r
  proof -
    from that obtain i where i: "i < ?n" "r = ?rows ! i" by (auto simp: in_set_conv_nth)
    from depth_of_row [OF wf rt i(1)] i show ?thesis by (auto simp: depth_in_def intro: le_less_trans)
  qed
  have sub: "set (level ?rows [rt] k) \<subseteq> set ?rows" for k using rt(1) by (intro level_subset) simp
  have "level ?rows [rt] ?n = []"
  proof (rule ccontr)
    assume "level ?rows [rt] ?n \<noteq> []"
    then obtain r where r: "r \<in> set (level ?rows [rt] ?n)" by (cases "level ?rows [rt] ?n") auto
    with sub counts have "count_list (level ?rows [rt] ?n) r = 0" by fastforce
    with r show False by (simp add: count_list_0_iff)
  qed
  then have tree: "treeOf (r_id rt) s = Some (concat (map (level ?rows [rt]) [0 ..< ?n]))"
    unfolding treeOf_def start by (rule tree_cte_levels)
  have "count_list (concat (map (level ?rows [rt]) [0 ..< ?n])) r
      = count_list (filter (\<lambda>r. r_rootReceiptId r = r_id rt) ?rows) r" for r
  proof (cases "r \<in> set ?rows")
    case True
    from counts [OF this] obtain e where e: "e < ?n"
      "\<And>k. count_list (level ?rows [rt] k) r = (if r_rootReceiptId r = r_id rt \<and> k = e then 1 else 0)" by blast
    have "count_list (concat (map (level ?rows [rt]) [0 ..< ?n])) r = (if r_rootReceiptId r = r_id rt then 1 else 0)"
      using e sum_list_one [of e ?n] by (simp add: count_list_concat comp_def)
    with True d(1) show ?thesis by (simp add: count_list_distinct)
  next
    case False
    then have "r \<notin> set (concat (map (level ?rows [rt]) [0 ..< ?n]))" using sub by auto
    with False show ?thesis by (simp add: count_list_0_iff)
  qed
  then have "mset (concat (map (level ?rows [rt]) [0 ..< ?n])) = mset (filter (\<lambda>r. r_rootReceiptId r = r_id rt) ?rows)"
    by (intro multiset_eqI) (simp only: count_mset)
  with tree show ?thesis by blast
qed

section \<open>What the checks report\<close>

lemma volume_mset: "mset xs = mset ys \<Longrightarrow> volume xs = volume ys"
  unfolding volume_def by (metis mset_map sum_mset_sum_list)

lemma find_root:
  "ids_unique s \<Longrightarrow> r \<in> set (receipts s) \<Longrightarrow> find_row r_id (r_id r) (receipts s) = Some r"
  by (simp add: ids_unique_def find_row_Some_iff)

text \<open>The gap reported for a root is what splits have added to its tree, negated.\<close>

lemma reconcileRoot_gap:
  assumes wf: "ids_unique s" "tree_ok s" and rt: "rt \<in> set (receipts s)" "r_parentReceiptId rt = None"
  shows "\<exists>rc. reconcileRoot (r_id rt) s = Some rc \<and> rc_leafSum rc = leafVolume (r_id rt) s \<and>
    rc_rootQuantity rc = r_quantity rt \<and> rc_gap rc = - drift (r_id rt) s \<and>
    rc_balanced rc = (drift (r_id rt) s = 0)"
proof -
  obtain tree where tree: "treeOf (r_id rt) s = Some tree"
    "mset tree = mset (filter (\<lambda>r. r_rootReceiptId r = r_id rt) (receipts s))"
    using treeOf_root [OF wf rt] by blast
  have "mset (filter (\<lambda>r. \<not> r_isParent r) tree)
      = mset (filter (\<lambda>r. r_rootReceiptId r = r_id rt \<and> \<not> r_isParent r) (receipts s))"
    using arg_cong [OF tree(2), of "filter_mset (\<lambda>r. \<not> r_isParent r)"]
    by (simp add: filter_filter conj_commute flip: mset_filter)
  then have leaf: "volume (filter (\<lambda>r. \<not> r_isParent r) tree) = leafVolume (r_id rt) s"
    unfolding leafVolume_def by (rule volume_mset)
  from wf(1) have d: "distinct (receipts s)" "distinct (map r_id (receipts s))"
    by (auto simp: ids_unique_def distinct_map)
  have "filter (\<lambda>r. r_id r = r_id rt \<and> r_parentReceiptId r = None) (receipts s) = filter (\<lambda>r. r = rt) (receipts s)"
    using d(2) rt by (intro filter_cong) (auto simp: distinct_map dest: inj_onD)
  with d(1) rt have "genesisVolume (r_id rt) s = r_quantity rt"
    by (simp add: genesisVolume_def filter_is)
  with tree(1) leaf find_root [OF wf(1) rt(1)] show ?thesis
    by (auto simp: reconcileRoot_def Let_def drift_def)
qed

text \<open>Every split node's children add up to it, but for the gain of its split.\<close>

definition parents_near :: "dec set \<Rightarrow> 'z ledger_scheme \<Rightarrow> bool" where
  "parents_near G s \<longleftrightarrow>
     (\<forall>p \<in> set (receipts s). r_isParent p \<longrightarrow> volume (childrenOf p s) - r_quantity p \<in> G)"

lemma childrenOf_map:
  assumes "receipts s' = map h (receipts s) @ kids" and "\<And>x. r_parentReceiptId (h x) = r_parentReceiptId x"
    and "\<And>x. r_quantity (h x) = r_quantity x" and "r_id q = r_id p"
  shows "volume (childrenOf q s') = volume (childrenOf p s)
    + volume (filter (\<lambda>c. r_parentReceiptId c = Some (r_id p)) kids)"
  unfolding childrenOf_def assms(1) filter_append volume_simps assms(4)
  by (subst volume_filter_map) (simp_all add: assms(2,3))

lemma leaf_childless:
  assumes "ids_unique s" and "tree_ok s" and "p \<in> set (receipts s)" and "\<not> r_isParent p"
  shows "childrenOf p s = []"
proof (rule ccontr)
  assume "childrenOf p s \<noteq> []"
  then obtain c where c: "c \<in> set (receipts s)" "r_parentReceiptId c = Some (r_id p)"
    unfolding childrenOf_def by (auto simp: filter_empty_conv)
  then obtain i where "i < length (receipts s)" "c = receipts s ! i" by (auto simp: in_set_conv_nth)
  with assms(2) have "placed (take i (receipts s)) c" by (simp add: tree_ok_iff)
  with c(2) obtain x where "x \<in> set (take i (receipts s))" "r_id x = r_id p" "r_isParent x"
    by (auto simp: placed_def)
  with assms show False by (auto simp: ids_unique_def distinct_map dest: inj_onD in_set_takeD)
qed

lemma move_parents_near:
  assumes "ledger_move g s s'" and "ids_unique s" and "statuses_ok s" and "tree_ok s"
    and "parents_near G s" and "g \<in> G"
  shows "parents_near G s'"
  using assms
proof (induction rule: ledger_move.induct)
  case (in_place r s f s' evs)
  note k = identity_keys [OF in_place.hyps(2)]
  let ?h = "\<lambda>x. if r_id x = r_id r then f x else x"
  have s': "receipts s' = map ?h (receipts s) @ []" using in_place.hyps(4) by (simp add: upd_row_def)
  have kept: "volume (childrenOf (?h x) s') = volume (childrenOf x s)" for x
    using childrenOf_map [OF s', of "?h x" x] by (simp add: k)
  show ?case unfolding parents_near_def
  proof (intro ballI impI)
    fix p assume p: "p \<in> set (receipts s')" "r_isParent p"
    then obtain x where x: "x \<in> set (receipts s)" "p = ?h x" unfolding s' by auto
    with p(2) have "r_isParent x" "r_quantity p = r_quantity x" by (auto simp: k split: if_splits)
    with x kept [of x] in_place.prems(4) show "volume (childrenOf p s') - r_quantity p \<in> G"
      by (simp add: parents_near_def)
  qed
next
  case (split src s kids g s' now evs)
  let ?h = "\<lambda>x. if r_id x = r_id src then splitMark now x else x"
  have s': "receipts s' = map ?h (receipts s) @ kids" using split.hyps(11) by (simp add: upd_row_def)
  have kid: "r_parentReceiptId k = Some (r_id src)" "\<not> r_isParent k" if "k \<in> set kids" for k
    using split.hyps(3) that by (auto simp: child_of_def)
  have leaf: "\<not> r_isParent src" using split.hyps(1,2) split.prems(2) by (auto simp: statuses_ok_def)
  have childless: "childrenOf src s = []"
    using leaf_childless split.hyps(1) split.prems(1,3) leaf by blast
  have kept: "volume (childrenOf (?h x) s') = volume (childrenOf x s)
      + (if r_id x = r_id src then volume kids else 0)" for x
    using childrenOf_map [OF s', of "?h x" x] kid by (auto simp: volume_filter_all volume_filter_none)
  show ?case unfolding parents_near_def
  proof (intro ballI impI)
    fix p assume p: "p \<in> set (receipts s')" "r_isParent p"
    with kid obtain x where x: "x \<in> set (receipts s)" "p = ?h x" unfolding s' by auto
    show "volume (childrenOf p s') - r_quantity p \<in> G"
    proof (cases "r_id x = r_id src")
      case True
      then have "x = src" using x(1) split.hyps(1) split.prems(1)
        by (auto simp: ids_unique_def distinct_map dest: inj_onD)
      with x(2) kept [of x] childless split.hyps(9) split.prems(5) show ?thesis by simp
    next
      case False
      with x p(2) kept [of x] split.prems(4) show ?thesis by (simp add: parents_near_def)
    qed
  qed
next
  case (root r s s' e)
  then have "volume (childrenOf p s') = volume (childrenOf p s)" for p by (simp add: childrenOf_def)
  with root show ?case by (auto simp: parents_near_def)
qed

lemma run_parents_near:
  assumes "ledger_run gs s s'" and "ledger_wf s" and "parents_near G s" and "set gs \<subseteq> G"
  shows "parents_near G s'"
  using assms
proof (induction rule: ledger_run.induct)
  case (move gs s s1 g s2)
  then have "ledger_wf s1" by (auto intro: run_ledger_wf)
  with move show ?case by (auto intro: move_parents_near simp: ledger_wf_def)
next
  case (aside gs s s1 s2)
  have "parents_near G s2 = parents_near G s1"
    by (simp only: parents_near_def childrenOf_def aside.hyps(2))
  with aside show ?case by simp
qed simp

lemma checks_pass:
  assumes wf: "ledger_wf s" and near: "parents_near {0} s"
    and rt: "rt \<in> set (receipts s)" "r_parentReceiptId rt = None"
  shows "replayVerify (r_id rt) s = Some (True, [])"
proof -
  have u: "ids_unique s" and t: "tree_ok s" and g: "genesis_ok s" using wf by (simp_all add: ledger_wf_def)
  have no_bad: "\<not> violates s p" if "p \<in> set (receipts s)" for p
    using near that by (auto simp: violates_def parents_near_def)
  obtain tree where tree: "treeOf (r_id rt) s = Some tree" using treeOf_root [OF u t rt] by blast
  obtain e0 where "e0 \<in> set (events s)" "e_eventType e0 = E_DEPOSIT" "e_rootReceiptId e0 = r_id rt"
    using g rt unfolding genesis_ok_def by blast
  then obtain e where e: "find (\<lambda>e. e_rootReceiptId e = r_id rt \<and> e_eventType e = E_DEPOSIT) (events s) = Some e"
    by (cases "find (\<lambda>e. e_rootReceiptId e = r_id rt \<and> e_eventType e = E_DEPOSIT) (events s)")
      (auto dest: find_NoneD)
  from find_SomeD [OF e] g obtain r where "r \<in> set (receipts s)" "r_id r = r_id rt" "r_quantity r = e_quantity e"
    unfolding genesis_ok_def by force
  with u rt have "e_quantity e = r_quantity rt" by (auto simp: ids_unique_def distinct_map dest: inj_onD)
  with tree e no_bad find_root [OF u rt(1)] show ?thesis
    by (simp add: replayVerify_def Let_def filter_empty_conv)
qed

lemma verifyAll_pass: "parents_near {0} s \<Longrightarrow> verifyAll tenantId s = (True, [])"
  by (auto simp: verifyAll_def Let_def filter_empty_conv violates_def parents_near_def split: option.splits)

lemma no_gain:
  assumes "set gs \<subseteq> {0, 1 / 1000 :: rat}" and "sum_list gs \<le> 0"
  shows "set gs \<subseteq> {0}"
proof -
  have nn: "0 \<le> sum_list xs" if "set xs \<subseteq> {0, 1 / 1000 :: rat}" for xs
    using that by (induction xs) auto
  from assms show ?thesis
  proof (induction gs)
    case (Cons g gs)
    then have "0 \<le> sum_list gs" "g = 0 \<or> g = 1 / 1000" using nn by auto
    with Cons show ?case by auto
  qed simp
qed

text \<open>Without a cut at half a thousandth, every history conserves every split.\<close>

lemma history_conserves:
  assumes "total_gain (map fst cs) = 0"
  shows "parents_near {0} (after_calls cs emptyLedger) \<and> drift i (after_calls cs emptyLedger) = 0"
proof -
  obtain gs where gs: "ledger_run gs emptyLedger (after_calls cs emptyLedger)"
    "sum_list gs \<le> total_gain (map fst cs)" using after_calls_run [OF emptyLedger_wf] by blast
  have wf0: "ids_unique emptyLedger" "statuses_ok emptyLedger" using emptyLedger_wf by (simp_all add: ledger_wf_def)
  from run_drift [OF gs(1) wf0] have "set gs \<subseteq> {0, 1 / 1000}" by blast
  with gs(2) assms have "set gs \<subseteq> {0}" by (intro no_gain) simp_all
  moreover have "parents_near {0} emptyLedger" by (simp add: parents_near_def emptyLedger_def)
  ultimately have "parents_near {0} (after_calls cs emptyLedger)"
    using run_parents_near [OF gs(1) emptyLedger_wf] by blast
  with after_calls_empty(2,3) [of i cs] assms show ?thesis by auto
qed

end
