(* ===== verification/Query.thy ===== *)
theory Query
  imports Store Ledger_Spec Recon "HOL-Library.Sublist"
begin

text \<open>
  The read side of the inventory, \<open>InventoryQueryService\<close> of
  \<open>src/inventory/inventory-query.service.ts\<close>: balances, the filtered receipt table, the
  detail of a receipt with its path to the root, the detail of a transaction.
\<close>

section \<open>Balance\<close>

record balance_row =
  b_commodityId :: uuid
  b_commodity :: "string option"
  b_unit :: "string option"
  b_available :: dec
  b_locked :: dec
  b_total :: dec

definition owned :: "uuid \<Rightarrow> uuid \<Rightarrow> receipt \<Rightarrow> bool" where
  "owned tenantId clientId r \<longleftrightarrow> r_tenantId r = tenantId \<and> r_clientId r = clientId"

definition is_available :: "receipt \<Rightarrow> bool" where
  "is_available r \<longleftrightarrow> r_status r = ACTIVE \<and> r_approvalStatus r = APPROVED"

definition is_locked :: "receipt \<Rightarrow> bool" where
  "is_locked r \<longleftrightarrow> r_status r \<in> set HELD"

text \<open>Groups come in the order of their first row, the available ones first.\<close>

definition firsts :: "'k list \<Rightarrow> 'k list" where
  "firsts ks = rev (remdups (rev ks))"

definition getBalance :: "uuid \<Rightarrow> uuid \<Rightarrow> store \<Rightarrow> balance_row list" where
  "getBalance tenantId clientId s =
     (let available = filter (\<lambda>r. owned tenantId clientId r \<and> is_available r) (receipts s);
          locked = filter (\<lambda>r. owned tenantId clientId r \<and> is_locked r) (receipts s);
          cmap = (\<lambda>k. find (\<lambda>c. co_tenantId c = tenantId \<and> co_id c = k) (commodities s));
          sumOf = (\<lambda>rows k. volume (filter (\<lambda>r. r_commodityId r = k) rows))
      in map (\<lambda>k. \<lparr>b_commodityId = k, b_commodity = map_option co_name (cmap k),
             b_unit = map_option co_unitOfMeasure (cmap k),
             b_available = sumOf available k, b_locked = sumOf locked k,
             b_total = sumOf available k + sumOf locked k\<rparr>)
           (firsts (map r_commodityId available @ map r_commodityId locked)))"

section \<open>The receipt table\<close>

record list_opts =
  lo_group :: "receipt_group option"
  lo_clientId :: "uuid option"
  lo_warehouseIds :: "uuid list option"
  lo_page :: "int option"
  lo_limit :: "int option"
  lo_search :: "string option"

definition lower :: "string \<Rightarrow> string" where
  "lower = map (\<lambda>c. if CHR ''A'' \<le> c \<and> c \<le> CHR ''Z'' then char_of (of_char c + 32 :: nat) else c)"

definition contains_insensitive :: "string \<Rightarrow> string \<Rightarrow> bool" where
  "contains_insensitive needle hay \<longleftrightarrow> sublist (lower needle) (lower hay)"

definition commodityName :: "store \<Rightarrow> receipt \<Rightarrow> string" where
  "commodityName s r = (case find_row co_id (r_commodityId r) (commodities s) of None \<Rightarrow> [] | Some c \<Rightarrow> co_name c)"

definition matches_opts :: "uuid \<Rightarrow> list_opts \<Rightarrow> store \<Rightarrow> receipt \<Rightarrow> bool" where
  "matches_opts tenantId opts s r \<longleftrightarrow>
     r_tenantId r = tenantId \<and>
     (case truthy_opt (lo_clientId opts) of None \<Rightarrow> True | Some c \<Rightarrow> r_clientId r = c) \<and>
     (case lo_warehouseIds opts of None \<Rightarrow> True | Some ws \<Rightarrow> r_warehouseId r \<in> set ws) \<and>
     (case lo_group opts of None \<Rightarrow> True | Some g \<Rightarrow> r_status r \<in> set (statusesForGroup g)) \<and>
     (case truthy_opt (lo_search opts) of None \<Rightarrow> True
      | Some t \<Rightarrow> contains_insensitive t (r_receiptNumber r) \<or> contains_insensitive t (commodityName s r))"

record receipt_line =
  v_id :: uuid
  v_receiptNumber :: string
  v_status :: receipt_status
  v_approvalStatus :: approval_status
  v_grade :: "string option"
  v_group :: receipt_group
  v_isParent :: bool
  v_supersededAt :: "time option"
  v_childReceiptIds :: "uuid list"
  v_commodity :: string
  v_unit :: "string option"
  v_warehouse :: "string option"
  v_quantity :: dec
  v_rootReceiptId :: uuid
  v_parentReceiptId :: "uuid option"

definition receiptLine :: "store \<Rightarrow> receipt \<Rightarrow> receipt_line" where
  "receiptLine s r =
     \<lparr>v_id = r_id r, v_receiptNumber = r_receiptNumber r, v_status = r_status r,
      v_approvalStatus = r_approvalStatus r, v_grade = r_grade r,
      v_group = deriveGroup (r_status r) (r_approvalStatus r), v_isParent = r_isParent r,
      v_supersededAt = r_supersededAt r, v_childReceiptIds = map r_id (childrenOf r s),
      v_commodity = commodityName s r,
      v_unit = map_option co_unitOfMeasure (find_row co_id (r_commodityId r) (commodities s)),
      v_warehouse = map_option wh_name (find_row wh_id (r_warehouseId r) (warehouses s)),
      v_quantity = r_quantity r, v_rootReceiptId = r_rootReceiptId r, v_parentReceiptId = r_parentReceiptId r\<rparr>"

definition listReceipts :: "uuid \<Rightarrow> list_opts \<Rightarrow> store \<Rightarrow> receipt_line page" where
  "listReceipts tenantId opts s =
     (let page = nat (max 1 (case lo_page opts of None \<Rightarrow> 1 | Some n \<Rightarrow> n));
          limit = nat (min 200 (max 1 (case lo_limit opts of None \<Rightarrow> 20 | Some n \<Rightarrow> n)));
          rows = rev (filter (matches_opts tenantId opts s) (receipts s))
      in \<lparr>pg_items = map (receiptLine s) (page_of page limit rows),
          pg_total = length rows, pg_page = page, pg_limit = limit,
          pg_totalPages = (if total_pages (length rows) limit = 0 then 1 else total_pages (length rows) limit)\<rparr>)"

section \<open>Path to the root\<close>

text \<open>The ancestors of a row, level by level; ids being unique a level has one row.\<close>

fun anc_cte :: "nat \<Rightarrow> receipt list \<Rightarrow> receipt list \<Rightarrow> receipt list option" where
  "anc_cte fuel rows [] = Some []"
| "anc_cte 0 rows (x # lvl) = None"
| "anc_cte (Suc n) rows (x # lvl) =
     map_option (\<lambda>rest. (x # lvl) @ rest)
       (anc_cte n rows (concat (map (\<lambda>a. filter (\<lambda>r. Some (r_id r) = r_parentReceiptId a) rows) (x # lvl))))"

definition pathToRoot :: "uuid \<Rightarrow> 'z ledger_scheme \<Rightarrow> receipt list option" where
  "pathToRoot i s =
     map_option rev (anc_cte (length (receipts s)) (receipts s) (filter (\<lambda>r. r_id r = i) (receipts s)))"

section \<open>Storage-fee policy\<close>

definition resolveStorageFeePolicy :: "uuid \<Rightarrow> uuid \<Rightarrow> uuid \<Rightarrow> store \<Rightarrow> fee_policy option" where
  "resolveStorageFeePolicy tenantId warehouseId commodityId s =
     (let first = (\<lambda>(w, c). find (\<lambda>p. fp_tenantId p = tenantId \<and> fp_isActive p \<and>
                        fp_warehouseId p = w \<and> fp_commodityId p = c) (rev (policies s)))
      in case find (\<lambda>cand. first cand \<noteq> None)
               [(Some warehouseId, Some commodityId), (Some warehouseId, None),
                (None, Some commodityId), (None, None)] of
           None \<Rightarrow> None
         | Some cand \<Rightarrow> first cand)"

definition policyScope :: "fee_policy \<Rightarrow> string" where
  "policyScope p =
     (case truthy_opt (fp_warehouseId p) of
        Some w \<Rightarrow> (case truthy_opt (fp_commodityId p) of Some c \<Rightarrow> ''warehouse+commodity'' | None \<Rightarrow> ''warehouse'')
      | None \<Rightarrow> (case truthy_opt (fp_commodityId p) of Some c \<Rightarrow> ''commodity'' | None \<Rightarrow> ''tenant-default''))"

section \<open>Details\<close>

record receipt_detail =
  rd_receipt :: receipt
  rd_group :: receipt_group
  rd_approvedBy :: "user option"
  rd_owner :: "user option"
  rd_pathToRoot :: "receipt list"
  rd_sourceEvent :: "inv_event option"
  rd_manager :: "user option"
  rd_storageFeePolicy :: "(fee_policy \<times> string) option"
  rd_descendants :: "receipt list"
  rd_timeline :: "inv_event list"

definition getReceiptDetail :: "uuid \<Rightarrow> uuid \<Rightarrow> store \<Rightarrow> (err + receipt_detail) option" where
  "getReceiptDetail tenantId i s =
     (case loadOrThrow s i tenantId of
        Inl e \<Rightarrow> Some (Inl e)
      | Inr r \<Rightarrow> map_option (\<lambda>path.
          let source = (case r_sourceEventId r of None \<Rightarrow> None | Some e \<Rightarrow> find_row e_id e (events s))
          in Inr \<lparr>rd_receipt = r, rd_group = deriveGroup (r_status r) (r_approvalStatus r),
            rd_approvedBy = (case r_approvedById r of None \<Rightarrow> None | Some u \<Rightarrow> findUser u s),
            rd_owner = findUser (r_clientId r) s,
            rd_pathToRoot = path, rd_sourceEvent = source,
            rd_manager = (case source of None \<Rightarrow> None
              | Some e \<Rightarrow> (case e_actorUserId e of None \<Rightarrow> None | Some u \<Rightarrow> findUser u s)),
            rd_storageFeePolicy = map_option (\<lambda>p. (p, policyScope p))
              (resolveStorageFeePolicy tenantId (r_warehouseId r) (r_commodityId r) s),
            rd_descendants = childrenOf r s,
            rd_timeline = filter (\<lambda>e. e_fromReceiptId e = Some i \<or> r_sourceEventId r = Some (e_id e)) (events s)\<rparr>)
          (pathToRoot i s))"

record txn_detail =
  td_rootReceiptId :: uuid
  td_actedOn :: "receipt option"
  td_held :: "receipt option"
  td_remainder :: "receipt option"
  td_terminal :: "receipt option"
  td_events :: "inv_event list"

definition getTransactionDetail :: "uuid \<Rightarrow> txn_type \<Rightarrow> uuid \<Rightarrow> 'z ledger_scheme \<Rightarrow> err + txn_detail" where
  "getTransactionDetail tenantId txnType txnId s =
     (let evs = filter (\<lambda>e. e_tenantId e = tenantId \<and> e_txnType e = Some txnType \<and> e_txnId e = Some txnId) (events s);
          created = concat (map (\<lambda>e. byEvent e s) evs)
      in if evs = [] then Inl (ReceiptNotFound txnId)
         else Inr \<lparr>td_rootReceiptId = e_rootReceiptId (hd evs),
           td_actedOn = (case e_fromReceiptId (hd evs) of None \<Rightarrow> None | Some i \<Rightarrow> find_row r_id i (receipts s)),
           td_held = find (\<lambda>r. r_status r \<in> set HELD) created,
           td_remainder = find (\<lambda>r. r_status r = ACTIVE) created,
           td_terminal = find (\<lambda>r. r_status r \<in> {WITHDRAWN, TRADED_OUT, SEIZED}) created,
           td_events = evs\<rparr>)"

section \<open>Balances add up\<close>

definition availableOf :: "uuid \<Rightarrow> uuid \<Rightarrow> uuid \<Rightarrow> 'z ledger_scheme \<Rightarrow> dec" where
  "availableOf t c k s = volume (filter (\<lambda>r. owned t c r \<and> is_available r \<and> r_commodityId r = k) (receipts s))"

definition lockedOf :: "uuid \<Rightarrow> uuid \<Rightarrow> uuid \<Rightarrow> 'z ledger_scheme \<Rightarrow> dec" where
  "lockedOf t c k s = volume (filter (\<lambda>r. owned t c r \<and> is_locked r \<and> r_commodityId r = k) (receipts s))"

lemma set_firsts [simp]: "set (firsts ks) = set ks" by (simp add: firsts_def)

lemma distinct_firsts [simp]: "distinct (firsts ks)" by (simp add: firsts_def)

lemma getBalance_spec:
  "distinct (map b_commodityId (getBalance t c s)) \<and>
   b_commodityId ` set (getBalance t c s) =
     r_commodityId ` {r \<in> set (receipts s). owned t c r \<and> (is_available r \<or> is_locked r)} \<and>
   (\<forall>b \<in> set (getBalance t c s). b_available b = availableOf t c (b_commodityId b) s \<and>
      b_locked b = lockedOf t c (b_commodityId b) s \<and> b_total b = b_available b + b_locked b)"
  by (auto simp: getBalance_def Let_def comp_def filter_filter availableOf_def lockedOf_def conj_ac image_iff)

lemma volume_upd_row:
  assumes "distinct (map r_id rows)" and "r \<in> set rows"
  shows "volume (filter P (upd_row r_id (r_id r) f rows)) =
    volume (filter P rows) - (if P r then r_quantity r else 0) + (if P (f r) then r_quantity (f r) else 0)"
  unfolding volume_def by (rule sum_list_filter_upd_row [OF assms refl])

text \<open>A hold moves the cut quantity from the owner's available to their locked balance.\<close>

lemma hold_balance:
  assumes run: "holdTx evId id1 id2 now inp s = Inr (res, s')" and wf: "ledger_wf s"
    and exact: "on_scale 3 (h_quantity inp)"
  shows "\<exists>src \<in> set (receipts s). r_id src = h_sourceReceiptId inp \<and>
    availableOf t c k s' = availableOf t c k s
      - (if owned t c src \<and> r_commodityId src = k then h_quantity inp else 0) \<and>
    lockedOf t c k s' = lockedOf t c k s
      + (if owned t c src \<and> r_commodityId src = k then h_quantity inp else 0)"
proof -
  obtain src p where
    src: "src \<in> set (receipts s)" "holdable inp src"
    and res: "hr_held res = Some p" "r_status p = of_held (h_heldStatus inp)" "r_approvalStatus p = PENDING"
    and p: "r_clientId p = r_clientId src" "r_commodityId p = r_commodityId src" "r_tenantId p = r_tenantId src"
      "r_sourceTxnId p = Some (h_txnId inp)" "r_quantity p = to_scale 3 (h_quantity inp)"
    and rows: "receipts s' = upd_row r_id (r_id src) (splitMark now) (receipts s) @ kidsOf p (hr_remainder res)"
    and none: "hr_remainder res = None \<longleftrightarrow> h_quantity inp = r_quantity src"
    and rem: "\<forall>k. hr_remainder res = Some k \<longrightarrow> r_status k = ACTIVE \<and> r_approvalStatus k = APPROVED \<and>
       r_clientId k = r_clientId src \<and> r_commodityId k = r_commodityId src \<and> r_tenantId k = r_tenantId src \<and>
       r_quantity k = to_scale 3 (r_quantity src - h_quantity inp)"
    and vol: "volume (kidsOf p (hr_remainder res)) = r_quantity src + roundingGain (h_quantity inp)"
    by (rule holdTx_leaves [OF run wf])
  have q: "r_quantity p = h_quantity inp" using p(5) exact by (simp add: to_scale_id)
  have gain: "roundingGain (h_quantity inp) = 0" using exact by (simp add: roundingGain_def on_scale_not_ties)
  have d: "distinct (map r_id (receipts s))" using wf by (simp add: ledger_wf_def ids_unique_def)
  have st: "is_available src" "\<not> is_locked src" "\<not> is_available (splitMark now src)" "\<not> is_locked (splitMark now src)"
    using src wf by (auto simp: holdable_def is_available_def is_locked_def ledger_wf_def statuses_ok_def)
  have pk: "\<not> is_available p" "is_locked p" using res by (simp_all add: is_available_def is_locked_def)
  have own: "owned t c p = owned t c src" using p by (simp add: owned_def)
  let ?A = "\<lambda>r. owned t c r \<and> is_available r \<and> r_commodityId r = k"
  let ?L = "\<lambda>r. owned t c r \<and> is_locked r \<and> r_commodityId r = k"
  have ka: "volume (filter ?A (kidsOf p (hr_remainder res))) =
      (if owned t c src \<and> r_commodityId src = k then r_quantity src - h_quantity inp else 0)"
    and kl: "volume (filter ?L (kidsOf p (hr_remainder res))) =
      (if owned t c src \<and> r_commodityId src = k then h_quantity inp else 0)"
    using pk own p q vol gain none rem
    by (auto simp: kidsOf_def owned_def is_available_def is_locked_def split: option.splits)
  have "availableOf t c k s' = availableOf t c k s
      - (if owned t c src \<and> r_commodityId src = k then h_quantity inp else 0)"
    "lockedOf t c k s' = lockedOf t c k s
      + (if owned t c src \<and> r_commodityId src = k then h_quantity inp else 0)"
    using st ka kl by (simp_all add: availableOf_def lockedOf_def rows volume_upd_row [OF d src(1)])
  with src show ?thesis by (intro bexI [OF _ src(1)]) (simp add: holdable_def)
qed

section \<open>Filter groups\<close>

text \<open>On a well-formed ledger a list filtered by a group shows exactly that group.\<close>

lemma group_listed:
  assumes "statuses_ok s" and "r \<in> set (receipts s)"
  shows "r_status r \<in> set (statusesForGroup g) \<longleftrightarrow> deriveGroup (r_status r) (r_approvalStatus r) = g"
proof -
  have "\<not> (r_status r = ACTIVE \<and> r_approvalStatus r = PENDING)" using assms by (auto simp: statuses_ok_def)
  then have "r_status r \<in> set (statusesForGroup (deriveGroup (r_status r) (r_approvalStatus r)))"
    by (simp add: deriveGroup_agrees)
  then show ?thesis using statusesForGroup_disjoint by blast
qed

section \<open>The path ends at the root\<close>

lemma parent_level:
  assumes "ids_unique s" and "x \<in> set (receipts s)" and "r_parentReceiptId r = Some (r_id x)"
  shows "concat (map (\<lambda>a. filter (\<lambda>y. Some (r_id y) = r_parentReceiptId a) (receipts s)) [r]) = [x]"
proof -
  have d: "distinct (receipts s)" "distinct (map r_id (receipts s))"
    using assms(1) by (auto simp: ids_unique_def distinct_map)
  have "filter (\<lambda>y. Some (r_id y) = r_parentReceiptId r) (receipts s) = filter (\<lambda>y. y = x) (receipts s)"
    using d(2) assms(2,3) by (intro filter_cong) (auto simp: distinct_map dest: inj_onD)
  with d(1) assms(2) show ?thesis by (simp add: filter_is)
qed

lemma anc_chain:
  assumes wf: "ids_unique s" "tree_ok s"
  shows "i < length (receipts s) \<Longrightarrow> i < n \<Longrightarrow>
    \<exists>ch. anc_cte n (receipts s) [receipts s ! i] = Some ch \<and> ch \<noteq> [] \<and> hd ch = receipts s ! i \<and>
      set ch \<subseteq> set (receipts s) \<and> r_parentReceiptId (last ch) = None \<and>
      r_id (last ch) = r_rootReceiptId (receipts s ! i) \<and>
      successively (\<lambda>a b. r_parentReceiptId a = Some (r_id b)) ch"
proof (induction i arbitrary: n rule: less_induct)
  case (less i)
  let ?r = "receipts s ! i"
  obtain m where m: "n = Suc m" using less.prems(2) by (cases n) auto
  have place: "placed (take i (receipts s)) ?r" using wf(2) less.prems(1) by (simp add: tree_ok_iff)
  show ?case
  proof (cases "r_parentReceiptId ?r")
    case None
    with place m less.prems(1) show ?thesis by (intro exI [of _ "[?r]"]) (simp add: placed_def)
  next
    case (Some p)
    then obtain x where x: "x \<in> set (take i (receipts s))" "r_id x = p" "r_rootReceiptId x = r_rootReceiptId ?r"
      using place by (auto simp: placed_def)
    then obtain j where j: "j < i" "x = receipts s ! j" by (auto simp: in_set_conv_nth)
    from less.IH [OF j(1), of m] less.prems m j obtain ch where
      ch: "anc_cte m (receipts s) [x] = Some ch" "ch \<noteq> []" "hd ch = x" "set ch \<subseteq> set (receipts s)"
        "r_parentReceiptId (last ch) = None" "r_id (last ch) = r_rootReceiptId x"
        "successively (\<lambda>a b. r_parentReceiptId a = Some (r_id b)) ch" by auto
    have "x \<in> set (receipts s)" using x(1) by (rule in_set_takeD)
    with Some x(2) have "concat (map (\<lambda>a. filter (\<lambda>y. Some (r_id y) = r_parentReceiptId a) (receipts s)) [?r]) = [x]"
      by (intro parent_level wf(1)) simp_all
    with ch m x Some less.prems(1) show ?thesis
      by (intro exI [of _ "?r # ch"]) (simp add: successively_Cons)
  qed
qed

lemma pathToRoot_ends:
  assumes wf: "ids_unique s" "tree_ok s" and r: "r \<in> set (receipts s)"
  shows "\<exists>path. pathToRoot (r_id r) s = Some path \<and> path \<noteq> [] \<and> last path = r \<and>
    r_parentReceiptId (hd path) = None \<and> r_id (hd path) = r_rootReceiptId r \<and>
    successively (\<lambda>a b. r_parentReceiptId b = Some (r_id a)) path"
proof -
  have d: "distinct (receipts s)" "distinct (map r_id (receipts s))"
    using wf(1) by (auto simp: ids_unique_def distinct_map)
  obtain i where i: "i < length (receipts s)" "r = receipts s ! i" using r by (auto simp: in_set_conv_nth)
  have "filter (\<lambda>x. r_id x = r_id r) (receipts s) = filter (\<lambda>x. x = r) (receipts s)"
    using d(2) r by (intro filter_cong) (auto simp: distinct_map dest: inj_onD)
  then have "filter (\<lambda>x. r_id x = r_id r) (receipts s) = [r]" using d(1) r by (simp add: filter_is)
  moreover obtain ch where "anc_cte (length (receipts s)) (receipts s) [r] = Some ch" "ch \<noteq> []" "hd ch = r"
    "r_parentReceiptId (last ch) = None" "r_id (last ch) = r_rootReceiptId r"
    "successively (\<lambda>a b. r_parentReceiptId a = Some (r_id b)) ch"
    using anc_chain [OF wf i(1) i(1)] i(2) by auto
  ultimately show ?thesis by (simp add: pathToRoot_def hd_rev last_rev successively_rev)
qed

section \<open>The most specific policy wins\<close>

definition policy_applies :: "uuid \<Rightarrow> uuid \<Rightarrow> uuid \<Rightarrow> fee_policy \<Rightarrow> bool" where
  "policy_applies t w c p \<longleftrightarrow> fp_tenantId p = t \<and> fp_isActive p \<and>
     fp_warehouseId p \<in> {None, Some w} \<and> fp_commodityId p \<in> {None, Some c}"

text \<open>A warehouse outranks a commodity, both together outrank either.\<close>

definition specificity :: "fee_policy \<Rightarrow> nat" where
  "specificity p = (if fp_warehouseId p = None then 0 else 2) + (if fp_commodityId p = None then 0 else 1)"

lemma resolve_None:
  assumes "resolveStorageFeePolicy t w c s = None" and "p \<in> set (policies s)"
  shows "\<not> policy_applies t w c p"
proof -
  have none: "find P (rev (policies s)) = None \<Longrightarrow> \<forall>q \<in> set (policies s). \<not> P q" for P
    by (auto simp: find_None_iff)
  from assms show ?thesis
    by (auto simp: resolveStorageFeePolicy_def Let_def policy_applies_def dest!: none split: if_splits)
qed

lemma resolve_Some:
  assumes "resolveStorageFeePolicy t w c s = Some p"
  shows "p \<in> set (policies s) \<and> policy_applies t w c p \<and>
    (\<forall>q \<in> set (policies s). policy_applies t w c q \<longrightarrow> specificity q \<le> specificity p)"
proof -
  have none: "find P (rev (policies s)) = None \<Longrightarrow> \<forall>q \<in> set (policies s). \<not> P q" for P
    by (auto simp: find_None_iff)
  have some: "find P (rev (policies s)) = Some p \<Longrightarrow> p \<in> set (policies s) \<and> P p" for P
    by (drule find_SomeD) simp
  from assms show ?thesis
    by (auto simp: resolveStorageFeePolicy_def Let_def policy_applies_def specificity_def
        dest!: none some split: if_splits)
qed

end
