(* ===== verification/Security.thy ===== *)
theory Security
  imports Store
begin

text \<open>
  \<open>SecurityService\<close>, \<open>src/security/security.service.ts\<close>: transaction PIN, two-factor
  switch, one-time passwords and the gate in front of transactions. bcrypt and SHA-256 are
  library code and stay arguments; so does the random number a code is made of.
\<close>

record crypto =
  bcrypt_compare :: "string \<Rightarrow> string \<Rightarrow> bool" \<comment> \<open>plain text, hash\<close>
  bcrypt_hash :: "string \<Rightarrow> string"
  sha256 :: "string \<Rightarrow> string"

definition PIN_LENGTH :: nat where "PIN_LENGTH = 4"

definition OTP_LENGTH :: nat where "OTP_LENGTH = 6"

definition OTP_TTL_MINUTES :: int where "OTP_TTL_MINUTES = 10"

definition OTP_MAX_ATTEMPTS :: nat where "OTP_MAX_ATTEMPTS = 5"

section \<open>Helpers\<close>

definition loadUserOrThrow :: "uuid \<Rightarrow> user handler" where
  "loadUserOrThrow userId =
     bindM (getsM (findUser userId)) (\<lambda>u. requireM (NotFound ''User not found'') u)"

definition assertPasswordCorrect :: "crypto \<Rightarrow> user \<Rightarrow> string \<Rightarrow> unit handler" where
  "assertPasswordCorrect c u password =
     bindM (failIfM (password = []) (BadRequest ''PASSWORD_REQUIRED'')) (\<lambda>_.
       failIfM (\<not> bcrypt_compare c password (u_password u)) (Forbidden ''PASSWORD_INCORRECT''))"

definition assertPinFormat :: "string \<Rightarrow> unit handler" where
  "assertPinFormat pin =
     failIfM (pin = [] \<or> length pin \<noteq> PIN_LENGTH \<or> \<not> list_all is_digit pin) (BadRequest ''PIN_FORMAT_INVALID'')"

text \<open>\<open>draw\<close> is \<open>randomInt(0, 10 ** length)\<close>.\<close>

definition generateNumericCode :: "nat \<Rightarrow> nat \<Rightarrow> string" where
  "generateNumericCode len draw =
     (let t = decimal_digits draw in replicate (len - length t) CHR ''0'' @ t)"

definition js_space :: "char \<Rightarrow> bool" where
  "js_space c \<longleftrightarrow> c \<in> {CHR '' '', CHR 0x09, CHR 0x0A, CHR 0x0B, CHR 0x0C, CHR 0x0D, CHR 0xA0}"

definition js_trim :: "string \<Rightarrow> string" where
  "js_trim t = rev (dropWhile js_space (rev (dropWhile js_space t)))"

definition resolveDeliveryEmail :: "user \<Rightarrow> string" where
  "resolveDeliveryEmail u =
     (case u_contactEmail u of
        Some e \<Rightarrow> if js_trim e \<noteq> [] then js_trim e else u_email u
      | None \<Rightarrow> u_email u)"

definition maskEmail :: "string \<Rightarrow> string" where
  "maskEmail email =
     (let local = takeWhile (\<lambda>c. c \<noteq> CHR 0x40) email;
          domain = dropWhile (\<lambda>c. c \<noteq> CHR 0x40) email
      in if domain = [] \<or> local = [] then ''***'' else [hd local] @ ''***'' @ domain)"

section \<open>Transaction PIN\<close>

definition updateUser :: "uuid \<Rightarrow> (user \<Rightarrow> user) \<Rightarrow> unit handler" where
  "updateUser i f = modifyM (\<lambda>s. s\<lparr>users := upd_row u_id i f (users s)\<rparr>)"

definition setTransactionPin :: "crypto \<Rightarrow> time \<Rightarrow> uuid \<Rightarrow> string \<Rightarrow> string \<Rightarrow> unit handler" where
  "setTransactionPin c now userId password pin =
     bindM (assertPinFormat pin) (\<lambda>_.
     bindM (loadUserOrThrow userId) (\<lambda>u.
     bindM (assertPasswordCorrect c u password) (\<lambda>_.
     bindM (failIfM (truthy_opt (u_transactionPinHash u) \<noteq> None) (BadRequest ''PIN_ALREADY_SET'')) (\<lambda>_.
       updateUser (u_id u) (\<lambda>x. x\<lparr>u_transactionPinHash := Some (bcrypt_hash c pin),
         u_transactionPinUpdatedAt := Some now\<rparr>)))))"

definition changeTransactionPin ::
    "crypto \<Rightarrow> time \<Rightarrow> uuid \<Rightarrow> string \<Rightarrow> string \<Rightarrow> string \<Rightarrow> unit handler" where
  "changeTransactionPin c now userId password currentPin newPin =
     bindM (assertPinFormat newPin) (\<lambda>_.
     bindM (loadUserOrThrow userId) (\<lambda>u.
     bindM (requireM (BadRequest ''PIN_NOT_SET'') (truthy_opt (u_transactionPinHash u))) (\<lambda>hash.
     bindM (assertPasswordCorrect c u password) (\<lambda>_.
     bindM (failIfM (\<not> bcrypt_compare c currentPin hash) (Unauthorized ''PIN_INCORRECT'')) (\<lambda>_.
     bindM (failIfM (currentPin = newPin) (BadRequest ''PIN_REUSED'')) (\<lambda>_.
       updateUser (u_id u) (\<lambda>x. x\<lparr>u_transactionPinHash := Some (bcrypt_hash c newPin),
         u_transactionPinUpdatedAt := Some now\<rparr>)))))))"

definition clearTransactionPin :: "crypto \<Rightarrow> uuid \<Rightarrow> string \<Rightarrow> unit handler" where
  "clearTransactionPin c userId password =
     bindM (loadUserOrThrow userId) (\<lambda>u.
     bindM (assertPasswordCorrect c u password) (\<lambda>_.
       if truthy_opt (u_transactionPinHash u) = None then returnM ()
       else bindM (failIfM (u_twoFactorEnabled u) (BadRequest ''PIN_LOCKED_BY_2FA'')) (\<lambda>_.
         updateUser (u_id u) (\<lambda>x. x\<lparr>u_transactionPinHash := None, u_transactionPinUpdatedAt := None\<rparr>))))"

section \<open>One-time passwords\<close>

record otp_ticket =
  ot_expiresInSeconds :: int
  ot_deliveredTo :: "string option"

definition ALWAYS_REQUIRE_OTP :: "otp_purpose list" where
  "ALWAYS_REQUIRE_OTP = [OTP_CHANGE_PASSWORD, OTP_PLEDGE_ACCEPT, OTP_RELEASE_APPROVE]"

text \<open>Voiding the live codes and creating the new one is one transaction.\<close>

definition requestTransactionOtp ::
    "crypto \<Rightarrow> time \<Rightarrow> uuid \<Rightarrow> nat \<Rightarrow> uuid \<Rightarrow> otp_purpose \<Rightarrow> otp_ticket handler" where
  "requestTransactionOtp c now otpId draw userId purpose =
     bindM (loadUserOrThrow userId) (\<lambda>u.
       if \<not> u_twoFactorEnabled u \<and> purpose \<notin> set ALWAYS_REQUIRE_OTP
       then returnM \<lparr>ot_expiresInSeconds = 0, ot_deliveredTo = None\<rparr>
       else
         let code = generateNumericCode OTP_LENGTH draw;
             deliveryEmail = resolveDeliveryEmail u
         in bindM (modifyM (\<lambda>s. s\<lparr>otps :=
              map (\<lambda>x. if o_userId x = u_id u \<and> o_purpose x = purpose \<and> o_usedAt x = None \<and> now < o_expiresAt x
                       then x\<lparr>o_usedAt := Some now\<rparr> else x) (otps s)
              @ [\<lparr>o_id = otpId, o_userId = u_id u, o_codeHash = sha256 c code, o_purpose = purpose,
                  o_expiresAt = now + OTP_TTL_MINUTES * 60 * 1000, o_usedAt = None, o_attempts = 0\<rparr>]\<rparr>)) (\<lambda>_.
            bindM (modifyM (\<lambda>s. s\<lparr>outbox := outbox s @ [(deliveryEmail, code)]\<rparr>)) (\<lambda>_.
            returnM \<lparr>ot_expiresInSeconds = OTP_TTL_MINUTES * 60,
              ot_deliveredTo = Some (maskEmail deliveryEmail)\<rparr>)))"

text \<open>The newest unused code for the user and the purpose.\<close>

definition newestUnused :: "uuid \<Rightarrow> otp_purpose \<Rightarrow> otp list \<Rightarrow> otp option" where
  "newestUnused userId purpose rows =
     find (\<lambda>x. o_userId x = userId \<and> o_purpose x = purpose \<and> o_usedAt x = None) (rev rows)"

definition updateOtp :: "uuid \<Rightarrow> (otp \<Rightarrow> otp) \<Rightarrow> unit handler" where
  "updateOtp i f = modifyM (\<lambda>s. s\<lparr>otps := upd_row o_id i f (otps s)\<rparr>)"

definition consumeOtp :: "crypto \<Rightarrow> time \<Rightarrow> uuid \<Rightarrow> string \<Rightarrow> otp_purpose \<Rightarrow> unit handler" where
  "consumeOtp c now userId code purpose =
     bindM (failIfM (code = [] \<or> \<not> list_all is_digit code \<or> length code \<noteq> OTP_LENGTH)
       (BadRequest ''OTP_FORMAT_INVALID'')) (\<lambda>_.
     bindM (getsM (\<lambda>s. newestUnused userId purpose (otps s))) (\<lambda>found.
     bindM (requireM (BadRequest ''OTP_EXPIRED'') found) (\<lambda>otp.
     bindM (failIfM (o_expiresAt otp < now) (BadRequest ''OTP_EXPIRED'')) (\<lambda>_.
       if sha256 c code \<noteq> o_codeHash otp
       then
         let attempts = o_attempts otp + 1;
             burned = (OTP_MAX_ATTEMPTS \<le> attempts)
         in bindM (updateOtp (o_id otp) (\<lambda>x. x\<lparr>o_attempts := attempts,
                o_usedAt := (if burned then Some now else o_usedAt x)\<rparr>)) (\<lambda>_.
            throwM (if burned then BadRequest ''OTP_EXHAUSTED'' else OtpInvalid (OTP_MAX_ATTEMPTS - attempts)))
       else updateOtp (o_id otp) (\<lambda>x. x\<lparr>o_usedAt := Some now\<rparr>)))))"

section \<open>Two-factor switch\<close>

definition enableTwoFactor :: "crypto \<Rightarrow> time \<Rightarrow> uuid \<Rightarrow> string \<Rightarrow> bool handler" where
  "enableTwoFactor c now userId password =
     bindM (loadUserOrThrow userId) (\<lambda>u.
     bindM (assertPasswordCorrect c u password) (\<lambda>_.
     bindM (failIfM (truthy_opt (u_transactionPinHash u) = None) (BadRequest ''PIN_NOT_SET'')) (\<lambda>_.
       if u_twoFactorEnabled u then returnM True
       else bindM (updateUser (u_id u) (\<lambda>x. x\<lparr>u_twoFactorEnabled := True, u_twoFactorEnabledAt := Some now\<rparr>))
         (\<lambda>_. returnM True))))"

definition disableTwoFactor :: "crypto \<Rightarrow> time \<Rightarrow> uuid \<Rightarrow> string \<Rightarrow> string \<Rightarrow> bool handler" where
  "disableTwoFactor c now userId password code =
     bindM (loadUserOrThrow userId) (\<lambda>u.
     bindM (assertPasswordCorrect c u password) (\<lambda>_.
       if \<not> u_twoFactorEnabled u then returnM False
       else bindM (consumeOtp c now (u_id u) code OTP_DISABLE_2FA) (\<lambda>_.
         bindM (updateUser (u_id u) (\<lambda>x. x\<lparr>u_twoFactorEnabled := False, u_twoFactorEnabledAt := None\<rparr>))
           (\<lambda>_. returnM False))))"

section \<open>The gate in front of transactions\<close>

definition assertTransactionAuth ::
    "crypto \<Rightarrow> time \<Rightarrow> uuid \<Rightarrow> otp_purpose \<Rightarrow> string option \<Rightarrow> string option \<Rightarrow> bool \<Rightarrow> unit handler" where
  "assertTransactionAuth c now userId purpose pin code isOnBehalf =
     bindM (loadUserOrThrow userId) (\<lambda>u.
       if \<not> u_twoFactorEnabled u then returnM ()
       else bindM
         (if isOnBehalf then returnM ()
          else bindM (requireM (BadRequest ''PIN_NOT_SET'') (truthy_opt (u_transactionPinHash u))) (\<lambda>hash.
            bindM (requireM (BadRequest ''PIN_REQUIRED'') (truthy_opt pin)) (\<lambda>p.
              failIfM (\<not> bcrypt_compare c p hash) (Unauthorized ''PIN_INCORRECT'')))) (\<lambda>_.
         bindM (requireM (BadRequest ''OTP_REQUIRED'') (truthy_opt code)) (\<lambda>t.
           consumeOtp c now userId t purpose)))"

section \<open>Codes\<close>

lemma is_digit_iff: "is_digit c \<longleftrightarrow> 48 \<le> (of_char c :: nat) \<and> (of_char c :: nat) \<le> 57"
  by (simp add: is_digit_def less_eq_char_def)

lemma digit_char: "n < 10 \<Longrightarrow> is_digit (char_of (n + 48 :: nat))"
  by (simp add: is_digit_iff)

lemma decimal_digits_ok: "list_all is_digit (decimal_digits n) \<and> decimal_digits n \<noteq> []"
proof (induction n rule: decimal_digits.induct)
  case (1 n)
  then show ?case
    by (subst (1 2) decimal_digits.simps) (auto simp: digit_char)
qed

lemma decimal_digits_length: "n < 10 ^ Suc k \<Longrightarrow> length (decimal_digits n) \<le> Suc k"
proof (induction k arbitrary: n)
  case 0
  then show ?case by (subst decimal_digits.simps) simp
next
  case (Suc k)
  then have "n div 10 < 10 ^ Suc k" by (simp add: less_mult_imp_div_less mult.commute)
  with Suc.IH show ?case by (subst decimal_digits.simps) simp
qed

lemma generateNumericCode_ok:
  assumes "draw < 10 ^ len" and "0 < len"
  shows "length (generateNumericCode len draw) = len \<and> list_all is_digit (generateNumericCode len draw)"
proof -
  obtain k where k: "len = Suc k" using assms(2) by (cases len) auto
  with assms(1) decimal_digits_length [of draw k] have "length (decimal_digits draw) \<le> len" by simp
  moreover have "is_digit CHR ''0''" by (simp add: is_digit_iff)
  ultimately show ?thesis
    using decimal_digits_ok [of draw] by (auto simp: generateNumericCode_def Let_def list_all_iff)
qed

section \<open>What a code check does\<close>

text \<open>The code check, branch by branch.\<close>

lemma consumeOtp_eq:
  "consumeOtp c now userId code purpose s =
     (if code = [] \<or> \<not> list_all is_digit code \<or> length code \<noteq> OTP_LENGTH
      then (Inl (BadRequest ''OTP_FORMAT_INVALID''), s)
      else case newestUnused userId purpose (otps s) of
        None \<Rightarrow> (Inl (BadRequest ''OTP_EXPIRED''), s)
      | Some x \<Rightarrow>
          if o_expiresAt x < now then (Inl (BadRequest ''OTP_EXPIRED''), s)
          else if sha256 c code = o_codeHash x
          then (Inr (), s\<lparr>otps := upd_row o_id (o_id x) (\<lambda>x. x\<lparr>o_usedAt := Some now\<rparr>) (otps s)\<rparr>)
          else if OTP_MAX_ATTEMPTS \<le> o_attempts x + 1
          then (Inl (BadRequest ''OTP_EXHAUSTED''), s\<lparr>otps := upd_row o_id (o_id x)
                 (\<lambda>y. y\<lparr>o_attempts := o_attempts x + 1, o_usedAt := Some now\<rparr>) (otps s)\<rparr>)
          else (Inl (OtpInvalid (OTP_MAX_ATTEMPTS - (o_attempts x + 1))), s\<lparr>otps := upd_row o_id (o_id x)
                 (\<lambda>y. y\<lparr>o_attempts := o_attempts x + 1\<rparr>) (otps s)\<rparr>))"
  by (auto simp: consumeOtp_def bindM_def failIfM_def getsM_def requireM_def updateOtp_def modifyM_def
      throwM_def Let_def split: option.split)

lemma consumeOtp_frame:
  "snd (consumeOtp c now userId code purpose s) = s\<lparr>otps := otps (snd (consumeOtp c now userId code purpose s))\<rparr>"
  by (cases s) (simp add: consumeOtp_eq split: option.split)

section \<open>Guessing\<close>

text \<open>
  The guesses still open to anyone against the codes of a user and a purpose: five per
  unused code, less the wrong ones made.
\<close>

definition guesses_left :: "uuid \<Rightarrow> otp_purpose \<Rightarrow> otp list \<Rightarrow> nat" where
  "guesses_left userId purpose rows =
     sum_list (map (\<lambda>x. OTP_MAX_ATTEMPTS - o_attempts x)
       (filter (\<lambda>x. o_userId x = userId \<and> o_purpose x = purpose \<and> o_usedAt x = None) rows))"

text \<open>What the one-time passwords keep: unique ids, and no unused code tried five times.\<close>

definition otps_ok :: "store \<Rightarrow> bool" where
  "otps_ok s \<longleftrightarrow> distinct (map o_id (otps s)) \<and>
     (\<forall>x \<in> set (otps s). o_usedAt x = None \<longrightarrow> o_attempts x < OTP_MAX_ATTEMPTS)"

fun checked :: "err + unit \<Rightarrow> bool" where
  "checked (Inr _) = True"
| "checked (Inl (OtpInvalid _)) = True"
| "checked (Inl (BadRequest m)) = (m = ''OTP_EXHAUSTED'')"
| "checked (Inl _) = False"

lemma newestUnused_Some:
  "newestUnused userId purpose rows = Some x \<Longrightarrow>
     x \<in> set rows \<and> o_userId x = userId \<and> o_purpose x = purpose \<and> o_usedAt x = None"
  unfolding newestUnused_def by (drule find_SomeD) simp

lemma guesses_left_upd:
  assumes "distinct (map o_id rows)" and "x \<in> set rows" and "o_userId x = userId" "o_purpose x = purpose"
    "o_usedAt x = None" "o_attempts x < OTP_MAX_ATTEMPTS"
    and "\<And>y. o_userId (f y) = o_userId y" "\<And>y. o_purpose (f y) = o_purpose y"
    and "o_usedAt (f x) = None \<Longrightarrow> OTP_MAX_ATTEMPTS - o_attempts (f x) < OTP_MAX_ATTEMPTS - o_attempts x"
  shows "guesses_left userId purpose (upd_row o_id (o_id x) f rows) < guesses_left userId purpose rows"
  using assms
proof (induction rows)
  case (Cons y rows)
  show ?case
  proof (cases "o_id y = o_id x")
    case True
    with Cons.prems have y: "y = x" by (auto simp: image_iff)
    with True Cons.prems have "upd_row o_id (o_id x) f rows = rows" by (intro upd_row_notin) auto
    with y Cons.prems show ?thesis by (auto simp: upd_row_def guesses_left_def)
  next
    case False
    with Cons show ?thesis by (auto simp: upd_row_def guesses_left_def)
  qed
qed simp

lemma otps_ok_upd:
  assumes "otps_ok s" and "\<And>y. o_id (f y) = o_id y"
    and "\<And>y. y \<in> set (otps s) \<Longrightarrow> o_id y = i \<Longrightarrow> o_usedAt (f y) = None \<Longrightarrow> o_attempts (f y) < OTP_MAX_ATTEMPTS"
  shows "otps_ok (s\<lparr>otps := upd_row o_id i f (otps s)\<rparr>)"
  using assms by (auto simp: otps_ok_def map_upd_row set_upd_row)

lemma consumeOtp_ok: "otps_ok s \<Longrightarrow> otps_ok (snd (consumeOtp c now userId code purpose s))"
  by (auto simp: consumeOtp_eq not_le intro!: otps_ok_upd split: option.split)

lemma consumeOtp_budget:
  assumes "otps_ok s"
  shows "guesses_left userId purpose (otps (snd (consumeOtp c now userId code purpose s)))
      + (if checked (fst (consumeOtp c now userId code purpose s)) then 1 else 0)
    \<le> guesses_left userId purpose (otps s)"
proof (cases "newestUnused userId purpose (otps s)")
  case None
  then show ?thesis by (simp add: consumeOtp_eq)
next
  case (Some x)
  from newestUnused_Some [OF Some] assms have x: "x \<in> set (otps s)" "o_userId x = userId" "o_purpose x = purpose"
    "o_usedAt x = None" "o_attempts x < OTP_MAX_ATTEMPTS" "distinct (map o_id (otps s))"
    by (auto simp: otps_ok_def)
  note less = guesses_left_upd [OF x(6,1,2,3,4,5)]
  have "guesses_left userId purpose (upd_row o_id (o_id x) (\<lambda>x. x\<lparr>o_usedAt := Some now\<rparr>) (otps s))
      < guesses_left userId purpose (otps s)"
    "guesses_left userId purpose (upd_row o_id (o_id x)
        (\<lambda>y. y\<lparr>o_attempts := o_attempts x + 1, o_usedAt := Some now\<rparr>) (otps s)) < guesses_left userId purpose (otps s)"
    "guesses_left userId purpose (upd_row o_id (o_id x) (\<lambda>y. y\<lparr>o_attempts := o_attempts x + 1\<rparr>) (otps s))
      < guesses_left userId purpose (otps s)"
    using x(5) by (auto intro!: less)
  with Some show ?thesis by (simp add: consumeOtp_eq)
qed

text \<open>A series of submissions, by whoever and whenever, for one user and purpose.\<close>

fun submissions :: "crypto \<Rightarrow> uuid \<Rightarrow> otp_purpose \<Rightarrow> (time \<times> string) list \<Rightarrow> store \<Rightarrow> (err + unit) list \<times> store" where
  "submissions c userId purpose [] s = ([], s)"
| "submissions c userId purpose ((now, code) # rest) s =
     (case consumeOtp c now userId code purpose s of
        (r, s') \<Rightarrow> (case submissions c userId purpose rest s' of (rs, s'') \<Rightarrow> (r # rs, s'')))"

lemma submissions_budget:
  "otps_ok s \<Longrightarrow> length (filter checked (fst (submissions c userId purpose tries s)))
     + guesses_left userId purpose (otps (snd (submissions c userId purpose tries s)))
     \<le> guesses_left userId purpose (otps s)"
proof (induction tries arbitrary: s)
  case (Cons t rest)
  obtain now code where t: "t = (now, code)" by (cases t)
  obtain r s1 where run: "consumeOtp c now userId code purpose s = (r, s1)"
    by (cases "consumeOtp c now userId code purpose s")
  obtain rs s2 where rest: "submissions c userId purpose rest s1 = (rs, s2)"
    by (cases "submissions c userId purpose rest s1")
  have "otps_ok s1" using consumeOtp_ok [OF Cons.prems, of c now userId code purpose] run by simp
  from Cons.IH [OF this] rest
  have "length (filter checked rs) + guesses_left userId purpose (otps s2) \<le> guesses_left userId purpose (otps s1)"
    by simp
  with consumeOtp_budget [OF Cons.prems, of userId purpose c now code] run rest t show ?case by auto
qed simp

text \<open>Right after a code is issued, it is the newest unused one.\<close>

lemma request_result:
  assumes "requestTransactionOtp c now otpId draw userId purpose s = (Inr t, s')"
  shows "\<exists>u. findUser userId s = Some u \<and>
    (if u_twoFactorEnabled u \<or> purpose \<in> set ALWAYS_REQUIRE_OTP
     then t = \<lparr>ot_expiresInSeconds = OTP_TTL_MINUTES * 60, ot_deliveredTo = Some (maskEmail (resolveDeliveryEmail u))\<rparr> \<and>
       outbox s' = outbox s @ [(resolveDeliveryEmail u, generateNumericCode OTP_LENGTH draw)] \<and>
       otps s' = map (\<lambda>x. if o_userId x = u_id u \<and> o_purpose x = purpose \<and> o_usedAt x = None \<and> now < o_expiresAt x
                       then x\<lparr>o_usedAt := Some now\<rparr> else x) (otps s) @
         [\<lparr>o_id = otpId, o_userId = u_id u, o_codeHash = sha256 c (generateNumericCode OTP_LENGTH draw),
           o_purpose = purpose, o_expiresAt = now + OTP_TTL_MINUTES * 60 * 1000, o_usedAt = None, o_attempts = 0\<rparr>]
     else t = \<lparr>ot_expiresInSeconds = 0, ot_deliveredTo = None\<rparr> \<and> s' = s)"
  using assms
  by (auto simp: requestTransactionOtp_def loadUserOrThrow_def bindM_Inr_iff Let_def split: if_splits)

lemma findUser_id: "findUser i s = Some u \<Longrightarrow> u_id u = i \<and> u \<in> set (users s)"
  unfolding findUser_def by (drule find_row_SomeD) simp

lemma issued_code_accepted:
  assumes req: "requestTransactionOtp c now otpId draw userId purpose s = (Inr t, s')"
    and sent: "0 < ot_expiresInSeconds t" and draw: "draw < 10 ^ OTP_LENGTH"
    and later: "later \<le> now + OTP_TTL_MINUTES * 60 * 1000"
  shows "fst (consumeOtp c later userId (snd (last (outbox s'))) purpose s') = Inr ()"
proof -
  from request_result [OF req] sent obtain u where u: "findUser userId s = Some u"
    "outbox s' = outbox s @ [(resolveDeliveryEmail u, generateNumericCode OTP_LENGTH draw)]"
    "otps s' = map (\<lambda>x. if o_userId x = u_id u \<and> o_purpose x = purpose \<and> o_usedAt x = None \<and> now < o_expiresAt x
                       then x\<lparr>o_usedAt := Some now\<rparr> else x) (otps s) @
         [\<lparr>o_id = otpId, o_userId = u_id u, o_codeHash = sha256 c (generateNumericCode OTP_LENGTH draw),
           o_purpose = purpose, o_expiresAt = now + OTP_TTL_MINUTES * 60 * 1000, o_usedAt = None, o_attempts = 0\<rparr>]"
    by (auto split: if_splits)
  have "newestUnused userId purpose (otps s') = Some
      \<lparr>o_id = otpId, o_userId = u_id u, o_codeHash = sha256 c (generateNumericCode OTP_LENGTH draw),
           o_purpose = purpose, o_expiresAt = now + OTP_TTL_MINUTES * 60 * 1000, o_usedAt = None, o_attempts = 0\<rparr>"
    using findUser_id [OF u(1)] by (simp add: newestUnused_def u(3))
  moreover have "generateNumericCode OTP_LENGTH draw \<noteq> []"
    "list_all is_digit (generateNumericCode OTP_LENGTH draw)" "length (generateNumericCode OTP_LENGTH draw) = OTP_LENGTH"
    using generateNumericCode_ok [OF draw] by (auto simp: OTP_LENGTH_def)
  ultimately show ?thesis using u(2) later by (simp add: consumeOtp_eq)
qed

section \<open>Two-factor users have a PIN\<close>

definition pins_ok :: "store \<Rightarrow> bool" where
  "pins_ok s \<longleftrightarrow> distinct (map u_id (users s)) \<and>
     (\<forall>u \<in> set (users s). u_twoFactorEnabled u \<longrightarrow> truthy_opt (u_transactionPinHash u) \<noteq> None)"

lemma pins_ok_upd:
  assumes "pins_ok s" and "\<And>x. u_id (f x) = u_id x" and "findUser i s = Some u"
    and "u_twoFactorEnabled (f u) \<Longrightarrow> truthy_opt (u_transactionPinHash (f u)) \<noteq> None"
  shows "pins_ok (s\<lparr>users := upd_row u_id i f (users s)\<rparr>)"
proof -
  have "x = u" if "x \<in> set (users s)" "u_id x = i" for x
    using that assms(1) findUser_id [OF assms(3)] by (auto simp: pins_ok_def distinct_map dest: inj_onD)
  with assms show ?thesis by (auto simp: pins_ok_def map_upd_row set_upd_row)
qed

lemma pins_ok_otps: "pins_ok (s\<lparr>otps := os\<rparr>) = pins_ok s" "pins_ok (s\<lparr>outbox := b\<rparr>) = pins_ok s"
  by (simp_all add: pins_ok_def)

lemma consumeOtp_pins: "consumeOtp c now i code p s = (r, s') \<Longrightarrow> pins_ok s' = pins_ok s \<and> users s' = users s"
proof -
  assume "consumeOtp c now i code p s = (r, s')"
  then have e: "s' = s\<lparr>otps := otps s'\<rparr>" using consumeOtp_frame [of c now i code p s] by simp
  show ?thesis using arg_cong [OF e, of pins_ok] arg_cong [OF e, of users] pins_ok_otps(1) by simp
qed

lemma truthy_hash: "h \<noteq> [] \<Longrightarrow> truthy_opt (Some h) = Some h"
  by (simp add: truthy_opt_def)

lemma loadUserOrThrow_run:
  "loadUserOrThrow i s = (r, s') \<longleftrightarrow> s' = s \<and> r = (case findUser i s of None \<Rightarrow> Inl (NotFound ''User not found'') | Some u \<Rightarrow> Inr u)"
  by (auto simp: loadUserOrThrow_def bindM_def getsM_def requireM_def split: option.splits)

lemma setTransactionPin_pins:
  assumes "pins_ok s" and "\<And>p. bcrypt_hash c p \<noteq> []"
  shows "pins_ok (snd (setTransactionPin c now i password pin s))"
  using assms findUser_id [of i s]
  by (auto simp: setTransactionPin_def assertPinFormat_def assertPasswordCorrect_def updateUser_def bindM_def
      failIfM_def modifyM_def loadUserOrThrow_def getsM_def requireM_def truthy_hash
      intro!: pins_ok_upd split: option.split)

lemma changeTransactionPin_pins:
  assumes "pins_ok s" and "\<And>p. bcrypt_hash c p \<noteq> []"
  shows "pins_ok (snd (changeTransactionPin c now i password old new s))"
  using assms findUser_id [of i s]
  by (auto simp: changeTransactionPin_def assertPinFormat_def assertPasswordCorrect_def updateUser_def bindM_def
      failIfM_def modifyM_def loadUserOrThrow_def getsM_def requireM_def truthy_hash
      intro!: pins_ok_upd split: option.split)

lemma clearTransactionPin_pins:
  assumes "pins_ok s"
  shows "pins_ok (snd (clearTransactionPin c i password s))"
  using assms findUser_id [of i s]
  by (auto simp: clearTransactionPin_def assertPasswordCorrect_def updateUser_def bindM_def returnM_def
      failIfM_def modifyM_def loadUserOrThrow_def getsM_def requireM_def
      intro!: pins_ok_upd split: option.split)

lemma enableTwoFactor_pins:
  assumes "pins_ok s"
  shows "pins_ok (snd (enableTwoFactor c now i password s))"
  using assms findUser_id [of i s]
  by (auto simp: enableTwoFactor_def assertPasswordCorrect_def updateUser_def bindM_def returnM_def
      failIfM_def modifyM_def loadUserOrThrow_def getsM_def requireM_def
      intro!: pins_ok_upd split: option.split)

lemma disableTwoFactor_pins:
  assumes "pins_ok s"
  shows "pins_ok (snd (disableTwoFactor c now i password code s))"
proof (cases "findUser i s")
  case None
  with assms show ?thesis
    by (simp add: disableTwoFactor_def loadUserOrThrow_def bindM_def getsM_def requireM_def)
next
  case (Some u)
  obtain r s1 where run: "consumeOtp c now (u_id u) code OTP_DISABLE_2FA s = (r, s1)"
    by (cases "consumeOtp c now (u_id u) code OTP_DISABLE_2FA s")
  have s1: "pins_ok s1" "users s1 = users s" using consumeOtp_pins [OF run] assms by auto
  then have "findUser (u_id u) s1 = Some u" using Some findUser_id [OF Some] by (simp add: findUser_def)
  with s1(1) have "pins_ok (s1\<lparr>users := upd_row u_id (u_id u)
      (\<lambda>x. x\<lparr>u_twoFactorEnabled := False, u_twoFactorEnabledAt := None\<rparr>) (users s1)\<rparr>)"
    by (intro pins_ok_upd) simp_all
  with Some assms run s1 show ?thesis
    by (simp add: disableTwoFactor_def loadUserOrThrow_def assertPasswordCorrect_def bindM_def getsM_def
        requireM_def failIfM_def updateUser_def modifyM_def returnM_def split: sum.split)
qed

section \<open>The gate\<close>

text \<open>
  With two-factor on, the gate opens only to a code that is used up by it, and, unless a
  manager acts on the client's behalf, to the client's PIN.
\<close>

lemma gate_opens:
  assumes "assertTransactionAuth c now i purpose pin code onBehalf s = (Inr (), s')"
  shows "\<exists>u. findUser i s = Some u \<and> (u_twoFactorEnabled u \<longrightarrow>
    (\<exists>t x. code = Some t \<and> newestUnused i purpose (otps s) = Some x \<and> now \<le> o_expiresAt x \<and>
       sha256 c t = o_codeHash x \<and>
       s' = s\<lparr>otps := upd_row o_id (o_id x) (\<lambda>x. x\<lparr>o_usedAt := Some now\<rparr>) (otps s)\<rparr>) \<and>
    (\<not> onBehalf \<longrightarrow> (\<exists>p h. pin = Some p \<and> u_transactionPinHash u = Some h \<and> bcrypt_compare c p h)))"
proof -
  obtain u where u: "findUser i s = Some u"
    using assms by (cases "findUser i s") (auto simp: assertTransactionAuth_def loadUserOrThrow_def bindM_def getsM_def requireM_def)
  have t: "truthy_opt x = Some y \<Longrightarrow> x = Some y" for x y by (auto simp: truthy_opt_def split: if_splits)
  have consumed: "consumeOtp c now i k purpose s = (Inr (), s') \<Longrightarrow>
      \<exists>x. newestUnused i purpose (otps s) = Some x \<and> now \<le> o_expiresAt x \<and> sha256 c k = o_codeHash x \<and>
       s' = s\<lparr>otps := upd_row o_id (o_id x) (\<lambda>x. x\<lparr>o_usedAt := Some now\<rparr>) (otps s)\<rparr>" for k
    by (auto simp: consumeOtp_eq split: if_splits option.splits)
  show ?thesis
  proof (cases "u_twoFactorEnabled u")
    case False
    with u show ?thesis by blast
  next
    case True
    with assms u obtain k where k: "truthy_opt code = Some k" "consumeOtp c now i k purpose s = (Inr (), s')"
      "\<not> onBehalf \<Longrightarrow> \<exists>p h. truthy_opt pin = Some p \<and> truthy_opt (u_transactionPinHash u) = Some h \<and> bcrypt_compare c p h"
      by (auto simp: assertTransactionAuth_def loadUserOrThrow_def bindM_Inr_iff split: if_splits)
    from consumed [OF k(2)] t [OF k(1)] k(3) t u show ?thesis by blast
  qed
qed

end
