(* ===== verification/Collateral_Base.thy ===== *)
theory Collateral_Base
  imports Security Recon Ledger_Spec
begin

text \<open>
  What the collateral services share: quantities as the DTOs accept them
  (\<open>src/pledges/dto/pledges.dto.ts\<close>), commodity prices
  (\<open>src/commodity-prices/commodity-prices.service.ts\<close>), the default pledge lifetime
  (\<open>src/financier/financier-self.service.ts\<close>), and the ledger operations as the services
  call them, with the contract the services' own lemmas rest on.
\<close>

section \<open>Quantities\<close>

text \<open>The pattern \<open>^\d+(\.\d{1,4})?$\<close>, and the decimal the accepted text denotes.\<close>

definition quantity_ok :: "string \<Rightarrow> bool" where
  "quantity_ok t =
     (let rest = dropWhile is_digit t
      in takeWhile is_digit t \<noteq> [] \<and>
         (rest = [] \<or> hd rest = CHR ''.'' \<and> tl rest \<noteq> [] \<and> length (tl rest) \<le> 4 \<and> list_all is_digit (tl rest)))"

definition decimalOf :: "string \<Rightarrow> dec" where
  "decimalOf t =
     (let frac = drop 1 (dropWhile is_digit t)
      in of_int (digits_value (takeWhile is_digit t)) + of_int (digits_value frac) / 10 ^ length frac)"

definition defaultPledgeTtlDays :: "string option \<Rightarrow> int" where
  "defaultPledgeTtlDays raw =
     (case truthy_opt raw of
        None \<Rightarrow> 7
      | Some t \<Rightarrow> (case parseInt t of None \<Rightarrow> 7 | Some n \<Rightarrow> if 0 < n then n else 7))"

section \<open>Commodity prices\<close>

text \<open>
  The price with the latest \<open>effectiveAt\<close> not in the future. Two rows effective at the
  same instant are unordered in the query; the earlier row is taken here.
\<close>

fun latest :: "commodity_price list \<Rightarrow> commodity_price option" where
  "latest [] = None"
| "latest (p # ps) = (case latest ps of
     None \<Rightarrow> Some p
   | Some q \<Rightarrow> if cp_effectiveAt p < cp_effectiveAt q then Some q else Some p)"

definition currentPrice :: "time \<Rightarrow> uuid \<Rightarrow> uuid \<Rightarrow> store \<Rightarrow> commodity_price option" where
  "currentPrice now tenantId commodityId s =
     latest (filter (\<lambda>p. cp_tenantId p = tenantId \<and> cp_commodityId p = commodityId \<and> cp_effectiveAt p \<le> now) (prices s))"

definition lookupValuation :: "time \<Rightarrow> uuid \<Rightarrow> uuid \<Rightarrow> dec \<Rightarrow> store \<Rightarrow> (dec \<times> string) option" where
  "lookupValuation now tenantId commodityId quantity s =
     map_option (\<lambda>p. (cp_pricePerUnit p * quantity, cp_currency p)) (currentPrice now tenantId commodityId s)"

text \<open>The guard looks at a JavaScript number only; a string or a \<open>Decimal\<close> passes it.\<close>

datatype price_input = Price_Number dec | Price_Other dec

fun price_value :: "price_input \<Rightarrow> dec" where
  "price_value (Price_Number q) = q"
| "price_value (Price_Other q) = q"

definition setPrice ::
    "time \<Rightarrow> uuid \<Rightarrow> uuid \<Rightarrow> uuid \<Rightarrow> string \<Rightarrow> price_input \<Rightarrow> string option \<Rightarrow> uuid
     \<Rightarrow> time option \<Rightarrow> string option \<Rightarrow> commodity_price handler" where
  "setPrice now i tenantId commodityId unit price currency setById effectiveAt source =
     bindM (failIfM (case price of Price_Number q \<Rightarrow> q \<le> 0 | Price_Other q \<Rightarrow> False)
       (BadRequest ''pricePerUnit must be positive'')) (\<lambda>_.
     bindM (failIfM (\<not> fits 20 2 (price_value price)) (Db Numeric_Overflow)) (\<lambda>_.
     let row = \<lparr>cp_id = i, cp_tenantId = tenantId, cp_commodityId = commodityId, cp_unit = unit,
           cp_pricePerUnit = to_scale 2 (price_value price),
           cp_currency = (case currency of None \<Rightarrow> ''NGN'' | Some c \<Rightarrow> c), cp_setById = setById,
           cp_effectiveAt = (case effectiveAt of None \<Rightarrow> now | Some t \<Rightarrow> t),
           cp_source = (case source of None \<Rightarrow> ''MANUAL'' | Some t \<Rightarrow> t)\<rparr>
     in bindM (modifyM (\<lambda>s. s\<lparr>prices := prices s @ [row]\<rparr>)) (\<lambda>_. returnM row)))"

section \<open>The ledger as the services call it\<close>

definition actor :: "uuid \<Rightarrow> uuid \<Rightarrow> uuid option \<Rightarrow> string \<Rightarrow> actor_args" where
  "actor tenantId receiptId actorUserId key =
     \<lparr>a_tenantId = tenantId, a_receiptId = receiptId, a_actorUserId = actorUserId, a_idempotencyKey = key\<rparr>"

definition ledgerRelease ::
    "uuid \<Rightarrow> uuid \<Rightarrow> uuid \<Rightarrow> uuid option \<Rightarrow> string option \<Rightarrow> string \<Rightarrow> receipt handler" where
  "ledgerRelease evId tenantId heldReceiptId actorUserId reason key =
     atOnce (release evId (actor tenantId heldReceiptId actorUserId key) reason)"

definition ledgerToLien :: "uuid \<Rightarrow> uuid \<Rightarrow> uuid \<Rightarrow> uuid option \<Rightarrow> uuid \<Rightarrow> json option \<Rightarrow> string \<Rightarrow> receipt handler" where
  "ledgerToLien evId tenantId heldReceiptId actorUserId pledgeId metadata key =
     atOnce (transitionPledgeToLien evId (actor tenantId heldReceiptId actorUserId key) pledgeId metadata)"

definition ledgerHold :: "uuid \<Rightarrow> uuid \<Rightarrow> uuid \<Rightarrow> time \<Rightarrow> hold_input \<Rightarrow> hold_result handler" where
  "ledgerHold evId id1 id2 now inp = atOnce (hold evId id1 id2 now inp)"

definition ledgerReleasePartial ::
    "uuid \<Rightarrow> uuid \<Rightarrow> uuid \<Rightarrow> time \<Rightarrow> release_partial_input \<Rightarrow> release_partial_result handler" where
  "ledgerReleasePartial evId id1 id2 now inp = atOnce (releasePartial evId id1 id2 now inp)"

section \<open>Ledger calls leave the other tables alone\<close>

lemma createReceipt_more: "createReceipt r s = Inr (x, s') \<Longrightarrow> ledger.more s' = ledger.more s"
  by (simp add: createReceipt_Inr_iff)

lemma updateReceipt_more: "updateReceipt i f s = Inr (x, s') \<Longrightarrow> ledger.more s' = ledger.more s"
  by (simp add: updateReceipt_Inr_iff)

lemma event_more: "event e s = Inr (x, s') \<Longrightarrow> ledger.more s' = ledger.more s"
  by (simp add: event_Inr_iff)

lemma partition_more: "partition i j now src q ps ev s = Inr (x, s') \<Longrightarrow> ledger.more s' = ledger.more s"
  unfolding partition_def Let_def andThen_Inr_iff
  by (auto simp: andThen_Inr_iff dest!: createReceipt_more updateReceipt_more split: if_splits)

lemmas more_frame = createReceipt_more updateReceipt_more event_more partition_more

lemma holdTx_more: "holdTx ev i j now inp s = Inr (r, s') \<Longrightarrow> ledger.more s' = ledger.more s"
  unfolding holdTx_def by (auto simp: andThen_Inr_iff dest!: more_frame)

lemma releaseTx_more: "releaseTx ev a why s = Inr (r, s') \<Longrightarrow> ledger.more s' = ledger.more s"
  unfolding releaseTx_def by (auto simp: andThen_Inr_iff dest!: more_frame)

lemma transitionPledgeToLienTx_more:
  "transitionPledgeToLienTx ev a p m s = Inr (r, s') \<Longrightarrow> ledger.more s' = ledger.more s"
  unfolding transitionPledgeToLienTx_def by (auto simp: andThen_Inr_iff dest!: more_frame)

lemma releasePartialTx_more: "releasePartialTx ev i j now inp s = Inr (r, s') \<Longrightarrow> ledger.more s' = ledger.more s"
  unfolding releasePartialTx_def Let_def by (auto simp: andThen_Inr_iff dest!: more_frame)

lemma idempotent_more:
  assumes "runIdempotent k rec work s0 s = (r, s')" and "\<And>a t. work s = Inr (a, t) \<Longrightarrow> ledger.more t = ledger.more s"
  shows "ledger.more s' = ledger.more s"
  using runIdempotent_outcome [OF assms(1)] assms(2) by auto

lemma idempotent_failed: "runIdempotent k rec work s0 s = (Inl e, s') \<Longrightarrow> s' = s"
  by (auto simp: runIdempotent_def split: option.splits sum.splits err.splits db_error.splits)

lemma idempotent_lawful:
  assumes "runIdempotent k rec work s0 s = (r, s')"
    and "\<And>a t. quantities_ok s \<Longrightarrow> work s = Inr (a, t) \<Longrightarrow> ledger_move g s t"
  shows "lawful s s'"
  using runIdempotent_outcome [OF assms(1)] assms(2)
  by (auto intro: lawful_move ledger_lawful.stays)

lemma idempotent_first:
  assumes "runIdempotent k rec work s s = (Inr a, s')" and "findEventByKey k s = None"
  shows "work s = Inr (a, s')"
  using assms by (auto simp: runIdempotent_first transactM_def split: sum.splits)

section \<open>The contract of a settlement\<close>

text \<open>
  The services end a hold with one ledger call, a release or a move to a lien, and then
  record the decision in their own table. What they rely on: the call is lawful for the
  ledger, touches no other table, changes nothing when it fails, and, the first time its
  key is used, turns the row it was given from a status it accepts into the one it is for.
\<close>

locale settlement =
  fixes settle :: "string \<Rightarrow> uuid \<Rightarrow> uuid \<Rightarrow> receipt handler"
    and accepts :: "receipt_status \<Rightarrow> bool"
    and target :: receipt_status
  assumes settle_lawful: "confined lawful (settle k t i)"
    and settle_more: "settle k t i s = (r, s') \<Longrightarrow> ledger.more s' = ledger.more s"
    and settle_failed: "settle k t i s = (Inl e, s') \<Longrightarrow> s' = s"
    and settle_first: "ids_unique s \<Longrightarrow> findEventByKey k s = None \<Longrightarrow> settle k t i s = (Inr x, s') \<Longrightarrow>
      \<exists>r f. loadOrThrow s i t = Inr r \<and> accepts (r_status r) \<and> receipts s' = upd_row r_id i f (receipts s) \<and>
        x = f r \<and> (\<forall>y. r_id (f y) = r_id y \<and> r_status (f y) = target \<and> r_quantity (f y) = r_quantity y)"
begin

lemma settled_row:
  assumes "ids_unique s" and "findEventByKey k s = None" and "settle k t i s = (Inr x, s')"
  shows "\<exists>r. find_row r_id i (receipts s) = Some r \<and> accepts (r_status r) \<and>
    find_row r_id i (receipts s') = Some x \<and> r_status x = target \<and> r_quantity x = r_quantity r"
proof -
  obtain r f where r: "loadOrThrow s i t = Inr r" "accepts (r_status r)"
    "receipts s' = upd_row r_id i f (receipts s)" "x = f r"
    "\<forall>y. r_id (f y) = r_id y \<and> r_status (f y) = target \<and> r_quantity (f y) = r_quantity y"
    using settle_first [OF assms(1-3)] by blast
  from loadOrThrow_InrD [OF r(1)] find_root [OF assms(1)] have f: "find_row r_id i (receipts s) = Some r" by auto
  then have "find_row r_id i (receipts s') = Some (f r)" using r(3,5) by (simp add: find_row_upd_row)
  with f r show ?thesis by auto
qed

lemma others_kept:
  assumes "ids_unique s" and "findEventByKey k s = None" and "settle k t i s = (Inr x, s')" and "j \<noteq> i"
  shows "find_row r_id j (receipts s') = find_row r_id j (receipts s)"
proof -
  obtain r f where "receipts s' = upd_row r_id i f (receipts s)" "\<forall>y. r_id (f y) = r_id y"
    using settle_first [OF assms(1-3)] by blast
  with assms(4) show ?thesis by (simp add: find_row_upd_row)
qed

lemma settle_refused:
  assumes "ids_unique s" and "findEventByKey k s = None" and "find_row r_id i (receipts s) = Some r"
    and "\<not> accepts (r_status r)"
  shows "\<exists>e. settle k t i s = (Inl e, s)"
proof (cases "settle k t i s")
  case (Pair res s')
  with settled_row [OF assms(1,2), of t i] settle_failed [of k t i s] assms(3,4) show ?thesis
    by (cases res) auto
qed

end

definition held_any :: "receipt_status \<Rightarrow> bool" where
  "held_any st \<longleftrightarrow> st \<in> set HELD"

definition pledge_held :: "receipt_status \<Rightarrow> bool" where
  "pledge_held st \<longleftrightarrow> st = HELD_PLEDGE_PENDING"

lemma event_then_update_first:
  assumes "ids_unique s" and "loadOrThrow s i t = Inr r" and "event e s = Inr (ev, s1)"
    and "updateReceipt (r_id r) f s1 = Inr (x, s')"
  shows "receipts s' = upd_row r_id i f (receipts s) \<and> x = f r"
proof -
  have r: "r \<in> set (receipts s)" "r_id r = i" using loadOrThrow_InrD [OF assms(2)] by auto
  have s1: "receipts s1 = receipts s" using assms(3) by (auto simp: event_Inr_iff)
  from find_root [OF assms(1) r(1)] r(2) s1 assms(4) show ?thesis by (auto simp: updateReceipt_Inr_iff)
qed

interpretation releasing: settlement "\<lambda>k t i. ledgerRelease ev t i who why k" held_any ACTIVE for ev who why
proof
  fix k t i s r s' and e :: err and x :: receipt
  show "confined lawful (ledgerRelease ev t i who why k)"
    unfolding ledgerRelease_def atOnce_def release_def
    by (rule confinedI, erule idempotent_lawful) (erule releaseTx_move)
  show "ledgerRelease ev t i who why k s = (r, s') \<Longrightarrow> ledger.more s' = ledger.more s"
    unfolding ledgerRelease_def atOnce_def release_def by (erule idempotent_more) (rule releaseTx_more)
  show "ledgerRelease ev t i who why k s = (Inl e, s') \<Longrightarrow> s' = s"
    unfolding ledgerRelease_def atOnce_def release_def by (erule idempotent_failed)
  assume u: "ids_unique s" and "findEventByKey k s = None" "ledgerRelease ev t i who why k s = (Inr x, s')"
  then have "releaseTx ev (actor t i who k) why s = Inr (x, s')"
    unfolding ledgerRelease_def atOnce_def release_def by (intro idempotent_first) (simp_all add: actor_def)
  then obtain r e1 ev1 s1 where r: "loadOrThrow s i t = Inr r" "r_status r \<in> set HELD"
    "event e1 s = Inr (ev1, s1)" "updateReceipt (r_id r) (\<lambda>x. x\<lparr>r_status := ACTIVE, r_approvalStatus := APPROVED\<rparr>) s1 = Inr (x, s')"
    unfolding releaseTx_def by (auto simp: andThen_Inr_iff actor_def)
  show "\<exists>r f. loadOrThrow s i t = Inr r \<and> held_any (r_status r) \<and> receipts s' = upd_row r_id i f (receipts s) \<and>
        x = f r \<and> (\<forall>y. r_id (f y) = r_id y \<and> r_status (f y) = ACTIVE \<and> r_quantity (f y) = r_quantity y)"
    using r(1,2) event_then_update_first [OF u r(1,3,4)]
    by (intro exI [of _ r] exI [of _ "(\<lambda>x. x\<lparr>r_status := ACTIVE, r_approvalStatus := APPROVED\<rparr>)"]) (simp add: held_any_def)
qed

interpretation to_lien: settlement "\<lambda>k t i. ledgerToLien ev t i who p m k" pledge_held HELD_LIEN for ev who p m
proof
  fix k t i s r s' and e :: err and x :: receipt
  show "confined lawful (ledgerToLien ev t i who p m k)"
    unfolding ledgerToLien_def atOnce_def transitionPledgeToLien_def
    by (rule confinedI, erule idempotent_lawful) (erule transitionPledgeToLienTx_move)
  show "ledgerToLien ev t i who p m k s = (r, s') \<Longrightarrow> ledger.more s' = ledger.more s"
    unfolding ledgerToLien_def atOnce_def transitionPledgeToLien_def
    by (erule idempotent_more) (rule transitionPledgeToLienTx_more)
  show "ledgerToLien ev t i who p m k s = (Inl e, s') \<Longrightarrow> s' = s"
    unfolding ledgerToLien_def atOnce_def transitionPledgeToLien_def by (erule idempotent_failed)
  assume u: "ids_unique s" and "findEventByKey k s = None" "ledgerToLien ev t i who p m k s = (Inr x, s')"
  then have "transitionPledgeToLienTx ev (actor t i who k) p m s = Inr (x, s')"
    unfolding ledgerToLien_def atOnce_def transitionPledgeToLien_def
    by (intro idempotent_first) (simp_all add: actor_def)
  then obtain r e1 ev1 s1 where r: "loadOrThrow s i t = Inr r" "r_status r = HELD_PLEDGE_PENDING"
    "event e1 s = Inr (ev1, s1)" "updateReceipt (r_id r) (\<lambda>x. x\<lparr>r_status := HELD_LIEN\<rparr>) s1 = Inr (x, s')"
    unfolding transitionPledgeToLienTx_def by (auto simp: andThen_Inr_iff actor_def)
  show "\<exists>r f. loadOrThrow s i t = Inr r \<and> pledge_held (r_status r) \<and> receipts s' = upd_row r_id i f (receipts s) \<and>
        x = f r \<and> (\<forall>y. r_id (f y) = r_id y \<and> r_status (f y) = HELD_LIEN \<and> r_quantity (f y) = r_quantity y)"
    using r(1,2) event_then_update_first [OF u r(1,3,4)]
    by (intro exI [of _ r] exI [of _ "(\<lambda>x. x\<lparr>r_status := HELD_LIEN\<rparr>)"]) (simp add: pledge_held_def)
qed

lemma confined_hold: "confined lawful (ledgerHold ev i j now inp)"
  unfolding ledgerHold_def atOnce_def hold_def
  by (rule confinedI, erule idempotent_lawful) (erule holdTx_move)

lemma confined_releasePartial: "confined lawful (ledgerReleasePartial ev i j now inp)"
  unfolding ledgerReleasePartial_def atOnce_def releasePartial_def
  by (rule confinedI, erule idempotent_lawful) (erule releasePartialTx_move)

lemma ledgerHold_more: "ledgerHold ev i j now inp s = (r, s') \<Longrightarrow> ledger.more s' = ledger.more s"
  unfolding ledgerHold_def atOnce_def hold_def by (erule idempotent_more) (rule holdTx_more)

lemma ledgerReleasePartial_more: "ledgerReleasePartial ev i j now inp s = (r, s') \<Longrightarrow> ledger.more s' = ledger.more s"
  unfolding ledgerReleasePartial_def atOnce_def releasePartial_def by (erule idempotent_more) (rule releasePartialTx_more)

end
