(* ===== verification/Pledges.thy ===== *)
theory Pledges
  imports Collateral_Base
begin

text \<open>
  \<open>PledgesService\<close>, \<open>src/pledges/pledges.service.ts\<close>, and its cron job
  \<open>src/pledges/pledges.cleanup.service.ts\<close>: encumbrance of a receipt, creation of a pledge
  over a hold, and its end by cancellation, acceptance, rejection or expiry. \<open>ids\<close> supplies
  the identifiers one call draws.
\<close>

section \<open>Projection\<close>

record pledge_view =
  pv_id :: uuid
  pv_receiptId :: uuid
  pv_receiptNumber :: "string option"
  pv_commodity :: "string option"
  pv_grade :: "string option"
  pv_unit :: "string option"
  pv_clientId :: uuid
  pv_clientName :: "string option"
  pv_financierId :: uuid
  pv_financierName :: "string option"
  pv_financierLogo :: "string option"
  pv_warehouseId :: uuid
  pv_warehouseName :: "string option"
  pv_quantity :: dec
  pv_valuationAtPledge :: "dec option"
  pv_currency :: string
  pv_status :: pledge_status
  pv_clientNote :: "string option"
  pv_decisionReason :: "string option"
  pv_decidedAt :: "time option"
  pv_expiresAt :: time
  pv_createdAt :: time

definition fullName :: "user \<Rightarrow> string" where
  "fullName u = u_firstName u @ '' '' @ u_lastName u"

text \<open>Related rows exist by foreign key; a missing one would show as \<open>None\<close>.\<close>

definition projectPledge :: "store \<Rightarrow> pledge \<Rightarrow> pledge_view" where
  "projectPledge s p =
     (let r = find_row r_id (p_receiptId p) (receipts s);
          org = find_row fo_id (p_financierOrgId p) (orgs s)
      in \<lparr>pv_id = p_id p, pv_receiptId = p_receiptId p, pv_receiptNumber = map_option r_receiptNumber r,
          pv_commodity = (case r of None \<Rightarrow> None
            | Some x \<Rightarrow> map_option co_name (find_row co_id (r_commodityId x) (commodities s))),
          pv_grade = (case r of None \<Rightarrow> None | Some x \<Rightarrow> r_grade x),
          pv_unit = (case r of None \<Rightarrow> None
            | Some x \<Rightarrow> map_option co_unitOfMeasure (find_row co_id (r_commodityId x) (commodities s))),
          pv_clientId = p_clientId p, pv_clientName = map_option fullName (findUser (p_clientId p) s),
          pv_financierId = p_financierOrgId p, pv_financierName = map_option fo_name org,
          pv_financierLogo = (case org of None \<Rightarrow> None | Some o' \<Rightarrow> fo_logoUrl o'),
          pv_warehouseId = p_warehouseId p,
          pv_warehouseName = map_option wh_name (find_row wh_id (p_warehouseId p) (warehouses s)),
          pv_quantity = p_quantity p, pv_valuationAtPledge = p_valuationAtPledge p,
          pv_currency = p_currency p, pv_status = p_status p, pv_clientNote = p_clientNote p,
          pv_decisionReason = p_decisionReason p, pv_decidedAt = p_decidedAt p,
          pv_expiresAt = p_expiresAt p, pv_createdAt = p_createdAt p\<rparr>)"

definition findPledge :: "uuid \<Rightarrow> store \<Rightarrow> pledge option" where
  "findPledge i s = find_row p_id i (pledges s)"

definition projectPledgeDetail :: "uuid \<Rightarrow> pledge_view handler" where
  "projectPledgeDetail i =
     bindM (getsM (findPledge i)) (\<lambda>p.
     bindM (requireM (NotFound ''Pledge not found'') p) (\<lambda>p.
       getsM (\<lambda>s. projectPledge s p)))"

definition updatePledge :: "uuid \<Rightarrow> (pledge \<Rightarrow> pledge) \<Rightarrow> unit handler" where
  "updatePledge i f = modifyM (\<lambda>s. s\<lparr>pledges := upd_row p_id i f (pledges s)\<rparr>)"

section \<open>Encumbrance\<close>

record encumbrance =
  en_receiptId :: uuid
  en_totalQuantity :: dec
  en_unit :: "string option"
  en_available :: dec
  en_pledgePending :: dec
  en_liened :: dec
  en_releasePending :: dec
  en_liens :: "lien list"
  en_pendingPledges :: "pledge list"

definition leafStatuses :: "receipt_status list" where
  "leafStatuses = [ACTIVE, HELD_PLEDGE_PENDING, HELD_LIEN, HELD_WITHDRAWAL, HELD_LOAN, HELD_TRADE]"

definition leavesOf :: "receipt \<Rightarrow> 'z ledger_scheme \<Rightarrow> receipt list" where
  "leavesOf rt s = filter (\<lambda>r. r_tenantId r = r_tenantId rt \<and> (r_rootReceiptId r = r_id rt \<or> r_id r = r_id rt) \<and>
     r_status r \<in> set leafStatuses) (receipts s)"

definition inStatus :: "receipt_status \<Rightarrow> receipt list \<Rightarrow> dec" where
  "inStatus st rs = volume (filter (\<lambda>r. r_status r = st) rs)"

definition lienOpen :: "lien \<Rightarrow> bool" where
  "lienOpen l \<longleftrightarrow> ln_status l = LN_ACTIVE \<or> ln_status l = LN_PARTIALLY_RELEASED"

definition linePending :: "store \<Rightarrow> release_line \<Rightarrow> bool" where
  "linePending s l \<longleftrightarrow> (case find_row rq_id (rl_releaseRequestId l) (requests s) of
     None \<Rightarrow> False | Some q \<Rightarrow> rq_status q = RQ_PENDING)"

definition encumbranceOf :: "uuid \<Rightarrow> receipt \<Rightarrow> store \<Rightarrow> encumbrance" where
  "encumbranceOf callerUserId rt s =
     (let leaves = leavesOf rt s;
          heldLienIds = map r_id (filter (\<lambda>r. r_status r = HELD_LIEN) leaves)
      in \<lparr>en_receiptId = r_id rt, en_totalQuantity = r_quantity rt,
          en_unit = map_option co_unitOfMeasure (find_row co_id (r_commodityId rt) (commodities s)),
          en_available = inStatus ACTIVE leaves, en_pledgePending = inStatus HELD_PLEDGE_PENDING leaves,
          en_liened = inStatus HELD_LIEN leaves,
          en_releasePending = sum_list (map rl_quantity
            (filter (\<lambda>l. rl_receiptId l \<in> set heldLienIds \<and> linePending s l) (lines_of_requests s))),
          en_liens = filter (\<lambda>l. ln_clientId l = callerUserId \<and> lienOpen l \<and>
            (case find_row r_id (ln_receiptId l) (receipts s) of None \<Rightarrow> False
             | Some r \<Rightarrow> r_rootReceiptId r = r_id rt)) (liens s),
          en_pendingPledges = filter (\<lambda>p. p_receiptId p = r_id rt \<and> p_status p = PL_PENDING) (pledges s)\<rparr>)"

definition getReceiptEncumbrance :: "uuid \<Rightarrow> uuid \<Rightarrow> encumbrance handler" where
  "getReceiptEncumbrance callerUserId receiptId =
     bindM (getsM (\<lambda>s. find_row r_id receiptId (receipts s))) (\<lambda>rt.
     bindM (requireM (NotFound ''Receipt not found'')
       (case rt of None \<Rightarrow> None | Some r \<Rightarrow> if r_clientId r \<noteq> callerUserId then None else Some r)) (\<lambda>rt.
       getsM (encumbranceOf callerUserId rt)))"

section \<open>Reads for the pledge form\<close>

definition financiersForWarehouse :: "uuid \<Rightarrow> uuid \<Rightarrow> financier_org list handler" where
  "financiersForWarehouse callerUserId warehouseId =
     bindM (getsM (findUser callerUserId)) (\<lambda>u.
     bindM (requireM (NotFound ''User not found'') u) (\<lambda>u.
       getsM (\<lambda>s. sort_key fo_name (concat (map (\<lambda>l. case find_row fo_id (wl_financierOrgId l) (orgs s) of
           None \<Rightarrow> [] | Some org \<Rightarrow> if fo_status org = ORG_ACTIVE then [org] else [])
         (filter (\<lambda>l. wl_tenantId l = u_tenantId u \<and> wl_warehouseId l = warehouseId \<and>
            wl_status l = LINK_ACTIVE) (links s)))))))"

definition getReceiptValuation :: "time \<Rightarrow> uuid \<Rightarrow> uuid \<Rightarrow> commodity_price handler" where
  "getReceiptValuation now callerUserId receiptId =
     bindM (getsM (\<lambda>s. find (\<lambda>r. r_id r = receiptId \<and> r_clientId r = callerUserId) (receipts s))) (\<lambda>r.
     bindM (requireM (NotFound ''Receipt not found'') r) (\<lambda>r.
     bindM (getsM (currentPrice now (r_tenantId r) (r_commodityId r))) (\<lambda>p.
       requireM (NotFound ''NO_PRICE_ON_FILE'') p)))"

section \<open>Creating a pledge\<close>

record create_pledge_dto =
  cd_receiptId :: uuid
  cd_financierId :: uuid
  cd_quantity :: string
  cd_note :: "string option"

definition dayMs :: int where "dayMs = 24 * 60 * 60 * 1000"

text \<open>The insert checks the unique columns and the widths, and rounds to them.\<close>

definition insertPledge :: "pledge \<Rightarrow> unit handler" where
  "insertPledge p =
     bindM (getsM pledges) (\<lambda>rows.
     bindM (failIfM (p_id p \<in> p_id ` set rows) (Db (P2002 ''id''))) (\<lambda>_.
     bindM (failIfM (p_heldReceiptId p \<noteq> None \<and> p_heldReceiptId p \<in> p_heldReceiptId ` set rows)
       (Db (P2002 ''held_receipt_id''))) (\<lambda>_.
     bindM (failIfM (\<not> fits 20 4 (p_quantity p) \<or>
         (case p_valuationAtPledge p of None \<Rightarrow> False | Some v \<Rightarrow> \<not> fits 20 2 v)) (Db Numeric_Overflow)) (\<lambda>_.
       modifyM (\<lambda>s. s\<lparr>pledges := pledges s @ [p\<lparr>p_quantity := to_scale 4 (p_quantity p),
         p_valuationAtPledge := map_option (to_scale 2) (p_valuationAtPledge p)\<rparr>]\<rparr>)))))"

definition pledgeable :: "receipt_status \<Rightarrow> bool" where
  "pledgeable st \<longleftrightarrow> st = ACTIVE \<or> st = SPLIT \<or> st = PENDING_APPROVAL"

definition createPledge ::
    "string option \<Rightarrow> time \<Rightarrow> (nat \<Rightarrow> uuid) \<Rightarrow> uuid \<Rightarrow> create_pledge_dto \<Rightarrow> pledge_view handler" where
  "createPledge ttlEnv now ids callerUserId dto =
     bindM (getsM (findUser callerUserId)) (\<lambda>caller.
     bindM (requireM (NotFound ''User not found'') caller) (\<lambda>caller.
     bindM (getsM (\<lambda>s. find (\<lambda>r. r_id r = cd_receiptId dto \<and> r_clientId r = callerUserId \<and>
       r_tenantId r = u_tenantId caller) (receipts s))) (\<lambda>r.
     bindM (requireM (NotFound ''RECEIPT_NOT_PLEDGEABLE'') r) (\<lambda>r.
     bindM (failIfM (\<not> pledgeable (r_status r)) (BadRequest ''RECEIPT_NOT_PLEDGEABLE'')) (\<lambda>_.
     let qty = decimalOf (cd_quantity dto) in
     bindM (failIfM (qty \<le> 0) (BadRequest ''QUANTITY_INVALID'')) (\<lambda>_.
     bindM (getReceiptEncumbrance callerUserId (r_id r)) (\<lambda>enc.
     bindM (failIfM (en_available enc < qty) (BadRequest ''INSUFFICIENT_AVAILABLE_VOLUME'')) (\<lambda>_.
     bindM (getsM (\<lambda>s. case find (\<lambda>l. wl_tenantId l = u_tenantId caller \<and>
           wl_financierOrgId l = cd_financierId dto \<and> wl_warehouseId l = r_warehouseId r \<and>
           wl_status l = LINK_ACTIVE) (links s) of
         None \<Rightarrow> None | Some l \<Rightarrow> find_row fo_id (wl_financierOrgId l) (orgs s))) (\<lambda>org.
     bindM (requireM (BadRequest ''FINANCIER_NOT_ONBOARDED'')
       (case org of None \<Rightarrow> None | Some o' \<Rightarrow> if fo_status o' \<noteq> ORG_ACTIVE then None else Some o')) (\<lambda>org.
     bindM (getsM (lookupValuation now (u_tenantId caller) (r_commodityId r) qty)) (\<lambda>valuation.
     let ttlDays = (case fo_pledgeTtlDays org of None \<Rightarrow> defaultPledgeTtlDays ttlEnv | Some d \<Rightarrow> d);
         pledgeId = ids 0 in
     bindM (ledgerHold (ids 1) (ids 2) (ids 3) now
       \<lparr>h_tenantId = r_tenantId r, h_sourceReceiptId = r_id r, h_quantity = qty,
        h_heldStatus = Held_Pledge_Pending, h_txnType = T_PLEDGE, h_txnId = pledgeId,
        h_actorUserId = Some callerUserId, h_idempotencyKey = ''pledge:create:'' @ pledgeId,
        h_metadata = Some [(''financierOrgId'', cd_financierId dto)]\<rparr>) (\<lambda>held.
     bindM (requireM (TypeError ''id'') (hr_held held)) (\<lambda>heldRow.
     bindM (getsM (\<lambda>s. case find_row co_id (r_commodityId r) (commodities s) of None \<Rightarrow> [] | Some c \<Rightarrow> co_unitOfMeasure c)) (\<lambda>unit.
     bindM (insertPledge
       \<lparr>p_id = pledgeId, p_tenantId = u_tenantId caller, p_receiptId = r_id r,
        p_heldReceiptId = Some (r_id heldRow), p_clientId = callerUserId,
        p_financierOrgId = cd_financierId dto, p_warehouseId = r_warehouseId r, p_quantity = qty,
        p_unit = unit, p_valuationAtPledge = map_option fst valuation,
        p_currency = (case valuation of None \<Rightarrow> ''NGN'' | Some v \<Rightarrow> snd v), p_status = PL_PENDING,
        p_clientNote = cd_note dto, p_decisionReason = None, p_decidedById = None, p_decidedAt = None,
        p_expiresAt = now + ttlDays * dayMs, p_createdAt = now\<rparr>) (\<lambda>_.
     bindM (notifyFinancierUsers (fo_id org) (u_tenantId caller) N_PLEDGE_CREATED ''pledge'' pledgeId) (\<lambda>_.
       projectPledgeDetail pledgeId))))))))))))))))"

section \<open>Listings\<close>

definition listMyPledges ::
    "uuid \<Rightarrow> pledge_status option \<Rightarrow> string option \<Rightarrow> string option \<Rightarrow> pledge_view page handler" where
  "listMyPledges callerUserId status page limit =
     paginate page limit (\<lambda>s. map (projectPledge s)
       (rev (filter (\<lambda>p. p_clientId p = callerUserId \<and> (case status of None \<Rightarrow> True | Some st \<Rightarrow> p_status p = st)) (pledges s))))"

definition listFinancierPledges ::
    "uuid \<Rightarrow> pledge_status option \<Rightarrow> string option \<Rightarrow> string option \<Rightarrow> pledge_view page handler" where
  "listFinancierPledges callerUserId status page limit =
     bindM (requireFinancierOrg callerUserId) (\<lambda>org.
       paginate page limit (\<lambda>s. map (projectPledge s)
         (sort_key p_status (rev (filter (\<lambda>p. p_financierOrgId p = fo_id org \<and>
            (case status of None \<Rightarrow> True | Some st \<Rightarrow> p_status p = st)) (pledges s))))))"

definition pledgeOfOrg :: "uuid \<Rightarrow> uuid \<Rightarrow> store \<Rightarrow> pledge option" where
  "pledgeOfOrg pledgeId orgId s = find (\<lambda>p. p_id p = pledgeId \<and> p_financierOrgId p = orgId) (pledges s)"

definition getFinancierPledgeDetail :: "uuid \<Rightarrow> uuid \<Rightarrow> pledge_view handler" where
  "getFinancierPledgeDetail callerUserId pledgeId =
     bindM (requireFinancierOrg callerUserId) (\<lambda>org.
     bindM (getsM (pledgeOfOrg pledgeId (fo_id org))) (\<lambda>p.
     bindM (requireM (NotFound ''Pledge not found'') p) (\<lambda>p.
       getsM (\<lambda>s. projectPledge s p))))"

section \<open>The end of a pledge\<close>

text \<open>
  Cancelling reads the pledge first and acts on what it read: the two halves are separate
  operations between which other sessions run.
\<close>

definition cancelPledge_check :: "uuid \<Rightarrow> uuid \<Rightarrow> pledge handler" where
  "cancelPledge_check callerUserId pledgeId =
     bindM (getsM (\<lambda>s. find (\<lambda>p. p_id p = pledgeId \<and> p_clientId p = callerUserId) (pledges s))) (\<lambda>p.
     bindM (requireM (NotFound ''Pledge not found'') p) (\<lambda>p.
     bindM (failIfM (p_status p \<noteq> PL_PENDING) (BadRequest ''PLEDGE_NOT_PENDING'')) (\<lambda>_.
       returnM p)))"

definition releaseHeld :: "uuid \<Rightarrow> pledge \<Rightarrow> uuid option \<Rightarrow> string \<Rightarrow> string \<Rightarrow> unit handler" where
  "releaseHeld evId p actorUserId reason key =
     (case truthy_opt (p_heldReceiptId p) of
        None \<Rightarrow> returnM ()
      | Some held \<Rightarrow> bindM (ledgerRelease evId (p_tenantId p) held actorUserId (Some reason) key) (\<lambda>_. returnM ()))"

definition cancelPledge_commit :: "uuid \<Rightarrow> uuid \<Rightarrow> pledge \<Rightarrow> pledge_view handler" where
  "cancelPledge_commit evId callerUserId p =
     bindM (releaseHeld evId p (Some callerUserId) ''Pledge cancelled by client'' (''pledge:cancel:'' @ p_id p)) (\<lambda>_.
     bindM (updatePledge (p_id p) (\<lambda>x. x\<lparr>p_status := PL_CANCELLED\<rparr>)) (\<lambda>_.
     bindM (notifyFinancierUsers (p_financierOrgId p) (p_tenantId p) N_PLEDGE_REJECTED ''pledge'' (p_id p)) (\<lambda>_.
       projectPledgeDetail (p_id p))))"

definition cancelPledge :: "uuid \<Rightarrow> uuid \<Rightarrow> uuid \<Rightarrow> pledge_view handler" where
  "cancelPledge evId callerUserId pledgeId =
     bindM (cancelPledge_check callerUserId pledgeId) (cancelPledge_commit evId callerUserId)"

text \<open>The insert of the lien and the decision on the pledge are one transaction.\<close>

definition insertLien :: "lien \<Rightarrow> store \<Rightarrow> err + unit \<times> store" where
  "insertLien l s =
     (if ln_id l \<in> ln_id ` set (liens s) then Inl (Db (P2002 ''id''))
      else if ln_pledgeId l \<in> ln_pledgeId ` set (liens s) then Inl (Db (P2002 ''pledge_id''))
      else Inr ((), s\<lparr>liens := liens s @ [l]\<rparr>))"

definition updatePledgeTx :: "uuid \<Rightarrow> (pledge \<Rightarrow> pledge) \<Rightarrow> store \<Rightarrow> err + unit \<times> store" where
  "updatePledgeTx i f s =
     (case findPledge i s of
        None \<Rightarrow> Inl (Db Row_Missing)
      | Some _ \<Rightarrow> Inr ((), s\<lparr>pledges := upd_row p_id i f (pledges s)\<rparr>))"

definition acceptPledge ::
    "crypto \<Rightarrow> time \<Rightarrow> (nat \<Rightarrow> uuid) \<Rightarrow> uuid \<Rightarrow> uuid \<Rightarrow> string \<Rightarrow> string option \<Rightarrow> pledge_view handler" where
  "acceptPledge c now ids callerUserId pledgeId code note =
     bindM (requireFinancierOrg callerUserId) (\<lambda>org.
     bindM (getsM (pledgeOfOrg pledgeId (fo_id org))) (\<lambda>p.
     bindM (requireM (NotFound ''Pledge not found'') p) (\<lambda>p.
     bindM (failIfM (p_status p \<noteq> PL_PENDING) (BadRequest ''PLEDGE_NOT_PENDING'')) (\<lambda>_.
     bindM (failIfM (p_expiresAt p < now) (BadRequest ''PLEDGE_EXPIRED'')) (\<lambda>_.
     bindM (requireM (BadRequest ''PLEDGE_INTERNAL_STATE_ERROR'') (truthy_opt (p_heldReceiptId p))) (\<lambda>held.
     bindM (consumeOtp c now callerUserId code OTP_PLEDGE_ACCEPT) (\<lambda>_.
     bindM (ledgerToLien (ids 0) (p_tenantId p) held (Some callerUserId) (p_id p)
       (Some [(''note'', case note of None \<Rightarrow> ''null'' | Some t \<Rightarrow> t)]) (''pledge:accept:'' @ p_id p)) (\<lambda>_.
     bindM (transactM (\<lambda>s. andThen (insertLien
         \<lparr>ln_id = ids 1, ln_tenantId = p_tenantId p, ln_pledgeId = p_id p, ln_receiptId = held,
          ln_clientId = p_clientId p, ln_financierOrgId = p_financierOrgId p, ln_quantity = p_quantity p,
          ln_remainingQuantity = p_quantity p, ln_status = LN_ACTIVE, ln_placedAt = now,
          ln_releasedAt = None\<rparr> s) (\<lambda>(_, s1).
         updatePledgeTx (p_id p) (\<lambda>x. x\<lparr>p_status := PL_ACCEPTED, p_decidedById := Some callerUserId,
           p_decidedAt := Some now, p_decisionReason := note\<rparr>) s1))) (\<lambda>_.
     bindM (notifyUser (p_tenantId p) N_PLEDGE_ACCEPTED ''pledge'' (p_id p) (p_clientId p)) (\<lambda>_.
       getFinancierPledgeDetail callerUserId (p_id p)))))))))))"

definition rejectPledge_check :: "uuid \<Rightarrow> uuid \<Rightarrow> pledge handler" where
  "rejectPledge_check callerUserId pledgeId =
     bindM (requireFinancierOrg callerUserId) (\<lambda>org.
     bindM (getsM (pledgeOfOrg pledgeId (fo_id org))) (\<lambda>p.
     bindM (requireM (NotFound ''Pledge not found'') p) (\<lambda>p.
     bindM (failIfM (p_status p \<noteq> PL_PENDING) (BadRequest ''PLEDGE_NOT_PENDING'')) (\<lambda>_.
       returnM p))))"

definition rejectPledge_commit :: "time \<Rightarrow> uuid \<Rightarrow> uuid \<Rightarrow> string \<Rightarrow> pledge \<Rightarrow> pledge_view handler" where
  "rejectPledge_commit now evId callerUserId reason p =
     bindM (releaseHeld evId p (Some callerUserId) (''Pledge rejected: '' @ reason) (''pledge:reject:'' @ p_id p)) (\<lambda>_.
     bindM (updatePledge (p_id p) (\<lambda>x. x\<lparr>p_status := PL_REJECTED, p_decisionReason := Some reason,
       p_decidedById := Some callerUserId, p_decidedAt := Some now\<rparr>)) (\<lambda>_.
     bindM (notifyUser (p_tenantId p) N_PLEDGE_REJECTED ''pledge'' (p_id p) (p_clientId p)) (\<lambda>_.
       getFinancierPledgeDetail callerUserId (p_id p))))"

definition rejectPledge :: "time \<Rightarrow> uuid \<Rightarrow> uuid \<Rightarrow> uuid \<Rightarrow> string \<Rightarrow> pledge_view handler" where
  "rejectPledge now evId callerUserId pledgeId reason =
     bindM (rejectPledge_check callerUserId pledgeId) (rejectPledge_commit now evId callerUserId reason)"

section \<open>Expiry\<close>

definition expirePledge :: "time \<Rightarrow> uuid \<Rightarrow> pledge \<Rightarrow> unit handler" where
  "expirePledge now evId p =
     bindM (releaseHeld evId p None ''Pledge expired (TTL elapsed with no decision)'' (''pledge:expire:'' @ p_id p)) (\<lambda>_.
     bindM (updatePledge (p_id p) (\<lambda>x. x\<lparr>p_status := PL_EXPIRED, p_decidedAt := Some now\<rparr>)) (\<lambda>_.
     bindM (notifyUser (p_tenantId p) N_PLEDGE_EXPIRED ''pledge'' (p_id p) (p_clientId p)) (\<lambda>_.
       notifyFinancierUsers (p_financierOrgId p) (p_tenantId p) N_PLEDGE_EXPIRED ''pledge'' (p_id p))))"

text \<open>
  The loop over the stale pledges, each in a \<open>try\<close>: the result is the number of
  those that went through.
\<close>

fun expireEach :: "time \<Rightarrow> (nat \<Rightarrow> uuid) \<Rightarrow> pledge list \<Rightarrow> store \<Rightarrow> nat \<times> store" where
  "expireEach now ids [] s = (0, s)"
| "expireEach now ids (p # ps) s =
     (case expirePledge now (ids (length ps)) p s of
        (Inl _, s') \<Rightarrow> expireEach now ids ps s'
      | (Inr _, s') \<Rightarrow> (case expireEach now ids ps s' of (n, s'') \<Rightarrow> (Suc n, s'')))"

definition stalePledges :: "time \<Rightarrow> store \<Rightarrow> pledge list" where
  "stalePledges now s = filter (\<lambda>p. p_status p = PL_PENDING \<and> p_expiresAt p \<le> now) (pledges s)"

definition expireStalePledges :: "time \<Rightarrow> (nat \<Rightarrow> uuid) \<Rightarrow> nat handler" where
  "expireStalePledges now ids =
     bindM (getsM (stalePledges now)) (\<lambda>stale s. case expireEach now ids stale s of (n, s') \<Rightarrow> (Inr n, s'))"

end
