(* ===== verification/Pledge_Facts.thy ===== *)
theory Pledge_Facts
  imports Pledges
begin

text \<open>
  What the pledge handlers keep and what they achieve: every handler is lawful for the
  ledger, an unsuccessful acceptance costs at most an attempt at the one-time password,
  the end of a pledge settles its held receipt.
\<close>

section \<open>Lawfulness\<close>

lemma confined_updatePledge: "confined lawful (updatePledge i f)"
  unfolding updatePledge_def by (rule confined_modify_aside) simp_all

lemma confined_projectPledgeDetail: "confined lawful (projectPledgeDetail i)"
  unfolding projectPledgeDetail_def by (intro ledger_lawful.confined_rules)

lemma confined_getReceiptEncumbrance: "confined lawful (getReceiptEncumbrance u i)"
  unfolding getReceiptEncumbrance_def by (intro ledger_lawful.confined_rules)

lemma confined_getFinancierPledgeDetail: "confined lawful (getFinancierPledgeDetail u i)"
  unfolding getFinancierPledgeDetail_def by (intro ledger_lawful.confined_rules confined_requireFinancierOrg)

lemma confined_insertPledge: "confined lawful (insertPledge p)"
  unfolding insertPledge_def by (intro ledger_lawful.confined_rules confined_modify_aside) simp_all

lemma confined_releaseHeld: "confined lawful (releaseHeld ev p who why k)"
  unfolding releaseHeld_def
  by (cases "truthy_opt (p_heldReceiptId p)")
    (simp_all add: ledger_lawful.confined_return, intro ledger_lawful.confined_rules releasing.settle_lawful)

lemma confined_consumeOtp: "confined lawful (consumeOtp c now u code purpose)"
proof (rule confinedI)
  fix s r s' assume "consumeOtp c now u code purpose s = (r, s')"
  then obtain rows where s': "s' = s\<lparr>otps := rows\<rparr>"
    using consumeOtp_frame [of c now u code purpose s] by fastforce
  show "lawful s s'" unfolding s' by (rule lawful_aside) simp_all
qed

lemmas confined_pledge = ledger_lawful.confined_rules confined_updatePledge confined_projectPledgeDetail
  confined_getReceiptEncumbrance confined_getFinancierPledgeDetail confined_insertPledge confined_releaseHeld
  confined_consumeOtp confined_hold confined_notifyUser confined_notifyFinancierUsers confined_requireFinancierOrg
  to_lien.settle_lawful releasing.settle_lawful

lemma createPledge_lawful: "confined lawful (createPledge ttl now ids u dto)"
  unfolding createPledge_def Let_def by (intro confined_pledge)

lemma cancelPledge_lawful: "confined lawful (cancelPledge ev u i)"
  unfolding cancelPledge_def cancelPledge_check_def cancelPledge_commit_def by (intro confined_pledge)

lemma insertLien_tables: "insertLien l s = Inr (x, s') \<Longrightarrow> s' = s\<lparr>liens := liens s @ [l]\<rparr>"
  by (auto simp: insertLien_def split: if_splits)

lemma updatePledgeTx_tables:
  "updatePledgeTx i f s = Inr (x, s') \<Longrightarrow> s' = s\<lparr>pledges := upd_row p_id i f (pledges s)\<rparr>"
  by (auto simp: updatePledgeTx_def split: option.splits)

lemma acceptPledge_lawful: "confined lawful (acceptPledge c now ids u i code note)"
  unfolding acceptPledge_def
  by (intro confined_pledge ledger_lawful.confined_transact lawful_aside)
    (auto simp: andThen_Inr_iff dest!: insertLien_tables updatePledgeTx_tables)

lemma rejectPledge_lawful: "confined lawful (rejectPledge now ev u i why)"
  unfolding rejectPledge_def rejectPledge_check_def rejectPledge_commit_def by (intro confined_pledge)

lemma expirePledge_lawful: "confined lawful (expirePledge now ev p)"
  unfolding expirePledge_def by (intro confined_pledge)

lemma expireEach_lawful: "lawful s (snd (expireEach now ids ps s))"
proof (induction ps arbitrary: s)
  case Nil
  show ?case by (simp add: ledger_lawful.stays)
next
  case (Cons p ps)
  obtain r s1 where run: "expirePledge now (ids (length ps)) p s = (r, s1)" by fastforce
  have "lawful s s1" using confinedD [OF expirePledge_lawful run] .
  from ledger_lawful.continues [OF this Cons.IH] show ?case
    by (cases r) (auto simp: run split: prod.split)
qed

lemma expireStalePledges_lawful: "confined lawful (expireStalePledges now ids)"
  unfolding expireStalePledges_def
proof (rule ledger_lawful.confined_bind [OF ledger_lawful.confined_gets])
  fix stale show "confined lawful (\<lambda>s. case expireEach now ids stale s of (n, s') \<Rightarrow> (Inr n :: err + nat, s'))"
    using expireEach_lawful [of _ now ids stale] by (auto intro!: confinedI split: prod.splits) (metis snd_conv)
qed

section \<open>Steps that touch no receipt\<close>

lemma notifyUser_run:
  "notifyUser t ty et i u s = (r, s') \<Longrightarrow> r = Inr () \<and> (\<exists>ns. s' = s\<lparr>notifications := ns\<rparr>)"
  by (auto simp: notifyUser_def)

lemma forM_notify:
  assumes "\<And>x s r s'. f x s = (r, s') \<Longrightarrow> r = Inr () \<and> (\<exists>ns. s' = s\<lparr>notifications := ns\<rparr>)"
    and "forM xs f s = (r, s')"
  shows "r = Inr () \<and> (\<exists>ns. s' = (s :: store)\<lparr>notifications := ns\<rparr>)"
  using assms(2)
proof (induction xs arbitrary: s)
  case Nil
  then show ?case by (auto intro: exI [of _ "notifications s"])
next
  case (Cons x xs)
  obtain r1 s1 where x: "f x s = (r1, s1)" by fastforce
  with assms(1) obtain ns where "r1 = Inr ()" "s1 = s\<lparr>notifications := ns\<rparr>" by blast
  with x Cons.prems Cons.IH [of s1] show ?case by auto
qed

lemma notifyFinancierUsers_run:
  assumes "notifyFinancierUsers org t ty et i s = (r, s')"
  shows "r = Inr () \<and> (\<exists>ns. s' = s\<lparr>notifications := ns\<rparr>)"
proof -
  have "forM (filter (\<lambda>u. u_financierOrgId u = Some org \<and> u_status u = USER_ACTIVE) (users s))
      (\<lambda>u. notifyUser t ty et i (u_id u)) s = (r, s')"
    using assms by (simp add: notifyFinancierUsers_def bindM_def getsM_def)
  from forM_notify [OF _ this] show ?thesis by (simp add: notifyUser_run)
qed

lemma notifyTenantAdmins_run:
  assumes "notifyTenantAdmins t ty et i s = (r, s')"
  shows "r = Inr () \<and> (\<exists>ns. s' = s\<lparr>notifications := ns\<rparr>)"
proof -
  have "forM (rev (remdups (rev (tenantAdminIds t s)))) (notifyUser t ty et i) s = (r, s')"
    using assms by (simp add: notifyTenantAdmins_def dispatchMany_def bindM_def getsM_def)
  from forM_notify [OF _ this] show ?thesis by (simp add: notifyUser_run)
qed

lemma requireFinancierOrg_run: "requireFinancierOrg u s = (r, s') \<Longrightarrow> s' = s"
  unfolding requireFinancierOrg_def
  by (auto simp: bindM_def getsM_def requireM_def failIfM_def split: prod.splits sum.splits option.splits if_splits)

lemma projectPledgeDetail_run: "projectPledgeDetail i s = (r, s') \<Longrightarrow> s' = s"
  unfolding projectPledgeDetail_def
  by (auto simp: bindM_def getsM_def requireM_def split: option.splits)

lemma getFinancierPledgeDetail_run: "getFinancierPledgeDetail u i s = (r, s') \<Longrightarrow> s' = s"
  unfolding getFinancierPledgeDetail_def
  by (auto simp: bindM_def getsM_def requireM_def split: prod.splits sum.splits option.splits dest: requireFinancierOrg_run)

lemmas quiet_runs = notifyUser_run notifyFinancierUsers_run notifyTenantAdmins_run requireFinancierOrg_run
  projectPledgeDetail_run getFinancierPledgeDetail_run

section \<open>When a release and a move to a lien succeed\<close>

text \<open>An event under an unused key followed by an update of a row that is there.\<close>

lemma event_then_update_succeeds:
  assumes "r \<in> set (receipts s)" and "e_id e \<notin> e_id ` set (events s)" and "e_idempotencyKey e = Some k"
    and "findEventByKey k s = None" and "fits 18 3 (e_quantity e)"
  shows "\<exists>x s' ev s1. event e s = Inr (ev, s1) \<and> updateReceipt (r_id r) f s1 = Inr (x, s')"
proof -
  obtain ev where ev: "event e s = Inr (ev, s\<lparr>events := events s @ [ev]\<rparr>)"
    using event_ok [OF assms(2-5)] by blast
  have "r_id r \<in> r_id ` set (receipts (s\<lparr>events := events s @ [ev]\<rparr>))" using assms(1) by simp
  from updateReceipt_ok [OF this, of f] ev show ?thesis by blast
qed

lemma settlement_succeeds:
  assumes wf: "ledger_wf s" and r: "r \<in> set (receipts s)" "r_tenantId r = t"
    and draw: "evId \<notin> e_id ` set (events s)" "findEventByKey k s = None"
  shows "r_status r \<in> set HELD \<Longrightarrow> \<exists>x s'. ledgerRelease evId t (r_id r) who why k s = (Inr x, s')"
    and "r_status r = HELD_PLEDGE_PENDING \<Longrightarrow> \<exists>x s'. ledgerToLien evId t (r_id r) who p m k s = (Inr x, s')"
proof -
  have u: "ids_unique s" and q: "fits 18 3 (r_quantity r)"
    using wf r by (simp_all add: ledger_wf_def quantities_ok_def)
  have load: "loadOrThrow s (r_id r) t = Inr r" using r loadOrThrow_iff [OF u] by simp
  note step = event_then_update_succeeds [OF r(1) _ _ draw(2)]
  have first: "runIdempotent k rec work s s = transactM work s" for rec and work :: "store \<Rightarrow> err + receipt \<times> store"
    by (rule runIdempotent_first [OF draw(2) draw(2)])
  show "\<exists>x s'. ledgerRelease evId t (r_id r) who why k s = (Inr x, s')" if "r_status r \<in> set HELD"
  proof -
    have "\<exists>x s'. releaseTx evId (actor t (r_id r) who k) why s = Inr (x, s')"
      unfolding releaseTx_def assertHeld_def actor_def
      by (simp add: that load andThen_Inr_iff eventOn_def) (rule step; simp add: draw q)
    then show ?thesis
      unfolding ledgerRelease_def atOnce_def release_def by (auto simp: first actor_def transactM_def)
  qed
  show "\<exists>x s'. ledgerToLien evId t (r_id r) who p m k s = (Inr x, s')" if "r_status r = HELD_PLEDGE_PENDING"
  proof -
    have "\<exists>x s'. transitionPledgeToLienTx evId (actor t (r_id r) who k) p m s = Inr (x, s')"
      unfolding transitionPledgeToLienTx_def actor_def
      by (simp add: that load andThen_Inr_iff eventOn_def) (rule step; simp add: draw q)
    then show ?thesis
      unfolding ledgerToLien_def atOnce_def transitionPledgeToLien_def by (auto simp: first actor_def transactM_def)
  qed
qed

section \<open>What ends a pledge\<close>

text \<open>The first time its key is used, letting go of a held row makes it ACTIVE, and nothing else.\<close>

lemma releaseHeld_settles:
  assumes run: "releaseHeld ev p who why key s = (Inr (), s')" and u: "ids_unique s"
    and key: "findEventByKey key s = None" and held: "p_heldReceiptId p = Some h" "h \<noteq> []"
  shows "\<exists>r x. find_row r_id h (receipts s) = Some r \<and> r_status r \<in> set HELD \<and>
      find_row r_id h (receipts s') = Some x \<and> r_status x = ACTIVE \<and> r_quantity x = r_quantity r \<and>
      (\<forall>j. j \<noteq> h \<longrightarrow> find_row r_id j (receipts s') = find_row r_id j (receipts s)) \<and>
      ledger.more s' = ledger.more s"
proof -
  have t: "truthy_opt (p_heldReceiptId p) = Some h" using held by (simp add: truthy_opt_def)
  obtain x where rel: "ledgerRelease ev (p_tenantId p) h who (Some why) key s = (Inr x, s')"
    using run t by (auto simp: releaseHeld_def bindM_Inr_iff)
  from releasing.settled_row [OF u key rel] releasing.others_kept [OF u key rel] releasing.settle_more [OF rel]
  show ?thesis by (auto simp: held_any_def)
qed

lemma releaseHeld_more: "releaseHeld ev p who why key s = (r, s') \<Longrightarrow> ledger.more s' = ledger.more s"
  unfolding releaseHeld_def bindM_def returnM_def
  by (auto split: option.splits prod.splits sum.splits dest: releasing.settle_more)

lemma releaseHeld_failed: "releaseHeld ev p who why key s = (Inl e, s') \<Longrightarrow> s' = s"
  unfolding releaseHeld_def bindM_def returnM_def
  by (auto split: option.splits prod.splits sum.splits dest: releasing.settle_failed)

text \<open>A handler that lets go of the held row and marks the pledge by \<open>f\<close> has this effect.\<close>

definition pledge_ended :: "pledge \<Rightarrow> uuid \<Rightarrow> (pledge \<Rightarrow> pledge) \<Rightarrow> store \<Rightarrow> store \<Rightarrow> bool" where
  "pledge_ended p h f s s' \<longleftrightarrow>
     pledges s' = upd_row p_id (p_id p) f (pledges s) \<and> liens s' = liens s \<and>
     (\<exists>r x. find_row r_id h (receipts s) = Some r \<and> r_status r \<in> set HELD \<and>
        find_row r_id h (receipts s') = Some x \<and> r_status x = ACTIVE \<and> r_quantity x = r_quantity r) \<and>
     (\<forall>j. j \<noteq> h \<longrightarrow> find_row r_id j (receipts s') = find_row r_id j (receipts s))"

lemma pledge_endedI:
  assumes "releaseHeld ev p who why key s = (Inr (), s1)" and "ids_unique s" and "findEventByKey key s = None"
    and "p_heldReceiptId p = Some h" "h \<noteq> []"
    and "s' = s1\<lparr>pledges := upd_row p_id (p_id p) f (pledges s1)\<rparr>\<lparr>notifications := ns\<rparr>"
  shows "pledge_ended p h f s s'"
  using releaseHeld_settles [OF assms(1-5)] assms(6) same_more [of s1 s]
  by (auto simp: pledge_ended_def)

lemma cancelPledge_ends:
  assumes run: "cancelPledge ev u i s = (Inr v, s')" and un: "ids_unique s"
    and p: "findPledge i s = Some p" "distinct (map p_id (pledges s))"
    and held: "p_heldReceiptId p = Some h" "h \<noteq> []" and key: "findEventByKey (''pledge:cancel:'' @ i) s = None"
  shows "p_clientId p = u \<and> p_status p = PL_PENDING \<and> pledge_ended p h (\<lambda>x. x\<lparr>p_status := PL_CANCELLED\<rparr>) s s'"
proof -
  obtain q where q: "find (\<lambda>p. p_id p = i \<and> p_clientId p = u) (pledges s) = Some q" "p_status q = PL_PENDING"
    and rest: "cancelPledge_commit ev u q s = (Inr v, s')"
    using run unfolding cancelPledge_def cancelPledge_check_def by (auto simp: bindM_Inr_iff)
  have pi: "p \<in> set (pledges s)" "p_id p = i" using find_row_SomeD [OF p(1) [unfolded findPledge_def]] by auto
  have "q \<in> set (pledges s)" "p_id q = i" "p_clientId q = u" using find_SomeD [OF q(1)] by auto
  then have qp: "q = p" "p_clientId p = u" using pi p(2) by (auto simp: distinct_map inj_on_def)
  obtain s1 s2 where rel: "releaseHeld ev p (Some u) ''Pledge cancelled by client'' (''pledge:cancel:'' @ i) s = (Inr (), s1)"
    and n: "notifyFinancierUsers (p_financierOrgId p) (p_tenantId p) N_PLEDGE_REJECTED ''pledge'' i
        (s1\<lparr>pledges := upd_row p_id i (\<lambda>x. x\<lparr>p_status := PL_CANCELLED\<rparr>) (pledges s1)\<rparr>) = (Inr (), s2)"
    and d: "projectPledgeDetail i s2 = (Inr v, s')"
    using rest qp pi unfolding cancelPledge_commit_def updatePledge_def by (auto simp: bindM_Inr_iff)
  obtain ns where "s' = s1\<lparr>pledges := upd_row p_id i (\<lambda>x. x\<lparr>p_status := PL_CANCELLED\<rparr>) (pledges s1)\<rparr>\<lparr>notifications := ns\<rparr>"
    using notifyFinancierUsers_run [OF n] projectPledgeDetail_run [OF d] by auto
  with pledge_endedI [OF rel un key held] pi have "pledge_ended p h (\<lambda>x. x\<lparr>p_status := PL_CANCELLED\<rparr>) s s'" by simp
  with qp q(2) show ?thesis by simp
qed

lemma pledgeOfOrg_Some: "pledgeOfOrg i oid s = Some p \<Longrightarrow> p \<in> set (pledges s) \<and> p_id p = i \<and> p_financierOrgId p = oid"
  unfolding pledgeOfOrg_def by (drule find_SomeD) simp

lemma requireFinancierOrg_org:
  assumes "requireFinancierOrg u s = (Inr org, s')"
  shows "s' = s \<and> (\<exists>x. findUser u s = Some x \<and> u_financierOrgId x = Some (fo_id org) \<and> fo_status org \<noteq> ORG_SUSPENDED)"
proof -
  have "s' = s" by (rule requireFinancierOrg_run [OF assms])
  moreover obtain x oid where x: "findUser u s = Some x" "u_financierOrgId x = Some oid"
    "find_row fo_id oid (orgs s) = Some org" "fo_status org \<noteq> ORG_SUSPENDED"
    using assms unfolding requireFinancierOrg_def
    by (auto simp: bindM_Inr_iff split: option.splits)
  ultimately show ?thesis using find_row_SomeD [OF x(3)] by auto
qed

lemma rejectPledge_ends:
  assumes run: "rejectPledge now ev u i why s = (Inr v, s')" and un: "ids_unique s"
    and p: "findPledge i s = Some p" "distinct (map p_id (pledges s))"
    and held: "p_heldReceiptId p = Some h" "h \<noteq> []" and key: "findEventByKey (''pledge:reject:'' @ i) s = None"
  shows "p_status p = PL_PENDING \<and> (\<exists>x. findUser u s = Some x \<and> u_financierOrgId x = Some (p_financierOrgId p)) \<and>
    pledge_ended p h (\<lambda>x. x\<lparr>p_status := PL_REJECTED, p_decisionReason := Some why,
       p_decidedById := Some u, p_decidedAt := Some now\<rparr>) s s'"
proof -
  let ?f = "\<lambda>x. x\<lparr>p_status := PL_REJECTED, p_decisionReason := Some why, p_decidedById := Some u, p_decidedAt := Some now\<rparr>"
  obtain org s0 q where org: "requireFinancierOrg u s = (Inr org, s0)" and q: "pledgeOfOrg i (fo_id org) s0 = Some q"
    "p_status q = PL_PENDING" and rest: "rejectPledge_commit now ev u why q s0 = (Inr v, s')"
    using run unfolding rejectPledge_def rejectPledge_check_def by (auto simp: bindM_Inr_iff)
  note o' = requireFinancierOrg_org [OF org]
  have pi: "p \<in> set (pledges s)" "p_id p = i" using find_row_SomeD [OF p(1) [unfolded findPledge_def]] by auto
  have qp: "q = p" "p_financierOrgId p = fo_id org"
    using pledgeOfOrg_Some [OF q(1)] o' pi p(2) by (auto simp: distinct_map inj_on_def)
  obtain s1 s2 where rel: "releaseHeld ev p (Some u) (''Pledge rejected: '' @ why) (''pledge:reject:'' @ i) s = (Inr (), s1)"
    and n: "notifyUser (p_tenantId p) N_PLEDGE_REJECTED ''pledge'' i (p_clientId p)
        (s1\<lparr>pledges := upd_row p_id i ?f (pledges s1)\<rparr>) = (Inr (), s2)"
    and d: "getFinancierPledgeDetail u i s2 = (Inr v, s')"
    using rest qp o' pi unfolding rejectPledge_commit_def updatePledge_def by (auto simp: bindM_Inr_iff)
  obtain ns where "s' = s1\<lparr>pledges := upd_row p_id i ?f (pledges s1)\<rparr>\<lparr>notifications := ns\<rparr>"
    using notifyUser_run [OF n] getFinancierPledgeDetail_run [OF d] by auto
  with pledge_endedI [OF rel un key held] pi have "pledge_ended p h ?f s s'" by simp
  with qp q(2) o' show ?thesis by auto
qed

section \<open>Acceptance\<close>

definition accepted_lien :: "uuid \<Rightarrow> time \<Rightarrow> uuid \<Rightarrow> pledge \<Rightarrow> lien" where
  "accepted_lien i now h p =
     \<lparr>ln_id = i, ln_tenantId = p_tenantId p, ln_pledgeId = p_id p, ln_receiptId = h, ln_clientId = p_clientId p,
      ln_financierOrgId = p_financierOrgId p, ln_quantity = p_quantity p, ln_remainingQuantity = p_quantity p,
      ln_status = LN_ACTIVE, ln_placedAt = now, ln_releasedAt = None\<rparr>"

lemma acceptPledge_steps:
  assumes run: "acceptPledge c now ids u i code note s = (Inr v, s')"
  obtains org p h s1 x s2 s3 where
    "requireFinancierOrg u s = (Inr org, s)" "pledgeOfOrg i (fo_id org) s = Some p" "p_status p = PL_PENDING"
    "now \<le> p_expiresAt p" "p_heldReceiptId p = Some h" "h \<noteq> []"
    "consumeOtp c now u code OTP_PLEDGE_ACCEPT s = (Inr (), s1)"
    "ledgerToLien (ids 0) (p_tenantId p) h (Some u) (p_id p)
       (Some [(''note'', case note of None \<Rightarrow> ''null'' | Some t \<Rightarrow> t)]) (''pledge:accept:'' @ p_id p) s1 = (Inr x, s2)"
    "p_id p \<notin> ln_pledgeId ` set (liens s2)"
    "s3 = s2\<lparr>liens := liens s2 @ [accepted_lien (ids 1) now h p],
       pledges := upd_row p_id (p_id p) (\<lambda>x. x\<lparr>p_status := PL_ACCEPTED, p_decidedById := Some u,
         p_decidedAt := Some now, p_decisionReason := note\<rparr>) (pledges s2)\<rparr>"
    "\<exists>ns. s' = s3\<lparr>notifications := ns\<rparr>"
proof -
  obtain org s0 p h s1 x s2 s3 where 1: "requireFinancierOrg u s = (Inr org, s0)" "pledgeOfOrg i (fo_id org) s0 = Some p"
    "p_status p = PL_PENDING" "\<not> p_expiresAt p < now" "truthy_opt (p_heldReceiptId p) = Some h"
    and otp: "consumeOtp c now u code OTP_PLEDGE_ACCEPT s0 = (Inr (), s1)"
    and lien: "ledgerToLien (ids 0) (p_tenantId p) h (Some u) (p_id p)
       (Some [(''note'', case note of None \<Rightarrow> ''null'' | Some t \<Rightarrow> t)]) (''pledge:accept:'' @ p_id p) s1 = (Inr x, s2)"
    and tx: "transactM (\<lambda>s. andThen (insertLien (accepted_lien (ids 1) now h p) s) (\<lambda>(_, s1).
         updatePledgeTx (p_id p) (\<lambda>x. x\<lparr>p_status := PL_ACCEPTED, p_decidedById := Some u,
           p_decidedAt := Some now, p_decisionReason := note\<rparr>) s1)) s2 = (Inr (), s3)"
    and rest: "bindM (notifyUser (p_tenantId p) N_PLEDGE_ACCEPTED ''pledge'' (p_id p) (p_clientId p)) (\<lambda>_.
       getFinancierPledgeDetail u (p_id p)) s3 = (Inr v, s')"
    using run unfolding acceptPledge_def accepted_lien_def by (auto simp: bindM_Inr_iff)
  have s0: "s0 = s" by (rule requireFinancierOrg_run [OF 1(1)])
  have h: "p_heldReceiptId p = Some h" "h \<noteq> []" using 1(5) by (auto simp: truthy_opt_def split: if_splits)
  have ins: "p_id p \<notin> ln_pledgeId ` set (liens s2)"
    "s3 = s2\<lparr>liens := liens s2 @ [accepted_lien (ids 1) now h p],
       pledges := upd_row p_id (p_id p) (\<lambda>x. x\<lparr>p_status := PL_ACCEPTED, p_decidedById := Some u,
         p_decidedAt := Some now, p_decisionReason := note\<rparr>) (pledges s2)\<rparr>"
    using tx by (auto simp: transactM_def insertLien_def updatePledgeTx_def accepted_lien_def andThen_def
        split: sum.splits prod.splits if_splits option.splits)
  have "\<exists>ns. s' = s3\<lparr>notifications := ns\<rparr>"
    using rest by (auto simp: bindM_Inr_iff dest!: notifyUser_run getFinancierPledgeDetail_run)
  from that [OF 1(1) [unfolded s0] 1(2) [unfolded s0] 1(3) _ h otp [unfolded s0] lien ins this] 1(4) show thesis by simp
qed


lemma consumeOtp_only_otps:
  "consumeOtp c now u code purpose s = (r, s') \<Longrightarrow> \<exists>rows. s' = s\<lparr>otps := rows\<rparr>"
  using consumeOtp_frame [of c now u code purpose s] by auto

lemma acceptPledge_effect:
  assumes run: "acceptPledge c now ids u i code note s = (Inr v, s')" and un: "ids_unique s"
    and p: "findPledge i s = Some p" "distinct (map p_id (pledges s))"
    and key: "findEventByKey (''pledge:accept:'' @ i) s = None"
  shows "\<exists>h r x. p_status p = PL_PENDING \<and> now \<le> p_expiresAt p \<and> p_heldReceiptId p = Some h \<and>
    (\<exists>y. findUser u s = Some y \<and> u_financierOrgId y = Some (p_financierOrgId p)) \<and>
    liens s' = liens s @ [accepted_lien (ids 1) now h p] \<and>
    findPledge i s' = Some (p\<lparr>p_status := PL_ACCEPTED, p_decidedById := Some u, p_decidedAt := Some now, p_decisionReason := note\<rparr>) \<and>
    find_row r_id h (receipts s) = Some r \<and> r_status r = HELD_PLEDGE_PENDING \<and>
    find_row r_id h (receipts s') = Some x \<and> r_status x = HELD_LIEN \<and> r_quantity x = r_quantity r \<and>
    (\<forall>j. j \<noteq> h \<longrightarrow> find_row r_id j (receipts s') = find_row r_id j (receipts s))"
proof (rule acceptPledge_steps [OF run])
  fix org q h s1 x s2 s3
  assume org: "requireFinancierOrg u s = (Inr org, s)" and q: "pledgeOfOrg i (fo_id org) s = Some q" "p_status q = PL_PENDING"
    "now \<le> p_expiresAt q" and h: "p_heldReceiptId q = Some h"
    and otp: "consumeOtp c now u code OTP_PLEDGE_ACCEPT s = (Inr (), s1)"
    and lien: "ledgerToLien (ids 0) (p_tenantId q) h (Some u) (p_id q)
       (Some [(''note'', case note of None \<Rightarrow> ''null'' | Some t \<Rightarrow> t)]) (''pledge:accept:'' @ p_id q) s1 = (Inr x, s2)"
    and s3: "s3 = s2\<lparr>liens := liens s2 @ [accepted_lien (ids 1) now h q],
       pledges := upd_row p_id (p_id q) (\<lambda>x. x\<lparr>p_status := PL_ACCEPTED, p_decidedById := Some u,
         p_decidedAt := Some now, p_decisionReason := note\<rparr>) (pledges s2)\<rparr>"
    and s': "\<exists>ns. s' = s3\<lparr>notifications := ns\<rparr>"
  have pi: "p \<in> set (pledges s)" "p_id p = i" using find_row_SomeD [OF p(1) [unfolded findPledge_def]] by auto
  have qp: "q = p" "p_financierOrgId p = fo_id org"
    using pledgeOfOrg_Some [OF q(1)] pi p(2) by (auto simp: distinct_map inj_on_def)
  from consumeOtp_only_otps [OF otp] obtain os where s1: "s1 = s\<lparr>otps := os\<rparr>" ..
  then have s1': "ids_unique s1" "findEventByKey (''pledge:accept:'' @ p_id q) s1 = None"
    using un key qp pi by (simp_all add: ids_unique_def findEventByKey_def)
  have rows: "receipts s' = receipts s2" "liens s' = liens s @ [accepted_lien (ids 1) now h p]"
    "pledges s' = upd_row p_id i (\<lambda>x. x\<lparr>p_status := PL_ACCEPTED, p_decidedById := Some u,
         p_decidedAt := Some now, p_decisionReason := note\<rparr>) (pledges s)"
    using s' s3 qp pi s1 same_more [OF to_lien.settle_more [OF lien]] by auto
  then have "findPledge i s' = Some (p\<lparr>p_status := PL_ACCEPTED, p_decidedById := Some u, p_decidedAt := Some now,
      p_decisionReason := note\<rparr>)"
    using p(1) by (simp add: findPledge_def find_row_upd_row)
  with rows qp q h to_lien.settled_row [OF s1' lien] to_lien.others_kept [OF s1' lien] requireFinancierOrg_org [OF org] s1
  show ?thesis by (auto simp: pledge_held_def)
qed

text \<open>Whatever stops an acceptance before the ledger call costs at most an attempt at the code.\<close>

lemma acceptPledge_bad_code:
  assumes bad: "\<And>s1. consumeOtp c now u code OTP_PLEDGE_ACCEPT s \<noteq> (Inr (), s1)"
  shows "\<exists>e rows. acceptPledge c now ids u i code note s = (Inl e, s\<lparr>otps := rows\<rparr>)"
proof -
  obtain res s' where run: "acceptPledge c now ids u i code note s = (res, s')" by fastforce
  show ?thesis
  proof (cases res)
    case (Inr v)
    with run have "acceptPledge c now ids u i code note s = (Inr v, s')" by simp
    then show ?thesis by (rule acceptPledge_steps) (use bad in blast)
  next
    case (Inl e)
    obtain r1 s1 where otp: "consumeOtp c now u code OTP_PLEDGE_ACCEPT s = (r1, s1)" by fastforce
    then obtain e1 os where o1: "r1 = Inl e1" "s1 = s\<lparr>otps := os\<rparr>"
      using bad consumeOtp_only_otps [OF otp] by (cases r1) auto
    have same: "s = s\<lparr>otps := otps s\<rparr>" by simp
    have "s' = s \<or> s' = s1"
      using run otp o1 unfolding Inl acceptPledge_def
      by (auto simp: bindM_Inl_iff dest!: requireFinancierOrg_run)
    with run Inl o1 same show ?thesis by metis
  qed
qed

section \<open>Expiry\<close>

lemma ledgerRelease_logs:
  assumes "ledgerRelease evId t i who why k s = (Inr x, s')" and "findEventByKey k s = None"
  shows "\<exists>e. events s' = events s @ [e] \<and> e_id e = evId \<and> e_idempotencyKey e = Some k"
proof -
  have "releaseTx evId (actor t i who k) why s = Inr (x, s')"
    using assms unfolding ledgerRelease_def atOnce_def release_def by (intro idempotent_first) (simp_all add: actor_def)
  then show ?thesis
    unfolding releaseTx_def by (auto simp: andThen_Inr_iff event_Inr_iff updateReceipt_Inr_iff actor_def eventOn_def)
qed

lemma expirePledge_failed: "expirePledge now ev p s = (Inl e, s') \<Longrightarrow> s' = s"
  unfolding expirePledge_def updatePledge_def
  by (auto simp: bindM_Inl_iff dest: releaseHeld_failed dest!: notifyUser_run notifyFinancierUsers_run)

lemma expirePledge_done:
  assumes "expirePledge now ev p s = (Inr (), s')"
  obtains s1 ns where
    "releaseHeld ev p None ''Pledge expired (TTL elapsed with no decision)'' (''pledge:expire:'' @ p_id p) s = (Inr (), s1)"
    "s' = s1\<lparr>pledges := upd_row p_id (p_id p) (\<lambda>x. x\<lparr>p_status := PL_EXPIRED, p_decidedAt := Some now\<rparr>) (pledges s1)\<rparr>\<lparr>notifications := ns\<rparr>"
  using assms unfolding expirePledge_def updatePledge_def
  by (auto simp: bindM_Inr_iff dest!: notifyUser_run notifyFinancierUsers_run)

definition expired_mark :: "time \<Rightarrow> uuid set \<Rightarrow> pledge \<Rightarrow> pledge" where
  "expired_mark now ks p = (if p_id p \<in> ks then p\<lparr>p_status := PL_EXPIRED, p_decidedAt := Some now\<rparr> else p)"

lemma expired_mark_comp: "expired_mark now ks (expired_mark now {k} p) = expired_mark now (insert k ks) p"
  by (simp add: expired_mark_def)

text \<open>Only the pledges of the list change, each one is expired or as it was, and the count is right.\<close>

lemma expireEach_effect:
  assumes "distinct (map p_id ps)"
  shows "\<exists>ks. distinct ks \<and> set ks \<subseteq> p_id ` set ps \<and> length ks = fst (expireEach now ids ps s) \<and>
    pledges (snd (expireEach now ids ps s)) = map (expired_mark now (set ks)) (pledges s) \<and>
    liens (snd (expireEach now ids ps s)) = liens s"
  using assms
proof (induction ps arbitrary: s)
  case Nil
  then show ?case by (auto intro!: exI [of _ "[]"] simp: expired_mark_def)
next
  case (Cons p ps)
  obtain r s1 where run: "expirePledge now (ids (length ps)) p s = (r, s1)" by fastforce
  from Cons obtain ks where ks: "distinct ks" "set ks \<subseteq> p_id ` set ps"
    "length ks = fst (expireEach now ids ps s1)"
    "pledges (snd (expireEach now ids ps s1)) = map (expired_mark now (set ks)) (pledges s1)"
    "liens (snd (expireEach now ids ps s1)) = liens s1" by (metis distinct.simps(2) list.simps(9))
  show ?case
  proof (cases r)
    case (Inl e)
    with run have "s1 = s" by (auto dest: expirePledge_failed)
    with ks run Inl show ?thesis by (intro exI [of _ ks]) auto
  next
    case (Inr a)
    with run have "expirePledge now (ids (length ps)) p s = (Inr (), s1)" by simp
    then obtain s2 ns where rel: "releaseHeld (ids (length ps)) p None
        ''Pledge expired (TTL elapsed with no decision)'' (''pledge:expire:'' @ p_id p) s = (Inr (), s2)"
      and s1: "s1 = s2\<lparr>pledges := upd_row p_id (p_id p) (\<lambda>x. x\<lparr>p_status := PL_EXPIRED, p_decidedAt := Some now\<rparr>) (pledges s2)\<rparr>\<lparr>notifications := ns\<rparr>"
      by (rule expirePledge_done)
    have same: "pledges s2 = pledges s" "liens s2 = liens s" using same_more [OF releaseHeld_more [OF rel]] by simp_all
    have "pledges s1 = map (expired_mark now {p_id p}) (pledges s)" "liens s1 = liens s"
      using s1 same by (simp_all add: upd_row_def expired_mark_def)
    with ks run Inr Cons.prems show ?thesis
      by (intro exI [of _ "p_id p # ks"]) (auto simp: expired_mark_comp split: prod.splits)
  qed
qed

text \<open>A pledge whose release cannot fail: its held row is held, the key of the release unused.\<close>

definition releasable :: "store \<Rightarrow> pledge \<Rightarrow> bool" where
  "releasable s p \<longleftrightarrow> (\<exists>h r. p_heldReceiptId p = Some h \<and> h \<noteq> [] \<and> find_row r_id h (receipts s) = Some r \<and>
     r_tenantId r = p_tenantId p \<and> r_status r \<in> set HELD) \<and>
     findEventByKey (''pledge:expire:'' @ p_id p) s = None"

lemma expireEach_all:
  assumes "ledger_wf s" and "\<forall>p \<in> set ps. releasable s p"
    and "distinct (map p_id ps)" and "distinct (map p_heldReceiptId ps)"
    and "inj_on ids {..< length ps}" and "\<forall>k < length ps. ids k \<notin> e_id ` set (events s)"
  shows "fst (expireEach now ids ps s) = length ps"
  using assms
proof (induction ps arbitrary: s)
  case (Cons p ps)
  obtain h r where h: "p_heldReceiptId p = Some h" "h \<noteq> []" "find_row r_id h (receipts s) = Some r"
    "r_tenantId r = p_tenantId p" "r_status r \<in> set HELD"
    and key: "findEventByKey (''pledge:expire:'' @ p_id p) s = None"
    using Cons.prems(2) by (auto simp: releasable_def)
  have r: "r \<in> set (receipts s)" "r_id r = h" using find_row_SomeD [OF h(3)] by auto
  let ?ev = "ids (length ps)" and ?why = "Some ''Pledge expired (TTL elapsed with no decision)''"
  obtain x s1 where rel: "ledgerRelease ?ev (p_tenantId p) h None ?why (''pledge:expire:'' @ p_id p) s = (Inr x, s1)"
    using settlement_succeeds(1) [OF Cons.prems(1) r(1) h(4) _ key h(5)] Cons.prems(6) r(2) by force
  have held: "releaseHeld ?ev p None (the ?why) (''pledge:expire:'' @ p_id p) s = (Inr (), s1)"
    using rel h by (simp add: releaseHeld_def truthy_opt_def bindM_def returnM_def)
  obtain s' where run: "expirePledge now ?ev p s = (Inr (), s')"
    and s': "receipts s' = receipts s1" "events s' = events s1"
  proof -
    obtain res t where t: "expirePledge now ?ev p s = (res, t)" by fastforce
    have "res = Inr () \<and> receipts t = receipts s1 \<and> events t = events s1"
      using t held unfolding expirePledge_def updatePledge_def
      by (auto simp: bindM_def modifyM_def split: prod.splits sum.splits dest!: notifyUser_run notifyFinancierUsers_run)
    with t that show thesis by blast
  qed
  have un: "ids_unique s" using Cons.prems(1) by (simp add: ledger_wf_def)
  obtain e where e: "events s1 = events s @ [e]" "e_id e = ?ev" "e_idempotencyKey e = Some (''pledge:expire:'' @ p_id p)"
    using ledgerRelease_logs [OF rel key] by blast
  have "fst (expireEach now ids ps s') = length ps"
  proof (rule Cons.IH)
    show "ledger_wf s'" using confined_wf [OF expirePledge_lawful run Cons.prems(1)] .
    show "distinct (map p_id ps)" "distinct (map p_heldReceiptId ps)" using Cons.prems(3,4) by simp_all
    show "inj_on ids {..< length ps}" using Cons.prems(5) by (auto simp: inj_on_def)
    have "ids k \<noteq> ?ev" if "k < length ps" for k
      using Cons.prems(5) that unfolding inj_on_def by (auto dest: bspec [of _ _ k])
    then show "\<forall>k < length ps. ids k \<notin> e_id ` set (events s')" using Cons.prems(6) e s'(2) by auto
    show "\<forall>q \<in> set ps. releasable s' q"
    proof
      fix q assume q: "q \<in> set ps"
      then have "releasable s q" using Cons.prems(2) by simp
      then obtain hq rq where hq: "p_heldReceiptId q = Some hq" "hq \<noteq> []" "find_row r_id hq (receipts s) = Some rq"
        "r_tenantId rq = p_tenantId q" "r_status rq \<in> set HELD" and kq: "findEventByKey (''pledge:expire:'' @ p_id q) s = None"
        by (auto simp: releasable_def)
      have "p_id q \<noteq> p_id p" using imageI [OF q, of p_id] Cons.prems(3) by auto
      moreover have "hq \<noteq> h" using imageI [OF q, of p_heldReceiptId] Cons.prems(4) h(1) hq(1) by auto
      moreover have "find_row r_id hq (receipts s') = find_row r_id hq (receipts s)" if "hq \<noteq> h"
        using releasing.others_kept [OF un key rel that] s'(1) by simp
      ultimately show "releasable s' q" using hq kq e s'(2) by (auto simp: releasable_def findEventByKey_None_iff)
    qed
  qed
  with run show ?case by (cases "expireEach now ids ps s'") simp
qed simp

lemma expireStalePledges_eq:
  "expireStalePledges now ids s =
     (Inr (fst (expireEach now ids (stalePledges now s) s)), snd (expireEach now ids (stalePledges now s) s))"
  by (simp add: expireStalePledges_def bindM_def getsM_def split: prod.splits)

end
