(* ===== verification/Release_Requests.thy ===== *)
theory Release_Requests
  imports Pledge_Facts
begin

text \<open>
  \<open>ReleaseRequestsService\<close>, \<open>src/release-requests/release-requests.service.ts\<close>: a client
  asks for (part of) several liens to be lifted, the financier approves, line by line through
  the ledger, or rejects. The handlers that act on what they read before are in two halves,
  between which other sessions run. \<open>ids\<close> supplies the identifiers one call draws.
\<close>

section \<open>Projection\<close>

record line_view =
  lv_id :: uuid
  lv_lienId :: uuid
  lv_quantity :: dec
  lv_receiptId :: uuid
  lv_receiptNumber :: "string option"
  lv_commodity :: "string option"
  lv_grade :: "string option"
  lv_unit :: "string option"

record request_view =
  qv_id :: uuid
  qv_clientId :: uuid
  qv_clientName :: "string option"
  qv_financierId :: uuid
  qv_financierName :: "string option"
  qv_financierLogo :: "string option"
  qv_requestedDate :: time
  qv_note :: "string option"
  qv_lines :: "line_view list"
  qv_status :: release_status
  qv_decisionReason :: "string option"
  qv_decidedAt :: "time option"
  qv_createdAt :: time

definition linesOf :: "uuid \<Rightarrow> store \<Rightarrow> release_line list" where
  "linesOf requestId s = filter (\<lambda>l. rl_releaseRequestId l = requestId) (lines_of_requests s)"

definition projectLine :: "store \<Rightarrow> release_line \<Rightarrow> line_view" where
  "projectLine s l =
     (let r = find_row r_id (rl_receiptId l) (receipts s);
          c = (case r of None \<Rightarrow> None | Some x \<Rightarrow> find_row co_id (r_commodityId x) (commodities s))
      in \<lparr>lv_id = rl_id l, lv_lienId = rl_lienId l, lv_quantity = rl_quantity l, lv_receiptId = rl_receiptId l,
          lv_receiptNumber = map_option r_receiptNumber r, lv_commodity = map_option co_name c,
          lv_grade = (case r of None \<Rightarrow> None | Some x \<Rightarrow> r_grade x), lv_unit = map_option co_unitOfMeasure c\<rparr>)"

definition projectRequest :: "store \<Rightarrow> release_request \<Rightarrow> request_view" where
  "projectRequest s q =
     (let org = find_row fo_id (rq_financierOrgId q) (orgs s)
      in \<lparr>qv_id = rq_id q, qv_clientId = rq_clientId q,
          qv_clientName = map_option fullName (findUser (rq_clientId q) s),
          qv_financierId = rq_financierOrgId q, qv_financierName = map_option fo_name org,
          qv_financierLogo = (case org of None \<Rightarrow> None | Some o' \<Rightarrow> fo_logoUrl o'),
          qv_requestedDate = rq_requestedDate q, qv_note = rq_note q,
          qv_lines = map (projectLine s) (linesOf (rq_id q) s), qv_status = rq_status q,
          qv_decisionReason = rq_decisionReason q, qv_decidedAt = rq_decidedAt q, qv_createdAt = rq_createdAt q\<rparr>)"

definition findRequest :: "uuid \<Rightarrow> store \<Rightarrow> release_request option" where
  "findRequest i s = find_row rq_id i (requests s)"

definition projectRequestDetail :: "uuid \<Rightarrow> request_view handler" where
  "projectRequestDetail i =
     bindM (getsM (findRequest i)) (\<lambda>q.
     bindM (requireM (NotFound ''Release request not found'') q) (\<lambda>q.
       getsM (\<lambda>s. projectRequest s q)))"

definition updateRequest :: "uuid \<Rightarrow> (release_request \<Rightarrow> release_request) \<Rightarrow> unit handler" where
  "updateRequest i f = modifyM (\<lambda>s. s\<lparr>requests := upd_row rq_id i f (requests s)\<rparr>)"

section \<open>Creating a request\<close>

record release_line_dto =
  rd_lienId :: uuid
  rd_quantity :: string

record create_release_dto =
  cr_financierId :: uuid
  cr_requestedDate :: time
  cr_note :: "string option"
  cr_lines :: "release_line_dto list"

definition findLien :: "uuid \<Rightarrow> store \<Rightarrow> lien option" where
  "findLien i s = find_row ln_id i (liens s)"

text \<open>The quantity of a lien that pending requests ask for.\<close>

definition pendingFor :: "uuid \<Rightarrow> store \<Rightarrow> dec" where
  "pendingFor lienId s =
     sum_list (map rl_quantity (filter (\<lambda>l. rl_lienId l = lienId \<and> linePending s l) (lines_of_requests s)))"

definition availableForRelease :: "lien \<Rightarrow> store \<Rightarrow> dec" where
  "availableForRelease l s = ln_remainingQuantity l - pendingFor (ln_id l) s"

text \<open>The checks of one line, in the order the code makes them.\<close>

definition lineError :: "uuid \<Rightarrow> uuid \<Rightarrow> store \<Rightarrow> release_line_dto \<Rightarrow> err option" where
  "lineError callerUserId financierId s line =
     (case findLien (rd_lienId line) s of
        None \<Rightarrow> Some (BadRequest ''LIEN_NOT_FOUND'')
      | Some l \<Rightarrow>
          let qty = decimalOf (rd_quantity line)
          in if ln_clientId l \<noteq> callerUserId then Some (NotFound ''Lien not found'')
             else if ln_financierOrgId l \<noteq> financierId then Some (BadRequest ''LIEN_FINANCIER_MISMATCH'')
             else if \<not> lienOpen l then Some (BadRequest ''LIEN_NOT_ACTIVE'')
             else if qty \<le> 0 then Some (BadRequest ''QUANTITY_INVALID'')
             else if availableForRelease l s < qty
             then Some (Conflict (if 0 < pendingFor (ln_id l) s then ''RELEASE_ALREADY_PENDING''
                                  else ''QUANTITY_EXCEEDS_LIEN''))
             else None)"

text \<open>The first line in error is reported.\<close>

fun firstError :: "('a \<Rightarrow> err option) \<Rightarrow> 'a list \<Rightarrow> err option" where
  "firstError f [] = None"
| "firstError f (x # xs) = (case f x of None \<Rightarrow> firstError f xs | Some e \<Rightarrow> Some e)"

text \<open>
  The check returns the caller and the receipt of each lien as it stood; the insert uses
  these, whatever has happened to the liens since.
\<close>

definition createReleaseRequest_check ::
    "uuid \<Rightarrow> create_release_dto \<Rightarrow> (user \<times> (release_line_dto \<times> uuid) list) handler" where
  "createReleaseRequest_check callerUserId dto =
     bindM (getsM (findUser callerUserId)) (\<lambda>caller.
     bindM (requireM (NotFound ''User not found'') caller) (\<lambda>caller.
     bindM (getsM (\<lambda>s. firstError (lineError callerUserId (cr_financierId dto) s) (cr_lines dto))) (\<lambda>e.
     bindM (case e of None \<Rightarrow> returnM () | Some e \<Rightarrow> throwM e) (\<lambda>_.
       getsM (\<lambda>s. (caller, map (\<lambda>line. (line, case findLien (rd_lienId line) s of
         None \<Rightarrow> [] | Some l \<Rightarrow> ln_receiptId l)) (cr_lines dto)))))))"

definition insertRequest :: "release_request \<Rightarrow> store \<Rightarrow> err + unit \<times> store" where
  "insertRequest q s =
     (if rq_id q \<in> rq_id ` set (requests s) then Inl (Db (P2002 ''id''))
      else Inr ((), s\<lparr>requests := requests s @ [q]\<rparr>))"

definition insertLine :: "release_line \<Rightarrow> store \<Rightarrow> err + unit \<times> store" where
  "insertLine l s =
     (if rl_id l \<in> rl_id ` set (lines_of_requests s) then Inl (Db (P2002 ''id''))
      else if \<not> fits 20 4 (rl_quantity l) then Inl (Db Numeric_Overflow)
      else Inr ((), s\<lparr>lines_of_requests := lines_of_requests s @ [l\<lparr>rl_quantity := to_scale 4 (rl_quantity l)\<rparr>]\<rparr>))"

fun insertLines :: "release_line list \<Rightarrow> store \<Rightarrow> err + unit \<times> store" where
  "insertLines [] s = Inr ((), s)"
| "insertLines (l # ls) s = andThen (insertLine l s) (\<lambda>(_, s'). insertLines ls s')"

definition lineRows :: "(nat \<Rightarrow> uuid) \<Rightarrow> (release_line_dto \<times> uuid) list \<Rightarrow> release_line list" where
  "lineRows ids ls = map (\<lambda>(k, (line, receiptId)).
     \<lparr>rl_id = ids (Suc k), rl_releaseRequestId = ids 0, rl_lienId = rd_lienId line, rl_receiptId = receiptId,
      rl_quantity = decimalOf (rd_quantity line)\<rparr>) (enumerate 0 ls)"

definition createReleaseRequest_commit ::
    "time \<Rightarrow> (nat \<Rightarrow> uuid) \<Rightarrow> create_release_dto \<Rightarrow> user \<times> (release_line_dto \<times> uuid) list \<Rightarrow> request_view handler" where
  "createReleaseRequest_commit now ids dto plan =
     (case plan of (caller, ls) \<Rightarrow>
       bindM (transactM (\<lambda>s. andThen (insertRequest
           \<lparr>rq_id = ids 0, rq_tenantId = u_tenantId caller, rq_clientId = u_id caller,
            rq_financierOrgId = cr_financierId dto, rq_requestedDate = cr_requestedDate dto,
            rq_note = cr_note dto, rq_status = RQ_PENDING, rq_decisionReason = None,
            rq_decidedById = None, rq_decidedAt = None, rq_createdAt = now\<rparr> s)
         (\<lambda>(_, s1). insertLines (lineRows ids ls) s1))) (\<lambda>_.
       bindM (notifyFinancierUsers (cr_financierId dto) (u_tenantId caller) N_RELEASE_REQUESTED
         ''release_request'' (ids 0)) (\<lambda>_.
         projectRequestDetail (ids 0))))"

definition createReleaseRequest ::
    "time \<Rightarrow> (nat \<Rightarrow> uuid) \<Rightarrow> uuid \<Rightarrow> create_release_dto \<Rightarrow> request_view handler" where
  "createReleaseRequest now ids callerUserId dto =
     bindM (createReleaseRequest_check callerUserId dto) (createReleaseRequest_commit now ids dto)"

section \<open>Listings\<close>

definition listMyReleaseRequests ::
    "uuid \<Rightarrow> release_status option \<Rightarrow> string option \<Rightarrow> string option \<Rightarrow> request_view page handler" where
  "listMyReleaseRequests callerUserId status page limit =
     paginate page limit (\<lambda>s. map (projectRequest s)
       (rev (filter (\<lambda>q. rq_clientId q = callerUserId \<and>
          (case status of None \<Rightarrow> True | Some st \<Rightarrow> rq_status q = st)) (requests s))))"

definition listFinancierReleaseRequests ::
    "uuid \<Rightarrow> release_status option \<Rightarrow> string option \<Rightarrow> string option \<Rightarrow> request_view page handler" where
  "listFinancierReleaseRequests callerUserId status page limit =
     bindM (requireFinancierOrg callerUserId) (\<lambda>org.
       paginate page limit (\<lambda>s. map (projectRequest s)
         (sort_key rq_status (rev (filter (\<lambda>q. rq_financierOrgId q = fo_id org \<and>
            (case status of None \<Rightarrow> True | Some st \<Rightarrow> rq_status q = st)) (requests s))))))"

definition requestOfOrg :: "uuid \<Rightarrow> uuid \<Rightarrow> store \<Rightarrow> release_request option" where
  "requestOfOrg requestId orgId s = find (\<lambda>q. rq_id q = requestId \<and> rq_financierOrgId q = orgId) (requests s)"

definition getFinancierReleaseRequestDetail :: "uuid \<Rightarrow> uuid \<Rightarrow> request_view handler" where
  "getFinancierReleaseRequestDetail callerUserId requestId =
     bindM (requireFinancierOrg callerUserId) (\<lambda>org.
     bindM (getsM (requestOfOrg requestId (fo_id org))) (\<lambda>q.
     bindM (requireM (NotFound ''Release request not found'') q) (\<lambda>q.
       getsM (\<lambda>s. projectRequest s q))))"

section \<open>Cancellation, approval, rejection\<close>

definition cancelReleaseRequest :: "time \<Rightarrow> uuid \<Rightarrow> uuid \<Rightarrow> request_view handler" where
  "cancelReleaseRequest now callerUserId requestId =
     bindM (getsM (\<lambda>s. find (\<lambda>q. rq_id q = requestId \<and> rq_clientId q = callerUserId) (requests s))) (\<lambda>q.
     bindM (requireM (NotFound ''Release request not found'') q) (\<lambda>q.
     bindM (failIfM (rq_status q \<noteq> RQ_PENDING) (BadRequest ''RELEASE_REQUEST_NOT_PENDING'')) (\<lambda>_.
     bindM (updateRequest (rq_id q) (\<lambda>x. x\<lparr>rq_status := RQ_CANCELLED, rq_decidedAt := Some now\<rparr>)) (\<lambda>_.
       projectRequestDetail (rq_id q)))))"

definition approvalError :: "release_line \<times> lien \<Rightarrow> err option" where
  "approvalError = (\<lambda>(line, l).
     if \<not> lienOpen l then Some (BadRequest ''LIEN_NOT_ACTIVE'')
     else if ln_remainingQuantity l < rl_quantity line then Some (BadRequest ''QUANTITY_EXCEEDS_LIEN'')
     else None)"

text \<open>The lines of a request, each with its lien, as one query returns them.\<close>

definition linesWithLiens :: "uuid \<Rightarrow> store \<Rightarrow> (release_line \<times> lien) list" where
  "linesWithLiens requestId s = concat (map (\<lambda>line. case findLien (rl_lienId line) s of
     None \<Rightarrow> [] | Some l \<Rightarrow> [(line, l)]) (linesOf requestId s))"

definition approveReleaseRequest_check ::
    "uuid \<Rightarrow> uuid \<Rightarrow> (release_request \<times> (release_line \<times> lien) list) handler" where
  "approveReleaseRequest_check callerUserId requestId =
     bindM (requireFinancierOrg callerUserId) (\<lambda>org.
     bindM (getsM (\<lambda>s. map_option (\<lambda>q. (q, linesWithLiens (rq_id q) s)) (requestOfOrg requestId (fo_id org) s))) (\<lambda>q.
     bindM (requireM (NotFound ''Release request not found'') q) (\<lambda>(q, ls).
     bindM (failIfM (rq_status q \<noteq> RQ_PENDING) (BadRequest ''RELEASE_REQUEST_NOT_PENDING'')) (\<lambda>_.
     bindM (case firstError approvalError ls of None \<Rightarrow> returnM () | Some e \<Rightarrow> throwM e) (\<lambda>_.
       returnM (q, ls))))))"

definition updateLien :: "uuid \<Rightarrow> (lien \<Rightarrow> lien) \<Rightarrow> unit handler" where
  "updateLien i f = modifyM (\<lambda>s. s\<lparr>liens := upd_row ln_id i f (liens s)\<rparr>)"

definition fullKey :: "uuid \<Rightarrow> uuid \<Rightarrow> string" where
  "fullKey requestId lineId = ''release:full:'' @ requestId @ '':'' @ lineId"

definition partialKey :: "uuid \<Rightarrow> uuid \<Rightarrow> string" where
  "partialKey requestId lineId = ''release:partial:'' @ requestId @ '':'' @ lineId"

text \<open>One line: the lien is the one read by the check, not the current one.\<close>

definition releaseLine ::
    "time \<Rightarrow> (nat \<Rightarrow> uuid) \<Rightarrow> uuid \<Rightarrow> release_request \<Rightarrow> release_line \<times> lien \<Rightarrow> unit handler" where
  "releaseLine now ids callerUserId q = (\<lambda>(line, l).
     if rl_quantity line = ln_remainingQuantity l
     then bindM (ledgerRelease (ids 0) (rq_tenantId q) (ln_receiptId l) (Some callerUserId)
            (Some (''Release request '' @ rq_id q @ '' approved'')) (fullKey (rq_id q) (rl_id line))) (\<lambda>_.
          updateLien (ln_id l) (\<lambda>x. x\<lparr>ln_remainingQuantity := 0, ln_status := LN_RELEASED,
            ln_releasedAt := Some now\<rparr>))
     else bindM (ledgerReleasePartial (ids 0) (ids 1) (ids 2) now
            \<lparr>rp_tenantId = rq_tenantId q, rp_heldReceiptId = ln_receiptId l,
             rp_releaseQuantity = rl_quantity line, rp_releaseRequestId = rq_id q,
             rp_actorUserId = Some callerUserId, rp_idempotencyKey = partialKey (rq_id q) (rl_id line),
             rp_metadata = None\<rparr>) (\<lambda>res.
          bindM (requireM (TypeError ''id'') (rr_remainingHeld res)) (\<lambda>rest.
          updateLien (ln_id l) (\<lambda>x. x\<lparr>ln_receiptId := r_id rest,
            ln_remainingQuantity := to_scale 4 (ln_remainingQuantity l - rl_quantity line),
            ln_status := LN_PARTIALLY_RELEASED\<rparr>))))"

text \<open>Each line draws three identifiers of its own.\<close>

fun releaseLines ::
    "time \<Rightarrow> (nat \<Rightarrow> uuid) \<Rightarrow> uuid \<Rightarrow> release_request \<Rightarrow> (release_line \<times> lien) list \<Rightarrow> unit handler" where
  "releaseLines now ids callerUserId q [] = returnM ()"
| "releaseLines now ids callerUserId q (x # xs) =
     bindM (releaseLine now (\<lambda>n. ids (3 * length xs + n)) callerUserId q x) (\<lambda>_.
       releaseLines now ids callerUserId q xs)"

definition approveReleaseRequest_commit ::
    "crypto \<Rightarrow> time \<Rightarrow> (nat \<Rightarrow> uuid) \<Rightarrow> uuid \<Rightarrow> string \<Rightarrow> release_request \<times> (release_line \<times> lien) list
     \<Rightarrow> request_view handler" where
  "approveReleaseRequest_commit c now ids callerUserId code = (\<lambda>(q, ls).
     bindM (consumeOtp c now callerUserId code OTP_RELEASE_APPROVE) (\<lambda>_.
     bindM (releaseLines now ids callerUserId q ls) (\<lambda>_.
     bindM (updateRequest (rq_id q) (\<lambda>x. x\<lparr>rq_status := RQ_APPROVED, rq_decidedById := Some callerUserId,
       rq_decidedAt := Some now\<rparr>)) (\<lambda>_.
     bindM (notifyUser (rq_tenantId q) N_RELEASE_APPROVED ''release_request'' (rq_id q) (rq_clientId q)) (\<lambda>_.
       getFinancierReleaseRequestDetail callerUserId (rq_id q))))))"

definition approveReleaseRequest ::
    "crypto \<Rightarrow> time \<Rightarrow> (nat \<Rightarrow> uuid) \<Rightarrow> uuid \<Rightarrow> uuid \<Rightarrow> string \<Rightarrow> request_view handler" where
  "approveReleaseRequest c now ids callerUserId requestId code =
     bindM (approveReleaseRequest_check callerUserId requestId)
       (approveReleaseRequest_commit c now ids callerUserId code)"

definition rejectReleaseRequest :: "time \<Rightarrow> uuid \<Rightarrow> uuid \<Rightarrow> string \<Rightarrow> request_view handler" where
  "rejectReleaseRequest now callerUserId requestId reason =
     bindM (requireFinancierOrg callerUserId) (\<lambda>org.
     bindM (getsM (requestOfOrg requestId (fo_id org))) (\<lambda>q.
     bindM (requireM (NotFound ''Release request not found'') q) (\<lambda>q.
     bindM (failIfM (rq_status q \<noteq> RQ_PENDING) (BadRequest ''RELEASE_REQUEST_NOT_PENDING'')) (\<lambda>_.
     bindM (updateRequest (rq_id q) (\<lambda>x. x\<lparr>rq_status := RQ_REJECTED, rq_decisionReason := Some reason,
       rq_decidedById := Some callerUserId, rq_decidedAt := Some now\<rparr>)) (\<lambda>_.
     bindM (notifyUser (rq_tenantId q) N_RELEASE_REJECTED ''release_request'' (rq_id q) (rq_clientId q)) (\<lambda>_.
       getFinancierReleaseRequestDetail callerUserId (rq_id q)))))))"

end
