(* ===== verification/Liens.thy ===== *)
theory Liens
  imports Release_Requests Query
begin

text \<open>
  The lien portfolio of a financier, \<open>src/liens/liens.service.ts\<close>, and the administrator's
  force release, \<open>src/admin-liens/admin-liens.service.ts\<close>.
\<close>

section \<open>The portfolio\<close>

record lien_view =
  nv_id :: uuid
  nv_pledgeId :: uuid
  nv_receiptId :: uuid
  nv_receiptNumber :: "string option"
  nv_commodity :: "string option"
  nv_grade :: "string option"
  nv_unit :: "string option"
  nv_clientId :: uuid
  nv_clientName :: "string option"
  nv_financierId :: uuid
  nv_financierName :: "string option"
  nv_financierLogo :: "string option"
  nv_warehouseId :: "uuid option"
  nv_warehouseName :: "string option"
  nv_quantity :: dec
  nv_remainingQuantity :: dec
  nv_currentValuation :: "dec option"
  nv_currency :: string
  nv_status :: lien_status
  nv_placedAt :: time
  nv_releasedAt :: "time option"

definition receiptOf :: "lien \<Rightarrow> store \<Rightarrow> receipt option" where
  "receiptOf l s = find_row r_id (ln_receiptId l) (receipts s)"

definition commodityOf :: "receipt option \<Rightarrow> store \<Rightarrow> commodity option" where
  "commodityOf r s = (case r of None \<Rightarrow> None | Some x \<Rightarrow> find_row co_id (r_commodityId x) (commodities s))"

definition projectLien :: "(uuid \<Rightarrow> commodity_price option) \<Rightarrow> store \<Rightarrow> lien \<Rightarrow> lien_view" where
  "projectLien priceMap s l =
     (let r = receiptOf l s; c = commodityOf r s; org = find_row fo_id (ln_financierOrgId l) (orgs s);
          price = (case r of None \<Rightarrow> None | Some x \<Rightarrow> priceMap (r_commodityId x));
          w = (case r of None \<Rightarrow> None | Some x \<Rightarrow> find_row wh_id (r_warehouseId x) (warehouses s))
      in \<lparr>nv_id = ln_id l, nv_pledgeId = ln_pledgeId l, nv_receiptId = ln_receiptId l,
          nv_receiptNumber = map_option r_receiptNumber r, nv_commodity = map_option co_name c,
          nv_grade = (case r of None \<Rightarrow> None | Some x \<Rightarrow> r_grade x), nv_unit = map_option co_unitOfMeasure c,
          nv_clientId = ln_clientId l, nv_clientName = map_option fullName (findUser (ln_clientId l) s),
          nv_financierId = ln_financierOrgId l, nv_financierName = map_option fo_name org,
          nv_financierLogo = (case org of None \<Rightarrow> None | Some o' \<Rightarrow> fo_logoUrl o'),
          nv_warehouseId = map_option wh_id w, nv_warehouseName = map_option wh_name w,
          nv_quantity = ln_quantity l, nv_remainingQuantity = ln_remainingQuantity l,
          nv_currentValuation = map_option (\<lambda>p. cp_pricePerUnit p * ln_remainingQuantity l) price,
          nv_currency = (case price of None \<Rightarrow> ''NGN'' | Some p \<Rightarrow> cp_currency p),
          nv_status = ln_status l, nv_placedAt = ln_placedAt l, nv_releasedAt = ln_releasedAt l\<rparr>)"

record lien_query =
  lq_status :: "lien_status option"
  lq_clientId :: "uuid option"
  lq_warehouseId :: "uuid option"
  lq_commodity :: "string option"
  lq_page :: "string option"
  lq_limit :: "string option"

definition matches_lien :: "uuid \<Rightarrow> lien_query \<Rightarrow> store \<Rightarrow> lien \<Rightarrow> bool" where
  "matches_lien orgId q s l \<longleftrightarrow>
     ln_financierOrgId l = orgId \<and>
     (case lq_status q of None \<Rightarrow> True | Some st \<Rightarrow> ln_status l = st) \<and>
     (case truthy_opt (lq_clientId q) of None \<Rightarrow> True | Some c \<Rightarrow> ln_clientId l = c) \<and>
     (case truthy_opt (lq_warehouseId q) of None \<Rightarrow> True
      | Some w \<Rightarrow> map_option r_warehouseId (receiptOf l s) = Some w) \<and>
     (case truthy_opt (lq_commodity q) of None \<Rightarrow> True
      | Some n \<Rightarrow> map_option (\<lambda>c. lower (co_name c)) (commodityOf (receiptOf l s) s) = Some (lower n))"

text \<open>
  The prices of the page's commodities are looked up once each, under the tenant of the
  page's first row.
\<close>

definition listFinancierLiens :: "time \<Rightarrow> uuid \<Rightarrow> lien_query \<Rightarrow> lien_view page handler" where
  "listFinancierLiens now callerUserId q =
     bindM (requireFinancierOrg callerUserId) (\<lambda>org.
     bindM (paginate (lq_page q) (lq_limit q) (\<lambda>s. rev (filter (matches_lien (fo_id org) q s) (liens s)))) (\<lambda>pg.
       getsM (\<lambda>s.
         let priceMap = (\<lambda>cid. case pg_items pg of [] \<Rightarrow> None | l # _ \<Rightarrow> currentPrice now (ln_tenantId l) cid s)
         in \<lparr>pg_items = map (projectLien priceMap s) (pg_items pg), pg_total = pg_total pg,
             pg_page = pg_page pg, pg_limit = pg_limit pg, pg_totalPages = pg_totalPages pg\<rparr>)))"

definition getFinancierLienDetail :: "time \<Rightarrow> uuid \<Rightarrow> uuid \<Rightarrow> lien_view handler" where
  "getFinancierLienDetail now callerUserId lienId =
     bindM (requireFinancierOrg callerUserId) (\<lambda>org.
     bindM (getsM (\<lambda>s. find (\<lambda>l. ln_id l = lienId \<and> ln_financierOrgId l = fo_id org) (liens s))) (\<lambda>l.
     bindM (requireM (NotFound ''Lien not found'') l) (\<lambda>l.
       getsM (\<lambda>s. projectLien (\<lambda>cid. currentPrice now (ln_tenantId l) cid s) s l))))"

section \<open>Force release\<close>

record force_release_view =
  fv_id :: uuid
  fv_status :: lien_status
  fv_quantity :: dec
  fv_remainingQuantity :: dec
  fv_placedAt :: time
  fv_releasedAt :: "time option"
  fv_financierId :: uuid
  fv_financierName :: "string option"
  fv_financierLogo :: "string option"
  fv_clientId :: uuid
  fv_clientName :: "string option"
  fv_receiptId :: uuid
  fv_receiptNumber :: "string option"
  fv_commodity :: "string option"
  fv_unit :: "string option"
  fv_forceRelease :: "(force_release \<times> user option) option"

definition forceReleaseOf :: "uuid \<Rightarrow> store \<Rightarrow> force_release option" where
  "forceReleaseOf lienId s = find (\<lambda>f. fr_lienId f = lienId) (forceReleases s)"

definition projectForceReleased :: "uuid \<Rightarrow> uuid option \<Rightarrow> force_release_view handler" where
  "projectForceReleased lienId tenantId =
     bindM (getsM (\<lambda>s. find (\<lambda>l. ln_id l = lienId \<and>
       (case truthy_opt tenantId of None \<Rightarrow> True | Some t \<Rightarrow> ln_tenantId l = t)) (liens s))) (\<lambda>l.
     bindM (requireM (NotFound ''Lien not found'') l) (\<lambda>l.
       getsM (\<lambda>s.
         let r = receiptOf l s; c = commodityOf r s; org = find_row fo_id (ln_financierOrgId l) (orgs s)
         in \<lparr>fv_id = ln_id l, fv_status = ln_status l, fv_quantity = ln_quantity l,
             fv_remainingQuantity = ln_remainingQuantity l, fv_placedAt = ln_placedAt l,
             fv_releasedAt = ln_releasedAt l, fv_financierId = ln_financierOrgId l,
             fv_financierName = map_option fo_name org,
             fv_financierLogo = (case org of None \<Rightarrow> None | Some o' \<Rightarrow> fo_logoUrl o'),
             fv_clientId = ln_clientId l, fv_clientName = map_option fullName (findUser (ln_clientId l) s),
             fv_receiptId = ln_receiptId l, fv_receiptNumber = map_option r_receiptNumber r,
             fv_commodity = map_option co_name c, fv_unit = map_option co_unitOfMeasure c,
             fv_forceRelease = map_option (\<lambda>f. (f, findUser (fr_adminId f) s)) (forceReleaseOf (ln_id l) s)\<rparr>)))"

definition getForceReleaseDetail :: "uuid \<Rightarrow> uuid \<Rightarrow> force_release_view handler" where
  "getForceReleaseDetail tenantId lienId = projectForceReleased lienId (Some tenantId)"

definition insertForceRelease :: "force_release \<Rightarrow> store \<Rightarrow> err + unit \<times> store" where
  "insertForceRelease f s =
     (if fr_id f \<in> fr_id ` set (forceReleases s) then Inl (Db (P2002 ''id''))
      else if fr_lienId f \<in> fr_lienId ` set (forceReleases s) then Inl (Db (P2002 ''lien_id''))
      else Inr ((), s\<lparr>forceReleases := forceReleases s @ [f]\<rparr>))"

definition updateLienTx :: "uuid \<Rightarrow> (lien \<Rightarrow> lien) \<Rightarrow> store \<Rightarrow> err + unit \<times> store" where
  "updateLienTx i f s =
     (case findLien i s of
        None \<Rightarrow> Inl (Db Row_Missing)
      | Some _ \<Rightarrow> Inr ((), s\<lparr>liens := upd_row ln_id i f (liens s)\<rparr>))"

definition logActivity :: "activity \<Rightarrow> unit handler" where
  "logActivity a = modifyM (\<lambda>s. s\<lparr>activities := activities s @ [a]\<rparr>)"

definition forceReleaseKey :: "uuid \<Rightarrow> string" where
  "forceReleaseKey lienId = ''lien:force-release:'' @ lienId"

text \<open>What both parties are told; a failed notification is swallowed.\<close>

definition notifyBoth :: "uuid \<Rightarrow> lien \<Rightarrow> unit handler" where
  "notifyBoth tenantId l =
     bindM (notifyFinancierUsers (ln_financierOrgId l) tenantId N_LIEN_FORCE_RELEASED ''lien'' (ln_id l)) (\<lambda>_.
       notifyUser tenantId N_LIEN_FORCE_RELEASED ''lien'' (ln_id l) (ln_clientId l))"

definition forceReleaseLien_check :: "uuid \<Rightarrow> uuid \<Rightarrow> (lien \<times> bool) handler" where
  "forceReleaseLien_check tenantId lienId =
     bindM (getsM (\<lambda>s. map_option (\<lambda>l. (l, forceReleaseOf (ln_id l) s \<noteq> None))
       (find (\<lambda>l. ln_id l = lienId \<and> ln_tenantId l = tenantId) (liens s)))) (\<lambda>l.
     bindM (requireM (NotFound ''Lien not found'') l) (\<lambda>(l, released).
     bindM (failIfM (\<not> released \<and> ln_status l = LN_RELEASED) (BadRequest ''LIEN_ALREADY_RELEASED'')) (\<lambda>_.
       returnM (l, released))))"

definition forceReleaseLien_commit ::
    "time \<Rightarrow> (nat \<Rightarrow> uuid) \<Rightarrow> uuid \<Rightarrow> uuid \<Rightarrow> string \<Rightarrow> string \<Rightarrow> lien \<Rightarrow> force_release_view handler" where
  "forceReleaseLien_commit now ids tenantId adminUserId reason courtOrderDocUrl l =
     bindM (ledgerRelease (ids 0) tenantId (ln_receiptId l) (Some adminUserId)
       (Some (''Force-released by admin: '' @ reason)) (forceReleaseKey (ln_id l))) (\<lambda>_.
     bindM (transactM (\<lambda>s. andThen (insertForceRelease
         \<lparr>fr_id = ids 1, fr_tenantId = tenantId, fr_lienId = ln_id l, fr_adminId = adminUserId,
          fr_reason = reason, fr_courtOrderDocUrl = courtOrderDocUrl\<rparr> s) (\<lambda>(_, s1).
         updateLienTx (ln_id l) (\<lambda>x. x\<lparr>ln_status := LN_FORCE_RELEASED, ln_remainingQuantity := 0,
           ln_releasedAt := Some now\<rparr>) s1))) (\<lambda>_.
     bindM (logActivity \<lparr>al_tenantId = Some tenantId, al_userId = Some adminUserId, al_action = ''lien.force_released'',
       al_entityType = ''LIEN'', al_entityId = ln_id l, al_changes = []\<rparr>) (\<lambda>_.
     bindM (notifyBoth tenantId l) (\<lambda>_.
       projectForceReleased (ln_id l) None))))"

definition forceReleaseLien ::
    "time \<Rightarrow> (nat \<Rightarrow> uuid) \<Rightarrow> uuid \<Rightarrow> uuid \<Rightarrow> uuid \<Rightarrow> string \<Rightarrow> string \<Rightarrow> force_release_view handler" where
  "forceReleaseLien now ids tenantId adminUserId lienId reason courtOrderDocUrl =
     bindM (forceReleaseLien_check tenantId lienId) (\<lambda>(l, released).
       if released then projectForceReleased (ln_id l) None
       else forceReleaseLien_commit now ids tenantId adminUserId reason courtOrderDocUrl l)"

end
