(* ===== verification/Operations_Base.thy ===== *)
theory Operations_Base
  imports Collateral_Base Query
begin

text \<open>
  What the loan, trade and withdrawal services share: the ledger operations they call, who
  may edit, listings without clamps, and the storage-fee service
  (\<open>src/storage-fees/storage-fees.service.ts\<close>).
\<close>

section \<open>The ledger as these services call it\<close>

definition ledgerApproveHold :: "uuid \<Rightarrow> time \<Rightarrow> uuid \<Rightarrow> uuid \<Rightarrow> uuid option \<Rightarrow> string \<Rightarrow> receipt handler" where
  "ledgerApproveHold evId now tenantId heldReceiptId actorUserId key =
     atOnce (approveHold evId now (actor tenantId heldReceiptId actorUserId key))"

definition ledgerConsume :: "uuid \<Rightarrow> uuid \<Rightarrow> uuid \<Rightarrow> uuid option \<Rightarrow> string \<Rightarrow> receipt handler" where
  "ledgerConsume evId tenantId heldReceiptId actorUserId key =
     atOnce (consume evId (actor tenantId heldReceiptId actorUserId key))"

lemma approveHoldTx_more: "approveHoldTx ev now a s = Inr (r, s') \<Longrightarrow> ledger.more s' = ledger.more s"
  unfolding approveHoldTx_def by (auto simp: andThen_Inr_iff dest!: more_frame)

lemma consumeTx_more: "consumeTx ev a s = Inr (r, s') \<Longrightarrow> ledger.more s' = ledger.more s"
  unfolding consumeTx_def by (auto simp: andThen_Inr_iff dest!: more_frame)

lemma confined_approveHold: "confined lawful (ledgerApproveHold ev now t i who k)"
  unfolding ledgerApproveHold_def atOnce_def approveHold_def
  by (rule confinedI, erule idempotent_lawful) (erule approveHoldTx_move)

lemma ledgerApproveHold_more:
  "ledgerApproveHold ev now t i who k s = (r, s') \<Longrightarrow> ledger.more s' = ledger.more s"
  unfolding ledgerApproveHold_def atOnce_def approveHold_def by (erule idempotent_more) (rule approveHoldTx_more)

interpretation consuming: settlement "\<lambda>k t i. ledgerConsume ev t i who k" held_any WITHDRAWN for ev who
proof
  fix k t i s r s' and e :: err and x :: receipt
  show "confined lawful (ledgerConsume ev t i who k)"
    unfolding ledgerConsume_def atOnce_def consume_def
    by (rule confinedI, erule idempotent_lawful) (erule consumeTx_move)
  show "ledgerConsume ev t i who k s = (r, s') \<Longrightarrow> ledger.more s' = ledger.more s"
    unfolding ledgerConsume_def atOnce_def consume_def by (erule idempotent_more) (rule consumeTx_more)
  show "ledgerConsume ev t i who k s = (Inl e, s') \<Longrightarrow> s' = s"
    unfolding ledgerConsume_def atOnce_def consume_def by (erule idempotent_failed)
  assume u: "ids_unique s" and "findEventByKey k s = None" "ledgerConsume ev t i who k s = (Inr x, s')"
  then have "consumeTx ev (actor t i who k) s = Inr (x, s')"
    unfolding ledgerConsume_def atOnce_def consume_def by (intro idempotent_first) (simp_all add: actor_def)
  then obtain r e1 ev1 s1 where r: "loadOrThrow s i t = Inr r" "r_status r \<in> set HELD"
    "event e1 s = Inr (ev1, s1)" "updateReceipt (r_id r) (\<lambda>x. x\<lparr>r_status := WITHDRAWN\<rparr>) s1 = Inr (x, s')"
    unfolding consumeTx_def assertHeld_def by (auto simp: andThen_Inr_iff actor_def)
  show "\<exists>r f. loadOrThrow s i t = Inr r \<and> held_any (r_status r) \<and> receipts s' = upd_row r_id i f (receipts s) \<and>
        x = f r \<and> (\<forall>y. r_id (f y) = r_id y \<and> r_status (f y) = WITHDRAWN \<and> r_quantity (f y) = r_quantity y)"
    using r(1,2) event_then_update_first [OF u r(1,3,4)]
    by (intro exI [of _ r] exI [of _ "(\<lambda>x. x\<lparr>r_status := WITHDRAWN\<rparr>)"]) (simp add: held_any_def)
qed

section \<open>Permissions and audit\<close>

definition isAdminRole :: "string list \<Rightarrow> bool" where
  "isAdminRole actorRoles \<longleftrightarrow> list_ex (\<lambda>r. r = ''TENANT_ADMIN'' \<or> r = ''GLOBAL_ADMIN'') actorRoles"

text \<open>A warehouse manager with a current assignment to the warehouse of the receipt.\<close>

definition managesSiteOf :: "uuid \<Rightarrow> uuid \<Rightarrow> string list \<Rightarrow> uuid \<Rightarrow> store \<Rightarrow> bool" where
  "managesSiteOf tenantId actorUserId actorRoles receiptId s \<longleftrightarrow>
     ''WAREHOUSE_MANAGER'' \<in> set actorRoles \<and>
     (case find_row r_id receiptId (receipts s) of
        None \<Rightarrow> False
      | Some r \<Rightarrow> list_ex (\<lambda>a. ma_tenantId a = tenantId \<and> ma_warehouseId a = r_warehouseId r \<and>
          ma_managerId a = actorUserId \<and> ma_unassignedAt a = None) (assignments s))"

definition appendActivity :: "activity \<Rightarrow> store \<Rightarrow> store" where
  "appendActivity a s = s\<lparr>activities := activities s @ [a]\<rparr>"

section \<open>Listings without clamps\<close>

text \<open>
  \<open>parseInt\<close> of the parameters, with no bounds. The client refuses NaN and a negative
  \<open>skip\<close>; a negative \<open>take\<close> counts from the end. \<open>None\<close> is a quotient by zero, which
  JSON shows as null.
\<close>

record 'r raw_page =
  rw_data :: "'r list"
  rw_total :: nat
  rw_page :: int
  rw_limit :: int
  rw_totalPages :: "int option"

definition raw_slice :: "int \<Rightarrow> int \<Rightarrow> 'r list \<Rightarrow> 'r list" where
  "raw_slice skip n rows =
     (if 0 \<le> n then take (nat n) (drop (nat skip) rows)
      else rev (take (nat (- n)) (drop (nat skip) (rev rows))))"

definition rawPaginate :: "string option \<Rightarrow> string option \<Rightarrow> (store \<Rightarrow> 'r list) \<Rightarrow> 'r raw_page handler" where
  "rawPaginate page limit rows =
     bindM (requireM (TypeError ''NaN'') (param page ''1'')) (\<lambda>p.
     bindM (requireM (TypeError ''NaN'') (param limit ''10'')) (\<lambda>l.
     let skip = (p - 1) * l in
     bindM (failIfM (skip < 0) (TypeError ''skip'')) (\<lambda>_.
     bindM (getsM rows) (\<lambda>rs.
       returnM \<lparr>rw_data = raw_slice skip l rs, rw_total = length rs, rw_page = p, rw_limit = l,
         rw_totalPages = (if l = 0 then None else Some \<lceil>of_nat (length rs) / (of_int l :: rat)\<rceil>)\<rparr>))))"

section \<open>Storage fees\<close>

record policy_query =
  pq_warehouseId :: "string option"
  pq_commodityId :: "string option"
  pq_isActive :: "string option"

definition getPolicies :: "uuid \<Rightarrow> policy_query \<Rightarrow> store \<Rightarrow> fee_policy list" where
  "getPolicies tenantId q s = rev (filter (\<lambda>p. fp_tenantId p = tenantId \<and>
     (case truthy_opt (pq_warehouseId q) of None \<Rightarrow> True | Some w \<Rightarrow> fp_warehouseId p = Some w) \<and>
     (case truthy_opt (pq_commodityId q) of None \<Rightarrow> True | Some c \<Rightarrow> fp_commodityId p = Some c) \<and>
     (case pq_isActive q of None \<Rightarrow> True | Some t \<Rightarrow> fp_isActive p = (t = ''true''))) (policies s))"

text \<open>\<open>standardBagWeightKg\<close> zero is falsy, like an absent one.\<close>

definition bagWeight :: "commodity \<Rightarrow> dec option" where
  "bagWeight c = (case co_standardBagWeightKg c of None \<Rightarrow> None | Some w \<Rightarrow> if w = 0 then None else Some w)"

definition createPolicy :: "fee_policy \<Rightarrow> fee_policy handler" where
  "createPolicy p =
     bindM (getsM (\<lambda>s. fp_feeType p = PER_BAG_PER_WEEK \<and>
       (case truthy_opt (fp_commodityId p) of None \<Rightarrow> False
        | Some cid \<Rightarrow> (case find (\<lambda>c. co_id c = cid \<and> co_tenantId c = fp_tenantId p) (commodities s) of
            None \<Rightarrow> True | Some c \<Rightarrow> bagWeight c = None)))) (\<lambda>bad.
     bindM (failIfM bad (BadRequest ''PER_BAG_PER_WEEK fee requires standardBagWeightKg'')) (\<lambda>_.
     bindM (transactM (\<lambda>s. if fp_id p \<in> fp_id ` set (policies s) then Inl (Db (P2002 ''id''))
        else Inr ((), s\<lparr>policies := policies s @ [p]\<rparr>))) (\<lambda>_. returnM p)))"

record update_policy_dto =
  up_feeType :: "fee_type option"
  up_warehouseId :: "uuid option"
  up_commodityId :: "uuid option"
  up_rate :: "dec option"
  up_billingFrequency :: "billing_frequency option"
  up_gracePeriodDays :: "int option"
  up_latePenaltyPct :: "dec option"
  up_currency :: "string option"

definition orElse :: "'a option \<Rightarrow> 'a \<Rightarrow> 'a" where
  "orElse x d = (case x of None \<Rightarrow> d | Some y \<Rightarrow> y)"

definition applyPolicy :: "update_policy_dto \<Rightarrow> fee_policy \<Rightarrow> fee_policy" where
  "applyPolicy d p = p\<lparr>fp_feeType := orElse (up_feeType d) (fp_feeType p),
     fp_warehouseId := (case up_warehouseId d of None \<Rightarrow> fp_warehouseId p | Some w \<Rightarrow> Some w),
     fp_commodityId := (case up_commodityId d of None \<Rightarrow> fp_commodityId p | Some c \<Rightarrow> Some c),
     fp_rate := orElse (up_rate d) (fp_rate p),
     fp_billingFrequency := orElse (up_billingFrequency d) (fp_billingFrequency p),
     fp_gracePeriodDays := orElse (up_gracePeriodDays d) (fp_gracePeriodDays p),
     fp_latePenaltyPct := orElse (up_latePenaltyPct d) (fp_latePenaltyPct p),
     fp_currency := orElse (up_currency d) (fp_currency p)\<rparr>"

definition changePolicy :: "string \<Rightarrow> uuid \<Rightarrow> uuid \<Rightarrow> (fee_policy \<Rightarrow> fee_policy) \<Rightarrow> fee_policy handler" where
  "changePolicy notFound tenantId i f =
     bindM (getsM (\<lambda>s. find (\<lambda>p. fp_id p = i \<and> fp_tenantId p = tenantId) (policies s))) (\<lambda>p.
     bindM (requireM (NotFound notFound) p) (\<lambda>p.
     bindM (modifyM (\<lambda>s. s\<lparr>policies := upd_row fp_id i f (policies s)\<rparr>)) (\<lambda>_. returnM (f p))))"

definition updatePolicy :: "uuid \<Rightarrow> uuid \<Rightarrow> update_policy_dto \<Rightarrow> fee_policy handler" where
  "updatePolicy tenantId i dto = changePolicy ''Storage fee policy not found'' tenantId i (applyPolicy dto)"

definition activate :: "uuid \<Rightarrow> uuid \<Rightarrow> fee_policy handler" where
  "activate tenantId i = changePolicy ''Policy not found'' tenantId i (\<lambda>p. p\<lparr>fp_isActive := True\<rparr>)"

definition deactivate :: "uuid \<Rightarrow> uuid \<Rightarrow> fee_policy handler" where
  "deactivate tenantId i = changePolicy ''Policy not found'' tenantId i (\<lambda>p. p\<lparr>fp_isActive := False\<rparr>)"

text \<open>The candidates of \<open>Query.resolveStorageFeePolicy\<close>, but a miss is an error.\<close>

definition resolvePolicy :: "uuid \<Rightarrow> uuid \<Rightarrow> uuid \<Rightarrow> store \<Rightarrow> err + fee_policy" where
  "resolvePolicy tenantId warehouseId commodityId s =
     (case resolveStorageFeePolicy tenantId warehouseId commodityId s of
        None \<Rightarrow> Inl (BadRequest ''No active storage fee policy'')
      | Some p \<Rightarrow> Inr p)"

definition daysBetween :: "time \<Rightarrow> time \<Rightarrow> int" where
  "daysBetween dateOfDeposit requestDate = \<lceil>of_int (requestDate - dateOfDeposit) / (86400000 :: rat)\<rceil>"

definition toMt :: "dec option \<Rightarrow> dec \<Rightarrow> string \<Rightarrow> err + dec" where
  "toMt bagWeightKg qty u =
     (if u = ''METRIC_TON'' then Inr qty
      else if u = ''KILOGRAM'' then Inr (qty / 1000)
      else if u = ''BAG'' then (case bagWeightKg of
        None \<Rightarrow> Inl (BadRequest ''Commodity missing standardBagWeightKg'')
      | Some w \<Rightarrow> if w = 0 then Inl (BadRequest ''Commodity missing standardBagWeightKg'')
                  else Inr ((qty * w) / 1000))
      else Inl (BadRequest ''Cannot convert to METRIC_TON''))"

text \<open>
  Here only an absent weight defaults, to one kilogram; a zero weight divides by zero, and
  the resulting Infinity or NaN is refused by the columns and null in JSON.
\<close>

definition toBags :: "dec option \<Rightarrow> dec \<Rightarrow> string \<Rightarrow> err + dec" where
  "toBags bagWeightKg qty u =
     (let w = orElse bagWeightKg 1
      in if u = ''BAG'' then Inr qty
         else if u = ''KILOGRAM'' then if w = 0 then Inl (TypeError ''Infinity'') else Inr (of_int \<lceil>qty / w\<rceil>)
         else if u = ''METRIC_TON'' then if w = 0 then Inl (TypeError ''Infinity'') else Inr (of_int \<lceil>(qty * 1000) / w\<rceil>)
         else Inl (BadRequest ''Cannot convert to BAG''))"

definition calculateFee :: "fee_policy \<Rightarrow> dec \<Rightarrow> string \<Rightarrow> time \<Rightarrow> time \<Rightarrow> dec option \<Rightarrow> err + dec" where
  "calculateFee policy quantity unit dateOfDeposit requestDate bagWeightKg =
     (let days = daysBetween dateOfDeposit requestDate;
          weeks = \<lceil>of_int days / (7 :: rat)\<rceil>;
          months = \<lceil>of_int days / (30 :: rat)\<rceil>
      in case fp_feeType policy of
           PER_MT_PER_MONTH \<Rightarrow> andThen (toMt bagWeightKg quantity unit) (\<lambda>q. Inr (q * fp_rate policy * of_int months))
         | PER_MT_PER_DAY \<Rightarrow> andThen (toMt bagWeightKg quantity unit) (\<lambda>q. Inr (q * fp_rate policy * of_int days))
         | PER_BAG_PER_WEEK \<Rightarrow> andThen (toBags bagWeightKg quantity unit) (\<lambda>q. Inr (q * fp_rate policy * of_int weeks))
         | FLAT_RATE \<Rightarrow> Inr (fp_rate policy))"

definition liftM :: "(store \<Rightarrow> err + 'a) \<Rightarrow> 'a handler" where
  "liftM f s = (f s, s)"

lemma confined_liftM: "confined lawful (liftM f)"
  by (auto simp: confined_def liftM_def ledger_lawful.stays)

lemma liftM_iff [simp]: "liftM f s = (r, s') \<longleftrightarrow> r = f s \<and> s' = s"
  by (auto simp: liftM_def)

end
