(* ===== verification/Loans.thy ===== *)
theory Loans
  imports Operations_Base
begin

text \<open>
  \<open>LoansService\<close>, \<open>src/loans/loans.service.ts\<close>: a loan is secured by a hold on a whole
  receipt, which its rejection and its repayment release. \<open>ids\<close> supplies the identifiers
  one call draws, \<open>reference\<close> the number made of the clock and \<open>Math.random\<close>.
\<close>

section \<open>Terms\<close>

definition getFinanciers :: "uuid \<Rightarrow> store \<Rightarrow> financier list" where
  "getFinanciers tenantId s = filter (\<lambda>f. fi_tenantId f = tenantId) (financiers s)"

definition selectable :: "uuid \<Rightarrow> uuid \<Rightarrow> uuid list option \<Rightarrow> receipt \<Rightarrow> bool" where
  "selectable tenantId clientId warehouseIds r \<longleftrightarrow>
     r_tenantId r = tenantId \<and> r_clientId r = clientId \<and> r_status r = ACTIVE \<and>
     r_approvalStatus r = APPROVED \<and> \<not> r_isParent r \<and>
     (case warehouseIds of None \<Rightarrow> True | Some ws \<Rightarrow> r_warehouseId r \<in> set ws)"

record pledgeable_view =
  gv_id :: uuid
  gv_receiptNumber :: string
  gv_availableQuantity :: dec
  gv_commodity :: string

definition getPledgeableReceipts ::
    "uuid \<Rightarrow> uuid \<Rightarrow> string option \<Rightarrow> uuid list option \<Rightarrow> store \<Rightarrow> pledgeable_view list" where
  "getPledgeableReceipts tenantId clientId commodity warehouseIds s =
     map (\<lambda>r. \<lparr>gv_id = r_id r, gv_receiptNumber = r_receiptNumber r, gv_availableQuantity = r_quantity r,
         gv_commodity = commodityName s r\<rparr>)
       (filter (\<lambda>r. case truthy_opt commodity of None \<Rightarrow> True
          | Some n \<Rightarrow> lower (commodityName s r) = lower n)
         (filter (selectable tenantId clientId warehouseIds) (receipts s)))"

definition findFinancier :: "uuid \<Rightarrow> uuid \<Rightarrow> store \<Rightarrow> financier option" where
  "findFinancier tenantId i s = find (\<lambda>f. fi_id f = i \<and> fi_tenantId f = tenantId) (financiers s)"

record loan_terms =
  lt_totalInterest :: dec
  lt_monthlyPayment :: "dec option" \<comment> \<open>\<open>None\<close> is a division by a tenure of zero\<close>
  lt_tenureMonths :: int
  lt_interestRate :: dec

definition termsOf :: "dec \<Rightarrow> dec \<Rightarrow> int \<Rightarrow> loan_terms" where
  "termsOf capital interestRate tenureMonths =
     (let totalInterest = capital * interestRate / 100
      in \<lparr>lt_totalInterest = totalInterest,
          lt_monthlyPayment = (if tenureMonths = 0 then None
            else Some ((capital + totalInterest) / of_int tenureMonths)),
          lt_tenureMonths = tenureMonths, lt_interestRate = interestRate\<rparr>)"

definition calculateLoan :: "uuid \<Rightarrow> uuid \<Rightarrow> dec \<Rightarrow> loan_terms handler" where
  "calculateLoan tenantId financierId amount =
     bindM (getsM (findFinancier tenantId financierId)) (\<lambda>f.
     bindM (requireM (NotFound ''Financier not found'') f) (\<lambda>f.
     bindM (failIfM (amount \<le> 0) (BadRequest ''Loan amount must be greater than zero'')) (\<lambda>_.
       returnM (termsOf amount (fi_interestRate f) (fi_maxTenure f)))))"

section \<open>Life of a loan\<close>

record create_loan_dto =
  cl_receiptId :: uuid
  cl_financierId :: uuid
  cl_amount :: dec
  cl_notes :: "string option"
  cl_pin :: "string option"
  cl_otp :: "string option"

text \<open>An upsert with an empty update: the row of that id, or the new one.\<close>

definition upsertLoan :: "loan \<Rightarrow> store \<Rightarrow> err + loan \<times> store" where
  "upsertLoan l s =
     (case find_row l_id (l_id l) (loans s) of
        Some x \<Rightarrow> Inr (x, s)
      | None \<Rightarrow> if l_reference l \<in> l_reference ` set (loans s) then Inl (Db (P2002 ''reference''))
                else Inr (l, s\<lparr>loans := loans s @ [l]\<rparr>))"

definition updateLoan :: "uuid \<Rightarrow> (loan \<Rightarrow> loan) \<Rightarrow> unit handler" where
  "updateLoan i f = modifyM (\<lambda>s. s\<lparr>loans := upd_row l_id i f (loans s)\<rparr>)"

definition loanKey :: "uuid \<Rightarrow> string \<Rightarrow> string" where
  "loanKey loanId what = ''LOAN:'' @ loanId @ '':'' @ what"

definition createLoan ::
    "crypto \<Rightarrow> time \<Rightarrow> (nat \<Rightarrow> uuid) \<Rightarrow> string \<Rightarrow> uuid \<Rightarrow> create_loan_dto \<Rightarrow> uuid \<Rightarrow> uuid option \<Rightarrow> bool
     \<Rightarrow> (loan \<times> uuid) handler" where
  "createLoan c now ids reference tenantId dto clientId actorUserId isOnBehalf =
     bindM (assertTransactionAuth c now clientId OTP_LOAN (cl_pin dto) (cl_otp dto) isOnBehalf) (\<lambda>_.
     bindM (getsM (\<lambda>s. find (\<lambda>r. r_id r = cl_receiptId dto \<and> r_tenantId r = tenantId) (receipts s))) (\<lambda>r.
     bindM (requireM (NotFound ''Receipt not found'') r) (\<lambda>r.
     bindM (getsM (findFinancier tenantId (cl_financierId dto))) (\<lambda>f.
     bindM (requireM (NotFound ''Financier not found'') f) (\<lambda>f.
     bindM (failIfM (cl_amount dto \<le> 0) (BadRequest ''Loan amount must be greater than zero'')) (\<lambda>_.
     let terms = termsOf (cl_amount dto) (fi_interestRate f) (fi_maxTenure f); loanId = ids 0 in
     bindM (ledgerHold (ids 1) (ids 2) (ids 3) now
       \<lparr>h_tenantId = tenantId, h_sourceReceiptId = r_id r, h_quantity = r_quantity r,
        h_heldStatus = Held_Loan, h_txnType = T_LOAN, h_txnId = loanId,
        h_actorUserId = Some (orElse actorUserId clientId), h_idempotencyKey = loanKey loanId ''hold'',
        h_metadata = None\<rparr>) (\<lambda>res.
     bindM (requireM (TypeError ''id'') (hr_held res)) (\<lambda>held.
     bindM (requireM (TypeError ''Infinity'') (lt_monthlyPayment terms)) (\<lambda>monthly.
     bindM (transactM (upsertLoan
       \<lparr>l_id = loanId, l_reference = reference, l_tenantId = tenantId, l_receiptId = r_id held,
        l_clientId = clientId, l_financierId = fi_id f, l_amount = cl_amount dto,
        l_interestRate = fi_interestRate f, l_tenureMonths = lt_tenureMonths terms,
        l_totalInterest = lt_totalInterest terms, l_monthlyPayment = monthly, l_status = LO_PENDING,
        l_notes = cl_notes dto, l_approvedAt = None, l_repaidAt = None\<rparr>)) (\<lambda>l.
     bindM (notifyTenantAdmins tenantId N_LOAN_REQUESTED ''loan'' (l_id l)) (\<lambda>_.
     bindM (notifyUser tenantId N_LOAN_REQUESTED ''loan'' (l_id l) clientId) (\<lambda>_.
       returnM (l, r_id held)))))))))))))"

definition loadLoan :: "uuid \<Rightarrow> uuid \<Rightarrow> loan handler" where
  "loadLoan tenantId i =
     bindM (getsM (\<lambda>s. find (\<lambda>l. l_id l = i \<and> l_tenantId l = tenantId) (loans s))) (\<lambda>l.
       requireM (NotFound ''Loan not found'') l)"

definition approveLoan :: "time \<Rightarrow> uuid \<Rightarrow> uuid \<Rightarrow> uuid \<Rightarrow> uuid option \<Rightarrow> (uuid \<times> loan_status) handler" where
  "approveLoan now evId tenantId loanId actorUserId =
     bindM (loadLoan tenantId loanId) (\<lambda>l.
     bindM (failIfM (l_status l \<noteq> LO_PENDING) (BadRequest ''Loan is not pending'')) (\<lambda>_.
     bindM (ledgerApproveHold evId now tenantId (l_receiptId l) actorUserId (loanKey (l_id l) ''approveHold'')) (\<lambda>_.
     bindM (updateLoan loanId (\<lambda>x. x\<lparr>l_status := LO_ACTIVE, l_approvedAt := Some now\<rparr>)) (\<lambda>_.
     bindM (notifyUser tenantId N_LOAN_APPROVED ''loan'' loanId (l_clientId l)) (\<lambda>_.
       returnM (loanId, LO_ACTIVE))))))"

definition rejectLoan :: "uuid \<Rightarrow> uuid \<Rightarrow> uuid \<Rightarrow> uuid option \<Rightarrow> (uuid \<times> loan_status) handler" where
  "rejectLoan evId tenantId loanId actorUserId =
     bindM (loadLoan tenantId loanId) (\<lambda>l.
     bindM (failIfM (l_status l \<noteq> LO_PENDING) (BadRequest ''Loan is not pending'')) (\<lambda>_.
     bindM (ledgerRelease evId tenantId (l_receiptId l) actorUserId None (loanKey (l_id l) ''release'')) (\<lambda>_.
     bindM (updateLoan loanId (\<lambda>x. x\<lparr>l_status := LO_REJECTED\<rparr>)) (\<lambda>_.
     bindM (notifyUser tenantId N_LOAN_REJECTED ''loan'' loanId (l_clientId l)) (\<lambda>_.
       returnM (loanId, LO_REJECTED))))))"

definition repayLoan :: "time \<Rightarrow> uuid \<Rightarrow> uuid \<Rightarrow> uuid \<Rightarrow> uuid option \<Rightarrow> (uuid \<times> loan_status \<times> string) handler" where
  "repayLoan now evId tenantId loanId actorUserId =
     bindM (loadLoan tenantId loanId) (\<lambda>l.
     bindM (failIfM (l_status l \<noteq> LO_ACTIVE) (BadRequest ''Loan is not active'')) (\<lambda>_.
     bindM (ledgerRelease evId tenantId (l_receiptId l) actorUserId None (loanKey (l_id l) ''repay-release'')) (\<lambda>released.
     bindM (updateLoan loanId (\<lambda>x. x\<lparr>l_status := LO_REPAID, l_repaidAt := Some now\<rparr>)) (\<lambda>_.
     bindM (notifyUser tenantId N_LOAN_REPAID ''loan'' loanId (l_clientId l)) (\<lambda>_.
     bindM (notifyTenantAdmins tenantId N_LOAN_REPAID ''loan'' loanId) (\<lambda>_.
       returnM (loanId, LO_REPAID, r_receiptNumber released)))))))"

section \<open>Editing\<close>

record edit_loan_dto =
  el_amount :: "dec option"
  el_financierId :: "uuid option"
  el_notes :: "string option"

text \<open>The state of the row and of the caller decide, in this order.\<close>

definition editLoanError :: "uuid \<Rightarrow> loan \<Rightarrow> uuid \<Rightarrow> string list \<Rightarrow> edit_loan_dto \<Rightarrow> store \<Rightarrow> err option" where
  "editLoanError tenantId l actorUserId actorRoles dto s =
     (let isAdmin = isAdminRole actorRoles; isOwner = (l_clientId l = actorUserId);
          isWm = (\<not> isAdmin \<and> \<not> isOwner \<and> managesSiteOf tenantId actorUserId actorRoles (l_receiptId l) s)
      in if l_status l \<in> {LO_REPAID, LO_DEFAULTED, LO_REJECTED, LO_CANCELLED} then Some (Conflict ''terminal'')
         else if \<not> isAdmin \<and> \<not> isOwner \<and> \<not> isWm then Some (Forbidden ''edit'')
         else if \<not> isAdmin \<and> l_status l \<noteq> LO_PENDING then Some (Conflict ''admin only'')
         else if l_status l \<noteq> LO_PENDING \<and> (el_amount dto \<noteq> None \<or> el_financierId dto \<noteq> None)
         then Some (BadRequest ''Cannot edit'')
         else None)"

definition changedTo :: "'a option \<Rightarrow> 'a \<Rightarrow> bool" where
  "changedTo x current \<longleftrightarrow> (case x of None \<Rightarrow> False | Some y \<Rightarrow> y \<noteq> current)"

text \<open>
  The edited row, with the names of the changed columns in the order they are recorded;
  \<open>nextFin\<close> is the new financier, when it changes. A tenure of zero makes an infinite
  payment, which the update refuses.
\<close>

definition editedLoan :: "edit_loan_dto \<Rightarrow> financier option \<Rightarrow> loan \<Rightarrow> (loan \<times> string list) option" where
  "editedLoan dto nextFin l =
     (let amountChanged = changedTo (el_amount dto) (l_amount l);
          notesChanged = (case el_notes dto of None \<Rightarrow> False | Some n \<Rightarrow> l_notes l \<noteq> Some n);
          financierChanged = (nextFin \<noteq> None);
          rate = (case nextFin of None \<Rightarrow> l_interestRate l | Some f \<Rightarrow> fi_interestRate f);
          tenure = (case nextFin of None \<Rightarrow> l_tenureMonths l | Some f \<Rightarrow> fi_maxTenure f);
          capital = orElse (el_amount dto) (l_amount l);
          terms = termsOf capital rate tenure;
          l1 = l\<lparr>l_financierId := (case nextFin of None \<Rightarrow> l_financierId l | Some f \<Rightarrow> fi_id f),
                 l_amount := capital, l_notes := (case el_notes dto of None \<Rightarrow> l_notes l | Some n \<Rightarrow> Some n)\<rparr>;
          fields1 = (if financierChanged then [''financierId''] else []) @ (if amountChanged then [''amount''] else [])
            @ (if notesChanged then [''notes''] else [])
      in if \<not> amountChanged \<and> \<not> financierChanged then Some (l1, fields1)
         else case lt_monthlyPayment terms of
           None \<Rightarrow> None
         | Some monthly \<Rightarrow> Some
            (l1\<lparr>l_interestRate := rate, l_tenureMonths := tenure, l_totalInterest := lt_totalInterest terms,
                l_monthlyPayment := monthly\<rparr>,
             fields1 @ (if rate \<noteq> l_interestRate l then [''interestRate''] else [])
              @ (if tenure \<noteq> l_tenureMonths l then [''tenureMonths''] else [])
              @ (if lt_totalInterest terms \<noteq> l_totalInterest l then [''totalInterest''] else [])
              @ (if monthly \<noteq> l_monthlyPayment l then [''monthlyPayment''] else [])))"

record 'st edit_result =
  er_id :: uuid
  er_reference :: string
  er_status :: 'st
  er_changedFields :: "string list" \<comment> \<open>none when there was nothing to apply\<close>

definition editLoan ::
    "uuid \<Rightarrow> uuid \<Rightarrow> uuid \<Rightarrow> string list \<Rightarrow> edit_loan_dto \<Rightarrow> loan_status edit_result handler" where
  "editLoan tenantId loanId actorUserId actorRoles dto =
     bindM (loadLoan tenantId loanId) (\<lambda>l.
     bindM (getsM (editLoanError tenantId l actorUserId actorRoles dto)) (\<lambda>e.
     bindM (case e of None \<Rightarrow> returnM () | Some e \<Rightarrow> throwM e) (\<lambda>_.
     bindM (getsM (\<lambda>s. if changedTo (el_financierId dto) (l_financierId l)
       then Some (findFinancier tenantId (orElse (el_financierId dto) []) s) else None)) (\<lambda>found.
     bindM (failIfM (found = Some None) (BadRequest ''financierId is invalid for this tenant.'')) (\<lambda>_.
     let nextFin = orElse found None in
     bindM (requireM (TypeError ''Infinity'') (editedLoan dto nextFin l)) (\<lambda>(l', changed).
       if changed = []
       then returnM \<lparr>er_id = l_id l, er_reference = l_reference l, er_status = l_status l, er_changedFields = []\<rparr>
       else
         bindM (modifyM (\<lambda>s. appendActivity
           \<lparr>al_tenantId = Some tenantId, al_userId = Some actorUserId, al_action = ''LOAN_EDITED'', al_entityType = ''Loan'',
            al_entityId = l_id l, al_changes = changed\<rparr>
           (s\<lparr>loans := upd_row l_id (l_id l) (\<lambda>_. l') (loans s)\<rparr>))) (\<lambda>_.
         bindM (whenM (l_clientId l \<noteq> actorUserId)
           (notifyUser tenantId N_LOAN_REQUESTED ''loan'' (l_id l) (l_clientId l))) (\<lambda>_.
         bindM (whenM (\<not> isAdminRole actorRoles)
           (notifyTenantAdmins tenantId N_LOAN_REQUESTED ''loan'' (l_id l))) (\<lambda>_.
         bindM (getsM (\<lambda>s. find_row l_id (l_id l) (loans s))) (\<lambda>u.
         bindM (requireM (Db Row_Missing) u) (\<lambda>u.
           returnM \<lparr>er_id = l_id u, er_reference = l_reference u, er_status = l_status u,
             er_changedFields = changed\<rparr>)))))))))))"

section \<open>Detail\<close>

record loan_detail =
  ld_loan :: loan
  ld_financierName :: "string option"
  ld_receiptNumber :: "string option"
  ld_commodity :: "string option"
  ld_warehouse :: "string option"
  ld_client :: "user option"

definition getLoanDetail :: "uuid \<Rightarrow> uuid \<Rightarrow> uuid option \<Rightarrow> loan_detail handler" where
  "getLoanDetail tenantId i forClientId =
     bindM (getsM (\<lambda>s. find (\<lambda>l. l_id l = i \<and> l_tenantId l = tenantId \<and>
       (case truthy_opt forClientId of None \<Rightarrow> True | Some c \<Rightarrow> l_clientId l = c)) (loans s))) (\<lambda>l.
     bindM (requireM (NotFound ''Loan not found'') l) (\<lambda>l.
       getsM (\<lambda>s.
         let r = find_row r_id (l_receiptId l) (receipts s)
         in \<lparr>ld_loan = l, ld_financierName = map_option fi_name (find_row fi_id (l_financierId l) (financiers s)),
             ld_receiptNumber = map_option r_receiptNumber r,
             ld_commodity = map_option (commodityName s) r,
             ld_warehouse = (case r of None \<Rightarrow> None
               | Some x \<Rightarrow> map_option wh_name (find_row wh_id (r_warehouseId x) (warehouses s))),
             ld_client = findUser (l_clientId l) s\<rparr>)))"

end
