(* ===== verification/Trades.thy ===== *)
theory Trades
  imports Operations_Base
begin

text \<open>
  \<open>TradesService\<close>, \<open>src/trades/trades.service.ts\<close>: a listing holds a whole receipt;
  settling transfers it to the buyer and releases it, in one transaction with the trade's
  row; cancelling releases it to the seller.
\<close>

section \<open>Listings\<close>

record trade_line =
  tl_id :: uuid
  tl_reference :: string
  tl_receiptNumber :: "string option"
  tl_commodityName :: "string option"
  tl_quantity :: dec
  tl_pricePerUnit :: dec
  tl_totalPrice :: dec
  tl_seller :: "string option"
  tl_status :: trade_status

record trade_filters =
  tf_status :: "trade_status option"
  tf_page :: "string option"
  tf_limit :: "string option"
  tf_search :: "string option"

definition matches_search :: "string \<Rightarrow> string option \<Rightarrow> bool" where
  "matches_search needle hay \<longleftrightarrow> (case hay of None \<Rightarrow> False | Some h \<Rightarrow> contains_insensitive needle h)"

definition tradeReceipt :: "trade \<Rightarrow> store \<Rightarrow> receipt option" where
  "tradeReceipt t s = find_row r_id (t_receiptId t) (receipts s)"

definition matches_trade :: "uuid \<Rightarrow> trade_filters \<Rightarrow> uuid option \<Rightarrow> store \<Rightarrow> trade \<Rightarrow> bool" where
  "matches_trade tenantId f forClientId s t \<longleftrightarrow>
     t_tenantId t = tenantId \<and>
     (case tf_status f of None \<Rightarrow> True | Some st \<Rightarrow> t_status t = st) \<and>
     (case truthy_opt forClientId of None \<Rightarrow> True | Some c \<Rightarrow> t_sellerId t = c \<or> t_buyerId t = Some c) \<and>
     (case truthy_opt (tf_search f) of None \<Rightarrow> True
      | Some n \<Rightarrow> contains_insensitive n (t_reference t) \<or>
          matches_search n (map_option r_receiptNumber (tradeReceipt t s)) \<or>
          matches_search n (map_option (commodityName s) (tradeReceipt t s)) \<or>
          matches_search n (map_option u_firstName (findUser (t_sellerId t) s)) \<or>
          matches_search n (map_option u_lastName (findUser (t_sellerId t) s)))"

definition personName :: "user \<Rightarrow> string" where
  "personName u = u_firstName u @ '' '' @ u_lastName u"

definition tradeLine :: "store \<Rightarrow> trade \<Rightarrow> trade_line" where
  "tradeLine s t =
     \<lparr>tl_id = t_id t, tl_reference = t_reference t,
      tl_receiptNumber = map_option r_receiptNumber (tradeReceipt t s),
      tl_commodityName = map_option (commodityName s) (tradeReceipt t s), tl_quantity = t_quantity t,
      tl_pricePerUnit = t_pricePerUnit t, tl_totalPrice = t_totalPrice t,
      tl_seller = map_option personName (findUser (t_sellerId t) s), tl_status = t_status t\<rparr>"

definition getTrades :: "uuid \<Rightarrow> trade_filters \<Rightarrow> uuid option \<Rightarrow> trade_line raw_page handler" where
  "getTrades tenantId f forClientId =
     rawPaginate (tf_page f) (tf_limit f) (\<lambda>s. map (tradeLine s)
       (rev (filter (matches_trade tenantId f forClientId s) (trades s))))"

section \<open>Life of a trade\<close>

definition upsertTrade :: "trade \<Rightarrow> store \<Rightarrow> err + trade \<times> store" where
  "upsertTrade t s =
     (case find_row t_id (t_id t) (trades s) of
        Some x \<Rightarrow> Inr (x, s)
      | None \<Rightarrow> if t_reference t \<in> t_reference ` set (trades s) then Inl (Db (P2002 ''reference''))
                else Inr (t, s\<lparr>trades := trades s @ [t]\<rparr>))"

definition tradeKey :: "uuid \<Rightarrow> string \<Rightarrow> string" where
  "tradeKey tradeId what = ''TRADE:'' @ tradeId @ '':'' @ what"

record create_trade_dto =
  ct_receiptId :: uuid
  ct_pin :: "string option"
  ct_otp :: "string option"

definition createTrade ::
    "crypto \<Rightarrow> time \<Rightarrow> (nat \<Rightarrow> uuid) \<Rightarrow> string \<Rightarrow> uuid \<Rightarrow> create_trade_dto \<Rightarrow> uuid \<Rightarrow> uuid option \<Rightarrow> bool
     \<Rightarrow> (trade \<times> string) handler" where
  "createTrade c now ids reference tenantId dto sellerId actorUserId isOnBehalf =
     bindM (assertTransactionAuth c now sellerId OTP_TRADE (ct_pin dto) (ct_otp dto) isOnBehalf) (\<lambda>_.
     bindM (getsM (\<lambda>s. find (\<lambda>r. r_id r = ct_receiptId dto \<and> r_tenantId r = tenantId) (receipts s))) (\<lambda>r.
     bindM (requireM (NotFound ''Receipt not found'') r) (\<lambda>r.
     let tradeId = ids 0 in
     bindM (ledgerHold (ids 1) (ids 2) (ids 3) now
       \<lparr>h_tenantId = tenantId, h_sourceReceiptId = r_id r, h_quantity = r_quantity r,
        h_heldStatus = Held_Trade, h_txnType = T_TRADE, h_txnId = tradeId,
        h_actorUserId = Some (orElse actorUserId sellerId), h_idempotencyKey = tradeKey tradeId ''hold'',
        h_metadata = None\<rparr>) (\<lambda>res.
     bindM (requireM (TypeError ''quantity'') (hr_held res)) (\<lambda>held.
     bindM (transactM (upsertTrade
       \<lparr>t_id = tradeId, t_reference = reference, t_tenantId = tenantId, t_receiptId = r_id held,
        t_sellerId = sellerId, t_buyerId = None, t_quantity = r_quantity held, t_pricePerUnit = 0,
        t_totalPrice = 0, t_status = TR_LISTED, t_settledAt = None\<rparr>)) (\<lambda>t.
     bindM (notifyUser tenantId N_TRADE_LISTED ''trade'' (t_id t) sellerId) (\<lambda>_.
     bindM (notifyTenantAdmins tenantId N_TRADE_LISTED ''trade'' (t_id t)) (\<lambda>_.
       returnM (t, r_receiptNumber held)))))))))"

definition loadTrade :: "uuid \<Rightarrow> uuid \<Rightarrow> trade handler" where
  "loadTrade tenantId i =
     bindM (getsM (\<lambda>s. find (\<lambda>t. t_id t = i \<and> t_tenantId t = tenantId) (trades s))) (\<lambda>t.
       requireM (NotFound ''Trade not found'') t)"

definition userOfTenant :: "uuid \<Rightarrow> uuid \<Rightarrow> store \<Rightarrow> user option" where
  "userOfTenant tenantId i s = find (\<lambda>u. u_id u = i \<and> u_tenantId u = tenantId) (users s)"

text \<open>
  Inside the ledger's transaction the trade's row is taken only if it is still LISTED, which
  makes the second of two buyers fail as a whole.
\<close>

definition takeListing :: "time \<Rightarrow> uuid \<Rightarrow> uuid \<Rightarrow> receipt \<Rightarrow> store \<Rightarrow> err + unit \<times> store" where
  "takeListing now tradeId buyerId _ s =
     (if \<not> list_ex (\<lambda>t. t_id t = tradeId \<and> t_status t = TR_LISTED) (trades s)
      then Inl (Conflict ''Trade was settled by another buyer while this request was in flight'')
      else Inr ((), s\<lparr>trades := map (\<lambda>t. if t_id t = tradeId \<and> t_status t = TR_LISTED
             then t\<lparr>t_status := TR_SETTLED, t_buyerId := Some buyerId, t_settledAt := Some now\<rparr> else t) (trades s)\<rparr>))"

record settle_result =
  st_id :: uuid
  st_reference :: string
  st_status :: trade_status
  st_newOwner :: string

text \<open>What settling reads: the trade and the buyer, or the answer to a repeated call.\<close>

definition settleTrade_check :: "uuid \<Rightarrow> uuid \<Rightarrow> uuid \<Rightarrow> (trade \<times> user + settle_result) handler" where
  "settleTrade_check tenantId tradeId buyerId =
     bindM (loadTrade tenantId tradeId) (\<lambda>t.
     bindM (failIfM (t_sellerId t = buyerId) (BadRequest ''Buyer and seller cannot be the same'')) (\<lambda>_.
       if t_status t = TR_SETTLED \<and> t_buyerId t = Some buyerId
       then bindM (getsM (userOfTenant tenantId buyerId)) (\<lambda>u.
         returnM (Inr \<lparr>st_id = t_id t, st_reference = t_reference t, st_status = t_status t,
           st_newOwner = (case u of None \<Rightarrow> [] | Some u \<Rightarrow> personName u)\<rparr>))
       else bindM (failIfM (t_status t \<noteq> TR_LISTED) (BadRequest ''Trade is not available for settlement'')) (\<lambda>_.
         bindM (getsM (userOfTenant tenantId buyerId)) (\<lambda>u.
         bindM (requireM (NotFound ''Buyer not found'') u) (\<lambda>u.
           returnM (Inl (t, u)))))))"

definition settleTrade_commit ::
    "time \<Rightarrow> (nat \<Rightarrow> uuid) \<Rightarrow> uuid \<Rightarrow> uuid \<Rightarrow> uuid \<Rightarrow> trade \<times> user \<Rightarrow> settle_result handler" where
  "settleTrade_commit now ids tenantId tradeId buyerId = (\<lambda>(t, buyer).
     bindM (atOnce (transferAndRelease (ids 0) (ids 1) (actor tenantId (t_receiptId t) None (tradeKey (t_id t) ''transfer''))
       buyerId T_TRADE (t_id t) (Some (takeListing now tradeId buyerId)))) (\<lambda>_.
     bindM (notifyUser tenantId N_TRADE_SOLD ''trade'' (t_id t) (t_sellerId t)) (\<lambda>_.
     bindM (notifyUser tenantId N_TRADE_SOLD ''trade'' (t_id t) buyerId) (\<lambda>_.
     bindM (notifyTenantAdmins tenantId N_TRADE_SOLD ''trade'' (t_id t)) (\<lambda>_.
       returnM \<lparr>st_id = t_id t, st_reference = t_reference t, st_status = TR_SETTLED,
         st_newOwner = personName buyer\<rparr>)))))"

definition settleTrade :: "time \<Rightarrow> (nat \<Rightarrow> uuid) \<Rightarrow> uuid \<Rightarrow> uuid \<Rightarrow> uuid \<Rightarrow> settle_result handler" where
  "settleTrade now ids tenantId tradeId buyerId =
     bindM (settleTrade_check tenantId tradeId buyerId) (\<lambda>x. case x of
       Inl tu \<Rightarrow> settleTrade_commit now ids tenantId tradeId buyerId tu
     | Inr res \<Rightarrow> returnM res)"

definition updateTrade :: "uuid \<Rightarrow> (trade \<Rightarrow> trade) \<Rightarrow> unit handler" where
  "updateTrade i f = modifyM (\<lambda>s. s\<lparr>trades := upd_row t_id i f (trades s)\<rparr>)"

definition cancelTrade :: "uuid \<Rightarrow> uuid \<Rightarrow> uuid \<Rightarrow> (uuid \<times> trade_status) handler" where
  "cancelTrade evId tenantId tradeId =
     bindM (loadTrade tenantId tradeId) (\<lambda>t.
     bindM (failIfM (t_status t \<noteq> TR_LISTED) (BadRequest ''Trade cannot be cancelled'')) (\<lambda>_.
     bindM (ledgerRelease evId tenantId (t_receiptId t) None None (tradeKey (t_id t) ''cancel-release'')) (\<lambda>_.
     bindM (updateTrade tradeId (\<lambda>x. x\<lparr>t_status := TR_CANCELLED\<rparr>)) (\<lambda>_.
     bindM (notifyUser tenantId N_TRADE_CANCELLED ''trade'' tradeId (t_sellerId t)) (\<lambda>_.
       returnM (tradeId, TR_CANCELLED))))))"

section \<open>Detail\<close>

record trade_detail =
  te_trade :: trade
  te_receiptNumber :: "string option"
  te_commodity :: "string option"
  te_warehouse :: "string option"
  te_seller :: "user option"
  te_buyer :: "user option"

definition getTradeDetail :: "uuid \<Rightarrow> uuid \<Rightarrow> uuid option \<Rightarrow> trade_detail handler" where
  "getTradeDetail tenantId i forClientId =
     bindM (getsM (\<lambda>s. find (\<lambda>t. t_id t = i \<and> t_tenantId t = tenantId \<and>
       (case truthy_opt forClientId of None \<Rightarrow> True | Some c \<Rightarrow> t_sellerId t = c \<or> t_buyerId t = Some c)) (trades s))) (\<lambda>t.
     bindM (requireM (NotFound ''Trade not found'') t) (\<lambda>t.
       getsM (\<lambda>s.
         let r = tradeReceipt t s
         in \<lparr>te_trade = t, te_receiptNumber = map_option r_receiptNumber r,
             te_commodity = map_option (commodityName s) r,
             te_warehouse = (case r of None \<Rightarrow> None
               | Some x \<Rightarrow> map_option wh_name (find_row wh_id (r_warehouseId x) (warehouses s))),
             te_seller = findUser (t_sellerId t) s,
             te_buyer = (case t_buyerId t of None \<Rightarrow> None | Some b \<Rightarrow> findUser b s)\<rparr>)))"

end
