(* ===== verification/Withdrawals.thy ===== *)
theory Withdrawals
  imports Loans Trades
begin

text \<open>
  \<open>WithdrawalsService\<close>, \<open>src/withdrawals/withdrawals.service.ts\<close>, and its cron job
  \<open>src/withdrawals/withdrawals.cleanup.service.ts\<close>. A request reserves quantity softly; the
  confirmed payment holds it, the approval confirms the hold, dispatch consumes it and bills
  the storage that has accrued.
\<close>

definition HANDLING_FEE :: dec where "HANDLING_FEE = 10000"

definition PENDING_PAYMENT_TTL_MINUTES :: int where "PENDING_PAYMENT_TTL_MINUTES = 30"

section \<open>Listings and prefill\<close>

record withdrawal_line =
  wv_id :: uuid
  wv_reference :: string
  wv_receiptNumber :: "string option"
  wv_commodity :: "string option"
  wv_quantity :: dec
  wv_status :: withdrawal_status
  wv_createdAt :: time

record withdrawal_filters =
  wf_status :: "withdrawal_status option"
  wf_page :: "string option"
  wf_limit :: "string option"
  wf_search :: "string option"

definition withdrawalReceipt :: "withdrawal \<Rightarrow> store \<Rightarrow> receipt option" where
  "withdrawalReceipt w s = find_row r_id (w_receiptId w) (receipts s)"

definition matches_withdrawal :: "uuid \<Rightarrow> withdrawal_filters \<Rightarrow> uuid option \<Rightarrow> store \<Rightarrow> withdrawal \<Rightarrow> bool" where
  "matches_withdrawal tenantId f forClientId s w \<longleftrightarrow>
     w_tenantId w = tenantId \<and>
     (case truthy_opt forClientId of None \<Rightarrow> True | Some c \<Rightarrow> w_clientId w = c) \<and>
     (case wf_status f of None \<Rightarrow> True | Some st \<Rightarrow> w_status w = st) \<and>
     (case truthy_opt (wf_search f) of None \<Rightarrow> True
      | Some n \<Rightarrow> contains_insensitive n (w_reference w) \<or>
          matches_search n (map_option r_receiptNumber (withdrawalReceipt w s)) \<or>
          matches_search n (map_option (commodityName s) (withdrawalReceipt w s)))"

definition getWithdrawals ::
    "uuid \<Rightarrow> withdrawal_filters \<Rightarrow> uuid option \<Rightarrow> withdrawal_line raw_page handler" where
  "getWithdrawals tenantId f forClientId =
     rawPaginate (wf_page f) (wf_limit f) (\<lambda>s. map (\<lambda>w.
         \<lparr>wv_id = w_id w, wv_reference = w_reference w,
          wv_receiptNumber = map_option r_receiptNumber (withdrawalReceipt w s),
          wv_commodity = map_option (commodityName s) (withdrawalReceipt w s), wv_quantity = w_quantity w,
          wv_status = w_status w, wv_createdAt = w_createdAt w\<rparr>)
       (rev (filter (matches_withdrawal tenantId f forClientId s) (withdrawals s))))"

record eligible_view =
  ev_id :: uuid
  ev_receiptNumber :: string
  ev_commodity :: string
  ev_availableQuantity :: dec
  ev_warehouse :: "string option"
  ev_unit :: "string option"

definition unitOf :: "store \<Rightarrow> receipt \<Rightarrow> string option" where
  "unitOf s r = map_option co_unitOfMeasure (find_row co_id (r_commodityId r) (commodities s))"

definition warehouseOf :: "store \<Rightarrow> receipt \<Rightarrow> warehouse option" where
  "warehouseOf s r = find_row wh_id (r_warehouseId r) (warehouses s)"

definition getEligibleReceipts ::
    "uuid \<Rightarrow> uuid \<Rightarrow> uuid list option \<Rightarrow> uuid option \<Rightarrow> store \<Rightarrow> eligible_view list" where
  "getEligibleReceipts tenantId clientId warehouseIds commodityId s =
     map (\<lambda>r. \<lparr>ev_id = r_id r, ev_receiptNumber = r_receiptNumber r, ev_commodity = commodityName s r,
         ev_availableQuantity = r_quantity r, ev_warehouse = map_option wh_name (warehouseOf s r),
         ev_unit = unitOf s r\<rparr>)
       (filter (\<lambda>r. selectable tenantId clientId warehouseIds r \<and>
          (case truthy_opt commodityId of None \<Rightarrow> True | Some c \<Rightarrow> r_commodityId r = c)) (receipts s))"

record prefill =
  pf_maxQuantity :: dec
  pf_storageFeePerUnit :: dec
  pf_receipt :: receipt
  pf_grade :: string
  pf_location :: "string option"
  pf_policy :: "(fee_policy \<times> string) option"

definition getReceiptPrefill :: "uuid \<Rightarrow> uuid \<Rightarrow> uuid option \<Rightarrow> prefill handler" where
  "getReceiptPrefill tenantId receiptId forClientId =
     bindM (getsM (\<lambda>s. find (\<lambda>r. r_id r = receiptId \<and> r_tenantId r = tenantId \<and>
       (case truthy_opt forClientId of None \<Rightarrow> True | Some c \<Rightarrow> r_clientId r = c)) (receipts s))) (\<lambda>r.
     bindM (requireM (NotFound ''Receipt not found'') r) (\<lambda>r.
       getsM (\<lambda>s.
         let policy = (case resolvePolicy tenantId (r_warehouseId r) (r_commodityId r) s of
                         Inl _ \<Rightarrow> None | Inr p \<Rightarrow> Some p)
         in \<lparr>pf_maxQuantity = r_quantity r,
             pf_storageFeePerUnit = (case policy of None \<Rightarrow> 0 | Some p \<Rightarrow> fp_rate p),
             pf_receipt = r, pf_grade = orElse (truthy_opt (r_grade r)) ''Standard'',
             pf_location = map_option wh_location (warehouseOf s r),
             pf_policy = map_option (\<lambda>p. (p, policyScope p)) policy\<rparr>)))"

section \<open>Fees\<close>

text \<open>The storage fee of a quantity of a receipt at an instant, under the policy in force.\<close>

definition storageFeeOf :: "uuid \<Rightarrow> receipt \<Rightarrow> dec \<Rightarrow> time \<Rightarrow> store \<Rightarrow> err + fee_policy \<times> dec" where
  "storageFeeOf tenantId r quantity now s =
     andThen (resolvePolicy tenantId (r_warehouseId r) (r_commodityId r) s) (\<lambda>policy.
     andThen (case find_row co_id (r_commodityId r) (commodities s) of
         None \<Rightarrow> Inl (TypeError ''commodity'')
       | Some c \<Rightarrow> calculateFee policy quantity (co_unitOfMeasure c) (r_dateOfDeposit r) now (co_standardBagWeightKg c))
       (\<lambda>fee. Inr (policy, fee)))"

record fee_breakdown =
  fb_totalFee :: dec
  fb_quantity :: dec
  fb_unit :: "string option"
  fb_storageFee :: dec
  fb_handlingFee :: dec
  fb_policy :: fee_policy
  fb_scope :: string
  fb_depositDate :: time
  fb_throughDate :: time

definition calculateWithdrawal :: "time \<Rightarrow> uuid \<Rightarrow> uuid \<Rightarrow> dec \<Rightarrow> fee_breakdown handler" where
  "calculateWithdrawal now tenantId receiptId quantity =
     bindM (failIfM (quantity \<le> 0) (BadRequest ''Quantity must be greater than zero'')) (\<lambda>_.
     bindM (getsM (\<lambda>s. find (\<lambda>r. r_id r = receiptId \<and> r_tenantId r = tenantId) (receipts s))) (\<lambda>r.
     bindM (requireM (NotFound ''Receipt not found'') r) (\<lambda>r.
     bindM (failIfM (r_quantity r < quantity) (BadRequest ''Requested quantity exceeds available quantity'')) (\<lambda>_.
     bindM (liftM (storageFeeOf tenantId r quantity now)) (\<lambda>(policy, fee).
       getsM (\<lambda>s. \<lparr>fb_totalFee = fee + HANDLING_FEE, fb_quantity = quantity, fb_unit = unitOf s r,
         fb_storageFee = fee, fb_handlingFee = HANDLING_FEE, fb_policy = policy, fb_scope = policyScope policy,
         fb_depositDate = r_dateOfDeposit r, fb_throughDate = now\<rparr>))))))"

section \<open>Request\<close>

record create_withdrawal_dto =
  cw_receiptId :: uuid
  cw_quantity :: dec
  cw_reason :: "string option"
  cw_plannedDate :: time
  cw_pin :: "string option"
  cw_otp :: "string option"

text \<open>A PENDING_PAYMENT row younger than half an hour reserves its quantity.\<close>

definition livePending :: "time \<Rightarrow> uuid \<Rightarrow> uuid \<Rightarrow> withdrawal \<Rightarrow> bool" where
  "livePending now tenantId receiptId w \<longleftrightarrow>
     w_tenantId w = tenantId \<and> w_receiptId w = receiptId \<and> w_status w = WD_PENDING_PAYMENT \<and>
     now - PENDING_PAYMENT_TTL_MINUTES * 60 * 1000 < w_createdAt w"

definition availableForWithdrawal :: "time \<Rightarrow> uuid \<Rightarrow> uuid \<Rightarrow> dec \<Rightarrow> store \<Rightarrow> dec" where
  "availableForWithdrawal now tenantId receiptId receiptQuantity s =
     receiptQuantity - sum_list (map w_quantity (filter (livePending now tenantId receiptId) (withdrawals s)))"

definition notifyLienHoldersOfBlockedWithdrawal :: "uuid \<Rightarrow> uuid \<Rightarrow> unit handler" where
  "notifyLienHoldersOfBlockedWithdrawal tenantId receiptId =
     bindM (getsM (\<lambda>s. find (\<lambda>l. ln_receiptId l = receiptId \<and>
       (ln_status l = LN_ACTIVE \<or> ln_status l = LN_PARTIALLY_RELEASED)) (liens s))) (\<lambda>l.
       case l of
         None \<Rightarrow> returnM ()
       | Some l \<Rightarrow> notifyFinancierUsers (ln_financierOrgId l) tenantId N_WITHDRAWAL_BLOCKED_BY_LIEN ''lien'' (ln_id l))"

definition upsertWithdrawal :: "withdrawal \<Rightarrow> store \<Rightarrow> err + withdrawal \<times> store" where
  "upsertWithdrawal w s =
     (case find_row w_id (w_id w) (withdrawals s) of
        Some x \<Rightarrow> Inr (x, s)
      | None \<Rightarrow> if w_reference w \<in> w_reference ` set (withdrawals s) then Inl (Db (P2002 ''reference''))
                else Inr (w, s\<lparr>withdrawals := withdrawals s @ [w]\<rparr>))"

definition createWithdrawalRequest ::
    "crypto \<Rightarrow> time \<Rightarrow> uuid \<Rightarrow> string \<Rightarrow> uuid \<Rightarrow> create_withdrawal_dto \<Rightarrow> uuid \<Rightarrow> bool \<Rightarrow> withdrawal handler" where
  "createWithdrawalRequest c now withdrawalId reference tenantId dto clientId isOnBehalf =
     bindM (failIfM (cw_quantity dto \<le> 0) (BadRequest ''Quantity must be greater than zero'')) (\<lambda>_.
     bindM (assertTransactionAuth c now clientId OTP_WITHDRAWAL (cw_pin dto) (cw_otp dto) isOnBehalf) (\<lambda>_.
     bindM (getsM (\<lambda>s. find (\<lambda>r. r_id r = cw_receiptId dto \<and> r_tenantId r = tenantId) (receipts s))) (\<lambda>r.
     bindM (requireM (NotFound ''Receipt not found'') r) (\<lambda>r.
     bindM (if r_status r = ACTIVE then returnM ()
       else bindM (whenM (r_status r = HELD_LIEN) (notifyLienHoldersOfBlockedWithdrawal tenantId (r_id r))) (\<lambda>_.
         throwM (Conflict ''Receipt is not in an active state''))) (\<lambda>_.
     bindM (failIfM (r_approvalStatus r \<noteq> APPROVED) (Conflict ''Receipt has not been approved by an admin'')) (\<lambda>_.
     bindM (failIfM (r_isParent r) (Conflict ''superseded'')) (\<lambda>_.
     bindM (getsM (\<lambda>s. find (\<lambda>w. livePending now tenantId (r_id r) w \<and> w_clientId w = clientId)
       (rev (withdrawals s)))) (\<lambda>existing.
     bindM (failIfM (existing \<noteq> None) (Conflict ''PENDING_WITHDRAWAL_EXISTS'')) (\<lambda>_.
     bindM (getsM (availableForWithdrawal now tenantId (r_id r) (r_quantity r))) (\<lambda>available.
     bindM (failIfM (available < cw_quantity dto) (Conflict ''INSUFFICIENT_AVAILABLE_QUANTITY'')) (\<lambda>_.
     bindM (liftM (storageFeeOf tenantId r (cw_quantity dto) now)) (\<lambda>(policy, fee).
     bindM (transactM (upsertWithdrawal
       \<lparr>w_id = withdrawalId, w_reference = reference, w_tenantId = tenantId, w_receiptId = r_id r,
        w_clientId = clientId, w_quantity = cw_quantity dto, w_reason = cw_reason dto,
        w_plannedDate = cw_plannedDate dto, w_status = WD_PENDING_PAYMENT, w_storageFee = fee,
        w_handlingFee = HANDLING_FEE, w_totalFee = fee + HANDLING_FEE, w_approvedById = None,
        w_approvedAt = None, w_rejectionReason = None, w_feesBilledAt = None, w_createdAt = now\<rparr>)) (\<lambda>w.
     bindM (notifyTenantAdmins tenantId N_WITHDRAWAL_REQUESTED ''withdrawal'' (w_id w)) (\<lambda>_.
     bindM (notifyUser tenantId N_WITHDRAWAL_REQUESTED ''withdrawal'' (w_id w) clientId) (\<lambda>_.
       returnM w)))))))))))))))"

section \<open>Payment, approval, rejection, dispatch\<close>

definition loadWithdrawal :: "uuid \<Rightarrow> uuid \<Rightarrow> withdrawal handler" where
  "loadWithdrawal tenantId i =
     bindM (getsM (\<lambda>s. find (\<lambda>w. w_id w = i \<and> w_tenantId w = tenantId) (withdrawals s))) (\<lambda>w.
       requireM (NotFound ''Withdrawal not found'') w)"

definition updateWithdrawal :: "uuid \<Rightarrow> (withdrawal \<Rightarrow> withdrawal) \<Rightarrow> unit handler" where
  "updateWithdrawal i f = modifyM (\<lambda>s. s\<lparr>withdrawals := upd_row w_id i f (withdrawals s)\<rparr>)"

definition withdrawalKey :: "uuid \<Rightarrow> string \<Rightarrow> string" where
  "withdrawalKey i what = ''WITHDRAWAL:'' @ i @ '':'' @ what"

text \<open>Who may confirm: the owner, an administrator, a manager of the receipt's site.\<close>

definition mayConfirm :: "uuid \<Rightarrow> withdrawal \<Rightarrow> uuid \<Rightarrow> string list \<Rightarrow> store \<Rightarrow> bool" where
  "mayConfirm tenantId w actorUserId actorRoles s \<longleftrightarrow>
     isAdminRole actorRoles \<or> w_clientId w = actorUserId \<or>
     managesSiteOf tenantId actorUserId actorRoles (w_receiptId w) s"

definition confirmPayment ::
    "time \<Rightarrow> (nat \<Rightarrow> uuid) \<Rightarrow> uuid \<Rightarrow> uuid \<Rightarrow> uuid \<Rightarrow> string list \<Rightarrow> (uuid \<times> withdrawal_status) handler" where
  "confirmPayment now ids tenantId withdrawalId actorUserId actorRoles =
     bindM (loadWithdrawal tenantId withdrawalId) (\<lambda>w.
     bindM (getsM (mayConfirm tenantId w actorUserId actorRoles)) (\<lambda>ok.
     bindM (failIfM (\<not> ok) (Forbidden ''confirm payment'')) (\<lambda>_.
     bindM (failIfM (w_status w \<noteq> WD_PENDING_PAYMENT) (BadRequest ''Withdrawal is not awaiting payment'')) (\<lambda>_.
     bindM (ledgerHold (ids 0) (ids 1) (ids 2) now
       \<lparr>h_tenantId = tenantId, h_sourceReceiptId = w_receiptId w, h_quantity = w_quantity w,
        h_heldStatus = Held_Withdrawal, h_txnType = T_WITHDRAWAL, h_txnId = w_id w,
        h_actorUserId = Some actorUserId, h_idempotencyKey = withdrawalKey (w_id w) ''hold'',
        h_metadata = None\<rparr>) (\<lambda>res.
     bindM (requireM (TypeError ''id'') (hr_held res)) (\<lambda>held.
     bindM (updateWithdrawal withdrawalId (\<lambda>x. x\<lparr>w_status := WD_PAID_PENDING_APPROVAL,
       w_receiptId := r_id held\<rparr>)) (\<lambda>_.
     bindM (notifyTenantAdmins tenantId N_WITHDRAWAL_PAYMENT_CONFIRMED ''withdrawal'' withdrawalId) (\<lambda>_.
     bindM (notifyUser tenantId N_WITHDRAWAL_PAYMENT_CONFIRMED ''withdrawal'' withdrawalId (w_clientId w)) (\<lambda>_.
       returnM (withdrawalId, WD_PAID_PENDING_APPROVAL))))))))))"

definition approveWithdrawal ::
    "time \<Rightarrow> uuid \<Rightarrow> uuid \<Rightarrow> uuid \<Rightarrow> uuid option \<Rightarrow> (uuid \<times> withdrawal_status) handler" where
  "approveWithdrawal now evId tenantId withdrawalId actorUserId =
     bindM (loadWithdrawal tenantId withdrawalId) (\<lambda>w.
     bindM (failIfM (w_status w \<noteq> WD_PAID_PENDING_APPROVAL) (BadRequest ''Withdrawal is not awaiting approval'')) (\<lambda>_.
     bindM (ledgerApproveHold evId now tenantId (w_receiptId w) actorUserId (withdrawalKey (w_id w) ''approveHold'')) (\<lambda>_.
     bindM (updateWithdrawal withdrawalId (\<lambda>x. x\<lparr>w_status := WD_APPROVED, w_approvedById := actorUserId,
       w_approvedAt := Some now\<rparr>)) (\<lambda>_.
     bindM (getsM (\<lambda>s. find_row r_id (w_receiptId w) (receipts s))) (\<lambda>held.
     bindM (notifyUser tenantId N_WITHDRAWAL_APPROVED ''withdrawal'' withdrawalId (w_clientId w)) (\<lambda>_.
     bindM (case held of
         None \<Rightarrow> returnM ()
       | Some r \<Rightarrow> whenM (r_warehouseId r \<noteq> [])
           (notifyWarehouseManagersOf tenantId (r_warehouseId r) N_WITHDRAWAL_APPROVED ''withdrawal'' withdrawalId)) (\<lambda>_.
       returnM (withdrawalId, WD_APPROVED))))))))"

definition rejectWithdrawal ::
    "uuid \<Rightarrow> uuid \<Rightarrow> uuid \<Rightarrow> uuid option \<Rightarrow> string option \<Rightarrow> (uuid \<times> withdrawal_status \<times> bool) handler" where
  "rejectWithdrawal evId tenantId withdrawalId actorUserId reason =
     bindM (loadWithdrawal tenantId withdrawalId) (\<lambda>w.
     bindM (failIfM (w_status w = WD_COMPLETED) (BadRequest ''Withdrawal is already completed'')) (\<lambda>_.
     bindM (getsM (\<lambda>s. case find_row r_id (w_receiptId w) (receipts s) of
         None \<Rightarrow> False | Some r \<Rightarrow> r_status r \<in> set HELD)) (\<lambda>needsRelease.
     bindM (if needsRelease
       then bindM (ledgerRelease evId tenantId (w_receiptId w) actorUserId reason (withdrawalKey (w_id w) ''release''))
         (\<lambda>_. returnM ())
       else returnM ()) (\<lambda>_.
     bindM (if w_status w = WD_REJECTED then returnM ()
       else bindM (updateWithdrawal withdrawalId (\<lambda>x. x\<lparr>w_status := WD_REJECTED, w_rejectionReason :=
              (case reason of None \<Rightarrow> w_rejectionReason x | Some t \<Rightarrow> Some t)\<rparr>)) (\<lambda>_.
            notifyUser tenantId N_WITHDRAWAL_REJECTED ''withdrawal'' withdrawalId (w_clientId w))) (\<lambda>_.
       returnM (withdrawalId, WD_REJECTED, needsRelease))))))"

record completion =
  cm_id :: uuid
  cm_status :: withdrawal_status
  cm_storageFee :: dec
  cm_handlingFee :: dec
  cm_totalFee :: dec
  cm_policy :: fee_policy
  cm_consumedReceipt :: string

definition completeWithdrawal :: "time \<Rightarrow> uuid \<Rightarrow> uuid \<Rightarrow> uuid \<Rightarrow> uuid option \<Rightarrow> completion handler" where
  "completeWithdrawal now evId tenantId withdrawalId actorUserId =
     bindM (loadWithdrawal tenantId withdrawalId) (\<lambda>w.
     bindM (failIfM (w_status w \<noteq> WD_APPROVED) (BadRequest ''Withdrawal must be APPROVED before completion'')) (\<lambda>_.
     bindM (ledgerConsume evId tenantId (w_receiptId w) actorUserId (withdrawalKey (w_id w) ''consume'')) (\<lambda>consumed.
     bindM (getsM (\<lambda>s. find_row r_id (w_receiptId w) (receipts s))) (\<lambda>held.
     bindM (requireM (Db Row_Missing) held) (\<lambda>held.
     bindM (liftM (storageFeeOf tenantId held (w_quantity w) now)) (\<lambda>(policy, fee).
     bindM (updateWithdrawal withdrawalId (\<lambda>x. x\<lparr>w_status := WD_COMPLETED, w_storageFee := fee,
       w_totalFee := fee + w_handlingFee w, w_feesBilledAt := Some now\<rparr>)) (\<lambda>_.
     bindM (notifyUser tenantId N_WITHDRAWAL_DISPATCHED ''withdrawal'' withdrawalId (w_clientId w)) (\<lambda>_.
     bindM (notifyTenantAdmins tenantId N_WITHDRAWAL_DISPATCHED ''withdrawal'' withdrawalId) (\<lambda>_.
       returnM \<lparr>cm_id = withdrawalId, cm_status = WD_COMPLETED, cm_storageFee = fee,
         cm_handlingFee = w_handlingFee w, cm_totalFee = fee + w_handlingFee w, cm_policy = policy,
         cm_consumedReceipt = r_receiptNumber consumed\<rparr>)))))))))"

record fee_quote =
  fq_storageFee :: dec
  fq_handlingFee :: dec
  fq_totalFee :: dec
  fq_billedAt :: "time option"
  fq_projectedStorageFee :: dec
  fq_projectedTotalFee :: dec
  fq_delta :: dec
  fq_policy :: fee_policy

definition getFeeQuote :: "time \<Rightarrow> uuid \<Rightarrow> uuid \<Rightarrow> uuid option \<Rightarrow> fee_quote handler" where
  "getFeeQuote now tenantId withdrawalId forClientId =
     bindM (getsM (\<lambda>s. find (\<lambda>w. w_id w = withdrawalId \<and> w_tenantId w = tenantId \<and>
       (case truthy_opt forClientId of None \<Rightarrow> True | Some c \<Rightarrow> w_clientId w = c)) (withdrawals s))) (\<lambda>w.
     bindM (requireM (NotFound ''Withdrawal not found'') w) (\<lambda>w.
     bindM (getsM (withdrawalReceipt w)) (\<lambda>r.
     bindM (requireM (TypeError ''receipt'') r) (\<lambda>r.
     bindM (liftM (storageFeeOf tenantId r (w_quantity w) now)) (\<lambda>(policy, fee).
       returnM \<lparr>fq_storageFee = w_storageFee w, fq_handlingFee = w_handlingFee w, fq_totalFee = w_totalFee w,
         fq_billedAt = w_feesBilledAt w, fq_projectedStorageFee = fee,
         fq_projectedTotalFee = fee + w_handlingFee w, fq_delta = fee - w_storageFee w, fq_policy = policy\<rparr>)))))"

section \<open>Editing\<close>

record edit_withdrawal_dto =
  ew_reason :: "string option"
  ew_plannedDate :: "time option"

definition editWithdrawalError :: "uuid \<Rightarrow> withdrawal \<Rightarrow> uuid \<Rightarrow> string list \<Rightarrow> store \<Rightarrow> err option" where
  "editWithdrawalError tenantId w actorUserId actorRoles s =
     (let isAdmin = isAdminRole actorRoles; isOwner = (w_clientId w = actorUserId);
          isWm = (\<not> isAdmin \<and> \<not> isOwner \<and> managesSiteOf tenantId actorUserId actorRoles (w_receiptId w) s)
      in if w_status w = WD_COMPLETED \<or> w_status w = WD_REJECTED then Some (Conflict ''terminal'')
         else if \<not> isAdmin \<and> \<not> isOwner \<and> \<not> isWm then Some (Forbidden ''edit'')
         else if \<not> isAdmin \<and> w_status w \<noteq> WD_PENDING_PAYMENT then Some (Conflict ''admin only'')
         else None)"

definition editedWithdrawal :: "edit_withdrawal_dto \<Rightarrow> withdrawal \<Rightarrow> withdrawal \<times> string list" where
  "editedWithdrawal dto w =
     (let reasonChanged = (case ew_reason dto of None \<Rightarrow> False | Some t \<Rightarrow> w_reason w \<noteq> Some t);
          dateChanged = changedTo (ew_plannedDate dto) (w_plannedDate w)
      in (w\<lparr>w_reason := (if reasonChanged then ew_reason dto else w_reason w),
            w_plannedDate := orElse (ew_plannedDate dto) (w_plannedDate w)\<rparr>,
          (if reasonChanged then [''reason''] else []) @ (if dateChanged then [''plannedDate''] else [])))"

definition editWithdrawal ::
    "uuid \<Rightarrow> uuid \<Rightarrow> uuid \<Rightarrow> string list \<Rightarrow> edit_withdrawal_dto \<Rightarrow> withdrawal_status edit_result handler" where
  "editWithdrawal tenantId withdrawalId actorUserId actorRoles dto =
     bindM (loadWithdrawal tenantId withdrawalId) (\<lambda>w.
     bindM (getsM (editWithdrawalError tenantId w actorUserId actorRoles)) (\<lambda>e.
     bindM (case e of None \<Rightarrow> returnM () | Some e \<Rightarrow> throwM e) (\<lambda>_.
     let (w', changed) = editedWithdrawal dto w;
         res = \<lparr>er_id = w_id w, er_reference = w_reference w, er_status = w_status w, er_changedFields = changed\<rparr>
     in if changed = [] then returnM res
        else
          bindM (modifyM (\<lambda>s. appendActivity
            \<lparr>al_tenantId = Some tenantId, al_userId = Some actorUserId, al_action = ''WITHDRAWAL_EDITED'',
             al_entityType = ''Withdrawal'', al_entityId = w_id w, al_changes = changed\<rparr>
            (s\<lparr>withdrawals := upd_row w_id (w_id w) (\<lambda>_. w') (withdrawals s)\<rparr>))) (\<lambda>_.
          bindM (whenM (w_clientId w \<noteq> actorUserId)
            (notifyUser tenantId N_WITHDRAWAL_REQUESTED ''withdrawal'' (w_id w) (w_clientId w))) (\<lambda>_.
          bindM (whenM (\<not> isAdminRole actorRoles)
            (notifyTenantAdmins tenantId N_WITHDRAWAL_REQUESTED ''withdrawal'' (w_id w))) (\<lambda>_.
            returnM res))))))"

section \<open>Detail\<close>

record withdrawal_detail =
  wd_withdrawal :: withdrawal
  wd_receiptNumber :: "string option"
  wd_commodity :: "string option"
  wd_warehouse :: "string option"
  wd_client :: "user option"

definition getWithdrawalDetail :: "uuid \<Rightarrow> uuid \<Rightarrow> uuid option \<Rightarrow> withdrawal_detail handler" where
  "getWithdrawalDetail tenantId i forClientId =
     bindM (getsM (\<lambda>s. find (\<lambda>w. w_id w = i \<and> w_tenantId w = tenantId \<and>
       (case truthy_opt forClientId of None \<Rightarrow> True | Some c \<Rightarrow> w_clientId w = c)) (withdrawals s))) (\<lambda>w.
     bindM (requireM (NotFound ''Withdrawal not found'') w) (\<lambda>w.
       getsM (\<lambda>s.
         let r = withdrawalReceipt w s
         in \<lparr>wd_withdrawal = w, wd_receiptNumber = map_option r_receiptNumber r,
             wd_commodity = map_option (commodityName s) r,
             wd_warehouse = (case r of None \<Rightarrow> None | Some x \<Rightarrow> map_option wh_name (warehouseOf s x)),
             wd_client = findUser (w_clientId w) s\<rparr>)))"

section \<open>Cleanup\<close>

text \<open>
  The cron job reads the abandoned rows, then rejects those that are still waiting, then
  tells the clients of all it had read.
\<close>

definition abandoned :: "time \<Rightarrow> store \<Rightarrow> withdrawal list" where
  "abandoned now s = filter (\<lambda>w. w_status w = WD_PENDING_PAYMENT \<and>
     w_createdAt w < now - PENDING_PAYMENT_TTL_MINUTES * 60 * 1000) (withdrawals s)"

definition AUTO_REJECTION_REASON :: string where
  "AUTO_REJECTION_REASON = ''Auto-expired: payment confirmation was not received in time.''"

definition rejectAbandoned :: "withdrawal list \<Rightarrow> unit handler" where
  "rejectAbandoned expired =
     bindM (modifyM (\<lambda>s. s\<lparr>withdrawals := map (\<lambda>w.
         if w_id w \<in> w_id ` set expired \<and> w_status w = WD_PENDING_PAYMENT
         then w\<lparr>w_status := WD_REJECTED, w_rejectionReason := Some AUTO_REJECTION_REASON\<rparr> else w) (withdrawals s)\<rparr>)) (\<lambda>_.
       forM expired (\<lambda>w. notifyUser (w_tenantId w) N_WITHDRAWAL_REJECTED ''withdrawal'' (w_id w) (w_clientId w)))"

definition expirePendingPayment :: "time \<Rightarrow> unit handler" where
  "expirePendingPayment now =
     bindM (getsM (abandoned now)) (\<lambda>expired. if expired = [] then returnM () else rejectAbandoned expired)"

end
