(* ===== verification/Worked_Example.thy ===== *)
theory Worked_Example
  imports Ledger_Spec Recon
begin

text \<open>
  A small history the properties are instantiated on: a deposit of ten units of maize, its
  approval, a pledge of four of them.
\<close>

definition exDeposit :: deposit_input where
  "exDeposit = \<lparr>di_tenantId = ''t'', di_clientId = ''ada'', di_commodityId = ''maize'', di_warehouseId = ''w'',
     di_quantity = 10, di_grade = None, di_dateOfDeposit = 0, di_expiryDate = None,
     di_receiptNumber = Some ''WR-2025-0001'', di_actorUserId = None, di_idempotencyKey = ''k1'', di_gradingScores = None\<rparr>"
definition exApprove :: actor_args where
  "exApprove = \<lparr>a_tenantId = ''t'', a_receiptId = ''r1'', a_actorUserId = Some ''bo'', a_idempotencyKey = ''k2''\<rparr>"
definition exHold :: hold_input where
  "exHold = \<lparr>h_tenantId = ''t'', h_sourceReceiptId = ''r1'', h_quantity = 4, h_heldStatus = Held_Pledge_Pending,
     h_txnType = T_PLEDGE, h_txnId = ''p1'', h_actorUserId = None, h_idempotencyKey = ''k3'', h_metadata = None\<rparr>"
definition exDeposited :: ledger where
  "exDeposited = after_call (Call_deposit ''r1'' ''e1'' ''2025'' exDeposit) emptyLedger emptyLedger"
definition exApproved :: ledger where
  "exApproved = after_call (Call_approveReceipt ''e2'' 1 exApprove None None) exDeposited exDeposited"
definition exHeld :: ledger where
  "exHeld = after_call (Call_hold ''e3'' ''r2'' ''r3'' 2 exHold) exApproved exApproved"

text \<open>The databases of the example, each evaluated once.\<close>

lemma exApproved_eval [code]: "exApproved =
   emptyLedger\<lparr>receipts := [receipt_defaults\<lparr>r_id := ''r1'', r_receiptNumber := ''WR-2025-0001'',
   r_status := ACTIVE, r_tenantId := ''t'', r_commodityId := ''maize'', r_quantity := 10, r_warehouseId := ''w'',
   r_clientId := ''ada'', r_approvalStatus := APPROVED, r_approvedById := Some ''bo'', r_approvedAt := Some 1,
   r_rootReceiptId := ''r1'', r_sourceTxnType := Some T_DEPOSIT, r_sourceEventId := Some ''e1''\<rparr>], events :=
   [\<lparr>e_id = ''e1'', e_tenantId = ''t'', e_rootReceiptId = ''r1'', e_fromReceiptId = Some ''r1'', e_eventType
   = E_DEPOSIT, e_txnType = Some T_DEPOSIT, e_txnId = None, e_quantity = 10, e_actorUserId = None, e_idempotencyKey
   = Some ''k1'', e_reversalOfEventId = None, e_metadata = None\<rparr>, \<lparr>e_id = ''e2'', e_tenantId = ''t'',
   e_rootReceiptId = ''r1'', e_fromReceiptId = Some ''r1'', e_eventType = E_APPROVED, e_txnType = Some T_DEPOSIT,
   e_txnId = None, e_quantity = 10, e_actorUserId = Some ''bo'', e_idempotencyKey = Some ''k2'',
   e_reversalOfEventId = None, e_metadata = None\<rparr>]\<rparr>"
  by code_simp

lemma exHeld_eval [code]: "exHeld =
   exApproved\<lparr>receipts := [receipt_defaults\<lparr>r_id := ''r1'', r_receiptNumber := ''WR-2025-0001'',
   r_status := SPLIT, r_tenantId := ''t'', r_commodityId := ''maize'', r_quantity := 10, r_warehouseId := ''w'',
   r_clientId := ''ada'', r_approvalStatus := APPROVED, r_approvedById := Some ''bo'', r_approvedAt := Some 1,
   r_rootReceiptId := ''r1'', r_isParent := True, r_supersededAt := Some 2, r_sourceTxnType := Some T_DEPOSIT,
   r_sourceEventId := Some ''e1''\<rparr>, receipt_defaults\<lparr>r_id := ''r2'', r_receiptNumber :=
   ''WR-2025-0001-A'', r_status := HELD_PLEDGE_PENDING, r_tenantId := ''t'', r_commodityId := ''maize'', r_quantity
   := 4, r_warehouseId := ''w'', r_clientId := ''ada'', r_parentReceiptId := Some ''r1'', r_rootReceiptId :=
   ''r1'', r_sourceTxnType := Some T_PLEDGE, r_sourceTxnId := Some ''p1'', r_sourceEventId := Some ''e3''\<rparr>,
   receipt_defaults\<lparr>r_id := ''r3'', r_receiptNumber := ''WR-2025-0001-B'', r_status := ACTIVE, r_tenantId :=
   ''t'', r_commodityId := ''maize'', r_quantity := 6, r_warehouseId := ''w'', r_clientId := ''ada'',
   r_approvalStatus := APPROVED, r_parentReceiptId := Some ''r1'', r_rootReceiptId := ''r1'', r_sourceEventId :=
   Some ''e3''\<rparr>], events := events exApproved @ [\<lparr>e_id = ''e3'', e_tenantId = ''t'', e_rootReceiptId
   = ''r1'', e_fromReceiptId = Some ''r1'', e_eventType = E_HOLD_PLACED, e_txnType = Some T_PLEDGE, e_txnId = Some
   ''p1'', e_quantity = 4, e_actorUserId = None, e_idempotencyKey = Some ''k3'', e_reversalOfEventId = None,
   e_metadata = None\<rparr>]\<rparr>"
  by code_simp

definition exCalls :: "(ledger_call \<times> ledger) list" where
  "exCalls = [(Call_deposit ''r1'' ''e1'' ''2025'' exDeposit, emptyLedger),
     (Call_approveReceipt ''e2'' 1 exApprove None None, emptyLedger),
     (Call_hold ''e3'' ''r2'' ''r3'' 2 exHold, exDeposited)]"

lemma exCalls_held: "after_calls exCalls emptyLedger = exHeld"
  by (simp add: exCalls_def exHeld_def exApproved_def exDeposited_def, code_simp)

lemma exHeld_wf: "ledger_wf exHeld"
  unfolding exCalls_held [symmetric] by (rule after_calls_empty(1))

lemma exHeld_rows:
  "map (\<lambda>r. (r_id r, r_receiptNumber r, r_status r, r_quantity r)) (receipts exHeld) =
    [(''r1'', ''WR-2025-0001'', SPLIT, 10), (''r2'', ''WR-2025-0001-A'', HELD_PLEDGE_PENDING, 4),
     (''r3'', ''WR-2025-0001-B'', ACTIVE, 6)]"
  by code_simp

end
