(* ===== verification/Worked_Store.thy ===== *)
theory Worked_Store
  imports Liens Withdrawals Worked_Example
begin

text \<open>
  A small database the properties of the services are instantiated on: a client \<open>ada\<close>, a
  second client \<open>eve\<close>, an administrator and a user of the financier \<open>bank\<close>, one
  warehouse, one commodity, and the receipt of the worked ledger history, with a pledge on
  it, its acceptance, and what follows. The cryptographic parameters are instantiated by
  transparent ones.
\<close>

definition exCrypto :: crypto where
  "exCrypto = \<lparr>bcrypt_compare = (\<lambda>plain h. h = CHR ''#'' # plain), bcrypt_hash = (\<lambda>plain. CHR ''#'' # plain), sha256 = (\<lambda>t. t)\<rparr>"

definition exUser :: "uuid \<Rightarrow> uuid option \<Rightarrow> string list \<Rightarrow> user" where
  "exUser i org roles = user_defaults\<lparr>u_id := i, u_tenantId := ''t'', u_email := i @ ''@x.org'', u_password := ''#pw'',
     u_firstName := i, u_lastName := ''N'', u_financierOrgId := org, u_roles := roles\<rparr>"

definition exOtp :: "uuid \<Rightarrow> otp_purpose \<Rightarrow> string \<Rightarrow> otp" where
  "exOtp i purpose code = \<lparr>o_id = i, o_userId = ''fin'', o_codeHash = code, o_purpose = purpose, o_expiresAt = 5000,
     o_usedAt = None, o_attempts = 0\<rparr>"

definition exPolicy :: fee_policy where
  "exPolicy = \<lparr>fp_id = ''fp'', fp_tenantId = ''t'', fp_warehouseId = None, fp_commodityId = None, fp_isActive = True,
     fp_feeType = PER_MT_PER_DAY, fp_rate = 450, fp_billingFrequency = DAILY, fp_gracePeriodDays = 0,
     fp_latePenaltyPct = 0, fp_currency = ''NGN''\<rparr>"

definition exStore0 :: store where
  "exStore0 = \<lparr>receipts = [], events = [],
     users = [exUser ''ada'' None [''CLIENT''], exUser ''eve'' None [''CLIENT''],
              exUser ''fin'' (Some ''bank'') [''FINANCIER''], exUser ''adm'' None [''TENANT_ADMIN''],
              exUser ''mgr'' None [''WAREHOUSE_MANAGER'']],
     orgs = [financier_org_defaults\<lparr>fo_id := ''bank'', fo_name := ''Bank''\<rparr>],
     warehouses = [warehouse_defaults\<lparr>wh_id := ''w'', wh_tenantId := ''t'', wh_name := ''W'', wh_location := ''Kano'',
       wh_email := Some ''w@x.org'', wh_passwordHash := Some ''#Secret12'', wh_mustChangePassword := False\<rparr>],
     links = [\<lparr>wl_id = ''wl'', wl_tenantId = ''t'', wl_financierOrgId = ''bank'', wl_warehouseId = ''w'', wl_status = LINK_ACTIVE,
       wl_agreementDocUrl = Some ''doc'', wl_signedAt = Some 0, wl_createdById = ''fin'', wl_decidedById = Some ''adm'',
       wl_decidedAt = Some 0, wl_decisionReason = None, wl_createdAt = 0\<rparr>],
     commodities = [\<lparr>co_id = ''maize'', co_tenantId = ''t'', co_name = ''Maize'', co_unitOfMeasure = ''METRIC_TON'',
       co_standardBagWeightKg = None, co_code = None, co_description = None, co_gradingLogic = ''PERCENTAGE'',
       co_numberOfGrades = 3\<rparr>],
     prices = [], policies = [exPolicy], pledges = [], liens = [], requests = [], lines_of_requests = [],
     forceReleases = [],
     otps = [exOtp ''o1'' OTP_PLEDGE_ACCEPT ''123456'', exOtp ''o2'' OTP_RELEASE_APPROVE ''654321''],
     notifications = [], activities = [], outbox = [],
     financiers = [\<lparr>fi_id = ''lender'', fi_name = ''Lender'', fi_interestRate = 12, fi_minTenure = 1, fi_maxTenure = 12,
       fi_approvalTime = ''1d'', fi_tenantId = ''t''\<rparr>],
     loans = [], trades = [], withdrawals = [], assignments = [\<lparr>ma_id = ''ma'', ma_tenantId = ''t'', ma_warehouseId = ''w'',
       ma_managerId = ''mgr'', ma_assignedBy = ''adm'', ma_unassignedAt = None\<rparr>],
     roleTable = [''CLIENT'', ''FINANCIER'', ''WAREHOUSE_MANAGER'', ''TENANT_ADMIN'', ''GLOBAL_ADMIN''],
     tenants = [tenant_defaults\<lparr>tn_id := ''t'', tn_name := ''T'', tn_slug := ''t''\<rparr>],
     gradingParameters =
       [\<lparr>gp_id = ''gm'', gp_tenantId = ''t'', gp_commodityId = ''maize'', gp_name = ''Moisture'', gp_unit = ''%'',
         gp_isDefective = False, gp_thresholds = [(''Grade 1'', 12), (''Grade 2'', 14), (''Grade 3'', 16)]\<rparr>,
        \<lparr>gp_id = ''gb'', gp_tenantId = ''t'', gp_commodityId = ''maize'', gp_name = ''Broken'', gp_unit = ''%'',
         gp_isDefective = True, gp_thresholds = [(''Grade 1'', 2), (''Grade 2'', 4), (''Grade 3'', 6)]\<rparr>],
     warehouseCommodities = [\<lparr>wc_id = ''wc'', wc_warehouseId = ''w'', wc_commodityId = ''maize'', wc_tenantId = ''t'',
       wc_storageFeePerUnit = 0\<rparr>],
     clientProfiles = [client_profile_defaults\<lparr>cf_id := ''cf1'', cf_userId := ''ada'', cf_tenantId := ''t'',
       cf_clientCode := ''CLT-2025-0001'', cf_registeredByManagerId := Some ''mgr'', cf_nin := Some ''12345678901''\<rparr>],
     attachments = [],
     clientTables = \<lparr>directors = [], documents = [], focusCommodities = [], lookupAudits = []\<rparr>,
     sessions = \<lparr>resetTokens = [], refreshTokens = []\<rparr>\<rparr>"

text \<open>The deposit of \<open>ada\<close>, approved.\<close>

definition exStore :: store where
  "exStore = after_calls [(Call_deposit ''r1'' ''e1'' ''2025'' exDeposit, exStore0),
     (Call_approveReceipt ''e2'' 1 exApprove None None, exStore0)] exStore0"

text \<open>The identifiers a call draws: a letter and a counter.\<close>

definition exIds :: "char \<Rightarrow> nat \<Rightarrow> uuid" where
  "exIds c n = [c, char_of (n + 48)]"

definition exPledgeDto :: create_pledge_dto where
  "exPledgeDto = \<lparr>cd_receiptId = ''r1'', cd_financierId = ''bank'', cd_quantity = ''4.5'', cd_note = None\<rparr>"

definition exPledged :: store where
  "exPledged = snd (createPledge None 100 (exIds CHR ''p'') ''ada'' exPledgeDto exStore)"

definition exAccepted :: store where
  "exAccepted = snd (acceptPledge exCrypto 200 (exIds CHR ''a'') ''fin'' ''p0'' ''123456'' None exPledged)"

text \<open>The databases after each step, evaluated once.\<close>

lemma exStore_eval [code]: "exStore =
   exStore0\<lparr>receipts := [receipt_defaults\<lparr>r_id := ''r1'', r_receiptNumber := ''WR-2025-0001'',
   r_status := ACTIVE, r_tenantId := ''t'', r_commodityId := ''maize'', r_quantity := 10, r_warehouseId := ''w'',
   r_clientId := ''ada'', r_approvalStatus := APPROVED, r_approvedById := Some ''bo'', r_approvedAt := Some 1,
   r_rootReceiptId := ''r1'', r_sourceTxnType := Some T_DEPOSIT, r_sourceEventId := Some ''e1''\<rparr>], events :=
   [\<lparr>e_id = ''e1'', e_tenantId = ''t'', e_rootReceiptId = ''r1'', e_fromReceiptId = Some ''r1'', e_eventType
   = E_DEPOSIT, e_txnType = Some T_DEPOSIT, e_txnId = None, e_quantity = 10, e_actorUserId = None, e_idempotencyKey
   = Some ''k1'', e_reversalOfEventId = None, e_metadata = None\<rparr>, \<lparr>e_id = ''e2'', e_tenantId = ''t'',
   e_rootReceiptId = ''r1'', e_fromReceiptId = Some ''r1'', e_eventType = E_APPROVED, e_txnType = Some T_DEPOSIT,
   e_txnId = None, e_quantity = 10, e_actorUserId = Some ''bo'', e_idempotencyKey = Some ''k2'',
   e_reversalOfEventId = None, e_metadata = None\<rparr>]\<rparr>"
  by code_simp

lemma exPledged_eval [code]: "exPledged =
   exStore\<lparr>receipts := [receipt_defaults\<lparr>r_id := ''r1'', r_receiptNumber := ''WR-2025-0001'',
   r_status := SPLIT, r_tenantId := ''t'', r_commodityId := ''maize'', r_quantity := 10, r_warehouseId := ''w'',
   r_clientId := ''ada'', r_approvalStatus := APPROVED, r_approvedById := Some ''bo'', r_approvedAt := Some 1,
   r_rootReceiptId := ''r1'', r_isParent := True, r_supersededAt := Some 100, r_sourceTxnType := Some T_DEPOSIT,
   r_sourceEventId := Some ''e1''\<rparr>, receipt_defaults\<lparr>r_id := ''p2'', r_receiptNumber :=
   ''WR-2025-0001-A'', r_status := HELD_PLEDGE_PENDING, r_tenantId := ''t'', r_commodityId := ''maize'', r_quantity
   := 9 / 2, r_warehouseId := ''w'', r_clientId := ''ada'', r_parentReceiptId := Some ''r1'', r_rootReceiptId :=
   ''r1'', r_sourceTxnType := Some T_PLEDGE, r_sourceTxnId := Some ''p0'', r_sourceEventId := Some ''p1''\<rparr>,
   receipt_defaults\<lparr>r_id := ''p3'', r_receiptNumber := ''WR-2025-0001-B'', r_status := ACTIVE, r_tenantId :=
   ''t'', r_commodityId := ''maize'', r_quantity := 11 / 2, r_warehouseId := ''w'', r_clientId := ''ada'',
   r_approvalStatus := APPROVED, r_parentReceiptId := Some ''r1'', r_rootReceiptId := ''r1'', r_sourceEventId :=
   Some ''p1''\<rparr>], events := events exStore @ [\<lparr>e_id = ''p1'', e_tenantId = ''t'', e_rootReceiptId =
   ''r1'', e_fromReceiptId = Some ''r1'', e_eventType = E_HOLD_PLACED, e_txnType = Some T_PLEDGE, e_txnId = Some
   ''p0'', e_quantity = 9 / 2, e_actorUserId = Some ''ada'', e_idempotencyKey = Some ''pledge:create:p0'',
   e_reversalOfEventId = None, e_metadata = Some [(''financierOrgId'', ''bank'')]\<rparr>], pledges :=
   [\<lparr>p_id = ''p0'', p_tenantId = ''t'', p_receiptId = ''r1'', p_heldReceiptId = Some ''p2'', p_clientId =
   ''ada'', p_financierOrgId = ''bank'', p_warehouseId = ''w'', p_quantity = 9 / 2, p_unit = ''METRIC_TON'',
   p_valuationAtPledge = None, p_currency = ''NGN'', p_status = PL_PENDING, p_clientNote = None, p_decisionReason =
   None, p_decidedById = None, p_decidedAt = None, p_expiresAt = 604800100, p_createdAt = 100\<rparr>],
   notifications := [\<lparr>n_tenantId = ''t'', n_userId = ''fin'', n_type = N_PLEDGE_CREATED, n_relatedEntityType
   = ''pledge'', n_relatedEntityId = ''p0''\<rparr>]\<rparr>"
  by code_simp

lemma exAccepted_eval [code]: "exAccepted =
   exPledged\<lparr>receipts := [receipt_defaults\<lparr>r_id := ''r1'', r_receiptNumber := ''WR-2025-0001'',
   r_status := SPLIT, r_tenantId := ''t'', r_commodityId := ''maize'', r_quantity := 10, r_warehouseId := ''w'',
   r_clientId := ''ada'', r_approvalStatus := APPROVED, r_approvedById := Some ''bo'', r_approvedAt := Some 1,
   r_rootReceiptId := ''r1'', r_isParent := True, r_supersededAt := Some 100, r_sourceTxnType := Some T_DEPOSIT,
   r_sourceEventId := Some ''e1''\<rparr>, receipt_defaults\<lparr>r_id := ''p2'', r_receiptNumber :=
   ''WR-2025-0001-A'', r_status := HELD_LIEN, r_tenantId := ''t'', r_commodityId := ''maize'', r_quantity := 9 / 2,
   r_warehouseId := ''w'', r_clientId := ''ada'', r_parentReceiptId := Some ''r1'', r_rootReceiptId := ''r1'',
   r_sourceTxnType := Some T_PLEDGE, r_sourceTxnId := Some ''p0'', r_sourceEventId := Some ''p1''\<rparr>,
   receipt_defaults\<lparr>r_id := ''p3'', r_receiptNumber := ''WR-2025-0001-B'', r_status := ACTIVE, r_tenantId :=
   ''t'', r_commodityId := ''maize'', r_quantity := 11 / 2, r_warehouseId := ''w'', r_clientId := ''ada'',
   r_approvalStatus := APPROVED, r_parentReceiptId := Some ''r1'', r_rootReceiptId := ''r1'', r_sourceEventId :=
   Some ''p1''\<rparr>], events := events exPledged @ [\<lparr>e_id = ''a0'', e_tenantId = ''t'', e_rootReceiptId =
   ''r1'', e_fromReceiptId = Some ''p2'', e_eventType = E_PLEDGE_ACCEPTED, e_txnType = Some T_PLEDGE, e_txnId =
   Some ''p0'', e_quantity = 9 / 2, e_actorUserId = Some ''fin'', e_idempotencyKey = Some ''pledge:accept:p0'',
   e_reversalOfEventId = None, e_metadata = Some [(''note'', ''null'')]\<rparr>], pledges := [\<lparr>p_id =
   ''p0'', p_tenantId = ''t'', p_receiptId = ''r1'', p_heldReceiptId = Some ''p2'', p_clientId = ''ada'',
   p_financierOrgId = ''bank'', p_warehouseId = ''w'', p_quantity = 9 / 2, p_unit = ''METRIC_TON'',
   p_valuationAtPledge = None, p_currency = ''NGN'', p_status = PL_ACCEPTED, p_clientNote = None, p_decisionReason
   = None, p_decidedById = Some ''fin'', p_decidedAt = Some 200, p_expiresAt = 604800100, p_createdAt =
   100\<rparr>], liens := [\<lparr>ln_id = ''a1'', ln_tenantId = ''t'', ln_pledgeId = ''p0'', ln_receiptId =
   ''p2'', ln_clientId = ''ada'', ln_financierOrgId = ''bank'', ln_quantity = 9 / 2, ln_remainingQuantity = 9 / 2,
   ln_status = LN_ACTIVE, ln_placedAt = 200, ln_releasedAt = None\<rparr>], otps := [\<lparr>o_id = ''o1'',
   o_userId = ''fin'', o_codeHash = ''123456'', o_purpose = OTP_PLEDGE_ACCEPT, o_expiresAt = 5000, o_usedAt = Some
   200, o_attempts = 0\<rparr>, \<lparr>o_id = ''o2'', o_userId = ''fin'', o_codeHash = ''654321'', o_purpose =
   OTP_RELEASE_APPROVE, o_expiresAt = 5000, o_usedAt = None, o_attempts = 0\<rparr>], notifications :=
   notifications exPledged @ [\<lparr>n_tenantId = ''t'', n_userId = ''ada'', n_type = N_PLEDGE_ACCEPTED,
   n_relatedEntityType = ''pledge'', n_relatedEntityId = ''p0''\<rparr>]\<rparr>"
  by code_simp

lemma empty_wf: "receipts s = [] \<Longrightarrow> events s = [] \<Longrightarrow> ledger_wf s"
  by (simp add: ledger_wf_def ledger_wf_defs events_wf_def)

lemma exStore0_wf: "ledger_wf exStore0"
  by (rule empty_wf) (simp_all add: exStore0_def)

lemma exStore_wf: "ledger_wf exStore"
proof -
  obtain gs where "ledger_run gs exStore0 exStore"
    using after_calls_run [OF exStore0_wf] unfolding exStore_def by blast
  then show ?thesis using exStore0_wf by (rule run_ledger_wf)
qed

lemma exPledged_wf: "ledger_wf exPledged"
  using confined_wf [OF createPledge_lawful prod.collapse [symmetric] exStore_wf] by (simp add: exPledged_def)

lemma exAccepted_wf: "ledger_wf exAccepted"
  using confined_wf [OF acceptPledge_lawful prod.collapse [symmetric] exPledged_wf] by (simp add: exAccepted_def)

lemma exPledged_rows:
  "map (\<lambda>r. (r_id r, r_status r, r_quantity r)) (receipts exPledged) =
    [(''r1'', SPLIT, 10), (''p2'', HELD_PLEDGE_PENDING, 9 / 2), (''p3'', ACTIVE, 11 / 2)] \<and>
   map (\<lambda>p. (p_id p, p_heldReceiptId p, p_quantity p, p_status p, p_expiresAt p)) (pledges exPledged) =
    [(''p0'', Some ''p2'', 9 / 2, PL_PENDING, 604800100)]"
  by code_simp

lemma exAccepted_rows:
  "map (\<lambda>r. (r_id r, r_status r, r_quantity r)) (receipts exAccepted) =
    [(''r1'', SPLIT, 10), (''p2'', HELD_LIEN, 9 / 2), (''p3'', ACTIVE, 11 / 2)] \<and>
   map (\<lambda>l. (ln_id l, ln_receiptId l, ln_remainingQuantity l, ln_status l)) (liens exAccepted) =
    [(''a1'', ''p2'', 9 / 2, LN_ACTIVE)] \<and>
   map p_status (pledges exAccepted) = [PL_ACCEPTED]"
  by code_simp

end
