(* ===== verification/Inventory_Properties.thy ===== *)
theory Inventory_Properties
  imports Transactions Query Worked_Store
begin

text \<open>
  The properties of the inventory: what a hold does, what never changes again, the numbering
  of receipts, the retry loop, reconciliation, and the reads.
\<close>

section \<open>Holding\<close>

lemma transactM_Inr_iff: "(\<exists>res s'. transactM t s = (Inr res, s')) \<longleftrightarrow> (\<exists>res s'. t s = Inr (res, s'))"
  by (auto simp: transactM_def split: sum.splits)

lemma hold_first:
  "findEventByKey (h_idempotencyKey inp) s = None \<Longrightarrow>
     hold evId id1 id2 now inp s s = transactM (holdTx evId id1 id2 now inp) s"
  unfolding hold_def by (rule runIdempotent_first)

lemma exApproved_wf: "ledger_wf exApproved"
  using after_calls_empty(1) [of "[(Call_deposit ''r1'' ''e1'' ''2025'' exDeposit, emptyLedger),
     (Call_approveReceipt ''e2'' 1 exApprove None None, exDeposited)]"]
  by (simp add: exApproved_def exDeposited_def)

text \<open>
  C5. The first time its key is used, \<open>hold\<close> succeeds exactly when the tenant has an ACTIVE
  receipt of that id with at least the positive quantity asked for; when it fails it changes
  nothing.
\<close>

theorem hold_accepts:
  assumes "ledger_wf s" and "fresh_draw evId id1 id2 (h_idempotencyKey inp) s"
  shows "((\<exists>res s'. hold evId id1 id2 now inp s s = (Inr res, s')) \<longleftrightarrow>
      (\<exists>src \<in> set (receipts s). r_id src = h_sourceReceiptId inp \<and> r_tenantId src = h_tenantId inp \<and>
         r_status src = ACTIVE \<and> 0 < h_quantity inp \<and> h_quantity inp \<le> r_quantity src)) \<and>
    (\<forall>e s'. hold evId id1 id2 now inp s s = (Inl e, s') \<longrightarrow> s' = s)"
proof -
  have "findEventByKey (h_idempotencyKey inp) s = None" using assms(2) by (simp add: fresh_draw_def)
  note first = hold_first [OF this, of evId id1 id2 now]
  show ?thesis
    unfolding first transactM_Inr_iff holdTx_cases [OF assms] holdable_def
    by (auto simp: transactM_def split: sum.splits)
qed

text \<open>On the approved deposit of ten, a hold of four is accepted, one of eleven is not.\<close>

theorem hold_accepts_witness:
  "(\<exists>res s'. hold ''e3'' ''r2'' ''r3'' 2 exHold exApproved exApproved = (Inr res, s')) \<and>
   (\<nexists>res s'. hold ''e3'' ''r2'' ''r3'' 2 (exHold\<lparr>h_quantity := 11\<rparr>) exApproved exApproved = (Inr res, s'))"
proof -
  have draw: "fresh_draw ''e3'' ''r2'' ''r3'' ''k3'' exApproved" by code_simp
  have row: "map (\<lambda>r. (r_id r, r_tenantId r, r_status r, r_quantity r)) (receipts exApproved) = [(''r1'', ''t'', ACTIVE, 10)]"
    by code_simp
  then obtain r where r: "receipts exApproved = [r]" "r_id r = ''r1''" "r_tenantId r = ''t''" "r_status r = ACTIVE"
    "r_quantity r = 10" by auto
  show ?thesis
    using hold_accepts [OF exApproved_wf, of "''e3''" "''r2''" "''r3''" exHold 2] draw
      hold_accepts [OF exApproved_wf, of "''e3''" "''r2''" "''r3''" "exHold\<lparr>h_quantity := 11\<rparr>" 2] r
    by (simp add: exHold_def)
qed

text \<open>
  A hold of a quantity the column can express moves exactly that quantity, of that
  commodity and owner, from what is available to what is locked, and no other balance.
\<close>

theorem hold_moves_balance:
  assumes "hold evId id1 id2 now inp s s = (Inr res, s')" and "findEventByKey (h_idempotencyKey inp) s = None"
    and "ledger_wf s" and "on_scale 3 (h_quantity inp)"
  shows "\<exists>src \<in> set (receipts s). r_id src = h_sourceReceiptId inp \<and>
    (\<forall>t c k. availableOf t c k s' = availableOf t c k s
        - (if owned t c src \<and> r_commodityId src = k then h_quantity inp else 0) \<and>
      lockedOf t c k s' = lockedOf t c k s
        + (if owned t c src \<and> r_commodityId src = k then h_quantity inp else 0))"
proof -
  have run: "holdTx evId id1 id2 now inp s = Inr (res, s')"
    using assms(1) unfolding hold_first [OF assms(2)] by (auto simp: transactM_def split: sum.splits)
  obtain src where src: "src \<in> set (receipts s)" "r_id src = h_sourceReceiptId inp"
    using hold_balance [OF run assms(3,4)] by blast
  have "x = src" if "x \<in> set (receipts s)" "r_id x = h_sourceReceiptId inp" for x
    using that src assms(3) by (auto simp: ledger_wf_def ids_unique_def distinct_map inj_on_def)
  with src hold_balance [OF run assms(3,4)] show ?thesis by (intro bexI [OF _ src(1)]) blast
qed

theorem hold_moves_balance_witness:
  "\<exists>src \<in> set (receipts exApproved). r_id src = ''r1'' \<and>
     availableOf ''t'' ''ada'' ''maize'' exHeld = 6 \<and> lockedOf ''t'' ''ada'' ''maize'' exHeld = 4"
proof -
  have run: "case fst (hold ''e3'' ''r2'' ''r3'' 2 exHold exApproved exApproved) of Inl _ \<Rightarrow> False | Inr _ \<Rightarrow> True"
    and key: "findEventByKey ''k3'' exApproved = None" and q: "on_scale 3 (4 :: rat)" by code_simp+
  obtain res s' where hold: "hold ''e3'' ''r2'' ''r3'' 2 exHold exApproved exApproved = (Inr res, s')"
    using run by (cases "hold ''e3'' ''r2'' ''r3'' 2 exHold exApproved exApproved") (auto split: sum.splits)
  then have s': "s' = exHeld" by (simp add: exHeld_def)
  have before: "availableOf ''t'' ''ada'' ''maize'' exApproved = 10" "lockedOf ''t'' ''ada'' ''maize'' exApproved = 0"
    "map (\<lambda>r. owned ''t'' ''ada'' r \<and> r_commodityId r = ''maize'') (receipts exApproved) = [True]" by code_simp+
  from hold_moves_balance [OF hold, unfolded s'] key exApproved_wf q before show ?thesis
    by (fastforce simp: exHold_def)
qed

section \<open>What never changes\<close>

lemma after_calls_append: "after_calls (cs @ ds) s = after_calls ds (after_calls cs s)"
  by (induction cs s rule: after_calls.induct) simp_all



section \<open>Receipt numbers\<close>


text \<open>
  Suffixes count: read as a number in base 26 with the digits A to Z for one to
  twenty-six, the suffix handed out is one more than the greatest of those in use.
\<close>

theorem suffix_counts:
  assumes "\<forall>s \<in> set existing. is_suffix s" and "existing \<noteq> []"
  shows "suffix_value (nextSuffix existing) = Max (suffix_value ` set existing) + 1"
proof -
  let ?l = "last (sort_key (\<lambda>s. (length s, s)) existing)"
  obtain x where x: "x \<in> set existing" using assms(2) by (cases existing) auto
  have l: "?l \<in> set existing" using last_sort_key_max(2) [OF x] .
  have "suffix_value s \<le> suffix_value ?l" if "s \<in> set existing" for s
    using nextSuffix_greatest [OF assms(1) that] nextSuffix_successor(2) [OF assms] by simp
  with l have "Max (suffix_value ` set existing) = suffix_value ?l" by (intro Max_eqI) auto
  then show ?thesis using nextSuffix_successor(2) [OF assms] by simp
qed

theorem suffix_counts_witness:
  "suffix_value (nextSuffix [''AZ'', ''B'']) = Max {52, 2} + 1 \<and> nextSuffix [''AZ'', ''B''] = ''BA''"
proof -
  have v: "suffix_value ''AZ'' = 52" "suffix_value ''B'' = 2" by code_simp+
  have "\<forall>s \<in> set [''AZ'', ''B'']. is_suffix s" by code_simp
  from suffix_counts [OF this] have "suffix_value (nextSuffix [''AZ'', ''B'']) = Max {52, 2} + 1" by (simp add: v)
  moreover have "nextSuffix [''AZ'', ''B''] = ''BA''" by code_simp
  ultimately show ?thesis by blast
qed

section \<open>Retries\<close>

text \<open>
  C8. Serialization failures stay invisible: if the engine aborts at most the first three
  attempts of a ledger transaction, the caller sees exactly the outcome of the transaction
  run once on the database as it was.
\<close>

theorem retries_invisible:
  assumes "n \<le> 3" and "\<not> aborts n" and "work s \<noteq> Inl (Db Serialization_Failure)"
  shows "fst (withSerializableTx (underFaults aborts work) retryable_err jitter None s) = transactM work s"
  using assms by (intro aborts_invisible [of n]) simp_all

theorem retries_invisible_witness:
  "snd (fst (withSerializableTx (underFaults (\<lambda>k. k < 3) (holdTx ''e3'' ''r2'' ''r3'' 2 exHold)) retryable_err
     (\<lambda>k. k) None exApproved)) = exHeld"
proof -
  have run: "case holdTx ''e3'' ''r2'' ''r3'' 2 exHold exApproved of Inl _ \<Rightarrow> False | Inr _ \<Rightarrow> True" by code_simp
  have key: "findEventByKey (h_idempotencyKey exHold) exApproved = None" by code_simp
  have "exHeld = snd (transactM (holdTx ''e3'' ''r2'' ''r3'' 2 exHold) exApproved)"
    unfolding exHeld_def after_call.simps hold_first [OF key] ..
  moreover have "fst (withSerializableTx (underFaults (\<lambda>k. k < 3) (holdTx ''e3'' ''r2'' ''r3'' 2 exHold)) retryable_err
     (\<lambda>k. k) None exApproved) = transactM (holdTx ''e3'' ''r2'' ''r3'' 2 exHold) exApproved"
    by (rule retries_invisible [of 3]) (use run in \<open>auto split: sum.splits\<close>)
  ultimately show ?thesis by simp
qed

text \<open>
  The retry loop ends after at most as many pauses as it has retries, each one
  25 milliseconds longer than the one before, up to the jitter. It returns what its last
  attempt returned on the database as it was; every attempt before failed with a retryable
  error and left nothing behind; and it gives up on an error only if that is not retryable or
  no retry is left.
\<close>

theorem retry_outcome:
  "\<exists>m \<le> (case retries of None \<Rightarrow> 3 | Some n \<Rightarrow> n).
     withSerializableTx (underFaults aborts work) retryable_err jitter retries s =
       (underFaults aborts work m s, map (\<lambda>k. 25 * k + jitter k) [1 ..< Suc m]) \<and>
     (\<forall>k. \<not> m \<le> k \<longrightarrow> underFaults aborts work k s = (Inl (Db Serialization_Failure), s)) \<and>
     (\<forall>e s'. underFaults aborts work m s = (Inl e, s') \<longrightarrow>
        s' = s \<and> (e = Db Serialization_Failure \<longrightarrow> m = (case retries of None \<Rightarrow> 3 | Some n \<Rightarrow> n)))"
proof -
  obtain res ps where run: "withSerializableTx (underFaults aborts work) retryable_err jitter retries s = (res, ps)"
    by fastforce
  from engine.tx_outcome [OF run] obtain m where m: "m \<le> (case retries of None \<Rightarrow> 3 | Some n \<Rightarrow> n)"
    "ps = map (pause jitter) [1 ..< Suc m]"
    "\<forall>k < m. \<exists>e. underFaults aborts work k s = (Inl e, s) \<and> retryable_err e" "underFaults aborts work m s = res"
    "\<forall>e. fst res = Inl e \<longrightarrow> m = (case retries of None \<Rightarrow> 3 | Some n \<Rightarrow> n) \<or> \<not> retryable_err e" by blast
  show ?thesis
  proof (intro exI [of _ m] conjI)
    show "withSerializableTx (underFaults aborts work) retryable_err jitter retries s =
       (underFaults aborts work m s, map (\<lambda>k. 25 * k + jitter k) [1 ..< Suc m])"
      using run m(2,4) by (simp add: pause_def)
    show "\<forall>k. \<not> m \<le> k \<longrightarrow> underFaults aborts work k s = (Inl (Db Serialization_Failure), s)"
      using m(3) by (auto simp: retryable_err_def not_le)
    show "\<forall>e s'. underFaults aborts work m s = (Inl e, s') \<longrightarrow>
        s' = s \<and> (e = Db Serialization_Failure \<longrightarrow> m = (case retries of None \<Rightarrow> 3 | Some n \<Rightarrow> n))"
      using m(4,5) engine.atomic [of aborts work m s] by (auto simp: retryable_err_def)
  qed (fact m(1))
qed

text \<open>Two aborts cost two pauses, of 32 and 57 milliseconds under a jitter of seven.\<close>

theorem retry_outcome_witness:
  "snd (withSerializableTx (underFaults (\<lambda>k. k < 2) (holdTx ''e3'' ''r2'' ''r3'' 2 exHold)) retryable_err
     (\<lambda>k. 7) None exApproved) = [32, 57]"
proof -
  let ?run = "underFaults (\<lambda>k. k < 2) (holdTx ''e3'' ''r2'' ''r3'' 2 exHold)"
  have ok: "case holdTx ''e3'' ''r2'' ''r3'' 2 exHold exApproved of Inl _ \<Rightarrow> False | Inr _ \<Rightarrow> True" by code_simp
  have at: "?run k exApproved = (Inl (Db Serialization_Failure), exApproved) \<longleftrightarrow> k < 2" for k
    using ok by (auto simp: underFaults_def transactM_def split: sum.splits)
  obtain m where m: "m \<le> 3" "withSerializableTx ?run retryable_err (\<lambda>k. 7) None exApproved =
      (?run m exApproved, map (\<lambda>k. 25 * k + 7) [1 ..< Suc m])"
    "\<forall>k. \<not> m \<le> k \<longrightarrow> ?run k exApproved = (Inl (Db Serialization_Failure), exApproved)"
    "\<forall>e s'. ?run m exApproved = (Inl e, s') \<longrightarrow> s' = exApproved \<and> (e = Db Serialization_Failure \<longrightarrow> m = 3)"
    using retry_outcome [of None "\<lambda>k. k < 2" "holdTx ''e3'' ''r2'' ''r3'' 2 exHold" "\<lambda>k. 7" exApproved] by auto
  have "2 \<le> m" using m(4) at [of m] by (cases "m < 2") auto
  moreover have "m \<le> 2" using m(3) [rule_format, of 2] at [of 2] by auto
  ultimately have "m = 2" by simp
  with m(2) show ?thesis by (simp add: numeral_2_eq_2 numeral_3_eq_3 upt_rec)
qed

section \<open>Reconciliation and lineage\<close>

text \<open>
  The recursive query from a root returns every row of the table whose root column
  names it, each once, and nothing else; it ends within as many levels as there are rows.
\<close>

theorem tree_query_correct:
  assumes "rt \<in> set (receipts (after_calls cs emptyLedger))" and "r_parentReceiptId rt = None"
  shows "\<exists>tree. treeOf (r_id rt) (after_calls cs emptyLedger) = Some tree \<and>
    mset tree = filter_mset (\<lambda>r. r_rootReceiptId r = r_id rt) (mset (receipts (after_calls cs emptyLedger)))"
proof -
  have "ledger_wf (after_calls cs emptyLedger)" by (rule after_calls_empty(1))
  then have "ids_unique (after_calls cs emptyLedger)" "tree_ok (after_calls cs emptyLedger)"
    by (simp_all add: ledger_wf_def)
  from treeOf_root [OF this assms] show ?thesis by simp
qed

theorem tree_query_correct_witness:
  "\<exists>tree. treeOf ''r1'' exHeld = Some tree \<and> size (mset tree) = 3"
proof -
  have rt: "hd (receipts exHeld) \<in> set (receipts exHeld)" "r_parentReceiptId (hd (receipts exHeld)) = None"
    "r_id (hd (receipts exHeld)) = ''r1''"
    "length (filter (\<lambda>r. r_rootReceiptId r = ''r1'') (receipts exHeld)) = 3" by code_simp+
  from tree_query_correct [of _ exCalls, unfolded exCalls_held, OF rt(1,2)] rt(3,4) show ?thesis
    by (metis mset_filter size_mset)
qed

text \<open>
  C9. What reconciliation reports for a root is the truth about its tree: the leaf sum is
  the volume of its leaves, the gap is what splits have added, negated, and it is balanced
  exactly when that is nothing.
\<close>

theorem reconcile_reports:
  assumes "rt \<in> set (receipts (after_calls cs emptyLedger))" and "r_parentReceiptId rt = None"
  shows "\<exists>rc. reconcileRoot (r_id rt) (after_calls cs emptyLedger) = Some rc \<and>
    rc_leafSum rc = leafVolume (r_id rt) (after_calls cs emptyLedger) \<and> rc_rootQuantity rc = r_quantity rt \<and>
    rc_gap rc = r_quantity rt - leafVolume (r_id rt) (after_calls cs emptyLedger) \<and>
    (rc_balanced rc \<longleftrightarrow> leafVolume (r_id rt) (after_calls cs emptyLedger) = r_quantity rt)"
proof -
  have "ledger_wf (after_calls cs emptyLedger)" by (rule after_calls_empty(1))
  then have "ids_unique (after_calls cs emptyLedger)" "tree_ok (after_calls cs emptyLedger)"
    by (simp_all add: ledger_wf_def)
  from reconcileRoot_gap [OF this assms] obtain rc where
    "reconcileRoot (r_id rt) (after_calls cs emptyLedger) = Some rc"
    "rc_leafSum rc = leafVolume (r_id rt) (after_calls cs emptyLedger)" "rc_rootQuantity rc = r_quantity rt"
    "rc_gap rc = - drift (r_id rt) (after_calls cs emptyLedger)"
    "rc_balanced rc = (drift (r_id rt) (after_calls cs emptyLedger) = 0)" by blast
  then show ?thesis by (intro exI [of _ rc]) (auto simp: reconcileRoot_def Let_def split: option.splits)
qed

theorem reconcile_reports_witness:
  "\<exists>rc. reconcileRoot ''r1'' exHeld = Some rc \<and> rc_rootQuantity rc = 10 \<and> rc_leafSum rc = leafVolume ''r1'' exHeld"
proof -
  have rt: "hd (receipts exHeld) \<in> set (receipts exHeld)" "r_parentReceiptId (hd (receipts exHeld)) = None"
    "r_id (hd (receipts exHeld)) = ''r1''" "r_quantity (hd (receipts exHeld)) = 10" by code_simp+
  from reconcile_reports [of _ exCalls, unfolded exCalls_held, OF rt(1,2)] rt(3,4) show ?thesis by auto
qed

text \<open>
  C10. The lineage query from any receipt ends, and is the chain of parents from the root of
  its tree down to the receipt.
\<close>

theorem lineage_correct:
  assumes "r \<in> set (receipts (after_calls cs emptyLedger))"
  shows "\<exists>path. pathToRoot (r_id r) (after_calls cs emptyLedger) = Some path \<and> path \<noteq> [] \<and> last path = r \<and>
    r_parentReceiptId (hd path) = None \<and> r_id (hd path) = r_rootReceiptId r \<and>
    successively (\<lambda>a b. r_parentReceiptId b = Some (r_id a)) path"
proof -
  have "ledger_wf (after_calls cs emptyLedger)" by (rule after_calls_empty(1))
  then have "ids_unique (after_calls cs emptyLedger)" "tree_ok (after_calls cs emptyLedger)"
    by (simp_all add: ledger_wf_def)
  from pathToRoot_ends [OF this assms] show ?thesis .
qed

theorem lineage_correct_witness:
  "\<exists>path. pathToRoot (r_id (last (receipts exHeld))) exHeld = Some path \<and> r_id (hd path) = ''r1'' \<and>
    last path = last (receipts exHeld)"
proof -
  have r: "last (receipts exHeld) \<in> set (receipts exHeld)" "r_rootReceiptId (last (receipts exHeld)) = ''r1''"
    by code_simp+
  from lineage_correct [of _ exCalls, unfolded exCalls_held, OF r(1)] r(2) show ?thesis by auto
qed

section \<open>Reads\<close>

text \<open>
  Filtering a list by a group shows exactly the receipts whose displayed group it is:
  the group a page shows for its rows is the one asked for, and every matching receipt of
  that group is counted.
\<close>

theorem group_filter_agrees:
  assumes "ledger_wf s" and "lo_group opts = Some g"
  shows "(\<forall>v \<in> set (pg_items (listReceipts tenantId opts s)). v_group v = g) \<and>
    pg_total (listReceipts tenantId opts s) =
      length (filter (\<lambda>r. matches_opts tenantId (opts\<lparr>lo_group := None\<rparr>) s r \<and>
        deriveGroup (r_status r) (r_approvalStatus r) = g) (receipts s))"
proof -
  have st: "statuses_ok s" using assms(1) by (simp add: ledger_wf_def)
  have eq: "matches_opts tenantId opts s r \<longleftrightarrow> matches_opts tenantId (opts\<lparr>lo_group := None\<rparr>) s r \<and>
      deriveGroup (r_status r) (r_approvalStatus r) = g" if "r \<in> set (receipts s)" for r
    using group_listed [OF st that, of g] assms(2) by (auto simp: matches_opts_def)
  have f: "filter (matches_opts tenantId opts s) (receipts s) = filter (\<lambda>r. matches_opts tenantId (opts\<lparr>lo_group := None\<rparr>) s r \<and>
        deriveGroup (r_status r) (r_approvalStatus r) = g) (receipts s)"
    by (rule filter_cong) (simp_all add: eq)
  show ?thesis
    unfolding listReceipts_def Let_def f
    by (auto simp: page_of_def receiptLine_def dest!: in_set_takeD in_set_dropD)
qed

theorem group_filter_agrees_witness:
  "v_group ` set (pg_items (listReceipts ''t'' \<lparr>lo_group = Some G_LIENED, lo_clientId = None, lo_warehouseIds = None,
      lo_page = None, lo_limit = None, lo_search = None\<rparr> exPledged)) \<subseteq> {G_LIENED} \<and>
   pg_total (listReceipts ''t'' \<lparr>lo_group = Some G_LIENED, lo_clientId = None, lo_warehouseIds = None,
      lo_page = None, lo_limit = None, lo_search = None\<rparr> exPledged) = 1"
proof -
  let ?o = "\<lparr>lo_group = Some G_LIENED, lo_clientId = None, lo_warehouseIds = None, lo_page = None, lo_limit = None,
    lo_search = None\<rparr>"
  have n: "length (filter (\<lambda>r. matches_opts ''t'' (?o\<lparr>lo_group := None\<rparr>) exPledged r \<and>
        deriveGroup (r_status r) (r_approvalStatus r) = G_LIENED) (receipts exPledged)) = 1" by code_simp
  from group_filter_agrees [OF exPledged_wf, of ?o G_LIENED "''t''"] n show ?thesis by auto
qed

text \<open>
  The balance of a client has one row per commodity of which they own something
  available or locked, with the sums over exactly those receipts.
\<close>

theorem balance_complete:
  "distinct (map b_commodityId (getBalance t c s)) \<and>
   (\<lambda>b. (b_commodityId b, b_available b, b_locked b, b_total b)) ` set (getBalance t c s) =
     (\<lambda>k. let available = volume (filter (\<lambda>r. r_tenantId r = t \<and> r_clientId r = c \<and> r_status r = ACTIVE \<and>
              r_approvalStatus r = APPROVED \<and> r_commodityId r = k) (receipts s));
            locked = volume (filter (\<lambda>r. r_tenantId r = t \<and> r_clientId r = c \<and> r_status r \<in> set HELD \<and>
              r_commodityId r = k) (receipts s))
          in (k, available, locked, available + locked)) `
       r_commodityId ` {r \<in> set (receipts s). r_tenantId r = t \<and> r_clientId r = c \<and>
         (r_status r = ACTIVE \<and> r_approvalStatus r = APPROVED \<or> r_status r \<in> set HELD)}"
proof -
  note spec = getBalance_spec [of t c s]
  let ?ks = "r_commodityId ` {r \<in> set (receipts s). owned t c r \<and> (is_available r \<or> is_locked r)}"
  have "(\<lambda>b. (b_commodityId b, b_available b, b_locked b, b_total b)) ` set (getBalance t c s) =
      (\<lambda>k. (k, availableOf t c k s, lockedOf t c k s, availableOf t c k s + lockedOf t c k s)) ` b_commodityId ` set (getBalance t c s)"
    unfolding image_image by (rule image_cong [OF refl]) (simp add: spec)
  also have "b_commodityId ` set (getBalance t c s) = ?ks" using spec by blast
  finally show ?thesis using spec
    by (simp add: Let_def availableOf_def lockedOf_def owned_def is_available_def is_locked_def conj_ac cong: filter_cong)
qed

text \<open>
  The storage-fee policy that is applied is an active one of the tenant that covers the
  warehouse and the commodity, and none that covers them is more specific; only when there is
  none at all is the lookup an error.
\<close>

theorem policy_most_specific:
  "(\<forall>p. resolvePolicy t w c s = Inr p \<longrightarrow>
      p \<in> set (policies s) \<and> policy_applies t w c p \<and>
      (\<forall>q. q \<in> set (policies s) \<and> policy_applies t w c q \<longrightarrow> specificity q \<le> specificity p)) \<and>
   (\<forall>e. resolvePolicy t w c s = Inl e \<longrightarrow> (\<forall>q. q \<in> set (policies s) \<longrightarrow> \<not> policy_applies t w c q))"
  using resolve_Some [of t w c s] resolve_None [of t w c s]
  by (auto simp: resolvePolicy_def split: option.splits)

theorem policy_most_specific_witness:
  "resolvePolicy ''t'' ''w'' ''maize'' exStore0 = Inr exPolicy \<and> policy_applies ''t'' ''w'' ''maize'' exPolicy"
proof -
  have r: "resolvePolicy ''t'' ''w'' ''maize'' exStore0 = Inr exPolicy" by code_simp
  with policy_most_specific [of "''t''" "''w''" "''maize''" exStore0] show ?thesis by blast
qed

text \<open>
  Asking for the pages of a listing one after the other, up to the number of pages it
  reports, shows every matching row exactly once and in order.
\<close>

theorem pages_cover:
  assumes "limitParam limit = Some l"
  shows "concat (map (\<lambda>k. page_of k l (rows s)) [1 ..< Suc (total_pages (length (rows s)) l)]) = rows s \<and>
    (\<forall>page p. pageParam page = Some p \<longrightarrow> paginate page limit rows s =
       (Inr \<lparr>pg_items = page_of p l (rows s), pg_total = length (rows s), pg_page = p, pg_limit = l,
          pg_totalPages = total_pages (length (rows s)) l\<rparr>, s))"
proof -
  have "0 < l" using assms by (auto simp: limitParam_def)
  have "paginate page limit rows s = (Inr \<lparr>pg_items = page_of p l (rows s), pg_total = length (rows s), pg_page = p,
      pg_limit = l, pg_totalPages = total_pages (length (rows s)) l\<rparr>, s)" if "pageParam page = Some p" for page p
    using that by (simp add: paginate_def bindM_def requireM_def getsM_def returnM_def assms)
  with pages_tile [OF \<open>0 < l\<close>] show ?thesis by blast
qed

theorem pages_cover_witness:
  "limitParam (Some ''2'') = Some 2 \<and>
   concat (map (\<lambda>k. page_of k 2 (map r_id (receipts exPledged))) [1 ..< 3]) = [''r1'', ''p2'', ''p3'']"
proof -
  have l: "limitParam (Some ''2'') = Some 2" and ids: "map r_id (receipts exPledged) = [''r1'', ''p2'', ''p3'']"
    by code_simp+
  from pages_cover [OF l, of "\<lambda>s. map r_id (receipts s)" exPledged] ids l show ?thesis
    by (simp add: total_pages_def numeral_3_eq_3)
qed

end
