(* ===== verification/Holding.thy ===== *)
theory Holding
  imports Collateral_Base
begin

text \<open>
  The contract of a hold. The services that lock a part of a receipt (pledges, loans, trade
  listings, paid withdrawals) make one ledger call and record the row it returns. What they
  rely on: the call is lawful for the ledger, touches no other table, changes nothing when it
  fails, and, the first time its key is used, splits an ACTIVE receipt of the tenant and
  returns a fresh row in the status asked for.
\<close>

locale holding =
  fixes hold_row :: "hold_input \<Rightarrow> hold_result handler"
  assumes hold_lawful: "confined lawful (hold_row inp)"
    and hold_more: "hold_row inp s = (r, s') \<Longrightarrow> ledger.more s' = ledger.more s"
    and hold_failed: "hold_row inp s = (Inl e, s') \<Longrightarrow> s' = s"
    and hold_first: "ledger_wf s \<Longrightarrow> findEventByKey (h_idempotencyKey inp) s = None \<Longrightarrow> hold_row inp s = (Inr res, s') \<Longrightarrow>
      \<exists>src p now. src \<in> set (receipts s) \<and> holdable inp src \<and> hr_held res = Some p \<and>
        r_status p = of_held (h_heldStatus inp) \<and> r_clientId p = r_clientId src \<and> r_tenantId p = r_tenantId src \<and>
        r_quantity p = to_scale 3 (h_quantity inp) \<and>
        receipts s' = upd_row r_id (r_id src) (splitMark now) (receipts s) @ kidsOf p (hr_remainder res)"
begin

text \<open>What a first hold shows by row: the source is split, the held row is new.\<close>

lemma held_row:
  assumes wf: "ledger_wf s" and key: "findEventByKey (h_idempotencyKey inp) s = None"
    and run: "hold_row inp s = (Inr res, s')"
  shows "\<exists>src p x. find_row r_id (h_sourceReceiptId inp) (receipts s) = Some src \<and> holdable inp src \<and>
    find_row r_id (h_sourceReceiptId inp) (receipts s') = Some x \<and> r_status x = SPLIT \<and>
    hr_held res = Some p \<and> find_row r_id (r_id p) (receipts s) = None \<and>
    find_row r_id (r_id p) (receipts s') = Some p \<and> r_status p = of_held (h_heldStatus inp) \<and>
    r_clientId p = r_clientId src \<and> r_tenantId p = h_tenantId inp \<and> r_quantity p = to_scale 3 (h_quantity inp) \<and>
    ledger.more s' = ledger.more s"
proof -
  obtain src p now where src: "src \<in> set (receipts s)" "holdable inp src" and p: "hr_held res = Some p"
    "r_status p = of_held (h_heldStatus inp)" "r_clientId p = r_clientId src" "r_tenantId p = r_tenantId src"
    "r_quantity p = to_scale 3 (h_quantity inp)"
    and rows: "receipts s' = upd_row r_id (r_id src) (splitMark now) (receipts s) @ kidsOf p (hr_remainder res)"
    using hold_first [OF wf key run] by blast
  have u: "ids_unique s" "ids_unique s'" using wf confined_wf [OF hold_lawful run wf] by (simp_all add: ledger_wf_def)
  have d: "distinct (map r_id (upd_row r_id (r_id src) (splitMark now) (receipts s) @ kidsOf p (hr_remainder res)))"
    using u(2) rows by (simp add: ids_unique_def)
  have pin: "p \<in> set (receipts s')" using rows by (simp add: kidsOf_def)
  have new: "find_row r_id (r_id p) (receipts s) = None"
    using d by (auto simp: find_row_None_iff kidsOf_def map_upd_row)
  have f: "find_row r_id (r_id src) (receipts s) = Some src" using find_root [OF u(1) src(1)] .
  have "find_row r_id (r_id src) (receipts s') = Some (splitMark now src)"
    using f by (simp add: rows find_row_append find_row_upd_row)
  moreover have "r_id src = h_sourceReceiptId inp" "r_tenantId src = h_tenantId inp"
    using src(2) by (simp_all add: holdable_def)
  ultimately show ?thesis using f src p new find_root [OF u(2) pin] hold_more [OF run] by auto
qed

end

interpretation held: holding "ledgerHold ev i j now" for ev i j now
proof
  fix inp s r s' e res
  show "confined lawful (ledgerHold ev i j now inp)" by (rule confined_hold)
  show "ledgerHold ev i j now inp s = (r, s') \<Longrightarrow> ledger.more s' = ledger.more s" by (rule ledgerHold_more)
  show "ledgerHold ev i j now inp s = (Inl e, s') \<Longrightarrow> s' = s"
    unfolding ledgerHold_def atOnce_def hold_def by (erule idempotent_failed)
  assume wf: "ledger_wf s" and "findEventByKey (h_idempotencyKey inp) s = None"
    and "ledgerHold ev i j now inp s = (Inr res, s')"
  then have "holdTx ev i j now inp s = Inr (res, s')"
    unfolding ledgerHold_def atOnce_def hold_def by (intro idempotent_first)
  then show "\<exists>src p now. src \<in> set (receipts s) \<and> holdable inp src \<and> hr_held res = Some p \<and>
        r_status p = of_held (h_heldStatus inp) \<and> r_clientId p = r_clientId src \<and> r_tenantId p = r_tenantId src \<and>
        r_quantity p = to_scale 3 (h_quantity inp) \<and>
        receipts s' = upd_row r_id (r_id src) (splitMark now) (receipts s) @ kidsOf p (hr_remainder res)"
    by (rule holdTx_leaves [OF _ wf]) blast
qed

end
