(* ===== verification/Lifecycle.thy ===== *)
theory Lifecycle
  imports Prelude
begin

text \<open>
  Rules about whole handlers beyond those of the prelude: case distinctions, handlers that only
  read, commits that follow a check; and tables whose rows live on.
\<close>

section \<open>Rules for handlers\<close>

lemma confined_if: "confined R a \<Longrightarrow> confined R b \<Longrightarrow> confined R (if c then a else b)"
  by simp

lemma confined_option:
  "confined R a \<Longrightarrow> (\<And>y. confined R (f y)) \<Longrightarrow> confined R (case x of None \<Rightarrow> a | Some y \<Rightarrow> f y)"
  by (simp split: option.split)

lemma confined_prod: "(\<And>a b. confined R (f a b)) \<Longrightarrow> confined R (case x of (a, b) \<Rightarrow> f a b)"
  by (simp split: prod.split)

lemma confined_sum:
  "(\<And>a. confined R (f a)) \<Longrightarrow> (\<And>b. confined R (g b)) \<Longrightarrow> confined R (case x of Inl a \<Rightarrow> f a | Inr b \<Rightarrow> g b)"
  by (simp split: sum.split)

lemma transactM_run [simp]: "transactM t s = (Inr x, s') \<longleftrightarrow> t s = Inr (x, s')"
  by (auto simp: transactM_def split: sum.splits)

text \<open>A handler that only reads, and a commit that follows a check on the state it looked at.\<close>

interpretation reading: evolution "\<lambda>s s'. s' = s"
  by unfold_locales auto

definition reads :: "('s, 'e, 'a) io \<Rightarrow> bool" where
  "reads m \<longleftrightarrow> confined (\<lambda>s s'. s' = s) m"

lemma readsD: "reads m \<Longrightarrow> m s = (r, s') \<Longrightarrow> s' = s"
  unfolding reads_def by (rule confinedD)

lemmas reads_rules = reading.confined_rules [folded reads_def]

lemma reads_bind: "reads m \<Longrightarrow> (\<And>a. reads (f a)) \<Longrightarrow> reads (bindM m f)"
  unfolding reads_def by (rule reading.confined_bind)

context evolution
begin

lemma confined_reads: "reads m \<Longrightarrow> confined R m"
  by (auto intro!: confinedI dest: readsD simp: stays)

lemma confined_after_read:
  assumes "reads m" and "\<And>s a r s'. m s = (Inr a, s) \<Longrightarrow> f a s = (r, s') \<Longrightarrow> R s s'"
  shows "confined R (bindM m f)"
proof (rule confinedI)
  fix s r s' assume run: "bindM m f s = (r, s')"
  obtain x s1 where m: "m s = (x, s1)" by fastforce
  with assms(1) have "s1 = s" by (blast dest: readsD)
  with m run assms(2) show "R s s'" by (cases x) (auto simp: bindM_def stays)
qed

lemma confined_snd: "confined R m \<Longrightarrow> R s (snd (m s))"
  by (erule confinedD) (rule prod.collapse [symmetric])

lemma along: "(\<And>c s. R s (step c s)) \<Longrightarrow> R s (fold step cs s)"
proof (induction cs arbitrary: s)
  case (Cons c cs)
  then have "R s (step c s)" "R (step c s) (fold step cs (step c s))" by blast+
  then show ?case by (auto intro: continues)
qed (simp add: stays)

end

lemma distinct_filter_map:
  assumes "distinct (map k (filter P rows))" and "\<And>x. x \<in> set rows \<Longrightarrow> P (h x) \<Longrightarrow> P x \<and> k (h x) = k x"
  shows "distinct (map k (filter P (map h rows)))"
  using assms
proof (induction rows)
  case (Cons x rows)
  have "k ` set (filter P (map h rows)) \<subseteq> k ` set (filter P rows)"
    using Cons.prems(2) by force
  with Cons show ?case by (auto split: if_splits)
qed simp

section \<open>Rows that live on\<close>

text \<open>
  Tables whose rows are never deleted: a later table is the earlier one, each row moved along
  its life, and new rows. \<open>moves\<close> says how a row may change; what a component needs of it is the
  locale's contract.
\<close>

definition grows :: "('r \<Rightarrow> 'r \<Rightarrow> bool) \<Rightarrow> 'r list \<Rightarrow> 'r list \<Rightarrow> bool" where
  "grows moves rows rows' \<longleftrightarrow> (\<exists>old new. rows' = old @ new \<and> list_all2 moves rows old)"

locale lifecycle =
  fixes key :: "'r \<Rightarrow> 'k" and moves :: "'r \<Rightarrow> 'r \<Rightarrow> bool"
  assumes stays: "moves r r"
    and continues: "moves r r' \<Longrightarrow> moves r' r'' \<Longrightarrow> moves r r''"
    and same_key: "moves r r' \<Longrightarrow> key r' = key r"
begin

lemma grows_map: "(\<And>r. r \<in> set rows \<Longrightarrow> moves r (h r)) \<Longrightarrow> grows moves rows (map h rows)"
  unfolding grows_def by (intro exI [of _ "map h rows"] exI [of _ "[]"]) (simp add: list_all2_map2 list_all2_same)

lemma grows_refl: "grows moves rows rows"
  using grows_map [of rows "\<lambda>r. r"] stays by simp

lemma grows_append: "grows moves rows (rows @ new)"
  unfolding grows_def by (intro exI [of _ rows] exI [of _ new]) (simp add: list_all2_same stays)

lemma grows_trans:
  assumes "grows moves as bs" and "grows moves bs cs"
  shows "grows moves as cs"
proof -
  obtain old new where b: "bs = old @ new" "list_all2 moves as old" using assms(1) by (auto simp: grows_def)
  obtain old' new' where c: "cs = old' @ new'" "list_all2 moves bs old'" using assms(2) by (auto simp: grows_def)
  from c(2) b(1) obtain o1 o2 where o': "old' = o1 @ o2" "list_all2 moves old o1" by (auto simp: list_all2_append1)
  have "list_all2 moves as o1" using b(2) o'(2) unfolding list_all2_conv_all_nth by (metis continues)
  with c(1) o'(1) show ?thesis unfolding grows_def by (intro exI [of _ o1] exI [of _ "o2 @ new'"]) simp
qed

text \<open>An update by key of the one row the key stands for.\<close>

lemma upd_row_moves:
  assumes d: "distinct (map key rows)" and r: "find_row key k rows = Some r" and m: "moves r (f r)" and x: "x \<in> set rows"
  shows "moves x (if key x = k then f x else x)"
proof (cases "key x = k")
  case True
  with d r x have "x = r" using find_row_Some_iff [OF d, of k x] by simp
  with m True show ?thesis by simp
qed (simp add: stays)

lemma grows_upd_row:
  assumes "distinct (map key rows)" and "find_row key k rows = Some r" and "moves r (f r)"
  shows "grows moves rows (upd_row key k f rows)" and "map key (upd_row key k f rows) = map key rows"
proof -
  note m = upd_row_moves [where f = f, OF assms]
  show "grows moves rows (upd_row key k f rows)" unfolding upd_row_def by (rule grows_map) (rule m)
  show "map key (upd_row key k f rows) = map key rows"
    using same_key [OF m] by (simp add: upd_row_def)
qed

lemma grows_keeps:
  assumes "grows moves rows rows'" and "r \<in> set rows"
  shows "\<exists>r' \<in> set rows'. moves r r'"
proof -
  obtain old new where o': "rows' = old @ new" "list_all2 moves rows old" using assms(1) by (auto simp: grows_def)
  from assms(2) obtain i where i: "i < length rows" "r = rows ! i" by (auto simp: in_set_conv_nth)
  with o' have "moves r (old ! i)" "old ! i \<in> set old" by (simp_all add: list_all2_conv_all_nth)
  with o'(1) show ?thesis by auto
qed

end

end
