(* ===== verification/Grading_Service.thy ===== *)
theory Grading_Service
  imports Operations_Base "HOL-Library.AList"
begin

text \<open>
  The grading configuration of a tenant, \<open>src/grading/grading.service.ts\<close>: commodities,
  their grading parameters with one threshold per grade, the warehouses that accept them, and
  the scoring of measurements on a configured commodity.

  The request bodies are taken to have the declared types.
\<close>

section \<open>Lookups\<close>

definition commodityOfTenant :: "uuid \<Rightarrow> uuid \<Rightarrow> store \<Rightarrow> commodity option" where
  "commodityOfTenant tenantId i s = find (\<lambda>c. co_id c = i \<and> co_tenantId c = tenantId) (commodities s)"

definition requireCommodity :: "uuid \<Rightarrow> uuid \<Rightarrow> commodity handler" where
  "requireCommodity tenantId i =
     bindM (getsM (commodityOfTenant tenantId i)) (requireM (NotFound ''Commodity not found''))"

text \<open>The relation \<open>commodity.gradingParameters\<close>.\<close>

definition parametersOf :: "uuid \<Rightarrow> store \<Rightarrow> grading_parameter list" where
  "parametersOf commodityId s = filter (\<lambda>p. gp_commodityId p = commodityId) (gradingParameters s)"

definition toInput :: "grading_parameter \<Rightarrow> grading_input" where
  "toInput p = \<lparr>gi_name = gp_name p, gi_unit = gp_unit p, gi_isDefective = gp_isDefective p,
     gi_thresholds = gp_thresholds p\<rparr>"

section \<open>Commodities\<close>

record create_commodity_dto =
  cc_name :: string
  cc_code :: "string option"
  cc_unitOfMeasure :: string
  cc_gradingLogic :: "string option"
  cc_numberOfGrades :: "int option"
  cc_standardBagWeightKg :: "dec option"
  cc_description :: "string option"

record commodity_row =
  cw_commodity :: commodity
  cw_parameters :: "grading_parameter list"
  cw_receipts :: nat
  cw_warehouseCommodities :: nat

definition getCommodities :: "uuid \<Rightarrow> store \<Rightarrow> commodity_row list" where
  "getCommodities tenantId s =
     map (\<lambda>c. \<lparr>cw_commodity = c, cw_parameters = parametersOf (co_id c) s,
         cw_receipts = length (filter (\<lambda>r. r_commodityId r = co_id c) (receipts s)),
         cw_warehouseCommodities = length (filter (\<lambda>w. wc_commodityId w = co_id c) (warehouseCommodities s))\<rparr>)
       (sort_key co_name (filter (\<lambda>c. co_tenantId c = tenantId) (commodities s)))"

text \<open>Names and codes are unique over all tenants; a commodity without a code clashes with none.\<close>

definition commodityClash :: "commodity \<Rightarrow> commodity list \<Rightarrow> string option" where
  "commodityClash c others =
     (if co_id c \<in> co_id ` set others then Some ''id''
      else if co_name c \<in> co_name ` set others then Some ''name''
      else if co_code c \<noteq> None \<and> co_code c \<in> co_code ` set others then Some ''code''
      else None)"

definition createCommodity :: "uuid \<Rightarrow> uuid \<Rightarrow> create_commodity_dto \<Rightarrow> commodity handler" where
  "createCommodity i tenantId dto =
     (let c = \<lparr>co_id = i, co_tenantId = tenantId, co_name = cc_name dto, co_unitOfMeasure = cc_unitOfMeasure dto,
            co_standardBagWeightKg = cc_standardBagWeightKg dto, co_code = cc_code dto,
            co_description = cc_description dto,
            co_gradingLogic = (case cc_gradingLogic dto of None \<Rightarrow> ''PERCENTAGE'' | Some g \<Rightarrow> g),
            co_numberOfGrades = (case cc_numberOfGrades dto of None \<Rightarrow> 3 | Some n \<Rightarrow> n)\<rparr>
      in transactM (\<lambda>s. case commodityClash c (commodities s) of
           Some target \<Rightarrow> Inl (Db (P2002 target))
         | None \<Rightarrow> Inr (c, s\<lparr>commodities := commodities s @ [c]\<rparr>)))"

record update_commodity_dto =
  uc_name :: "string option"
  uc_code :: "string option"
  uc_unitOfMeasure :: "string option"
  uc_gradingLogic :: "string option"
  uc_numberOfGrades :: "int option"
  uc_standardBagWeightKg :: "dec option"
  uc_description :: "string option"

definition given :: "'a option \<Rightarrow> 'a \<Rightarrow> 'a" where
  "given x old = (case x of None \<Rightarrow> old | Some v \<Rightarrow> v)"

definition givenOpt :: "'a option \<Rightarrow> 'a option \<Rightarrow> 'a option" where
  "givenOpt x old = (case x of None \<Rightarrow> old | Some v \<Rightarrow> Some v)"

definition editedCommodity :: "update_commodity_dto \<Rightarrow> commodity \<Rightarrow> commodity" where
  "editedCommodity dto c = c\<lparr>co_name := given (uc_name dto) (co_name c), co_code := givenOpt (uc_code dto) (co_code c),
     co_unitOfMeasure := given (uc_unitOfMeasure dto) (co_unitOfMeasure c),
     co_gradingLogic := given (uc_gradingLogic dto) (co_gradingLogic c),
     co_numberOfGrades := given (uc_numberOfGrades dto) (co_numberOfGrades c),
     co_standardBagWeightKg := givenOpt (uc_standardBagWeightKg dto) (co_standardBagWeightKg c),
     co_description := givenOpt (uc_description dto) (co_description c)\<rparr>"

definition updateCommodity :: "uuid \<Rightarrow> uuid \<Rightarrow> update_commodity_dto \<Rightarrow> commodity handler" where
  "updateCommodity tenantId i dto =
     bindM (requireCommodity tenantId i) (\<lambda>c.
       transactM (\<lambda>s. let c' = editedCommodity dto c in
         case commodityClash c' (filter (\<lambda>x. co_id x \<noteq> i) (commodities s)) of
           Some target \<Rightarrow> Inl (Db (P2002 target))
         | None \<Rightarrow> Inr (c', s\<lparr>commodities := upd_row co_id i (\<lambda>_. c') (commodities s)\<rparr>)))"

section \<open>Grading parameters\<close>

definition getParameters :: "uuid \<Rightarrow> uuid \<Rightarrow> grading_parameter list handler" where
  "getParameters tenantId commodityId =
     bindM (requireCommodity tenantId commodityId) (\<lambda>_.
       getsM (\<lambda>s. sort_key gp_name (filter (\<lambda>p. gp_tenantId p = tenantId) (parametersOf commodityId s))))"

record parameter_dto =
  pm_name :: string
  pm_unit :: string
  pm_isDefective :: bool
  pm_thresholds :: numbers

definition insertParameter :: "grading_parameter \<Rightarrow> store \<Rightarrow> err + grading_parameter \<times> store" where
  "insertParameter p s =
     (if gp_id p \<in> gp_id ` set (gradingParameters s) then Inl (Db (P2002 ''id''))
      else if (gp_commodityId p, gp_name p) \<in> (\<lambda>q. (gp_commodityId q, gp_name q)) ` set (gradingParameters s)
      then Inl (Db (P2002 ''commodity_id,name''))
      else Inr (p, s\<lparr>gradingParameters := gradingParameters s @ [p]\<rparr>))"

definition addParameter :: "uuid \<Rightarrow> uuid \<Rightarrow> uuid \<Rightarrow> parameter_dto \<Rightarrow> grading_parameter handler" where
  "addParameter i tenantId commodityId dto =
     bindM (requireCommodity tenantId commodityId) (\<lambda>c.
     let expected = gradeLabels (co_numberOfGrades c);
         provided = map fst (pm_thresholds dto);
         missing = filter (\<lambda>g. g \<notin> set provided) expected;
         extra = filter (\<lambda>k. k \<notin> set expected) provided
     in bindM (failIfM (missing \<noteq> []) (BadRequest (''Missing threshold keys: '' @ comma_join missing))) (\<lambda>_.
        bindM (failIfM (extra \<noteq> []) (BadRequest (''Extra threshold keys: '' @ comma_join extra))) (\<lambda>_.
          transactM (insertParameter
            \<lparr>gp_id = i, gp_tenantId = tenantId, gp_commodityId = commodityId, gp_name = pm_name dto,
             gp_unit = pm_unit dto, gp_isDefective = pm_isDefective dto, gp_thresholds = pm_thresholds dto\<rparr>))))"

record update_parameter_dto =
  up_name :: "string option"
  up_unit :: "string option"
  up_isDefective :: "bool option"
  up_thresholds :: "numbers option"

definition editedParameter :: "update_parameter_dto \<Rightarrow> grading_parameter \<Rightarrow> grading_parameter" where
  "editedParameter dto p = p\<lparr>gp_name := given (up_name dto) (gp_name p), gp_unit := given (up_unit dto) (gp_unit p),
     gp_isDefective := given (up_isDefective dto) (gp_isDefective p),
     gp_thresholds := given (up_thresholds dto) (gp_thresholds p)\<rparr>"

definition requireParameter :: "uuid \<Rightarrow> uuid \<Rightarrow> grading_parameter handler" where
  "requireParameter tenantId i =
     bindM (getsM (\<lambda>s. find (\<lambda>p. gp_id p = i \<and> gp_tenantId p = tenantId) (gradingParameters s)))
       (requireM (NotFound ''Grading parameter not found''))"

definition updateParameter :: "uuid \<Rightarrow> uuid \<Rightarrow> update_parameter_dto \<Rightarrow> grading_parameter handler" where
  "updateParameter tenantId i dto =
     bindM (requireParameter tenantId i) (\<lambda>p.
       transactM (\<lambda>s. let p' = editedParameter dto p in
         if (gp_commodityId p', gp_name p') \<in>
             (\<lambda>q. (gp_commodityId q, gp_name q)) ` set (filter (\<lambda>q. gp_id q \<noteq> i) (gradingParameters s))
         then Inl (Db (P2002 ''commodity_id,name''))
         else Inr (p', s\<lparr>gradingParameters := upd_row gp_id i (\<lambda>_. p') (gradingParameters s)\<rparr>)))"

definition deleteParameter :: "uuid \<Rightarrow> uuid \<Rightarrow> grading_parameter handler" where
  "deleteParameter tenantId i =
     bindM (requireParameter tenantId i) (\<lambda>p.
     bindM (modifyM (\<lambda>s. s\<lparr>gradingParameters := filter (\<lambda>q. gp_id q \<noteq> i) (gradingParameters s)\<rparr>)) (\<lambda>_.
       returnM p))"

section \<open>Warehouses that accept a commodity\<close>

definition acceptsCommodity :: "uuid \<Rightarrow> uuid \<Rightarrow> store \<Rightarrow> bool" where
  "acceptsCommodity warehouseId commodityId s \<longleftrightarrow>
     list_ex (\<lambda>w. wc_warehouseId w = warehouseId \<and> wc_commodityId w = commodityId) (warehouseCommodities s)"

definition upsertAcceptance :: "uuid \<Rightarrow> uuid \<Rightarrow> uuid \<Rightarrow> uuid \<Rightarrow> unit handler" where
  "upsertAcceptance i tenantId commodityId warehouseId =
     modifyM (\<lambda>s. if acceptsCommodity warehouseId commodityId s then s
       else s\<lparr>warehouseCommodities := warehouseCommodities s @
         [\<lparr>wc_id = i, wc_warehouseId = warehouseId, wc_commodityId = commodityId, wc_tenantId = tenantId,
           wc_storageFeePerUnit = 0\<rparr>]\<rparr>)"

text \<open>\<open>ids n\<close> is the identifier drawn for the \<open>n\<close>-th warehouse of the list.\<close>

definition applyToWarehouses :: "(nat \<Rightarrow> uuid) \<Rightarrow> uuid \<Rightarrow> uuid \<Rightarrow> uuid list option \<Rightarrow> nat handler" where
  "applyToWarehouses ids tenantId commodityId warehouseIds =
     bindM (requireCommodity tenantId commodityId) (\<lambda>_.
     bindM (getsM (\<lambda>s. case warehouseIds of
         Some (w # ws) \<Rightarrow> w # ws
       | _ \<Rightarrow> map wh_id (filter (\<lambda>w. wh_tenantId w = tenantId) (warehouses s)))) (\<lambda>targets.
     bindM (forM (zip [0 ..< length targets] targets) (\<lambda>(n, w). upsertAcceptance (ids n) tenantId commodityId w)) (\<lambda>_.
       returnM (length targets))))"

section \<open>Scoring on a configured commodity\<close>

definition scoreWith :: "grading_parameter list \<Rightarrow> numbers \<Rightarrow> int \<Rightarrow> err + score_result" where
  "scoreWith ps measurements numberOfGrades =
     (case scoreSample \<lparr>si_parameters = map toInput ps, si_measurements = measurements,
             si_numberOfGrades = numberOfGrades\<rparr> of
        Inl message \<Rightarrow> Inl (BadRequest message)
      | Inr r \<Rightarrow> Inr r)"

definition liftErr :: "err + 'a \<Rightarrow> 'a handler" where
  "liftErr r = (case r of Inl e \<Rightarrow> throwM e | Inr a \<Rightarrow> returnM a)"

definition scorePreview :: "uuid \<Rightarrow> uuid \<Rightarrow> numbers \<Rightarrow> (string \<times> score_result) handler" where
  "scorePreview tenantId commodityId measurements =
     bindM (requireCommodity tenantId commodityId) (\<lambda>c.
     bindM (getsM (parametersOf commodityId)) (\<lambda>ps.
     bindM (failIfM (ps = []) (BadRequest ''This commodity has no grading parameters configured'')) (\<lambda>_.
     bindM (liftErr (scoreWith ps measurements (co_numberOfGrades c))) (\<lambda>r.
       returnM (co_name c, r)))))"

text \<open>
  Deposits give measurements by parameter id; the scorer wants them by name. An id unknown
  to the commodity is refused.
\<close>

definition nameOf :: "grading_parameter list \<Rightarrow> uuid \<Rightarrow> string" where
  "nameOf ps i = (case find_row gp_id i ps of None \<Rightarrow> [] | Some p \<Rightarrow> gp_name p)"

definition byName :: "grading_parameter list \<Rightarrow> numbers \<Rightarrow> numbers" where
  "byName ps measurements = fold (\<lambda>(i, v) obj. AList.update (nameOf ps i) v obj) measurements []"

definition scoreById :: "grading_parameter list \<Rightarrow> numbers \<Rightarrow> int \<Rightarrow> err + score_result" where
  "scoreById ps measurements numberOfGrades =
     (let unknownIds = filter (\<lambda>i. i \<notin> gp_id ` set ps) (map fst measurements)
      in if unknownIds \<noteq> [] then Inl (BadRequest (''Unknown grading parameter id(s): '' @ comma_join unknownIds))
         else scoreWith ps (byName ps measurements) numberOfGrades)"

section \<open>Facts\<close>

lemma liftErr_run [simp]: "liftErr (Inr a) s = (Inr a, s)" "liftErr (Inl e) s = (Inl e, s)"
  by (simp_all add: liftErr_def throwM_def returnM_def)

lemma liftErr_iff: "liftErr r s = (x, s') \<longleftrightarrow> r = x \<and> s' = s"
  by (cases r) auto

text \<open>
  A configured parameter has exactly the labels of its commodity: what \<open>addParameter\<close>
  establishes for the row it writes.
\<close>

definition labelled :: "commodity \<Rightarrow> grading_parameter \<Rightarrow> bool" where
  "labelled c p \<longleftrightarrow> fst ` set (gp_thresholds p) = set (gradeLabels (co_numberOfGrades c))"

lemma addParameter_labelled:
  assumes "addParameter i t k dto s = (Inr p, s')"
  shows "\<exists>c. commodityOfTenant t k s = Some c \<and> labelled c p \<and> s' = s\<lparr>gradingParameters := gradingParameters s @ [p]\<rparr> \<and>
    gp_id p = i \<and> gp_commodityId p = k \<and> (k, gp_name p) \<notin> (\<lambda>q. (gp_commodityId q, gp_name q)) ` set (gradingParameters s)"
proof -
  from assms obtain c where c: "commodityOfTenant t k s = Some c"
    and m: "filter (\<lambda>g. g \<notin> set (map fst (pm_thresholds dto))) (gradeLabels (co_numberOfGrades c)) = []"
    and x: "filter (\<lambda>k. k \<notin> set (gradeLabels (co_numberOfGrades c))) (map fst (pm_thresholds dto)) = []"
    and ins: "insertParameter \<lparr>gp_id = i, gp_tenantId = t, gp_commodityId = k, gp_name = pm_name dto,
             gp_unit = pm_unit dto, gp_isDefective = pm_isDefective dto, gp_thresholds = pm_thresholds dto\<rparr> s = Inr (p, s')"
    unfolding addParameter_def requireCommodity_def Let_def
    by (auto simp: bindM_Inr_iff transactM_def split: sum.splits prod.splits)
  from m x have "fst ` set (pm_thresholds dto) = set (gradeLabels (co_numberOfGrades c))"
    by (auto simp: filter_empty_conv)
  with c ins show ?thesis by (clarsimp simp: insertParameter_def labelled_def split: if_splits)
qed

text \<open>Parameters are unique by id, and by name within a commodity.\<close>

definition parameters_ok :: "grading_parameter list \<Rightarrow> bool" where
  "parameters_ok ps \<longleftrightarrow> distinct (map gp_id ps) \<and> distinct (map (\<lambda>q. (gp_commodityId q, gp_name q)) ps)"

lemma parametersOf_distinct:
  assumes "parameters_ok (gradingParameters s)"
  shows "distinct (map gp_id (parametersOf k s)) \<and> distinct (map gp_name (parametersOf k s))"
proof
  show "distinct (map gp_id (parametersOf k s))"
    using assms by (simp add: parameters_ok_def parametersOf_def distinct_map_filter)
  have "distinct (map (\<lambda>q. (gp_commodityId q, gp_name q)) (parametersOf k s))"
    using assms by (simp add: parameters_ok_def parametersOf_def distinct_map_filter)
  moreover have "map (\<lambda>q. (gp_commodityId q, gp_name q)) (parametersOf k s) = map (Pair k) (map gp_name (parametersOf k s))"
    by (auto simp: parametersOf_def)
  ultimately show "distinct (map gp_name (parametersOf k s))" by (metis distinct_map)
qed

lemma nameOf_member:
  assumes "distinct (map gp_id ps)" and "p \<in> set ps"
  shows "nameOf ps (gp_id p) = gp_name p"
  using find_row_Some_iff [OF assms(1), of "gp_id p" p] assms(2) by (simp add: nameOf_def)

lemma fold_byName:
  assumes "distinct (map fst m)" and "list_all (\<lambda>(i, v). nameOf ps i = n \<longrightarrow> i = k) m" and "nameOf ps k = n"
  shows "map_of (fold (\<lambda>(i, v) obj. AList.update (nameOf ps i) v obj) m obj) n =
    (case map_of m k of None \<Rightarrow> map_of obj n | Some v \<Rightarrow> Some v)"
  using assms
proof (induction m arbitrary: obj)
  case (Cons x m)
  obtain i v where x: "x = (i, v)" by (cases x)
  have none: "i = k \<Longrightarrow> map_of m k = None"
    using Cons.prems(1) by (auto simp: x map_of_eq_None_iff)
  show ?case
  proof (cases "i = k")
    case True
    with Cons none show ?thesis by (simp add: x update_conv)
  next
    case False
    with Cons.prems(2) have "nameOf ps i \<noteq> n" by (auto simp: x)
    with False Cons show ?thesis by (simp add: x update_conv split: option.split)
  qed
qed simp

lemma byName_map_of:
  assumes u: "distinct (map gp_id ps)" "distinct (map gp_name ps)"
    and m: "distinct (map fst m)" "fst ` set m \<subseteq> gp_id ` set ps" and p: "p \<in> set ps"
  shows "map_of (byName ps m) (gp_name p) = map_of m (gp_id p)"
proof -
  have "list_all (\<lambda>(i, v). nameOf ps i = gp_name p \<longrightarrow> i = gp_id p) m"
    unfolding list_all_iff
  proof (clarify)
    fix i v assume iv: "(i, v) \<in> set m" "nameOf ps i = gp_name p"
    then obtain q where q: "q \<in> set ps" "i = gp_id q" using m(2) by force
    with iv nameOf_member [OF u(1)] have "gp_name q = gp_name p" by simp
    with q p u(2) have "q = p" by (simp add: distinct_map inj_on_def)
    with q show "i = gp_id p" by simp
  qed
  from fold_byName [OF m(1) this nameOf_member [OF u(1) p], of "[]"] show ?thesis
    by (simp add: byName_def split: option.split)
qed

lemma byName_keys:
  "fst ` set (byName ps m) = nameOf ps ` fst ` set m"
proof -
  have "fst ` set (fold (\<lambda>(i, v) obj. AList.update (nameOf ps i) v obj) m obj) = fst ` set obj \<union> nameOf ps ` fst ` set m" for obj
    by (induction m arbitrary: obj) (auto simp: dom_update split: prod.splits)
  from this [of "[]"] show ?thesis by (simp add: byName_def)
qed

end
