(* ===== verification/Deposits.thy ===== *)
theory Deposits
  imports Grading_Service
begin

text \<open>
  Deposits: what a warehouse manager does with them in
  \<open>src/warehouse-manager/warehouse-manager.service.ts\<close> (the attachment of a client to a
  warehouse, the grading preview, filing and editing a deposit), and what an administrator
  does in \<open>src/admin/services/admin-receipt.service.ts\<close> (editing, approving and rejecting).

  An edit loads the receipt first and writes the changed columns later, in a transaction that
  does not look at the row again: \<open>applyDepositEdit\<close> takes the receipt as it was loaded.
\<close>

section \<open>Who may act on a warehouse\<close>

definition assertWarehouseScope :: "uuid \<Rightarrow> uuid \<Rightarrow> uuid \<Rightarrow> string list \<Rightarrow> unit handler" where
  "assertWarehouseScope tenantId managerUserId warehouseId actorRoles =
     bindM (getsM (\<lambda>s. list_ex (\<lambda>a. ma_tenantId a = tenantId \<and> ma_managerId a = managerUserId \<and>
         ma_warehouseId a = warehouseId \<and> ma_unassignedAt a = None) (assignments s))) (\<lambda>assigned.
       failIfM (\<not> isAdminRole actorRoles \<and> \<not> assigned) (Forbidden ''You are not assigned to this warehouse''))"

text \<open>
  \<open>WarehouseScopeService\<close>: no restriction for an administrator, else the warehouses the
  caller is assigned to. The roles are the effective ones.
\<close>

definition warehouseIds :: "uuid \<Rightarrow> uuid \<Rightarrow> string list \<Rightarrow> store \<Rightarrow> uuid list option" where
  "warehouseIds tenantId userId effective s =
     (if isAdminRole effective then None
      else Some (map ma_warehouseId (filter (\<lambda>a. ma_tenantId a = tenantId \<and> ma_managerId a = userId \<and>
        ma_unassignedAt a = None) (assignments s))))"

definition outOfScope :: "uuid list option \<Rightarrow> uuid \<Rightarrow> bool" where
  "outOfScope scope warehouseId \<longleftrightarrow> (case scope of None \<Rightarrow> False | Some ws \<Rightarrow> warehouseId \<notin> set ws)"

section \<open>Attaching clients to warehouses\<close>

definition attachedTo :: "uuid \<Rightarrow> uuid \<Rightarrow> uuid \<Rightarrow> attachment \<Rightarrow> bool" where
  "attachedTo tenantId clientId warehouseId a \<longleftrightarrow> at_tenantId a = tenantId \<and> at_clientId a = clientId \<and>
     at_warehouseId a = warehouseId \<and> at_detachedAt a = None"

definition newAttachment :: "uuid \<Rightarrow> uuid \<Rightarrow> uuid \<Rightarrow> uuid \<Rightarrow> uuid \<Rightarrow> string option \<Rightarrow> attachment" where
  "newAttachment i tenantId clientId warehouseId attachedById reason =
     \<lparr>at_id = i, at_tenantId = tenantId, at_clientId = clientId, at_warehouseId = warehouseId,
      at_attachedById = attachedById, at_detachedById = None, at_detachedAt = None, at_reason = reason\<rparr>"

definition createAttachment :: "attachment \<Rightarrow> attachment handler" where
  "createAttachment a = transactM (\<lambda>s.
     if at_id a \<in> at_id ` set (attachments s) then Inl (Db (P2002 ''id''))
     else Inr (a, s\<lparr>attachments := attachments s @ [a]\<rparr>))"

definition attachClientToWarehouse ::
    "uuid \<Rightarrow> uuid \<Rightarrow> uuid \<Rightarrow> string list \<Rightarrow> uuid \<Rightarrow> uuid \<Rightarrow> string option \<Rightarrow> attachment handler" where
  "attachClientToWarehouse i tenantId managerUserId effective warehouseId clientUserId reason =
     bindM (getsM (warehouseIds tenantId managerUserId effective)) (\<lambda>scope.
     bindM (failIfM (outOfScope scope warehouseId)
       (Forbidden ''You do not manage this warehouse and cannot attach clients to it'')) (\<lambda>_.
     bindM (getsM (\<lambda>s. find (\<lambda>c. cf_tenantId c = tenantId \<and> cf_userId c = clientUserId) (clientProfiles s))) (\<lambda>profile.
     bindM (requireM (NotFound ''Client not found in this tenant'') profile) (\<lambda>_.
     bindM (getsM (\<lambda>s. find (attachedTo tenantId clientUserId warehouseId) (attachments s))) (\<lambda>existing.
     bindM (failIfM (existing \<noteq> None) (Conflict ''CLIENT_ALREADY_ATTACHED'')) (\<lambda>_.
       createAttachment (newAttachment i tenantId clientUserId warehouseId managerUserId reason)))))))"

definition detachClientFromWarehouse ::
    "time \<Rightarrow> uuid \<Rightarrow> uuid \<Rightarrow> string list \<Rightarrow> uuid \<Rightarrow> uuid \<Rightarrow> string option \<Rightarrow> attachment handler" where
  "detachClientFromWarehouse now tenantId managerUserId effective warehouseId clientUserId reason =
     bindM (getsM (warehouseIds tenantId managerUserId effective)) (\<lambda>scope.
     bindM (failIfM (outOfScope scope warehouseId)
       (Forbidden ''You do not manage this warehouse and cannot detach clients from it'')) (\<lambda>_.
     bindM (getsM (\<lambda>s. find (attachedTo tenantId clientUserId warehouseId) (attachments s))) (\<lambda>active.
     bindM (requireM (NotFound ''No active attachment found between this client and warehouse'') active) (\<lambda>active.
     let detached = active\<lparr>at_detachedAt := Some now, at_detachedById := Some managerUserId,
           at_reason := (case reason of None \<Rightarrow> at_reason active | Some t \<Rightarrow> Some t)\<rparr>
     in bindM (modifyM (\<lambda>s. s\<lparr>attachments := upd_row at_id (at_id active) (\<lambda>_. detached) (attachments s)\<rparr>)) (\<lambda>_.
          returnM detached)))))"

section \<open>The form and its preview\<close>

record grading_form =
  gf_commodity :: commodity
  gf_parameters :: "grading_parameter list"

definition getCommodityGradingParameters :: "uuid \<Rightarrow> uuid \<Rightarrow> grading_form handler" where
  "getCommodityGradingParameters tenantId commodityId =
     bindM (requireCommodity tenantId commodityId) (\<lambda>c.
       getsM (\<lambda>s. \<lparr>gf_commodity = c, gf_parameters = sort_key gp_name (parametersOf commodityId s)\<rparr>))"

record preview_result =
  pv_commodity :: string
  pv_numberOfGrades :: int
  pv_acceptable :: bool
  pv_score :: score_result

definition previewGrading :: "uuid \<Rightarrow> uuid \<Rightarrow> numbers \<Rightarrow> preview_result handler" where
  "previewGrading tenantId commodityId measurements =
     bindM (requireCommodity tenantId commodityId) (\<lambda>c.
     bindM (getsM (parametersOf commodityId)) (\<lambda>ps.
     bindM (failIfM (ps = [])
       (BadRequest ''This commodity has no grading parameters configured'')) (\<lambda>_.
     bindM (liftErr (scoreById ps measurements (co_numberOfGrades c))) (\<lambda>scored.
       returnM \<lparr>pv_commodity = co_name c, pv_numberOfGrades = co_numberOfGrades c,
         pv_acceptable = (sc_computedGrade scored \<noteq> Some ''REJECTED''), pv_score = scored\<rparr>))))"

section \<open>Filing a deposit\<close>

record create_deposit_dto =
  dd_clientId :: uuid
  dd_commodityId :: uuid
  dd_warehouseId :: uuid
  dd_quantity :: dec
  dd_measurements :: numbers
  dd_grade :: "string option"
  dd_dateOfDeposit :: "time option"

definition findClient :: "uuid \<Rightarrow> uuid \<Rightarrow> store \<Rightarrow> user option" where
  "findClient tenantId i s =
     find (\<lambda>u. u_id u = i \<and> u_tenantId u = tenantId \<and> ''CLIENT'' \<in> set (u_roles u)) (users s)"

text \<open>
  A client is linked to a warehouse by an active attachment or by any receipt there. One
  registered by the calling manager is attached on the spot; any other is refused.
\<close>

definition linkedByHistory :: "uuid \<Rightarrow> uuid \<Rightarrow> uuid \<Rightarrow> store \<Rightarrow> bool" where
  "linkedByHistory tenantId clientId warehouseId s \<longleftrightarrow>
     list_ex (\<lambda>r. r_tenantId r = tenantId \<and> r_clientId r = clientId \<and> r_warehouseId r = warehouseId) (receipts s)"

definition ensureAttached :: "uuid \<Rightarrow> uuid \<Rightarrow> uuid \<Rightarrow> uuid \<Rightarrow> uuid \<Rightarrow> unit handler" where
  "ensureAttached i tenantId managerUserId clientId warehouseId =
     bindM (getsM (\<lambda>s. (list_ex (attachedTo tenantId clientId warehouseId) (attachments s) \<or>
         linkedByHistory tenantId clientId warehouseId s,
         list_ex (\<lambda>c. cf_userId c = clientId \<and> cf_tenantId c = tenantId \<and>
           cf_registeredByManagerId c = Some managerUserId) (clientProfiles s)))) (\<lambda>(linked, isRegistrar).
       if linked then returnM ()
       else bindM (failIfM (\<not> isRegistrar) (BadRequest ''CLIENT_NOT_ATTACHED'')) (\<lambda>_.
         bindM (createAttachment (newAttachment i tenantId clientId warehouseId managerUserId
             (Some ''Auto-attached on first deposit (WM is registrar)''))) (\<lambda>_. returnM ())))"

definition scoresDocument :: "numbers \<Rightarrow> score_result \<Rightarrow> grading_scores" where
  "scoresDocument measurements scored =
     \<lparr>gs_measurementsById = measurements, gs_computedGrade = sc_computedGrade scored,
      gs_totalDefectivePct = sc_totalDefectivePct scored,
      gs_standardDeductionPct = sc_standardDeductionPct scored, gs_perParameter = sc_perParameter scored\<rparr>"

record deposit_answer =
  da_receipt :: receipt
  da_computedGrade :: "string option"

definition depositKey :: "uuid \<Rightarrow> string" where
  "depositKey i = ''MANAGER_DEPOSIT:'' @ i"

definition depositInput ::
    "time \<Rightarrow> uuid \<Rightarrow> uuid \<Rightarrow> uuid \<Rightarrow> create_deposit_dto \<Rightarrow> score_result \<Rightarrow> deposit_input" where
  "depositInput now i tenantId managerUserId dto scored =
     \<lparr>di_tenantId = tenantId, di_clientId = dd_clientId dto, di_commodityId = dd_commodityId dto,
      di_warehouseId = dd_warehouseId dto, di_quantity = dd_quantity dto,
      di_grade = (case dd_grade dto of None \<Rightarrow> sc_computedGrade scored | Some g \<Rightarrow> Some g),
      di_dateOfDeposit = (case dd_dateOfDeposit dto of None \<Rightarrow> now | Some t \<Rightarrow> t),
      di_expiryDate = None, di_receiptNumber = None, di_actorUserId = Some managerUserId,
      di_idempotencyKey = depositKey i,
      di_gradingScores = Some (scoresDocument (dd_measurements dto) scored)\<rparr>"

definition createDeposit ::
    "time \<Rightarrow> string \<Rightarrow> (nat \<Rightarrow> uuid) \<Rightarrow> uuid \<Rightarrow> uuid \<Rightarrow> string list \<Rightarrow> create_deposit_dto \<Rightarrow> deposit_answer handler" where
  "createDeposit now fullYear ids tenantId managerUserId actorRoles dto =
     bindM (failIfM (dd_quantity dto \<le> 0) (BadRequest ''quantity must be a positive number'')) (\<lambda>_.
     bindM (assertWarehouseScope tenantId managerUserId (dd_warehouseId dto) actorRoles) (\<lambda>_.
     bindM (getsM (findClient tenantId (dd_clientId dto))) (\<lambda>client.
     bindM (requireM (NotFound ''Client not found'') client) (\<lambda>client.
     bindM (ensureAttached (ids 0) tenantId managerUserId (dd_clientId dto) (dd_warehouseId dto)) (\<lambda>_.
     bindM (getsM (acceptsCommodity (dd_warehouseId dto) (dd_commodityId dto))) (\<lambda>wc.
     bindM (failIfM (\<not> wc) (BadRequest ''This commodity is not accepted at the selected warehouse'')) (\<lambda>_.
     bindM (requireCommodity tenantId (dd_commodityId dto)) (\<lambda>c.
     bindM (getsM (parametersOf (dd_commodityId dto))) (\<lambda>ps.
     bindM (failIfM (ps = [])
       (BadRequest ''This commodity has no grading parameters configured'')) (\<lambda>_.
     bindM (liftErr (scoreById ps (dd_measurements dto) (co_numberOfGrades c))) (\<lambda>scored.
     bindM (failIfM (sc_computedGrade scored = Some ''REJECTED'')
       (BadRequest (''Commodity fails grading and cannot be deposited. Failing: '' @
          comma_join (sc_failingParameters scored)))) (\<lambda>_.
     bindM (atOnce (deposit (ids 1) (ids 2) fullYear (depositInput now (ids 3) tenantId managerUserId dto scored))) (\<lambda>receipt.
     bindM (notifyTenantAdmins tenantId N_DEPOSIT_PENDING_APPROVAL ''receipt'' (r_id receipt)) (\<lambda>_.
     bindM (notifyUser tenantId N_DEPOSIT_PENDING_APPROVAL ''receipt'' (r_id receipt) (dd_clientId dto)) (\<lambda>_.
       returnM \<lparr>da_receipt = receipt, da_computedGrade = sc_computedGrade scored\<rparr>)))))))))))))))"

section \<open>Editing a deposit\<close>

record edit_deposit_dto =
  ed_commodityId :: "uuid option"
  ed_warehouseId :: "uuid option"
  ed_quantity :: "dec option"
  ed_measurements :: "numbers option"
  ed_grade :: "string option"
  ed_dateOfDeposit :: "time option"
  ed_editReason :: "string option"

definition editDtoError :: "edit_deposit_dto \<Rightarrow> err option" where
  "editDtoError dto = (case ed_quantity dto of
     Some q \<Rightarrow> if q \<le> 0 then Some (BadRequest ''quantity must be a positive number'') else None
   | None \<Rightarrow> None)"

text \<open>A receipt with its commodity and the parameters of it, as the loader returns them.\<close>

type_synonym editable = "receipt \<times> commodity \<times> grading_parameter list"

definition loadDepositForEdit :: "uuid \<Rightarrow> uuid \<Rightarrow> store \<Rightarrow> editable option" where
  "loadDepositForEdit tenantId i s =
     (case find (\<lambda>r. r_id r = i \<and> r_tenantId r = tenantId) (receipts s) of
        None \<Rightarrow> None
      | Some r \<Rightarrow> map_option (\<lambda>c. (r, c, parametersOf (co_id c) s)) (find_row co_id (r_commodityId r) (commodities s)))"

text \<open>An empty identifier counts as none where the destination is looked up.\<close>

definition movesTo :: "uuid option \<Rightarrow> uuid \<Rightarrow> uuid option" where
  "movesTo next current = (case truthy_opt next of None \<Rightarrow> None | Some i \<Rightarrow> if i \<noteq> current then Some i else None)"

definition destination ::
    "uuid \<Rightarrow> editable \<Rightarrow> edit_deposit_dto \<Rightarrow> store \<Rightarrow> err + commodity \<times> grading_parameter list" where
  "destination tenantId x dto s =
     (case x of (r, c, ps) \<Rightarrow>
        (case movesTo (ed_commodityId dto) (r_commodityId r) of
           None \<Rightarrow> Inr (c, ps)
         | Some k \<Rightarrow> (case commodityOfTenant tenantId k s of
             None \<Rightarrow> Inl (BadRequest ''commodityId is not valid for this tenant.'')
           | Some c' \<Rightarrow> Inr (c', parametersOf k s))))"

text \<open>The columns of an edit, with the ones that change in the order they are compared.\<close>

definition rescored :: "grading_parameter list \<Rightarrow> numbers \<Rightarrow> int \<Rightarrow> err + score_result" where
  "rescored ps m numberOfGrades =
     (if ps = [] then Inl (BadRequest ''Destination commodity has no grading parameters'')
      else andThen (scoreById ps m numberOfGrades) (\<lambda>scored.
        if sc_computedGrade scored = Some ''REJECTED''
        then Inl (BadRequest (''Edited measurements fail grading. Failing: '' @ comma_join (sc_failingParameters scored)))
        else Inr scored))"

definition nextGrade :: "receipt \<Rightarrow> edit_deposit_dto \<Rightarrow> score_result option \<Rightarrow> string option" where
  "nextGrade r dto scored =
     (case scored of
        Some sc \<Rightarrow> if truthy_opt (ed_grade dto) = None then sc_computedGrade sc else ed_grade dto
      | None \<Rightarrow> (case ed_grade dto of None \<Rightarrow> r_grade r | Some g \<Rightarrow> Some g))"

text \<open>
  A quantity is compared with the \<open>Decimal\<close> of the row and a new score document with the
  stored one, by identity: when given they always count as changed.
\<close>

definition editedReceipt ::
    "edit_deposit_dto \<Rightarrow> receipt \<Rightarrow> score_result option \<Rightarrow> (receipt \<Rightarrow> receipt) \<times> string list" where
  "editedReceipt dto r scored =
     (let grade = nextGrade r dto scored;
          newQuantity = ed_quantity dto \<noteq> None;
          newCommodity = ed_commodityId dto \<noteq> None \<and> ed_commodityId dto \<noteq> Some (r_commodityId r);
          newWarehouse = ed_warehouseId dto \<noteq> None \<and> ed_warehouseId dto \<noteq> Some (r_warehouseId r);
          newGrade = grade \<noteq> r_grade r;
          newDate = ed_dateOfDeposit dto \<noteq> None \<and> ed_dateOfDeposit dto \<noteq> Some (r_dateOfDeposit r);
          scoring = (\<lambda>g. case scored of None \<Rightarrow> False | Some sc \<Rightarrow> g sc);
          newComputed = scoring (\<lambda>sc. sc_computedGrade sc \<noteq> r_computedGrade r);
          newDefective = scoring (\<lambda>sc. Some (sc_totalDefectivePct sc) \<noteq> r_totalDefectivePct r);
          newDeduction = scoring (\<lambda>sc. Some (sc_standardDeductionPct sc) \<noteq> r_standardDeductionPct r)
      in (\<lambda>x. x\<lparr>r_quantity := (case ed_quantity dto of None \<Rightarrow> r_quantity x | Some q \<Rightarrow> to_scale 3 q),
              r_commodityId := (if newCommodity then given (ed_commodityId dto) (r_commodityId x) else r_commodityId x),
              r_warehouseId := (if newWarehouse then given (ed_warehouseId dto) (r_warehouseId x) else r_warehouseId x),
              r_grade := (if newGrade then grade else r_grade x),
              r_dateOfDeposit := (if newDate then given (ed_dateOfDeposit dto) (r_dateOfDeposit x) else r_dateOfDeposit x),
              r_gradingScores := (case scored of None \<Rightarrow> r_gradingScores x
                | Some sc \<Rightarrow> Some (scoresDocument (given (ed_measurements dto) []) sc)),
              r_computedGrade := (case scored of Some sc \<Rightarrow> if newComputed then sc_computedGrade sc else r_computedGrade x
                | None \<Rightarrow> r_computedGrade x),
              r_totalDefectivePct := (case scored of
                  Some sc \<Rightarrow> if newDefective then Some (sc_totalDefectivePct sc) else r_totalDefectivePct x
                | None \<Rightarrow> r_totalDefectivePct x),
              r_standardDeductionPct := (case scored of
                  Some sc \<Rightarrow> if newDeduction then Some (sc_standardDeductionPct sc) else r_standardDeductionPct x
                | None \<Rightarrow> r_standardDeductionPct x)\<rparr>,
          map snd (filter fst
            [(newQuantity, ''quantity''), (newCommodity, ''commodityId''), (newWarehouse, ''warehouseId''),
             (newGrade, ''grade''), (newDate, ''dateOfDeposit''), (scored \<noteq> None, ''gradingScores''),
             (newComputed, ''computedGrade''), (newDefective, ''totalDefectivePct''),
             (newDeduction, ''standardDeductionPct'')])))"

record edit_answer =
  ea_receipt :: receipt
  ea_changedFields :: "string list" \<comment> \<open>none when there was nothing to apply\<close>

definition editTx ::
    "uuid \<Rightarrow> uuid \<Rightarrow> uuid \<Rightarrow> dec option \<Rightarrow> (receipt \<Rightarrow> receipt) \<Rightarrow> string list \<Rightarrow> store \<Rightarrow> err + receipt \<times> store" where
  "editTx tenantId receiptId actorUserId quantity f changed s =
     (if (case quantity of None \<Rightarrow> False | Some q \<Rightarrow> \<not> fits 18 3 q) then Inl (Db Numeric_Overflow)
      else andThen (updateReceipt receiptId f s) (\<lambda>(u, s1).
        Inr (u, appendActivity \<lparr>al_tenantId = Some tenantId, al_userId = Some actorUserId,
          al_action = ''RECEIPT_DEPOSIT_EDITED'', al_entityType = ''Receipt'', al_entityId = receiptId,
          al_changes = changed\<rparr> s1)))"

definition filingManager :: "uuid \<Rightarrow> store \<Rightarrow> uuid option" where
  "filingManager receiptId s =
     (case find (\<lambda>e. e_fromReceiptId e = Some receiptId \<and> e_eventType e = E_DEPOSIT) (events s) of
        None \<Rightarrow> None | Some e \<Rightarrow> e_actorUserId e)"

definition notifyEdit :: "uuid \<Rightarrow> receipt \<Rightarrow> uuid \<Rightarrow> unit handler" where
  "notifyEdit tenantId r actorUserId =
     (if r_status r = PENDING_APPROVAL
      then notifyTenantAdmins tenantId N_DEPOSIT_PENDING_APPROVAL ''receipt'' (r_id r)
      else bindM (notifyUser tenantId N_DEPOSIT_APPROVED ''receipt'' (r_id r) (r_clientId r)) (\<lambda>_.
        bindM (getsM (filingManager (r_id r))) (\<lambda>filing.
          (case truthy_opt filing of
             None \<Rightarrow> returnM ()
           | Some m \<Rightarrow> whenM (m \<noteq> actorUserId) (notifyUser tenantId N_DEPOSIT_APPROVED ''receipt'' (r_id r) m)))))"

definition applyDepositEdit :: "uuid \<Rightarrow> editable \<Rightarrow> edit_deposit_dto \<Rightarrow> uuid \<Rightarrow> edit_answer handler" where
  "applyDepositEdit tenantId x dto actorUserId =
     (case x of (r, _, _) \<Rightarrow>
       bindM (getsM (destination tenantId x dto)) (\<lambda>dest.
       bindM (liftErr dest) (\<lambda>(c, ps).
       bindM (getsM (\<lambda>s. case movesTo (ed_warehouseId dto) (r_warehouseId r) of None \<Rightarrow> True
           | Some w \<Rightarrow> acceptsCommodity w (co_id c) s)) (\<lambda>accepted.
       bindM (failIfM (\<not> accepted) (BadRequest ''The destination warehouse does not accept this commodity.'')) (\<lambda>_.
       bindM (liftErr (case ed_measurements dto of None \<Rightarrow> Inr None
           | Some m \<Rightarrow> andThen (rescored ps m (co_numberOfGrades c)) (\<lambda>sc. Inr (Some sc)))) (\<lambda>scored.
       (case editedReceipt dto r scored of (f, changed) \<Rightarrow>
          if changed = [] then returnM \<lparr>ea_receipt = r, ea_changedFields = []\<rparr>
          else bindM (transactM (editTx tenantId (r_id r) actorUserId (ed_quantity dto) f changed)) (\<lambda>u.
            bindM (notifyEdit tenantId r actorUserId) (\<lambda>_.
              returnM \<lparr>ea_receipt = u, ea_changedFields = changed\<rparr>)))))))))"

definition rejectDto :: "edit_deposit_dto \<Rightarrow> unit handler" where
  "rejectDto dto = (case editDtoError dto of None \<Rightarrow> returnM () | Some e \<Rightarrow> throwM e)"

text \<open>The manager's edit: only while the deposit waits for approval, at both warehouses.\<close>

definition editDeposit_check ::
    "uuid \<Rightarrow> uuid \<Rightarrow> string list \<Rightarrow> uuid \<Rightarrow> edit_deposit_dto \<Rightarrow> editable handler" where
  "editDeposit_check tenantId managerUserId actorRoles receiptId dto =
     bindM (rejectDto dto) (\<lambda>_.
     bindM (getsM (loadDepositForEdit tenantId receiptId)) (\<lambda>x.
     bindM (requireM (NotFound ''Deposit not found'') x) (\<lambda>x.
     bindM (failIfM (r_status (fst x) \<noteq> PENDING_APPROVAL) (Conflict ''only a tenant admin can edit it now'')) (\<lambda>_.
     bindM (assertWarehouseScope tenantId managerUserId (r_warehouseId (fst x)) actorRoles) (\<lambda>_.
     bindM (case movesTo (ed_warehouseId dto) (r_warehouseId (fst x)) of None \<Rightarrow> returnM ()
         | Some w \<Rightarrow> assertWarehouseScope tenantId managerUserId w actorRoles) (\<lambda>_.
       returnM x))))))"

definition editDeposit ::
    "uuid \<Rightarrow> uuid \<Rightarrow> string list \<Rightarrow> uuid \<Rightarrow> edit_deposit_dto \<Rightarrow> edit_answer handler" where
  "editDeposit tenantId managerUserId actorRoles receiptId dto =
     bindM (editDeposit_check tenantId managerUserId actorRoles receiptId dto) (\<lambda>x.
       applyDepositEdit tenantId x dto managerUserId)"

text \<open>The administrator's edit: every column while pending, the descriptive ones while ACTIVE.\<close>

definition editDepositAsAdmin_check :: "uuid \<Rightarrow> uuid \<Rightarrow> edit_deposit_dto \<Rightarrow> editable handler" where
  "editDepositAsAdmin_check tenantId receiptId dto =
     bindM (rejectDto dto) (\<lambda>_.
     bindM (getsM (loadDepositForEdit tenantId receiptId)) (\<lambda>x.
     bindM (requireM (NotFound ''Deposit not found'') x) (\<lambda>x.
     let st = r_status (fst x) in
     bindM (failIfM (st = SPLIT) (Conflict ''superseded by child receipts'')) (\<lambda>_.
     bindM (failIfM (st \<in> set CLOSED) (Conflict ''terminal state'')) (\<lambda>_.
     bindM (failIfM (st \<in> set HELD) (Conflict ''A transaction is in flight against this receipt'')) (\<lambda>_.
     bindM (failIfM (st = ACTIVE \<and> (ed_quantity dto \<noteq> None \<or> ed_commodityId dto \<noteq> None \<or> ed_warehouseId dto \<noteq> None))
       (BadRequest ''Cannot edit structural fields on an ACTIVE receipt'')) (\<lambda>_.
       returnM x)))))))"

definition editDepositAsAdmin :: "uuid \<Rightarrow> uuid \<Rightarrow> uuid \<Rightarrow> edit_deposit_dto \<Rightarrow> edit_answer handler" where
  "editDepositAsAdmin tenantId adminUserId receiptId dto =
     bindM (editDepositAsAdmin_check tenantId receiptId dto) (\<lambda>x.
       applyDepositEdit tenantId x dto adminUserId)"

section \<open>Approval\<close>

text \<open>Who is told: the client, and the manager who filed the deposit.\<close>

definition notifyDecision :: "uuid \<Rightarrow> notification_type \<Rightarrow> uuid \<Rightarrow> unit handler" where
  "notifyDecision tenantId ty receiptId =
     bindM (getsM (\<lambda>s. map_option (\<lambda>r. (r_clientId r, case r_sourceEventId r of None \<Rightarrow> None
         | Some e \<Rightarrow> (case find_row e_id e (events s) of None \<Rightarrow> None | Some ev \<Rightarrow> truthy_opt (e_actorUserId ev))))
         (find_row r_id receiptId (receipts s)))) (\<lambda>ctx.
       (case ctx of
          None \<Rightarrow> returnM ()
        | Some (client, filing) \<Rightarrow>
            bindM (notifyUser tenantId ty ''receipt'' receiptId client) (\<lambda>_.
              (case filing of None \<Rightarrow> returnM () | Some m \<Rightarrow> notifyUser tenantId ty ''receipt'' receiptId m))))"

definition adminApproveReceipt :: "time \<Rightarrow> uuid \<Rightarrow> uuid \<Rightarrow> uuid \<Rightarrow> uuid \<Rightarrow> receipt handler" where
  "adminApproveReceipt now evId tenantId receiptId adminId =
     bindM (atOnce (approveReceipt evId now
       (actor tenantId receiptId (Some adminId) (''RECEIPT:'' @ receiptId @ '':approve'')) None None)) (\<lambda>result.
     bindM (notifyDecision tenantId N_DEPOSIT_APPROVED receiptId) (\<lambda>_.
       returnM result))"

definition adminRejectReceipt :: "time \<Rightarrow> uuid \<Rightarrow> uuid \<Rightarrow> uuid \<Rightarrow> uuid \<Rightarrow> string \<Rightarrow> receipt handler" where
  "adminRejectReceipt now evId tenantId receiptId adminId rejectionReason =
     bindM (failIfM (js_trim rejectionReason = []) (BadRequest ''rejectionReason is required'')) (\<lambda>_.
     bindM (atOnce (rejectReceipt evId now
       (actor tenantId receiptId (Some adminId) (''RECEIPT:'' @ receiptId @ '':reject'')) rejectionReason)) (\<lambda>result.
     bindM (notifyDecision tenantId N_DEPOSIT_REJECTED receiptId) (\<lambda>_.
       returnM result)))"

end
