(* ===== verification/Service_Runs.thy ===== *)
theory Service_Runs
  imports Lifecycle Liens Withdrawals Deposits
begin

text \<open>
  The services as one system: each of their operations is lawful for the ledger, so any
  sequence of their calls, with the commits of interrupted operations in between, is a
  history of the ledger.
\<close>

section \<open>Rules for handlers\<close>

lemma confined_paginate: "confined lawful (paginate page limit rows)"
  unfolding paginate_def by (intro ledger_lawful.confined_rules)

text \<open>A transaction on the other tables.\<close>

lemma confined_transact_aside:
  assumes "\<And>s a s'. t s = Inr (a, s') \<Longrightarrow> receipts s' = receipts s \<and> events s' = events (s :: store)"
  shows "confined lawful (transactM t)"
  by (rule ledger_lawful.confined_transact) (auto intro!: lawful_aside dest: assms)

lemma confined_loadUserOrThrow: "confined lawful (loadUserOrThrow i)"
  unfolding loadUserOrThrow_def by (intro ledger_lawful.confined_rules)

lemma confined_assertTransactionAuth: "confined lawful (assertTransactionAuth c now i purpose pin code b)"
  unfolding assertTransactionAuth_def
  by (intro ledger_lawful.confined_rules confined_if confined_loadUserOrThrow confined_consumeOtp)

lemmas confined_service = ledger_lawful.confined_rules confined_if confined_option confined_prod confined_sum
  confined_consumeOtp confined_assertTransactionAuth confined_hold confined_releasePartial confined_approveHold
  releasing.settle_lawful to_lien.settle_lawful consuming.settle_lawful
  confined_notifyUser confined_notifyFinancierUsers confined_notifyTenantAdmins confined_notifyWarehouseManagersOf
  confined_requireFinancierOrg confined_liftM confined_modify_aside confined_transact_aside

section \<open>Release requests and liens\<close>

lemma insertLine_aside: "insertLine l s = Inr (u, s') \<Longrightarrow> receipts s' = receipts s \<and> events s' = events s"
  by (auto simp: insertLine_def split: if_splits)

lemma insertLines_aside: "insertLines ls s = Inr (u, s') \<Longrightarrow> receipts s' = receipts s \<and> events s' = events s"
  by (induction ls arbitrary: s u) (auto simp: andThen_Inr_iff dest: insertLine_aside)

lemma confined_projectRequestDetail: "confined lawful (projectRequestDetail i)"
  unfolding projectRequestDetail_def by (intro confined_service)

lemma confined_getFinancierReleaseRequestDetail: "confined lawful (getFinancierReleaseRequestDetail u i)"
  unfolding getFinancierReleaseRequestDetail_def by (intro confined_service)

lemma createReleaseRequest_lawful: "confined lawful (createReleaseRequest now ids u dto)"
  unfolding createReleaseRequest_def createReleaseRequest_check_def createReleaseRequest_commit_def
  by (intro confined_service confined_projectRequestDetail)
    (auto simp: andThen_Inr_iff insertRequest_def split: if_splits dest!: insertLines_aside)

lemma confined_updateRequest: "confined lawful (updateRequest i f)"
  unfolding updateRequest_def by (intro confined_service) simp_all

lemma confined_updateLien: "confined lawful (updateLien i f)"
  unfolding updateLien_def by (intro confined_service) simp_all

lemma cancelReleaseRequest_lawful: "confined lawful (cancelReleaseRequest now u i)"
  unfolding cancelReleaseRequest_def by (intro confined_service confined_updateRequest confined_projectRequestDetail)

lemma confined_releaseLine: "confined lawful (releaseLine now ids u q x)"
  unfolding releaseLine_def by (intro confined_service confined_updateLien)

lemma confined_releaseLines: "confined lawful (releaseLines now ids u q xs)"
proof (induction xs)
  case Nil
  show ?case by (simp add: ledger_lawful.confined_return)
next
  case (Cons x xs)
  then show ?case by (simp del: bindM_def) (intro confined_service confined_releaseLine)
qed

lemma approveReleaseRequest_lawful: "confined lawful (approveReleaseRequest c now ids u i code)"
  unfolding approveReleaseRequest_def approveReleaseRequest_check_def approveReleaseRequest_commit_def
  by (intro confined_service confined_releaseLines confined_updateRequest confined_getFinancierReleaseRequestDetail)

lemma rejectReleaseRequest_lawful: "confined lawful (rejectReleaseRequest now u i why)"
  unfolding rejectReleaseRequest_def
  by (intro confined_service confined_updateRequest confined_getFinancierReleaseRequestDetail)

lemma confined_projectForceReleased: "confined lawful (projectForceReleased i t)"
  unfolding projectForceReleased_def by (intro confined_service)

lemma forceReleaseLien_lawful: "confined lawful (forceReleaseLien now ids t adm i why url)"
  unfolding forceReleaseLien_def forceReleaseLien_check_def forceReleaseLien_commit_def logActivity_def notifyBoth_def
  by (intro confined_service confined_projectForceReleased)
    (auto simp: andThen_Inr_iff insertForceRelease_def updateLienTx_def split: if_splits option.splits)

section \<open>Loans, trades, withdrawals\<close>

lemma confined_loads: "confined lawful (loadLoan t i)" "confined lawful (loadTrade t i)" "confined lawful (loadWithdrawal t i)"
  unfolding loadLoan_def loadTrade_def loadWithdrawal_def by (intro confined_service)+

lemma confined_updates: "confined lawful (updateLoan i f)" "confined lawful (updateTrade i g)" "confined lawful (updateWithdrawal i h)"
  unfolding updateLoan_def updateTrade_def updateWithdrawal_def by (intro confined_service; simp)+

lemma upserts_aside:
  "upsertLoan l s = Inr (x, s') \<Longrightarrow> receipts s' = receipts s \<and> events s' = events s"
  "upsertTrade t s = Inr (y, s') \<Longrightarrow> receipts s' = receipts s \<and> events s' = events s"
  "upsertWithdrawal w s = Inr (z, s') \<Longrightarrow> receipts s' = receipts s \<and> events s' = events s"
  by (auto simp: upsertLoan_def upsertTrade_def upsertWithdrawal_def split: option.splits if_splits)

lemma createLoan_lawful: "confined lawful (createLoan c now ids ref t dto cl who b)"
  unfolding createLoan_def Let_def by (intro confined_service) (rule upserts_aside)

lemma approveLoan_lawful: "confined lawful (approveLoan now ev t i who)"
  unfolding approveLoan_def by (intro confined_service confined_loads confined_updates)

lemma rejectLoan_lawful: "confined lawful (rejectLoan ev t i who)"
  unfolding rejectLoan_def by (intro confined_service confined_loads confined_updates)

lemma repayLoan_lawful: "confined lawful (repayLoan now ev t i who)"
  unfolding repayLoan_def by (intro confined_service confined_loads confined_updates)

lemma editLoan_lawful: "confined lawful (editLoan t i who roles dto)"
  unfolding editLoan_def Let_def appendActivity_def by (intro confined_service confined_loads) simp_all

lemma createTrade_lawful: "confined lawful (createTrade c now ids ref t dto seller who b)"
  unfolding createTrade_def Let_def by (intro confined_service) (rule upserts_aside)

lemma takeListing_keeps: "keeps_ledger (Some (takeListing now i b))"
  by (auto simp: keeps_ledger_def takeListing_def split: if_splits)

lemma confined_transferAndRelease:
  "confined lawful (atOnce (transferAndRelease e1 e2 a o' ty x (Some (takeListing now i b))))"
  unfolding atOnce_def transferAndRelease_def
  by (rule confinedI, erule idempotent_lawful) (erule transferAndReleaseTx_move [OF _ takeListing_keeps])

lemma settleTrade_lawful: "confined lawful (settleTrade now ids t i b)"
  unfolding settleTrade_def settleTrade_check_def settleTrade_commit_def
  by (intro confined_service confined_loads confined_transferAndRelease)

lemma cancelTrade_lawful: "confined lawful (cancelTrade ev t i)"
  unfolding cancelTrade_def by (intro confined_service confined_loads confined_updates)

lemma createWithdrawalRequest_lawful: "confined lawful (createWithdrawalRequest c now i ref t dto cl b)"
  unfolding createWithdrawalRequest_def notifyLienHoldersOfBlockedWithdrawal_def
  by (intro confined_service) (rule upserts_aside)

lemma confirmPayment_lawful: "confined lawful (confirmPayment now ids t i who roles)"
  unfolding confirmPayment_def by (intro confined_service confined_loads confined_updates)

lemma approveWithdrawal_lawful: "confined lawful (approveWithdrawal now ev t i who)"
  unfolding approveWithdrawal_def by (intro confined_service confined_loads confined_updates)

lemma rejectWithdrawal_lawful: "confined lawful (rejectWithdrawal ev t i who why)"
  unfolding rejectWithdrawal_def by (intro confined_service confined_loads confined_updates)

lemma completeWithdrawal_lawful: "confined lawful (completeWithdrawal now ev t i who)"
  unfolding completeWithdrawal_def by (intro confined_service confined_loads confined_updates)

lemma editWithdrawal_lawful: "confined lawful (editWithdrawal t i who roles dto)"
  unfolding editWithdrawal_def Let_def appendActivity_def by (intro confined_service confined_loads) simp_all

lemma expirePendingPayment_lawful: "confined lawful (expirePendingPayment now)"
  unfolding expirePendingPayment_def rejectAbandoned_def by (intro confined_service) simp_all

section \<open>Every call of every service\<close>

text \<open>
  The state-changing operations of the modelled services. Where an operation checks first
  and commits later, the commit is a call of its own, with whatever the check may have read
  and however stale it is by then.
\<close>

datatype security_call =
    Set_pin crypto time uuid string string
  | Change_pin crypto time uuid string string string
  | Clear_pin crypto uuid string
  | Enable_two_factor crypto time uuid string
  | Disable_two_factor crypto time uuid string string
  | Request_code crypto time uuid nat uuid otp_purpose
  | Submit_code crypto time uuid string otp_purpose

fun secured :: "security_call \<Rightarrow> store \<Rightarrow> store" where
  "secured (Set_pin c now i pw pin) s = snd (setTransactionPin c now i pw pin s)"
| "secured (Change_pin c now i pw old new) s = snd (changeTransactionPin c now i pw old new s)"
| "secured (Clear_pin c i pw) s = snd (clearTransactionPin c i pw s)"
| "secured (Enable_two_factor c now i pw) s = snd (enableTwoFactor c now i pw s)"
| "secured (Disable_two_factor c now i pw code) s = snd (disableTwoFactor c now i pw code s)"
| "secured (Request_code c now i draw u p) s = snd (requestTransactionOtp c now i draw u p s)"
| "secured (Submit_code c now u code p) s = snd (consumeOtp c now u code p s)"

datatype settings_call =
    Set_price time uuid uuid uuid string price_input "string option" uuid "time option" "string option"
  | Create_policy fee_policy
  | Update_policy uuid uuid update_policy_dto
  | Activate_policy uuid uuid
  | Deactivate_policy uuid uuid

fun configured :: "settings_call \<Rightarrow> store \<Rightarrow> store" where
  "configured (Set_price now i t cm un q cy by eff src) s = snd (setPrice now i t cm un q cy by eff src s)"
| "configured (Create_policy p) s = snd (createPolicy p s)"
| "configured (Update_policy t i dto) s = snd (updatePolicy t i dto s)"
| "configured (Activate_policy t i) s = snd (activate t i s)"
| "configured (Deactivate_policy t i) s = snd (deactivate t i s)"

datatype pledge_call =
    Create_pledge "string option" time "nat \<Rightarrow> uuid" uuid create_pledge_dto
  | Cancel_pledge uuid uuid uuid
  | Cancel_pledge_commit uuid uuid pledge
  | Accept_pledge crypto time "nat \<Rightarrow> uuid" uuid uuid string "string option"
  | Reject_pledge time uuid uuid uuid string
  | Reject_pledge_commit time uuid uuid string pledge
  | Expire_pledges time "nat \<Rightarrow> uuid"
  | Expire_pledge time uuid pledge

fun pledged :: "pledge_call \<Rightarrow> store \<Rightarrow> store" where
  "pledged (Create_pledge ttl now ids u dto) s = snd (createPledge ttl now ids u dto s)"
| "pledged (Cancel_pledge ev u i) s = snd (cancelPledge ev u i s)"
| "pledged (Cancel_pledge_commit ev u p) s = snd (cancelPledge_commit ev u p s)"
| "pledged (Accept_pledge c now ids u i code note) s = snd (acceptPledge c now ids u i code note s)"
| "pledged (Reject_pledge now ev u i why) s = snd (rejectPledge now ev u i why s)"
| "pledged (Reject_pledge_commit now ev u why p) s = snd (rejectPledge_commit now ev u why p s)"
| "pledged (Expire_pledges now ids) s = snd (expireStalePledges now ids s)"
| "pledged (Expire_pledge now ev p) s = snd (expirePledge now ev p s)"

datatype lien_call =
    Create_release time "nat \<Rightarrow> uuid" uuid create_release_dto
  | Create_release_commit time "nat \<Rightarrow> uuid" create_release_dto "user \<times> (release_line_dto \<times> uuid) list"
  | Cancel_release time uuid uuid
  | Approve_release crypto time "nat \<Rightarrow> uuid" uuid uuid string
  | Approve_release_commit crypto time "nat \<Rightarrow> uuid" uuid string "release_request \<times> (release_line \<times> lien) list"
  | Reject_release time uuid uuid string
  | Force_release time "nat \<Rightarrow> uuid" uuid uuid uuid string string
  | Force_release_commit time "nat \<Rightarrow> uuid" uuid uuid string string lien

fun released :: "lien_call \<Rightarrow> store \<Rightarrow> store" where
  "released (Create_release now ids u dto) s = snd (createReleaseRequest now ids u dto s)"
| "released (Create_release_commit now ids dto x) s = snd (createReleaseRequest_commit now ids dto x s)"
| "released (Cancel_release now u i) s = snd (cancelReleaseRequest now u i s)"
| "released (Approve_release c now ids u i code) s = snd (approveReleaseRequest c now ids u i code s)"
| "released (Approve_release_commit c now ids u code x) s = snd (approveReleaseRequest_commit c now ids u code x s)"
| "released (Reject_release now u i why) s = snd (rejectReleaseRequest now u i why s)"
| "released (Force_release now ids t adm i why url) s = snd (forceReleaseLien now ids t adm i why url s)"
| "released (Force_release_commit now ids t adm why url l) s = snd (forceReleaseLien_commit now ids t adm why url l s)"

datatype loan_call =
    Create_loan crypto time "nat \<Rightarrow> uuid" string uuid create_loan_dto uuid "uuid option" bool
  | Approve_loan time uuid uuid uuid "uuid option"
  | Reject_loan uuid uuid uuid "uuid option"
  | Repay_loan time uuid uuid uuid "uuid option"
  | Edit_loan uuid uuid uuid "string list" edit_loan_dto

fun lent :: "loan_call \<Rightarrow> store \<Rightarrow> store" where
  "lent (Create_loan c now ids ref t dto cl who b) s = snd (createLoan c now ids ref t dto cl who b s)"
| "lent (Approve_loan now ev t i who) s = snd (approveLoan now ev t i who s)"
| "lent (Reject_loan ev t i who) s = snd (rejectLoan ev t i who s)"
| "lent (Repay_loan now ev t i who) s = snd (repayLoan now ev t i who s)"
| "lent (Edit_loan t i who roles dto) s = snd (editLoan t i who roles dto s)"

datatype trade_call =
    Create_trade crypto time "nat \<Rightarrow> uuid" string uuid create_trade_dto uuid "uuid option" bool
  | Settle_trade time "nat \<Rightarrow> uuid" uuid uuid uuid
  | Settle_trade_commit time "nat \<Rightarrow> uuid" uuid uuid uuid "trade \<times> user"
  | Cancel_trade uuid uuid uuid

fun traded :: "trade_call \<Rightarrow> store \<Rightarrow> store" where
  "traded (Create_trade c now ids ref t dto seller who b) s = snd (createTrade c now ids ref t dto seller who b s)"
| "traded (Settle_trade now ids t i b) s = snd (settleTrade now ids t i b s)"
| "traded (Settle_trade_commit now ids t i b x) s = snd (settleTrade_commit now ids t i b x s)"
| "traded (Cancel_trade ev t i) s = snd (cancelTrade ev t i s)"

datatype withdrawal_call =
    Create_withdrawal crypto time uuid string uuid create_withdrawal_dto uuid bool
  | Confirm_payment time "nat \<Rightarrow> uuid" uuid uuid uuid "string list"
  | Approve_withdrawal time uuid uuid uuid "uuid option"
  | Reject_withdrawal uuid uuid uuid "uuid option" "string option"
  | Complete_withdrawal time uuid uuid uuid "uuid option"
  | Edit_withdrawal uuid uuid uuid "string list" edit_withdrawal_dto
  | Expire_payments time
  | Reject_abandoned "withdrawal list"

fun withdrawn :: "withdrawal_call \<Rightarrow> store \<Rightarrow> store" where
  "withdrawn (Create_withdrawal c now i ref t dto cl b) s = snd (createWithdrawalRequest c now i ref t dto cl b s)"
| "withdrawn (Confirm_payment now ids t i who roles) s = snd (confirmPayment now ids t i who roles s)"
| "withdrawn (Approve_withdrawal now ev t i who) s = snd (approveWithdrawal now ev t i who s)"
| "withdrawn (Reject_withdrawal ev t i who why) s = snd (rejectWithdrawal ev t i who why s)"
| "withdrawn (Complete_withdrawal now ev t i who) s = snd (completeWithdrawal now ev t i who s)"
| "withdrawn (Edit_withdrawal t i who roles dto) s = snd (editWithdrawal t i who roles dto s)"
| "withdrawn (Expire_payments now) s = snd (expirePendingPayment now s)"
| "withdrawn (Reject_abandoned ws) s = snd (rejectAbandoned ws s)"

datatype deposit_call =
    File_deposit time string "nat \<Rightarrow> uuid" uuid uuid "string list" create_deposit_dto
  | Approve_deposit time uuid uuid uuid uuid
  | Reject_deposit time uuid uuid uuid uuid string
  | Attach_client uuid uuid uuid "string list" uuid uuid "string option"
  | Detach_client time uuid uuid "string list" uuid uuid "string option"

fun deposited :: "deposit_call \<Rightarrow> store \<Rightarrow> store" where
  "deposited (File_deposit now y ids t m roles dto) s = snd (createDeposit now y ids t m roles dto s)"
| "deposited (Approve_deposit now ev t i adm) s = snd (adminApproveReceipt now ev t i adm s)"
| "deposited (Reject_deposit now ev t i adm why) s = snd (adminRejectReceipt now ev t i adm why s)"
| "deposited (Attach_client i t m eff w c why) s = snd (attachClientToWarehouse i t m eff w c why s)"
| "deposited (Detach_client now t m eff w c why) s = snd (detachClientFromWarehouse now t m eff w c why s)"

datatype service_call =
    Ledger_op ledger_call store
  | Security security_call
  | Settings settings_call
  | Pledging pledge_call
  | Releasing lien_call
  | Lending loan_call
  | Trading trade_call
  | Withdrawing withdrawal_call
  | Depositing deposit_call

fun serve :: "service_call \<Rightarrow> store \<Rightarrow> store" where
  "serve (Ledger_op c s0) s = after_call c s0 s"
| "serve (Security c) s = secured c s"
| "serve (Settings c) s = configured c s"
| "serve (Pledging c) s = pledged c s"
| "serve (Releasing c) s = released c s"
| "serve (Lending c) s = lent c s"
| "serve (Trading c) s = traded c s"
| "serve (Withdrawing c) s = withdrawn c s"
| "serve (Depositing c) s = deposited c s"

definition served :: "service_call list \<Rightarrow> store \<Rightarrow> store" where
  "served cs s = fold serve cs s"

lemma lawful_snd: "confined lawful m \<Longrightarrow> lawful s (snd (m s))"
  by (rule confinedD [of lawful m s "fst (m s)"]) simp_all

lemma security_lawful:
  "confined lawful (setTransactionPin c now i pw pin)" "confined lawful (changeTransactionPin c now i pw old new)"
  "confined lawful (clearTransactionPin c i pw)" "confined lawful (enableTwoFactor c now i pw)"
  "confined lawful (disableTwoFactor c now i pw code)" "confined lawful (requestTransactionOtp c now oid draw i p)"
  unfolding setTransactionPin_def changeTransactionPin_def clearTransactionPin_def enableTwoFactor_def
    disableTwoFactor_def requestTransactionOtp_def updateUser_def assertPasswordCorrect_def assertPinFormat_def Let_def
  by (intro confined_service confined_loadUserOrThrow; simp)+

lemma settings_lawful:
  "confined lawful (setPrice now i t cm un q cy by eff src)" "confined lawful (createPolicy p)"
  "confined lawful (updatePolicy t i dto)" "confined lawful (activate t i)" "confined lawful (deactivate t i)"
  unfolding setPrice_def createPolicy_def updatePolicy_def activate_def deactivate_def changePolicy_def Let_def
  by (intro confined_service; auto split: if_splits)+

lemma commits_lawful:
  "confined lawful (cancelPledge_commit ev u p)" "confined lawful (rejectPledge_commit now ev u why p)"
  "confined lawful (createReleaseRequest_commit now ids dto x)"
  "confined lawful (approveReleaseRequest_commit c now ids u code y)"
  "confined lawful (forceReleaseLien_commit now ids t adm why url l)"
  "confined lawful (settleTrade_commit now ids t i b z)" "confined lawful (rejectAbandoned ws)"
proof -
  show "confined lawful (cancelPledge_commit ev u p)" "confined lawful (rejectPledge_commit now ev u why p)"
    unfolding cancelPledge_commit_def rejectPledge_commit_def by (intro confined_pledge)+
  show "confined lawful (createReleaseRequest_commit now ids dto x)"
    unfolding createReleaseRequest_commit_def
    by (intro confined_service confined_projectRequestDetail)
      (auto simp: andThen_Inr_iff insertRequest_def split: if_splits dest!: insertLines_aside)
  show "confined lawful (approveReleaseRequest_commit c now ids u code y)"
    unfolding approveReleaseRequest_commit_def
    by (intro confined_service confined_releaseLines confined_updateRequest confined_getFinancierReleaseRequestDetail)
  show "confined lawful (forceReleaseLien_commit now ids t adm why url l)"
    unfolding forceReleaseLien_commit_def logActivity_def notifyBoth_def
    by (intro confined_service confined_projectForceReleased)
      (auto simp: andThen_Inr_iff insertForceRelease_def updateLienTx_def split: if_splits option.splits)
  show "confined lawful (settleTrade_commit now ids t i b z)"
    unfolding settleTrade_commit_def by (intro confined_service confined_transferAndRelease)
  show "confined lawful (rejectAbandoned ws)"
    unfolding rejectAbandoned_def by (intro confined_service) simp_all
qed

lemma after_call_lawful: "lawful s (after_call c s0 s)"
proof -
  have "evolves s (after_call c s0 s)" if "ledger_wf s"
    using after_calls_run [OF that, of "[(c, s0)]"] by (auto simp: evolves_def)
  then show ?thesis by (simp add: lawful_def)
qed

lemma secured_lawful: "lawful s (secured c s)"
  by (cases c) (simp_all add: lawful_snd security_lawful confined_consumeOtp)

lemma configured_lawful: "lawful s (configured c s)"
  by (cases c) (simp_all add: lawful_snd settings_lawful)

lemma pledged_lawful: "lawful s (pledged c s)"
  by (cases c) (simp_all add: lawful_snd commits_lawful createPledge_lawful cancelPledge_lawful acceptPledge_lawful
      rejectPledge_lawful expireStalePledges_lawful expirePledge_lawful)

lemma released_lawful: "lawful s (released c s)"
  by (cases c) (simp_all add: lawful_snd commits_lawful createReleaseRequest_lawful
      cancelReleaseRequest_lawful approveReleaseRequest_lawful rejectReleaseRequest_lawful forceReleaseLien_lawful)

lemma lent_lawful: "lawful s (lent c s)"
  by (cases c) (simp_all add: lawful_snd createLoan_lawful approveLoan_lawful rejectLoan_lawful repayLoan_lawful editLoan_lawful)

lemma traded_lawful: "lawful s (traded c s)"
  by (cases c) (simp_all add: lawful_snd commits_lawful createTrade_lawful settleTrade_lawful cancelTrade_lawful)

lemma withdrawn_lawful: "lawful s (withdrawn c s)"
  by (cases c) (simp_all add: lawful_snd commits_lawful createWithdrawalRequest_lawful
      confirmPayment_lawful approveWithdrawal_lawful rejectWithdrawal_lawful completeWithdrawal_lawful
      editWithdrawal_lawful expirePendingPayment_lawful)

lemma confined_deposit: "confined lawful (atOnce (deposit i ev y inp) :: receipt handler)"
proof (rule confinedI)
  fix s r s' assume "atOnce (deposit i ev y inp) s = (r, s' :: store)"
  then show "lawful s s'"
    using after_call_lawful [of s "Call_deposit i ev y inp" s] by (simp add: atOnce_def)
qed

lemma confined_adminDecision:
  "confined lawful (atOnce (approveReceipt ev now a g sc) :: receipt handler)"
  "confined lawful (atOnce (rejectReceipt ev now a why) :: receipt handler)"
proof -
  show "confined lawful (atOnce (approveReceipt ev now a g sc) :: receipt handler)"
  proof (rule confinedI)
    fix s r s' assume "atOnce (approveReceipt ev now a g sc) s = (r, s' :: store)"
    then show "lawful s s'"
      using after_call_lawful [of s "Call_approveReceipt ev now a g sc" s] by (simp add: atOnce_def)
  qed
  show "confined lawful (atOnce (rejectReceipt ev now a why) :: receipt handler)"
  proof (rule confinedI)
    fix s r s' assume "atOnce (rejectReceipt ev now a why) s = (r, s' :: store)"
    then show "lawful s s'"
      using after_call_lawful [of s "Call_rejectReceipt ev now a why" s] by (simp add: atOnce_def)
  qed
qed

lemma confined_ensureAttached: "confined lawful (ensureAttached i t m c w)"
  unfolding ensureAttached_def createAttachment_def
  by (intro confined_service) (auto split: if_splits)

lemma createDeposit_lawful: "confined lawful (createDeposit now y ids t m roles dto)"
  unfolding createDeposit_def assertWarehouseScope_def requireCommodity_def liftErr_def
  by (intro confined_service confined_ensureAttached confined_deposit)

lemma confined_notifyDecision: "confined lawful (notifyDecision t ty i)"
  unfolding notifyDecision_def by (intro confined_service)

lemma adminApproveReceipt_lawful: "confined lawful (adminApproveReceipt now ev t i adm)"
  unfolding adminApproveReceipt_def by (intro confined_service confined_adminDecision confined_notifyDecision)

lemma adminRejectReceipt_lawful: "confined lawful (adminRejectReceipt now ev t i adm why)"
  unfolding adminRejectReceipt_def by (intro confined_service confined_adminDecision confined_notifyDecision)

lemma attachment_lawful:
  "confined lawful (attachClientToWarehouse i t m eff w c why)"
  "confined lawful (detachClientFromWarehouse now t m eff w c why)"
  unfolding attachClientToWarehouse_def detachClientFromWarehouse_def createAttachment_def Let_def
  by (intro confined_service; auto split: if_splits)+

lemma deposited_lawful: "lawful s (deposited c s)"
  by (cases c) (simp_all add: lawful_snd createDeposit_lawful adminApproveReceipt_lawful adminRejectReceipt_lawful attachment_lawful)

lemma serve_lawful: "lawful s (serve c s)"
  by (cases c) (simp_all add: after_call_lawful secured_lawful configured_lawful pledged_lawful released_lawful lent_lawful traded_lawful withdrawn_lawful
      deposited_lawful)

lemma served_lawful: "lawful s (served cs s)"
proof (induction cs arbitrary: s)
  case Nil
  show ?case by (simp add: served_def ledger_lawful.stays)
next
  case (Cons c cs)
  from ledger_lawful.continues [OF serve_lawful Cons.IH [of "serve c s"]] show ?case by (simp add: served_def)
qed

lemma served_evolves: "ledger_wf s \<Longrightarrow> evolves s (served cs s)"
  using served_lawful [of s cs] by (simp add: lawful_def)

lemma evolves_drift:
  assumes "evolves s s'" and "ledger_wf s"
  shows "drift rt s \<le> drift rt s'"
  using assms run_drift [of _ s s' rt] by (auto simp: evolves_def ledger_wf_def)

section \<open>Successful transactions\<close>

end
