(* ===== verification/Collateral_Properties.thy ===== *)
theory Collateral_Properties
  imports Worked_Store Holding Service_Runs
begin

text \<open>
  Properties of the collateral services: the second factors of \<open>src/security/\<close>
  (C19 to C22), the pledge services of \<open>src/pledges/\<close> (C23 to C27) and the encumbrance view of
  a receipt (C28).
\<close>

section \<open>One-time passwords and PINs\<close>

text \<open>
  C11. Guessing is bounded: whoever submits whatever codes for a user and a purpose, and
  whenever, at most five submissions per open code are ever compared with it, the accepted
  one included; when there is no open code none is.
\<close>

theorem guessing_bounded:
  assumes "otps_ok s"
  shows "length (filter checked (fst (submissions c userId purpose tries s)))
    \<le> 5 * length (filter (\<lambda>x. o_userId x = userId \<and> o_purpose x = purpose \<and> o_usedAt x = None) (otps s))"
proof -
  have "sum_list (map (\<lambda>x. OTP_MAX_ATTEMPTS - o_attempts x) rows) \<le> 5 * length rows" for rows
    by (induction rows) (auto simp: OTP_MAX_ATTEMPTS_def)
  then have "guesses_left userId purpose (otps s)
      \<le> 5 * length (filter (\<lambda>x. o_userId x = userId \<and> o_purpose x = purpose \<and> o_usedAt x = None) (otps s))"
    by (simp add: guesses_left_def)
  with submissions_budget [OF assms, of c userId purpose tries] show ?thesis by linarith
qed

text \<open>Against the one open code of \<open>fin\<close>, six wrong submissions meet five comparisons.\<close>

theorem guessing_bounded_witness:
  "length (filter checked (fst (submissions exCrypto ''fin'' OTP_PLEDGE_ACCEPT (replicate 6 (100, ''000000'')) exStore0))) \<le> 5"
proof -
  have "otps_ok exStore0" and
    "length (filter (\<lambda>x. o_userId x = ''fin'' \<and> o_purpose x = OTP_PLEDGE_ACCEPT \<and> o_usedAt x = None) (otps exStore0)) = 1"
    by code_simp+
  with guessing_bounded [of exStore0 exCrypto "''fin''" OTP_PLEDGE_ACCEPT "replicate 6 (100, ''000000'')"] show ?thesis
    by simp
qed



text \<open>
  Two-factor protection always has something to check: a user with two-factor
  authentication on has a PIN, and every operation on PINs and two-factor settings keeps it
  so, whatever it is called with and whether or not it fails.
\<close>

theorem two_factor_has_pin:
  assumes "pins_ok s" and "\<And>p. bcrypt_hash c p \<noteq> []"
  shows "pins_ok (snd (setTransactionPin c now i password pin s)) \<and>
    pins_ok (snd (changeTransactionPin c now i password old new s)) \<and>
    pins_ok (snd (clearTransactionPin c i password s)) \<and>
    pins_ok (snd (enableTwoFactor c now i password s)) \<and>
    pins_ok (snd (disableTwoFactor c now i password code s))"
  by (intro conjI setTransactionPin_pins [OF assms] changeTransactionPin_pins [OF assms] clearTransactionPin_pins [OF assms(1)]
      enableTwoFactor_pins [OF assms(1)] disableTwoFactor_pins [OF assms(1)])

definition exSecured :: store where
  "exSecured = snd (enableTwoFactor exCrypto 20 ''ada'' ''pw''
     (snd (setTransactionPin exCrypto 10 ''ada'' ''pw'' ''1234'' exStore0)))"

theorem two_factor_has_pin_witness:
  "pins_ok exSecured \<and> map u_twoFactorEnabled (users exSecured) = [True, False, False, False, False] \<and>
   pins_ok (snd (clearTransactionPin exCrypto ''ada'' ''pw'' exSecured))"
proof -
  have hash: "bcrypt_hash exCrypto p \<noteq> []" for p by (simp add: exCrypto_def)
  have "pins_ok exStore0" by code_simp
  from two_factor_has_pin [OF this hash] two_factor_has_pin [OF _ hash] have "pins_ok exSecured"
    by (simp add: exSecured_def)
  moreover have "map u_twoFactorEnabled (users exSecured) = [True, False, False, False, False]" by code_simp
  ultimately show ?thesis using two_factor_has_pin [OF _ hash, of exSecured] by blast
qed


definition exCoded :: store where
  "exCoded = snd (requestTransactionOtp exCrypto 30 ''o3'' 7 ''ada'' OTP_LOAN exSecured)"


section \<open>The life of a pledge\<close>

definition dto_quantity :: "create_pledge_dto \<Rightarrow> dec" where
  "dto_quantity dto = decimalOf (cd_quantity dto)"

lemma createPledge_steps:
  assumes run: "createPledge ttl now ids u dto s = (Inr v, s')"
  obtains caller r link org held row s1 p where
    "findUser u s = Some caller"
    "find (\<lambda>r. r_id r = cd_receiptId dto \<and> r_clientId r = u \<and> r_tenantId r = u_tenantId caller) (receipts s) = Some r"
    "find (\<lambda>l. wl_tenantId l = u_tenantId caller \<and> wl_financierOrgId l = cd_financierId dto \<and>
       wl_warehouseId l = r_warehouseId r \<and> wl_status l = LINK_ACTIVE) (links s) = Some link"
    "find_row fo_id (wl_financierOrgId link) (orgs s) = Some org" "fo_status org = ORG_ACTIVE"
    "ledgerHold (ids 1) (ids 2) (ids 3) now
       \<lparr>h_tenantId = r_tenantId r, h_sourceReceiptId = r_id r, h_quantity = dto_quantity dto,
        h_heldStatus = Held_Pledge_Pending, h_txnType = T_PLEDGE, h_txnId = ids 0,
        h_actorUserId = Some u, h_idempotencyKey = ''pledge:create:'' @ ids 0,
        h_metadata = Some [(''financierOrgId'', cd_financierId dto)]\<rparr> s = (Inr held, s1)"
    "hr_held held = Some row" "ids 0 \<notin> p_id ` set (pledges s1)"
    "p_id p = ids 0" "p_status p = PL_PENDING" "p_heldReceiptId p = Some (r_id row)" "p_clientId p = u"
    "p_financierOrgId p = cd_financierId dto" "p_quantity p = to_scale 4 (dto_quantity dto)" "p_receiptId p = r_id r"
    "receipts s' = receipts s1" "pledges s' = pledges s1 @ [p]" "liens s' = liens s1"
proof -
  show ?thesis
    using run that unfolding createPledge_def Let_def insertPledge_def getReceiptEncumbrance_def dto_quantity_def
    by (auto simp: bindM_Inr_iff split: option.splits if_splits dest!: notifyFinancierUsers_run projectPledgeDetail_run)
qed

text \<open>
  C14. A pledge is created only over free goods: when the call succeeds, the receipt is the
  caller's own and was ACTIVE with at least the positive quantity pledged, the financier is
  active and linked to the warehouse, the quantity is cut off into a new row held for the
  pledge, and the pledge recorded is PENDING over that row.
\<close>

theorem pledge_over_free_goods:
  assumes run: "createPledge ttl now ids u dto s = (Inr v, s')" and wf: "ledger_wf s"
    and key: "findEventByKey (''pledge:create:'' @ ids 0) s = None"
  shows "\<exists>caller r link org p h x. findUser u s = Some caller \<and>
    find_row r_id (cd_receiptId dto) (receipts s) = Some r \<and> r_clientId r = u \<and> r_tenantId r = u_tenantId caller \<and>
    r_status r = ACTIVE \<and> 0 < decimalOf (cd_quantity dto) \<and> decimalOf (cd_quantity dto) \<le> r_quantity r \<and>
    link \<in> set (links s) \<and> wl_financierOrgId link = cd_financierId dto \<and> wl_warehouseId link = r_warehouseId r \<and>
    wl_status link = LINK_ACTIVE \<and> find_row fo_id (cd_financierId dto) (orgs s) = Some org \<and> fo_status org = ORG_ACTIVE \<and>
    pledges s' = pledges s @ [p] \<and> p_id p \<notin> p_id ` set (pledges s) \<and> p_status p = PL_PENDING \<and> p_clientId p = u \<and>
    p_receiptId p = r_id r \<and> p_quantity p = to_scale 4 (decimalOf (cd_quantity dto)) \<and> p_heldReceiptId p = Some h \<and>
    find_row r_id h (receipts s) = None \<and> find_row r_id h (receipts s') = Some x \<and>
    r_status x = HELD_PLEDGE_PENDING \<and> r_clientId x = u \<and> r_quantity x = to_scale 3 (decimalOf (cd_quantity dto)) \<and>
    map_option r_status (find_row r_id (cd_receiptId dto) (receipts s')) = Some SPLIT"
proof (rule createPledge_steps [OF run])
  fix caller link org held row s1 p and r :: receipt
  let ?inp = "\<lparr>h_tenantId = r_tenantId r, h_sourceReceiptId = r_id r, h_quantity = dto_quantity dto,
        h_heldStatus = Held_Pledge_Pending, h_txnType = T_PLEDGE, h_txnId = ids 0,
        h_actorUserId = Some u, h_idempotencyKey = ''pledge:create:'' @ ids 0,
        h_metadata = Some [(''financierOrgId'', cd_financierId dto)]\<rparr>"
  assume caller: "findUser u s = Some caller"
    and r: "find (\<lambda>r. r_id r = cd_receiptId dto \<and> r_clientId r = u \<and> r_tenantId r = u_tenantId caller) (receipts s) = Some r"
    and link: "find (\<lambda>l. wl_tenantId l = u_tenantId caller \<and> wl_financierOrgId l = cd_financierId dto \<and>
       wl_warehouseId l = r_warehouseId r \<and> wl_status l = LINK_ACTIVE) (links s) = Some link"
    and org: "find_row fo_id (wl_financierOrgId link) (orgs s) = Some org" "fo_status org = ORG_ACTIVE"
    and hold: "ledgerHold (ids 1) (ids 2) (ids 3) now ?inp s = (Inr held, s1)"
    and row: "hr_held held = Some row" "ids 0 \<notin> p_id ` set (pledges s1)"
    and p: "p_id p = ids 0" "p_status p = PL_PENDING" "p_heldReceiptId p = Some (r_id row)" "p_clientId p = u"
      "p_financierOrgId p = cd_financierId dto" "p_quantity p = to_scale 4 (dto_quantity dto)" "p_receiptId p = r_id r"
    and s': "receipts s' = receipts s1" "pledges s' = pledges s1 @ [p]" "liens s' = liens s1"
  note r' = find_SomeD [OF r] and l' = find_SomeD [OF link]
  have k: "findEventByKey (h_idempotencyKey ?inp) s = None" using key by simp
  from held.held_row [OF wf k hold] row r' obtain src x where src: "find_row r_id (cd_receiptId dto) (receipts s) = Some src"
    "holdable ?inp src" "find_row r_id (r_id row) (receipts s) = None" "find_row r_id (r_id row) (receipts s1) = Some row"
    "r_status row = HELD_PLEDGE_PENDING" "r_clientId row = r_clientId src" "r_quantity row = to_scale 3 (dto_quantity dto)"
    "find_row r_id (cd_receiptId dto) (receipts s1) = Some x" "r_status x = SPLIT" "ledger.more s1 = ledger.more s" by auto
  have "src = r" using find_SomeD [OF r] src(1) wf find_root [of s r] by (auto simp: ledger_wf_def)
  with src r' l' caller org row p s' same_more [OF src(10)] show ?thesis
    by (intro exI [of _ caller] exI [of _ r] exI [of _ link] exI [of _ org] exI [of _ p] exI [of _ "r_id row"] exI [of _ row])
      (simp add: holdable_def dto_quantity_def)
qed

theorem pledge_over_free_goods_witness:
  "\<exists>r p x. find_row r_id ''r1'' (receipts exStore) = Some r \<and> r_status r = ACTIVE \<and> pledges exPledged = [p] \<and>
     p_quantity p = 9 / 2 \<and> p_heldReceiptId p = Some (r_id x) \<and> x \<in> set (receipts exPledged) \<and>
     r_status x = HELD_PLEDGE_PENDING \<and> r_quantity x = 9 / 2"
proof -
  have run: "case fst (createPledge None 100 (exIds CHR ''p'') ''ada'' exPledgeDto exStore) of Inl _ \<Rightarrow> False | Inr _ \<Rightarrow> True"
    and key: "findEventByKey (''pledge:create:'' @ exIds CHR ''p'' 0) exStore = None"
    and q: "to_scale 4 (decimalOf (cd_quantity exPledgeDto)) = 9 / 2" "to_scale 3 (decimalOf (cd_quantity exPledgeDto)) = 9 / 2"
    and e: "cd_receiptId exPledgeDto = ''r1''" "pledges exStore = []" by code_simp+
  then obtain v where "createPledge None 100 (exIds CHR ''p'') ''ada'' exPledgeDto exStore = (Inr v, exPledged)"
    by (cases "createPledge None 100 (exIds CHR ''p'') ''ada'' exPledgeDto exStore") (auto simp: exPledged_def split: sum.splits)
  from pledge_over_free_goods [OF this exStore_wf key] q e show ?thesis by (auto dest: find_row_SomeD)
qed

text \<open>
  Cancelling gives the goods back: a successful cancellation was the client's own, of a
  PENDING pledge; it turns the held row, and no other, ACTIVE with its quantity unchanged,
  marks this pledge and no other CANCELLED, and leaves every lien alone.
\<close>

theorem cancel_returns_goods:
  assumes "cancelPledge ev u i s = (Inr v, s')" and "ledger_wf s"
    and "findPledge i s = Some p" and "distinct (map p_id (pledges s))"
    and "p_heldReceiptId p = Some h" and "h \<noteq> []" and "findEventByKey (''pledge:cancel:'' @ i) s = None"
  shows "p_clientId p = u \<and> p_status p = PL_PENDING \<and>
    pledges s' = upd_row p_id i (\<lambda>x. x\<lparr>p_status := PL_CANCELLED\<rparr>) (pledges s) \<and> liens s' = liens s \<and>
    (\<exists>r x. find_row r_id h (receipts s) = Some r \<and> r_status r \<in> set HELD \<and>
       find_row r_id h (receipts s') = Some x \<and> r_status x = ACTIVE \<and> r_quantity x = r_quantity r) \<and>
    (\<forall>j. j \<noteq> h \<longrightarrow> find_row r_id j (receipts s') = find_row r_id j (receipts s))"
proof -
  have "ids_unique s" "p_id p = i"
    using assms(2) find_row_SomeD [OF assms(3) [unfolded findPledge_def]] by (simp_all add: ledger_wf_def)
  with cancelPledge_ends [OF assms(1) this(1) assms(3-7)] show ?thesis by (simp add: pledge_ended_def)
qed

theorem cancel_returns_goods_witness:
  "\<exists>s' x. snd (cancelPledge ''c1'' ''ada'' ''p0'' exPledged) = s' \<and> map p_status (pledges s') = [PL_CANCELLED] \<and>
     find_row r_id ''p2'' (receipts s') = Some x \<and> r_status x = ACTIVE \<and> r_quantity x = 9 / 2"
proof -
  have run: "case fst (cancelPledge ''c1'' ''ada'' ''p0'' exPledged) of Inl _ \<Rightarrow> False | Inr _ \<Rightarrow> True"
    and p: "case findPledge ''p0'' exPledged of None \<Rightarrow> False | Some p \<Rightarrow> p_heldReceiptId p = Some ''p2''"
    and d: "map p_id (pledges exPledged) = [''p0'']" and key: "findEventByKey (''pledge:cancel:'' @ ''p0'') exPledged = None"
    and q: "map_option r_quantity (find_row r_id ''p2'' (receipts exPledged)) = Some (9 / 2)" by code_simp+
  obtain v s' where r: "cancelPledge ''c1'' ''ada'' ''p0'' exPledged = (Inr v, s')"
    using run by (cases "cancelPledge ''c1'' ''ada'' ''p0'' exPledged") (auto split: sum.splits)
  obtain p where "findPledge ''p0'' exPledged = Some p" "p_heldReceiptId p = Some ''p2''"
    using p by (auto split: option.splits)
  from cancel_returns_goods [OF r exPledged_wf this(1) _ this(2) _ key] d q r show ?thesis
    by (cases "pledges exPledged") (auto simp: upd_row_def)
qed

text \<open>
  C15. A pledge becomes a lien as one: a successful acceptance was by a user of the
  pledge's own financier, before the pledge expired, with an accepted one-time password;
  the held row, and no other, moves from HELD_PLEDGE_PENDING to HELD_LIEN with its quantity,
  exactly one lien over it for the pledged quantity is added, and the pledge is ACCEPTED.
\<close>

theorem accept_makes_lien:
  assumes "acceptPledge c now ids u i code note s = (Inr v, s')" and "ledger_wf s"
    and "findPledge i s = Some p" and "distinct (map p_id (pledges s))"
    and "findEventByKey (''pledge:accept:'' @ i) s = None"
  shows "\<exists>h r x. p_status p = PL_PENDING \<and> now \<le> p_expiresAt p \<and> p_heldReceiptId p = Some h \<and>
    (\<exists>y. findUser u s = Some y \<and> u_financierOrgId y = Some (p_financierOrgId p)) \<and>
    liens s' = liens s @ [\<lparr>ln_id = ids 1, ln_tenantId = p_tenantId p, ln_pledgeId = i, ln_receiptId = h,
      ln_clientId = p_clientId p, ln_financierOrgId = p_financierOrgId p, ln_quantity = p_quantity p,
      ln_remainingQuantity = p_quantity p, ln_status = LN_ACTIVE, ln_placedAt = now, ln_releasedAt = None\<rparr>] \<and>
    map_option p_status (findPledge i s') = Some PL_ACCEPTED \<and>
    find_row r_id h (receipts s) = Some r \<and> r_status r = HELD_PLEDGE_PENDING \<and>
    find_row r_id h (receipts s') = Some x \<and> r_status x = HELD_LIEN \<and> r_quantity x = r_quantity r \<and>
    (\<forall>j. j \<noteq> h \<longrightarrow> find_row r_id j (receipts s') = find_row r_id j (receipts s))"
proof -
  have "ids_unique s" "p_id p = i"
    using assms(2) find_row_SomeD [OF assms(3) [unfolded findPledge_def]] by (simp_all add: ledger_wf_def)
  with acceptPledge_effect [OF assms(1) this(1) assms(3-5)] show ?thesis by (auto simp: accepted_lien_def)
qed

theorem accept_makes_lien_witness:
  "\<exists>x l. liens exAccepted = [l] \<and> ln_receiptId l = ''p2'' \<and> ln_remainingQuantity l = 9 / 2 \<and>
     find_row r_id ''p2'' (receipts exAccepted) = Some x \<and> r_status x = HELD_LIEN"
proof -
  have run: "case fst (acceptPledge exCrypto 200 (exIds CHR ''a'') ''fin'' ''p0'' ''123456'' None exPledged) of
      Inl _ \<Rightarrow> False | Inr _ \<Rightarrow> True"
    and p: "case findPledge ''p0'' exPledged of None \<Rightarrow> False | Some p \<Rightarrow> p_heldReceiptId p = Some ''p2'' \<and> p_quantity p = 9 / 2"
    and d: "distinct (map p_id (pledges exPledged))" and key: "findEventByKey (''pledge:accept:'' @ ''p0'') exPledged = None"
    and l: "liens exPledged = []" by code_simp+
  obtain v where r: "acceptPledge exCrypto 200 (exIds CHR ''a'') ''fin'' ''p0'' ''123456'' None exPledged = (Inr v, exAccepted)"
    using run by (cases "acceptPledge exCrypto 200 (exIds CHR ''a'') ''fin'' ''p0'' ''123456'' None exPledged")
      (auto simp: exAccepted_def split: sum.splits)
  obtain p where "findPledge ''p0'' exPledged = Some p" "p_heldReceiptId p = Some ''p2''" "p_quantity p = 9 / 2"
    using p by (auto split: option.splits)
  with accept_makes_lien [OF r exPledged_wf this(1) d key] l show ?thesis by auto
qed

text \<open>
  A wrong code changes nothing but the code's own attempts: if the one-time password
  would not be accepted, accepting the pledge fails and the only table that may differ
  afterwards is the one-time passwords.
\<close>

theorem wrong_code_harmless:
  assumes "\<And>s1. consumeOtp c now u code OTP_PLEDGE_ACCEPT s \<noteq> (Inr (), s1)"
  shows "\<exists>e rows. acceptPledge c now ids u i code note s = (Inl e, s\<lparr>otps := rows\<rparr>)"
  by (rule acceptPledge_bad_code [OF assms])

theorem wrong_code_harmless_witness:
  "\<exists>e rows. acceptPledge exCrypto 200 (exIds CHR ''a'') ''fin'' ''p0'' ''999999'' None exPledged =
     (Inl e, exPledged\<lparr>otps := rows\<rparr>)"
proof (rule wrong_code_harmless)
  have "case fst (consumeOtp exCrypto 200 ''fin'' ''999999'' OTP_PLEDGE_ACCEPT exPledged) of Inl _ \<Rightarrow> True | Inr _ \<Rightarrow> False"
    by code_simp
  then show "consumeOtp exCrypto 200 ''fin'' ''999999'' OTP_PLEDGE_ACCEPT exPledged \<noteq> (Inr (), s1)" for s1 by auto
qed



section \<open>Encumbrance\<close>

text \<open>Every row has its root in the table, of its own tenant.\<close>

lemma root_of_row:
  assumes "tree_ok s" and "i < length (receipts s)"
  shows "\<exists>x \<in> set (receipts s). r_id x = r_rootReceiptId (receipts s ! i) \<and> r_parentReceiptId x = None \<and>
    r_tenantId x = r_tenantId (receipts s ! i)"
  using assms(2)
proof (induction i rule: less_induct)
  case (less i)
  have place: "placed (take i (receipts s)) (receipts s ! i)" using assms(1) less.prems by (simp add: tree_ok_iff)
  show ?case
  proof (cases "r_parentReceiptId (receipts s ! i)")
    case None
    with place less.prems show ?thesis by (intro bexI [of _ "receipts s ! i"]) (auto simp: placed_def)
  next
    case (Some p)
    with place obtain j where j: "j < i" "r_rootReceiptId (receipts s ! j) = r_rootReceiptId (receipts s ! i)"
      "r_tenantId (receipts s ! j) = r_tenantId (receipts s ! i)"
      by (auto simp: placed_def in_set_conv_nth)
    with less.IH [OF j(1)] less.prems show ?thesis by simp
  qed
qed

lemma volume_by_status:
  "volume (filter (\<lambda>r. P r \<and> r_status r \<noteq> SPLIT) rows) = volume (filter (\<lambda>r. P r \<and> r_status r = ACTIVE) rows)
     + volume (filter (\<lambda>r. P r \<and> r_status r = HELD_PLEDGE_PENDING) rows) + volume (filter (\<lambda>r. P r \<and> r_status r = HELD_LIEN) rows)
     + volume (filter (\<lambda>r. P r \<and> r_status r \<notin> {SPLIT, ACTIVE, HELD_PLEDGE_PENDING, HELD_LIEN}) rows)"
  by (induction rows) auto

lemma volume_ge0: "\<forall>r \<in> set rows. 0 \<le> r_quantity r \<Longrightarrow> 0 \<le> volume (filter P rows)"
  by (induction rows) auto

lemma inStatus_leaves:
  assumes wf: "ids_unique s" "tree_ok s" and rt: "rt \<in> set (receipts s)" "r_parentReceiptId rt = None"
    and st: "st \<in> set leafStatuses"
  shows "inStatus st (leavesOf rt s) = volume (filter (\<lambda>r. r_rootReceiptId r = r_id rt \<and> r_status r = st) (receipts s))"
proof -
  have "r_tenantId r = r_tenantId rt" if r: "r \<in> set (receipts s)" "r_rootReceiptId r = r_id rt" for r
  proof -
    from r obtain i where "i < length (receipts s)" "r = receipts s ! i" by (auto simp: in_set_conv_nth)
    with root_of_row [OF wf(2), of i] r(2) obtain x where "x \<in> set (receipts s)" "r_id x = r_id rt" "r_tenantId x = r_tenantId r"
      by auto
    with wf(1) rt show ?thesis by (auto simp: ids_unique_def distinct_map inj_on_def)
  qed
  moreover have "r_rootReceiptId r = r_id rt" if r: "r \<in> set (receipts s)" "r_id r = r_id rt" for r
  proof -
    have "r = rt" using wf(1) rt(1) r by (auto simp: ids_unique_def distinct_map inj_on_def)
    moreover obtain i where "i < length (receipts s)" "rt = receipts s ! i" using rt(1) by (auto simp: in_set_conv_nth)
    ultimately show ?thesis using wf(2) rt(2) by (auto simp: tree_ok_iff placed_def)
  qed
  ultimately show ?thesis
    using st unfolding inStatus_def leavesOf_def filter_filter by (intro arg_cong [of _ _ volume] filter_cong) auto
qed

lemma encumbrance_total:
  assumes wf: "ledger_wf s" and rt: "rt \<in> set (receipts s)" "r_parentReceiptId rt = None"
  shows "en_available (encumbranceOf u rt s) + en_pledgePending (encumbranceOf u rt s) + en_liened (encumbranceOf u rt s) +
    volume (filter (\<lambda>r. r_rootReceiptId r = r_id rt \<and> r_status r \<notin> {SPLIT, ACTIVE, HELD_PLEDGE_PENDING, HELD_LIEN}) (receipts s))
    = r_quantity rt + drift (r_id rt) s"
proof -
  have w: "ids_unique s" "tree_ok s" "statuses_ok s" using wf by (simp_all add: ledger_wf_def)
  let ?in = "\<lambda>r. r_rootReceiptId r = r_id rt"
  have "leafVolume (r_id rt) s = volume (filter (\<lambda>r. ?in r \<and> r_status r \<noteq> SPLIT) (receipts s))"
    using w(3) unfolding leafVolume_def statuses_ok_def by (intro arg_cong [of _ _ volume] filter_cong) auto
  also have "\<dots> = volume (filter (\<lambda>r. ?in r \<and> r_status r = ACTIVE) (receipts s))
      + volume (filter (\<lambda>r. ?in r \<and> r_status r = HELD_PLEDGE_PENDING) (receipts s))
      + volume (filter (\<lambda>r. ?in r \<and> r_status r = HELD_LIEN) (receipts s))
      + volume (filter (\<lambda>r. ?in r \<and> r_status r \<notin> {SPLIT, ACTIVE, HELD_PLEDGE_PENDING, HELD_LIEN}) (receipts s))"
    by (rule volume_by_status)
  finally have leaf: "leafVolume (r_id rt) s = \<dots>" .
  have d: "distinct (receipts s)" "distinct (map r_id (receipts s))" using w(1) by (auto simp: ids_unique_def distinct_map)
  have "filter (\<lambda>r. r_id r = r_id rt \<and> r_parentReceiptId r = None) (receipts s) = filter (\<lambda>r. r = rt) (receipts s)"
    using d(2) rt by (intro filter_cong) (auto simp: distinct_map dest: inj_onD)
  with d(1) rt have "genesisVolume (r_id rt) s = r_quantity rt" by (simp add: genesisVolume_def filter_is)
  with leaf show ?thesis
    by (simp add: encumbranceOf_def Let_def inStatus_leaves [OF w(1,2) rt] leafStatuses_def drift_def)
qed

text \<open>
  The encumbrance of a receipt adds up: what is shown as available, pending and under
  lien, together with the leaves of its tree in any other status, is the quantity deposited
  plus what splits have added; no part is negative.
\<close>

theorem encumbrance_adds_up:
  assumes "ledger_wf s" and "rt \<in> set (receipts s)" and "r_parentReceiptId rt = None"
  shows "en_available (encumbranceOf u rt s) + en_pledgePending (encumbranceOf u rt s) + en_liened (encumbranceOf u rt s) +
      volume (filter (\<lambda>r. r_rootReceiptId r = r_id rt \<and> r_status r \<notin> {SPLIT, ACTIVE, HELD_PLEDGE_PENDING, HELD_LIEN}) (receipts s))
      = en_totalQuantity (encumbranceOf u rt s) + drift (r_id rt) s \<and>
    0 \<le> en_available (encumbranceOf u rt s) \<and> 0 \<le> en_pledgePending (encumbranceOf u rt s) \<and>
    0 \<le> en_liened (encumbranceOf u rt s)"
proof -
  have "\<forall>r \<in> set (receipts s). 0 \<le> r_quantity r" using assms(1) by (auto simp: ledger_wf_def quantities_ok_def)
  note nonneg = volume_ge0 [OF this]
  have "ids_unique s" "tree_ok s" using assms(1) by (simp_all add: ledger_wf_def)
  note st = inStatus_leaves [OF this assms(2,3)]
  show ?thesis
    using encumbrance_total [OF assms, of u] st [of ACTIVE] st [of HELD_PLEDGE_PENDING] st [of HELD_LIEN] nonneg
    by (simp add: encumbranceOf_def Let_def leafStatuses_def)
qed

theorem encumbrance_adds_up_witness:
  "\<exists>rt \<in> set (receipts exPledged). en_available (encumbranceOf ''ada'' rt exPledged) = 11 / 2 \<and>
     en_pledgePending (encumbranceOf ''ada'' rt exPledged) = 9 / 2 \<and> en_liened (encumbranceOf ''ada'' rt exPledged) = 0 \<and>
     en_totalQuantity (encumbranceOf ''ada'' rt exPledged) = 10 \<and> drift (r_id rt) exPledged = 0"
proof -
  let ?rt = "hd (receipts exPledged)"
  have rt: "?rt \<in> set (receipts exPledged)" "r_parentReceiptId ?rt = None" by code_simp+
  have e: "en_available (encumbranceOf ''ada'' ?rt exPledged) = 11 / 2" "en_pledgePending (encumbranceOf ''ada'' ?rt exPledged) = 9 / 2"
    "en_liened (encumbranceOf ''ada'' ?rt exPledged) = 0" "en_totalQuantity (encumbranceOf ''ada'' ?rt exPledged) = 10"
    "volume (filter (\<lambda>r. r_rootReceiptId r = r_id ?rt \<and> r_status r \<notin> {SPLIT, ACTIVE, HELD_PLEDGE_PENDING, HELD_LIEN}) (receipts exPledged)) = 0"
    by code_simp+
  with encumbrance_adds_up [OF exPledged_wf rt, of "''ada''"] rt show ?thesis by (intro bexI [of _ ?rt]) auto
qed

end
