(* ===== verification/Release_Properties.thy ===== *)
theory Release_Properties
  imports Worked_Store Holding Service_Runs
begin

text \<open>
  Properties of the release requests of \<open>src/release-requests/\<close>: a request stays within what
  the lien has left (C29), and its approval releases exactly the lines it names (C30). The
  first sections hold the facts about quantities at scale 3, about the lines of a request and
  about the ledger's partial release that both rest on.
\<close>

section \<open>Release requests\<close>

lemma quantity_ok_scale:
  assumes "quantity_ok t"
  shows "on_scale 4 (decimalOf t)"
proof -
  define rest where "rest = dropWhile is_digit t"
  define ds where "ds = drop 1 rest"
  have "rest = [] \<or> length (tl rest) \<le> 4"
    using assms by (auto simp: quantity_ok_def Let_def rest_def simp del: dropWhile_eq_Nil_conv)
  then have len: "length ds \<le> 4" by (cases rest) (auto simp: ds_def)
  let ?n = "digits_value (takeWhile is_digit t) * 10 ^ 4 + digits_value ds * 10 ^ (4 - length ds)"
  have p: "(10 :: rat) ^ 4 / 10 ^ length ds = 10 ^ (4 - length ds)"
    using len by (simp add: power_diff)
  have "decimalOf t * 10 ^ 4 = of_int (digits_value (takeWhile is_digit t)) * 10 ^ 4 + of_int (digits_value ds) * (10 ^ 4 / 10 ^ length ds)"
    by (simp add: decimalOf_def Let_def ds_def rest_def algebra_simps)
  also have "\<dots> = of_int ?n" by (simp only: p) simp
  finally show ?thesis by (simp only: on_scale_def floor_of_int)
qed

definition scaledLine :: "release_line \<Rightarrow> release_line" where
  "scaledLine l = l\<lparr>rl_quantity := to_scale 4 (rl_quantity l)\<rparr>"

lemma insertLines_rows:
  "insertLines ls s = Inr (x, s') \<Longrightarrow> s' = s\<lparr>lines_of_requests := lines_of_requests s @ map scaledLine ls\<rparr>"
proof (induction ls arbitrary: s x)
  case (Cons l ls)
  then obtain y s1 where 1: "insertLine l s = Inr (y, s1)" and 2: "insertLines ls s1 = Inr (x, s')"
    by (auto simp: andThen_Inr_iff)
  from 1 have "s1 = s\<lparr>lines_of_requests := lines_of_requests s @ [scaledLine l]\<rparr>"
    by (auto simp: insertLine_def scaledLine_def split: if_splits)
  with Cons.IH [OF 2] show ?case by simp
qed simp

lemma firstError_None: "firstError f xs = None \<longleftrightarrow> (\<forall>x \<in> set xs. f x = None)"
  by (induction xs) (auto split: option.splits)

lemma createReleaseRequest_effect:
  assumes "createReleaseRequest now ids u dto s = (Inr v, s')"
  obtains q rows where "\<forall>line \<in> set (cr_lines dto). lineError u (cr_financierId dto) s line = None"
    "requests s' = requests s @ [q]" "rq_id q = ids 0" "rq_status q = RQ_PENDING" "ids 0 \<notin> rq_id ` set (requests s)"
    "rq_clientId q = u" "rq_financierOrgId q = cr_financierId dto"
    "lines_of_requests s' = lines_of_requests s @ rows" "liens s' = liens s" "receipts s' = receipts s"
    "map rl_lienId rows = map rd_lienId (cr_lines dto)"
    "map rl_quantity rows = map (\<lambda>l. to_scale 4 (decimalOf (rd_quantity l))) (cr_lines dto)"
    "\<forall>r \<in> set rows. rl_releaseRequestId r = ids 0"
proof -
  obtain caller ls s1 s2 where
    chk: "createReleaseRequest_check u dto s = (Inr (caller, ls), s1)"
    and com: "createReleaseRequest_commit now ids dto (caller, ls) s1 = (Inr v, s')"
    using assms by (auto simp: createReleaseRequest_def bindM_Inr_iff)
  have c: "s1 = s" "findUser u s = Some caller" "\<forall>line \<in> set (cr_lines dto). lineError u (cr_financierId dto) s line = None"
    "map fst ls = cr_lines dto"
    using chk by (auto simp: createReleaseRequest_check_def bindM_Inr_iff firstError_None comp_def split: option.splits)
  let ?q = "\<lparr>rq_id = ids 0, rq_tenantId = u_tenantId caller, rq_clientId = u_id caller,
            rq_financierOrgId = cr_financierId dto, rq_requestedDate = cr_requestedDate dto,
            rq_note = cr_note dto, rq_status = RQ_PENDING, rq_decisionReason = None,
            rq_decidedById = None, rq_decidedAt = None, rq_createdAt = now\<rparr>"
  obtain s2 where tx: "andThen (insertRequest ?q s) (\<lambda>(_, s1). insertLines (lineRows ids ls) s1) = Inr ((), s2)"
    and rest: "requests s' = requests s2" "lines_of_requests s' = lines_of_requests s2" "liens s' = liens s2" "receipts s' = receipts s2"
    using com unfolding createReleaseRequest_commit_def c(1) projectRequestDetail_def
    by (auto simp: bindM_Inr_iff transactM_def split: sum.splits dest!: notifyFinancierUsers_run)
  from tx have new: "ids 0 \<notin> rq_id ` set (requests s)"
    and s2: "s2 = s\<lparr>requests := requests s @ [?q]\<rparr>\<lparr>lines_of_requests := lines_of_requests s @ map scaledLine (lineRows ids ls)\<rparr>"
    by (auto simp: andThen_Inr_iff insertRequest_def split: if_splits dest!: insertLines_rows)
  let ?rows = "map scaledLine (lineRows ids ls)"
  have "map rl_lienId ?rows = map rd_lienId (map fst ls)"
    "map rl_quantity ?rows = map (\<lambda>l. to_scale 4 (decimalOf (rd_quantity l))) (map fst ls)"
    by (auto simp: lineRows_def scaledLine_def comp_def case_prod_beta map_snd_enumerate intro!: nth_equalityI
        simp: nth_enumerate_eq)
  moreover have "\<forall>r \<in> set ?rows. rl_releaseRequestId r = ids 0"
    by (auto simp: lineRows_def scaledLine_def)
  moreover have "u_id caller = u" using findUser_id [OF c(2)] by simp
  ultimately show thesis using that [of ?q ?rows] c(3,4) new s2 rest by simp
qed

text \<open>What a request adds to the quantity pending on a lien.\<close>

lemma pending_of_request:
  assumes "requests s' = requests s @ [q]" and "rq_status q = RQ_PENDING" and "rq_id q \<notin> rq_id ` set (requests s)"
    and "lines_of_requests s' = lines_of_requests s @ rows" and "\<forall>r \<in> set rows. rl_releaseRequestId r = rq_id q"
    and "\<forall>l \<in> set (lines_of_requests s). rl_releaseRequestId l \<in> rq_id ` set (requests s)"
  shows "pendingFor i s' = pendingFor i s + sum_list (map rl_quantity (filter (\<lambda>r. rl_lienId r = i) rows))"
proof -
  have old: "linePending s' l = linePending s l" if "l \<in> set (lines_of_requests s)" for l
    using that assms(1,6) by (auto simp: linePending_def find_row_append find_row_None_iff split: option.split)
  have "find_row rq_id (rq_id q) (requests s) = None" using assms(3) by (simp add: find_row_None_iff)
  then have "find_row rq_id (rq_id q) (requests s') = Some q"
    by (simp add: assms(1) find_row_append) (simp add: find_row_def)
  then have new: "linePending s' r" if "r \<in> set rows" for r
    using that assms(2,5) by (simp add: linePending_def)
  have "filter (\<lambda>l. rl_lienId l = i \<and> linePending s' l) (lines_of_requests s)
      = filter (\<lambda>l. rl_lienId l = i \<and> linePending s l) (lines_of_requests s)"
    "filter (\<lambda>l. rl_lienId l = i \<and> linePending s' l) rows = filter (\<lambda>l. rl_lienId l = i) rows"
    using old new by (auto intro: filter_cong)
  then show ?thesis by (simp add: pendingFor_def assms(4))
qed

lemma sum_of_key:
  assumes "distinct (map k xs)" and "x \<in> set xs" and "map kr rows = map k xs" and "map qr rows = map q xs"
  shows "sum_list (map qr (filter (\<lambda>r. kr r = k x) rows)) = (q x :: rat)"
  using assms
proof (induction xs arbitrary: rows)
  case (Cons y ys)
  then obtain r rs where rows: "rows = r # rs" by (cases rows) auto
  show ?case
  proof (cases "x = y")
    case True
    have "filter (\<lambda>r. kr r = k x) rs = []"
      using Cons.prems True rows by (auto simp: filter_empty_conv) (metis image_eqI list.set_map)
    with Cons.prems rows True show ?thesis by auto
  next
    case False
    then have x: "x \<in> set ys" using Cons.prems by auto
    then have "k x \<noteq> k y" using Cons.prems(1) by (metis distinct.simps(2) image_eqI list.set_map list.simps(9))
    with x Cons.IH [of rs] Cons.prems rows show ?thesis by auto
  qed
qed simp

section \<open>Partial release\<close>

text \<open>What a committed partial release leaves: the row is split into a free and a held part.\<close>

lemma releasePartialTx_leaves:
  assumes run: "releasePartialTx evId id1 id2 now inp s = Inr (res, s')" and u: "ids_unique s"
  shows "\<exists>src a b. find_row r_id (rp_heldReceiptId inp) (receipts s) = Some src \<and> r_status src = HELD_LIEN \<and>
    0 < rp_releaseQuantity inp \<and> rp_releaseQuantity inp < r_quantity src \<and>
    rr_released res = Some a \<and> rr_remainingHeld res = Some b \<and>
    r_status a = ACTIVE \<and> r_clientId a = r_clientId src \<and> r_quantity a = to_scale 3 (rp_releaseQuantity inp) \<and>
    r_status b = HELD_LIEN \<and> r_clientId b = r_clientId src \<and> r_quantity b = to_scale 3 (r_quantity src - rp_releaseQuantity inp) \<and>
    receipts s' = upd_row r_id (r_id src) (splitMark now) (receipts s) @ [a, b] \<and>
    distinct (map r_id [a, b]) \<and> {r_id a, r_id b} \<inter> r_id ` set (receipts s) = {}"
proof -
  let ?q = "rp_releaseQuantity inp"
  have mark: "(\<lambda>r. r\<lparr>r_status := SPLIT, r_isParent := True, r_supersededAt := Some now\<rparr>) = splitMark now"
    by (simp add: fun_eq_iff splitMark_def)
  obtain src e ev s1 n1 n2 a b s2 s3 row where
    l: "loadOrThrow s (rp_heldReceiptId inp) (rp_tenantId inp) = Inr src" "r_status src = HELD_LIEN"
      "0 < ?q" "?q < r_quantity src" and e: "event e s = Inr (ev, s1)"
    and c1: "createReceipt ((childData id1 n1 src ?q (e_id ev))\<lparr>
          r_status := ACTIVE, r_approvalStatus := APPROVED, r_clientId := r_clientId src\<rparr>) s1 = Inr (a, s2)"
    and c2: "createReceipt ((childData id2 n2 src (r_quantity src - ?q) (e_id ev))\<lparr>
          r_status := HELD_LIEN, r_approvalStatus := r_approvalStatus src,
          r_clientId := r_clientId src, r_sourceTxnType := r_sourceTxnType src,
          r_sourceTxnId := r_sourceTxnId src\<rparr>) s2 = Inr (b, s3)"
    and up: "updateReceipt (r_id src) (splitMark now) s3 = Inr (row, s')"
    and res: "rr_released res = Some a" "rr_remainingHeld res = Some b"
    using run unfolding releasePartialTx_def Let_def mark
    by (auto simp: andThen_Inr_iff linorder_not_less not_le)
  note c1 = c1 [unfolded createReceipt_Inr_iff] and c2 = c2 [unfolded createReceipt_Inr_iff]
  from loadOrThrow_InrD [OF l(1)] have src: "src \<in> set (receipts s)" "r_id src = rp_heldReceiptId inp" by simp_all
  have s1: "receipts s1 = receipts s" using e by (auto simp: event_Inr_iff)
  have r3: "receipts s3 = receipts s @ [a, b]" using c1 c2 s1 by auto
  have fresh: "distinct (map r_id [a, b])" "{r_id a, r_id b} \<inter> r_id ` set (receipts s) = {}"
    using c1 c2 s1 by auto
  then have "r_id src \<notin> r_id ` set [a, b]" using imageI [OF src(1), of r_id] by auto
  with up r3 have s': "receipts s' = upd_row r_id (r_id src) (splitMark now) (receipts s) @ [a, b]"
    by (simp add: updateReceipt_Inr_iff upd_row_notin)
  from find_root [OF u src(1)] src(2) have "find_row r_id (rp_heldReceiptId inp) (receipts s) = Some src" by simp
  with l res s' fresh c1 c2 show ?thesis by auto
qed

lemma ledgerReleasePartial_leaves:
  assumes run: "ledgerReleasePartial ev i j now inp s = (Inr res, s')" and u: "ids_unique s"
    and key: "findEventByKey (rp_idempotencyKey inp) s = None"
  shows "\<exists>src a b x. find_row r_id (rp_heldReceiptId inp) (receipts s) = Some src \<and> r_status src = HELD_LIEN \<and>
    rr_released res = Some a \<and> rr_remainingHeld res = Some b \<and>
    find_row r_id (rp_heldReceiptId inp) (receipts s') = Some x \<and> r_status x = SPLIT \<and>
    find_row r_id (r_id a) (receipts s') = Some a \<and> r_status a = ACTIVE \<and> r_clientId a = r_clientId src \<and>
    r_quantity a = to_scale 3 (rp_releaseQuantity inp) \<and>
    find_row r_id (r_id b) (receipts s') = Some b \<and> r_status b = HELD_LIEN \<and>
    r_quantity b = to_scale 3 (r_quantity src - rp_releaseQuantity inp) \<and> ledger.more s' = ledger.more s"
proof -
  have "releasePartialTx ev i j now inp s = Inr (res, s')"
    using run key unfolding ledgerReleasePartial_def atOnce_def releasePartial_def by (intro idempotent_first)
  note leaves = releasePartialTx_leaves [OF this u]
  obtain src a b where
    src: "find_row r_id (rp_heldReceiptId inp) (receipts s) = Some src" "r_status src = HELD_LIEN"
    and res: "rr_released res = Some a" "rr_remainingHeld res = Some b"
    and a: "r_status a = ACTIVE" "r_clientId a = r_clientId src" "r_quantity a = to_scale 3 (rp_releaseQuantity inp)"
    and b: "r_status b = HELD_LIEN" "r_quantity b = to_scale 3 (r_quantity src - rp_releaseQuantity inp)"
    and rows: "receipts s' = upd_row r_id (r_id src) (splitMark now) (receipts s) @ [a, b]"
    and fresh: "distinct (map r_id [a, b])" "{r_id a, r_id b} \<inter> r_id ` set (receipts s) = {}"
    using leaves by (elim exE conjE) (rule that; assumption)
  have none: "find_row r_id (r_id a) (receipts s) = None" "find_row r_id (r_id b) (receipts s) = None"
    using fresh(2) by (auto simp: find_row_None_iff)
  have i: "r_id src = rp_heldReceiptId inp" using find_row_SomeD [OF src(1)] by simp
  have ids: "r_id ` set (upd_row r_id (r_id src) (splitMark now) (receipts s)) = r_id ` set (receipts s)"
    by (simp add: image_set [symmetric] map_upd_row del: image_set set_map flip: set_map)
  have "find_row r_id (r_id a) (upd_row r_id (r_id src) (splitMark now) (receipts s)) = None"
    "find_row r_id (r_id b) (upd_row r_id (r_id src) (splitMark now) (receipts s)) = None"
    using none unfolding find_row_None_iff ids .
  then have "find_row r_id (r_id a) (receipts s') = Some a" "find_row r_id (r_id b) (receipts s') = Some b"
    using fresh(1) by (simp_all add: rows find_row_append) (simp_all add: find_row_def)
  moreover have "find_row r_id (rp_heldReceiptId inp) (receipts s') = Some (splitMark now src)"
    using src(1) i by (simp add: rows find_row_append find_row_upd_row)
  ultimately show ?thesis using src res a b ledgerReleasePartial_more [OF run] by auto
qed


definition exReleaseDto :: create_release_dto where
  "exReleaseDto = \<lparr>cr_financierId = ''bank'', cr_requestedDate = 250, cr_note = None,
     cr_lines = [\<lparr>rd_lienId = ''a1'', rd_quantity = ''2.5''\<rparr>]\<rparr>"

definition exRequested :: store where
  "exRequested = snd (createReleaseRequest 300 (exIds CHR ''q'') ''ada'' exReleaseDto exAccepted)"


section \<open>Approval and forced release\<close>

lemma getFinancierReleaseRequestDetail_run: "getFinancierReleaseRequestDetail u i s = (r, s') \<Longrightarrow> s' = s"
  unfolding getFinancierReleaseRequestDetail_def bindM_def getsM_def requireM_def
  by (auto split: prod.splits sum.splits option.splits dest!: requireFinancierOrg_run)

lemma approve_one_line:
  assumes run: "approveReleaseRequest c now ids u i code s = (Inr v, s')"
    and one: "linesWithLiens i s = [(line, l)]"
  obtains q s1 s2 where "q \<in> set (requests s)" "rq_id q = i" "rq_status q = RQ_PENDING" "lienOpen l"
    "rl_quantity line \<le> ln_remainingQuantity l" "consumeOtp c now u code OTP_RELEASE_APPROVE s = (Inr (), s1)"
    "releaseLine now ids u q (line, l) s1 = (Inr (), s2)"
    "\<exists>ns. s' = s2\<lparr>requests := upd_row rq_id i (\<lambda>x. x\<lparr>rq_status := RQ_APPROVED, rq_decidedById := Some u,
       rq_decidedAt := Some now\<rparr>) (requests s2)\<rparr>\<lparr>notifications := ns\<rparr>"
proof -
  obtain q ls s0 where chk: "approveReleaseRequest_check u i s = (Inr (q, ls), s0)"
    and com: "approveReleaseRequest_commit c now ids u code (q, ls) s0 = (Inr v, s')"
    using run by (auto simp: approveReleaseRequest_def bindM_Inr_iff)
  have q: "s0 = s" "q \<in> set (requests s)" "rq_id q = i" "rq_status q = RQ_PENDING" "ls = linesWithLiens i s"
    "firstError approvalError ls = None"
    using chk unfolding approveReleaseRequest_check_def requestOfOrg_def
    by (auto simp: bindM_Inr_iff dest!: requireFinancierOrg_run find_SomeD split: option.splits)
  have ok: "lienOpen l" "rl_quantity line \<le> ln_remainingQuantity l"
    using q(5,6) one by (auto simp: approvalError_def not_less split: if_splits)
  obtain s1 s2 where steps: "consumeOtp c now u code OTP_RELEASE_APPROVE s = (Inr (), s1)"
    "releaseLine now ids u q (line, l) s1 = (Inr (), s2)"
    "\<exists>ns. s' = s2\<lparr>requests := upd_row rq_id i (\<lambda>x. x\<lparr>rq_status := RQ_APPROVED, rq_decidedById := Some u,
       rq_decidedAt := Some now\<rparr>) (requests s2)\<rparr>\<lparr>notifications := ns\<rparr>"
    using com unfolding approveReleaseRequest_commit_def q(1,5) one updateRequest_def
    by (auto simp: bindM_Inr_iff q(3) dest!: notifyUser_run getFinancierReleaseRequestDetail_run)
  show thesis by (rule that [OF q(2-4) ok steps])
qed

lemma linesWithLiens_lien:
  assumes "(line, l) \<in> set (linesWithLiens i s)"
  shows "findLien (ln_id l) s = Some l"
proof -
  have "findLien (rl_lienId line) s = Some l" using assms by (auto simp: linesWithLiens_def split: option.splits)
  then show ?thesis using find_row_SomeD [of ln_id "rl_lienId line" "liens s" l] by (simp add: findLien_def)
qed

text \<open>What one line does: all that the lien has left, or a part of it.\<close>

lemma releaseLine_all:
  assumes run: "releaseLine now ids u q (line, l) s = (Inr y, s')" and all: "rl_quantity line = ln_remainingQuantity l"
    and un: "ids_unique s" and key: "findEventByKey (fullKey (rq_id q) (rl_id line)) s = None"
    and lien: "findLien (ln_id l) s = Some l"
  shows "findLien (ln_id l) s' = Some (l\<lparr>ln_remainingQuantity := 0, ln_status := LN_RELEASED, ln_releasedAt := Some now\<rparr>) \<and>
    (\<exists>r x. find_row r_id (ln_receiptId l) (receipts s) = Some r \<and> r_status r \<in> set HELD \<and>
      find_row r_id (ln_receiptId l) (receipts s') = Some x \<and> r_status x = ACTIVE \<and> r_quantity x = r_quantity r)"
proof -
  obtain x t where rel: "ledgerRelease (ids 0) (rq_tenantId q) (ln_receiptId l) (Some u)
      (Some (''Release request '' @ rq_id q @ '' approved'')) (fullKey (rq_id q) (rl_id line)) s = (Inr x, t)"
    and s': "s' = t\<lparr>liens := upd_row ln_id (ln_id l) (\<lambda>x. x\<lparr>ln_remainingQuantity := 0, ln_status := LN_RELEASED,
          ln_releasedAt := Some now\<rparr>) (liens t)\<rparr>"
    using run all unfolding releaseLine_def updateLien_def by (auto simp: bindM_Inr_iff)
  note r = releasing.settled_row [OF un key rel] and m = same_more [OF releasing.settle_more [OF rel]]
  show ?thesis using lien s' m(4) r by (auto simp: findLien_def find_row_upd_row held_any_def)
qed

lemma releaseLine_part:
  assumes run: "releaseLine now ids u q (line, l) s = (Inr y, s')" and part: "rl_quantity line \<noteq> ln_remainingQuantity l"
    and un: "ids_unique s" and key: "findEventByKey (partialKey (rq_id q) (rl_id line)) s = None"
    and lien: "findLien (ln_id l) s = Some l"
  shows "\<exists>r x b. findLien (ln_id l) s' = Some (l\<lparr>ln_receiptId := r_id b,
      ln_remainingQuantity := to_scale 4 (ln_remainingQuantity l - rl_quantity line), ln_status := LN_PARTIALLY_RELEASED\<rparr>) \<and>
    find_row r_id (ln_receiptId l) (receipts s) = Some r \<and> r_status r = HELD_LIEN \<and>
    find_row r_id (ln_receiptId l) (receipts s') = Some x \<and> r_status x = SPLIT \<and>
    find_row r_id (r_id b) (receipts s') = Some b \<and> r_status b = HELD_LIEN \<and>
    r_quantity b = to_scale 3 (r_quantity r - rl_quantity line)"
proof -
  let ?inp = "\<lparr>rp_tenantId = rq_tenantId q, rp_heldReceiptId = ln_receiptId l,
           rp_releaseQuantity = rl_quantity line, rp_releaseRequestId = rq_id q,
           rp_actorUserId = Some u, rp_idempotencyKey = partialKey (rq_id q) (rl_id line), rp_metadata = None\<rparr>"
  obtain res t b where rel: "ledgerReleasePartial (ids 0) (ids 1) (ids 2) now ?inp s = (Inr res, t)"
    and b: "rr_remainingHeld res = Some b"
    and s': "s' = t\<lparr>liens := upd_row ln_id (ln_id l) (\<lambda>x. x\<lparr>ln_receiptId := r_id b,
          ln_remainingQuantity := to_scale 4 (ln_remainingQuantity l - rl_quantity line),
          ln_status := LN_PARTIALLY_RELEASED\<rparr>) (liens t)\<rparr>"
    using run part unfolding releaseLine_def updateLien_def by (auto simp: bindM_Inr_iff)
  have k: "findEventByKey (rp_idempotencyKey ?inp) s = None" using key by simp
  from ledgerReleasePartial_leaves [OF rel un k] b obtain r x where r: "find_row r_id (ln_receiptId l) (receipts s) = Some r"
    "r_status r = HELD_LIEN" "find_row r_id (ln_receiptId l) (receipts t) = Some x" "r_status x = SPLIT"
    "find_row r_id (r_id b) (receipts t) = Some b" "r_status b = HELD_LIEN"
    "r_quantity b = to_scale 3 (r_quantity r - rl_quantity line)" "ledger.more t = ledger.more s" by auto
  with lien s' same_more(4) [OF r(8)] show ?thesis
    by (intro exI [of _ r] exI [of _ x] exI [of _ b]) (simp add: findLien_def find_row_upd_row)
qed



end
