(* ===== verification/Loan_Trade_Properties.thy ===== *)
theory Loan_Trade_Properties
  imports Worked_Store Holding Service_Runs
begin

text \<open>
  Properties of the loans of \<open>src/loans/\<close> and the trades of \<open>src/trades/\<close>: what taking a loan
  locks and what repaying it frees, what a sale moves, and that a listing is sold once. The
  proofs read the steps of a handler off its definition and use the contracts \<open>holding\<close> and
  \<open>settlement\<close> of the ledger calls.
\<close>

section \<open>Loans\<close>

lemma upsert_new:
  assumes "find_row l_id (l_id l) (loans s) = None" and "upsertLoan l s = Inr (x, s')"
  shows "x = l \<and> s' = s\<lparr>loans := loans s @ [l]\<rparr>"
  using assms by (auto simp: upsertLoan_def split: if_splits)

lemma assertTransactionAuth_otps:
  assumes "assertTransactionAuth c now i purpose pin code onBehalf s = (r, s')"
  shows "\<exists>rows. s' = s\<lparr>otps := rows\<rparr>"
proof -
  have same: "\<exists>rows. s = s\<lparr>otps := rows\<rparr>" by (rule exI [of _ "otps s"]) simp
  show ?thesis
    using assms same unfolding assertTransactionAuth_def loadUserOrThrow_def bindM_def getsM_def requireM_def failIfM_def returnM_def throwM_def
    by (auto split: sum.splits prod.splits if_splits option.splits dest: consumeOtp_only_otps)
qed

lemma quantity_on_scale: "ledger_wf s \<Longrightarrow> r \<in> set (receipts s) \<Longrightarrow> to_scale 3 (r_quantity r) = r_quantity r"
  by (auto simp: ledger_wf_def quantities_ok_def intro: to_scale_id)


lemma createLoan_steps:
  assumes run: "createLoan c now ids ref t dto u who onBehalf s = (Inr (l, h), s')"
  obtains s1 r f held s2 p monthly s3 where
    "assertTransactionAuth c now u OTP_LOAN (cl_pin dto) (cl_otp dto) onBehalf s = (Inr (), s1)"
    "find (\<lambda>r. r_id r = cl_receiptId dto \<and> r_tenantId r = t) (receipts s1) = Some r"
    "findFinancier t (cl_financierId dto) s1 = Some f" "0 < cl_amount dto"
    "ledgerHold (ids 1) (ids 2) (ids 3) now
       \<lparr>h_tenantId = t, h_sourceReceiptId = r_id r, h_quantity = r_quantity r, h_heldStatus = Held_Loan, h_txnType = T_LOAN,
        h_txnId = ids 0, h_actorUserId = Some (orElse who u), h_idempotencyKey = loanKey (ids 0) ''hold'',
        h_metadata = None\<rparr> s1 = (Inr held, s2)" "hr_held held = Some p"
    "lt_monthlyPayment (termsOf (cl_amount dto) (fi_interestRate f) (fi_maxTenure f)) = Some monthly"
    "upsertLoan
       \<lparr>l_id = ids 0, l_reference = ref, l_tenantId = t, l_receiptId = r_id p, l_clientId = u, l_financierId = fi_id f,
        l_amount = cl_amount dto, l_interestRate = fi_interestRate f, l_tenureMonths = fi_maxTenure f,
        l_totalInterest = cl_amount dto * fi_interestRate f / 100, l_monthlyPayment = monthly, l_status = LO_PENDING,
        l_notes = cl_notes dto, l_approvedAt = None, l_repaidAt = None\<rparr> s2 = Inr (l, s3)"
    "h = r_id p" "receipts s' = receipts s3" "loans s' = loans s3"
proof -
  have t: "lt_tenureMonths (termsOf a i m) = m" "lt_totalInterest (termsOf a i m) = a * i / 100" for a i m
    by (simp_all add: termsOf_def Let_def)
  show ?thesis
    using run that unfolding createLoan_def Let_def t
    by (auto simp: bindM_Inr_iff not_le dest!: notifyTenantAdmins_run notifyUser_run)
qed

text \<open>
  C19. A loan is secured by the whole receipt: when the request succeeds, the receipt was
  ACTIVE, all of it is now one row held for the loan, still of the same owner, and the one
  loan recorded is PENDING over that row, with the interest of its financier and payments
  that add up to the amount and the interest.
\<close>

theorem loan_secured:
  assumes run: "createLoan c now ids ref t dto u who onBehalf s = (Inr (l, h), s')" and wf: "ledger_wf s"
    and key: "findEventByKey (loanKey (ids 0) ''hold'') s = None" and new: "ids 0 \<notin> l_id ` set (loans s)"
  shows "\<exists>r x f. find_row r_id (cl_receiptId dto) (receipts s) = Some r \<and> r_status r = ACTIVE \<and> r_tenantId r = t \<and>
    map_option r_status (find_row r_id (cl_receiptId dto) (receipts s')) = Some SPLIT \<and>
    find_row r_id h (receipts s) = None \<and> find_row r_id h (receipts s') = Some x \<and> r_status x = HELD_LOAN \<and>
    r_quantity x = r_quantity r \<and> r_clientId x = r_clientId r \<and> findFinancier t (cl_financierId dto) s = Some f \<and>
    loans s' = loans s @ [l] \<and> l_id l = ids 0 \<and> l_status l = LO_PENDING \<and> l_receiptId l = h \<and> l_clientId l = u \<and>
    l_amount l = cl_amount dto \<and> 0 < l_amount l \<and> l_totalInterest l = l_amount l * fi_interestRate f / 100 \<and>
    l_monthlyPayment l * of_int (l_tenureMonths l) = l_amount l + l_totalInterest l"
proof (rule createLoan_steps [OF run])
  fix s1 held s2 monthly s3 and f :: financier and r p :: receipt
  let ?inp = "\<lparr>h_tenantId = t, h_sourceReceiptId = r_id r, h_quantity = r_quantity r, h_heldStatus = Held_Loan, h_txnType = T_LOAN,
        h_txnId = ids 0, h_actorUserId = Some (orElse who u), h_idempotencyKey = loanKey (ids 0) ''hold'',
        h_metadata = None\<rparr>"
  let ?l = "\<lparr>l_id = ids 0, l_reference = ref, l_tenantId = t, l_receiptId = r_id p, l_clientId = u, l_financierId = fi_id f,
        l_amount = cl_amount dto, l_interestRate = fi_interestRate f, l_tenureMonths = fi_maxTenure f,
        l_totalInterest = cl_amount dto * fi_interestRate f / 100, l_monthlyPayment = monthly, l_status = LO_PENDING,
        l_notes = cl_notes dto, l_approvedAt = None, l_repaidAt = None\<rparr>"
  assume gate: "assertTransactionAuth c now u OTP_LOAN (cl_pin dto) (cl_otp dto) onBehalf s = (Inr (), s1)"
    and r: "find (\<lambda>r. r_id r = cl_receiptId dto \<and> r_tenantId r = t) (receipts s1) = Some r"
    and f: "findFinancier t (cl_financierId dto) s1 = Some f" "0 < cl_amount dto"
    and hold: "ledgerHold (ids 1) (ids 2) (ids 3) now ?inp s1 = (Inr held, s2)" "hr_held held = Some p"
    and monthly: "lt_monthlyPayment (termsOf (cl_amount dto) (fi_interestRate f) (fi_maxTenure f)) = Some monthly"
    and up: "upsertLoan ?l s2 = Inr (l, s3)" and s': "h = r_id p" "receipts s' = receipts s3" "loans s' = loans s3"
  obtain rows where s1: "s1 = s\<lparr>otps := rows\<rparr>" using assertTransactionAuth_otps [OF gate] by blast
  have wf1: "ledger_wf s1" using wf wf_cong [of s1 s] by (simp add: s1)
  have k: "findEventByKey (h_idempotencyKey ?inp) s1 = None" using key s1 by (simp add: findEventByKey_None_iff)
  note ri = find_SomeD [OF r]
  from held.held_row [OF wf1 k hold(1)] hold(2) ri obtain src x where h: "find_row r_id (cl_receiptId dto) (receipts s) = Some src"
    "holdable ?inp src" "find_row r_id (r_id p) (receipts s) = None" "find_row r_id (r_id p) (receipts s2) = Some p"
    "r_status p = HELD_LOAN" "r_clientId p = r_clientId src" "r_quantity p = to_scale 3 (r_quantity r)"
    "find_row r_id (cl_receiptId dto) (receipts s2) = Some x" "r_status x = SPLIT" "ledger.more s2 = ledger.more s1"
    using s1 by auto
  have "src = r" using ri h(1) wf find_root [of s r] s1 by (auto simp: ledger_wf_def)
  have ls: "loans s2 = loans s" using same_more [OF h(10)] s1 by simp
  with up new have l: "l = ?l" "s3 = s2\<lparr>loans := loans s2 @ [?l]\<rparr>"
    by (auto simp: find_row_None_iff dest!: upsert_new [rotated])
  have q: "to_scale 3 (r_quantity r) = r_quantity r" using quantity_on_scale [OF wf1] ri by blast
  have m: "monthly * of_int (fi_maxTenure f) = cl_amount dto + cl_amount dto * fi_interestRate f / 100"
    using monthly by (auto simp: termsOf_def Let_def split: if_splits)
  have "findFinancier t (cl_financierId dto) s = Some f" using f(1) s1 by (simp add: findFinancier_def)
  with h s' l ls q m f(2) \<open>src = r\<close> ri show ?thesis
    by (intro exI [of _ r] exI [of _ p] exI [of _ f]) (simp add: holdable_def)
qed

lemma loadLoan_run: "loadLoan t i s = (Inr l, s') \<longleftrightarrow> s' = s \<and> find (\<lambda>l. l_id l = i \<and> l_tenantId l = t) (loans s) = Some l"
  by (auto simp: loadLoan_def bindM_Inr_iff)

lemma repayLoan_steps:
  assumes run: "repayLoan now ev t i who s = (Inr v, s')"
  obtains l x s1 ns where
    "find (\<lambda>l. l_id l = i \<and> l_tenantId l = t) (loans s) = Some l" "l_status l = LO_ACTIVE"
    "ledgerRelease ev t (l_receiptId l) who None (loanKey i ''repay-release'') s = (Inr x, s1)"
    "s' = s1\<lparr>loans := upd_row l_id i (\<lambda>x. x\<lparr>l_status := LO_REPAID, l_repaidAt := Some now\<rparr>) (loans s1)\<rparr>\<lparr>notifications := ns\<rparr>"
    "v = (i, LO_REPAID, r_receiptNumber x)"
proof -
  obtain l where l: "find (\<lambda>l. l_id l = i \<and> l_tenantId l = t) (loans s) = Some l"
    using run by (auto simp: repayLoan_def bindM_Inr_iff loadLoan_run)
  then have "l_id l = i" using find_SomeD by fastforce
  then show ?thesis
    using run l that unfolding repayLoan_def updateLoan_def
    by (auto simp: bindM_Inr_iff loadLoan_run dest!: notifyUser_run notifyTenantAdmins_run)
qed

text \<open>
  Repayment frees the collateral: it succeeds only for an ACTIVE loan, turns the row the
  loan holds, and no other, ACTIVE again with its quantity unchanged, and marks this loan
  and no other REPAID.
\<close>

theorem repayment_frees:
  assumes run: "repayLoan now ev t i who s = (Inr v, s')" and wf: "ledger_wf s"
    and key: "findEventByKey (loanKey i ''repay-release'') s = None"
  shows "\<exists>l r x. l \<in> set (loans s) \<and> l_id l = i \<and> l_tenantId l = t \<and> l_status l = LO_ACTIVE \<and>
    find_row r_id (l_receiptId l) (receipts s) = Some r \<and> r_status r \<in> set HELD \<and>
    find_row r_id (l_receiptId l) (receipts s') = Some x \<and> r_status x = ACTIVE \<and> r_quantity x = r_quantity r \<and>
    (\<forall>j. j \<noteq> l_receiptId l \<longrightarrow> find_row r_id j (receipts s') = find_row r_id j (receipts s)) \<and>
    loans s' = upd_row l_id i (\<lambda>x. x\<lparr>l_status := LO_REPAID, l_repaidAt := Some now\<rparr>) (loans s)"
proof (rule repayLoan_steps [OF run])
  fix l x s1 ns
  assume l: "find (\<lambda>l. l_id l = i \<and> l_tenantId l = t) (loans s) = Some l" "l_status l = LO_ACTIVE"
    and rel: "ledgerRelease ev t (l_receiptId l) who None (loanKey i ''repay-release'') s = (Inr x, s1)"
    and s': "s' = s1\<lparr>loans := upd_row l_id i (\<lambda>x. x\<lparr>l_status := LO_REPAID, l_repaidAt := Some now\<rparr>) (loans s1)\<rparr>\<lparr>notifications := ns\<rparr>"
  have un: "ids_unique s" using wf by (simp add: ledger_wf_def)
  have "loans s1 = loans s" by (rule same_more(13) [OF releasing.settle_more [OF rel]])
  with find_SomeD [OF l(1)] l(2) s' releasing.settled_row [OF un key rel] releasing.others_kept [OF un key rel]
  show ?thesis by (auto simp: held_any_def)
qed

section \<open>Trades\<close>

lemma loadTrade_run: "loadTrade t i s = (Inr x, s') \<longleftrightarrow> s' = s \<and> find (\<lambda>x. t_id x = i \<and> t_tenantId x = t) (trades s) = Some x"
  by (auto simp: loadTrade_def bindM_Inr_iff)

definition sold :: "time \<Rightarrow> uuid \<Rightarrow> uuid \<Rightarrow> trade \<Rightarrow> trade" where
  "sold now i b x = (if t_id x = i \<and> t_status x = TR_LISTED
     then x\<lparr>t_status := TR_SETTLED, t_buyerId := Some b, t_settledAt := Some now\<rparr> else x)"

lemma settle_commit_steps:
  assumes run: "settleTrade_commit now ids t i b (x, buyer) s = (Inr v, s')"
  obtains y s1 where
    "atOnce (transferAndRelease (ids 0) (ids 1) (actor t (t_receiptId x) None (tradeKey (t_id x) ''transfer''))
       b T_TRADE (t_id x) (Some (takeListing now i b))) s = (Inr y, s1)"
    "receipts s' = receipts s1" "trades s' = trades s1" "events s' = events s1"
  using run that unfolding settleTrade_commit_def
  by (auto simp: bindM_Inr_iff dest!: notifyUser_run notifyTenantAdmins_run)

lemma transfer_first:
  assumes run: "atOnce (transferAndRelease e1id e2id (actor t h None k) b T_TRADE n (Some (takeListing now i b))) s = (Inr y, s')"
    and un: "ids_unique s" and key: "findEventByKey k s = None"
  shows "\<exists>r z. find_row r_id h (receipts s) = Some r \<and> r_status r \<in> set HELD \<and> r_tenantId r = t \<and>
    find_row r_id h (receipts s') = Some z \<and> r_status z = ACTIVE \<and> r_clientId z = b \<and> r_quantity z = r_quantity r \<and>
    (\<forall>j. j \<noteq> h \<longrightarrow> find_row r_id j (receipts s') = find_row r_id j (receipts s)) \<and>
    (\<exists>x \<in> set (trades s). t_id x = i \<and> t_status x = TR_LISTED) \<and> trades s' = map (sold now i b) (trades s)"
proof -
  let ?f = "\<lambda>x. x\<lparr>r_clientId := b, r_status := ACTIVE, r_approvalStatus := APPROVED\<rparr>"
  have "transferAndReleaseTx e1id e2id (actor t h None k) b T_TRADE n (Some (takeListing now i b)) s = Inr (y, s')"
    using run key unfolding atOnce_def transferAndRelease_def by (intro idempotent_first) (simp_all add: actor_def)
  then obtain r e1 s1 e2 s2 z s3 where
    r: "loadOrThrow s h t = Inr r" "r_status r \<in> set HELD"
    and e1: "event ((eventOn e1id (actor t h None k) r E_OWNERSHIP_TRANSFERRED (r_quantity r) (Some T_TRADE) (Some n))\<lparr>
               e_metadata := Some [(''from'', r_clientId r), (''to'', b)]\<rparr>) s = Inr (e1, s1)"
    and e2: "event ((eventOn e2id (actor t h None k) r E_HOLD_RELEASED (r_quantity r) (Some T_TRADE) (Some n))\<lparr>
               e_idempotencyKey := Some (a_idempotencyKey (actor t h None k) @ '':release''),
               e_reversalOfEventId := r_sourceEventId r\<rparr>) s1 = Inr (e2, s2)"
    and up: "updateReceipt (r_id r) ?f s2 = Inr (z, s3)" and w: "takeListing now i b z s3 = Inr ((), s')"
    unfolding transferAndReleaseTx_def andThen_Inr_iff by (auto simp: andThen_Inr_iff actor_def)
  note ri = loadOrThrow_InrD [OF r(1)]
  have rows: "receipts s3 = upd_row r_id h ?f (receipts s)" using e1 e2 up ri by (auto simp: tx_results)
  have ts: "trades s3 = trades s" using e1 e2 up by (auto simp: tx_results)
  have f: "find_row r_id h (receipts s) = Some r" using find_root [OF un] ri by auto
  from w have s': "receipts s' = receipts s3" "\<exists>x \<in> set (trades s3). t_id x = i \<and> t_status x = TR_LISTED"
    "trades s' = map (sold now i b) (trades s3)"
    by (auto simp: takeListing_def list_ex_iff sold_def split: if_splits)
  from f have "find_row r_id h (receipts s') = Some (?f r)" using rows s'(1) by (simp add: find_row_upd_row)
  moreover have "\<forall>j. j \<noteq> h \<longrightarrow> find_row r_id j (receipts s') = find_row r_id j (receipts s)"
    using rows s'(1) by (simp add: find_row_upd_row)
  ultimately show ?thesis using f r(2) ri s'(2,3) ts by auto
qed

text \<open>
  C20. A sale moves the goods: when settling a listing succeeds, it was LISTED and not the
  buyer's own, its held row, and no other, belongs to the buyer and is ACTIVE with the
  quantity unchanged, and this trade and no other is SETTLED by the buyer.
\<close>

theorem settled_trade_transfers:
  assumes run: "settleTrade now ids t i b s = (Inr v, s')" and wf: "ledger_wf s"
    and x: "find (\<lambda>x. t_id x = i \<and> t_tenantId x = t) (trades s) = Some x" "t_status x = TR_LISTED"
    and key: "findEventByKey (tradeKey i ''transfer'') s = None"
  shows "t_sellerId x \<noteq> b \<and> (\<exists>u. userOfTenant t b s = Some u \<and> st_newOwner v = personName u) \<and>
    (\<exists>r z. find_row r_id (t_receiptId x) (receipts s) = Some r \<and> r_status r \<in> set HELD \<and>
      find_row r_id (t_receiptId x) (receipts s') = Some z \<and> r_status z = ACTIVE \<and> r_clientId z = b \<and>
      r_quantity z = r_quantity r) \<and>
    (\<forall>j. j \<noteq> t_receiptId x \<longrightarrow> find_row r_id j (receipts s') = find_row r_id j (receipts s)) \<and>
    trades s' = map (sold now i b) (trades s)"
proof -
  have xi: "t_id x = i" using find_SomeD [OF x(1)] by simp
  from run x obtain u where u: "t_sellerId x \<noteq> b" "userOfTenant t b s = Some u"
    and com: "settleTrade_commit now ids t i b (x, u) s = (Inr v, s')"
    unfolding settleTrade_def settleTrade_check_def by (auto simp: bindM_Inr_iff loadTrade_run)
  have v: "st_newOwner v = personName u" using com unfolding settleTrade_commit_def by (auto simp: bindM_Inr_iff)
  show ?thesis
  proof (rule settle_commit_steps [OF com])
    fix y s1
    assume tr: "atOnce (transferAndRelease (ids 0) (ids 1) (actor t (t_receiptId x) None (tradeKey (t_id x) ''transfer''))
       b T_TRADE (t_id x) (Some (takeListing now i b))) s = (Inr y, s1)"
      and s': "receipts s' = receipts s1" "trades s' = trades s1"
    have "ids_unique s" "findEventByKey (tradeKey (t_id x) ''transfer'') s = None" using wf key xi by (simp_all add: ledger_wf_def)
    from transfer_first [OF tr this] s' u v show ?thesis by auto
  qed
qed

text \<open>
  A listing is sold once: after one buyer's settlement has gone through, the settlement
  of another buyer who had read the listing before finds the sale done and moves nothing,
  neither the goods nor the trade.
\<close>

theorem sold_once:
  assumes first: "settleTrade_commit now ids t i b (x, u) s = (Inr v, s1)"
    and key: "findEventByKey (tradeKey (t_id x) ''transfer'') s = None"
    and second: "settleTrade_commit now' ids' t i b' (x, u') s1 = (r, s2)"
  shows "receipts s2 = receipts s1 \<and> trades s2 = trades s1 \<and> events s2 = events s1"
proof (rule settle_commit_steps [OF first])
  fix y sa
  assume tr: "atOnce (transferAndRelease (ids 0) (ids 1) (actor t (t_receiptId x) None (tradeKey (t_id x) ''transfer''))
       b T_TRADE (t_id x) (Some (takeListing now i b))) s = (Inr y, sa)" and ev: "events s1 = events sa"
  let ?again = "atOnce (transferAndRelease (ids' 0) (ids' 1) (actor t (t_receiptId x) None (tradeKey (t_id x) ''transfer''))
       b' T_TRADE (t_id x) (Some (takeListing now' i b')))"
  have "transferAndReleaseTx (ids 0) (ids 1) (actor t (t_receiptId x) None (tradeKey (t_id x) ''transfer''))
       b T_TRADE (t_id x) (Some (takeListing now i b)) s = Inr (y, sa)"
    using tr key unfolding atOnce_def transferAndRelease_def by (intro idempotent_first) (simp_all add: actor_def)
  from transferAndReleaseTx_logs [OF this takeListing_keeps]
  have "findEventByKey (tradeKey (t_id x) ''transfer'') s1 \<noteq> None"
    using ev by (simp add: logs_def actor_def findEventByKey_None_iff)
  then have again: "?again s1 = (q, s3) \<Longrightarrow> s3 = s1" for q s3
    by (auto simp: atOnce_def transferAndRelease_def runIdempotent_def actor_def)
  show ?thesis
    using second again unfolding settleTrade_commit_def
    by (cases r) (auto simp: bindM_Inr_iff bindM_Inl_iff dest!: notifyUser_run notifyTenantAdmins_run)
qed

definition exLoanDto :: create_loan_dto where
  "exLoanDto = \<lparr>cl_receiptId = ''r1'', cl_financierId = ''lender'', cl_amount = 1000, cl_notes = None, cl_pin = None, cl_otp = None\<rparr>"

definition exLent :: store where
  "exLent = snd (createLoan exCrypto 100 (exIds CHR ''l'') ''LN-1'' ''t'' exLoanDto ''ada'' None False exStore)"

lemma exLent_eval [code]: "exLent =
   exStore\<lparr>receipts := [receipt_defaults\<lparr>r_id := ''r1'', r_receiptNumber := ''WR-2025-0001'',
   r_status := SPLIT, r_tenantId := ''t'', r_commodityId := ''maize'', r_quantity := 10, r_warehouseId := ''w'',
   r_clientId := ''ada'', r_approvalStatus := APPROVED, r_approvedById := Some ''bo'', r_approvedAt := Some 1,
   r_rootReceiptId := ''r1'', r_isParent := True, r_supersededAt := Some 100, r_sourceTxnType := Some T_DEPOSIT,
   r_sourceEventId := Some ''e1''\<rparr>, receipt_defaults\<lparr>r_id := ''l2'', r_receiptNumber :=
   ''WR-2025-0001-A'', r_status := HELD_LOAN, r_tenantId := ''t'', r_commodityId := ''maize'', r_quantity := 10,
   r_warehouseId := ''w'', r_clientId := ''ada'', r_parentReceiptId := Some ''r1'', r_rootReceiptId := ''r1'',
   r_sourceTxnType := Some T_LOAN, r_sourceTxnId := Some ''l0'', r_sourceEventId := Some ''l1''\<rparr>], events :=
   [\<lparr>e_id = ''e1'', e_tenantId = ''t'', e_rootReceiptId = ''r1'', e_fromReceiptId = Some ''r1'', e_eventType
   = E_DEPOSIT, e_txnType = Some T_DEPOSIT, e_txnId = None, e_quantity = 10, e_actorUserId = None, e_idempotencyKey
   = Some ''k1'', e_reversalOfEventId = None, e_metadata = None\<rparr>, \<lparr>e_id = ''e2'', e_tenantId = ''t'',
   e_rootReceiptId = ''r1'', e_fromReceiptId = Some ''r1'', e_eventType = E_APPROVED, e_txnType = Some T_DEPOSIT,
   e_txnId = None, e_quantity = 10, e_actorUserId = Some ''bo'', e_idempotencyKey = Some ''k2'',
   e_reversalOfEventId = None, e_metadata = None\<rparr>, \<lparr>e_id = ''l1'', e_tenantId = ''t'',
   e_rootReceiptId = ''r1'', e_fromReceiptId = Some ''r1'', e_eventType = E_HOLD_PLACED, e_txnType = Some T_LOAN,
   e_txnId = Some ''l0'', e_quantity = 10, e_actorUserId = Some ''ada'', e_idempotencyKey = Some ''LOAN:l0:hold'',
   e_reversalOfEventId = None, e_metadata = None\<rparr>], notifications := [\<lparr>n_tenantId = ''t'', n_userId =
   ''adm'', n_type = N_LOAN_REQUESTED, n_relatedEntityType = ''loan'', n_relatedEntityId = ''l0''\<rparr>,
   \<lparr>n_tenantId = ''t'', n_userId = ''ada'', n_type = N_LOAN_REQUESTED, n_relatedEntityType = ''loan'',
   n_relatedEntityId = ''l0''\<rparr>], loans := [\<lparr>l_id = ''l0'', l_reference = ''LN-1'', l_tenantId =
   ''t'', l_receiptId = ''l2'', l_clientId = ''ada'', l_financierId = ''lender'', l_amount = 1000, l_interestRate =
   12, l_tenureMonths = 12, l_totalInterest = 1000 * 12 / 100, l_monthlyPayment = (1000 + 1000 * 12 / 100) / 12,
   l_status = LO_PENDING, l_notes = None, l_approvedAt = None, l_repaidAt = None\<rparr>]\<rparr>"
  by code_simp

definition exActiveLoan :: store where
  "exActiveLoan = snd (approveLoan 150 ''m0'' ''t'' ''l0'' (Some ''adm'') exLent)"

lemma exActiveLoan_eval [code]: "exActiveLoan =
   exLent\<lparr>receipts := [receipt_defaults\<lparr>r_id := ''r1'', r_receiptNumber := ''WR-2025-0001'', r_status
   := SPLIT, r_tenantId := ''t'', r_commodityId := ''maize'', r_quantity := 10, r_warehouseId := ''w'', r_clientId
   := ''ada'', r_approvalStatus := APPROVED, r_approvedById := Some ''bo'', r_approvedAt := Some 1, r_rootReceiptId
   := ''r1'', r_isParent := True, r_supersededAt := Some 100, r_sourceTxnType := Some T_DEPOSIT, r_sourceEventId :=
   Some ''e1''\<rparr>, receipt_defaults\<lparr>r_id := ''l2'', r_receiptNumber := ''WR-2025-0001-A'', r_status :=
   HELD_LOAN, r_tenantId := ''t'', r_commodityId := ''maize'', r_quantity := 10, r_warehouseId := ''w'', r_clientId
   := ''ada'', r_approvalStatus := APPROVED, r_approvedById := Some ''adm'', r_approvedAt := Some 150,
   r_parentReceiptId := Some ''r1'', r_rootReceiptId := ''r1'', r_sourceTxnType := Some T_LOAN, r_sourceTxnId :=
   Some ''l0'', r_sourceEventId := Some ''l1''\<rparr>], events := events exLent @ [\<lparr>e_id = ''m0'',
   e_tenantId = ''t'', e_rootReceiptId = ''r1'', e_fromReceiptId = Some ''l2'', e_eventType = E_APPROVED, e_txnType
   = Some T_LOAN, e_txnId = Some ''l0'', e_quantity = 10, e_actorUserId = Some ''adm'', e_idempotencyKey = Some
   ''LOAN:l0:approveHold'', e_reversalOfEventId = None, e_metadata = None\<rparr>], notifications := notifications
   exLent @ [\<lparr>n_tenantId = ''t'', n_userId = ''ada'', n_type = N_LOAN_APPROVED, n_relatedEntityType =
   ''loan'', n_relatedEntityId = ''l0''\<rparr>], loans := [\<lparr>l_id = ''l0'', l_reference = ''LN-1'',
   l_tenantId = ''t'', l_receiptId = ''l2'', l_clientId = ''ada'', l_financierId = ''lender'', l_amount = 1000,
   l_interestRate = 12, l_tenureMonths = 12, l_totalInterest = 1000 * 12 / 100, l_monthlyPayment = (1000 + 1000 *
   12 / 100) / 12, l_status = LO_ACTIVE, l_notes = None, l_approvedAt = Some 150, l_repaidAt =
   None\<rparr>]\<rparr>"
  by code_simp

theorem loan_secured_witness:
  "\<exists>r x l. find_row r_id ''r1'' (receipts exStore) = Some r \<and> r_status r = ACTIVE \<and> loans exLent = [l] \<and>
     find_row r_id (l_receiptId l) (receipts exLent) = Some x \<and> r_status x = HELD_LOAN \<and> r_quantity x = r_quantity r \<and>
     l_totalInterest l = 120 \<and> l_monthlyPayment l * of_int (l_tenureMonths l) = 1120"
proof -
  have run: "case fst (createLoan exCrypto 100 (exIds CHR ''l'') ''LN-1'' ''t'' exLoanDto ''ada'' None False exStore) of
      Inl _ \<Rightarrow> False | Inr _ \<Rightarrow> True"
    and key: "findEventByKey (loanKey (exIds CHR ''l'' 0) ''hold'') exStore = None"
    and e: "loans exStore = []" "cl_receiptId exLoanDto = ''r1''" "cl_amount exLoanDto = 1000"
    and f: "map_option fi_interestRate (findFinancier ''t'' (cl_financierId exLoanDto) exStore) = Some 12" by code_simp+
  obtain l h s' where r: "createLoan exCrypto 100 (exIds CHR ''l'') ''LN-1'' ''t'' exLoanDto ''ada'' None False exStore = (Inr (l, h), s')"
    using run by (cases "createLoan exCrypto 100 (exIds CHR ''l'') ''LN-1'' ''t'' exLoanDto ''ada'' None False exStore")
      (auto split: sum.splits)
  then have s': "s' = exLent" by (simp add: exLent_def)
  from loan_secured [OF r exStore_wf key] e f s' show ?thesis by auto
qed

theorem repayment_frees_witness:
  "\<exists>l x. loans (snd (repayLoan 900 ''m1'' ''t'' ''l0'' None exActiveLoan)) = [l] \<and> l_status l = LO_REPAID \<and>
     find_row r_id (l_receiptId l) (receipts (snd (repayLoan 900 ''m1'' ''t'' ''l0'' None exActiveLoan))) = Some x \<and>
     r_status x = ACTIVE \<and> r_quantity x = 10"
proof -
  have run: "case fst (repayLoan 900 ''m1'' ''t'' ''l0'' None exActiveLoan) of Inl _ \<Rightarrow> False | Inr _ \<Rightarrow> True"
    and key: "findEventByKey (loanKey ''l0'' ''repay-release'') exActiveLoan = None"
    and l: "map (\<lambda>l. (l_id l, l_receiptId l)) (loans exActiveLoan) = [(''l0'', ''l2'')]"
    and q: "map_option r_quantity (find_row r_id ''l2'' (receipts exActiveLoan)) = Some 10" by code_simp+
  obtain v s' where r: "repayLoan 900 ''m1'' ''t'' ''l0'' None exActiveLoan = (Inr v, s')"
    using run by (cases "repayLoan 900 ''m1'' ''t'' ''l0'' None exActiveLoan") (auto split: sum.splits)
  have "ledger_wf exLent"
    using confined_wf [OF createLoan_lawful prod.collapse [symmetric] exStore_wf] by (simp add: exLent_def)
  then have wf: "ledger_wf exActiveLoan"
    using confined_wf [OF approveLoan_lawful prod.collapse [symmetric]] by (simp add: exActiveLoan_def)
  from repayment_frees [OF r wf key] l q r show ?thesis
    by (cases "loans exActiveLoan") (auto simp: upd_row_def)
qed

definition exListed :: store where
  "exListed = snd (createTrade exCrypto 100 (exIds CHR ''t'') ''TR-1'' ''t''
     \<lparr>ct_receiptId = ''r1'', ct_pin = None, ct_otp = None\<rparr> ''ada'' None False exStore)"

lemma exListed_eval [code]: "exListed =
   exStore\<lparr>receipts := [receipt_defaults\<lparr>r_id := ''r1'', r_receiptNumber := ''WR-2025-0001'',
   r_status := SPLIT, r_tenantId := ''t'', r_commodityId := ''maize'', r_quantity := 10, r_warehouseId := ''w'',
   r_clientId := ''ada'', r_approvalStatus := APPROVED, r_approvedById := Some ''bo'', r_approvedAt := Some 1,
   r_rootReceiptId := ''r1'', r_isParent := True, r_supersededAt := Some 100, r_sourceTxnType := Some T_DEPOSIT,
   r_sourceEventId := Some ''e1''\<rparr>, receipt_defaults\<lparr>r_id := ''t2'', r_receiptNumber :=
   ''WR-2025-0001-A'', r_status := HELD_TRADE, r_tenantId := ''t'', r_commodityId := ''maize'', r_quantity := 10,
   r_warehouseId := ''w'', r_clientId := ''ada'', r_parentReceiptId := Some ''r1'', r_rootReceiptId := ''r1'',
   r_sourceTxnType := Some T_TRADE, r_sourceTxnId := Some ''t0'', r_sourceEventId := Some ''t1''\<rparr>], events
   := [\<lparr>e_id = ''e1'', e_tenantId = ''t'', e_rootReceiptId = ''r1'', e_fromReceiptId = Some ''r1'',
   e_eventType = E_DEPOSIT, e_txnType = Some T_DEPOSIT, e_txnId = None, e_quantity = 10, e_actorUserId = None,
   e_idempotencyKey = Some ''k1'', e_reversalOfEventId = None, e_metadata = None\<rparr>, \<lparr>e_id = ''e2'',
   e_tenantId = ''t'', e_rootReceiptId = ''r1'', e_fromReceiptId = Some ''r1'', e_eventType = E_APPROVED, e_txnType
   = Some T_DEPOSIT, e_txnId = None, e_quantity = 10, e_actorUserId = Some ''bo'', e_idempotencyKey = Some ''k2'',
   e_reversalOfEventId = None, e_metadata = None\<rparr>, \<lparr>e_id = ''t1'', e_tenantId = ''t'',
   e_rootReceiptId = ''r1'', e_fromReceiptId = Some ''r1'', e_eventType = E_HOLD_PLACED, e_txnType = Some T_TRADE,
   e_txnId = Some ''t0'', e_quantity = 10, e_actorUserId = Some ''ada'', e_idempotencyKey = Some ''TRADE:t0:hold'',
   e_reversalOfEventId = None, e_metadata = None\<rparr>], notifications := [\<lparr>n_tenantId = ''t'', n_userId =
   ''ada'', n_type = N_TRADE_LISTED, n_relatedEntityType = ''trade'', n_relatedEntityId = ''t0''\<rparr>,
   \<lparr>n_tenantId = ''t'', n_userId = ''adm'', n_type = N_TRADE_LISTED, n_relatedEntityType = ''trade'',
   n_relatedEntityId = ''t0''\<rparr>], trades := [\<lparr>t_id = ''t0'', t_reference = ''TR-1'', t_tenantId =
   ''t'', t_receiptId = ''t2'', t_sellerId = ''ada'', t_buyerId = None, t_quantity = 10, t_pricePerUnit = 0,
   t_totalPrice = 0, t_status = TR_LISTED, t_settledAt = None\<rparr>]\<rparr>"
  by code_simp

theorem settled_trade_transfers_witness:
  "\<exists>z x. trades (snd (settleTrade 300 (exIds CHR ''s'') ''t'' ''t0'' ''eve'' exListed)) = [x] \<and> t_status x = TR_SETTLED \<and>
     t_buyerId x = Some ''eve'' \<and>
     find_row r_id (t_receiptId x) (receipts (snd (settleTrade 300 (exIds CHR ''s'') ''t'' ''t0'' ''eve'' exListed))) = Some z \<and>
     r_status z = ACTIVE \<and> r_clientId z = ''eve'' \<and> r_quantity z = 10"
proof -
  have run: "case fst (settleTrade 300 (exIds CHR ''s'') ''t'' ''t0'' ''eve'' exListed) of Inl _ \<Rightarrow> False | Inr _ \<Rightarrow> True"
    and key: "findEventByKey (tradeKey ''t0'' ''transfer'') exListed = None"
    and x: "map (\<lambda>x. (t_id x, t_tenantId x, t_status x, t_receiptId x)) (trades exListed) = [(''t0'', ''t'', TR_LISTED, ''t2'')]"
    and q: "map_option r_quantity (find_row r_id ''t2'' (receipts exListed)) = Some 10" by code_simp+
  obtain v s' where r: "settleTrade 300 (exIds CHR ''s'') ''t'' ''t0'' ''eve'' exListed = (Inr v, s')"
    using run by (cases "settleTrade 300 (exIds CHR ''s'') ''t'' ''t0'' ''eve'' exListed") (auto split: sum.splits)
  have wf: "ledger_wf exListed"
    using confined_wf [OF createTrade_lawful prod.collapse [symmetric] exStore_wf] by (simp add: exListed_def)
  obtain y where y: "trades exListed = [y]" "t_id y = ''t0''" "t_tenantId y = ''t''" "t_status y = TR_LISTED" "t_receiptId y = ''t2''"
    using x by (cases "trades exListed") auto
  then have "find (\<lambda>x. t_id x = ''t0'' \<and> t_tenantId x = ''t'') (trades exListed) = Some y" by simp
  from settled_trade_transfers [OF r wf this y(4) key] y q r show ?thesis by (auto simp: sold_def)
qed

definition exSold :: store where
  "exSold = snd (settleTrade_commit 300 (exIds CHR ''s'') ''t'' ''t0'' ''eve'' (hd (trades exListed), exUser ''eve'' None []) exListed)"

lemma exSold_eval [code]: "exSold =
   exListed\<lparr>receipts := [receipt_defaults\<lparr>r_id := ''r1'', r_receiptNumber := ''WR-2025-0001'',
   r_status := SPLIT, r_tenantId := ''t'', r_commodityId := ''maize'', r_quantity := 10, r_warehouseId := ''w'',
   r_clientId := ''ada'', r_approvalStatus := APPROVED, r_approvedById := Some ''bo'', r_approvedAt := Some 1,
   r_rootReceiptId := ''r1'', r_isParent := True, r_supersededAt := Some 100, r_sourceTxnType := Some T_DEPOSIT,
   r_sourceEventId := Some ''e1''\<rparr>, receipt_defaults\<lparr>r_id := ''t2'', r_receiptNumber :=
   ''WR-2025-0001-A'', r_status := ACTIVE, r_tenantId := ''t'', r_commodityId := ''maize'', r_quantity := 10,
   r_warehouseId := ''w'', r_clientId := ''eve'', r_approvalStatus := APPROVED, r_parentReceiptId := Some ''r1'',
   r_rootReceiptId := ''r1'', r_sourceTxnType := Some T_TRADE, r_sourceTxnId := Some ''t0'', r_sourceEventId :=
   Some ''t1''\<rparr>], events := events exListed @ [\<lparr>e_id = ''s0'', e_tenantId = ''t'', e_rootReceiptId =
   ''r1'', e_fromReceiptId = Some ''t2'', e_eventType = E_OWNERSHIP_TRANSFERRED, e_txnType = Some T_TRADE, e_txnId
   = Some ''t0'', e_quantity = 10, e_actorUserId = None, e_idempotencyKey = Some ''TRADE:t0:transfer'',
   e_reversalOfEventId = None, e_metadata = Some [(''from'', ''ada''), (''to'', ''eve'')]\<rparr>, \<lparr>e_id =
   ''s1'', e_tenantId = ''t'', e_rootReceiptId = ''r1'', e_fromReceiptId = Some ''t2'', e_eventType =
   E_HOLD_RELEASED, e_txnType = Some T_TRADE, e_txnId = Some ''t0'', e_quantity = 10, e_actorUserId = None,
   e_idempotencyKey = Some ''TRADE:t0:transfer:release'', e_reversalOfEventId = Some ''t1'', e_metadata =
   None\<rparr>], notifications := notifications exListed @ [\<lparr>n_tenantId = ''t'', n_userId = ''ada'', n_type
   = N_TRADE_SOLD, n_relatedEntityType = ''trade'', n_relatedEntityId = ''t0''\<rparr>, \<lparr>n_tenantId = ''t'',
   n_userId = ''eve'', n_type = N_TRADE_SOLD, n_relatedEntityType = ''trade'', n_relatedEntityId = ''t0''\<rparr>,
   \<lparr>n_tenantId = ''t'', n_userId = ''adm'', n_type = N_TRADE_SOLD, n_relatedEntityType = ''trade'',
   n_relatedEntityId = ''t0''\<rparr>], trades := [\<lparr>t_id = ''t0'', t_reference = ''TR-1'', t_tenantId =
   ''t'', t_receiptId = ''t2'', t_sellerId = ''ada'', t_buyerId = Some ''eve'', t_quantity = 10, t_pricePerUnit =
   0, t_totalPrice = 0, t_status = TR_SETTLED, t_settledAt = Some 300\<rparr>]\<rparr>"
  by code_simp

theorem sold_once_witness:
  "receipts (snd (settleTrade_commit 301 (exIds CHR ''u'') ''t'' ''t0'' ''adm'' (hd (trades exListed), exUser ''adm'' None []) exSold))
     = receipts exSold \<and> map t_buyerId (trades exSold) = [Some ''eve'']"
proof -
  have run: "case fst (settleTrade_commit 300 (exIds CHR ''s'') ''t'' ''t0'' ''eve'' (hd (trades exListed), exUser ''eve'' None []) exListed) of
      Inl _ \<Rightarrow> False | Inr _ \<Rightarrow> True"
    and key: "findEventByKey (tradeKey (t_id (hd (trades exListed))) ''transfer'') exListed = None"
    and sold: "map t_buyerId (trades exSold) = [Some ''eve'']" by code_simp+
  obtain v s1 where r: "settleTrade_commit 300 (exIds CHR ''s'') ''t'' ''t0'' ''eve''
      (hd (trades exListed), exUser ''eve'' None []) exListed = (Inr v, s1)"
    using run by (cases "settleTrade_commit 300 (exIds CHR ''s'') ''t'' ''t0'' ''eve''
      (hd (trades exListed), exUser ''eve'' None []) exListed") (auto split: sum.splits)
  then have s1: "s1 = exSold" by (simp add: exSold_def)
  from sold_once [OF r key prod.collapse [symmetric], of 301 "exIds CHR ''u''" "''adm''" "exUser ''adm'' None []"] sold s1
  show ?thesis by simp
qed

end
