(* ===== verification/Withdrawal_Properties.thy ===== *)
theory Withdrawal_Properties
  imports Loan_Trade_Properties
begin

text \<open>
  Properties of the withdrawals of \<open>src/withdrawals/\<close> and of the storage fees of
  \<open>src/storage-fees/\<close>: what a request may ask, what a confirmed payment holds, what dispatch
  consumes and bills, how fees grow, and what the cleanup job leaves.
\<close>

section \<open>Withdrawals\<close>

lemma liftM_run: "liftM f s = (Inr x, s') \<longleftrightarrow> f s = Inr x \<and> s' = s"
  by auto

lemma storageFeeOf_otps: "storageFeeOf t r q now (s\<lparr>otps := rows\<rparr>) = storageFeeOf t r q now s"
  by (simp add: storageFeeOf_def resolvePolicy_def resolveStorageFeePolicy_def)

lemma createWithdrawalRequest_steps:
  assumes run: "createWithdrawalRequest c now i ref t dto u onBehalf s = (Inr w, s')"
  obtains s1 r p fee s2 where
    "0 < cw_quantity dto" "assertTransactionAuth c now u OTP_WITHDRAWAL (cw_pin dto) (cw_otp dto) onBehalf s = (Inr (), s1)"
    "find (\<lambda>r. r_id r = cw_receiptId dto \<and> r_tenantId r = t) (receipts s1) = Some r" "r_status r = ACTIVE"
    "r_approvalStatus r = APPROVED" "\<not> r_isParent r"
    "find (\<lambda>w. livePending now t (r_id r) w \<and> w_clientId w = u) (rev (withdrawals s1)) = None"
    "cw_quantity dto \<le> availableForWithdrawal now t (r_id r) (r_quantity r) s1"
    "storageFeeOf t r (cw_quantity dto) now s1 = Inr (p, fee)"
    "upsertWithdrawal
       \<lparr>w_id = i, w_reference = ref, w_tenantId = t, w_receiptId = r_id r, w_clientId = u, w_quantity = cw_quantity dto,
        w_reason = cw_reason dto, w_plannedDate = cw_plannedDate dto, w_status = WD_PENDING_PAYMENT, w_storageFee = fee,
        w_handlingFee = HANDLING_FEE, w_totalFee = fee + HANDLING_FEE, w_approvedById = None,
        w_approvedAt = None, w_rejectionReason = None, w_feesBilledAt = None, w_createdAt = now\<rparr> s1 = Inr (w, s2)"
    "receipts s' = receipts s2" "withdrawals s' = withdrawals s2"
  using run that unfolding createWithdrawalRequest_def
  by (auto simp: bindM_Inr_iff not_le not_less liftM_run simp del: liftM_iff split: if_splits dest!: notifyTenantAdmins_run notifyUser_run)


text \<open>
  A confirmed payment holds the goods: it is by the owner, an administrator or a manager
  of the site, of a row that waits for payment; the receipt was ACTIVE with at least the
  quantity, which is now a row held for the withdrawal, and the withdrawal is paid and
  points to that row.
\<close>

theorem payment_holds:
  assumes run: "confirmPayment now ids t i who roles s = (Inr v, s')" and wf: "ledger_wf s"
    and key: "findEventByKey (withdrawalKey i ''hold'') s = None"
  shows "\<exists>w r p. w \<in> set (withdrawals s) \<and> w_id w = i \<and> w_tenantId w = t \<and> w_status w = WD_PENDING_PAYMENT \<and>
    mayConfirm t w who roles s \<and> find_row r_id (w_receiptId w) (receipts s) = Some r \<and> r_status r = ACTIVE \<and>
    0 < w_quantity w \<and> w_quantity w \<le> r_quantity r \<and>
    map_option r_status (find_row r_id (w_receiptId w) (receipts s')) = Some SPLIT \<and>
    find_row r_id (r_id p) (receipts s) = None \<and> find_row r_id (r_id p) (receipts s') = Some p \<and>
    r_status p = HELD_WITHDRAWAL \<and> r_clientId p = r_clientId r \<and> r_quantity p = to_scale 3 (w_quantity w) \<and>
    withdrawals s' = upd_row w_id i (\<lambda>x. x\<lparr>w_status := WD_PAID_PENDING_APPROVAL, w_receiptId := r_id p\<rparr>) (withdrawals s)"
proof -
  obtain w where w: "find (\<lambda>w. w_id w = i \<and> w_tenantId w = t) (withdrawals s) = Some w"
    using run by (auto simp: confirmPayment_def loadWithdrawal_def bindM_Inr_iff)
  note wi = find_SomeD [OF w]
  let ?inp = "\<lparr>h_tenantId = t, h_sourceReceiptId = w_receiptId w, h_quantity = w_quantity w,
        h_heldStatus = Held_Withdrawal, h_txnType = T_WITHDRAWAL, h_txnId = w_id w,
        h_actorUserId = Some who, h_idempotencyKey = withdrawalKey (w_id w) ''hold'', h_metadata = None\<rparr>"
  obtain held s1 p where st: "w_status w = WD_PENDING_PAYMENT" "mayConfirm t w who roles s"
    and hold: "ledgerHold (ids 0) (ids 1) (ids 2) now ?inp s = (Inr held, s1)" "hr_held held = Some p"
    and s': "receipts s' = receipts s1"
      "withdrawals s' = upd_row w_id i (\<lambda>x. x\<lparr>w_status := WD_PAID_PENDING_APPROVAL, w_receiptId := r_id p\<rparr>) (withdrawals s1)"
    using run w unfolding confirmPayment_def loadWithdrawal_def updateWithdrawal_def
    by (auto simp: bindM_Inr_iff dest!: notifyTenantAdmins_run notifyUser_run)
  have k: "findEventByKey (h_idempotencyKey ?inp) s = None" using key wi by simp
  from held.held_row [OF wf k hold(1)] hold(2) obtain r x where h: "find_row r_id (w_receiptId w) (receipts s) = Some r"
    "holdable ?inp r" "find_row r_id (r_id p) (receipts s) = None" "find_row r_id (r_id p) (receipts s1) = Some p"
    "r_status p = HELD_WITHDRAWAL" "r_clientId p = r_clientId r" "r_quantity p = to_scale 3 (w_quantity w)"
    "find_row r_id (w_receiptId w) (receipts s1) = Some x" "r_status x = SPLIT" "ledger.more s1 = ledger.more s" by auto
  have "withdrawals s1 = withdrawals s" by (rule same_more(15) [OF h(10)])
  with h s' wi st show ?thesis
    by (intro exI [of _ w] exI [of _ r] exI [of _ p]) (simp add: holdable_def)
qed

text \<open>
  C22. Dispatch hands over the goods and bills them: it succeeds only for an APPROVED
  withdrawal, its held row, and no other, becomes WITHDRAWN with the quantity unchanged, and
  the withdrawal, and no other, is COMPLETED with the storage fee of that row up to this
  instant under the policy in force, plus the handling fee agreed.
\<close>

theorem dispatch_consumes_and_bills:
  assumes run: "completeWithdrawal now ev t i who s = (Inr v, s')" and wf: "ledger_wf s"
    and key: "findEventByKey (withdrawalKey i ''consume'') s = None"
  shows "\<exists>w r x p fee. w \<in> set (withdrawals s) \<and> w_id w = i \<and> w_tenantId w = t \<and> w_status w = WD_APPROVED \<and>
    find_row r_id (w_receiptId w) (receipts s) = Some r \<and> r_status r \<in> set HELD \<and>
    find_row r_id (w_receiptId w) (receipts s') = Some x \<and> r_status x = WITHDRAWN \<and> r_quantity x = r_quantity r \<and>
    (\<forall>j. j \<noteq> w_receiptId w \<longrightarrow> find_row r_id j (receipts s') = find_row r_id j (receipts s)) \<and>
    storageFeeOf t x (w_quantity w) now s = Inr (p, fee) \<and> cm_totalFee v = fee + w_handlingFee w \<and>
    withdrawals s' = upd_row w_id i (\<lambda>x. x\<lparr>w_status := WD_COMPLETED, w_storageFee := fee,
       w_totalFee := fee + w_handlingFee w, w_feesBilledAt := Some now\<rparr>) (withdrawals s)"
proof -
  obtain w where w: "find (\<lambda>w. w_id w = i \<and> w_tenantId w = t) (withdrawals s) = Some w"
    using run by (auto simp: completeWithdrawal_def loadWithdrawal_def bindM_Inr_iff)
  note wi = find_SomeD [OF w]
  obtain x s1 y p fee where st: "w_status w = WD_APPROVED"
    and con: "ledgerConsume ev t (w_receiptId w) who (withdrawalKey i ''consume'') s = (Inr x, s1)"
    and fee: "find_row r_id (w_receiptId w) (receipts s1) = Some y" "storageFeeOf t y (w_quantity w) now s1 = Inr (p, fee)"
      "cm_totalFee v = fee + w_handlingFee w"
    and s': "receipts s' = receipts s1" "withdrawals s' = upd_row w_id i (\<lambda>x. x\<lparr>w_status := WD_COMPLETED, w_storageFee := fee,
       w_totalFee := fee + w_handlingFee w, w_feesBilledAt := Some now\<rparr>) (withdrawals s1)"
    using run w wi unfolding completeWithdrawal_def loadWithdrawal_def updateWithdrawal_def
    by (auto simp: bindM_Inr_iff liftM_run simp del: liftM_iff dest!: notifyTenantAdmins_run notifyUser_run)
  have un: "ids_unique s" using wf by (simp add: ledger_wf_def)
  note more = same_more [OF consuming.settle_more [OF con]]
  from consuming.settled_row [OF un key con] obtain r where r: "find_row r_id (w_receiptId w) (receipts s) = Some r"
    "held_any (r_status r)" "find_row r_id (w_receiptId w) (receipts s1) = Some x" "r_status x = WITHDRAWN"
    "r_quantity x = r_quantity r" by auto
  have "storageFeeOf t x (w_quantity w) now s = Inr (p, fee)"
    using fee(1,2) r(3) more(11,16) by (simp add: storageFeeOf_def resolvePolicy_def resolveStorageFeePolicy_def)
  with wi st r s' fee(3) more(15) consuming.others_kept [OF un key con] show ?thesis
    by (intro exI [of _ w] exI [of _ r] exI [of _ x] exI [of _ p] exI [of _ fee]) (simp add: held_any_def)
qed

section \<open>Fees\<close>

lemma toMt_ge0: "toMt bag q u = Inr x \<Longrightarrow> 0 \<le> q \<Longrightarrow> \<forall>b. bag = Some b \<longrightarrow> 0 \<le> b \<Longrightarrow> 0 \<le> x"
  apply (auto simp: toMt_def split: if_splits option.splits)
  subgoal for b using mult_nonneg_nonneg [of q b] by linarith
  done

lemma toBags_ge0: "toBags bag q u = Inr x \<Longrightarrow> 0 \<le> q \<Longrightarrow> \<forall>b. bag = Some b \<longrightarrow> 0 \<le> b \<Longrightarrow> 0 \<le> x"
  by (auto simp: toBags_def Let_def orElse_def zero_le_divide_iff split: if_splits option.splits intro!: order_trans [OF _ le_of_int_ceiling])

lemma daysBetween_mono: "d1 \<le> d2 \<Longrightarrow> daysBetween dep d1 \<le> daysBetween dep d2"
  unfolding daysBetween_def by (intro ceiling_mono divide_right_mono) simp_all

lemma daysBetween_ge0: "dep \<le> d \<Longrightarrow> 0 \<le> daysBetween dep d"
  unfolding daysBetween_def by (metis (no_types) ceiling_mono ceiling_zero diff_ge_0_iff_ge of_int_0_le_iff zero_le_divide_iff zero_le_numeral)

lemma periods_mono: "a \<le> b \<Longrightarrow> 0 < n \<Longrightarrow> \<lceil>of_int a / (n :: rat)\<rceil> \<le> \<lceil>of_int b / n\<rceil>"
  by (intro ceiling_mono divide_right_mono) simp_all

lemma periods_ge0: "0 \<le> a \<Longrightarrow> 0 < n \<Longrightarrow> 0 \<le> \<lceil>of_int a / (n :: rat)\<rceil>"
  using periods_mono [of 0 a n] by simp

text \<open>
  Storage never gets cheaper by waiting: for a policy, quantity and bag weight that are
  not negative, the fee up to a later instant exists when the fee up to an earlier one does,
  is at least as much, and neither is negative.
\<close>

theorem fee_grows:
  assumes fee: "calculateFee policy q u dep d1 bag = Inr f1" and d: "dep \<le> d1" "d1 \<le> d2"
    and "0 \<le> q" "0 \<le> fp_rate policy" "\<forall>b. bag = Some b \<longrightarrow> 0 \<le> b"
  shows "\<exists>f2. calculateFee policy q u dep d2 bag = Inr f2 \<and> 0 \<le> f1 \<and> f1 \<le> f2"
proof -
  let ?a = "daysBetween dep d1" and ?b = "daysBetween dep d2"
  have ab: "0 \<le> ?a" "?a \<le> ?b" using d by (simp_all add: daysBetween_ge0 daysBetween_mono)
  have scaled: "0 \<le> x * fp_rate policy * of_int m \<and> x * fp_rate policy * of_int m \<le> x * fp_rate policy * of_int n"
    if "0 \<le> x" "0 \<le> m" "m \<le> n" for x :: rat and m n :: int
    using that assms(5) by (simp add: mult_left_mono)
  show ?thesis
  proof (cases "fp_feeType policy")
    case PER_MT_PER_MONTH
    then obtain x where "toMt bag q u = Inr x" "f1 = x * fp_rate policy * of_int \<lceil>of_int ?a / (30 :: rat)\<rceil>"
      using fee by (auto simp: calculateFee_def Let_def andThen_Inr_iff)
    with PER_MT_PER_MONTH scaled [OF toMt_ge0 periods_ge0 periods_mono] ab assms(4,6) show ?thesis
      by (simp add: calculateFee_def Let_def)
  next
    case PER_MT_PER_DAY
    then obtain x where "toMt bag q u = Inr x" "f1 = x * fp_rate policy * of_int ?a"
      using fee by (auto simp: calculateFee_def Let_def andThen_Inr_iff)
    with PER_MT_PER_DAY scaled [OF toMt_ge0] ab assms(4,6) show ?thesis by (simp add: calculateFee_def Let_def)
  next
    case PER_BAG_PER_WEEK
    then obtain x where "toBags bag q u = Inr x" "f1 = x * fp_rate policy * of_int \<lceil>of_int ?a / (7 :: rat)\<rceil>"
      using fee by (auto simp: calculateFee_def Let_def andThen_Inr_iff)
    with PER_BAG_PER_WEEK scaled [OF toBags_ge0 periods_ge0 periods_mono] ab assms(4,6) show ?thesis
      by (simp add: calculateFee_def Let_def)
  next
    case FLAT_RATE
    with fee assms(5) show ?thesis by (simp add: calculateFee_def Let_def)
  qed
qed

theorem fee_grows_witness:
  "calculateFee exPolicy 5 ''METRIC_TON'' 0 86400000 None = Inr 2250 \<and>
   (\<exists>f2. calculateFee exPolicy 5 ''METRIC_TON'' 0 172800000 None = Inr f2 \<and> 2250 \<le> f2)"
proof -
  have fee: "calculateFee exPolicy 5 ''METRIC_TON'' 0 86400000 None = Inr 2250" and rate: "fp_rate exPolicy = 450" by code_simp+
  from fee_grows [OF fee, of 172800000] fee rate show ?thesis by simp
qed

section \<open>Cleanup\<close>

text \<open>
  The cleanup job leaves nothing abandoned: it always returns, rejects every unpaid
  request older than half an hour, with the reason given, changes no other row, and
  a second run at the same instant finds nothing to do.
\<close>

theorem cleanup_rejects_abandoned:
  assumes d: "distinct (map w_id (withdrawals s))"
  shows "fst (expirePendingPayment now s) = Inr () \<and> abandoned now (snd (expirePendingPayment now s)) = [] \<and>
    withdrawals (snd (expirePendingPayment now s)) = map (\<lambda>w. if w \<in> set (abandoned now s)
      then w\<lparr>w_status := WD_REJECTED, w_rejectionReason := Some AUTO_REJECTION_REASON\<rparr> else w) (withdrawals s) \<and>
    receipts (snd (expirePendingPayment now s)) = receipts s"
proof -
  let ?ab = "abandoned now s"
  let ?mark = "\<lambda>w. if w \<in> set ?ab then w\<lparr>w_status := WD_REJECTED, w_rejectionReason := Some AUTO_REJECTION_REASON\<rparr> else w"
  have same: "(if w_id w \<in> w_id ` set ?ab \<and> w_status w = WD_PENDING_PAYMENT
      then w\<lparr>w_status := WD_REJECTED, w_rejectionReason := Some AUTO_REJECTION_REASON\<rparr> else w) = ?mark w"
    if "w \<in> set (withdrawals s)" for w
    using that d by (auto simp: abandoned_def distinct_map inj_on_def)
  obtain s' where s': "expirePendingPayment now s = (Inr (), s')" "receipts s' = receipts s"
    "withdrawals s' = map ?mark (withdrawals s)"
  proof (cases "?ab = []")
    case True
    then show ?thesis using that by (auto simp: expirePendingPayment_def bindM_def getsM_def returnM_def)
  next
    case False
    let ?s1 = "s\<lparr>withdrawals := map ?mark (withdrawals s)\<rparr>"
    let ?tell = "forM ?ab (\<lambda>w. notifyUser (w_tenantId w) N_WITHDRAWAL_REJECTED ''withdrawal'' (w_id w) (w_clientId w)) ?s1"
    obtain r s2 where tell: "?tell = (r, s2)" by fastforce
    from forM_notify [OF _ this] obtain ns where "r = Inr ()" "s2 = ?s1\<lparr>notifications := ns\<rparr>"
      by (auto simp: notifyUser_run)
    with tell have told: "?tell = (Inr (), ?s1\<lparr>notifications := ns\<rparr>)" by simp
    have eq: "map (\<lambda>w. if w_id w \<in> w_id ` set ?ab \<and> w_status w = WD_PENDING_PAYMENT
      then w\<lparr>w_status := WD_REJECTED, w_rejectionReason := Some AUTO_REJECTION_REASON\<rparr> else w) (withdrawals s) = map ?mark (withdrawals s)"
      using same by simp
    have "rejectAbandoned ?ab s = (Inr (), ?s1\<lparr>notifications := ns\<rparr>)"
      unfolding rejectAbandoned_def bindM_def modifyM_def eq using told by simp
    then show ?thesis using False that [of "?s1\<lparr>notifications := ns\<rparr>"]
      by (simp add: expirePendingPayment_def bindM_def getsM_def)
  qed
  moreover have "abandoned now s' = []"
    unfolding abandoned_def s'(3) by (auto simp: filter_empty_conv abandoned_def)
  ultimately show ?thesis by simp
qed

section \<open>A withdrawal from request to dispatch\<close>

definition exWithdrawalDto :: create_withdrawal_dto where
  "exWithdrawalDto = \<lparr>cw_receiptId = ''r1'', cw_quantity = 3, cw_reason = None, cw_plannedDate = 900, cw_pin = None, cw_otp = None\<rparr>"

definition exWanted :: store where
  "exWanted = snd (createWithdrawalRequest exCrypto 100 ''w0'' ''WD-1'' ''t'' exWithdrawalDto ''ada'' False exStore)"

lemma exWanted_eval [code]: "exWanted =
   exStore\<lparr>receipts := [receipt_defaults\<lparr>r_id := ''r1'', r_receiptNumber := ''WR-2025-0001'',
   r_status := ACTIVE, r_tenantId := ''t'', r_commodityId := ''maize'', r_quantity := 10, r_warehouseId := ''w'',
   r_clientId := ''ada'', r_approvalStatus := APPROVED, r_approvedById := Some ''bo'', r_approvedAt := Some 1,
   r_rootReceiptId := ''r1'', r_sourceTxnType := Some T_DEPOSIT, r_sourceEventId := Some ''e1''\<rparr>], events :=
   [\<lparr>e_id = ''e1'', e_tenantId = ''t'', e_rootReceiptId = ''r1'', e_fromReceiptId = Some ''r1'', e_eventType
   = E_DEPOSIT, e_txnType = Some T_DEPOSIT, e_txnId = None, e_quantity = 10, e_actorUserId = None, e_idempotencyKey
   = Some ''k1'', e_reversalOfEventId = None, e_metadata = None\<rparr>, \<lparr>e_id = ''e2'', e_tenantId = ''t'',
   e_rootReceiptId = ''r1'', e_fromReceiptId = Some ''r1'', e_eventType = E_APPROVED, e_txnType = Some T_DEPOSIT,
   e_txnId = None, e_quantity = 10, e_actorUserId = Some ''bo'', e_idempotencyKey = Some ''k2'',
   e_reversalOfEventId = None, e_metadata = None\<rparr>], notifications := [\<lparr>n_tenantId = ''t'', n_userId =
   ''adm'', n_type = N_WITHDRAWAL_REQUESTED, n_relatedEntityType = ''withdrawal'', n_relatedEntityId =
   ''w0''\<rparr>, \<lparr>n_tenantId = ''t'', n_userId = ''ada'', n_type = N_WITHDRAWAL_REQUESTED,
   n_relatedEntityType = ''withdrawal'', n_relatedEntityId = ''w0''\<rparr>], withdrawals := [\<lparr>w_id =
   ''w0'', w_reference = ''WD-1'', w_tenantId = ''t'', w_receiptId = ''r1'', w_clientId = ''ada'', w_quantity = 3,
   w_reason = None, w_plannedDate = 900, w_status = WD_PENDING_PAYMENT, w_storageFee = 3 * 450 * rat_of_int 1,
   w_handlingFee = 10000, w_totalFee = 3 * 450 * rat_of_int 1 + 10000, w_approvedById = None, w_approvedAt = None,
   w_rejectionReason = None, w_feesBilledAt = None, w_createdAt = 100\<rparr>]\<rparr>"
  by code_simp

definition exPaid :: store where
  "exPaid = snd (confirmPayment 200 (exIds CHR ''c'') ''t'' ''w0'' ''ada'' [''CLIENT''] exWanted)"

lemma exPaid_eval [code]: "exPaid =
   exWanted\<lparr>receipts := [receipt_defaults\<lparr>r_id := ''r1'', r_receiptNumber := ''WR-2025-0001'',
   r_status := SPLIT, r_tenantId := ''t'', r_commodityId := ''maize'', r_quantity := 10, r_warehouseId := ''w'',
   r_clientId := ''ada'', r_approvalStatus := APPROVED, r_approvedById := Some ''bo'', r_approvedAt := Some 1,
   r_rootReceiptId := ''r1'', r_isParent := True, r_supersededAt := Some 200, r_sourceTxnType := Some T_DEPOSIT,
   r_sourceEventId := Some ''e1''\<rparr>, receipt_defaults\<lparr>r_id := ''c1'', r_receiptNumber :=
   ''WR-2025-0001-A'', r_status := HELD_WITHDRAWAL, r_tenantId := ''t'', r_commodityId := ''maize'', r_quantity :=
   3, r_warehouseId := ''w'', r_clientId := ''ada'', r_parentReceiptId := Some ''r1'', r_rootReceiptId := ''r1'',
   r_sourceTxnType := Some T_WITHDRAWAL, r_sourceTxnId := Some ''w0'', r_sourceEventId := Some ''c0''\<rparr>,
   receipt_defaults\<lparr>r_id := ''c2'', r_receiptNumber := ''WR-2025-0001-B'', r_status := ACTIVE, r_tenantId :=
   ''t'', r_commodityId := ''maize'', r_quantity := 7, r_warehouseId := ''w'', r_clientId := ''ada'',
   r_approvalStatus := APPROVED, r_parentReceiptId := Some ''r1'', r_rootReceiptId := ''r1'', r_sourceEventId :=
   Some ''c0''\<rparr>], events := events exWanted @ [\<lparr>e_id = ''c0'', e_tenantId = ''t'', e_rootReceiptId =
   ''r1'', e_fromReceiptId = Some ''r1'', e_eventType = E_HOLD_PLACED, e_txnType = Some T_WITHDRAWAL, e_txnId =
   Some ''w0'', e_quantity = 3, e_actorUserId = Some ''ada'', e_idempotencyKey = Some ''WITHDRAWAL:w0:hold'',
   e_reversalOfEventId = None, e_metadata = None\<rparr>], notifications := notifications exWanted @
   [\<lparr>n_tenantId = ''t'', n_userId = ''adm'', n_type = N_WITHDRAWAL_PAYMENT_CONFIRMED, n_relatedEntityType =
   ''withdrawal'', n_relatedEntityId = ''w0''\<rparr>, \<lparr>n_tenantId = ''t'', n_userId = ''ada'', n_type =
   N_WITHDRAWAL_PAYMENT_CONFIRMED, n_relatedEntityType = ''withdrawal'', n_relatedEntityId = ''w0''\<rparr>],
   withdrawals := [\<lparr>w_id = ''w0'', w_reference = ''WD-1'', w_tenantId = ''t'', w_receiptId = ''c1'',
   w_clientId = ''ada'', w_quantity = 3, w_reason = None, w_plannedDate = 900, w_status = WD_PAID_PENDING_APPROVAL,
   w_storageFee = 3 * 450 * rat_of_int 1, w_handlingFee = 10000, w_totalFee = 3 * 450 * rat_of_int 1 + 10000,
   w_approvedById = None, w_approvedAt = None, w_rejectionReason = None, w_feesBilledAt = None, w_createdAt =
   100\<rparr>]\<rparr>"
  by code_simp

definition exReady :: store where
  "exReady = snd (approveWithdrawal 300 ''d0'' ''t'' ''w0'' (Some ''adm'') exPaid)"

lemma exReady_eval [code]: "exReady =
   exPaid\<lparr>receipts := [receipt_defaults\<lparr>r_id := ''r1'', r_receiptNumber := ''WR-2025-0001'', r_status
   := SPLIT, r_tenantId := ''t'', r_commodityId := ''maize'', r_quantity := 10, r_warehouseId := ''w'', r_clientId
   := ''ada'', r_approvalStatus := APPROVED, r_approvedById := Some ''bo'', r_approvedAt := Some 1, r_rootReceiptId
   := ''r1'', r_isParent := True, r_supersededAt := Some 200, r_sourceTxnType := Some T_DEPOSIT, r_sourceEventId :=
   Some ''e1''\<rparr>, receipt_defaults\<lparr>r_id := ''c1'', r_receiptNumber := ''WR-2025-0001-A'', r_status :=
   HELD_WITHDRAWAL, r_tenantId := ''t'', r_commodityId := ''maize'', r_quantity := 3, r_warehouseId := ''w'',
   r_clientId := ''ada'', r_approvalStatus := APPROVED, r_approvedById := Some ''adm'', r_approvedAt := Some 300,
   r_parentReceiptId := Some ''r1'', r_rootReceiptId := ''r1'', r_sourceTxnType := Some T_WITHDRAWAL, r_sourceTxnId
   := Some ''w0'', r_sourceEventId := Some ''c0''\<rparr>, receipt_defaults\<lparr>r_id := ''c2'', r_receiptNumber
   := ''WR-2025-0001-B'', r_status := ACTIVE, r_tenantId := ''t'', r_commodityId := ''maize'', r_quantity := 7,
   r_warehouseId := ''w'', r_clientId := ''ada'', r_approvalStatus := APPROVED, r_parentReceiptId := Some ''r1'',
   r_rootReceiptId := ''r1'', r_sourceEventId := Some ''c0''\<rparr>], events := events exPaid @ [\<lparr>e_id =
   ''d0'', e_tenantId = ''t'', e_rootReceiptId = ''r1'', e_fromReceiptId = Some ''c1'', e_eventType = E_APPROVED,
   e_txnType = Some T_WITHDRAWAL, e_txnId = Some ''w0'', e_quantity = 3, e_actorUserId = Some ''adm'',
   e_idempotencyKey = Some ''WITHDRAWAL:w0:approveHold'', e_reversalOfEventId = None, e_metadata = None\<rparr>],
   notifications := notifications exPaid @ [\<lparr>n_tenantId = ''t'', n_userId = ''ada'', n_type =
   N_WITHDRAWAL_APPROVED, n_relatedEntityType = ''withdrawal'', n_relatedEntityId = ''w0''\<rparr>,
   \<lparr>n_tenantId = ''t'', n_userId = ''mgr'', n_type = N_WITHDRAWAL_APPROVED, n_relatedEntityType =
   ''withdrawal'', n_relatedEntityId = ''w0''\<rparr>], withdrawals := [\<lparr>w_id = ''w0'', w_reference =
   ''WD-1'', w_tenantId = ''t'', w_receiptId = ''c1'', w_clientId = ''ada'', w_quantity = 3, w_reason = None,
   w_plannedDate = 900, w_status = WD_APPROVED, w_storageFee = 3 * 450 * rat_of_int 1, w_handlingFee = 10000,
   w_totalFee = 3 * 450 * rat_of_int 1 + 10000, w_approvedById = Some ''adm'', w_approvedAt = Some 300,
   w_rejectionReason = None, w_feesBilledAt = None, w_createdAt = 100\<rparr>]\<rparr>"
  by code_simp

lemma exWanted_wf: "ledger_wf exWanted"
  using confined_wf [OF createWithdrawalRequest_lawful prod.collapse [symmetric] exStore_wf] by (simp add: exWanted_def)

lemma exReady_wf: "ledger_wf exReady"
  using confined_wf [OF approveWithdrawal_lawful prod.collapse [symmetric]
    confined_wf [OF confirmPayment_lawful prod.collapse [symmetric] exWanted_wf]] by (simp add: exReady_def exPaid_def)


theorem payment_holds_witness:
  "\<exists>w p. withdrawals exPaid = [w] \<and> w_status w = WD_PAID_PENDING_APPROVAL \<and>
     find_row r_id (w_receiptId w) (receipts exPaid) = Some p \<and> r_status p = HELD_WITHDRAWAL \<and> r_quantity p = 3"
proof -
  have run: "case fst (confirmPayment 200 (exIds CHR ''c'') ''t'' ''w0'' ''ada'' [''CLIENT''] exWanted) of Inl _ \<Rightarrow> False | Inr _ \<Rightarrow> True"
    and key: "findEventByKey (withdrawalKey ''w0'' ''hold'') exWanted = None"
    and w: "map (\<lambda>w. (w_id w, w_quantity w)) (withdrawals exWanted) = [(''w0'', 3)]" and sc: "to_scale 3 3 = 3" by code_simp+
  obtain v s' where r: "confirmPayment 200 (exIds CHR ''c'') ''t'' ''w0'' ''ada'' [''CLIENT''] exWanted = (Inr v, s')"
    using run by (cases "confirmPayment 200 (exIds CHR ''c'') ''t'' ''w0'' ''ada'' [''CLIENT''] exWanted") (auto split: sum.splits)
  then have s': "s' = exPaid" by (simp add: exPaid_def)
  from payment_holds [OF r exWanted_wf key] w sc s' show ?thesis
    by (cases "withdrawals exWanted") (auto simp: upd_row_def)
qed

theorem dispatch_consumes_and_bills_witness:
  "\<exists>w x. withdrawals (snd (completeWithdrawal 86400000 ''f0'' ''t'' ''w0'' (Some ''adm'') exReady)) = [w] \<and>
     w_status w = WD_COMPLETED \<and> w_storageFee w = 1350 \<and> w_totalFee w = 11350 \<and>
     find_row r_id (w_receiptId w) (receipts (snd (completeWithdrawal 86400000 ''f0'' ''t'' ''w0'' (Some ''adm'') exReady))) = Some x \<and>
     r_status x = WITHDRAWN \<and> r_quantity x = 3"
proof -
  have run: "case completeWithdrawal 86400000 ''f0'' ''t'' ''w0'' (Some ''adm'') exReady of
      (Inl _, _) \<Rightarrow> False | (Inr v, s) \<Rightarrow> cm_totalFee v = 11350 \<and> map w_storageFee (withdrawals s) = [1350]"
    and key: "findEventByKey (withdrawalKey ''w0'' ''consume'') exReady = None"
    and w: "map (\<lambda>w. (w_id w, w_handlingFee w, w_receiptId w)) (withdrawals exReady) = [(''w0'', 10000, ''c1'')]"
    and q: "map_option r_quantity (find_row r_id ''c1'' (receipts exReady)) = Some 3" by code_simp+
  obtain v s' where r: "completeWithdrawal 86400000 ''f0'' ''t'' ''w0'' (Some ''adm'') exReady = (Inr v, s')"
    and v: "cm_totalFee v = 11350" "map w_storageFee (withdrawals s') = [1350]"
    using run by (cases "completeWithdrawal 86400000 ''f0'' ''t'' ''w0'' (Some ''adm'') exReady") (auto split: sum.splits)
  from dispatch_consumes_and_bills [OF r exReady_wf key] w q v r show ?thesis
    by (cases "withdrawals exReady") (auto simp: upd_row_def)
qed

theorem cleanup_rejects_abandoned_witness:
  "map w_status (withdrawals (snd (expirePendingPayment 1800101 exWanted))) = [WD_REJECTED] \<and>
   abandoned 1800101 (snd (expirePendingPayment 1800101 exWanted)) = []"
proof -
  have d: "distinct (map w_id (withdrawals exWanted))" and a: "abandoned 1800101 exWanted = withdrawals exWanted"
    and n: "length (withdrawals exWanted) = 1" by code_simp+
  from cleanup_rejects_abandoned [OF d, of 1800101] a n show ?thesis
    by (cases "withdrawals exWanted") auto
qed

end
