(* ===== verification/Deposit_Properties.thy ===== *)
theory Deposit_Properties
  imports Worked_Store Holding Service_Runs
begin

text \<open>
  Properties of grading (\<open>src/grading/grading.scorer.ts\<close>), of the deposits a warehouse manager
  files and edits, of the attachment of clients to warehouses, and of the administrator's edits.
\<close>

section \<open>Grading\<close>

text \<open>
  C25. The scorer computes the worst of the best: it refuses exactly the samples whose
  measured names are not the names of the parameters; any other sample gets the grade of the
  reference definition, the worst over the parameters of the best label each passes, or
  \<open>REJECTED\<close> with the parameters that pass none.
\<close>

theorem sample_grade:
  "case scoreSample inp of
     Inl message \<Rightarrow> \<not> names_match inp
   | Inr r \<Rightarrow> names_match inp \<and> sc_computedGrade r = worst_grade inp \<and>
       sc_failingParameters r = map gi_name (filter
         (\<lambda>p. \<not> passes (gradeLabels (si_numberOfGrades inp)) (si_measurements inp) p) (si_parameters inp))"
proof (cases "names_match inp")
  case True
  then show ?thesis by (simp add: scoreSample_match Let_def)
next
  case False
  with scoreSample_Inl [of inp] show ?thesis by auto
qed

text \<open>
  A cleaner sample never grades worse: when no measurement is higher than in another
  sample of the same commodity that is accepted with some grade, the sample is accepted too,
  with that grade or a better one.
\<close>

lemma sample_grade_facts:
  "scoreSample inp = Inr r \<Longrightarrow> names_match inp \<and> sc_computedGrade r = worst_grade inp"
  using scoreSample_Inl [of inp] by (cases "names_match inp") (auto simp: scoreSample_match Let_def)

lemma graded_index:
  assumes "scoreSample inp = Inr r" and "sc_computedGrade r = Some g" and "g \<noteq> ''REJECTED''"
  shows "list_all (passes (gradeLabels (si_numberOfGrades inp)) (si_measurements inp)) (si_parameters inp) \<and>
    g = gradeLabel (worst_of (map (gradeIndex (gradeLabels (si_numberOfGrades inp)) (si_measurements inp)) (si_parameters inp))) \<and>
    worst_of (map (gradeIndex (gradeLabels (si_numberOfGrades inp)) (si_measurements inp)) (si_parameters inp))
      < nat (si_numberOfGrades inp)"
  using sample_grade_facts [OF assms(1)] assms(2,3) by (auto simp: worst_grade_def Let_def split: if_splits)

theorem cleaner_sample_grades_no_worse:
  assumes dirty: "scoreSample \<lparr>si_parameters = ps, si_measurements = m', si_numberOfGrades = n\<rparr> = Inr r'"
    and grade: "sc_computedGrade r' = Some g'" "g' \<noteq> ''REJECTED''"
    and clean: "scoreSample \<lparr>si_parameters = ps, si_measurements = m, si_numberOfGrades = n\<rparr> = Inr r"
    and le: "\<forall>p \<in> set ps. measured m (gi_name p) \<le> measured m' (gi_name p)"
  shows "\<exists>k k'. sc_computedGrade r = Some (gradeLabel k) \<and> g' = gradeLabel k' \<and> k \<le> k' \<and> k' < nat n"
proof -
  let ?l = "gradeLabels n"
  from graded_index [OF dirty grade] have d: "list_all (passes ?l m') ps"
    "g' = gradeLabel (worst_of (map (gradeIndex ?l m') ps))" "worst_of (map (gradeIndex ?l m') ps) < nat n" by simp_all
  have "list_all (\<lambda>p. measured m (gi_name p) \<le> measured m' (gi_name p)) ps" using le by (simp add: list_all_iff)
  with d(1) have c: "list_all (passes ?l m) ps" "worst_of (map (gradeIndex ?l m) ps) \<le> worst_of (map (gradeIndex ?l m') ps)"
    using cleaner_grades_better by blast+
  then have "worst_of (map (gradeIndex ?l m) ps) < nat n" using d(3) by simp
  with c(1) sample_grade_facts [OF clean] have "sc_computedGrade r = Some (gradeLabel (worst_of (map (gradeIndex ?l m) ps)))"
    by (simp add: worst_grade_def Let_def)
  with c(2) d(2,3) show ?thesis by blast
qed

definition exParameters :: "grading_input list" where
  "exParameters = map toInput (gradingParameters exStore0)"

theorem cleaner_sample_grades_no_worse_witness:
  "\<exists>r k k'. scoreSample \<lparr>si_parameters = exParameters, si_measurements = [(''Moisture'', 11), (''Broken'', 3)], si_numberOfGrades = 3\<rparr> = Inr r \<and>
     sc_computedGrade r = Some (gradeLabel k) \<and> ''Grade 3'' = gradeLabel k' \<and> k \<le> k'"
proof -
  have d: "case scoreSample \<lparr>si_parameters = exParameters, si_measurements = [(''Moisture'', 15), (''Broken'', 3)], si_numberOfGrades = 3\<rparr> of
      Inl _ \<Rightarrow> False | Inr r \<Rightarrow> sc_computedGrade r = Some ''Grade 3''"
    and c: "case scoreSample \<lparr>si_parameters = exParameters, si_measurements = [(''Moisture'', 11), (''Broken'', 3)], si_numberOfGrades = 3\<rparr> of
      Inl _ \<Rightarrow> False | Inr r \<Rightarrow> True"
    and le: "\<forall>p \<in> set exParameters. measured [(''Moisture'', 11), (''Broken'', 3)] (gi_name p)
      \<le> measured [(''Moisture'', 15), (''Broken'', 3)] (gi_name p)" by code_simp+
  from d c cleaner_sample_grades_no_worse [OF _ _ _ _ le, of 3] show ?thesis by (force split: sum.splits)
qed

section \<open>Runs of the parts\<close>

lemma depositTx_row:
  assumes run: "depositTx i ev y inp s = Inr (r, s')"
  shows "receipts s' = receipts s @ [r] \<and> r_id r = i \<and> i \<notin> r_id ` set (receipts s) \<and> r_status r = PENDING_APPROVAL \<and>
    r_approvalStatus r = PENDING \<and> r_tenantId r = di_tenantId inp \<and> r_clientId r = di_clientId inp \<and>
    r_commodityId r = di_commodityId inp \<and> r_warehouseId r = di_warehouseId inp \<and> r_grade r = di_grade inp \<and>
    r_gradingScores r = di_gradingScores inp \<and> r_quantity r = to_scale 3 (di_quantity inp) \<and>
    r_dateOfDeposit r = di_dateOfDeposit inp \<and> ledger.more s' = ledger.more s"
proof -
  let ?n = "case di_receiptNumber inp of Some n \<Rightarrow> n | None \<Rightarrow> depositNumber y i"
  obtain r0 s1 e ev' s2 where
    c: "createReceipt (receipt_defaults\<lparr>
           r_id := i, r_receiptNumber := ?n, r_status := PENDING_APPROVAL,
           r_tenantId := di_tenantId inp, r_commodityId := di_commodityId inp,
           r_quantity := di_quantity inp, r_grade := di_grade inp,
           r_warehouseId := di_warehouseId inp, r_clientId := di_clientId inp,
           r_approvalStatus := PENDING, r_gradingScores := di_gradingScores inp,
           r_parentReceiptId := None, r_rootReceiptId := i, r_sourceTxnType := Some T_DEPOSIT,
           r_dateOfDeposit := di_dateOfDeposit inp, r_expiryDate := di_expiryDate inp\<rparr>) s = Inr (r0, s1)"
    and e: "event e s1 = Inr (ev', s2)"
    and u: "updateReceipt i (\<lambda>r. r\<lparr>r_sourceEventId := Some (e_id ev')\<rparr>) s2 = Inr (r, s')"
    using run unfolding depositTx_def Let_def by (auto simp: andThen_Inr_iff)
  have c': "i \<notin> r_id ` set (receipts s)" "receipts s1 = receipts s @ [r0]" "r_id r0 = i" "ledger.more s1 = ledger.more s"
    "r_status r0 = PENDING_APPROVAL" "r_approvalStatus r0 = PENDING" "r_tenantId r0 = di_tenantId inp"
    "r_clientId r0 = di_clientId inp" "r_commodityId r0 = di_commodityId inp" "r_warehouseId r0 = di_warehouseId inp"
    "r_grade r0 = di_grade inp" "r_gradingScores r0 = di_gradingScores inp" "r_quantity r0 = to_scale 3 (di_quantity inp)"
    "r_dateOfDeposit r0 = di_dateOfDeposit inp"
    using c by (simp_all add: createReceipt_Inr_iff)
  have s2: "receipts s2 = receipts s @ [r0]" "ledger.more s2 = ledger.more s"
    using e c'(2,4) by (simp_all add: event_Inr_iff)
  have f: "find_row r_id i (receipts s2) = Some r0"
  proof -
    have "find_row r_id i (receipts s) = None" using c'(1) by (simp add: find_row_None_iff)
    then have "find_row r_id i (receipts s2) = find_row r_id i [r0]" by (simp add: s2 find_row_append)
    with c'(3) show ?thesis by (simp add: find_row_def)
  qed
  have "receipts s' = receipts s @ [r]" "r = r0\<lparr>r_sourceEventId := Some (e_id ev')\<rparr>" "ledger.more s' = ledger.more s"
    using u f s2 c'(1,3) by (auto simp: updateReceipt_Inr_iff upd_row_notin) (simp add: upd_row_def)
  with c' show ?thesis by simp
qed

lemma ensureAttached_run:
  assumes "ensureAttached i t m c w s = (Inr u, s')"
  shows "receipts s' = receipts s \<and> events s' = events s \<and> commodities s' = commodities s \<and>
    gradingParameters s' = gradingParameters s \<and> warehouseCommodities s' = warehouseCommodities s \<and>
    (s' = s \<and> (list_ex (attachedTo t c w) (attachments s) \<or> linkedByHistory t c w s) \<or>
     \<not> list_ex (attachedTo t c w) (attachments s) \<and>
     (\<exists>a. attachedTo t c w a \<and> at_attachedById a = m \<and> at_id a \<notin> at_id ` set (attachments s) \<and> attachments s' = attachments s @ [a]))"
  using assms unfolding ensureAttached_def createAttachment_def
  by (auto simp: bindM_Inr_iff attachedTo_def newAttachment_def split: if_splits)

lemma assertWarehouseScope_run:
  "assertWarehouseScope t m w roles s = (Inr u, s') \<longleftrightarrow> s' = s \<and>
     (isAdminRole roles \<or> list_ex (\<lambda>a. ma_tenantId a = t \<and> ma_managerId a = m \<and> ma_warehouseId a = w \<and>
       ma_unassignedAt a = None) (assignments s))"
  by (auto simp: assertWarehouseScope_def bindM_Inr_iff)

lemma requireCommodity_run: "requireCommodity t k s = (Inr c, s') \<longleftrightarrow> s' = s \<and> commodityOfTenant t k s = Some c"
  by (auto simp: requireCommodity_def bindM_Inr_iff)

lemma createDeposit_steps:
  assumes run: "createDeposit now y ids t m roles dto s = (Inr d, s')"
  obtains cl s1 c sc r s2 where
    "0 < dd_quantity dto" "isAdminRole roles \<or> list_ex (\<lambda>a. ma_tenantId a = t \<and> ma_managerId a = m \<and>
       ma_warehouseId a = dd_warehouseId dto \<and> ma_unassignedAt a = None) (assignments s)"
    "findClient t (dd_clientId dto) s = Some cl"
    "ensureAttached (ids 0) t m (dd_clientId dto) (dd_warehouseId dto) s = (Inr (), s1)"
    "acceptsCommodity (dd_warehouseId dto) (dd_commodityId dto) s1"
    "commodityOfTenant t (dd_commodityId dto) s1 = Some c" "parametersOf (dd_commodityId dto) s1 \<noteq> []"
    "scoreById (parametersOf (dd_commodityId dto) s1) (dd_measurements dto) (co_numberOfGrades c) = Inr sc"
    "sc_computedGrade sc \<noteq> Some ''REJECTED''"
    "atOnce (deposit (ids 1) (ids 2) y (depositInput now (ids 3) t m dto sc)) s1 = (Inr r, s2)"
    "receipts s' = receipts s2" "events s' = events s2" "attachments s' = attachments s2"
    "d = \<lparr>da_receipt = r, da_computedGrade = sc_computedGrade sc\<rparr>"
  using run that unfolding createDeposit_def
  by (auto simp: bindM_Inr_iff assertWarehouseScope_run requireCommodity_run liftErr_iff not_le simp del: One_nat_def
      dest!: notifyTenantAdmins_run notifyUser_run)

text \<open>
  C24. What filing a deposit does: when it succeeds, exactly one receipt is added, of the
  given client, commodity, warehouse and quantity (to the thousandth), waiting for approval;
  its grade is the one the manager gave or else the computed one, which is not \<open>REJECTED\<close>;
  the commodity is accepted at the warehouse; and the client was linked to the warehouse by an
  attachment or an earlier receipt, or is attached now.
\<close>

theorem deposit_files:
  assumes run: "createDeposit now y ids t m roles dto s = (Inr d, s')"
    and key: "findEventByKey (depositKey (ids 3)) s = None"
  shows "receipts s' = receipts s @ [da_receipt d] \<and> r_status (da_receipt d) = PENDING_APPROVAL \<and>
    r_approvalStatus (da_receipt d) = PENDING \<and> r_clientId (da_receipt d) = dd_clientId dto \<and>
    r_commodityId (da_receipt d) = dd_commodityId dto \<and> r_warehouseId (da_receipt d) = dd_warehouseId dto \<and>
    r_quantity (da_receipt d) = to_scale 3 (dd_quantity dto) \<and> 0 < dd_quantity dto \<and>
    r_grade (da_receipt d) = givenOpt (dd_grade dto) (da_computedGrade d) \<and> da_computedGrade d \<noteq> Some ''REJECTED'' \<and>
    acceptsCommodity (dd_warehouseId dto) (dd_commodityId dto) s \<and>
    (list_ex (attachedTo t (dd_clientId dto) (dd_warehouseId dto)) (attachments s') \<or>
     linkedByHistory t (dd_clientId dto) (dd_warehouseId dto) s)"
proof -
  obtain cl s1 c sc r s2 where
    q: "0 < dd_quantity dto" and scope: "isAdminRole roles \<or> list_ex (\<lambda>a. ma_tenantId a = t \<and> ma_managerId a = m \<and>
       ma_warehouseId a = dd_warehouseId dto \<and> ma_unassignedAt a = None) (assignments s)"
    and cl: "findClient t (dd_clientId dto) s = Some cl"
    and a: "ensureAttached (ids 0) t m (dd_clientId dto) (dd_warehouseId dto) s = (Inr (), s1)"
    and wc: "acceptsCommodity (dd_warehouseId dto) (dd_commodityId dto) s1"
    and c: "commodityOfTenant t (dd_commodityId dto) s1 = Some c" "parametersOf (dd_commodityId dto) s1 \<noteq> []"
      "scoreById (parametersOf (dd_commodityId dto) s1) (dd_measurements dto) (co_numberOfGrades c) = Inr sc"
    and g: "sc_computedGrade sc \<noteq> Some ''REJECTED''"
    and dep: "atOnce (deposit (ids 1) (ids 2) y (depositInput now (ids 3) t m dto sc)) s1 = (Inr r, s2)"
    and s': "receipts s' = receipts s2" "events s' = events s2" "attachments s' = attachments s2"
    and d: "d = \<lparr>da_receipt = r, da_computedGrade = sc_computedGrade sc\<rparr>"
    by (rule createDeposit_steps [OF run])
  let ?inp = "depositInput now (ids 3) t m dto sc"
  from ensureAttached_run [OF a] have s1: "receipts s1 = receipts s" "events s1 = events s"
      "warehouseCommodities s1 = warehouseCommodities s"
    and link: "list_ex (attachedTo t (dd_clientId dto) (dd_warehouseId dto)) (attachments s1) \<or>
      linkedByHistory t (dd_clientId dto) (dd_warehouseId dto) s" by auto
  have "findEventByKey (di_idempotencyKey ?inp) s1 = None" using key s1 by (simp add: findEventByKey_def depositInput_def)
  then have "depositTx (ids 1) (ids 2) y ?inp s1 = Inr (r, s2)"
    using dep q by (auto simp: atOnce_def deposit_def depositInput_def intro: idempotent_first split: if_splits)
  from depositTx_row [OF this] have row: "receipts s2 = receipts s1 @ [r]" "r_status r = PENDING_APPROVAL"
    "r_approvalStatus r = PENDING" "r_clientId r = dd_clientId dto" "r_commodityId r = dd_commodityId dto"
    "r_warehouseId r = dd_warehouseId dto" "r_quantity r = to_scale 3 (dd_quantity dto)"
    "r_grade r = givenOpt (dd_grade dto) (sc_computedGrade sc)" "attachments s2 = attachments s1"
    by (auto simp: depositInput_def givenOpt_def dest: same_more split: option.splits)
  show ?thesis using row s' s1 d g q wc link by (simp add: acceptsCommodity_def)
qed

text \<open>
  The preview shows what filing will do: whenever a deposit is filed, the preview of the
  same measurements just before would have succeeded, said acceptable, and shown the grade and
  the scores that are stored; so what the preview finds unacceptable is never filed.
\<close>

theorem preview_matches_filing:
  assumes run: "createDeposit now y ids t m roles dto s = (Inr d, s')"
    and key: "findEventByKey (depositKey (ids 3)) s = None"
  shows "\<exists>v. previewGrading t (dd_commodityId dto) (dd_measurements dto) s = (Inr v, s) \<and> pv_acceptable v \<and>
    sc_computedGrade (pv_score v) = da_computedGrade d \<and>
    r_gradingScores (da_receipt d) = Some (scoresDocument (dd_measurements dto) (pv_score v))"
proof -
  obtain cl s1 c sc r s2 where
    q: "0 < dd_quantity dto" and scope: "isAdminRole roles \<or> list_ex (\<lambda>a. ma_tenantId a = t \<and> ma_managerId a = m \<and>
       ma_warehouseId a = dd_warehouseId dto \<and> ma_unassignedAt a = None) (assignments s)"
    and cl: "findClient t (dd_clientId dto) s = Some cl"
    and a: "ensureAttached (ids 0) t m (dd_clientId dto) (dd_warehouseId dto) s = (Inr (), s1)"
    and wc: "acceptsCommodity (dd_warehouseId dto) (dd_commodityId dto) s1"
    and c: "commodityOfTenant t (dd_commodityId dto) s1 = Some c" "parametersOf (dd_commodityId dto) s1 \<noteq> []"
      "scoreById (parametersOf (dd_commodityId dto) s1) (dd_measurements dto) (co_numberOfGrades c) = Inr sc"
    and g: "sc_computedGrade sc \<noteq> Some ''REJECTED''"
    and dep: "atOnce (deposit (ids 1) (ids 2) y (depositInput now (ids 3) t m dto sc)) s1 = (Inr r, s2)"
    and s': "receipts s' = receipts s2" "events s' = events s2" "attachments s' = attachments s2"
    and d: "d = \<lparr>da_receipt = r, da_computedGrade = sc_computedGrade sc\<rparr>"
    by (rule createDeposit_steps [OF run])
  from ensureAttached_run [OF a] have s1: "events s1 = events s" "commodities s1 = commodities s"
      "gradingParameters s1 = gradingParameters s" by auto
  have "findEventByKey (di_idempotencyKey (depositInput now (ids 3) t m dto sc)) s1 = None"
    using key s1 by (simp add: findEventByKey_def depositInput_def)
  then have "depositTx (ids 1) (ids 2) y (depositInput now (ids 3) t m dto sc) s1 = Inr (r, s2)"
    using dep q by (auto simp: atOnce_def deposit_def depositInput_def intro: idempotent_first split: if_splits)
  from depositTx_row [OF this] have "r_gradingScores r = Some (scoresDocument (dd_measurements dto) sc)"
    by (simp add: depositInput_def)
  moreover have "previewGrading t (dd_commodityId dto) (dd_measurements dto) s =
      (Inr \<lparr>pv_commodity = co_name c, pv_numberOfGrades = co_numberOfGrades c, pv_acceptable = True, pv_score = sc\<rparr>, s)"
    using c g s1 unfolding previewGrading_def
    by (auto simp: bindM_Inr_iff requireCommodity_run liftErr_iff commodityOfTenant_def parametersOf_def)
  ultimately show ?thesis using d by simp
qed

section \<open>Attachments\<close>

text \<open>At most one active attachment per client and warehouse.\<close>

definition attachments_ok :: "attachment list \<Rightarrow> bool" where
  "attachments_ok rows \<longleftrightarrow> distinct (map at_id rows) \<and>
     distinct (map (\<lambda>a. (at_tenantId a, at_clientId a, at_warehouseId a)) (filter (\<lambda>a. at_detachedAt a = None) rows))"

lemma attachments_ok_snoc:
  assumes "attachments_ok rows" and "at_id a \<notin> at_id ` set rows" and "attachedTo t c w a"
    and "\<not> list_ex (attachedTo t c w) rows"
  shows "attachments_ok (rows @ [a])"
  using assms by (force simp: attachments_ok_def attachedTo_def list_ex_iff)

lemma distinct_map_filter_upd:
  assumes "distinct (map k rows)" and "distinct (map g (filter P rows))" and "\<not> P b" 
  shows "distinct (map g (filter P (upd_row k i (\<lambda>_. b) rows)))"
  using assms
proof (induction rows)
  case (Cons x rows)
  have "set (filter P (upd_row k i (\<lambda>_. b) rows)) \<subseteq> set (filter P rows)" if "\<not> P b" for rows
    using that by (auto simp: upd_row_def split: if_splits)
  with Cons show ?case by (force simp: upd_row_def split: if_splits)
qed (simp add: upd_row_def)

lemma attachments_ok_detach:
  assumes "attachments_ok rows" and "at_id b = i" and "at_detachedAt b \<noteq> None"
  shows "attachments_ok (upd_row at_id i (\<lambda>_. b) rows)"
  using assms distinct_map_filter_upd [of at_id rows "\<lambda>a. (at_tenantId a, at_clientId a, at_warehouseId a)"
      "\<lambda>a. at_detachedAt a = None" b i]
  by (simp add: attachments_ok_def map_upd_row)

text \<open>Keeping them so is a contract handlers compose under.\<close>

definition tidy :: "store \<Rightarrow> store \<Rightarrow> bool" where
  "tidy s s' \<longleftrightarrow> (attachments_ok (attachments s) \<longrightarrow> attachments_ok (attachments s'))"

interpretation tidying: evolution tidy
  by unfold_locales (auto simp: tidy_def)

lemma tidy_same: "attachments s' = attachments s \<Longrightarrow> tidy s s'"
  by (simp add: tidy_def)

lemma tidy_createAttachment:
  assumes "attachedTo t c w a" and "\<not> list_ex (attachedTo t c w) (attachments s)" and "createAttachment a s = (r, s')"
  shows "tidy s s'"
  using assms by (auto simp: tidy_def createAttachment_def transactM_def intro: attachments_ok_snoc split: if_splits)

lemma attachedTo_new: "attachedTo t c w (newAttachment i t c w m why)"
  by (simp add: attachedTo_def newAttachment_def)

lemma attach_tidy: "confined tidy (attachClientToWarehouse i t m eff w c why)"
proof (rule confinedI)
  fix s r s' assume run: "attachClientToWarehouse i t m eff w c why s = (r, s')"
  show "tidy s s'"
  proof (cases "s' = s")
    case False
    with run have "createAttachment (newAttachment i t c w m why) s = (r, s') \<and> \<not> list_ex (attachedTo t c w) (attachments s)"
      unfolding attachClientToWarehouse_def
      by (cases r) (auto simp: bindM_Inr_iff bindM_Inl_iff find_None_iff list_ex_iff)
    then show ?thesis using tidy_createAttachment attachedTo_new by blast
  qed (simp add: tidying.stays)
qed

lemma detach_tidy: "confined tidy (detachClientFromWarehouse now t m eff w c why)"
  unfolding detachClientFromWarehouse_def Let_def
  by (intro tidying.confined_rules tidying.confined_modify) (simp add: tidy_def attachments_ok_detach)

lemma ensureAttached_tidy: "confined tidy (ensureAttached i t m c w)"
proof (rule confinedI)
  fix s r s' assume run: "ensureAttached i t m c w s = (r, s')"
  show "tidy s s'"
  proof (cases "s' = s")
    case False
    with run have "\<exists>x. createAttachment (newAttachment i t c w m (Some ''Auto-attached on first deposit (WM is registrar)'')) s = (x, s') \<and>
        \<not> list_ex (attachedTo t c w) (attachments s)"
      unfolding ensureAttached_def
      by (cases r) (auto simp: bindM_Inr_iff bindM_Inl_iff split: if_splits)
    then show ?thesis using tidy_createAttachment attachedTo_new by blast
  qed (simp add: tidying.stays)
qed

lemma deposit_more: "atOnce (deposit i ev y inp) s = (r, s') \<Longrightarrow> ledger.more s' = ledger.more s"
  by (auto simp: atOnce_def deposit_def split: if_splits dest: depositTx_row elim!: idempotent_more)

lemma notify_tidy: "confined tidy (notifyUser t ty et i u)" "confined tidy (notifyTenantAdmins t ty et i)"
  by (auto intro!: confinedI tidy_same dest!: notifyUser_run notifyTenantAdmins_run)

lemma createDeposit_tidy: "confined tidy (createDeposit now y ids t m roles dto)"
proof -
  have "confined tidy (atOnce (deposit i ev y inp))" for i ev inp
    by (auto intro!: confinedI tidy_same dest!: deposit_more intro: same_more)
  then show ?thesis
    unfolding createDeposit_def assertWarehouseScope_def requireCommodity_def liftErr_def
    by (intro tidying.confined_rules confined_sum ensureAttached_tidy notify_tidy)
qed

text \<open>
  One attachment at a time: attaching a client, detaching one and filing a deposit keep
  at most one active attachment per client and warehouse, whether they succeed or fail.
\<close>

theorem attached_once:
  assumes "attachments_ok (attachments s)"
  shows "attachments_ok (attachments (snd (attachClientToWarehouse i t m eff w c why s))) \<and>
    attachments_ok (attachments (snd (detachClientFromWarehouse now t m eff w c why s))) \<and>
    attachments_ok (attachments (snd (createDeposit now y ids t m eff dto s)))"
  using confinedD [OF attach_tidy prod.collapse [symmetric], of s i t m eff w c why]
    confinedD [OF detach_tidy prod.collapse [symmetric], of s now t m eff w c why]
    confinedD [OF createDeposit_tidy prod.collapse [symmetric], of s now y ids t m eff dto] assms
  by (simp add: tidy_def)

section \<open>Edits\<close>

text \<open>What an edit leaves of a row, whoever makes it.\<close>

definition same_node :: "receipt \<Rightarrow> receipt \<Rightarrow> bool" where
  "same_node x y \<longleftrightarrow>
     r_id y = r_id x \<and> r_receiptNumber y = r_receiptNumber x \<and> r_tenantId y = r_tenantId x \<and>
     r_status y = r_status x \<and> r_approvalStatus y = r_approvalStatus x \<and> r_clientId y = r_clientId x \<and>
     r_parentReceiptId y = r_parentReceiptId x \<and> r_rootReceiptId y = r_rootReceiptId x \<and>
     r_isParent y = r_isParent x \<and> r_sourceEventId y = r_sourceEventId x"

lemma same_node_refl: "same_node x x"
  by (simp add: same_node_def)

lemma editedReceipt_node: "same_node x (fst (editedReceipt dto r sc) x)"
  by (simp add: editedReceipt_def Let_def same_node_def)

lemma editedReceipt_structure:
  assumes "ed_quantity dto = None" and "ed_commodityId dto = None" and "ed_warehouseId dto = None"
  shows "r_quantity (fst (editedReceipt dto r sc) x) = r_quantity x \<and>
    r_commodityId (fst (editedReceipt dto r sc) x) = r_commodityId x \<and>
    r_warehouseId (fst (editedReceipt dto r sc) x) = r_warehouseId x"
  using assms by (simp add: editedReceipt_def Let_def)

lemma editedReceipt_quantity:
  "r_quantity (fst (editedReceipt dto r sc) x) = (case ed_quantity dto of None \<Rightarrow> r_quantity x | Some q \<Rightarrow> to_scale 3 q)"
  by (simp add: editedReceipt_def Let_def)

lemma notifyEdit_run:
  assumes "notifyEdit t r u s = (x, s')"
  shows "x = Inr () \<and> (\<exists>ns. s' = s\<lparr>notifications := ns\<rparr>)"
proof -
  have same: "\<exists>ns. s = s\<lparr>notifications := ns\<rparr>" for s :: store by (rule exI [of _ "notifications s"]) simp
  show ?thesis
    using assms same unfolding notifyEdit_def
    by (cases "r_status r = PENDING_APPROVAL")
      (auto simp: bindM_def getsM_def returnM_def whenM_def split: option.splits prod.splits sum.splits if_splits
        dest!: notifyTenantAdmins_run notifyUser_run)
qed

lemma applyDepositEdit_run:
  assumes "applyDepositEdit t (r, c, ps) dto u s = (Inr a, s')"
  obtains "receipts s' = receipts s" "events s' = events s" "a = \<lparr>ea_receipt = r, ea_changedFields = []\<rparr>"
  | sc x where "find_row r_id (r_id r) (receipts s) = Some x" "ea_receipt a = fst (editedReceipt dto r sc) x"
      "receipts s' = upd_row r_id (r_id r) (fst (editedReceipt dto r sc)) (receipts s)" "events s' = events s"
      "ea_changedFields a = snd (editedReceipt dto r sc)" "ea_changedFields a \<noteq> []"
      "case ed_quantity dto of None \<Rightarrow> True | Some q \<Rightarrow> fits 18 3 q"
proof -
  from assms obtain c' ps' sc where
    e: "(case editedReceipt dto r sc of (f, changed) \<Rightarrow>
          if changed = [] then returnM \<lparr>ea_receipt = r, ea_changedFields = []\<rparr>
          else bindM (transactM (editTx t (r_id r) u (ed_quantity dto) f changed)) (\<lambda>y.
            bindM (notifyEdit t r u) (\<lambda>_.
              returnM \<lparr>ea_receipt = y, ea_changedFields = changed\<rparr>))) s = (Inr a, s')"
    unfolding applyDepositEdit_def by (auto simp: bindM_Inr_iff liftErr_iff)
  obtain f changed where fc: "editedReceipt dto r sc = (f, changed)" by fastforce
  show ?thesis
  proof (cases "changed = []")
    case True
    with e fc that(1) show ?thesis by auto
  next
    case False
    with e fc obtain y s1 s2 where tx: "editTx t (r_id r) u (ed_quantity dto) f changed s = Inr (y, s1)"
      and n: "notifyEdit t r u s1 = (Inr (), s2)" and a: "a = \<lparr>ea_receipt = y, ea_changedFields = changed\<rparr>" "s' = s2"
      by (auto simp: bindM_Inr_iff)
    from tx obtain x where x: "find_row r_id (r_id r) (receipts s) = Some x" "y = f x"
      "receipts s1 = upd_row r_id (r_id r) f (receipts s)" "events s1 = events s"
      "case ed_quantity dto of None \<Rightarrow> True | Some q \<Rightarrow> fits 18 3 q"
      by (auto simp: editTx_def andThen_Inr_iff updateReceipt_Inr_iff appendActivity_def split: if_splits option.splits)
    with notifyEdit_run [OF n] a False fc that(2) [of x sc] show ?thesis by auto
  qed
qed

lemma loadDeposit_run:
  "loadDepositForEdit t i s = Some (r, c, ps) \<Longrightarrow> find (\<lambda>r. r_id r = i \<and> r_tenantId r = t) (receipts s) = Some r"
  by (auto simp: loadDepositForEdit_def split: option.splits)

lemma rejectDto_run: "rejectDto dto s = (Inr u, s') \<longleftrightarrow> s' = s \<and> (case ed_quantity dto of None \<Rightarrow> True | Some q \<Rightarrow> 0 < q)"
  by (auto simp: rejectDto_def editDtoError_def split: option.splits)

lemma editDepositAsAdmin_run:
  assumes "editDepositAsAdmin t adm i dto s = (Inr a, s')"
  obtains r c ps where "find (\<lambda>r. r_id r = i \<and> r_tenantId r = t) (receipts s) = Some r"
    "r_status r = PENDING_APPROVAL \<or> r_status r = ACTIVE \<and> ed_quantity dto = None \<and> ed_commodityId dto = None \<and> ed_warehouseId dto = None"
    "applyDepositEdit t (r, c, ps) dto adm s = (Inr a, s')" "case ed_quantity dto of None \<Rightarrow> True | Some q \<Rightarrow> 0 < q"
proof -
  from assms obtain r c ps where l: "loadDepositForEdit t i s = Some (r, c, ps)"
    and g: "r_status r \<noteq> SPLIT" "r_status r \<notin> set CLOSED" "r_status r \<notin> set HELD"
      "r_status r = ACTIVE \<longrightarrow> ed_quantity dto = None \<and> ed_commodityId dto = None \<and> ed_warehouseId dto = None"
    and ap: "applyDepositEdit t (r, c, ps) dto adm s = (Inr a, s')" "case ed_quantity dto of None \<Rightarrow> True | Some q \<Rightarrow> 0 < q"
    unfolding editDepositAsAdmin_def editDepositAsAdmin_check_def Let_def
    by (auto simp: bindM_Inr_iff rejectDto_run)
  have "r_status r = PENDING_APPROVAL \<or> r_status r = ACTIVE"
    using g(1-3) by (cases "r_status r") (auto simp: CLOSED_def HELD_def)
  with that [OF loadDeposit_run [OF l] _ ap] g(4) show ?thesis by auto
qed

lemma assertOptional_run:
  "(case x of None \<Rightarrow> returnM () | Some w \<Rightarrow> assertWarehouseScope t m w roles) s = (Inr u, s') \<Longrightarrow> s' = s"
  by (auto simp: assertWarehouseScope_run split: option.splits)

lemma editDeposit_run:
  assumes "editDeposit t m roles i dto s = (Inr a, s')"
  obtains r c ps where "find (\<lambda>r. r_id r = i \<and> r_tenantId r = t) (receipts s) = Some r" "r_status r = PENDING_APPROVAL"
    "isAdminRole roles \<or> list_ex (\<lambda>a. ma_tenantId a = t \<and> ma_managerId a = m \<and> ma_warehouseId a = r_warehouseId r \<and>
       ma_unassignedAt a = None) (assignments s)"
    "applyDepositEdit t (r, c, ps) dto m s = (Inr a, s')" "case ed_quantity dto of None \<Rightarrow> True | Some q \<Rightarrow> 0 < q"
proof -
  from assms obtain r c ps where l: "loadDepositForEdit t i s = Some (r, c, ps)" and p: "r_status r = PENDING_APPROVAL"
    and sc: "isAdminRole roles \<or> list_ex (\<lambda>a. ma_tenantId a = t \<and> ma_managerId a = m \<and> ma_warehouseId a = r_warehouseId r \<and>
       ma_unassignedAt a = None) (assignments s)"
    and ap: "applyDepositEdit t (r, c, ps) dto m s = (Inr a, s')" "case ed_quantity dto of None \<Rightarrow> True | Some q \<Rightarrow> 0 < q"
    unfolding editDeposit_def editDeposit_check_def
    by (auto simp: bindM_Inr_iff rejectDto_run assertWarehouseScope_run dest!: assertOptional_run)
  show ?thesis by (rule that [OF loadDeposit_run [OF l] p sc ap])
qed


section \<open>Edits and the ledger\<close>

text \<open>The columns the ledger's own invariants speak of.\<close>

definition skeleton :: "receipt \<Rightarrow> string \<times> string \<times> receipt_status \<times> approval_status \<times> uuid \<times> dec \<times> uuid option \<times> uuid \<times> bool" where
  "skeleton r = (r_id r, r_receiptNumber r, r_status r, r_approvalStatus r, r_tenantId r, r_quantity r, r_parentReceiptId r,
     r_rootReceiptId r, r_isParent r)"

lemma skeleton_iff:
  "skeleton y = skeleton x \<longleftrightarrow> r_id y = r_id x \<and> r_receiptNumber y = r_receiptNumber x \<and> r_status y = r_status x \<and>
     r_approvalStatus y = r_approvalStatus x \<and> r_tenantId y = r_tenantId x \<and> r_quantity y = r_quantity x \<and>
     r_parentReceiptId y = r_parentReceiptId x \<and> r_rootReceiptId y = r_rootReceiptId x \<and> r_isParent y = r_isParent x"
  by (auto simp: skeleton_def)

lemma skeleton_at:
  assumes "map skeleton (receipts s') = map skeleton (receipts s)"
  shows "length (receipts s') = length (receipts s)"
    and "i < length (receipts s) \<Longrightarrow> skeleton (receipts s' ! i) = skeleton (receipts s ! i)"
  using arg_cong [OF assms, of length] arg_cong [OF assms, of "\<lambda>xs. xs ! i"] by simp_all

lemma skeleton_rows:
  assumes "map skeleton (receipts s') = map skeleton (receipts s)" and "\<And>x y. skeleton y = skeleton x \<Longrightarrow> g y = g x"
  shows "map g (receipts s') = map g (receipts s)"
proof (rule nth_equalityI)
  show "length (map g (receipts s')) = length (map g (receipts s))" using skeleton_at(1) [OF assms(1)] by simp
  fix i assume "i < length (map g (receipts s'))"
  then have i: "i < length (receipts s')" "i < length (receipts s)" using skeleton_at(1) [OF assms(1)] by simp_all
  have "g (receipts s' ! i) = g (receipts s ! i)" by (rule assms(2) [OF skeleton_at(2) [OF assms(1) i(2)]])
  with i show "map g (receipts s') ! i = map g (receipts s) ! i" by simp
qed

lemma skeleton_ball:
  assumes "map skeleton (receipts s') = map skeleton (receipts s)" and "\<And>x y. skeleton y = skeleton x \<Longrightarrow> P y = P x"
  shows "(\<forall>r \<in> set (receipts s'). P r) \<longleftrightarrow> (\<forall>r \<in> set (receipts s). P r)"
proof -
  have "map P (receipts s') = map P (receipts s)" by (rule skeleton_rows [OF assms])
  then have "(\<forall>b \<in> set (map P (receipts s')). b) = (\<forall>b \<in> set (map P (receipts s)). b)" by (simp only:)
  then show ?thesis by simp
qed

lemma skeleton_volume:
  assumes sk: "map skeleton (receipts s') = map skeleton (receipts s)" and P: "\<And>x y. skeleton y = skeleton x \<Longrightarrow> P y = P x"
  shows "volume (filter P (receipts s')) = volume (filter P (receipts s))"
proof -
  let ?g = "\<lambda>r. if P r then r_quantity r else 0"
  have v: "volume (filter P rs) = sum_list (map ?g rs)" for rs
    by (induction rs) auto
  have "map ?g (receipts s') = map ?g (receipts s)"
  proof (rule skeleton_rows [OF sk])
    fix x y assume xy: "skeleton y = skeleton x"
    then have "P y = P x" by (rule P)
    with xy show "?g y = ?g x" by (simp add: skeleton_iff)
  qed
  then show ?thesis by (simp only: v)
qed

lemma skeleton_tree:
  assumes "map skeleton (receipts s') = map skeleton (receipts s)" and "tree_ok s"
  shows "tree_ok s'"
  unfolding tree_ok_def skeleton_at(1) [OF assms(1)]
proof (intro allI impI)
  fix i assume i: "i < length (receipts s)"
  note at = skeleton_at(2) [OF assms(1), unfolded skeleton_iff]
  from assms(2) i have "case r_parentReceiptId (receipts s ! i) of
          None \<Rightarrow> r_rootReceiptId (receipts s ! i) = r_id (receipts s ! i)
        | Some p \<Rightarrow> (\<exists>j < i. r_id (receipts s ! j) = p \<and> r_isParent (receipts s ! j) \<and>
            r_rootReceiptId (receipts s ! j) = r_rootReceiptId (receipts s ! i) \<and>
            r_tenantId (receipts s ! j) = r_tenantId (receipts s ! i))" by (simp add: tree_ok_def)
  then show "case r_parentReceiptId (receipts s' ! i) of
          None \<Rightarrow> r_rootReceiptId (receipts s' ! i) = r_id (receipts s' ! i)
        | Some p \<Rightarrow> (\<exists>j < i. r_id (receipts s' ! j) = p \<and> r_isParent (receipts s' ! j) \<and>
            r_rootReceiptId (receipts s' ! j) = r_rootReceiptId (receipts s' ! i) \<and>
            r_tenantId (receipts s' ! j) = r_tenantId (receipts s' ! i))"
  proof (cases "r_parentReceiptId (receipts s ! i)")
    case (Some p)
    then obtain j where j: "j < i" "r_id (receipts s ! j) = p" "r_isParent (receipts s ! j)"
      "r_rootReceiptId (receipts s ! j) = r_rootReceiptId (receipts s ! i)"
      "r_tenantId (receipts s ! j) = r_tenantId (receipts s ! i)"
      using \<open>case r_parentReceiptId (receipts s ! i) of None \<Rightarrow> _ | Some p \<Rightarrow> _ p\<close> by auto
    with at [of i] at [of j] i Some show ?thesis by auto
  qed (use at [of i] i in auto)
qed

lemma skeleton_wf:
  assumes sk: "map skeleton (receipts s') = map skeleton (receipts s)" and ev: "events s' = events s" and wf: "ledger_wf s"
  shows "ledger_wf s' \<and> drift rt s' = drift rt s"
proof -
  note ball = skeleton_ball [OF sk]
  have "map r_id (receipts s') = map r_id (receipts s)" "map r_receiptNumber (receipts s') = map r_receiptNumber (receipts s)"
    by (rule skeleton_rows [OF sk]; simp add: skeleton_iff)+
  then have "ids_unique s'" using wf by (simp add: ledger_wf_def ids_unique_def)
  moreover have "quantities_ok s' = quantities_ok s" unfolding quantities_ok_def
    by (rule ball) (simp add: skeleton_iff)
  moreover have "statuses_ok s' = statuses_ok s" unfolding statuses_ok_def
    by (rule ball) (simp add: skeleton_iff)
  moreover have "tree_ok s'" using wf by (intro skeleton_tree [OF sk]) (simp add: ledger_wf_def)
  moreover have "genesis_ok s'"
  proof -
    have e: "(\<exists>r\<in>set (receipts s'). r_id r = i \<and> r_quantity r = q) \<longleftrightarrow> (\<exists>r\<in>set (receipts s). r_id r = i \<and> r_quantity r = q)" for i q
    proof -
      have "(\<forall>r\<in>set (receipts s'). \<not> (r_id r = i \<and> r_quantity r = q)) \<longleftrightarrow> (\<forall>r\<in>set (receipts s). \<not> (r_id r = i \<and> r_quantity r = q))"
        by (rule ball) (simp add: skeleton_iff)
      then show ?thesis by blast
    qed
    have "genesis_ok s' = genesis_ok s" unfolding genesis_ok_def ev e
      by (rule arg_cong2 [where f = "(\<and>)", OF refl]) (rule ball, simp add: skeleton_iff)
    with wf show ?thesis by (simp add: ledger_wf_def)
  qed
  moreover have "events_wf (events s')" using wf by (simp add: ledger_wf_def ev)
  moreover have "drift rt s' = drift rt s"
    unfolding drift_def leafVolume_def genesisVolume_def
    by (intro arg_cong2 [where f = "(-)"] skeleton_volume [OF sk]) (auto simp: skeleton_iff)
  ultimately show ?thesis using wf by (simp add: ledger_wf_def)
qed

text \<open>
  Corrections that leave the quantity alone are invisible to the ledger: after a
  manager's or an administrator's edit without a quantity the ledger is well formed if it was,
  and every tree reconciles as before.
\<close>

theorem correction_keeps_ledger:
  assumes run: "editDepositAsAdmin t who i dto s = (Inr a, s') \<or> editDeposit t who roles i dto s = (Inr a, s')"
    and q: "ed_quantity dto = None" and wf: "ledger_wf s"
  shows "ledger_wf s' \<and> drift rt s' = drift rt s"
proof -
  obtain r c ps where ap: "applyDepositEdit t (r, c, ps) dto who s = (Inr a, s')"
    using run by (elim disjE editDepositAsAdmin_run editDeposit_run)
  from ap have "map skeleton (receipts s') = map skeleton (receipts s) \<and> events s' = events s"
  proof (cases rule: applyDepositEdit_run)
    case (2 sc x)
    have "skeleton (fst (editedReceipt dto r sc) y) = skeleton y" for y
      using editedReceipt_node [of y dto r sc] q
      by (simp add: skeleton_iff same_node_def editedReceipt_quantity)
    with 2 show ?thesis by (simp add: map_upd_row)
  qed simp
  then show ?thesis using skeleton_wf wf by blast
qed

section \<open>Worked instances\<close>

text \<open>
  The manager files ten tons of maize of \<open>ada\<close>, whom he registered, corrects the date before the
  approval, and the administrator corrects the grade after it.
\<close>

definition exGradedDto :: create_deposit_dto where
  "exGradedDto = \<lparr>dd_clientId = ''ada'', dd_commodityId = ''maize'', dd_warehouseId = ''w'', dd_quantity = 10,
     dd_measurements = [(''gm'', 13), (''gb'', 1)], dd_grade = None, dd_dateOfDeposit = None\<rparr>"

definition exFiled :: store where
  "exFiled = snd (createDeposit 10 ''2025'' (exIds CHR ''d'') ''t'' ''mgr'' [''WAREHOUSE_MANAGER''] exGradedDto exStore0)"

lemma exFiled_eval [code]: "exFiled =
   exStore0\<lparr>receipts := [receipt_defaults\<lparr>r_id := ''d1'', r_receiptNumber := ''WR-2025-D1'',
   r_tenantId := ''t'', r_commodityId := ''maize'', r_quantity := 10, r_grade := Some ''Grade 2'', r_warehouseId :=
   ''w'', r_clientId := ''ada'', r_gradingScores := Some \<lparr>gs_measurementsById = [(''gm'', 13), (''gb'', 1)],
   gs_computedGrade = Some ''Grade 2'', gs_totalDefectivePct = 1 + 0, gs_standardDeductionPct = 0, gs_perParameter
   = [\<lparr>pr_name = ''Moisture'', pr_value = 13, pr_grade = ''Grade 2'', pr_withinThreshold = True\<rparr>,
   \<lparr>pr_name = ''Broken'', pr_value = 1, pr_grade = ''Grade 1'', pr_withinThreshold = True\<rparr>]\<rparr>,
   r_rootReceiptId := ''d1'', r_sourceTxnType := Some T_DEPOSIT, r_sourceEventId := Some ''d2'', r_dateOfDeposit :=
   10\<rparr>], events := [\<lparr>e_id = ''d2'', e_tenantId = ''t'', e_rootReceiptId = ''d1'', e_fromReceiptId =
   Some ''d1'', e_eventType = E_DEPOSIT, e_txnType = Some T_DEPOSIT, e_txnId = None, e_quantity = 10, e_actorUserId
   = Some ''mgr'', e_idempotencyKey = Some ''MANAGER_DEPOSIT:d3'', e_reversalOfEventId = None, e_metadata =
   None\<rparr>], notifications := [\<lparr>n_tenantId = ''t'', n_userId = ''adm'', n_type =
   N_DEPOSIT_PENDING_APPROVAL, n_relatedEntityType = ''receipt'', n_relatedEntityId = ''d1''\<rparr>,
   \<lparr>n_tenantId = ''t'', n_userId = ''ada'', n_type = N_DEPOSIT_PENDING_APPROVAL, n_relatedEntityType =
   ''receipt'', n_relatedEntityId = ''d1''\<rparr>], attachments := [\<lparr>at_id = ''d0'', at_tenantId = ''t'',
   at_clientId = ''ada'', at_warehouseId = ''w'', at_attachedById = ''mgr'', at_detachedById = None, at_detachedAt
   = None, at_reason = Some ''Auto-attached on first deposit (WM is registrar)''\<rparr>]\<rparr>"
  by code_simp

definition exEdit :: edit_deposit_dto where
  "exEdit = \<lparr>ed_commodityId = None, ed_warehouseId = None, ed_quantity = None, ed_measurements = None,
     ed_grade = Some ''Grade 1'', ed_dateOfDeposit = Some 5, ed_editReason = None\<rparr>"

lemma exFiled_run:
  "(case fst (createDeposit 10 ''2025'' (exIds CHR ''d'') ''t'' ''mgr'' [''WAREHOUSE_MANAGER''] exGradedDto exStore0) of
      Inl _ \<Rightarrow> False | Inr d \<Rightarrow> da_computedGrade d = Some ''Grade 2'')" 
  "findEventByKey (depositKey (exIds CHR ''d'' 3)) exStore0 = None" "receipts exStore0 = []"
  "dd_commodityId exGradedDto = ''maize''" "dd_quantity exGradedDto = 10" "to_scale 3 10 = 10" "dd_grade exGradedDto = None"
  by code_simp+

theorem deposit_files_witness:
  "\<exists>r. receipts exFiled = [r] \<and> r_status r = PENDING_APPROVAL \<and> r_grade r = Some ''Grade 2'' \<and> r_quantity r = 10"
proof -
  obtain d s' where r: "createDeposit 10 ''2025'' (exIds CHR ''d'') ''t'' ''mgr'' [''WAREHOUSE_MANAGER''] exGradedDto exStore0 = (Inr d, s')"
    and g: "da_computedGrade d = Some ''Grade 2''"
    using exFiled_run(1) by (cases "createDeposit 10 ''2025'' (exIds CHR ''d'') ''t'' ''mgr'' [''WAREHOUSE_MANAGER''] exGradedDto exStore0")
      (auto split: sum.splits)
  then have s': "s' = exFiled" by (simp add: exFiled_def)
  from deposit_files [OF r exFiled_run(2)] exFiled_run(3-) g s' show ?thesis
    by (intro exI [of _ "da_receipt d"]) (simp add: givenOpt_def)
qed

theorem preview_matches_filing_witness:
  "\<exists>v. previewGrading ''t'' ''maize'' (dd_measurements exGradedDto) exStore0 = (Inr v, exStore0) \<and> pv_acceptable v \<and>
     sc_computedGrade (pv_score v) = Some ''Grade 2''"
proof -
  obtain d s' where r: "createDeposit 10 ''2025'' (exIds CHR ''d'') ''t'' ''mgr'' [''WAREHOUSE_MANAGER''] exGradedDto exStore0 = (Inr d, s')"
    and g: "da_computedGrade d = Some ''Grade 2''"
    using exFiled_run(1) by (cases "createDeposit 10 ''2025'' (exIds CHR ''d'') ''t'' ''mgr'' [''WAREHOUSE_MANAGER''] exGradedDto exStore0")
      (auto split: sum.splits)
  from preview_matches_filing [OF r exFiled_run(2)] exFiled_run(4) g show ?thesis by auto
qed

theorem attached_once_witness:
  "attachments_ok (attachments exFiled) \<and> length (attachments exFiled) = 1 \<and>
   attachments_ok (attachments (snd (detachClientFromWarehouse 20 ''t'' ''mgr'' [''WAREHOUSE_MANAGER''] ''w'' ''ada'' None exFiled)))"
proof -
  have e: "attachments_ok (attachments exStore0)" by (simp add: exStore0_def attachments_ok_def)
  from attached_once [OF this] have f: "attachments_ok (attachments exFiled)" by (simp add: exFiled_def)
  have "length (attachments exFiled) = 1" by code_simp
  with f attached_once [OF f] show ?thesis by blast
qed


theorem correction_keeps_ledger_witness:
  "ledger_wf (snd (editDeposit ''t'' ''mgr'' [] ''d1'' exEdit exFiled)) \<and>
   drift ''d1'' (snd (editDeposit ''t'' ''mgr'' [] ''d1'' exEdit exFiled)) = drift ''d1'' exFiled"
proof -
  have run: "case editDeposit ''t'' ''mgr'' [] ''d1'' exEdit exFiled of (Inl _, _) \<Rightarrow> False | (Inr a, s) \<Rightarrow> True"
    by code_simp
  obtain a s' where r: "editDeposit ''t'' ''mgr'' [] ''d1'' exEdit exFiled = (Inr a, s')"
    using run by (cases "editDeposit ''t'' ''mgr'' [] ''d1'' exEdit exFiled") (auto split: sum.splits)
  have "ledger_wf exFiled"
    using confined_wf [OF createDeposit_lawful prod.collapse [symmetric] exStore0_wf] by (simp add: exFiled_def)
  from correction_keeps_ledger [OF disjI2 [OF r] _ this] r show ?thesis by (simp add: exEdit_def)
qed

end
