(* ===== verification/Accounts.thy ===== *)
theory Accounts
  imports Lifecycle Liens Grading_Service
begin

text \<open>
  Accounts the platform opens for people: the login address derived from a name, the temporary
  password and the manager code, which \<open>src/managers/managers.service.ts\<close>,
  \<open>src/financier-orgs/financier-orgs.service.ts\<close> and
  \<open>src/warehouse-manager/warehouse-manager.service.ts\<close> each have a copy of; and the
  disabling and enabling of a user, \<open>src/admin-users/admin-users.service.ts\<close>.

  Names are lowered letter by letter as ASCII; \<open>draw k n\<close> is the \<open>k\<close>-th number
  \<open>crypto.randomInt(n)\<close> returns.
\<close>

section \<open>Login addresses\<close>

definition loginBase :: "string \<Rightarrow> string \<Rightarrow> string" where
  "loginBase firstName lastName = filter (\<lambda>c. \<not> js_space c) (lower firstName @ ''.'' @ lower lastName)"

definition loginAddress :: "string \<Rightarrow> string \<Rightarrow> string" where
  "loginAddress base ending = base @ ending @ ''@securestore.com''"

definition emailTaken :: "string \<Rightarrow> store \<Rightarrow> bool" where
  "emailTaken email s \<longleftrightarrow> list_ex (\<lambda>u. u_email u = email) (users s)"

text \<open>The loop over the suffixes \<open>from\<close> to 99.\<close>

function trySuffixes :: "string \<Rightarrow> nat \<Rightarrow> store \<Rightarrow> string option" where
  "trySuffixes base i s =
     (if 99 < i then None
      else let suffixed = loginAddress base (decimal_digits i)
           in if emailTaken suffixed s then trySuffixes base (i + 1) s else Some suffixed)"
  by pat_completeness auto
termination
  by (relation "measure (\<lambda>(_, i, _). 100 - i)") auto

declare trySuffixes.simps [simp del]

definition deriveLoginEmail :: "string \<Rightarrow> string \<Rightarrow> string handler" where
  "deriveLoginEmail firstName lastName =
     bindM (getsM (\<lambda>s. let base = loginBase firstName lastName
       in if emailTaken (loginAddress base []) s then trySuffixes base 2 s else Some (loginAddress base [])))
       (requireM (Conflict ''Cannot generate a unique login email for this name combination''))"

section \<open>Temporary passwords\<close>

definition pwUpper :: string where "pwUpper = ''ABCDEFGHJKLMNPQRSTUVWXYZ''"
definition pwLower :: string where "pwLower = ''abcdefghjkmnpqrstuvwxyz''"
definition pwDigits :: string where "pwDigits = ''23456789''"
definition pwSymbols :: string where "pwSymbols = ''!@#$%&''"

type_synonym draws = "nat \<Rightarrow> nat \<Rightarrow> nat"

definition pick :: "draws \<Rightarrow> nat \<Rightarrow> string \<Rightarrow> char" where
  "pick draw k chars = chars ! draw k (length chars)"

text \<open>The eight characters of the rest are drawn first.\<close>

definition generateTempPassword :: "draws \<Rightarrow> string" where
  "generateTempPassword draw =
     (let everything = pwUpper @ pwLower @ pwDigits @ pwSymbols;
          rest = map (\<lambda>k. pick draw k everything) [0 ..< 8]
      in [pick draw 8 pwUpper, pick draw 9 pwLower, pick draw 10 pwDigits, pick draw 11 pwSymbols] @ rest)"

section \<open>Running codes\<close>

definition padStart :: "nat \<Rightarrow> string \<Rightarrow> string" where
  "padStart n t = replicate (n - length t) CHR ''0'' @ t"

definition runningCode :: "string \<Rightarrow> nat \<Rightarrow> nat \<Rightarrow> string" where
  "runningCode tag year issued = tag @ ''-'' @ decimal_digits year @ ''-'' @ padStart 4 (decimal_digits (issued + 1))"

section \<open>Users\<close>

text \<open>Unique columns: id, email, and the manager code where there is one.\<close>

definition insertUser :: "user \<Rightarrow> store \<Rightarrow> err + user \<times> store" where
  "insertUser u s =
     (if u_id u \<in> u_id ` set (users s) then Inl (Db (P2002 ''id''))
      else if emailTaken (u_email u) s then Inl (Db (P2002 ''email''))
      else if u_managerCode u \<noteq> None \<and> u_managerCode u \<in> u_managerCode ` set (users s)
      then Inl (Db (P2002 ''manager_code''))
      else Inr (u, s\<lparr>users := users s @ [u]\<rparr>))"

definition requireRole :: "string \<Rightarrow> unit handler" where
  "requireRole role =
     bindM (getsM (\<lambda>s. role \<in> set (roleTable s))) (\<lambda>found.
       failIfM (\<not> found) (BadRequest (role @ '' role not configured. Run seed.'')))"

definition credentialsMail :: "string \<Rightarrow> string \<Rightarrow> unit handler" where
  "credentialsMail to tempPassword = modifyM (\<lambda>s. s\<lparr>outbox := outbox s @ [(to, tempPassword)]\<rparr>)"

record credentials =
  cr_email :: string
  cr_temporaryPassword :: string

section \<open>Disabling and enabling\<close>

definition projectUser :: "uuid \<Rightarrow> user handler" where
  "projectUser userId = bindM (getsM (findUser userId)) (requireM (NotFound ''User not found''))"

definition setUserStatus :: "uuid \<Rightarrow> user_status \<Rightarrow> unit handler" where
  "setUserStatus userId st = modifyM (\<lambda>s. s\<lparr>users := upd_row u_id userId (\<lambda>u. u\<lparr>u_status := st\<rparr>) (users s)\<rparr>)"

definition logUser :: "string \<Rightarrow> uuid \<Rightarrow> user \<Rightarrow> unit handler" where
  "logUser action callerUserId target =
     logActivity \<lparr>al_tenantId = Some (u_tenantId target), al_userId = Some callerUserId, al_action = action,
       al_entityType = ''USER'', al_entityId = u_id target, al_changes = []\<rparr>"

definition disableUser :: "uuid \<Rightarrow> uuid \<Rightarrow> user handler" where
  "disableUser callerUserId targetUserId =
     bindM (failIfM (callerUserId = targetUserId) (BadRequest ''CANNOT_DISABLE_SELF'')) (\<lambda>_.
     bindM (getsM (findUser targetUserId)) (\<lambda>target.
     bindM (requireM (NotFound ''User not found'') target) (\<lambda>target.
       if u_status target = USER_INACTIVE then projectUser (u_id target)
       else bindM (setUserStatus targetUserId USER_INACTIVE) (\<lambda>_.
         bindM (logUser ''user.disabled'' callerUserId target) (\<lambda>_.
           projectUser (u_id target))))))"

definition enableUser :: "uuid \<Rightarrow> uuid \<Rightarrow> user handler" where
  "enableUser callerUserId targetUserId =
     bindM (getsM (findUser targetUserId)) (\<lambda>target.
     bindM (requireM (NotFound ''User not found'') target) (\<lambda>target.
       if u_status target = USER_ACTIVE then projectUser (u_id target)
       else bindM (setUserStatus targetUserId USER_ACTIVE) (\<lambda>_.
         bindM (logUser ''user.enabled'' callerUserId target) (\<lambda>_.
           projectUser (u_id target)))))"

section \<open>Facts\<close>

lemma trySuffixes_Some:
  "trySuffixes base i s = Some e \<Longrightarrow> \<not> emailTaken e s \<and>
     (\<exists>k. i \<le> k \<and> k \<le> 99 \<and> e = loginAddress base (decimal_digits k) \<and>
       (\<forall>j. i \<le> j \<longrightarrow> j < k \<longrightarrow> emailTaken (loginAddress base (decimal_digits j)) s))"
proof (induction base i s rule: trySuffixes.induct)
  case (1 base i s)
  show ?case
  proof (cases "emailTaken (loginAddress base (decimal_digits i)) s")
    case True
    have i: "i \<le> 99" using "1.prems" by (subst (asm) trySuffixes.simps) (simp split: if_splits)
    with True "1.prems" have "trySuffixes base (i + 1) s = Some e" by (subst (asm) trySuffixes.simps) simp
    with 1(1) i True obtain k where k: "\<not> emailTaken e s" "i + 1 \<le> k" "k \<le> 99" "e = loginAddress base (decimal_digits k)"
      "\<forall>j. i + 1 \<le> j \<longrightarrow> j < k \<longrightarrow> emailTaken (loginAddress base (decimal_digits j)) s" by auto
    have "emailTaken (loginAddress base (decimal_digits j)) s" if "i \<le> j" "j < k" for j
      using k(5) True that by (cases "j = i") auto
    with k show ?thesis by (intro conjI exI [of _ k]) auto
  next
    case False
    with "1.prems" show ?thesis
      by (subst (asm) trySuffixes.simps) (auto split: if_splits intro: exI [of _ i])
  qed
qed

lemma trySuffixes_None:
  "trySuffixes base i s = None \<longleftrightarrow> (\<forall>k. i \<le> k \<longrightarrow> k \<le> 99 \<longrightarrow> emailTaken (loginAddress base (decimal_digits k)) s)"
proof (induction base i s rule: trySuffixes.induct)
  case (1 base i s)
  show ?case
  proof (cases "99 < i")
    case True
    then show ?thesis by (subst trySuffixes.simps) auto
  next
    case False
    have "(\<forall>k. i \<le> k \<longrightarrow> k \<le> 99 \<longrightarrow> P k) \<longleftrightarrow> P i \<and> (\<forall>k. i + 1 \<le> k \<longrightarrow> k \<le> 99 \<longrightarrow> P k)" for P
      using False by (metis Suc_eq_plus1 le_SucI le_antisym not_less not_less_eq_eq)
    with False 1 show ?thesis by (subst trySuffixes.simps) (simp add: Let_def)
  qed
qed

lemma deriveLoginEmail_run:
  "deriveLoginEmail f l s = (Inr e, s') \<Longrightarrow> s' = s \<and> \<not> emailTaken e s \<and>
     (e = loginAddress (loginBase f l) [] \<or> (\<exists>k. 2 \<le> k \<and> k \<le> 99 \<and> e = loginAddress (loginBase f l) (decimal_digits k)))"
  unfolding deriveLoginEmail_def Let_def
  by (auto simp: bindM_Inr_iff split: if_splits dest: trySuffixes_Some)

lemma deriveLoginEmail_reads: "reads (deriveLoginEmail f l)"
  unfolding deriveLoginEmail_def by (intro reads_rules)

lemma pick_in:
  assumes "\<And>n. 0 < n \<Longrightarrow> draw k n < n" and "chars \<noteq> []"
  shows "pick draw k chars \<in> set chars"
  using assms by (simp add: pick_def)

text \<open>A temporary password has twelve characters, one at least of each of the four sets.\<close>

lemma generateTempPassword_ok:
  assumes "\<And>k n. 0 < n \<Longrightarrow> draw k n < n"
  shows "length (generateTempPassword draw) = 12 \<and>
    list_all (\<lambda>chars. list_ex (\<lambda>c. c \<in> set chars) (generateTempPassword draw)) [pwUpper, pwLower, pwDigits, pwSymbols] \<and>
    set (generateTempPassword draw) \<subseteq> set (pwUpper @ pwLower @ pwDigits @ pwSymbols)"
proof -
  have ne: "pwUpper \<noteq> []" "pwLower \<noteq> []" "pwDigits \<noteq> []" "pwSymbols \<noteq> []"
    by (simp_all add: pwUpper_def pwLower_def pwDigits_def pwSymbols_def)
  note p = pick_in [of draw, OF assms]
  have "pick draw k (pwUpper @ pwLower @ pwDigits @ pwSymbols) \<in> set (pwUpper @ pwLower @ pwDigits @ pwSymbols)" for k
    by (rule p) (simp_all add: ne)
  then show ?thesis
    using p [OF _ ne(1)] p [OF _ ne(2)] p [OF _ ne(3)] p [OF _ ne(4)]
    by (auto simp: generateTempPassword_def Let_def)
qed

section \<open>The life of an account\<close>

text \<open>What no service changes of a user, and the unique columns.\<close>

definition same_account :: "user \<Rightarrow> user \<Rightarrow> bool" where
  "same_account u u' \<longleftrightarrow> u_id u' = u_id u \<and> u_email u' = u_email u \<and> u_tenantId u' = u_tenantId u \<and>
     u_roles u' = u_roles u \<and> u_managerCode u' = u_managerCode u \<and> u_financierOrgId u' = u_financierOrgId u"

interpretation account_life: lifecycle u_id same_account
  by unfold_locales (auto simp: same_account_def)

definition accounts_ok :: "user list \<Rightarrow> bool" where
  "accounts_ok rows \<longleftrightarrow> distinct (map u_id rows) \<and> distinct (map u_email rows) \<and>
     distinct (filter (\<lambda>code. code \<noteq> None) (map u_managerCode rows))"

definition accounting :: "store \<Rightarrow> store \<Rightarrow> bool" where
  "accounting s s' \<longleftrightarrow> (accounts_ok (users s) \<longrightarrow> accounts_ok (users s')) \<and> grows same_account (users s) (users s')"

interpretation account_lives: evolution accounting
proof
  show "accounting s s" for s by (simp add: accounting_def account_life.grows_refl)
  show "accounting s s' \<Longrightarrow> accounting s' s'' \<Longrightarrow> accounting s s''" for s s' s''
    by (auto simp: accounting_def intro: account_life.grows_trans)
qed

lemma accounting_same: "users s' = users s \<Longrightarrow> accounting s s'"
  by (simp add: accounting_def account_life.grows_refl)

lemma insertUser_run:
  "insertUser u s = Inr (x, s') \<longleftrightarrow> x = u \<and> s' = s\<lparr>users := users s @ [u]\<rparr> \<and> u_id u \<notin> u_id ` set (users s) \<and>
     \<not> emailTaken (u_email u) s \<and> (u_managerCode u \<noteq> None \<longrightarrow> u_managerCode u \<notin> u_managerCode ` set (users s))"
  by (auto simp: insertUser_def)

lemma insertUser_accounting: "insertUser u s = Inr (x, s') \<Longrightarrow> accounting s s'"
  by (auto simp: insertUser_run accounting_def accounts_ok_def account_life.grows_append emailTaken_def list_ex_iff)

lemma accounting_update:
  assumes "\<And>u. same_account u (f u)"
  shows "accounting s (s\<lparr>users := upd_row u_id i f (users s)\<rparr>)"
proof -
  have f: "u_id (f u) = u_id u" "u_email (f u) = u_email u" "u_managerCode (f u) = u_managerCode u" for u
    using assms [of u] by (simp_all add: same_account_def)
  have "grows same_account (users s) (upd_row u_id i f (users s))"
    unfolding upd_row_def by (rule account_life.grows_map) (simp add: assms account_life.stays)
  moreover have "map u_id (upd_row u_id i f (users s)) = map u_id (users s)"
    "map u_email (upd_row u_id i f (users s)) = map u_email (users s)"
    "map u_managerCode (upd_row u_id i f (users s)) = map u_managerCode (users s)"
    by (rule map_upd_row, simp add: f)+
  ultimately show ?thesis by (simp add: accounting_def accounts_ok_def)
qed

lemma quiet_accounting:
  "confined accounting (logActivity a)" "confined accounting (notifyUser t ty et i u)"
  "confined accounting (credentialsMail to pw)"
  unfolding logActivity_def notifyUser_def credentialsMail_def
  by (intro account_lives.confined_modify accounting_same; simp)+

lemmas account_confined = account_lives.confined_rules confined_prod quiet_accounting

lemma setUserStatus_accounting: "confined accounting (setUserStatus i st)"
  unfolding setUserStatus_def
  by (intro account_lives.confined_modify accounting_update) (simp add: same_account_def)

lemma disableUser_accounting: "confined accounting (disableUser who i)"
  unfolding disableUser_def projectUser_def logUser_def
  by (intro account_confined confined_if setUserStatus_accounting)

lemma enableUser_accounting: "confined accounting (enableUser who i)"
  unfolding enableUser_def projectUser_def logUser_def
  by (intro account_confined confined_if setUserStatus_accounting)

end
