(* ===== verification/Managers.thy ===== *)
theory Managers
  imports Accounts
begin

text \<open>
  Warehouse managers, \<open>src/managers/managers.service.ts\<close>: accounts opened with a running
  code, edited, activated, suspended, given a new password, and assigned to warehouses. An
  assignment is closed by a time stamp and its row stays, under a unique key on warehouse and
  manager. The date of a client's last deposit is not shown: a receipt keeps no creation time.
\<close>

definition isManager :: "user \<Rightarrow> bool" where
  "isManager u \<longleftrightarrow> list_ex (\<lambda>r. r = ''WAREHOUSE_MANAGER'') (u_roles u)"

definition findManager :: "uuid \<Rightarrow> uuid \<Rightarrow> store \<Rightarrow> user option" where
  "findManager tenantId i s = find (\<lambda>u. u_id u = i \<and> u_tenantId u = tenantId \<and> isManager u) (users s)"

definition findTenantUser :: "uuid \<Rightarrow> uuid \<Rightarrow> store \<Rightarrow> user option" where
  "findTenantUser tenantId i s = find (\<lambda>u. u_id u = i \<and> u_tenantId u = tenantId) (users s)"

definition requireManager :: "uuid \<Rightarrow> uuid \<Rightarrow> user handler" where
  "requireManager tenantId i =
     bindM (getsM (findManager tenantId i)) (requireM (NotFound ''Manager not found''))"

definition requireTenantUser :: "uuid \<Rightarrow> uuid \<Rightarrow> user handler" where
  "requireTenantUser tenantId i =
     bindM (getsM (findTenantUser tenantId i)) (requireM (NotFound ''Manager not found''))"

definition generateManagerCode :: "nat \<Rightarrow> store \<Rightarrow> string" where
  "generateManagerCode year s = runningCode ''MNG'' year (length (filter isManager (users s)))"

section \<open>Assignments\<close>

definition openAssignments :: "uuid \<Rightarrow> uuid \<Rightarrow> store \<Rightarrow> manager_assignment list" where
  "openAssignments tenantId managerId s =
     filter (\<lambda>a. ma_managerId a = managerId \<and> ma_tenantId a = tenantId \<and> ma_unassignedAt a = None) (assignments s)"

definition openSites :: "uuid \<Rightarrow> uuid \<Rightarrow> store \<Rightarrow> uuid list" where
  "openSites tenantId managerId s = map ma_warehouseId (openAssignments tenantId managerId s)"

definition sitesKnown :: "uuid \<Rightarrow> uuid list \<Rightarrow> store \<Rightarrow> bool" where
  "sitesKnown tenantId ids s \<longleftrightarrow>
     length (filter (\<lambda>w. wh_id w \<in> set ids \<and> wh_tenantId w = tenantId) (warehouses s)) = length ids"

definition assignmentKey :: "manager_assignment \<Rightarrow> uuid \<times> uuid" where
  "assignmentKey a = (ma_warehouseId a, ma_managerId a)"

definition insertAssignments :: "manager_assignment list \<Rightarrow> store \<Rightarrow> err + unit \<times> store" where
  "insertAssignments new s =
     (let rows = assignments s @ new
      in if \<not> distinct (map ma_id rows) then Inl (Db (P2002 ''id''))
         else if \<not> distinct (map assignmentKey rows) then Inl (Db (P2002 ''warehouse_id,manager_id''))
         else Inr ((), s\<lparr>assignments := rows\<rparr>))"

definition newAssignments :: "(nat \<Rightarrow> uuid) \<Rightarrow> uuid \<Rightarrow> uuid \<Rightarrow> uuid \<Rightarrow> uuid list \<Rightarrow> manager_assignment list" where
  "newAssignments ids tenantId managerId assignedBy sites =
     map (\<lambda>(k, w). \<lparr>ma_id = ids k, ma_tenantId = tenantId, ma_warehouseId = w, ma_managerId = managerId,
       ma_assignedBy = assignedBy, ma_unassignedAt = None\<rparr>) (enumerate 0 sites)"

record assign_result =
  as_assigned :: nat
  as_alreadyAssigned :: nat

definition assignWarehouses ::
    "(nat \<Rightarrow> uuid) \<Rightarrow> uuid \<Rightarrow> uuid \<Rightarrow> uuid list \<Rightarrow> uuid \<Rightarrow> assign_result handler" where
  "assignWarehouses ids tenantId managerId sites assignedBy =
     bindM (requireTenantUser tenantId managerId) (\<lambda>_.
     bindM (getsM (sitesKnown tenantId sites)) (\<lambda>known.
     bindM (failIfM (\<not> known) (BadRequest ''One or more warehouse IDs are invalid'')) (\<lambda>_.
     bindM (getsM (openSites tenantId managerId)) (\<lambda>existing.
     let newIds = filter (\<lambda>w. w \<notin> set existing) sites in
     bindM (whenM (newIds \<noteq> []) (transactM (insertAssignments (newAssignments ids tenantId managerId assignedBy newIds)))) (\<lambda>_.
       returnM \<lparr>as_assigned = length newIds, as_alreadyAssigned = length sites - length newIds\<rparr>)))))"

definition unassignWarehouse :: "time \<Rightarrow> uuid \<Rightarrow> uuid \<Rightarrow> uuid \<Rightarrow> manager_assignment handler" where
  "unassignWarehouse now tenantId managerId warehouseId =
     bindM (getsM (\<lambda>s. find (\<lambda>a. ma_managerId a = managerId \<and> ma_warehouseId a = warehouseId \<and>
         ma_tenantId a = tenantId \<and> ma_unassignedAt a = None) (assignments s)))
       (\<lambda>found. bindM (requireM (NotFound ''Active assignment not found'') found) (\<lambda>a.
     bindM (modifyM (\<lambda>s. s\<lparr>assignments :=
         upd_row ma_id (ma_id a) (\<lambda>a. a\<lparr>ma_unassignedAt := Some now\<rparr>) (assignments s)\<rparr>)) (\<lambda>_.
       returnM (a\<lparr>ma_unassignedAt := Some now\<rparr>))))"

section \<open>Accounts\<close>

record personal_info =
  pi_firstName :: "string option"
  pi_middleName :: "string option"
  pi_lastName :: "string option"
  pi_gender :: "string option"
  pi_dateOfBirth :: "time option"
  pi_residentialAddress :: "string option"
  pi_phoneNumber :: "string option"
  pi_contactEmail :: "string option"
  pi_employmentDate :: "time option"
  pi_profilePhotoUrl :: "string option"

text \<open>A creation requires both names; an edit may leave out any field.\<close>

record create_manager_dto =
  mg_firstName :: string
  mg_lastName :: string
  mg_info :: personal_info
  mg_permissions :: "json option"
  mg_notificationPrefs :: "json option"
  mg_warehouseIds :: "uuid list"

definition defaultPermissions :: json where
  "defaultPermissions = [(''manageClients'', ''true''), (''manageReceipts'', ''true''),
     (''viewReports'', ''true''), (''approveDeposit'', ''true'')]"

definition defaultNotificationPrefs :: json where
  "defaultNotificationPrefs = [(''email'', ''true''), (''sms'', ''true''), (''inApp'', ''true'')]"

definition managerUser :: "crypto \<Rightarrow> uuid \<Rightarrow> uuid \<Rightarrow> string \<Rightarrow> string \<Rightarrow> string \<Rightarrow> create_manager_dto \<Rightarrow> user" where
  "managerUser c i tenantId loginEmail tempPassword code dto = user_defaults\<lparr>
     u_id := i, u_tenantId := tenantId, u_email := loginEmail, u_password := bcrypt_hash c tempPassword,
     u_firstName := mg_firstName dto, u_lastName := mg_lastName dto, u_middleName := pi_middleName (mg_info dto),
     u_gender := pi_gender (mg_info dto), u_dateOfBirth := pi_dateOfBirth (mg_info dto),
     u_residentialAddress := pi_residentialAddress (mg_info dto), u_phoneNumber := pi_phoneNumber (mg_info dto),
     u_contactEmail := pi_contactEmail (mg_info dto), u_employmentDate := pi_employmentDate (mg_info dto),
     u_profilePhotoUrl := pi_profilePhotoUrl (mg_info dto), u_managerCode := Some code, u_status := USER_ACTIVE,
     u_permissions := Some (given (mg_permissions dto) defaultPermissions),
     u_notificationPrefs := Some (given (mg_notificationPrefs dto) defaultNotificationPrefs),
     u_roles := [''WAREHOUSE_MANAGER'']\<rparr>"

definition createManager ::
    "crypto \<Rightarrow> nat \<Rightarrow> draws \<Rightarrow> (nat \<Rightarrow> uuid) \<Rightarrow> uuid \<Rightarrow> create_manager_dto
     \<Rightarrow> (user \<times> warehouse list \<times> credentials) handler" where
  "createManager c year draw ids tenantId dto =
     bindM (requireRole ''WAREHOUSE_MANAGER'') (\<lambda>_.
     bindM (deriveLoginEmail (mg_firstName dto) (mg_lastName dto)) (\<lambda>loginEmail.
     let tempPassword = generateTempPassword draw; sites = mg_warehouseIds dto in
     bindM (getsM (generateManagerCode year)) (\<lambda>code.
     bindM (getsM (sitesKnown tenantId sites)) (\<lambda>known.
     bindM (failIfM (sites \<noteq> [] \<and> \<not> known)
       (BadRequest ''One or more warehouse IDs are invalid or do not belong to this tenant'')) (\<lambda>_.
     bindM (transactM (\<lambda>s.
         andThen (insertUser (managerUser c (ids 0) tenantId loginEmail tempPassword code dto) s) (\<lambda>(u, s1).
         andThen (if sites = [] then Inr ((), s1)
             else insertAssignments (newAssignments (\<lambda>k. ids (k + 1)) tenantId (u_id u) (u_id u) sites) s1) (\<lambda>(_, s2).
           Inr (u, s2))))) (\<lambda>u.
     bindM (getsM (\<lambda>s. List.map_filter (\<lambda>a. find_row wh_id (ma_warehouseId a) (warehouses s))
         (filter (\<lambda>a. ma_managerId a = u_id u \<and> ma_unassignedAt a = None) (assignments s)))) (\<lambda>assigned.
       returnM (u, assigned, \<lparr>cr_email = loginEmail, cr_temporaryPassword = tempPassword\<rparr>))))))))"

record update_manager_dto =
  um_personalInfo :: "personal_info option"
  um_permissions :: "json option"
  um_notificationPrefs :: "json option"

definition noInfo :: personal_info where
  "noInfo = \<lparr>pi_firstName = None, pi_middleName = None, pi_lastName = None, pi_gender = None, pi_dateOfBirth = None,
     pi_residentialAddress = None, pi_phoneNumber = None, pi_contactEmail = None, pi_employmentDate = None,
     pi_profilePhotoUrl = None\<rparr>"

definition editedManager :: "update_manager_dto \<Rightarrow> user \<Rightarrow> user" where
  "editedManager dto u =
     (let info = given (um_personalInfo dto) noInfo
      in u\<lparr>u_firstName := given (pi_firstName info) (u_firstName u),
        u_middleName := givenOpt (pi_middleName info) (u_middleName u),
        u_lastName := given (pi_lastName info) (u_lastName u), u_gender := givenOpt (pi_gender info) (u_gender u),
        u_dateOfBirth := givenOpt (pi_dateOfBirth info) (u_dateOfBirth u),
        u_residentialAddress := givenOpt (pi_residentialAddress info) (u_residentialAddress u),
        u_phoneNumber := givenOpt (pi_phoneNumber info) (u_phoneNumber u),
        u_contactEmail := givenOpt (pi_contactEmail info) (u_contactEmail u),
        u_employmentDate := givenOpt (pi_employmentDate info) (u_employmentDate u),
        u_profilePhotoUrl := givenOpt (pi_profilePhotoUrl info) (u_profilePhotoUrl u),
        u_permissions := givenOpt (um_permissions dto) (u_permissions u),
        u_notificationPrefs := givenOpt (um_notificationPrefs dto) (u_notificationPrefs u)\<rparr>)"

definition changeManager :: "uuid \<Rightarrow> uuid \<Rightarrow> (user \<Rightarrow> user) \<Rightarrow> user handler" where
  "changeManager tenantId i f =
     bindM (requireManager tenantId i) (\<lambda>u.
     bindM (modifyM (\<lambda>s. s\<lparr>users := upd_row u_id i f (users s)\<rparr>)) (\<lambda>_. returnM (f u)))"

definition updateManager :: "uuid \<Rightarrow> uuid \<Rightarrow> update_manager_dto \<Rightarrow> user handler" where
  "updateManager tenantId i dto = changeManager tenantId i (editedManager dto)"

definition setManagerStatus :: "uuid \<Rightarrow> uuid \<Rightarrow> user_status \<Rightarrow> user handler" where
  "setManagerStatus tenantId i st = changeManager tenantId i (\<lambda>u. u\<lparr>u_status := st\<rparr>)"

definition activateManager :: "uuid \<Rightarrow> uuid \<Rightarrow> user handler" where
  "activateManager tenantId i = setManagerStatus tenantId i USER_ACTIVE"

definition deactivateManager :: "uuid \<Rightarrow> uuid \<Rightarrow> user handler" where
  "deactivateManager tenantId i = setManagerStatus tenantId i USER_DEACTIVATED"

definition suspendManager :: "uuid \<Rightarrow> uuid \<Rightarrow> user handler" where
  "suspendManager tenantId i = setManagerStatus tenantId i USER_SUSPENDED"

definition resetPassword :: "crypto \<Rightarrow> draws \<Rightarrow> uuid \<Rightarrow> uuid \<Rightarrow> credentials handler" where
  "resetPassword c draw tenantId i =
     (let tempPassword = generateTempPassword draw
      in bindM (changeManager tenantId i (\<lambda>u. u\<lparr>u_password := bcrypt_hash c tempPassword\<rparr>)) (\<lambda>u.
           returnM \<lparr>cr_email = u_email u, cr_temporaryPassword = tempPassword\<rparr>))"

section \<open>Reads\<close>

text \<open>A limit is capped at a hundred and has no floor; page and limit are otherwise as parsed.\<close>

definition cappedPage :: "string option \<Rightarrow> string option \<Rightarrow> (int \<times> int \<times> int) handler" where
  "cappedPage page limit =
     bindM (requireM (TypeError ''NaN'') (param page ''1'')) (\<lambda>p.
     bindM (requireM (TypeError ''NaN'') (param limit ''20'')) (\<lambda>l.
     let n = min l 100; skip = (p - 1) * n in
     bindM (failIfM (skip < 0) (TypeError ''skip'')) (\<lambda>_. returnM (p, n, skip))))"

definition rawPage :: "'r list \<Rightarrow> int \<times> int \<times> int \<Rightarrow> 'r raw_page" where
  "rawPage rows = (\<lambda>(p, n, skip). \<lparr>rw_data = raw_slice skip n rows, rw_total = length rows, rw_page = p, rw_limit = n,
     rw_totalPages = (if n = 0 then None else Some \<lceil>of_nat (length rows) / (of_int n :: rat)\<rceil>)\<rparr>)"

record manager_query =
  mq_status :: "user_status option"
  mq_search :: "string option"
  mq_page :: "string option"
  mq_limit :: "string option"

definition foundIn :: "string \<Rightarrow> user \<Rightarrow> bool" where
  "foundIn t u \<longleftrightarrow> contains_insensitive t (u_firstName u) \<or> contains_insensitive t (u_lastName u) \<or>
     contains_insensitive t (u_email u) \<or>
     (case u_managerCode u of None \<Rightarrow> False | Some code \<Rightarrow> contains_insensitive t code)"

definition managerMatches :: "uuid \<Rightarrow> manager_query \<Rightarrow> user \<Rightarrow> bool" where
  "managerMatches tenantId q u \<longleftrightarrow> u_tenantId u = tenantId \<and> isManager u \<and>
     (case truthy_opt (mq_search q) of None \<Rightarrow> True | Some t \<Rightarrow> foundIn t u)"

record manager_page =
  mp_total :: nat
  mp_active :: nat
  mp_inactive :: nat
  mp_page :: "(user \<times> manager_assignment list) raw_page"

text \<open>The counters of a status replace the status asked for.\<close>

definition getManagers :: "uuid \<Rightarrow> manager_query \<Rightarrow> manager_page handler" where
  "getManagers tenantId q =
     bindM (cappedPage (mq_page q) (mq_limit q)) (\<lambda>pn.
     getsM (\<lambda>s. let found = filter (managerMatches tenantId q) (users s);
         shown = (case mq_status q of None \<Rightarrow> found | Some st \<Rightarrow> filter (\<lambda>u. u_status u = st) found)
       in \<lparr>mp_total = length shown, mp_active = length (filter (\<lambda>u. u_status u = USER_ACTIVE) found),
         mp_inactive = length (filter (\<lambda>u. u_status u \<in> {USER_INACTIVE, USER_DEACTIVATED, USER_SUSPENDED}) found),
         mp_page = rawPage (map (\<lambda>u. (u, filter (\<lambda>a. ma_managerId a = u_id u \<and> ma_unassignedAt a = None)
           (assignments s))) (rev shown)) pn\<rparr>))"

definition clientsAt :: "uuid \<Rightarrow> uuid list \<Rightarrow> (receipt \<Rightarrow> bool) \<Rightarrow> store \<Rightarrow> user list" where
  "clientsAt tenantId sites ok s = filter (\<lambda>u. u_tenantId u = tenantId \<and>
     list_ex (\<lambda>r. r_clientId r = u_id u \<and> r_warehouseId r \<in> set sites \<and> ok r) (receipts s)) (users s)"

record manager_detail =
  md_manager :: user
  md_assignments :: "manager_assignment list"
  md_totalClients :: nat
  md_activeClients :: nat
  md_assignedWarehouses :: nat

definition getManagerById :: "uuid \<Rightarrow> uuid \<Rightarrow> manager_detail handler" where
  "getManagerById tenantId i =
     bindM (requireManager tenantId i) (\<lambda>u.
     getsM (\<lambda>s. let held = filter (\<lambda>a. ma_managerId a = i \<and> ma_unassignedAt a = None) (assignments s);
         sites = map ma_warehouseId held
       in \<lparr>md_manager = u, md_assignments = held,
         md_totalClients = (if sites = [] then 0 else length (clientsAt tenantId sites (\<lambda>r. True) s)),
         md_activeClients = (if sites = [] then 0
           else length (clientsAt tenantId sites (\<lambda>r. r_status r \<in> set (statusesForGroup G_ACTIVE)) s)),
         md_assignedWarehouses = length sites\<rparr>))"

definition getManagerWarehouses :: "uuid \<Rightarrow> uuid \<Rightarrow> (manager_assignment \<times> warehouse option \<times> nat) list handler" where
  "getManagerWarehouses tenantId i =
     bindM (requireTenantUser tenantId i) (\<lambda>_.
     getsM (\<lambda>s. map (\<lambda>a. (a, find_row wh_id (ma_warehouseId a) (warehouses s),
         length (filter (\<lambda>r. r_warehouseId r = ma_warehouseId a) (receipts s)))) (openAssignments tenantId i s)))"

record client_line =
  cn_user :: user
  cn_name :: string
  cn_clientCode :: "string option"
  cn_receiptCount :: nat
  cn_totalQuantityMt :: dec

definition clientLine :: "uuid \<Rightarrow> uuid list \<Rightarrow> store \<Rightarrow> user \<Rightarrow> client_line" where
  "clientLine tenantId sites s u =
     (let rs = filter (\<lambda>r. r_clientId r = u_id u \<and> r_warehouseId r \<in> set sites \<and> r_tenantId r = tenantId) (receipts s)
      in \<lparr>cn_user = u, cn_name = u_firstName u @ '' '' @ u_lastName u,
        cn_clientCode = map_option cf_clientCode (find_row cf_userId (u_id u) (clientProfiles s)),
        cn_receiptCount = length rs, cn_totalQuantityMt = sum_list (map r_quantity rs)\<rparr>)"

text \<open>With no site the page and limit are answered as parsed, NaN included.\<close>

datatype clients_answer = No_Sites "int option" "int option" | Clients "client_line raw_page"

definition getManagerClients ::
    "uuid \<Rightarrow> uuid \<Rightarrow> user_status option \<Rightarrow> string option \<Rightarrow> string option \<Rightarrow> clients_answer handler" where
  "getManagerClients tenantId i status page limit =
     bindM (requireTenantUser tenantId i) (\<lambda>_.
     bindM (getsM (openSites tenantId i)) (\<lambda>sites.
       if sites = [] then returnM (No_Sites (param page ''1'') (map_option (\<lambda>l. min l 100) (param limit ''20'')))
       else
         bindM (cappedPage page limit) (\<lambda>pn.
         getsM (\<lambda>s. Clients (rawPage (map (clientLine tenantId sites s)
           (filter (\<lambda>u. case status of None \<Rightarrow> True | Some st \<Rightarrow> u_status u = st)
             (clientsAt tenantId sites (\<lambda>r. True) s))) pn)))))"

section \<open>The life of an assignment\<close>

definition same_assignment :: "manager_assignment \<Rightarrow> manager_assignment \<Rightarrow> bool" where
  "same_assignment a a' \<longleftrightarrow> ma_id a' = ma_id a \<and> ma_tenantId a' = ma_tenantId a \<and> assignmentKey a' = assignmentKey a \<and>
     ma_assignedBy a' = ma_assignedBy a \<and> (ma_unassignedAt a \<noteq> None \<longrightarrow> ma_unassignedAt a' \<noteq> None)"

interpretation assignment_life: lifecycle ma_id same_assignment
  by unfold_locales (auto simp: same_assignment_def)

definition assignments_ok :: "manager_assignment list \<Rightarrow> bool" where
  "assignments_ok rows \<longleftrightarrow> distinct (map ma_id rows) \<and> distinct (map assignmentKey rows)"

definition staffing :: "store \<Rightarrow> store \<Rightarrow> bool" where
  "staffing s s' \<longleftrightarrow> (assignments_ok (assignments s) \<longrightarrow> assignments_ok (assignments s')) \<and>
     grows same_assignment (assignments s) (assignments s')"

interpretation staff: evolution staffing
proof
  show "staffing s s" for s by (simp add: staffing_def assignment_life.grows_refl)
  show "staffing s s' \<Longrightarrow> staffing s' s'' \<Longrightarrow> staffing s s''" for s s' s''
    by (auto simp: staffing_def intro: assignment_life.grows_trans)
qed

lemma staffing_same: "assignments s' = assignments s \<Longrightarrow> staffing s s'"
  by (simp add: staffing_def assignment_life.grows_refl)

lemma insertAssignments_run:
  "insertAssignments new s = Inr (x, s') \<longleftrightarrow> assignments_ok (assignments s @ new) \<and> s' = s\<lparr>assignments := assignments s @ new\<rparr>"
  by (auto simp: insertAssignments_def Let_def assignments_ok_def)

lemma insertAssignments_staffing: "insertAssignments new s = Inr (x, s') \<Longrightarrow> staffing s s'"
  by (simp add: insertAssignments_run staffing_def assignment_life.grows_append)

lemma manager_reads:
  "reads (requireManager t i)" "reads (requireTenantUser t i)" "reads (requireRole r)" "reads (deriveLoginEmail f l)"
  unfolding requireManager_def requireTenantUser_def requireRole_def
  by (rule deriveLoginEmail_reads | intro reads_rules)+

lemmas staff_confined = staff.confined_rules manager_reads [THEN staff.confined_reads]

lemma assign_staffing: "confined staffing (assignWarehouses ids t m sites by_user)"
  unfolding assignWarehouses_def Let_def
  by (intro staff_confined staff.confined_transact) (erule insertAssignments_staffing)

lemma unassign_staffing: "confined staffing (unassignWarehouse now t m w)"
  unfolding unassignWarehouse_def
proof (intro staff_confined staff.confined_modify)
  fix s :: store and i
  let ?f = "\<lambda>a. a\<lparr>ma_unassignedAt := Some now\<rparr>" and ?rows = "assignments s"
  have "grows same_assignment ?rows (upd_row ma_id i ?f ?rows)"
    unfolding upd_row_def by (rule assignment_life.grows_map) (simp add: same_assignment_def assignmentKey_def)
  moreover have "map ma_id (upd_row ma_id i ?f ?rows) = map ma_id ?rows" by (rule map_upd_row) simp
  moreover have "map assignmentKey (upd_row ma_id i ?f ?rows) = map assignmentKey ?rows"
    by (rule map_upd_row) (simp add: assignmentKey_def)
  ultimately show "staffing s (s\<lparr>assignments := upd_row ma_id i ?f ?rows\<rparr>)"
    by (simp add: staffing_def assignments_ok_def)
qed

lemma createManager_staffing: "confined staffing (createManager c year draw ids t dto)"
  unfolding createManager_def Let_def
  by (intro staff_confined staff.confined_transact)
    (auto simp: andThen_Inr_iff insertUser_run staffing_def assignment_life.grows_refl split: if_splits
      dest!: insertAssignments_staffing)

section \<open>What an assignment call does\<close>

lemma newAssignments_sites [simp]: "map ma_warehouseId (newAssignments ids t m b sites) = sites"
  unfolding newAssignments_def by (simp add: comp_def split_def)

lemma newAssignments_open:
  "filter (\<lambda>a. ma_managerId a = m \<and> ma_tenantId a = t \<and> ma_unassignedAt a = None) (newAssignments ids t m b sites) =
    newAssignments ids t m b sites"
  by (rule filter_True) (auto simp: newAssignments_def)

lemma newAssignments_Nil [simp]: "newAssignments ids t m b [] = []"
  by (simp add: newAssignments_def)

lemma assignWarehouses_run:
  "assignWarehouses ids t m sites b s = (Inr r, s') \<longleftrightarrow>
     (let new = filter (\<lambda>w. w \<notin> set (openSites t m s)) sites;
          rows = assignments s @ newAssignments ids t m b new
      in findTenantUser t m s \<noteq> None \<and> sitesKnown t sites s \<and> (new \<noteq> [] \<longrightarrow> assignments_ok rows) \<and>
        s' = s\<lparr>assignments := rows\<rparr> \<and>
        r = \<lparr>as_assigned = length new, as_alreadyAssigned = length sites - length new\<rparr>)"
  unfolding assignWarehouses_def requireTenantUser_def Let_def
  by (auto simp: bindM_Inr_iff whenM_def transactM_run insertAssignments_run)

lemma openSites_append:
  "openSites t m (s\<lparr>assignments := assignments s @ newAssignments ids t m b new\<rparr>) = openSites t m s @ new"
  by (simp add: openSites_def openAssignments_def newAssignments_open)

lemma assignWarehouses_again:
  assumes "assignWarehouses ids t m sites b s = (Inr r, s')"
  shows "assignWarehouses ids' t m sites b' s' = (Inr \<lparr>as_assigned = 0, as_alreadyAssigned = length sites\<rparr>, s')"
    and "set (openSites t m s') = set (openSites t m s) \<union> set sites"
proof -
  let ?new = "filter (\<lambda>w. w \<notin> set (openSites t m s)) sites"
  from assms have s': "s' = s\<lparr>assignments := assignments s @ newAssignments ids t m b ?new\<rparr>"
    and ok: "findTenantUser t m s \<noteq> None" "sitesKnown t sites s" by (auto simp: assignWarehouses_run Let_def)
  then have o': "openSites t m s' = openSites t m s @ ?new" by (simp only: openSites_append)
  then show "set (openSites t m s') = set (openSites t m s) \<union> set sites" by auto
  from o' have none: "filter (\<lambda>w. w \<notin> set (openSites t m s')) sites = []" by (auto simp: filter_empty_conv)
  have "findTenantUser t m s' = findTenantUser t m s" "sitesKnown t sites s' = sitesKnown t sites s"
    by (simp_all add: s' findTenantUser_def sitesKnown_def)
  with ok none show "assignWarehouses ids' t m sites b' s' = (Inr \<lparr>as_assigned = 0, as_alreadyAssigned = length sites\<rparr>, s')"
    by (simp add: assignWarehouses_run Let_def)
qed

text \<open>An assignment once closed keeps its unique key: the warehouse cannot be assigned to the manager again.\<close>

lemma closed_assignment_blocks:
  assumes "a \<in> set (assignments s)" and "ma_managerId a = m" and "ma_warehouseId a \<in> set sites"
    and "ma_warehouseId a \<notin> set (openSites t m s)"
  shows "assignWarehouses ids t m sites b s \<noteq> (Inr r, s')"
proof
  let ?new = "filter (\<lambda>w. w \<notin> set (openSites t m s)) sites"
  assume "assignWarehouses ids t m sites b s = (Inr r, s')"
  then have "?new \<noteq> [] \<longrightarrow> assignments_ok (assignments s @ newAssignments ids t m b ?new)"
    by (simp add: assignWarehouses_run Let_def)
  moreover have w: "ma_warehouseId a \<in> set ?new" using assms by simp
  ultimately have d: "assignmentKey ` set (assignments s) \<inter> assignmentKey ` set (newAssignments ids t m b ?new) = {}"
    by (auto simp: assignments_ok_def)
  have "ma_warehouseId a \<in> ma_warehouseId ` set (newAssignments ids t m b ?new)"
    using w newAssignments_sites [of ids t m b ?new] by (metis list.set_map)
  then obtain a' where "a' \<in> set (newAssignments ids t m b ?new)" "ma_warehouseId a' = ma_warehouseId a" by auto
  moreover from this(1) have "ma_managerId a' = m" by (auto simp: newAssignments_def)
  ultimately show False using d assms(1,2) by (auto simp: assignmentKey_def)
qed

section \<open>Managers as accounts\<close>

lemmas manager_confined = account_confined manager_reads [THEN account_lives.confined_reads]

lemma insertAssignments_accounting: "insertAssignments new s = Inr (x, s') \<Longrightarrow> accounting s s'"
  by (auto simp: insertAssignments_run intro: accounting_same)

lemma createManager_accounting: "confined accounting (createManager c year draw ids t dto)"
  unfolding createManager_def Let_def
  by (intro manager_confined account_lives.confined_transact)
    (auto simp: andThen_Inr_iff split: if_splits
      dest!: insertUser_accounting insertAssignments_accounting intro: account_lives.continues)

lemma changeManager_accounting:
  "(\<And>u. same_account u (f u)) \<Longrightarrow> confined accounting (changeManager t i f)"
  unfolding changeManager_def by (intro manager_confined account_lives.confined_modify accounting_update)

lemma updateManager_accounting: "confined accounting (updateManager t i dto)"
  unfolding updateManager_def
  by (rule changeManager_accounting) (simp add: same_account_def editedManager_def Let_def)

lemma setManagerStatus_accounting: "confined accounting (setManagerStatus t i st)"
  unfolding setManagerStatus_def by (rule changeManager_accounting) (simp add: same_account_def)

lemma resetPassword_accounting: "confined accounting (resetPassword c draw t i)"
  unfolding resetPassword_def Let_def
  by (intro manager_confined changeManager_accounting) (simp add: same_account_def)

end
