(* ===== verification/Financier_Orgs.thy ===== *)
theory Financier_Orgs
  imports Accounts Deposits
begin

text \<open>
  Financier organisations, \<open>src/financier-orgs/financier-orgs.service.ts\<close>: created with a
  first user, edited, suspended, reactivated, offboarded for good, and joined by further
  users. A change of status reads the organisation first and updates it by id.
\<close>

section \<open>Invitations\<close>

record first_user_dto =
  fu_firstName :: string
  fu_lastName :: string
  fu_email :: string

definition fireInvite :: "uuid \<Rightarrow> user \<Rightarrow> string \<Rightarrow> unit handler" where
  "fireInvite tenantId u tempPassword =
     bindM (credentialsMail (case u_contactEmail u of None \<Rightarrow> [] | Some e \<Rightarrow> e) tempPassword) (\<lambda>_.
       notifyUser tenantId N_CLIENT_CREDENTIALS_ISSUED ''financier_org'' (u_id u) (u_id u))"

text \<open>Users of a financier hang on the oldest tenant; their own tenant means nothing.\<close>

definition platformTenant :: "string \<Rightarrow> uuid handler" where
  "platformTenant refusal =
     bindM (getsM (\<lambda>s. case tenants s of [] \<Rightarrow> None | t # _ \<Rightarrow> Some (tn_id t))) (requireM (BadRequest refusal))"

definition financierUser ::
    "crypto \<Rightarrow> uuid \<Rightarrow> uuid \<Rightarrow> uuid \<Rightarrow> string \<Rightarrow> string \<Rightarrow> first_user_dto \<Rightarrow> user" where
  "financierUser c i tenantId orgId loginEmail tempPassword dto = user_defaults\<lparr>
     u_id := i, u_tenantId := tenantId, u_email := loginEmail, u_password := bcrypt_hash c tempPassword,
     u_firstName := fu_firstName dto, u_lastName := fu_lastName dto, u_contactEmail := Some (fu_email dto),
     u_status := USER_ACTIVE, u_financierOrgId := Some orgId, u_roles := [''FINANCIER'']\<rparr>"

section \<open>Projection\<close>

record org_item =
  oi_org :: financier_org
  oi_licenseNumber :: string
  oi_lienCount :: nat
  oi_warehouseCount :: nat

definition projectAdminItem :: "store \<Rightarrow> financier_org \<Rightarrow> org_item" where
  "projectAdminItem s org =
     \<lparr>oi_org = org, oi_licenseNumber = (case fo_licenseNumber org of None \<Rightarrow> [] | Some t \<Rightarrow> t),
      oi_lienCount = length (filter (\<lambda>l. ln_financierOrgId l = fo_id org \<and> ln_status l = LN_ACTIVE) (liens s)),
      oi_warehouseCount = length (filter (\<lambda>l. wl_financierOrgId l = fo_id org \<and> wl_status l = LINK_ACTIVE) (links s))\<rparr>"

definition currentItem :: "uuid \<Rightarrow> org_item handler" where
  "currentItem i =
     bindM (getsM (\<lambda>s. map_option (projectAdminItem s) (find_row fo_id i (orgs s))))
       (requireM (TypeError ''null''))"

definition requireOrg :: "uuid \<Rightarrow> financier_org handler" where
  "requireOrg i = bindM (getsM (\<lambda>s. find_row fo_id i (orgs s))) (requireM (NotFound ''Financier not found''))"

section \<open>Creation and edits\<close>

record create_org_dto =
  cg_name :: string
  cg_licenseNumber :: "string option"
  cg_licenseDocUrl :: "string option"
  cg_logoUrl :: "string option"
  cg_contactEmail :: "string option"
  cg_phoneNumber :: "string option"
  cg_address :: "string option"
  cg_tin :: "string option"
  cg_regulator :: "string option"
  cg_website :: "string option"
  cg_firstUser :: first_user_dto

definition insertOrg :: "financier_org \<Rightarrow> store \<Rightarrow> err + financier_org \<times> store" where
  "insertOrg org s =
     (if fo_id org \<in> fo_id ` set (orgs s) then Inl (Db (P2002 ''id''))
      else if fo_name org \<in> fo_name ` set (orgs s) then Inl (Db (P2002 ''name''))
      else Inr (org, s\<lparr>orgs := orgs s @ [org]\<rparr>))"

definition orgOf :: "time \<Rightarrow> uuid \<Rightarrow> create_org_dto \<Rightarrow> financier_org" where
  "orgOf now i dto = financier_org_defaults\<lparr>
     fo_id := i, fo_name := cg_name dto, fo_licenseNumber := cg_licenseNumber dto, fo_licenseDocUrl := cg_licenseDocUrl dto,
     fo_logoUrl := cg_logoUrl dto, fo_contactEmail := cg_contactEmail dto, fo_phoneNumber := cg_phoneNumber dto,
     fo_address := cg_address dto, fo_tin := cg_tin dto, fo_regulator := cg_regulator dto, fo_website := cg_website dto,
     fo_status := ORG_ACTIVE, fo_createdAt := now\<rparr>"

definition logOrg :: "string \<Rightarrow> uuid option \<Rightarrow> uuid \<Rightarrow> unit handler" where
  "logOrg action userId i = logActivity \<lparr>al_tenantId = None, al_userId = userId, al_action = action,
     al_entityType = ''FINANCIER_ORG'', al_entityId = i, al_changes = []\<rparr>"

definition createFinancierOrg ::
    "crypto \<Rightarrow> time \<Rightarrow> draws \<Rightarrow> (nat \<Rightarrow> uuid) \<Rightarrow> create_org_dto \<Rightarrow> (org_item \<times> credentials) handler" where
  "createFinancierOrg c now draw ids dto =
     bindM (getsM (\<lambda>s. find_row fo_name (cg_name dto) (orgs s))) (\<lambda>existing.
     bindM (failIfM (existing \<noteq> None) (Conflict ''FINANCIER_ORG_NAME_TAKEN'')) (\<lambda>_.
     bindM (requireRole ''FINANCIER'') (\<lambda>_.
     bindM (deriveLoginEmail (fu_firstName (cg_firstUser dto)) (fu_lastName (cg_firstUser dto))) (\<lambda>loginEmail.
     let tempPassword = generateTempPassword draw in
     bindM (platformTenant ''No tenant exists to anchor the financier user. Run the main seed first.'') (\<lambda>tenantId.
     bindM (transactM (\<lambda>s. andThen (insertOrg (orgOf now (ids 0) dto) s) (\<lambda>(org, s1).
         andThen (insertUser (financierUser c (ids 1) tenantId (fo_id org) loginEmail tempPassword (cg_firstUser dto)) s1)
           (\<lambda>(u, s2). Inr ((org, u), s2))))) (\<lambda>(org, u).
     bindM (fireInvite tenantId u tempPassword) (\<lambda>_.
     bindM (logOrg ''financier.created'' (Some (u_id u)) (fo_id org)) (\<lambda>_.
     bindM (currentItem (fo_id org)) (\<lambda>item.
       returnM (item, \<lparr>cr_email = loginEmail, cr_temporaryPassword = tempPassword\<rparr>))))))))))"

record update_org_dto =
  ug_name :: "string option"
  ug_licenseNumber :: "string option"
  ug_licenseDocUrl :: "string option"
  ug_logoUrl :: "string option"
  ug_contactEmail :: "string option"
  ug_phoneNumber :: "string option"
  ug_address :: "string option"
  ug_tin :: "string option"
  ug_regulator :: "string option"
  ug_website :: "string option"

definition editedOrg :: "update_org_dto \<Rightarrow> financier_org \<Rightarrow> financier_org" where
  "editedOrg dto org = org\<lparr>fo_name := given (ug_name dto) (fo_name org),
     fo_licenseNumber := givenOpt (ug_licenseNumber dto) (fo_licenseNumber org),
     fo_licenseDocUrl := givenOpt (ug_licenseDocUrl dto) (fo_licenseDocUrl org),
     fo_logoUrl := givenOpt (ug_logoUrl dto) (fo_logoUrl org),
     fo_contactEmail := givenOpt (ug_contactEmail dto) (fo_contactEmail org),
     fo_phoneNumber := givenOpt (ug_phoneNumber dto) (fo_phoneNumber org),
     fo_address := givenOpt (ug_address dto) (fo_address org), fo_tin := givenOpt (ug_tin dto) (fo_tin org),
     fo_regulator := givenOpt (ug_regulator dto) (fo_regulator org),
     fo_website := givenOpt (ug_website dto) (fo_website org)\<rparr>"

definition updateFinancierOrg :: "uuid \<Rightarrow> update_org_dto \<Rightarrow> org_item handler" where
  "updateFinancierOrg i dto =
     bindM (requireOrg i) (\<lambda>org.
     bindM (getsM (\<lambda>s. case movesTo (ug_name dto) (fo_name org) of None \<Rightarrow> False
         | Some n \<Rightarrow> list_ex (\<lambda>x. fo_name x = n \<and> fo_id x \<noteq> i) (orgs s))) (\<lambda>clash.
     bindM (failIfM clash (Conflict ''FINANCIER_ORG_NAME_TAKEN'')) (\<lambda>_.
     bindM (transactM (\<lambda>s.
         if (case ug_name dto of None \<Rightarrow> False | Some n \<Rightarrow> list_ex (\<lambda>x. fo_name x = n \<and> fo_id x \<noteq> i) (orgs s))
         then Inl (Db (P2002 ''name''))
         else Inr ((), s\<lparr>orgs := upd_row fo_id i (editedOrg dto) (orgs s)\<rparr>))) (\<lambda>_.
       currentItem i))))"

section \<open>Reads\<close>

record org_query =
  og_search :: "string option"
  og_status :: "org_status option"
  og_page :: "string option"
  og_limit :: "string option"

definition orgMatches :: "org_query \<Rightarrow> financier_org \<Rightarrow> bool" where
  "orgMatches q org \<longleftrightarrow>
     (case og_status q of None \<Rightarrow> True | Some st \<Rightarrow> fo_status org = st) \<and>
     (case truthy_opt (og_search q) of None \<Rightarrow> True
      | Some t \<Rightarrow> contains_insensitive t (fo_name org) \<or>
          (case fo_licenseNumber org of None \<Rightarrow> False | Some n \<Rightarrow> contains_insensitive t n))"

definition listFinancierOrgs :: "org_query \<Rightarrow> org_item page handler" where
  "listFinancierOrgs q =
     paginate (og_page q) (og_limit q) (\<lambda>s. map (projectAdminItem s) (rev (filter (orgMatches q) (orgs s))))"

definition getFinancierOrg :: "uuid \<Rightarrow> org_item handler" where
  "getFinancierOrg i = bindM (requireOrg i) (\<lambda>org. getsM (\<lambda>s. projectAdminItem s org))"

definition listFinancierOrgUsers :: "uuid \<Rightarrow> user list handler" where
  "listFinancierOrgUsers i =
     bindM (requireOrg i) (\<lambda>_. getsM (\<lambda>s. filter (\<lambda>u. u_financierOrgId u = Some i) (users s)))"

section \<open>Suspension, reactivation, offboarding\<close>

definition setOrgStatus :: "uuid \<Rightarrow> org_status \<Rightarrow> unit handler" where
  "setOrgStatus i st = modifyM (\<lambda>s. s\<lparr>orgs := upd_row fo_id i (\<lambda>org. org\<lparr>fo_status := st\<rparr>) (orgs s)\<rparr>)"

definition suspendFinancierOrg :: "uuid \<Rightarrow> org_item handler" where
  "suspendFinancierOrg i =
     bindM (requireOrg i) (\<lambda>org.
     bindM (failIfM (fo_status org = ORG_OFFBOARDED) (BadRequest ''Cannot suspend an offboarded financier'')) (\<lambda>_.
       if fo_status org = ORG_SUSPENDED then currentItem i
       else bindM (setOrgStatus i ORG_SUSPENDED) (\<lambda>_.
         bindM (logOrg ''financier.suspended'' None i) (\<lambda>_. currentItem i))))"

definition reactivateFinancierOrg :: "uuid \<Rightarrow> org_item handler" where
  "reactivateFinancierOrg i =
     bindM (requireOrg i) (\<lambda>org.
     bindM (failIfM (fo_status org = ORG_OFFBOARDED) (BadRequest ''Cannot reactivate an offboarded financier'')) (\<lambda>_.
       if fo_status org = ORG_ACTIVE then currentItem i
       else bindM (setOrgStatus i ORG_ACTIVE) (\<lambda>_.
         bindM (logOrg ''financier.reactivated'' None i) (\<lambda>_. currentItem i))))"

definition openLiensOf :: "uuid \<Rightarrow> store \<Rightarrow> lien list" where
  "openLiensOf orgId s = filter (\<lambda>l. ln_financierOrgId l = orgId \<and> lienOpen l) (liens s)"

definition notifyOffboarded :: "uuid \<Rightarrow> unit handler" where
  "notifyOffboarded i =
     bindM (getsM (\<lambda>s. filter (\<lambda>u. u_financierOrgId u = Some i) (users s))) (\<lambda>us.
       forM us (\<lambda>u. whenM (u_tenantId u \<noteq> []) (notifyUser (u_tenantId u) N_WAREHOUSE_LINK_REJECTED ''financierOrg'' i (u_id u))))"

definition offboardFinancierOrg :: "uuid \<Rightarrow> org_item handler" where
  "offboardFinancierOrg i =
     bindM (requireOrg i) (\<lambda>org.
       if fo_status org = ORG_OFFBOARDED then currentItem i
       else
         bindM (getsM (openLiensOf i)) (\<lambda>open_liens.
         bindM (failIfM (open_liens \<noteq> []) (Conflict ''ACTIVE_LIENS_EXIST'')) (\<lambda>_.
         bindM (setOrgStatus i ORG_OFFBOARDED) (\<lambda>_.
         bindM (logOrg ''financier.offboarded'' None i) (\<lambda>_.
         bindM (notifyOffboarded i) (\<lambda>_.
           currentItem i))))))"

section \<open>Further users\<close>

definition inviteFinancierUser ::
    "crypto \<Rightarrow> draws \<Rightarrow> uuid \<Rightarrow> uuid \<Rightarrow> first_user_dto \<Rightarrow> (user \<times> credentials) handler" where
  "inviteFinancierUser c draw i financierOrgId dto =
     bindM (requireOrg financierOrgId) (\<lambda>org.
     bindM (failIfM (fo_status org = ORG_OFFBOARDED) (BadRequest ''Cannot invite users to an offboarded financier org.'')) (\<lambda>_.
     bindM (failIfM (fo_status org = ORG_SUSPENDED) (BadRequest ''Cannot invite users to a suspended financier org.'')) (\<lambda>_.
     bindM (requireRole ''FINANCIER'') (\<lambda>_.
     bindM (deriveLoginEmail (fu_firstName dto) (fu_lastName dto)) (\<lambda>loginEmail.
     let tempPassword = generateTempPassword draw in
     bindM (platformTenant ''No tenant exists to anchor the financier user.'') (\<lambda>tenantId.
     bindM (transactM (insertUser (financierUser c i tenantId financierOrgId loginEmail tempPassword dto))) (\<lambda>u.
     bindM (fireInvite tenantId u tempPassword) (\<lambda>_.
       returnM (u, \<lparr>cr_email = loginEmail, cr_temporaryPassword = tempPassword\<rparr>)))))))))"

section \<open>The life of an organisation\<close>

inductive org_step :: "org_status \<Rightarrow> org_status \<Rightarrow> bool" where
  suspend: "org_step ORG_ACTIVE ORG_SUSPENDED"
| reactivate: "org_step ORG_SUSPENDED ORG_ACTIVE"
| offboard: "st \<noteq> ORG_OFFBOARDED \<Longrightarrow> org_step st ORG_OFFBOARDED"

inductive_simps org_step_offboarded [simp]: "org_step ORG_OFFBOARDED st"

lemma offboarded_org_is_final: "org_step\<^sup>*\<^sup>* ORG_OFFBOARDED st \<longleftrightarrow> st = ORG_OFFBOARDED"
  by (auto elim: converse_rtranclpE)

definition same_org :: "financier_org \<Rightarrow> financier_org \<Rightarrow> bool" where
  "same_org org org' \<longleftrightarrow> fo_id org' = fo_id org \<and> fo_createdAt org' = fo_createdAt org \<and>
     org_step\<^sup>*\<^sup>* (fo_status org) (fo_status org')"

interpretation org_life: lifecycle fo_id same_org
  by unfold_locales (auto simp: same_org_def)

text \<open>Organisations are unique by id and by name.\<close>

definition orgs_ok :: "financier_org list \<Rightarrow> bool" where
  "orgs_ok rows \<longleftrightarrow> distinct (map fo_id rows) \<and> distinct (map fo_name rows)"

definition organising :: "store \<Rightarrow> store \<Rightarrow> bool" where
  "organising s s' \<longleftrightarrow> (orgs_ok (orgs s) \<longrightarrow> orgs_ok (orgs s') \<and> grows same_org (orgs s) (orgs s'))"

interpretation org_lives: evolution organising
proof
  show "organising s s" for s by (simp add: organising_def org_life.grows_refl)
  show "organising s s' \<Longrightarrow> organising s' s'' \<Longrightarrow> organising s s''" for s s' s''
    by (auto simp: organising_def intro: org_life.grows_trans)
qed

lemma organising_same: "orgs s' = orgs s \<Longrightarrow> organising s s'"
  by (simp add: organising_def org_life.grows_refl)

lemma org_reads:
  "reads (requireOrg i)" "reads (currentItem i)" "reads (platformTenant why)" "reads (requireRole r)"
  unfolding requireOrg_def currentItem_def platformTenant_def requireRole_def by (intro reads_rules)+

lemma requireOrg_run: "requireOrg i s = (Inr org, s') \<longleftrightarrow> s' = s \<and> find_row fo_id i (orgs s) = Some org"
  by (auto simp: requireOrg_def bindM_Inr_iff)

lemma org_quiet:
  "confined organising (notifyUser t ty et i u)" "confined organising (logOrg act who i)"
  "confined organising (credentialsMail to pw)"
  unfolding logOrg_def logActivity_def credentialsMail_def notifyUser_def
  by (intro org_lives.confined_modify organising_same; simp)+

lemma fireInvite_organising: "confined organising (fireInvite t u pw)"
  unfolding fireInvite_def by (intro org_lives.confined_rules org_quiet)

lemma notifyOffboarded_organising: "confined organising (notifyOffboarded i)"
  unfolding notifyOffboarded_def by (intro org_lives.confined_rules org_quiet)

lemma status_organising:
  assumes org: "find_row fo_id i (orgs s) = Some org" and st: "org_step (fo_status org) st"
  shows "organising s (s\<lparr>orgs := upd_row fo_id i (\<lambda>org. org\<lparr>fo_status := st\<rparr>) (orgs s)\<rparr>)"
  unfolding organising_def
proof
  assume ok: "orgs_ok (orgs s)"
  then have d: "distinct (map fo_id (orgs s))" by (simp add: orgs_ok_def)
  have "same_org org (org\<lparr>fo_status := st\<rparr>)" using st by (simp add: same_org_def r_into_rtranclp)
  note g = org_life.grows_upd_row [where f = "\<lambda>org. org\<lparr>fo_status := st\<rparr>", OF d org this]
  have "map fo_name (upd_row fo_id i (\<lambda>org. org\<lparr>fo_status := st\<rparr>) (orgs s)) = map fo_name (orgs s)"
    by (rule map_upd_row) simp
  with g ok show "orgs_ok (orgs (s\<lparr>orgs := upd_row fo_id i (\<lambda>org. org\<lparr>fo_status := st\<rparr>) (orgs s)\<rparr>)) \<and>
      grows same_org (orgs s) (orgs (s\<lparr>orgs := upd_row fo_id i (\<lambda>org. org\<lparr>fo_status := st\<rparr>) (orgs s)\<rparr>))"
    by (simp add: orgs_ok_def)
qed

text \<open>A status set after the organisation was read, and what follows it.\<close>

lemma set_then_organising:
  assumes "find_row fo_id i (orgs s) = Some org" and "org_step (fo_status org) st"
    and "\<And>u. confined organising (f u)" and "bindM (setOrgStatus i st) f s = (r, s')"
  shows "organising s s'"
  using status_organising [OF assms(1,2)] assms(3,4)
  by (auto simp: bindM_def setOrgStatus_def modifyM_def intro: org_lives.continues dest: confinedD)

lemma after_requireOrg:
  assumes "\<And>s org r s'. find_row fo_id i (orgs s) = Some org \<Longrightarrow> F org s = (r, s') \<Longrightarrow> organising s s'"
  shows "confined organising (bindM (requireOrg i) F)"
  by (rule org_lives.confined_after_read [OF org_reads(1)]) (blast intro: assms dest: requireOrg_run [THEN iffD1])

text \<open>
  A status handler reads the organisation, may refuse, may find nothing to do, and otherwise
  moves it one step of its life.
\<close>

lemma move_organising:
  assumes step: "\<And>org. \<not> refused org \<Longrightarrow> \<not> already org \<Longrightarrow> org_step (fo_status org) st"
    and f: "\<And>u. confined organising (f u)"
  shows "confined organising (bindM (requireOrg i) (\<lambda>org. bindM (failIfM (refused org) why) (\<lambda>_.
    if already org then currentItem i else bindM (setOrgStatus i st) f)))"
proof (rule after_requireOrg)
  fix s and org :: financier_org and r s'
  assume org: "find_row fo_id i (orgs s) = Some org" and run: "bindM (failIfM (refused org) why) (\<lambda>_.
    if already org then currentItem i else bindM (setOrgStatus i st) f) s = (r, s')"
  consider "refused org" | "\<not> refused org" "already org" | "\<not> refused org" "\<not> already org" by blast
  then show "organising s s'"
  proof cases
    case 1
    with run show ?thesis by (auto simp: bindM_def failIfM_def org_lives.stays)
  next
    case 2
    with run have "currentItem i s = (r, s')" by (simp add: bindM_def failIfM_def)
    from readsD [OF org_reads(2) this] show ?thesis by (simp add: org_lives.stays)
  next
    case 3
    with run have "bindM (setOrgStatus i st) f s = (r, s')" by (simp add: bindM_def failIfM_def)
    with 3 step f show ?thesis by (blast intro: set_then_organising [OF org])
  qed
qed

lemma suspend_organising: "confined organising (suspendFinancierOrg i)"
  unfolding suspendFinancierOrg_def
proof (rule move_organising)
  show "org_step (fo_status org) ORG_SUSPENDED" if "\<not> fo_status org = ORG_OFFBOARDED" "\<not> fo_status org = ORG_SUSPENDED" for org :: financier_org
    using that by (cases "fo_status org") (auto intro: org_step.intros)
qed (intro org_lives.confined_rules org_quiet org_lives.confined_reads org_reads)

lemma reactivate_organising: "confined organising (reactivateFinancierOrg i)"
  unfolding reactivateFinancierOrg_def
proof (rule move_organising)
  show "org_step (fo_status org) ORG_ACTIVE" if "\<not> fo_status org = ORG_OFFBOARDED" "\<not> fo_status org = ORG_ACTIVE" for org :: financier_org
    using that by (cases "fo_status org") (auto intro: org_step.intros)
qed (intro org_lives.confined_rules org_quiet org_lives.confined_reads org_reads)

lemma offboard_organising: "confined organising (offboardFinancierOrg i)"
  unfolding offboardFinancierOrg_def
proof (rule after_requireOrg)
  fix s and org :: financier_org and r s'
  let ?set = "bindM (setOrgStatus i ORG_OFFBOARDED) (\<lambda>_. bindM (logOrg ''financier.offboarded'' None i) (\<lambda>_.
    bindM (notifyOffboarded i) (\<lambda>_. currentItem i)))"
  assume org: "find_row fo_id i (orgs s) = Some org"
    and run: "(if fo_status org = ORG_OFFBOARDED then currentItem i
       else bindM (getsM (openLiensOf i)) (\<lambda>open_liens.
         bindM (failIfM (open_liens \<noteq> []) (Conflict ''ACTIVE_LIENS_EXIST'')) (\<lambda>_. ?set))) s = (r, s')"
  consider "fo_status org = ORG_OFFBOARDED" | "fo_status org \<noteq> ORG_OFFBOARDED" "openLiensOf i s \<noteq> []"
    | "fo_status org \<noteq> ORG_OFFBOARDED" "openLiensOf i s = []" by blast
  then show "organising s s'"
  proof cases
    case 1
    with run have "currentItem i s = (r, s')" by simp
    from readsD [OF org_reads(2) this] show ?thesis by (simp add: org_lives.stays)
  next
    case 2
    with run have "s' = s" by (simp add: bindM_def failIfM_def getsM_def)
    then show ?thesis by (simp add: org_lives.stays)
  next
    case 3
    with run have "?set s = (r, s')" by (simp add: bindM_def [of "getsM _"] bindM_def [of "failIfM _ _"] failIfM_def getsM_def)
    from set_then_organising [OF org org_step.offboard [OF 3(1)] _ this] show ?thesis
      by (blast intro: org_lives.confined_rules org_quiet notifyOffboarded_organising org_lives.confined_reads org_reads)
  qed
qed

text \<open>Creation and invitation write one organisation and one user; an edit keeps names apart.\<close>

lemma insertOrg_organising: "insertOrg org s = Inr (org', s') \<Longrightarrow> organising s s'"
  by (auto simp: insertOrg_def organising_def orgs_ok_def org_life.grows_append split: if_splits)

lemma insertUser_organising: "insertUser u s = Inr (u', s') \<Longrightarrow> organising s s'"
  by (auto simp: insertUser_def split: if_splits intro!: organising_same)

lemmas org_confined = org_lives.confined_rules confined_prod org_lives.confined_reads [OF deriveLoginEmail_reads]
  org_reads [THEN org_lives.confined_reads] org_quiet fireInvite_organising

lemma createOrg_organising: "confined organising (createFinancierOrg c now draw ids dto)"
  unfolding createFinancierOrg_def Let_def
  by (intro org_confined org_lives.confined_transact)
    (auto simp: andThen_def split: sum.splits dest!: insertOrg_organising insertUser_organising intro: org_lives.continues)

lemma invite_organising: "confined organising (inviteFinancierUser c draw i org dto)"
  unfolding inviteFinancierUser_def Let_def
  by (intro org_confined org_lives.confined_transact) (blast dest: insertUser_organising)

lemma edit_organising:
  assumes org: "find_row fo_id i (orgs s) = Some org"
    and free: "case n of None \<Rightarrow> True | Some n \<Rightarrow> \<forall>x \<in> set (orgs s). fo_name x = n \<longrightarrow> fo_id x = i"
    and f: "f = editedOrg dto" "n = ug_name dto"
  shows "organising s (s\<lparr>orgs := upd_row fo_id i f (orgs s)\<rparr>)"
  unfolding organising_def
proof
  assume ok: "orgs_ok (orgs s)"
  then have d: "distinct (map fo_id (orgs s))" "distinct (map fo_name (orgs s))" by (simp_all add: orgs_ok_def)
  have "same_org org (f org)" using f by (simp add: same_org_def editedOrg_def)
  note g = org_life.grows_upd_row [where f = f, OF d(1) org this]
  have "distinct (map fo_name (upd_row fo_id i f (orgs s)))"
  proof (cases n)
    case None
    then have "map fo_name (upd_row fo_id i f (orgs s)) = map fo_name (orgs s)"
      using f by (intro map_upd_row) (simp add: editedOrg_def given_def)
    with d(2) show ?thesis by simp
  next
    case (Some m)
    have "inj_on (\<lambda>x. if fo_id x = i then m else fo_name x) (set (orgs s))"
      using d free Some by (auto simp: inj_on_def distinct_map)
    moreover have "map fo_name (upd_row fo_id i f (orgs s)) = map (\<lambda>x. if fo_id x = i then m else fo_name x) (orgs s)"
      using f Some by (auto simp: upd_row_def editedOrg_def given_def split: option.splits)
    ultimately show ?thesis using d(1) by (simp add: distinct_map)
  qed
  with g d show "orgs_ok (orgs (s\<lparr>orgs := upd_row fo_id i f (orgs s)\<rparr>)) \<and>
      grows same_org (orgs s) (orgs (s\<lparr>orgs := upd_row fo_id i f (orgs s)\<rparr>))"
    by (simp add: orgs_ok_def)
qed

lemma update_organising: "confined organising (updateFinancierOrg i dto)"
  unfolding updateFinancierOrg_def
proof (rule after_requireOrg)
  fix s :: store and org :: financier_org and r s'
  let ?taken = "case movesTo (ug_name dto) (fo_name org) of None \<Rightarrow> False
    | Some n \<Rightarrow> list_ex (\<lambda>x. fo_name x = n \<and> fo_id x \<noteq> i) (orgs s)"
  let ?clash = "case ug_name dto of None \<Rightarrow> False | Some n \<Rightarrow> list_ex (\<lambda>x. fo_name x = n \<and> fo_id x \<noteq> i) (orgs s)"
  let ?s = "s\<lparr>orgs := upd_row fo_id i (editedOrg dto) (orgs s)\<rparr>"
  assume org: "find_row fo_id i (orgs s) = Some org"
    and run: "bindM (getsM (\<lambda>s. case movesTo (ug_name dto) (fo_name org) of None \<Rightarrow> False
         | Some n \<Rightarrow> list_ex (\<lambda>x. fo_name x = n \<and> fo_id x \<noteq> i) (orgs s))) (\<lambda>clash.
     bindM (failIfM clash (Conflict ''FINANCIER_ORG_NAME_TAKEN'')) (\<lambda>_.
     bindM (transactM (\<lambda>s.
         if (case ug_name dto of None \<Rightarrow> False | Some n \<Rightarrow> list_ex (\<lambda>x. fo_name x = n \<and> fo_id x \<noteq> i) (orgs s))
         then Inl (Db (P2002 ''name''))
         else Inr ((), s\<lparr>orgs := upd_row fo_id i (editedOrg dto) (orgs s)\<rparr>))) (\<lambda>_.
       currentItem i))) s = (r, s')"
  consider "?taken" | "?clash" "\<not> ?taken" | "\<not> ?clash" "\<not> ?taken" by blast
  then show "organising s s'"
  proof cases
    case 3
    with run have "currentItem i ?s = (r, s')"
      by (simp add: bindM_def failIfM_def getsM_def transactM_def del: option.case_eq_if)
    from readsD [OF org_reads(2) this] have "s' = ?s" .
    moreover have "case ug_name dto of None \<Rightarrow> True | Some n \<Rightarrow> \<forall>x \<in> set (orgs s). fo_name x = n \<longrightarrow> fo_id x = i"
      using 3(1) by (auto simp: list_ex_iff split: option.splits)
    ultimately show ?thesis using edit_organising [OF org _ refl refl] by simp
  qed (use run in \<open>auto simp: bindM_def failIfM_def getsM_def transactM_def org_lives.stays\<close>)
qed

section \<open>Financier users as accounts\<close>

lemma accounting_orgs: "accounting s (s\<lparr>orgs := rows\<rparr>)"
  by (rule accounting_same) simp

lemmas org_account_confined = account_confined confined_if org_reads [THEN account_lives.confined_reads]
  account_lives.confined_reads [OF deriveLoginEmail_reads]

lemma setOrgStatus_accounting: "confined accounting (setOrgStatus i st)"
  unfolding setOrgStatus_def by (intro account_lives.confined_modify accounting_orgs)

lemma createOrg_accounting: "confined accounting (createFinancierOrg c now draw ids dto)"
  unfolding createFinancierOrg_def fireInvite_def logOrg_def Let_def
  by (intro org_account_confined account_lives.confined_transact)
    (auto simp: andThen_Inr_iff insertOrg_def split: if_splits
      dest!: insertUser_accounting intro: account_lives.continues [OF accounting_orgs])

lemma invite_accounting: "confined accounting (inviteFinancierUser c draw i org dto)"
  unfolding inviteFinancierUser_def fireInvite_def Let_def
  by (intro org_account_confined account_lives.confined_transact) (erule insertUser_accounting)

lemma updateOrg_accounting: "confined accounting (updateFinancierOrg i dto)"
  unfolding updateFinancierOrg_def
  by (intro org_account_confined account_lives.confined_transact) (auto split: if_splits intro: accounting_orgs)

lemma status_accounting:
  "confined accounting (suspendFinancierOrg i)" "confined accounting (reactivateFinancierOrg i)"
  "confined accounting (offboardFinancierOrg i)"
  unfolding suspendFinancierOrg_def reactivateFinancierOrg_def offboardFinancierOrg_def logOrg_def notifyOffboarded_def
  by (intro org_account_confined setOrgStatus_accounting)+

end
