(* ===== verification/Warehouse_Links.thy ===== *)
theory Warehouse_Links
  imports Lifecycle Liens Operations_Base
begin

text \<open>
  The links between financiers and warehouses, \<open>src/warehouse-links/warehouse-links.service.ts\<close>:
  a financier asks to be onboarded at a warehouse, an administrator of the tenant approves or
  rejects, the financier offboards. Approval, rejection and offboarding read the link first
  and update it by id afterwards; the checks and the commits are separate definitions.

  \<open>Decimal.toFixed(2)\<close> rounds a tie away from zero; the values are kept as numbers.
\<close>

section \<open>Callers and projections\<close>

definition callerOrg :: "uuid \<Rightarrow> (financier_org \<times> uuid) handler" where
  "callerOrg userId =
     bindM (getsM (\<lambda>s. case findUser userId s of
         None \<Rightarrow> None
       | Some u \<Rightarrow> (case u_financierOrgId u of None \<Rightarrow> None
         | Some oid \<Rightarrow> map_option (\<lambda>org. (org, u_tenantId u)) (find_row fo_id oid (orgs s))))) (\<lambda>x.
     bindM (requireM (Forbidden ''This account is not associated with a FinancierOrg'') x) (\<lambda>(org, tenantId).
     bindM (failIfM (fo_status org = ORG_SUSPENDED) (Forbidden ''FINANCIER_ORG_SUSPENDED'')) (\<lambda>_.
       returnM (org, tenantId))))"

record rollups =
  ru_clientCount :: nat
  ru_totalStockValue :: dec
  ru_lienedValue :: dec
  ru_currency :: string

record link_view =
  lv_link :: warehouse_link
  lv_warehouse :: "warehouse option"
  lv_financier :: "financier_org option"
  lv_rollups :: "rollups option"

definition projectFinancierWarehouseLink :: "store \<Rightarrow> rollups option \<Rightarrow> warehouse_link \<Rightarrow> link_view" where
  "projectFinancierWarehouseLink s r l =
     \<lparr>lv_link = l, lv_warehouse = find_row wh_id (wl_warehouseId l) (warehouses s), lv_financier = None, lv_rollups = r\<rparr>"

definition projectAdminWarehouseLink :: "store \<Rightarrow> warehouse_link \<Rightarrow> link_view" where
  "projectAdminWarehouseLink s l =
     \<lparr>lv_link = l, lv_warehouse = find_row wh_id (wl_warehouseId l) (warehouses s),
      lv_financier = find_row fo_id (wl_financierOrgId l) (orgs s), lv_rollups = None\<rparr>"

definition engaged :: "uuid \<Rightarrow> uuid \<Rightarrow> warehouse_link \<Rightarrow> bool" where
  "engaged tenantId orgId l \<longleftrightarrow> wl_tenantId l = tenantId \<and> wl_financierOrgId l = orgId \<and>
     (wl_status l = LINK_PENDING \<or> wl_status l = LINK_ACTIVE)"

section \<open>The financier's warehouses\<close>

definition listAvailableWarehouses :: "uuid \<Rightarrow> warehouse list handler" where
  "listAvailableWarehouses callerUserId =
     bindM (callerOrg callerUserId) (\<lambda>(org, tenantId).
       getsM (\<lambda>s. let engagedIds = map wl_warehouseId (filter (engaged tenantId (fo_id org)) (links s))
         in sort_key wh_name (filter (\<lambda>w. wh_tenantId w = tenantId \<and> wh_status w = WH_ACTIVE \<and>
              wh_id w \<notin> set engagedIds) (warehouses s))))"

definition inWarehouse :: "receipt_status list" where
  "inWarehouse = [ACTIVE, HELD_WITHDRAWAL, HELD_LOAN, HELD_TRADE, HELD_PLEDGE_PENDING, HELD_LIEN]"

text \<open>The currency is that of the last commodity with a price, the naira when none has one.\<close>

definition computeWarehouseRollups :: "time \<Rightarrow> uuid \<Rightarrow> uuid \<Rightarrow> uuid \<Rightarrow> store \<Rightarrow> rollups" where
  "computeWarehouseRollups now tenantId warehouseId orgId s =
     (let stock = filter (\<lambda>r. r_warehouseId r = warehouseId \<and> r_tenantId r = tenantId \<and>
            r_status r \<in> set inWarehouse) (receipts s);
          commodityOfLien = (\<lambda>l. case find_row r_id (ln_receiptId l) (receipts s) of
            None \<Rightarrow> None
          | Some r \<Rightarrow> if r_warehouseId r = warehouseId \<and> r_tenantId r = tenantId then Some (r_commodityId r) else None);
          theirs = concat (map (\<lambda>l. case commodityOfLien l of None \<Rightarrow> [] | Some k \<Rightarrow> [(l, k)])
            (filter (\<lambda>l. ln_financierOrgId l = orgId \<and> lienOpen l) (liens s)));
          stockKeys = firsts (map r_commodityId stock);
          price = (\<lambda>k. currentPrice now tenantId k s);
          valued = (\<lambda>k q. case price k of None \<Rightarrow> 0 | Some p \<Rightarrow> cp_pricePerUnit p * q)
      in \<lparr>ru_clientCount = length (firsts (map r_clientId stock)),
          ru_totalStockValue = to_scale 2 (\<Sum>k\<leftarrow>stockKeys. valued k (volume (filter (\<lambda>r. r_commodityId r = k) stock))),
          ru_lienedValue = to_scale 2 (\<Sum>(l, k)\<leftarrow>theirs. valued k (ln_remainingQuantity l)),
          ru_currency = foldl (\<lambda>cur k. case price k of None \<Rightarrow> cur | Some p \<Rightarrow> cp_currency p) ''NGN''
            (firsts (stockKeys @ map snd theirs))\<rparr>)"

definition listFinancierWarehouses ::
    "time \<Rightarrow> uuid \<Rightarrow> link_status option \<Rightarrow> string option \<Rightarrow> string option \<Rightarrow> link_view page handler" where
  "listFinancierWarehouses now callerUserId status page limit =
     bindM (callerOrg callerUserId) (\<lambda>(org, tenantId).
     bindM (paginate page limit (\<lambda>s. rev (filter (\<lambda>l. wl_tenantId l = tenantId \<and> wl_financierOrgId l = fo_id org \<and>
         (case status of None \<Rightarrow> True | Some st \<Rightarrow> wl_status l = st)) (links s)))) (\<lambda>pg.
       getsM (\<lambda>s. \<lparr>pg_items = map (\<lambda>l. projectFinancierWarehouseLink s
             (Some (computeWarehouseRollups now tenantId (wl_warehouseId l) (fo_id org) s)) l) (pg_items pg),
           pg_total = pg_total pg, pg_page = pg_page pg, pg_limit = pg_limit pg, pg_totalPages = pg_totalPages pg\<rparr>)))"

section \<open>Onboarding and offboarding\<close>

text \<open>What the check of a request hands to its commit: the organisation and its tenant.\<close>

definition onboardWarehouse_check :: "uuid \<Rightarrow> uuid \<Rightarrow> (financier_org \<times> uuid) handler" where
  "onboardWarehouse_check callerUserId warehouseId =
     bindM (callerOrg callerUserId) (\<lambda>(org, tenantId).
     bindM (getsM (\<lambda>s. find (\<lambda>w. wh_id w = warehouseId \<and> wh_tenantId w = tenantId \<and> wh_status w = WH_ACTIVE)
         (warehouses s))) (\<lambda>w.
     bindM (requireM (NotFound ''Warehouse not found (or not active) in this tenant'') w) (\<lambda>_.
     bindM (getsM (\<lambda>s. find (\<lambda>l. engaged tenantId (fo_id org) l \<and> wl_warehouseId l = warehouseId) (links s))) (\<lambda>clash.
     bindM (case clash of None \<Rightarrow> returnM ()
         | Some l \<Rightarrow> throwM (Conflict (if wl_status l = LINK_PENDING then ''WAREHOUSE_LINK_ALREADY_PENDING''
             else ''WAREHOUSE_LINK_ALREADY_ACTIVE''))) (\<lambda>_.
       returnM (org, tenantId))))))"

definition newLink :: "time \<Rightarrow> uuid \<Rightarrow> uuid \<Rightarrow> uuid \<Rightarrow> uuid \<Rightarrow> string \<Rightarrow> uuid \<Rightarrow> warehouse_link" where
  "newLink now i tenantId orgId warehouseId agreementDocUrl createdById =
     \<lparr>wl_id = i, wl_tenantId = tenantId, wl_financierOrgId = orgId, wl_warehouseId = warehouseId,
      wl_status = LINK_PENDING, wl_agreementDocUrl = Some agreementDocUrl, wl_signedAt = None,
      wl_createdById = createdById, wl_decidedById = None, wl_decidedAt = None, wl_decisionReason = None,
      wl_createdAt = now\<rparr>"

definition createLink :: "warehouse_link \<Rightarrow> warehouse_link handler" where
  "createLink l = transactM (\<lambda>s. if wl_id l \<in> wl_id ` set (links s) then Inl (Db (P2002 ''id''))
     else Inr (l, s\<lparr>links := links s @ [l]\<rparr>))"

definition onboardWarehouse_commit ::
    "time \<Rightarrow> uuid \<Rightarrow> uuid \<Rightarrow> uuid \<Rightarrow> string \<Rightarrow> financier_org \<times> uuid \<Rightarrow> link_view handler" where
  "onboardWarehouse_commit now i callerUserId warehouseId agreementDocUrl x =
     (case x of (org, tenantId) \<Rightarrow>
       bindM (createLink (newLink now i tenantId (fo_id org) warehouseId agreementDocUrl callerUserId)) (\<lambda>l.
       bindM (notifyTenantAdmins tenantId N_WAREHOUSE_LINK_REQUESTED ''warehouse_link'' (wl_id l)) (\<lambda>_.
         getsM (\<lambda>s. projectFinancierWarehouseLink s None l))))"

definition onboardWarehouse :: "time \<Rightarrow> uuid \<Rightarrow> uuid \<Rightarrow> uuid \<Rightarrow> string \<Rightarrow> link_view handler" where
  "onboardWarehouse now i callerUserId warehouseId agreementDocUrl =
     bindM (onboardWarehouse_check callerUserId warehouseId)
       (onboardWarehouse_commit now i callerUserId warehouseId agreementDocUrl)"

definition updateLink :: "uuid \<Rightarrow> (warehouse_link \<Rightarrow> warehouse_link) \<Rightarrow> warehouse_link handler" where
  "updateLink i f = transactM (\<lambda>s. case find_row wl_id i (links s) of
       None \<Rightarrow> Inl (Db Row_Missing)
     | Some l \<Rightarrow> Inr (f l, s\<lparr>links := upd_row wl_id i f (links s)\<rparr>))"

definition liensAtLink :: "uuid \<Rightarrow> uuid \<Rightarrow> uuid \<Rightarrow> store \<Rightarrow> lien list" where
  "liensAtLink tenantId orgId warehouseId s =
     filter (\<lambda>l. ln_tenantId l = tenantId \<and> ln_financierOrgId l = orgId \<and> lienOpen l \<and>
       (case find_row r_id (ln_receiptId l) (receipts s) of None \<Rightarrow> False | Some r \<Rightarrow> r_warehouseId r = warehouseId)) (liens s)"

definition offboardWarehouse_check :: "uuid \<Rightarrow> uuid \<Rightarrow> warehouse_link handler" where
  "offboardWarehouse_check callerUserId linkId =
     bindM (callerOrg callerUserId) (\<lambda>(org, tenantId).
     bindM (getsM (\<lambda>s. find (\<lambda>l. wl_id l = linkId \<and> wl_financierOrgId l = fo_id org \<and> wl_tenantId l = tenantId)
         (links s))) (\<lambda>l.
     bindM (requireM (NotFound ''Warehouse link not found'') l) (\<lambda>l.
     bindM (failIfM (wl_status l \<noteq> LINK_ACTIVE) (BadRequest ''Cannot offboard a link'')) (\<lambda>_.
     bindM (getsM (liensAtLink tenantId (fo_id org) (wl_warehouseId l))) (\<lambda>open_liens.
     bindM (failIfM (open_liens \<noteq> []) (Conflict ''ACTIVE_LIENS_EXIST'')) (\<lambda>_.
       returnM l))))))"

definition offboardWarehouse :: "time \<Rightarrow> uuid \<Rightarrow> uuid \<Rightarrow> link_view handler" where
  "offboardWarehouse now callerUserId linkId =
     bindM (offboardWarehouse_check callerUserId linkId) (\<lambda>_.
     bindM (updateLink linkId (\<lambda>l. l\<lparr>wl_status := LINK_OFFBOARDED, wl_decidedById := Some callerUserId,
         wl_decidedAt := Some now\<rparr>)) (\<lambda>l.
       getsM (\<lambda>s. projectFinancierWarehouseLink s None l)))"

section \<open>The administrator's decisions\<close>

definition listAdminWarehouseLinks ::
    "uuid \<Rightarrow> link_status option \<Rightarrow> string option \<Rightarrow> string option \<Rightarrow> link_view page handler" where
  "listAdminWarehouseLinks tenantId status page limit =
     paginate page limit (\<lambda>s. map (projectAdminWarehouseLink s) (rev (filter (\<lambda>l. wl_tenantId l = tenantId \<and>
       (case status of None \<Rightarrow> True | Some st \<Rightarrow> wl_status l = st)) (links s))))"

definition pendingLink :: "uuid \<Rightarrow> uuid \<Rightarrow> string \<Rightarrow> warehouse_link handler" where
  "pendingLink tenantId linkId refusal =
     bindM (getsM (\<lambda>s. find (\<lambda>l. wl_id l = linkId \<and> wl_tenantId l = tenantId) (links s))) (\<lambda>l.
     bindM (requireM (NotFound ''Onboarding request not found'') l) (\<lambda>l.
     bindM (failIfM (wl_status l \<noteq> LINK_PENDING) (BadRequest refusal)) (\<lambda>_.
       returnM l)))"

text \<open>The log entry and the notice to the active users of the financier.\<close>

definition announceDecision :: "uuid \<Rightarrow> uuid \<Rightarrow> string \<Rightarrow> notification_type \<Rightarrow> warehouse_link \<Rightarrow> unit handler" where
  "announceDecision tenantId adminUserId action ty l =
     bindM (logActivity \<lparr>al_tenantId = Some tenantId, al_userId = Some adminUserId, al_action = action,
       al_entityType = ''WAREHOUSE_LINK'', al_entityId = wl_id l, al_changes = []\<rparr>) (\<lambda>_.
       notifyFinancierUsers (wl_financierOrgId l) tenantId ty ''warehouse_link'' (wl_id l))"

definition approveWarehouseLink :: "time \<Rightarrow> uuid \<Rightarrow> uuid \<Rightarrow> uuid \<Rightarrow> link_view handler" where
  "approveWarehouseLink now tenantId adminUserId linkId =
     bindM (pendingLink tenantId linkId ''Cannot approve a link'') (\<lambda>l.
     bindM (updateLink linkId (\<lambda>l. l\<lparr>wl_status := LINK_ACTIVE, wl_signedAt := Some now,
         wl_decidedById := Some adminUserId, wl_decidedAt := Some now\<rparr>)) (\<lambda>updated.
     bindM (announceDecision tenantId adminUserId ''warehouse_link.approved'' N_WAREHOUSE_LINK_APPROVED l) (\<lambda>_.
       getsM (\<lambda>s. projectAdminWarehouseLink s updated))))"

definition rejectWarehouseLink :: "time \<Rightarrow> uuid \<Rightarrow> uuid \<Rightarrow> uuid \<Rightarrow> string \<Rightarrow> link_view handler" where
  "rejectWarehouseLink now tenantId adminUserId linkId reason =
     bindM (pendingLink tenantId linkId ''Cannot reject a link'') (\<lambda>l.
     bindM (updateLink linkId (\<lambda>l. l\<lparr>wl_status := LINK_OFFBOARDED, wl_decidedById := Some adminUserId,
         wl_decidedAt := Some now, wl_decisionReason := Some reason\<rparr>)) (\<lambda>updated.
     bindM (announceDecision tenantId adminUserId ''warehouse_link.rejected'' N_WAREHOUSE_LINK_REJECTED l) (\<lambda>_.
       getsM (\<lambda>s. projectAdminWarehouseLink s updated))))"

section \<open>The life of a link\<close>

text \<open>A pending link becomes active or ends; an active one ends; an ended one stays ended.\<close>

inductive link_step :: "link_status \<Rightarrow> link_status \<Rightarrow> bool" where
  approve: "link_step LINK_PENDING LINK_ACTIVE"
| reject: "link_step LINK_PENDING LINK_OFFBOARDED"
| offboard: "link_step LINK_ACTIVE LINK_OFFBOARDED"

inductive_simps link_step_simps [simp]: "link_step LINK_OFFBOARDED st" "link_step LINK_ACTIVE st" "link_step LINK_PENDING st"

lemma offboarded_is_final: "link_step\<^sup>*\<^sup>* LINK_OFFBOARDED st \<longleftrightarrow> st = LINK_OFFBOARDED"
  by (auto elim: converse_rtranclpE)

definition same_link :: "warehouse_link \<Rightarrow> warehouse_link \<Rightarrow> bool" where
  "same_link l l' \<longleftrightarrow> wl_id l' = wl_id l \<and> wl_tenantId l' = wl_tenantId l \<and> wl_financierOrgId l' = wl_financierOrgId l \<and>
     wl_warehouseId l' = wl_warehouseId l \<and> wl_agreementDocUrl l' = wl_agreementDocUrl l \<and>
     link_step\<^sup>*\<^sup>* (wl_status l) (wl_status l')"

text \<open>Links are unique by id, and an organisation has at most one open link to a warehouse.\<close>

definition links_ok :: "warehouse_link list \<Rightarrow> bool" where
  "links_ok ls \<longleftrightarrow> distinct (map wl_id ls) \<and>
     distinct (map (\<lambda>l. (wl_tenantId l, wl_financierOrgId l, wl_warehouseId l)) (filter (\<lambda>l. wl_status l \<noteq> LINK_OFFBOARDED) ls))"

definition linking :: "store \<Rightarrow> store \<Rightarrow> bool" where
  "linking s s' \<longleftrightarrow> (links_ok (links s) \<longrightarrow> links_ok (links s') \<and> grows same_link (links s) (links s'))"

interpretation link_life: lifecycle wl_id same_link
  by unfold_locales (auto simp: same_link_def)

interpretation link_lives: evolution linking
proof
  show "linking s s" for s by (simp add: linking_def link_life.grows_refl)
  show "linking s s' \<Longrightarrow> linking s' s'' \<Longrightarrow> linking s s''" for s s' s''
    by (auto simp: linking_def intro: link_life.grows_trans)
qed

lemma linking_same: "links s' = links s \<Longrightarrow> linking s s'"
  by (simp add: linking_def link_life.grows_refl)

lemma linking_insert:
  assumes "wl_id l \<notin> wl_id ` set (links s)" and "links s' = links s @ [l]"
    and "\<not> list_ex (\<lambda>x. engaged (wl_tenantId l) (wl_financierOrgId l) x \<and> wl_warehouseId x = wl_warehouseId l) (links s)"
  shows "linking s s'"
  unfolding linking_def
proof
  assume ok: "links_ok (links s)"
  have open': "wl_status x \<noteq> LINK_OFFBOARDED \<longleftrightarrow> wl_status x = LINK_PENDING \<or> wl_status x = LINK_ACTIVE" for x
    by (cases "wl_status x") simp_all
  have "links_ok (links s @ [l])"
    using ok assms(1,3) by (auto simp: links_ok_def list_ex_iff engaged_def open')
  then show "links_ok (links s') \<and> grows same_link (links s) (links s')"
    by (simp add: assms(2) link_life.grows_append)
qed

lemma linking_update:
  assumes l: "find_row wl_id i (links s) = Some l" and s': "links s' = upd_row wl_id i f (links s)"
    and f: "same_link l (f l)" and o': "wl_status l \<noteq> LINK_OFFBOARDED"
  shows "linking s s'"
  unfolding linking_def
proof
  assume ok: "links_ok (links s)"
  then have d: "distinct (map wl_id (links s))" by (simp add: links_ok_def)
  note g = link_life.grows_upd_row [where f = f, OF d l f]
  have "distinct (map (\<lambda>l. (wl_tenantId l, wl_financierOrgId l, wl_warehouseId l))
      (filter (\<lambda>l. wl_status l \<noteq> LINK_OFFBOARDED) (upd_row wl_id i f (links s))))"
    unfolding upd_row_def
  proof (rule distinct_filter_map)
    fix x assume x: "x \<in> set (links s)" "wl_status (if wl_id x = i then f x else x) \<noteq> LINK_OFFBOARDED"
    have "x = l" if "wl_id x = i" using find_row_Some_iff [OF d, of i x] l x(1) that by simp
    with link_life.upd_row_moves [where f = f, OF d l f x(1)] x(2) o'
    show "wl_status x \<noteq> LINK_OFFBOARDED \<and>
        (wl_tenantId (if wl_id x = i then f x else x), wl_financierOrgId (if wl_id x = i then f x else x),
         wl_warehouseId (if wl_id x = i then f x else x)) = (wl_tenantId x, wl_financierOrgId x, wl_warehouseId x)"
      by (cases "wl_id x = i") (auto simp: same_link_def)
  qed (use ok in \<open>simp add: links_ok_def\<close>)
  with g d show "links_ok (links s') \<and> grows same_link (links s) (links s')"
    by (simp add: s' links_ok_def)
qed

section \<open>Handlers keep the links\<close>

lemma quiet_linking: "confined linking (notifyTenantAdmins t ty et i)" "confined linking (notifyFinancierUsers org t ty et i)"
  "confined linking (logActivity a)"
  by (auto intro!: confinedI linking_same simp: logActivity_def dest!: notifyTenantAdmins_run notifyFinancierUsers_run)

lemma callerOrg_reads: "reads (callerOrg u)"
  unfolding callerOrg_def reads_def by (intro reading.confined_rules confined_prod)

lemma updateLink_linking:
  assumes "updateLink i f s = (r, s')" and "find_row wl_id i (links s) = Some l" and "same_link l (f l)"
    and "wl_status l \<noteq> LINK_OFFBOARDED"
  shows "linking s s'"
  using assms linking_update [where f = f, OF assms(2) _ assms(3,4), of s']
  by (auto simp: updateLink_def transactM_def split: option.splits intro: link_lives.stays)

text \<open>
  Every handler, whole, keeps the links well formed and moves each along its life. A link
  found by id and tenant is the row its id stands for, ids being unique.
\<close>

lemma find_first:
  assumes "find (\<lambda>l. wl_id l = i \<and> P l) ls = Some l" and "links_ok ls"
  shows "find_row wl_id i ls = Some l"
  using find_SomeD [OF assms(1)] assms(2) by (simp add: find_row_Some_iff links_ok_def)

lemma onboardWarehouse_check_reads: "reads (onboardWarehouse_check u w)"
  unfolding onboardWarehouse_check_def
  by (intro reads_rules confined_prod [where R = "\<lambda>s s'. s' = s", folded reads_def]
      confined_option [where R = "\<lambda>s s'. s' = s", folded reads_def] callerOrg_reads)

lemma onboardWarehouse_check_clear:
  "onboardWarehouse_check u w s = (Inr (org, t), s) \<Longrightarrow>
     \<not> list_ex (\<lambda>l. engaged t (fo_id org) l \<and> wl_warehouseId l = w) (links s)"
  unfolding onboardWarehouse_check_def
  by (auto simp: bindM_Inr_iff find_None_iff list_ex_iff split: option.splits dest!: readsD [OF callerOrg_reads])

lemma createLink_linking:
  assumes "\<not> list_ex (\<lambda>l. engaged t org l \<and> wl_warehouseId l = w) (links s)"
    and "createLink (newLink now i t org w doc u) s = (r, s')"
  shows "linking s s'"
  using assms linking_insert [of "newLink now i t org w doc u" s s']
  by (auto simp: createLink_def transactM_def newLink_def intro: link_lives.stays split: if_splits)

lemma confined_then:
  assumes "\<And>r s'. m s = (r, s') \<Longrightarrow> linking s s'" and "\<And>a. confined linking (f a)" and "bindM m f s = (r, s')"
  shows "linking s s'"
proof -
  obtain x s1 where m: "m s = (x, s1)" by fastforce
  with assms show ?thesis
    by (cases x) (auto simp: bindM_def dest: confinedD intro: link_lives.continues)
qed

lemma onboardWarehouse_linking: "confined linking (onboardWarehouse now i u w doc)"
  unfolding onboardWarehouse_def
proof (rule link_lives.confined_after_read [OF onboardWarehouse_check_reads])
  fix s x r s' assume c: "onboardWarehouse_check u w s = (Inr x, s)" and run: "onboardWarehouse_commit now i u w doc x s = (r, s')"
  obtain org t where x: "x = (org, t)" by fastforce
  with c have clear: "\<not> list_ex (\<lambda>l. engaged t (fo_id org) l \<and> wl_warehouseId l = w) (links s)"
    by (blast dest: onboardWarehouse_check_clear)
  show "linking s s'"
    by (rule confined_then [OF createLink_linking [OF clear] _ run [unfolded x onboardWarehouse_commit_def prod.case]])
      (auto intro: link_lives.confined_rules quiet_linking)
qed

lemma offboardWarehouse_check_run:
  "offboardWarehouse_check u i s = (Inr l, s) \<Longrightarrow> (\<exists>org t. callerOrg u s = (Inr (org, t), s) \<and>
     find (\<lambda>l. wl_id l = i \<and> wl_financierOrgId l = fo_id org \<and> wl_tenantId l = t) (links s) = Some l \<and>
     wl_status l = LINK_ACTIVE \<and> liensAtLink t (fo_id org) (wl_warehouseId l) s = [])"
  unfolding offboardWarehouse_check_def
  by (auto simp: bindM_Inr_iff dest: readsD [OF callerOrg_reads])

lemma offboardWarehouse_check_reads: "reads (offboardWarehouse_check u i)"
  unfolding offboardWarehouse_check_def
  by (intro reads_rules confined_prod [where R = "\<lambda>s s'. s' = s", folded reads_def] callerOrg_reads)

lemma pendingLink_reads: "reads (pendingLink t i why)"
  unfolding pendingLink_def by (intro reads_rules)

lemma pendingLink_run:
  "pendingLink t i why s = (Inr l, s) \<Longrightarrow> find (\<lambda>l. wl_id l = i \<and> wl_tenantId l = t) (links s) = Some l \<and> wl_status l = LINK_PENDING"
  unfolding pendingLink_def by (auto simp: bindM_Inr_iff)

text \<open>A found link whose row is moved one step.\<close>

lemma step_linking:
  assumes l: "find (\<lambda>l. wl_id l = i \<and> P l) (links s) = Some l" and st: "link_step (wl_status l) (wl_status (f l))"
    and f: "\<And>x. wl_id (f x) = wl_id x \<and> wl_tenantId (f x) = wl_tenantId x \<and> wl_financierOrgId (f x) = wl_financierOrgId x \<and>
      wl_warehouseId (f x) = wl_warehouseId x \<and> wl_agreementDocUrl (f x) = wl_agreementDocUrl x"
    and run: "updateLink i f s = (r, s')"
  shows "linking s s'"
proof -
  have "linking s s'" if ok: "links_ok (links s)"
  proof (rule updateLink_linking [OF run find_first [OF l ok]])
    show "same_link l (f l)" using f st by (simp add: same_link_def r_into_rtranclp)
    show "wl_status l \<noteq> LINK_OFFBOARDED" using st by auto
  qed
  then show ?thesis by (auto simp: linking_def)
qed

lemma offboardWarehouse_linking: "confined linking (offboardWarehouse now u i)"
  unfolding offboardWarehouse_def
proof (rule link_lives.confined_after_read [OF offboardWarehouse_check_reads])
  fix s l r s' assume c: "offboardWarehouse_check u i s = (Inr l, s)"
    and run: "bindM (updateLink i (\<lambda>l. l\<lparr>wl_status := LINK_OFFBOARDED, wl_decidedById := Some u, wl_decidedAt := Some now\<rparr>))
      (\<lambda>l. getsM (\<lambda>s. projectFinancierWarehouseLink s None l)) s = (r, s')"
  from offboardWarehouse_check_run [OF c] obtain org :: financier_org and t where
    f: "find (\<lambda>l. wl_id l = i \<and> wl_financierOrgId l = fo_id org \<and> wl_tenantId l = t) (links s) = Some l" and st: "wl_status l = LINK_ACTIVE"
    by (elim exE conjE) (rule that; assumption)
  show "linking s s'"
    by (rule confined_then [OF step_linking [OF f] _ run]) (auto simp: st intro: link_lives.confined_rules)
qed

lemma announceDecision_linking: "confined linking (announceDecision t adm act ty l)"
  unfolding announceDecision_def by (intro link_lives.confined_rules quiet_linking)

lemma approveWarehouseLink_linking: "confined linking (approveWarehouseLink now t adm i)"
  unfolding approveWarehouseLink_def
proof (rule link_lives.confined_after_read [OF pendingLink_reads])
  fix s l r s' assume c: "pendingLink t i ''Cannot approve a link'' s = (Inr l, s)"
    and run: "bindM (updateLink i (\<lambda>l. l\<lparr>wl_status := LINK_ACTIVE, wl_signedAt := Some now,
         wl_decidedById := Some adm, wl_decidedAt := Some now\<rparr>)) (\<lambda>updated.
     bindM (announceDecision t adm ''warehouse_link.approved'' N_WAREHOUSE_LINK_APPROVED l) (\<lambda>_.
       getsM (\<lambda>s. projectAdminWarehouseLink s updated))) s = (r, s')"
  from pendingLink_run [OF c] have f: "find (\<lambda>l. wl_id l = i \<and> wl_tenantId l = t) (links s) = Some l"
    and st: "wl_status l = LINK_PENDING" by auto
  show "linking s s'"
    by (rule confined_then [OF step_linking [OF f] _ run])
      (auto simp: st intro: link_lives.confined_rules announceDecision_linking)
qed

lemma rejectWarehouseLink_linking: "confined linking (rejectWarehouseLink now t adm i why)"
  unfolding rejectWarehouseLink_def
proof (rule link_lives.confined_after_read [OF pendingLink_reads])
  fix s l r s' assume c: "pendingLink t i ''Cannot reject a link'' s = (Inr l, s)"
    and run: "bindM (updateLink i (\<lambda>l. l\<lparr>wl_status := LINK_OFFBOARDED, wl_decidedById := Some adm,
         wl_decidedAt := Some now, wl_decisionReason := Some why\<rparr>)) (\<lambda>updated.
     bindM (announceDecision t adm ''warehouse_link.rejected'' N_WAREHOUSE_LINK_REJECTED l) (\<lambda>_.
       getsM (\<lambda>s. projectAdminWarehouseLink s updated))) s = (r, s')"
  from pendingLink_run [OF c] have f: "find (\<lambda>l. wl_id l = i \<and> wl_tenantId l = t) (links s) = Some l"
    and st: "wl_status l = LINK_PENDING" by auto
  show "linking s s'"
    by (rule confined_then [OF step_linking [OF f] _ run])
      (auto simp: st intro: link_lives.confined_rules announceDecision_linking)
qed

section \<open>A history of link calls\<close>

datatype link_call =
    Onboard time uuid uuid uuid string
  | Offboard time uuid uuid
  | Approve_link time uuid uuid uuid
  | Reject_link time uuid uuid uuid string

fun linked :: "link_call \<Rightarrow> store \<Rightarrow> store" where
  "linked (Onboard now i u w doc) s = snd (onboardWarehouse now i u w doc s)"
| "linked (Offboard now u i) s = snd (offboardWarehouse now u i s)"
| "linked (Approve_link now t adm i) s = snd (approveWarehouseLink now t adm i s)"
| "linked (Reject_link now t adm i why) s = snd (rejectWarehouseLink now t adm i why s)"

lemma linked_linking: "linking s (linked c s)"
  by (cases c) (simp_all add: link_lives.confined_snd onboardWarehouse_linking offboardWarehouse_linking
      approveWarehouseLink_linking rejectWarehouseLink_linking)

lemma all_linked_linking: "linking s (fold linked cs s)"
  by (rule link_lives.along) (rule linked_linking)

end
