(* ===== verification/Registry_Properties.thy ===== *)
theory Registry_Properties
  imports Managers Financier_Orgs Warehouse_Links Worked_Store
begin

text \<open>
  The registries as systems: any sequence of the calls that write the organisations, the
  users and the managers' assignments keeps each table well formed, and no row of it is lost.
\<close>

section \<open>Calls\<close>

datatype org_call =
    Create_org crypto time draws "nat \<Rightarrow> uuid" create_org_dto
  | Update_org uuid update_org_dto
  | Suspend_org uuid
  | Reactivate_org uuid
  | Offboard_org uuid
  | Invite crypto draws uuid uuid first_user_dto

fun org_called :: "org_call \<Rightarrow> store \<Rightarrow> store" where
  "org_called (Create_org c now draw ids dto) s = snd (createFinancierOrg c now draw ids dto s)"
| "org_called (Update_org i dto) s = snd (updateFinancierOrg i dto s)"
| "org_called (Suspend_org i) s = snd (suspendFinancierOrg i s)"
| "org_called (Reactivate_org i) s = snd (reactivateFinancierOrg i s)"
| "org_called (Offboard_org i) s = snd (offboardFinancierOrg i s)"
| "org_called (Invite c draw i org dto) s = snd (inviteFinancierUser c draw i org dto s)"

datatype manager_call =
    Create_manager crypto nat draws "nat \<Rightarrow> uuid" uuid create_manager_dto
  | Update_manager uuid uuid update_manager_dto
  | Activate_manager uuid uuid
  | Deactivate_manager uuid uuid
  | Suspend_manager uuid uuid
  | Assign "nat \<Rightarrow> uuid" uuid uuid "uuid list" uuid
  | Unassign time uuid uuid uuid
  | Reset_password crypto draws uuid uuid

fun manager_called :: "manager_call \<Rightarrow> store \<Rightarrow> store" where
  "manager_called (Create_manager c year draw ids t dto) s = snd (createManager c year draw ids t dto s)"
| "manager_called (Update_manager t i dto) s = snd (updateManager t i dto s)"
| "manager_called (Activate_manager t i) s = snd (activateManager t i s)"
| "manager_called (Deactivate_manager t i) s = snd (deactivateManager t i s)"
| "manager_called (Suspend_manager t i) s = snd (suspendManager t i s)"
| "manager_called (Assign ids t m sites who) s = snd (assignWarehouses ids t m sites who s)"
| "manager_called (Unassign now t m w) s = snd (unassignWarehouse now t m w s)"
| "manager_called (Reset_password c draw t i) s = snd (resetPassword c draw t i s)"

datatype account_call =
    Org_call org_call
  | Manager_call manager_call
  | Disable_user uuid uuid
  | Enable_user uuid uuid

fun account_called :: "account_call \<Rightarrow> store \<Rightarrow> store" where
  "account_called (Org_call c) s = org_called c s"
| "account_called (Manager_call c) s = manager_called c s"
| "account_called (Disable_user who i) s = snd (disableUser who i s)"
| "account_called (Enable_user who i) s = snd (enableUser who i s)"

section \<open>Each call moves each table along\<close>

lemma org_called_organising: "organising s (org_called c s)"
  by (cases c) (simp_all add: org_lives.confined_snd createOrg_organising update_organising suspend_organising
      reactivate_organising offboard_organising invite_organising)

lemma org_called_accounting: "accounting s (org_called c s)"
  by (cases c) (simp_all add: account_lives.confined_snd createOrg_accounting updateOrg_accounting
      status_accounting invite_accounting)

lemma changeManager_staffing: "confined staffing (changeManager t i f)"
  unfolding changeManager_def by (intro staff_confined staff.confined_modify staffing_same) simp

lemma manager_called_staffing: "staffing s (manager_called c s)"
proof (cases c)
  case (Reset_password c' draw t i)
  have "confined staffing (resetPassword c' draw t i)"
    unfolding resetPassword_def Let_def by (intro staff_confined changeManager_staffing)
  with Reset_password show ?thesis by (simp add: staff.confined_snd)
qed (simp_all add: staff.confined_snd createManager_staffing assign_staffing unassign_staffing changeManager_staffing
    updateManager_def activateManager_def deactivateManager_def suspendManager_def setManagerStatus_def)

lemma assignments_accounting:
  "confined accounting (assignWarehouses ids t m sites who)" "confined accounting (unassignWarehouse now t m w)"
  unfolding assignWarehouses_def unassignWarehouse_def Let_def
  by (intro manager_confined account_lives.confined_transact account_lives.confined_modify,
      auto dest: insertAssignments_accounting intro: accounting_same)+

lemma manager_called_accounting: "accounting s (manager_called c s)"
  by (cases c) (simp_all add: account_lives.confined_snd createManager_accounting updateManager_accounting
      setManagerStatus_accounting resetPassword_accounting assignments_accounting
      activateManager_def deactivateManager_def suspendManager_def)

lemma account_called_accounting: "accounting s (account_called c s)"
  by (cases c) (simp_all add: account_lives.confined_snd org_called_accounting manager_called_accounting
      disableUser_accounting enableUser_accounting)

section \<open>Links\<close>

text \<open>
  C27. Links live in order. After any sequence of link requests, approvals, rejections and
  offboardings an organisation still has at most one open link to a warehouse, and every
  earlier link is still there with its parties and agreement, its status moved only forward:
  pending to active or ended, active to ended, never back.
\<close>

theorem links_live:
  assumes "links_ok (links s)" and "l \<in> set (links s)"
  shows "links_ok (links (fold linked cs s)) \<and>
    (\<exists>l' \<in> set (links (fold linked cs s)). wl_id l' = wl_id l \<and> wl_tenantId l' = wl_tenantId l \<and>
      wl_financierOrgId l' = wl_financierOrgId l \<and> wl_warehouseId l' = wl_warehouseId l \<and>
      wl_agreementDocUrl l' = wl_agreementDocUrl l \<and> link_step\<^sup>*\<^sup>* (wl_status l) (wl_status l'))"
  using all_linked_linking [of s cs] assms link_life.grows_keeps unfolding linking_def same_link_def by blast

text \<open>A financier that leaves a warehouse had an active link and no open lien there.\<close>

theorem offboarding_clear:
  assumes "offboardWarehouse now u i s = (Inr v, s')"
  shows "\<exists>org t l. callerOrg u s = (Inr (org, t), s) \<and> l \<in> set (links s) \<and> wl_id l = i \<and> wl_status l = LINK_ACTIVE \<and>
    wl_financierOrgId l = fo_id org \<and> liensAtLink t (fo_id org) (wl_warehouseId l) s = [] \<and>
    links s' = upd_row wl_id i (\<lambda>l. l\<lparr>wl_status := LINK_OFFBOARDED, wl_decidedById := Some u, wl_decidedAt := Some now\<rparr>) (links s)"
proof -
  let ?f = "\<lambda>l. l\<lparr>wl_status := LINK_OFFBOARDED, wl_decidedById := Some u, wl_decidedAt := Some now\<rparr>"
  obtain l s1 l1 s2 where c: "offboardWarehouse_check u i s = (Inr l, s1)" and up: "updateLink i ?f s1 = (Inr l1, s2)" and s2: "s' = s2"
    using assms unfolding offboardWarehouse_def by (auto simp: bindM_Inr_iff)
  have s1: "s1 = s" using readsD [OF offboardWarehouse_check_reads c] .
  from offboardWarehouse_check_run [of u i s l] c s1 obtain org :: financier_org and t where
    "callerOrg u s = (Inr (org, t), s)"
    "find (\<lambda>l. wl_id l = i \<and> wl_financierOrgId l = fo_id org \<and> wl_tenantId l = t) (links s) = Some l"
    "wl_status l = LINK_ACTIVE" "liensAtLink t (fo_id org) (wl_warehouseId l) s = []" by blast
  moreover have "links s' = upd_row wl_id i ?f (links s)"
    using up s1 s2 by (auto simp: updateLink_def split: option.splits)
  ultimately show ?thesis
    by (intro exI [of _ org] exI [of _ t] exI [of _ l]) (auto dest: find_SomeD)
qed

section \<open>Organisations\<close>

text \<open>
  Organisations live in order. After any sequence of creations, edits, suspensions,
  reactivations, offboardings and invitations, ids and names of organisations are still
  unique, every organisation is still there with its id and date, and one that was offboarded
  is still offboarded.
\<close>

theorem orgs_live:
  assumes "orgs_ok (orgs s)" and "org \<in> set (orgs s)"
  shows "orgs_ok (orgs (fold org_called cs s)) \<and>
    (\<exists>org' \<in> set (orgs (fold org_called cs s)). fo_id org' = fo_id org \<and> fo_createdAt org' = fo_createdAt org \<and>
      org_step\<^sup>*\<^sup>* (fo_status org) (fo_status org') \<and> (fo_status org \<noteq> ORG_OFFBOARDED \<or> fo_status org' = ORG_OFFBOARDED))"
proof -
  have "organising s (fold org_called cs s)" by (rule org_lives.along) (rule org_called_organising)
  with assms(1) have ok: "orgs_ok (orgs (fold org_called cs s))" and "grows same_org (orgs s) (orgs (fold org_called cs s))"
    by (simp_all add: organising_def)
  from org_life.grows_keeps [OF this(2) assms(2)] obtain org' :: financier_org
    where "org' \<in> set (orgs (fold org_called cs s))" "same_org org org'" by blast
  with ok show ?thesis by (auto simp: same_org_def offboarded_org_is_final intro!: bexI [of _ org'])
qed

text \<open>An organisation is offboarded only when no lien of it is open.\<close>

theorem org_offboarding_clear:
  assumes "offboardFinancierOrg i s = (Inr item, s')"
  shows "\<exists>org. find_row fo_id i (orgs s) = Some org \<and> (fo_status org = ORG_OFFBOARDED \<or> openLiensOf i s = [])"
  using assms unfolding offboardFinancierOrg_def by (auto simp: bindM_Inr_iff requireOrg_run split: if_splits)

section \<open>Accounts\<close>

text \<open>
  C28. Accounts live on. After any sequence of the calls that open, edit, disable, enable or
  reassign accounts of financiers and managers, ids, login addresses and manager codes are
  still unique, and every user is still there with the address, tenant, roles and organisation
  it was opened with.
\<close>

theorem accounts_live:
  assumes "accounts_ok (users s)" and "u \<in> set (users s)"
  shows "accounts_ok (users (fold account_called cs s)) \<and>
    (\<exists>u' \<in> set (users (fold account_called cs s)). u_id u' = u_id u \<and> u_email u' = u_email u \<and>
      u_tenantId u' = u_tenantId u \<and> u_roles u' = u_roles u \<and> u_managerCode u' = u_managerCode u \<and>
      u_financierOrgId u' = u_financierOrgId u)"
proof -
  have "accounting s (fold account_called cs s)" by (rule account_lives.along) (rule account_called_accounting)
  with assms show ?thesis using account_life.grows_keeps unfolding accounting_def same_account_def by blast
qed

text \<open>
  The login address opened for a name is the first free one of the name alone and the
  name with the numbers 2 to 99; with none free the call is refused, and it never writes.
\<close>

theorem login_address_first_free:
  "deriveLoginEmail firstName lastName s =
     (case find (\<lambda>e. \<not> emailTaken e s)
         (map (loginAddress (loginBase firstName lastName)) ([] # map decimal_digits [2 ..< 100])) of
        None \<Rightarrow> Inl (Conflict ''Cannot generate a unique login email for this name combination'')
      | Some e \<Rightarrow> Inr e, s)"
proof -
  have t: "trySuffixes base i s = find (\<lambda>e. \<not> emailTaken e s) (map (\<lambda>k. loginAddress base (decimal_digits k)) [i ..< 100])" for base i
  proof (induction base i s rule: trySuffixes.induct)
    case (1 base i s)
    show ?case
    proof (cases "99 < i")
      case True
      then show ?thesis by (subst trySuffixes.simps) simp
    next
      case False
      then have "[i ..< 100] = i # [i + 1 ..< 100]" by (simp add: upt_conv_Cons)
      with False 1 show ?thesis by (subst trySuffixes.simps) (simp add: Let_def)
    qed
  qed
  show ?thesis
    by (auto simp: deriveLoginEmail_def bindM_def getsM_def requireM_def throwM_def returnM_def Let_def t comp_def split: option.splits)
qed

text \<open>
  A temporary password, whatever numbers are drawn, has twelve characters, all of the four
  alphabets without look-alikes, and at least one of each.
\<close>

theorem temporary_password_shape:
  assumes "\<And>k n. 0 < n \<Longrightarrow> draw k n < n"
  shows "length (generateTempPassword draw) = 12 \<and>
    list_all (\<lambda>chars. list_ex (\<lambda>c. c \<in> set chars) (generateTempPassword draw)) [pwUpper, pwLower, pwDigits, pwSymbols] \<and>
    set (generateTempPassword draw) \<subseteq> set (pwUpper @ pwLower @ pwDigits @ pwSymbols)"
  by (rule generateTempPassword_ok) (rule assms)

section \<open>Assignments of managers\<close>

text \<open>
  Assigning warehouses to a manager leaves exactly the earlier ones and the requested ones
  assigned, and asking again, with whatever ids are drawn, assigns nothing and changes nothing.
\<close>

theorem assignment_idempotent:
  assumes "assignWarehouses ids t m sites who s = (Inr r, s')"
  shows "set (openSites t m s') = set (openSites t m s) \<union> set sites \<and>
    assignWarehouses ids' t m sites who' s' = (Inr \<lparr>as_assigned = 0, as_alreadyAssigned = length sites\<rparr>, s')"
  using assignWarehouses_again [OF assms] by blast

lemma closed_staffing:
  assumes "a \<in> set (assignments s)" and "ma_unassignedAt a \<noteq> None" and "assignments_ok (assignments s)" and "staffing s s'"
  shows "\<exists>a' \<in> set (assignments s'). ma_managerId a' = ma_managerId a \<and>
      ma_warehouseId a' = ma_warehouseId a \<and> ma_unassignedAt a' \<noteq> None"
    and "b \<in> set (assignments s') \<Longrightarrow> ma_managerId b = ma_managerId a \<Longrightarrow>
      ma_warehouseId b = ma_warehouseId a \<Longrightarrow> ma_unassignedAt b \<noteq> None"
proof -
  from assms(3,4) have ok: "assignments_ok (assignments s')" and g: "grows same_assignment (assignments s) (assignments s')"
    by (simp_all add: staffing_def)
  from assignment_life.grows_keeps [OF g assms(1)] obtain a' where a': "a' \<in> set (assignments s')" "same_assignment a a'" by blast
  with assms(2) have k: "ma_managerId a' = ma_managerId a" "ma_warehouseId a' = ma_warehouseId a" "ma_unassignedAt a' \<noteq> None"
    by (auto simp: same_assignment_def assignmentKey_def)
  with a'(1) show "\<exists>a' \<in> set (assignments s'). ma_managerId a' = ma_managerId a \<and> ma_warehouseId a' = ma_warehouseId a \<and>
      ma_unassignedAt a' \<noteq> None" by blast
  assume "b \<in> set (assignments s')" "ma_managerId b = ma_managerId a" "ma_warehouseId b = ma_warehouseId a"
  with a'(1) k ok have "b = a'" by (auto simp: assignments_ok_def assignmentKey_def distinct_map inj_on_def)
  with k show "ma_unassignedAt b \<noteq> None" by simp
qed

lemma closed_for_good:
  assumes "a \<in> set (assignments s)" and "ma_unassignedAt a \<noteq> None" and "assignments_ok (assignments s)"
  shows "\<exists>a' \<in> set (assignments (fold manager_called cs s)). ma_managerId a' = ma_managerId a \<and>
      ma_warehouseId a' = ma_warehouseId a \<and> ma_unassignedAt a' \<noteq> None"
    and "b \<in> set (assignments (fold manager_called cs s)) \<Longrightarrow> ma_managerId b = ma_managerId a \<Longrightarrow>
      ma_warehouseId b = ma_warehouseId a \<Longrightarrow> ma_unassignedAt b \<noteq> None"
  using closed_staffing [OF assms staff.along [of manager_called, OF manager_called_staffing]] by blast+

text \<open>
  The unique key of an assignment outlives it: a warehouse once taken from a manager can
  never be assigned to that manager again, after any further calls, and a request that
  contains it is refused.
\<close>

theorem unassigned_stays_lost:
  assumes "a \<in> set (assignments s)" and "ma_unassignedAt a \<noteq> None" and "assignments_ok (assignments s)"
    and "ma_warehouseId a \<in> set sites"
  shows "assignWarehouses ids t (ma_managerId a) sites who (fold manager_called cs s) \<noteq> (Inr r, s')"
proof -
  let ?s = "fold manager_called cs s"
  from closed_for_good(1) [OF assms(1-3), of cs] obtain a' where a': "a' \<in> set (assignments ?s)" "ma_managerId a' = ma_managerId a"
    "ma_warehouseId a' = ma_warehouseId a" by blast
  have "ma_warehouseId a \<notin> set (openSites t (ma_managerId a) ?s)"
    using closed_for_good(2) [OF assms(1-3), of _ cs] by (fastforce simp: openSites_def openAssignments_def)
  with closed_assignment_blocks [OF a'(1,2), of sites t] a'(3) assms(4) show ?thesis by simp
qed
section \<open>Worked calls\<close>

lemma ran:
  assumes "case m of (Inl _, _) \<Rightarrow> False | (Inr a, s') \<Rightarrow> P a s'"
  obtains a s' where "m = (Inr a, s')" and "P a s'"
  using assms by (cases m) (auto split: sum.splits)

definition exDraw :: draws where
  "exDraw k n = 0"

definition exOrgDto :: create_org_dto where
  "exOrgDto = \<lparr>cg_name = ''Credit'', cg_licenseNumber = Some ''L1'', cg_licenseDocUrl = None, cg_logoUrl = None,
     cg_contactEmail = None, cg_phoneNumber = None, cg_address = None, cg_tin = None, cg_regulator = None,
     cg_website = None, cg_firstUser = \<lparr>fu_firstName = ''Ife'', fu_lastName = ''Obi'', fu_email = ''ife@x.org''\<rparr>\<rparr>"

definition exOrgCalls :: "org_call list" where
  "exOrgCalls = [Create_org exCrypto 5 exDraw (exIds CHR ''o'') exOrgDto, Suspend_org ''bank'', Reactivate_org ''bank'',
     Offboard_org ''bank'', Reactivate_org ''bank'']"

definition exManagerDto :: create_manager_dto where
  "exManagerDto = \<lparr>mg_firstName = ''Ife'', mg_lastName = ''Obi'', mg_info = noInfo, mg_permissions = None,
     mg_notificationPrefs = None, mg_warehouseIds = [''w'']\<rparr>"

definition exLinkCalls :: "link_call list" where
  "exLinkCalls = [Onboard 10 ''wl2'' ''fin'' ''w'' ''doc'', Offboard 20 ''fin'' ''wl'', Onboard 30 ''wl3'' ''fin'' ''w'' ''doc'',
     Approve_link 40 ''t'' ''adm'' ''wl3'', Approve_link 50 ''t'' ''adm'' ''wl'']"

text \<open>While the link is active another request is refused; once ended, a second link follows.\<close>

theorem links_live_witness:
  "links_ok (links (fold linked exLinkCalls exStore0)) \<and>
   map wl_id (links (fold linked exLinkCalls exStore0)) = [''wl'', ''wl3''] \<and>
   map wl_status (links (fold linked exLinkCalls exStore0)) = [LINK_OFFBOARDED, LINK_ACTIVE]"
proof -
  have ok: "links_ok (links exStore0)" by (simp add: exStore0_def links_ok_def)
  have "hd (links exStore0) \<in> set (links exStore0)" by (simp add: exStore0_def)
  from links_live [OF ok this, of exLinkCalls] have "links_ok (links (fold linked exLinkCalls exStore0))" ..
  moreover have "map wl_id (links (fold linked exLinkCalls exStore0)) = [''wl'', ''wl3''] \<and>
      map wl_status (links (fold linked exLinkCalls exStore0)) = [LINK_OFFBOARDED, LINK_ACTIVE]" by code_simp
  ultimately show ?thesis by blast
qed

theorem offboarding_clear_witness:
  "\<exists>l t. l \<in> set (links exStore0) \<and> wl_id l = ''wl'' \<and> liensAtLink t ''bank'' ''w'' exStore0 = []"
proof -
  have "case offboardWarehouse 20 ''fin'' ''wl'' exStore0 of (Inl _, _) \<Rightarrow> False | (Inr a, s') \<Rightarrow> True" by code_simp
  then obtain v s' where "offboardWarehouse 20 ''fin'' ''wl'' exStore0 = (Inr v, s')" by (rule ran)
  from offboarding_clear [OF this] show ?thesis by (auto simp: exStore0_def financier_org_defaults_def)
qed

theorem orgs_live_witness:
  "orgs_ok (orgs (fold org_called exOrgCalls exStore0)) \<and>
   map fo_name (orgs (fold org_called exOrgCalls exStore0)) = [''Bank'', ''Credit''] \<and>
   map fo_status (orgs (fold org_called exOrgCalls exStore0)) = [ORG_OFFBOARDED, ORG_ACTIVE]"
proof -
  have ok: "orgs_ok (orgs exStore0)" by (simp add: exStore0_def orgs_ok_def)
  have "hd (orgs exStore0) \<in> set (orgs exStore0)" by (simp add: exStore0_def)
  from orgs_live [OF ok this, of exOrgCalls] have "orgs_ok (orgs (fold org_called exOrgCalls exStore0))" ..
  moreover have "map fo_name (orgs (fold org_called exOrgCalls exStore0)) = [''Bank'', ''Credit''] \<and>
      map fo_status (orgs (fold org_called exOrgCalls exStore0)) = [ORG_OFFBOARDED, ORG_ACTIVE]" by code_simp
  ultimately show ?thesis by blast
qed

definition exAccountCalls :: "account_call list" where
  "exAccountCalls = [Org_call (Create_org exCrypto 5 exDraw (exIds CHR ''o'') exOrgDto),
     Manager_call (Create_manager exCrypto 2026 exDraw (exIds CHR ''m'') ''t'' exManagerDto),
     Disable_user ''adm'' ''ada'']"

text \<open>The second person of a name gets the number 2, the second manager the code 0002.\<close>

theorem accounts_live_witness:
  "accounts_ok (users (fold account_called exAccountCalls exStore0)) \<and>
   map u_email (drop 5 (users (fold account_called exAccountCalls exStore0))) =
     [''ife.obi@securestore.com'', ''ife.obi2@securestore.com''] \<and>
   map u_managerCode (drop 5 (users (fold account_called exAccountCalls exStore0))) = [None, Some ''MNG-2026-0002'']"
proof -
  have ok: "accounts_ok (users exStore0)" unfolding accounts_ok_def by code_simp
  have "hd (users exStore0) \<in> set (users exStore0)" by (simp add: exStore0_def)
  from accounts_live [OF ok this, of exAccountCalls] have "accounts_ok (users (fold account_called exAccountCalls exStore0))" ..
  moreover have "map (\<lambda>u. (u_email u, u_managerCode u)) (drop 5 (users (fold account_called exAccountCalls exStore0))) =
      [(''ife.obi@securestore.com'', None), (''ife.obi2@securestore.com'', Some ''MNG-2026-0002'')]" by code_simp
  ultimately show ?thesis by auto
qed

theorem temporary_password_shape_witness:
  "generateTempPassword exDraw = ''Aa2!AAAAAAAA'' \<and> length (generateTempPassword exDraw) = 12"
proof -
  have "generateTempPassword exDraw = ''Aa2!AAAAAAAA''" by code_simp
  moreover have "length (generateTempPassword exDraw) = 12"
    using temporary_password_shape [of exDraw] by (simp add: exDraw_def)
  ultimately show ?thesis by blast
qed

definition exOpenedManager :: store where
  "exOpenedManager = snd (assignWarehouses (exIds CHR ''x'') ''t'' ''eve'' [''w''] ''adm'' exStore0)"

theorem assignment_idempotent_witness:
  "openSites ''t'' ''eve'' exStore0 = [] \<and> set (openSites ''t'' ''eve'' exOpenedManager) = {''w''} \<and>
   assignWarehouses (exIds CHR ''y'') ''t'' ''eve'' [''w''] ''adm'' exOpenedManager =
     (Inr \<lparr>as_assigned = 0, as_alreadyAssigned = 1\<rparr>, exOpenedManager)"
proof -
  have "case assignWarehouses (exIds CHR ''x'') ''t'' ''eve'' [''w''] ''adm'' exStore0 of (Inl _, _) \<Rightarrow> False | (Inr a, s') \<Rightarrow> True"
    by code_simp
  then obtain r s' where r: "assignWarehouses (exIds CHR ''x'') ''t'' ''eve'' [''w''] ''adm'' exStore0 = (Inr r, s')" by (rule ran)
  then have s': "s' = exOpenedManager" by (simp add: exOpenedManager_def)
  have e: "openSites ''t'' ''eve'' exStore0 = []" by code_simp
  from assignment_idempotent [OF r, of "exIds CHR ''y''" "''adm''"] e s' show ?thesis by simp
qed

definition exClosed :: store where
  "exClosed = snd (unassignWarehouse 9 ''t'' ''mgr'' ''w'' exStore0)"

theorem unassigned_stays_lost_witness:
  "\<exists>e s'. assignWarehouses (exIds CHR ''y'') ''t'' ''mgr'' [''w''] ''adm'' exClosed = (Inl e, s')"
proof -
  let ?a = "hd (assignments exClosed)"
  have a: "?a \<in> set (assignments exClosed)" "ma_unassignedAt ?a \<noteq> None" "ma_managerId ?a = ''mgr''" "ma_warehouseId ?a \<in> set [''w'']"
    by code_simp+
  have ok: "assignments_ok (assignments exClosed)" unfolding assignments_ok_def by code_simp
  have "assignWarehouses (exIds CHR ''y'') ''t'' ''mgr'' [''w''] ''adm'' exClosed \<noteq> (Inr r, s')" for r s'
    using unassigned_stays_lost [OF a(1,2) ok a(4), of "exIds CHR ''y''" "''t''" "''adm''" "[]" r s'] a(3) by simp
  then show ?thesis
    by (cases "assignWarehouses (exIds CHR ''y'') ''t'' ''mgr'' [''w''] ''adm'' exClosed") (auto split: sum.splits, metis sum.exhaust)
qed

end
