(* ===== verification/Authentication.thy ===== *)
theory Authentication
  imports Lifecycle Deposits
begin

text \<open>
  Signing in, \<open>src/auth/auth.service.ts\<close> and \<open>src/auth/warehouse-auth.service.ts\<close>: personal
  login, forgotten passwords, the change of a password by its owner
  (\<open>src/me/me.service.ts\<close>), the shared credential of a warehouse with its steps, and the
  role guard (\<open>src/auth/roles.guard.ts\<close>, \<open>src/common/scope.util.ts\<close>).

  The token library is a parameter: \<open>jwt_sign\<close> makes a token of claims, the time and a
  lifetime, \<open>jwt_verify\<close> reads one back at a time, \<open>None\<close> when it throws.
\<close>

section \<open>Tokens\<close>

record claims =
  cl_typ :: "string option"
  cl_sub :: "uuid option"
  cl_email :: "string option"
  cl_roles :: "string list"
  cl_tenantId :: "uuid option"
  cl_warehouseId :: "uuid option"

record jwt =
  jwt_sign :: "claims \<Rightarrow> time \<Rightarrow> time \<Rightarrow> string"
  jwt_verify :: "time \<Rightarrow> string \<Rightarrow> claims option"

definition hours :: "time \<Rightarrow> time" where "hours n = n * 60 * 60 * 1000"
definition minutes :: "time \<Rightarrow> time" where "minutes n = n * 60 * 1000"

section \<open>Personal login\<close>

text \<open>Staff of a suspended external tenant; financiers, global administrators and clients are exempt.\<close>

definition staffSuspended :: "user \<Rightarrow> store \<Rightarrow> bool" where
  "staffSuspended u s \<longleftrightarrow>
     \<not> (''FINANCIER'' \<in> set (u_roles u) \<or> ''GLOBAL_ADMIN'' \<in> set (u_roles u)) \<and> ''CLIENT'' \<notin> set (u_roles u) \<and>
     (case find_row tn_id (u_tenantId u) (tenants s) of
        None \<Rightarrow> False
      | Some t \<Rightarrow> tn_type t = TENANT_EXTERNAL \<and> tn_status t = TENANT_SUSPENDED)"

record login_answer =
  lg_access_token :: string
  lg_user :: user

definition loginClaims :: "user \<Rightarrow> claims" where
  "loginClaims u = \<lparr>cl_typ = None, cl_sub = Some (u_id u), cl_email = Some (u_email u), cl_roles = u_roles u,
     cl_tenantId = Some (u_tenantId u), cl_warehouseId = None\<rparr>"

definition login :: "crypto \<Rightarrow> jwt \<Rightarrow> time \<Rightarrow> string \<Rightarrow> string \<Rightarrow> login_answer handler" where
  "login c j now email password =
     bindM (getsM (\<lambda>s. find_row u_email email (users s))) (\<lambda>found.
     bindM (requireM (BadRequest ''Invalid email or password'') found) (\<lambda>u.
     bindM (failIfM (\<not> bcrypt_compare c password (u_password u)) (BadRequest ''Invalid email or password'')) (\<lambda>_.
     bindM (failIfM (u_status u \<noteq> USER_ACTIVE) (BadRequest ''USER_INACTIVE'')) (\<lambda>_.
     bindM (getsM (staffSuspended u)) (\<lambda>suspended.
     bindM (failIfM suspended (BadRequest ''TENANT_SUSPENDED'')) (\<lambda>_.
       returnM \<lparr>lg_access_token = jwt_sign j (loginClaims u) now (hours 24), lg_user = u\<rparr>))))))"

section \<open>Forgotten passwords\<close>

definition RESET_TOKEN_TTL_MINUTES :: time where "RESET_TOKEN_TTL_MINUTES = 30"
definition MIN_PASSWORD_LENGTH :: nat where "MIN_PASSWORD_LENGTH = 6"

definition buildResetUrl :: "string option \<Rightarrow> string \<Rightarrow> string" where
  "buildResetUrl frontend token =
     rev (dropWhile (\<lambda>ch. ch = CHR ''/'') (rev (case frontend of None \<Rightarrow> ''http://localhost:3001'' | Some url \<Rightarrow> url))) @
     ''/reset-password?token='' @ token"

definition setTokens :: "(reset_token list \<Rightarrow> reset_token list) \<Rightarrow> store \<Rightarrow> store" where
  "setTokens f s = s\<lparr>sessions := (sessions s)\<lparr>resetTokens := f (resetTokens (sessions s))\<rparr>\<rparr>"

definition invalidate :: "time \<Rightarrow> uuid \<Rightarrow> (reset_token \<Rightarrow> bool) \<Rightarrow> reset_token list \<Rightarrow> reset_token list" where
  "invalidate now userId also =
     map (\<lambda>t. if rt_userId t = userId \<and> rt_usedAt t = None \<and> also t then t\<lparr>rt_usedAt := Some now\<rparr> else t)"

definition issueToken :: "time \<Rightarrow> reset_token \<Rightarrow> store \<Rightarrow> err + unit \<times> store" where
  "issueToken now token s =
     (let rows = invalidate now (rt_userId token) (\<lambda>t. now < rt_expiresAt t) (resetTokens (sessions s))
      in if rt_id token \<in> rt_id ` set rows then Inl (Db (P2002 ''id''))
         else if rt_tokenHash token \<in> rt_tokenHash ` set rows then Inl (Db (P2002 ''token_hash''))
         else Inr ((), setTokens (\<lambda>_. rows @ [token]) s))"

definition forgotPassword ::
    "crypto \<Rightarrow> time \<Rightarrow> string option \<Rightarrow> uuid \<Rightarrow> string \<Rightarrow> string \<Rightarrow> unit handler" where
  "forgotPassword c now frontend i rawToken rawEmail =
     bindM (getsM (\<lambda>s. find_row u_email (lower (js_trim rawEmail)) (users s))) (\<lambda>found.
       case found of
         None \<Rightarrow> returnM ()
       | Some u \<Rightarrow>
           whenM (u_status u = USER_ACTIVE)
             (bindM (transactM (issueToken now \<lparr>rt_id = i, rt_userId = u_id u, rt_tokenHash = sha256 c rawToken,
                 rt_expiresAt = now + minutes RESET_TOKEN_TTL_MINUTES, rt_usedAt = None\<rparr>)) (\<lambda>_.
              modifyM (\<lambda>s. s\<lparr>outbox := outbox s @ [(resolveDeliveryEmail u, buildResetUrl frontend rawToken)]\<rparr>))))"

text \<open>The link is read before the transaction that spends it: the two halves are separate.\<close>

definition resetPassword_check :: "crypto \<Rightarrow> time \<Rightarrow> string \<Rightarrow> string \<Rightarrow> reset_token handler" where
  "resetPassword_check c now rawToken newPassword =
     bindM (failIfM (length newPassword < MIN_PASSWORD_LENGTH) (BadRequest ''Password must be at least 6 characters'')) (\<lambda>_.
     bindM (getsM (\<lambda>s. find_row rt_tokenHash (sha256 c rawToken) (resetTokens (sessions s)))) (\<lambda>found.
     bindM (requireM (BadRequest ''Reset link is invalid or has expired. Request a new one.'') found) (\<lambda>t.
     bindM (failIfM (rt_usedAt t \<noteq> None \<or> rt_expiresAt t < now)
       (BadRequest ''Reset link is invalid or has expired. Request a new one.'')) (\<lambda>_. returnM t))))"

definition revokeSessions :: "time \<Rightarrow> uuid \<Rightarrow> refresh_token list \<Rightarrow> refresh_token list" where
  "revokeSessions now userId =
     map (\<lambda>t. if ft_userId t = userId \<and> ft_revokedAt t = None then t\<lparr>ft_revokedAt := Some now\<rparr> else t)"

definition resetPassword_commit :: "crypto \<Rightarrow> time \<Rightarrow> string \<Rightarrow> reset_token \<Rightarrow> unit handler" where
  "resetPassword_commit c now newPassword t =
     transactM (\<lambda>s.
       if find_row u_id (rt_userId t) (users s) = None \<or> find_row rt_id (rt_id t) (resetTokens (sessions s)) = None
       then Inl (Db Row_Missing)
       else Inr ((), s\<lparr>users := upd_row u_id (rt_userId t) (\<lambda>u. u\<lparr>u_password := bcrypt_hash c newPassword\<rparr>) (users s),
         sessions := \<lparr>resetTokens = invalidate now (rt_userId t) (\<lambda>_. True)
             (upd_row rt_id (rt_id t) (\<lambda>t. t\<lparr>rt_usedAt := Some now\<rparr>) (resetTokens (sessions s))),
           refreshTokens = revokeSessions now (rt_userId t) (refreshTokens (sessions s))\<rparr>\<rparr>))"

definition resetForgotten :: "crypto \<Rightarrow> time \<Rightarrow> string \<Rightarrow> string \<Rightarrow> unit handler" where
  "resetForgotten c now rawToken newPassword =
     bindM (resetPassword_check c now rawToken newPassword) (resetPassword_commit c now newPassword)"

section \<open>Change of a password by its owner\<close>

text \<open>The pattern \<open>^(?=.*[a-z])(?=.*[A-Z])(?=.*\d).{8,}$\<close>; a dot matches no line break.\<close>

definition between :: "char \<Rightarrow> char \<Rightarrow> char \<Rightarrow> bool" where
  "between a b ch \<longleftrightarrow> a \<le> ch \<and> ch \<le> b"

definition isStrongPassword :: "string \<Rightarrow> bool" where
  "isStrongPassword p \<longleftrightarrow> 8 \<le> length p \<and> list_all (\<lambda>ch. ch \<noteq> CHR 0x0A \<and> ch \<noteq> CHR 0x0D) p \<and>
     list_ex (between CHR ''a'' CHR ''z'') p \<and> list_ex (between CHR ''A'' CHR ''Z'') p \<and> list_ex is_digit p"

definition changePassword :: "crypto \<Rightarrow> time \<Rightarrow> uuid \<Rightarrow> string \<Rightarrow> string \<Rightarrow> string \<Rightarrow> unit handler" where
  "changePassword c now userId currentPassword newPassword code =
     bindM (failIfM (currentPassword = [] \<or> newPassword = [])
       (BadRequest ''currentPassword and newPassword are required'')) (\<lambda>_.
     bindM (failIfM (code = []) (BadRequest ''OTP is required to change password.'')) (\<lambda>_.
     bindM (getsM (findUser userId)) (\<lambda>found.
     bindM (requireM (NotFound ''User not found'') found) (\<lambda>u.
     bindM (failIfM (\<not> bcrypt_compare c currentPassword (u_password u)) (Unauthorized ''Current password is incorrect'')) (\<lambda>_.
     bindM (failIfM (newPassword = currentPassword)
       (BadRequest ''New password must be different from the current password'')) (\<lambda>_.
     bindM (failIfM (\<not> isStrongPassword newPassword) (BadRequest ''New password must be at least 8 characters'')) (\<lambda>_.
     bindM (consumeOtp c now userId code OTP_CHANGE_PASSWORD) (\<lambda>_.
       modifyM (\<lambda>s. s\<lparr>users := upd_row u_id userId (\<lambda>u. u\<lparr>u_password := bcrypt_hash c newPassword\<rparr>) (users s)\<rparr>)))))))))"

section \<open>The shared credential of a warehouse\<close>

definition TYP_CHANGE_PWD :: string where "TYP_CHANGE_PWD = ''wh-change-password''"
definition TYP_SELECT_MGR :: string where "TYP_SELECT_MGR = ''wh-select-manager''"
definition TYP_ACCESS :: string where "TYP_ACCESS = ''access''"

definition stepClaims :: "string \<Rightarrow> uuid \<Rightarrow> uuid \<Rightarrow> claims" where
  "stepClaims typ warehouseId tenantId = \<lparr>cl_typ = Some typ, cl_sub = None, cl_email = None, cl_roles = [],
     cl_tenantId = Some tenantId, cl_warehouseId = Some warehouseId\<rparr>"

definition currentManager :: "uuid \<Rightarrow> uuid \<Rightarrow> store \<Rightarrow> manager_assignment \<Rightarrow> user option" where
  "currentManager tenantId warehouseId s a =
     (if ma_warehouseId a = warehouseId \<and> ma_tenantId a = tenantId \<and> ma_unassignedAt a = None
      then (case findUser (ma_managerId a) s of
          None \<Rightarrow> None
        | Some u \<Rightarrow> if u_status u = USER_ACTIVE \<and> list_ex (\<lambda>r. r = ''WAREHOUSE_MANAGER'') (u_roles u) then Some u else None)
      else None)"

datatype warehouse_answer = Must_Change uuid string | Select uuid "user list" string

definition selectStepResponse :: "jwt \<Rightarrow> time \<Rightarrow> uuid \<Rightarrow> uuid \<Rightarrow> warehouse_answer handler" where
  "selectStepResponse j now warehouseId tenantId =
     getsM (\<lambda>s. Select warehouseId (List.map_filter (currentManager tenantId warehouseId s) (assignments s))
       (jwt_sign j (stepClaims TYP_SELECT_MGR warehouseId tenantId) now (minutes 10)))"

definition warehouseLogin :: "crypto \<Rightarrow> jwt \<Rightarrow> time \<Rightarrow> string \<Rightarrow> string \<Rightarrow> warehouse_answer handler" where
  "warehouseLogin c j now rawEmail password =
     bindM (getsM (\<lambda>s. find_row wh_email (Some (lower (js_trim rawEmail))) (warehouses s))) (\<lambda>found.
     bindM (requireM (Unauthorized ''Invalid warehouse credentials.'') found) (\<lambda>w.
     bindM (requireM (Unauthorized ''Invalid warehouse credentials.'') (truthy_opt (wh_passwordHash w))) (\<lambda>h.
     bindM (failIfM (wh_status w \<noteq> WH_ACTIVE) (Unauthorized ''This warehouse is not active.'')) (\<lambda>_.
     bindM (failIfM (\<not> bcrypt_compare c password h) (Unauthorized ''Invalid warehouse credentials.'')) (\<lambda>_.
       if wh_mustChangePassword w
       then returnM (Must_Change (wh_id w) (jwt_sign j (stepClaims TYP_CHANGE_PWD (wh_id w) (wh_tenantId w)) now (minutes 10)))
       else selectStepResponse j now (wh_id w) (wh_tenantId w))))))"

definition verifyTyp :: "jwt \<Rightarrow> time \<Rightarrow> string \<Rightarrow> string \<Rightarrow> (uuid \<times> uuid) handler" where
  "verifyTyp j now token expected =
     bindM (requireM (Unauthorized ''Token is invalid or has expired.'') (jwt_verify j now token)) (\<lambda>p.
     bindM (failIfM (cl_typ p \<noteq> Some expected) (Unauthorized ''Token is not valid for this step.'')) (\<lambda>_.
     bindM (requireM (Unauthorized ''Token is missing required claims.'') (truthy_opt (cl_warehouseId p))) (\<lambda>w.
     bindM (requireM (Unauthorized ''Token is missing required claims.'') (truthy_opt (cl_tenantId p))) (\<lambda>t.
       returnM (w, t)))))"

definition changeWarehousePassword ::
    "crypto \<Rightarrow> jwt \<Rightarrow> time \<Rightarrow> string \<Rightarrow> string \<Rightarrow> warehouse_answer handler" where
  "changeWarehousePassword c j now changeToken newPassword =
     bindM (verifyTyp j now changeToken TYP_CHANGE_PWD) (\<lambda>(warehouseId, _).
     bindM (failIfM (\<not> isStrongPassword newPassword) (BadRequest ''Password must be at least 8 characters'')) (\<lambda>_.
     bindM (transactM (\<lambda>s. case find_row wh_id warehouseId (warehouses s) of
         None \<Rightarrow> Inl (Db Row_Missing)
       | Some w \<Rightarrow> Inr (w, s\<lparr>warehouses := upd_row wh_id warehouseId (\<lambda>w. w\<lparr>wh_passwordHash := Some (bcrypt_hash c newPassword),
           wh_passwordSetAt := Some now, wh_mustChangePassword := False\<rparr>) (warehouses s)\<rparr>))) (\<lambda>w.
       selectStepResponse j now (wh_id w) (wh_tenantId w))))"

record session_answer =
  sn_access_token :: string
  sn_user :: user
  sn_warehouseId :: uuid

definition accessClaims :: "user \<Rightarrow> uuid \<Rightarrow> claims" where
  "accessClaims u warehouseId = \<lparr>cl_typ = Some TYP_ACCESS, cl_sub = Some (u_id u), cl_email = Some (u_email u),
     cl_roles = u_roles u, cl_tenantId = Some (u_tenantId u), cl_warehouseId = Some warehouseId\<rparr>"

definition selectManager :: "jwt \<Rightarrow> time \<Rightarrow> string \<Rightarrow> uuid \<Rightarrow> session_answer handler" where
  "selectManager j now selectToken managerUserId =
     bindM (verifyTyp j now selectToken TYP_SELECT_MGR) (\<lambda>(warehouseId, tenantId).
     bindM (getsM (\<lambda>s. List.map_filter (currentManager tenantId warehouseId s)
         (filter (\<lambda>a. ma_managerId a = managerUserId) (assignments s)))) (\<lambda>found.
       case found of
         [] \<Rightarrow> throwM (Unauthorized ''You are not currently assigned to this warehouse.'')
       | u # _ \<Rightarrow> returnM \<lparr>sn_access_token = jwt_sign j (accessClaims u warehouseId) now (hours 24), sn_user = u,
           sn_warehouseId = warehouseId\<rparr>))"

section \<open>Roles\<close>

definition PRIVILEGED_ROLES :: "string list" where
  "PRIVILEGED_ROLES = [''TENANT_ADMIN'', ''GLOBAL_ADMIN'', ''WAREHOUSE_MANAGER'']"

definition effectiveRoles :: "string list option \<Rightarrow> string option \<Rightarrow> string list" where
  "effectiveRoles actual active =
     (case actual of None \<Rightarrow> []
      | Some rs \<Rightarrow> (case truthy_opt active of None \<Rightarrow> rs | Some r \<Rightarrow> if r \<in> set rs then [r] else rs))"

definition forClientScope :: "string list option \<Rightarrow> uuid \<Rightarrow> string option \<Rightarrow> uuid option" where
  "forClientScope actual userId active =
     (if list_ex (\<lambda>r. r \<in> set PRIVILEGED_ROLES) (effectiveRoles actual active) then None else Some userId)"

definition canActivate :: "string list option \<Rightarrow> string list option \<Rightarrow> string option \<Rightarrow> bool" where
  "canActivate requiredRoles actual active \<longleftrightarrow>
     (case requiredRoles of None \<Rightarrow> True
      | Some required \<Rightarrow> list_ex (\<lambda>r. r \<in> set (effectiveRoles actual active)) required)"

end
