(* ===== verification/Tenants.thy ===== *)
theory Tenants
  imports Authentication Warehouse_Links Accounts
begin

text \<open>
  Tenants, \<open>src/admin-tenants/admin-tenants.service.ts\<close>: created with a slug and a first
  administrator, suspended and reactivated. The warehouse roster of a tenant, with its
  conversion of units, is left out.
\<close>

section \<open>Slugs\<close>

definition slugChar :: "char \<Rightarrow> bool" where
  "slugChar ch \<longleftrightarrow> between CHR ''a'' CHR ''z'' ch \<or> is_digit ch"

text \<open>\<open>replace(/[^a-z0-9]+/g, '-')\<close>: a run of other characters becomes one dash.\<close>

fun dashed :: "bool \<Rightarrow> string \<Rightarrow> string" where
  "dashed inRun [] = []"
| "dashed inRun (ch # t) =
     (if slugChar ch then ch # dashed False t else if inRun then dashed True t else CHR ''-'' # dashed True t)"

definition stripDashes :: "string \<Rightarrow> string" where
  "stripDashes t = rev (dropWhile (\<lambda>ch. ch = CHR ''-'') (rev (dropWhile (\<lambda>ch. ch = CHR ''-'') t)))"

definition slugBase :: "string \<Rightarrow> string" where
  "slugBase name = take 60 (stripDashes (dashed False (js_trim (lower name))))"

definition slugTaken :: "string \<Rightarrow> store \<Rightarrow> bool" where
  "slugTaken slug s \<longleftrightarrow> list_ex (\<lambda>t. tn_slug t = slug) (tenants s)"

definition numbered :: "string \<Rightarrow> nat \<Rightarrow> string" where
  "numbered base k = base @ ''-'' @ decimal_digits k"

text \<open>The while loop; the count is raised before it is compared.\<close>

function freeSlug :: "string \<Rightarrow> string \<Rightarrow> nat \<Rightarrow> store \<Rightarrow> string option" where
  "freeSlug base candidate k s =
     (if \<not> slugTaken candidate s then Some candidate
      else if 99 < k + 1 then None
      else freeSlug base (numbered base k) (k + 1) s)"
  by pat_completeness auto
termination
  by (relation "measure (\<lambda>(_, _, k, _). 100 - k)") auto

declare freeSlug.simps [simp del]

definition deriveSlug :: "string \<Rightarrow> string handler" where
  "deriveSlug name =
     (let base = slugBase name
      in bindM (failIfM (base = []) (BadRequest ''Cannot derive slug from name'')) (\<lambda>_.
         bindM (getsM (freeSlug base base 2)) (requireM (Conflict ''TENANT_SLUG_TAKEN''))))"

section \<open>Creation\<close>

record create_tenant_dto =
  ct_name :: string
  ct_slug :: "string option"
  ct_contactEmail :: "string option"
  ct_phoneNumber :: "string option"
  ct_address :: "string option"
  ct_logoUrl :: "string option"
  ct_type :: "tenant_type option"
  ct_adminFirstName :: string
  ct_adminLastName :: string
  ct_adminEmail :: string

record tenant_item =
  ti_tenant :: tenant
  ti_warehouseCount :: nat
  ti_managerCount :: nat
  ti_clientCount :: nat

definition hasRole :: "string \<Rightarrow> user \<Rightarrow> bool" where
  "hasRole role u \<longleftrightarrow> list_ex (\<lambda>r. r = role) (u_roles u)"

definition projectTenant :: "store \<Rightarrow> tenant \<Rightarrow> tenant_item" where
  "projectTenant s t =
     \<lparr>ti_tenant = t, ti_warehouseCount = length (filter (\<lambda>w. wh_tenantId w = tn_id t) (warehouses s)),
      ti_managerCount = length (filter (\<lambda>u. u_tenantId u = tn_id t \<and> hasRole ''WAREHOUSE_MANAGER'' u) (users s)),
      ti_clientCount = length (filter (\<lambda>u. u_tenantId u = tn_id t \<and> hasRole ''CLIENT'' u) (users s))\<rparr>"

definition requireTenant :: "uuid \<Rightarrow> tenant handler" where
  "requireTenant i = bindM (getsM (\<lambda>s. find_row tn_id i (tenants s))) (requireM (NotFound ''Tenant not found''))"

definition loadTenantItem :: "uuid \<Rightarrow> tenant_item handler" where
  "loadTenantItem i = bindM (requireTenant i) (\<lambda>t. getsM (\<lambda>s. projectTenant s t))"

definition insertTenant :: "tenant \<Rightarrow> store \<Rightarrow> err + tenant \<times> store" where
  "insertTenant t s =
     (if tn_id t \<in> tn_id ` set (tenants s) then Inl (Db (P2002 ''id''))
      else if tn_name t \<in> tn_name ` set (tenants s) then Inl (Db (P2002 ''name''))
      else if tn_slug t \<in> tn_slug ` set (tenants s) then Inl (Db (P2002 ''slug''))
      else Inr (t, s\<lparr>tenants := tenants s @ [t]\<rparr>))"

definition tenantOf :: "time \<Rightarrow> uuid \<Rightarrow> string \<Rightarrow> create_tenant_dto \<Rightarrow> tenant" where
  "tenantOf now i slug dto = tenant_defaults\<lparr>
     tn_id := i, tn_name := ct_name dto, tn_slug := slug, tn_contactEmail := ct_contactEmail dto,
     tn_phoneNumber := ct_phoneNumber dto, tn_address := ct_address dto, tn_logoUrl := ct_logoUrl dto,
     tn_status := TENANT_ACTIVE, tn_type := given (ct_type dto) TENANT_EXTERNAL, tn_createdAt := now\<rparr>"

definition firstAdmin :: "crypto \<Rightarrow> uuid \<Rightarrow> uuid \<Rightarrow> string \<Rightarrow> string \<Rightarrow> create_tenant_dto \<Rightarrow> user" where
  "firstAdmin c i tenantId loginEmail tempPassword dto = user_defaults\<lparr>
     u_id := i, u_tenantId := tenantId, u_email := loginEmail, u_password := bcrypt_hash c tempPassword,
     u_firstName := ct_adminFirstName dto, u_lastName := ct_adminLastName dto,
     u_contactEmail := Some (ct_adminEmail dto), u_status := USER_ACTIVE, u_roles := [''TENANT_ADMIN'']\<rparr>"

definition chosenSlug :: "create_tenant_dto \<Rightarrow> string handler" where
  "chosenSlug dto =
     (case truthy_opt (ct_slug dto) of
        Some slug \<Rightarrow> bindM (getsM (slugTaken slug)) (\<lambda>taken.
          bindM (failIfM taken (Conflict ''TENANT_SLUG_TAKEN'')) (\<lambda>_. returnM slug))
      | None \<Rightarrow> deriveSlug (ct_name dto))"

definition logTenant :: "string \<Rightarrow> uuid \<Rightarrow> unit handler" where
  "logTenant action i = logActivity \<lparr>al_tenantId = Some i, al_userId = None, al_action = action,
     al_entityType = ''TENANT'', al_entityId = i, al_changes = []\<rparr>"

definition createTenant ::
    "crypto \<Rightarrow> time \<Rightarrow> draws \<Rightarrow> (nat \<Rightarrow> uuid) \<Rightarrow> create_tenant_dto \<Rightarrow> (tenant_item \<times> credentials) handler" where
  "createTenant c now draw ids dto =
     bindM (getsM (\<lambda>s. find_row tn_name (ct_name dto) (tenants s))) (\<lambda>clash.
     bindM (failIfM (clash \<noteq> None) (Conflict ''TENANT_NAME_TAKEN'')) (\<lambda>_.
     bindM (chosenSlug dto) (\<lambda>slug.
     bindM (requireRole ''TENANT_ADMIN'') (\<lambda>_.
     bindM (deriveLoginEmail (ct_adminFirstName dto) (ct_adminLastName dto)) (\<lambda>loginEmail.
     let tempPassword = generateTempPassword draw in
     bindM (transactM (\<lambda>s. andThen (insertTenant (tenantOf now (ids 0) slug dto) s) (\<lambda>(t, s1).
         andThen (insertUser (firstAdmin c (ids 1) (tn_id t) loginEmail tempPassword dto) s1) (\<lambda>(u, s2).
           Inr ((t, u), s2))))) (\<lambda>(t, u).
     bindM (credentialsMail (ct_adminEmail dto) tempPassword) (\<lambda>_.
     bindM (notifyUser (tn_id t) N_CLIENT_CREDENTIALS_ISSUED ''tenant'' (tn_id t) (u_id u)) (\<lambda>_.
     bindM (logTenant ''tenant.created'' (tn_id t)) (\<lambda>_.
     bindM (loadTenantItem (tn_id t)) (\<lambda>item.
       returnM (item, \<lparr>cr_email = loginEmail, cr_temporaryPassword = tempPassword\<rparr>)))))))))))"

section \<open>Suspension\<close>

definition setTenantStatus :: "uuid \<Rightarrow> tenant_status \<Rightarrow> unit handler" where
  "setTenantStatus i st = modifyM (\<lambda>s. s\<lparr>tenants := upd_row tn_id i (\<lambda>t. t\<lparr>tn_status := st\<rparr>) (tenants s)\<rparr>)"

definition suspendTenant :: "uuid \<Rightarrow> tenant_item handler" where
  "suspendTenant i =
     bindM (requireTenant i) (\<lambda>t.
     bindM (failIfM (tn_type t = TENANT_INTERNAL) (BadRequest ''INTERNAL_TENANT_CANNOT_BE_SUSPENDED'')) (\<lambda>_.
       if tn_status t = TENANT_SUSPENDED then getsM (\<lambda>s. projectTenant s t)
       else
         bindM (setTenantStatus i TENANT_SUSPENDED) (\<lambda>_.
         bindM (logTenant ''tenant.suspended'' i) (\<lambda>_.
           getsM (\<lambda>s. projectTenant s (t\<lparr>tn_status := TENANT_SUSPENDED\<rparr>))))))"

definition reactivateTenant :: "uuid \<Rightarrow> tenant_item handler" where
  "reactivateTenant i =
     bindM (requireTenant i) (\<lambda>t.
       if tn_status t = TENANT_ACTIVE then getsM (\<lambda>s. projectTenant s t)
       else
         bindM (setTenantStatus i TENANT_ACTIVE) (\<lambda>_.
         bindM (logTenant ''tenant.reactivated'' i) (\<lambda>_.
           getsM (\<lambda>s. projectTenant s (t\<lparr>tn_status := TENANT_ACTIVE\<rparr>)))))"

section \<open>Reads\<close>

record tenant_query =
  tq_search :: "string option"
  tq_status :: "tenant_status option"
  tq_page :: "string option"
  tq_limit :: "string option"

definition tenantMatches :: "tenant_query \<Rightarrow> tenant \<Rightarrow> bool" where
  "tenantMatches q t \<longleftrightarrow>
     (case tq_status q of None \<Rightarrow> True | Some st \<Rightarrow> tn_status t = st) \<and>
     (case truthy_opt (tq_search q) of None \<Rightarrow> True
      | Some x \<Rightarrow> contains_insensitive x (tn_name t) \<or> contains_insensitive x (tn_slug t))"

definition listTenants :: "tenant_query \<Rightarrow> tenant_item page handler" where
  "listTenants q =
     paginate (tq_page q) (tq_limit q) (\<lambda>s. map (projectTenant s) (rev (filter (tenantMatches q) (tenants s))))"

record tenant_detail =
  td_item :: tenant_item
  td_receiptCount :: nat
  td_activeLienCount :: nat
  td_storedValue :: dec
  td_lienedValue :: dec
  td_currency :: string

text \<open>The currency is that of the last commodity in stock with a price.\<close>

definition getTenantDetail :: "time \<Rightarrow> uuid \<Rightarrow> tenant_detail handler" where
  "getTenantDetail now i =
     bindM (requireTenant i) (\<lambda>t.
     getsM (\<lambda>s.
       let stock = filter (\<lambda>r. r_tenantId r = i \<and> r_status r \<notin> set CLOSED) (receipts s);
           theirs = filter (\<lambda>l. ln_tenantId l = i \<and> lienOpen l) (liens s);
           price = (\<lambda>k. currentPrice now i k s);
           valued = (\<lambda>k q. case price k of None \<Rightarrow> 0 | Some p \<Rightarrow> cp_pricePerUnit p * q);
           keys = firsts (map r_commodityId stock)
       in \<lparr>td_item = projectTenant s t, td_receiptCount = length (filter (\<lambda>r. r_tenantId r = i) (receipts s)),
         td_activeLienCount = length theirs,
         td_storedValue = to_scale 2 (\<Sum>k\<leftarrow>keys. valued k (volume (filter (\<lambda>r. r_commodityId r = k) stock))),
         td_lienedValue = to_scale 2 (\<Sum>l\<leftarrow>theirs. case find_row r_id (ln_receiptId l) (receipts s) of
             None \<Rightarrow> 0 | Some r \<Rightarrow> valued (r_commodityId r) (ln_remainingQuantity l)),
         td_currency = foldl (\<lambda>cur k. case price k of None \<Rightarrow> cur | Some p \<Rightarrow> cp_currency p) ''NGN'' keys\<rparr>))"

definition listTenantManagers :: "uuid \<Rightarrow> (user \<times> string \<times> nat) list handler" where
  "listTenantManagers i =
     bindM (requireTenant i) (\<lambda>_.
     getsM (\<lambda>s. map (\<lambda>u. (u, if hasRole ''TENANT_ADMIN'' u then ''TENANT_ADMIN'' else ''WAREHOUSE_MANAGER'',
         length (filter (\<lambda>a. ma_managerId a = u_id u \<and> ma_unassignedAt a = None) (assignments s))))
       (rev (filter (\<lambda>u. u_tenantId u = i \<and> (hasRole ''TENANT_ADMIN'' u \<or> hasRole ''WAREHOUSE_MANAGER'' u)) (users s)))))"

end
