(* ===== verification/Access_Properties.thy ===== *)
theory Access_Properties
  imports Tenants Registry_Properties "HOL-Library.Countable"
begin

text \<open>
  What signing in guarantees: tenants and their suspension, the links that reset a forgotten
  password, the shared credential of a warehouse and the managers who enter with it.
\<close>

section \<open>Tenants\<close>

text \<open>A tenant keeps its names and kind; an internal one that is active stays active.\<close>

definition same_tenant :: "tenant \<Rightarrow> tenant \<Rightarrow> bool" where
  "same_tenant t t' \<longleftrightarrow> tn_id t' = tn_id t \<and> tn_name t' = tn_name t \<and> tn_slug t' = tn_slug t \<and> tn_type t' = tn_type t \<and>
     (tn_type t = TENANT_INTERNAL \<longrightarrow> tn_status t = TENANT_ACTIVE \<longrightarrow> tn_status t' = TENANT_ACTIVE)"

definition tenants_ok :: "tenant list \<Rightarrow> bool" where
  "tenants_ok ts \<longleftrightarrow> distinct (map tn_id ts) \<and> distinct (map tn_name ts) \<and> distinct (map tn_slug ts)"

definition hosting :: "store \<Rightarrow> store \<Rightarrow> bool" where
  "hosting s s' \<longleftrightarrow> (tenants_ok (tenants s) \<longrightarrow> tenants_ok (tenants s') \<and> grows same_tenant (tenants s) (tenants s'))"

interpretation tenant_life: lifecycle tn_id same_tenant
  by unfold_locales (auto simp: same_tenant_def)

interpretation tenant_lives: evolution hosting
proof
  show "hosting s s" for s by (simp add: hosting_def tenant_life.grows_refl)
  show "hosting s s' \<Longrightarrow> hosting s' s'' \<Longrightarrow> hosting s s''" for s s' s''
    by (auto simp: hosting_def intro: tenant_life.grows_trans)
qed

lemma hosting_same: "tenants s' = tenants s \<Longrightarrow> hosting s s'"
  by (simp add: hosting_def tenant_life.grows_refl)

lemma requireTenant_run:
  "requireTenant i s = (r, s') \<longleftrightarrow>
     s' = s \<and> r = (case find_row tn_id i (tenants s) of None \<Rightarrow> Inl (NotFound ''Tenant not found'') | Some t \<Rightarrow> Inr t)"
  by (auto simp: requireTenant_def bindM_def getsM_def requireM_def split: option.split)

lemma logTenant_run: "logTenant a i s = (r, s') \<Longrightarrow> r = Inr () \<and> tenants s' = tenants s \<and> users s' = users s"
  by (auto simp: logTenant_def logActivity_def)

text \<open>What a change of status writes.\<close>

definition moved_to :: "tenant_status \<Rightarrow> uuid \<Rightarrow> store \<Rightarrow> store \<Rightarrow> bool" where
  "moved_to st i s s' \<longleftrightarrow> users s' = users s \<and>
     (tenants s' = upd_row tn_id i (\<lambda>t. t\<lparr>tn_status := st\<rparr>) (tenants s) \<or>
      tenants s' = tenants s \<and> (\<exists>t. find_row tn_id i (tenants s) = Some t \<and> tn_status t = st))"

lemma moved_to_row:
  assumes "moved_to st i s s'" and "find_row tn_id i (tenants s) = Some t"
  shows "find_row tn_id k (tenants s') = (if k = i then Some (t\<lparr>tn_status := st\<rparr>) else find_row tn_id k (tenants s))"
  using assms by (cases t) (auto simp: moved_to_def find_row_upd_row)

lemma suspendTenant_run:
  "suspendTenant i s = (Inr item, s') \<Longrightarrow>
     moved_to TENANT_SUSPENDED i s s' \<and> (\<exists>t. find_row tn_id i (tenants s) = Some t \<and> tn_type t = TENANT_EXTERNAL)"
  unfolding suspendTenant_def setTenantStatus_def
  by (auto simp: bindM_Inr_iff requireTenant_run moved_to_def split: option.splits if_splits dest!: logTenant_run
      intro: tenant_type.exhaust)

lemma reactivateTenant_run:
  "reactivateTenant i s = (Inr item, s') \<Longrightarrow> moved_to TENANT_ACTIVE i s s'"
  unfolding reactivateTenant_def setTenantStatus_def
  by (auto simp: bindM_Inr_iff requireTenant_run moved_to_def split: option.splits if_splits dest!: logTenant_run)

lemma status_hosting:
  assumes t: "find_row tn_id i (tenants s) = Some t" and s': "tenants s' = upd_row tn_id i (\<lambda>t. t\<lparr>tn_status := st\<rparr>) (tenants s)"
    and ok: "tn_type t = TENANT_EXTERNAL \<or> st = TENANT_ACTIVE"
  shows "hosting s s'"
  unfolding hosting_def
proof
  assume "tenants_ok (tenants s)"
  then have d: "distinct (map tn_id (tenants s))" and n: "distinct (map tn_name (tenants s))" "distinct (map tn_slug (tenants s))"
    by (simp_all add: tenants_ok_def)
  have "same_tenant t (t\<lparr>tn_status := st\<rparr>)" using ok by (auto simp: same_tenant_def)
  from tenant_life.grows_upd_row [where f = "\<lambda>t. t\<lparr>tn_status := st\<rparr>", OF d t this] d n
  show "tenants_ok (tenants s') \<and> grows same_tenant (tenants s) (tenants s')"
    unfolding s' tenants_ok_def by (simp add: map_upd_row)
qed

lemma set_status_tenants:
  "bindM (setTenantStatus i st) (\<lambda>_. bindM (logTenant a i) (\<lambda>_. getsM g)) s = (r, s') \<Longrightarrow>
     tenants s' = upd_row tn_id i (\<lambda>t. t\<lparr>tn_status := st\<rparr>) (tenants s)"
  unfolding setTenantStatus_def
  by (auto simp: bindM_def modifyM_def getsM_def split: prod.splits sum.splits dest!: logTenant_run)

lemma suspendTenant_hosting: "confined hosting (suspendTenant i)"
proof (rule confinedI)
  fix s r s' assume run: "suspendTenant i s = (r, s')"
  show "hosting s s'"
  proof (cases "s' = s")
    case False
    with run obtain t where t: "find_row tn_id i (tenants s) = Some t" "tn_type t \<noteq> TENANT_INTERNAL"
      and "bindM (setTenantStatus i TENANT_SUSPENDED) (\<lambda>_. bindM (logTenant ''tenant.suspended'' i) (\<lambda>_.
         getsM (\<lambda>s. projectTenant s (t\<lparr>tn_status := TENANT_SUSPENDED\<rparr>)))) s = (r, s')"
      unfolding suspendTenant_def
      by (auto simp: bindM_def [of "requireTenant i"] bindM_def [of "failIfM _ _"] failIfM_def requireTenant_run
          split: prod.splits option.splits if_splits)
    then have "tenants s' = upd_row tn_id i (\<lambda>t. t\<lparr>tn_status := TENANT_SUSPENDED\<rparr>) (tenants s)"
      by (intro set_status_tenants)
    moreover from t(2) have "tn_type t = TENANT_EXTERNAL" by (cases "tn_type t") simp_all
    ultimately show ?thesis by (intro status_hosting [OF t(1)]) auto
  qed (simp add: tenant_lives.stays)
qed

lemma reactivateTenant_hosting: "confined hosting (reactivateTenant i)"
proof (rule confinedI)
  fix s r s' assume run: "reactivateTenant i s = (r, s')"
  show "hosting s s'"
  proof (cases "s' = s")
    case False
    with run obtain t where t: "find_row tn_id i (tenants s) = Some t"
      and "bindM (setTenantStatus i TENANT_ACTIVE) (\<lambda>_. bindM (logTenant ''tenant.reactivated'' i) (\<lambda>_.
         getsM (\<lambda>s. projectTenant s (t\<lparr>tn_status := TENANT_ACTIVE\<rparr>)))) s = (r, s')"
      unfolding reactivateTenant_def
      by (auto simp: bindM_def [of "requireTenant i"] requireTenant_run split: prod.splits option.splits if_splits)
    then have "tenants s' = upd_row tn_id i (\<lambda>t. t\<lparr>tn_status := TENANT_ACTIVE\<rparr>) (tenants s)"
      by (intro set_status_tenants)
    then show ?thesis by (intro status_hosting [OF t]) auto
  qed (simp add: tenant_lives.stays)
qed

lemma chosenSlug_reads: "reads (chosenSlug dto)"
  unfolding chosenSlug_def deriveSlug_def Let_def by (auto intro!: reads_rules split: option.split)

lemmas tenant_confined = tenant_lives.confined_rules manager_reads [THEN tenant_lives.confined_reads]
  chosenSlug_reads [THEN tenant_lives.confined_reads]

lemma insertTenant_run:
  "insertTenant t s = Inr (x, s') \<longleftrightarrow> x = t \<and> s' = s\<lparr>tenants := tenants s @ [t]\<rparr> \<and> tn_id t \<notin> tn_id ` set (tenants s) \<and>
     tn_name t \<notin> tn_name ` set (tenants s) \<and> tn_slug t \<notin> tn_slug ` set (tenants s)"
  by (auto simp: insertTenant_def)

lemma hosting_insert:
  "tn_id t \<notin> tn_id ` set (tenants s) \<Longrightarrow> tn_name t \<notin> tn_name ` set (tenants s) \<Longrightarrow> tn_slug t \<notin> tn_slug ` set (tenants s) \<Longrightarrow>
     tenants s' = tenants s @ [t] \<Longrightarrow> hosting s s'"
  by (auto simp: hosting_def tenants_ok_def tenant_life.grows_append)

lemma quiet_hosting: "confined hosting (notifyUser t ty et i u)" "confined hosting (credentialsMail to pw)"
  "confined hosting (logTenant a i)"
  by (auto intro!: confinedI hosting_same simp: credentialsMail_def dest!: notifyUser_run logTenant_run)

lemma createTenant_hosting: "confined hosting (createTenant c now draw ids dto)"
  unfolding createTenant_def loadTenantItem_def requireTenant_def Let_def
  by (intro tenant_confined quiet_hosting confined_prod tenant_lives.confined_transact)
    (auto simp: andThen_Inr_iff insertTenant_run insertUser_run intro!: hosting_insert split: prod.splits)

datatype tenant_call =
    Create_tenant crypto time draws "nat \<Rightarrow> uuid" create_tenant_dto
  | Suspend_tenant uuid
  | Reactivate_tenant uuid

fun tenant_called :: "tenant_call \<Rightarrow> store \<Rightarrow> store" where
  "tenant_called (Create_tenant c now draw ids dto) s = snd (createTenant c now draw ids dto s)"
| "tenant_called (Suspend_tenant i) s = snd (suspendTenant i s)"
| "tenant_called (Reactivate_tenant i) s = snd (reactivateTenant i s)"

lemma tenant_called_hosting: "hosting s (tenant_called c s)"
  by (cases c) (simp_all add: tenant_lives.confined_snd createTenant_hosting suspendTenant_hosting reactivateTenant_hosting)

text \<open>
  Tenants live on. After any sequence of creations, suspensions and reactivations ids, names
  and slugs of tenants are still unique, every tenant is still there with its names and kind,
  and an internal tenant that was active has stayed active.
\<close>

theorem tenants_live:
  assumes "tenants_ok (tenants s)" and "t \<in> set (tenants s)"
  shows "tenants_ok (tenants (fold tenant_called cs s)) \<and>
    (\<exists>t' \<in> set (tenants (fold tenant_called cs s)). tn_id t' = tn_id t \<and> tn_name t' = tn_name t \<and>
       tn_slug t' = tn_slug t \<and> tn_type t' = tn_type t \<and>
       (tn_type t = TENANT_INTERNAL \<and> tn_status t = TENANT_ACTIVE \<longrightarrow> tn_status t' = TENANT_ACTIVE))"
proof -
  have "hosting s (fold tenant_called cs s)" by (rule tenant_lives.along) (rule tenant_called_hosting)
  with assms(1) have ok: "tenants_ok (tenants (fold tenant_called cs s))"
    and g: "grows same_tenant (tenants s) (tenants (fold tenant_called cs s))" by (simp_all add: hosting_def)
  from tenant_life.grows_keeps [OF g assms(2)] ok show ?thesis by (auto simp: same_tenant_def)
qed

section \<open>Slugs\<close>

lemma freeSlug_find:
  "k \<le> 99 \<Longrightarrow> freeSlug base x k s = find (\<lambda>x. \<not> slugTaken x s) (x # map (numbered base) [k ..< 99])"
proof (induction base x k s rule: freeSlug.induct)
  case (1 base x k s)
  show ?case
  proof (cases "k = 99")
    case True
    then show ?thesis by (simp add: freeSlug.simps [of base x])
  next
    case False
    with 1(2) have "[k ..< 99] = k # [Suc k ..< 99]" by (simp add: upt_conv_Cons)
    with False 1 show ?thesis by (simp add: freeSlug.simps [of base x])
  qed
qed

text \<open>
  The slug derived from a name is the first free one of the name's letters and digits and
  their numbers 2 to 98 (99 is never tried); it never writes, and a name without any is refused.
\<close>

theorem slug_first_free:
  "deriveSlug name s =
    (if slugBase name = [] then Inl (BadRequest ''Cannot derive slug from name'')
     else (case find (\<lambda>x. \<not> slugTaken x s) (slugBase name # map (numbered (slugBase name)) [2 ..< 99]) of
         None \<Rightarrow> Inl (Conflict ''TENANT_SLUG_TAKEN'')
       | Some x \<Rightarrow> Inr x), s)"
  unfolding deriveSlug_def Let_def
  by (simp add: bindM_def failIfM_def getsM_def requireM_def freeSlug_find split: option.split)

section \<open>Login\<close>

lemma login_run:
  "login c j now e p s =
    (case find_row u_email e (users s) of None \<Rightarrow> Inl (BadRequest ''Invalid email or password'')
     | Some u \<Rightarrow> if \<not> bcrypt_compare c p (u_password u) then Inl (BadRequest ''Invalid email or password'')
         else if u_status u \<noteq> USER_ACTIVE then Inl (BadRequest ''USER_INACTIVE'')
         else if staffSuspended u s then Inl (BadRequest ''TENANT_SUSPENDED'')
         else Inr \<lparr>lg_access_token = jwt_sign j (loginClaims u) now (hours 24), lg_user = u\<rparr>, s)"
  unfolding login_def by (simp add: bindM_def failIfM_def getsM_def requireM_def returnM_def split: option.split)

text \<open>Who signs in on behalf of a tenant: neither a platform user nor a client.\<close>

definition tenantStaff :: "user \<Rightarrow> bool" where
  "tenantStaff u \<longleftrightarrow> set (u_roles u) \<inter> {''FINANCIER'', ''GLOBAL_ADMIN'', ''CLIENT''} = {}"

text \<open>
  C29. Suspending a tenant keeps out exactly its staff. After the suspension every login goes as
  before, except that one of the tenant's staff which would have succeeded is refused; after
  the reactivation of a tenant that was active every login goes as before again.
\<close>

theorem suspension_locks_out:
  assumes "suspendTenant i s = (Inr item, s')" and "reactivateTenant i s' = (Inr item', s'')"
  shows "login c j now e p s' =
      (case fst (login c j now e p s) of
         Inl x \<Rightarrow> Inl x
       | Inr a \<Rightarrow> if tenantStaff (lg_user a) \<and> u_tenantId (lg_user a) = i then Inl (BadRequest ''TENANT_SUSPENDED'') else Inr a, s') \<and>
    (map_option tn_status (find_row tn_id i (tenants s)) = Some TENANT_ACTIVE \<longrightarrow>
       fst (login c j now e p s'') = fst (login c j now e p s))"
proof -
  from suspendTenant_run [OF assms(1)] obtain t where t: "find_row tn_id i (tenants s) = Some t" "tn_type t = TENANT_EXTERNAL"
    and m: "moved_to TENANT_SUSPENDED i s s'" by blast
  note m' = reactivateTenant_run [OF assms(2)]
  note row = moved_to_row [OF m t(1)]
  have row': "find_row tn_id k (tenants s'') = (if k = i then Some (t\<lparr>tn_status := TENANT_ACTIVE\<rparr>) else find_row tn_id k (tenants s))" for k
    using moved_to_row [OF m', of "t\<lparr>tn_status := TENANT_SUSPENDED\<rparr>" k] row by (cases t) auto
  have u: "users s' = users s" "users s'' = users s" using m m' by (simp_all add: moved_to_def)
  have "staffSuspended u s' \<longleftrightarrow> staffSuspended u s \<or> tenantStaff u \<and> u_tenantId u = i" for u
    using t by (auto simp: staffSuspended_def tenantStaff_def row)
  moreover have "staffSuspended u s'' \<longleftrightarrow> staffSuspended u s" if "tn_status t = TENANT_ACTIVE" for u
    using t that by (auto simp: staffSuspended_def row')
  ultimately show ?thesis using t by (auto simp: login_run u split: option.splits)
qed

section \<open>Reset links\<close>

text \<open>A link keeps its user and life; once used it stays used.\<close>

definition same_token :: "reset_token \<Rightarrow> reset_token \<Rightarrow> bool" where
  "same_token t t' \<longleftrightarrow> rt_id t' = rt_id t \<and> rt_userId t' = rt_userId t \<and> rt_tokenHash t' = rt_tokenHash t \<and>
     rt_expiresAt t' = rt_expiresAt t \<and> (rt_usedAt t \<noteq> None \<longrightarrow> rt_usedAt t' \<noteq> None)"

definition tokens_ok :: "reset_token list \<Rightarrow> bool" where
  "tokens_ok ts \<longleftrightarrow> distinct (map rt_id ts) \<and> distinct (map rt_tokenHash ts)"

definition linksOut :: "store \<Rightarrow> reset_token list" where
  "linksOut s = resetTokens (sessions s)"

definition ageing :: "store \<Rightarrow> store \<Rightarrow> bool" where
  "ageing s s' \<longleftrightarrow> (tokens_ok (linksOut s) \<longrightarrow> tokens_ok (linksOut s')) \<and> grows same_token (linksOut s) (linksOut s')"

interpretation token_life: lifecycle rt_id same_token
  by unfold_locales (auto simp: same_token_def)

interpretation token_lives: evolution ageing
proof
  show "ageing s s" for s by (simp add: ageing_def token_life.grows_refl)
  show "ageing s s' \<Longrightarrow> ageing s' s'' \<Longrightarrow> ageing s s''" for s s' s''
    by (auto simp: ageing_def intro: token_life.grows_trans)
qed

lemma ageing_same: "sessions s' = sessions s \<Longrightarrow> ageing s s'"
  by (simp add: ageing_def linksOut_def token_life.grows_refl)

lemma ageing_map:
  assumes "linksOut s' = map h (linksOut s)" and "\<And>t. same_token t (h t)"
  shows "ageing s s'"
proof -
  have "map rt_id (map h (linksOut s)) = map rt_id (linksOut s)" "map rt_tokenHash (map h (linksOut s)) = map rt_tokenHash (linksOut s)"
    using assms(2) by (simp_all add: same_token_def)
  with assms show ?thesis unfolding ageing_def tokens_ok_def assms(1) by (simp add: token_life.grows_map del: map_map)
qed

lemma same_token_invalidated:
  "same_token t (if rt_userId t = u \<and> rt_usedAt t = None \<and> also t then t\<lparr>rt_usedAt := Some now\<rparr> else t)"
  by (simp add: same_token_def)

lemma invalidate_keys [simp]:
  "map rt_id (invalidate now u also ts) = map rt_id ts" "map rt_tokenHash (invalidate now u also ts) = map rt_tokenHash ts"
  by (auto simp: invalidate_def)

lemmas invalidate_images [simp] = invalidate_keys [THEN arg_cong [of _ _ set], unfolded set_map]

lemma issueToken_run:
  assumes "issueToken now t s = Inr (x, s')"
  shows "linksOut s' = invalidate now (rt_userId t) (\<lambda>t. now < rt_expiresAt t) (linksOut s) @ [t]"
    and "rt_id t \<notin> rt_id ` set (linksOut s)" and "rt_tokenHash t \<notin> rt_tokenHash ` set (linksOut s)"
  using assms by (auto simp: issueToken_def Let_def setTokens_def linksOut_def split: if_splits)

lemma issueToken_ageing:
  assumes "issueToken now t s = Inr (x, s')"
  shows "ageing s s'"
proof -
  let ?old = "invalidate now (rt_userId t) (\<lambda>t. now < rt_expiresAt t) (linksOut s)"
  have "grows same_token (linksOut s) ?old"
    unfolding invalidate_def by (intro token_life.grows_map same_token_invalidated)
  then have "grows same_token (linksOut s) (?old @ [t])" by (rule token_life.grows_trans) (rule token_life.grows_append)
  with issueToken_run [OF assms] show ?thesis by (simp add: ageing_def tokens_ok_def)
qed

definition spent :: "time \<Rightarrow> reset_token \<Rightarrow> reset_token \<Rightarrow> reset_token" where
  "spent now t x = (if rt_id x = rt_id t \<or> rt_userId x = rt_userId t \<and> rt_usedAt x = None then x\<lparr>rt_usedAt := Some now\<rparr> else x)"

lemma invalidate_spent:
  "invalidate now (rt_userId t) (\<lambda>_. True) (upd_row rt_id (rt_id t) (\<lambda>t. t\<lparr>rt_usedAt := Some now\<rparr>) ts) = map (spent now t) ts"
  by (simp add: invalidate_def upd_row_def spent_def)

lemma resetPassword_commit_run:
  "resetPassword_commit c now pw t s = (Inr (), s') \<longleftrightarrow>
     find_row u_id (rt_userId t) (users s) \<noteq> None \<and> find_row rt_id (rt_id t) (linksOut s) \<noteq> None \<and>
     s' = s\<lparr>users := upd_row u_id (rt_userId t) (\<lambda>u. u\<lparr>u_password := bcrypt_hash c pw\<rparr>) (users s),
       sessions := \<lparr>resetTokens = map (spent now t) (linksOut s),
         refreshTokens = revokeSessions now (rt_userId t) (refreshTokens (sessions s))\<rparr>\<rparr>"
  by (auto simp: resetPassword_commit_def transactM_run invalidate_spent linksOut_def)

lemma resetPassword_check_run:
  "resetPassword_check c now raw pw s = (Inr t, s') \<longleftrightarrow> s' = s \<and> MIN_PASSWORD_LENGTH \<le> length pw \<and>
     find_row rt_tokenHash (sha256 c raw) (linksOut s) = Some t \<and> rt_usedAt t = None \<and> now \<le> rt_expiresAt t"
  by (auto simp: resetPassword_check_def bindM_Inr_iff linksOut_def)

lemma resetPassword_commit_ageing: "confined ageing (resetPassword_commit c now pw t)"
  unfolding resetPassword_commit_def
  by (intro token_lives.confined_transact)
    (auto simp: invalidate_spent linksOut_def spent_def same_token_def split: if_splits intro!: ageing_map [where h = "spent now t"])

lemma resetPassword_check_reads: "reads (resetPassword_check c now raw pw)"
  unfolding resetPassword_check_def by (intro reads_rules)

lemma forgotPassword_ageing: "confined ageing (forgotPassword c now frontend i raw email)"
  unfolding forgotPassword_def
  by (intro token_lives.confined_rules confined_option token_lives.confined_transact token_lives.confined_modify issueToken_ageing
      ageing_same) (assumption | simp)+

lemma changePassword_ageing: "confined ageing (changePassword c now u old new code)"
proof -
  have "confined ageing (consumeOtp c now u code p)" for p
    by (auto intro!: confinedI ageing_same dest!: consumeOtp_only_otps)
  then show ?thesis unfolding changePassword_def
    by (intro token_lives.confined_rules token_lives.confined_modify ageing_same) simp_all
qed

text \<open>The calls that touch links and passwords; a commit may follow a check made earlier.\<close>

datatype access_call =
    Forgot crypto time "string option" uuid string string
  | Reset crypto time string string
  | Reset_commit crypto time string reset_token
  | Change_password crypto time uuid string string string
  | Login crypto jwt time string string

fun accessed :: "access_call \<Rightarrow> store \<Rightarrow> store" where
  "accessed (Forgot c now frontend i raw email) s = snd (forgotPassword c now frontend i raw email s)"
| "accessed (Reset c now raw pw) s = snd (resetForgotten c now raw pw s)"
| "accessed (Reset_commit c now pw t) s = snd (resetPassword_commit c now pw t s)"
| "accessed (Change_password c now u old new code) s = snd (changePassword c now u old new code s)"
| "accessed (Login c j now e p) s = snd (login c j now e p s)"

lemma resetForgotten_ageing: "confined ageing (resetForgotten c now raw pw)"
  unfolding resetForgotten_def
  by (intro token_lives.confined_bind token_lives.confined_reads resetPassword_check_reads resetPassword_commit_ageing)

lemma accessed_ageing: "ageing s (accessed call s)"
  by (cases call) (simp_all add: token_lives.confined_snd forgotPassword_ageing resetForgotten_ageing resetPassword_commit_ageing
      changePassword_ageing login_run token_lives.stays)

text \<open>A token that was used, or that has expired, opens nothing after any calls.\<close>

lemma dead_link:
  assumes "tokens_ok (linksOut s)" and "t \<in> set (linksOut s)" and "rt_tokenHash t = sha256 c raw"
    and "rt_usedAt t \<noteq> None \<or> rt_expiresAt t < now"
  shows "resetForgotten c now raw pw (fold accessed cs s) \<noteq> (Inr (), s')"
proof
  let ?s = "fold accessed cs s"
  assume "resetForgotten c now raw pw ?s = (Inr (), s')"
  then obtain x where x: "find_row rt_tokenHash (sha256 c raw) (linksOut ?s) = Some x" "rt_usedAt x = None" "now \<le> rt_expiresAt x"
    by (auto simp: resetForgotten_def bindM_Inr_iff resetPassword_check_run)
  have "ageing s ?s" by (rule token_lives.along) (rule accessed_ageing)
  with assms(1) have ok: "tokens_ok (linksOut ?s)" and g: "grows same_token (linksOut s) (linksOut ?s)" by (simp_all add: ageing_def)
  from token_life.grows_keeps [OF g assms(2)] obtain t' where t': "t' \<in> set (linksOut ?s)" "same_token t t'" by blast
  then have "rt_tokenHash t' = sha256 c raw" using assms(3) by (simp add: same_token_def)
  with t'(1) ok have "find_row rt_tokenHash (sha256 c raw) (linksOut ?s) = Some t'" by (simp add: find_row_Some_iff tokens_ok_def)
  with x t'(2) assms(4) show False by (auto simp: same_token_def)
qed


text \<open>
  Only the newest link works: once another link has been mailed to an active user, an older
  one of that user opens nothing, whatever is called in between.
\<close>

theorem newest_link_only:
  assumes "forgotPassword c now frontend i raw email s = (Inr (), s')" and "tokens_ok (linksOut s)"
    and "find_row u_email (lower (js_trim email)) (users s) = Some u" and "u_status u = USER_ACTIVE"
    and "t \<in> set (linksOut s)" and "rt_userId t = u_id u" and "rt_tokenHash t = sha256 c old" and "now < now'"
  shows "resetForgotten c now' old pw (fold accessed cs s') \<noteq> (Inr (), s'')"
proof -
  from assms(1,3,4) obtain s1 x where i: "issueToken now \<lparr>rt_id = i, rt_userId = u_id u, rt_tokenHash = sha256 c raw,
      rt_expiresAt = now + minutes RESET_TOKEN_TTL_MINUTES, rt_usedAt = None\<rparr> s = Inr (x, s1)" and s': "linksOut s' = linksOut s1"
    by (auto simp: forgotPassword_def bindM_Inr_iff whenM_def linksOut_def)
  from issueToken_ageing [OF i] assms(2) have ok: "tokens_ok (linksOut s')" by (simp add: ageing_def s')
  let ?t = "if rt_userId t = u_id u \<and> rt_usedAt t = None \<and> now < rt_expiresAt t then t\<lparr>rt_usedAt := Some now\<rparr> else t"
  have "?t \<in> set (linksOut s')"
    using assms(5) by (auto simp: s' issueToken_run(1) [OF i] invalidate_def)
  moreover have "rt_tokenHash ?t = sha256 c old" "rt_usedAt ?t \<noteq> None \<or> rt_expiresAt ?t < now'"
    using assms(6-8) by auto
  ultimately show ?thesis by (rule dead_link [OF ok])
qed

section \<open>The shared credential of a warehouse\<close>

lemma currentManager_Some:
  "currentManager t w s a = Some u \<longleftrightarrow> ma_warehouseId a = w \<and> ma_tenantId a = t \<and> ma_unassignedAt a = None \<and>
     findUser (ma_managerId a) s = Some u \<and> u_status u = USER_ACTIVE \<and> ''WAREHOUSE_MANAGER'' \<in> set (u_roles u)"
  by (auto simp: currentManager_def list_ex_iff split: option.splits)

lemma set_map_filter: "set (List.map_filter f xs) = {y. \<exists>x \<in> set xs. f x = Some y}"
  by (induction xs) (auto simp: List.map_filter_simps split: option.splits)

lemma truthy_opt_Some: "truthy_opt x = Some y \<longleftrightarrow> x = Some y \<and> y \<noteq> []"
  by (auto simp: truthy_opt_def split: option.split)

lemma verifyTyp_run:
  "verifyTyp j now tok typ s = (Inr (w, t), s') \<longleftrightarrow> s' = s \<and> w \<noteq> [] \<and> t \<noteq> [] \<and>
     (\<exists>p. jwt_verify j now tok = Some p \<and> cl_typ p = Some typ \<and> cl_warehouseId p = Some w \<and> cl_tenantId p = Some t)"
  by (auto simp: verifyTyp_def bindM_Inr_iff truthy_opt_Some)

text \<open>
  Who enters a warehouse is entitled to: a session is opened only on a token of the selection
  step that is still valid, for an active user with the role of a warehouse manager, who is
  assigned now to the warehouse and tenant of the token; the session carries that manager's
  identity and that warehouse.
\<close>

theorem session_entitled:
  assumes "selectManager j now tok m s = (Inr a, s')"
  shows "s' = s \<and> u_id (sn_user a) = m \<and> findUser m s = Some (sn_user a) \<and> u_status (sn_user a) = USER_ACTIVE \<and>
    ''WAREHOUSE_MANAGER'' \<in> set (u_roles (sn_user a)) \<and>
    (\<exists>p x. jwt_verify j now tok = Some p \<and> cl_typ p = Some TYP_SELECT_MGR \<and> cl_warehouseId p = Some (sn_warehouseId a) \<and>
       x \<in> set (assignments s) \<and> ma_managerId x = m \<and> ma_warehouseId x = sn_warehouseId a \<and>
       cl_tenantId p = Some (ma_tenantId x) \<and> ma_unassignedAt x = None)"
proof -
  from assms obtain w t where p: "verifyTyp j now tok TYP_SELECT_MGR s = (Inr (w, t), s)"
    and r: "(case List.map_filter (currentManager t w s) (filter (\<lambda>a. ma_managerId a = m) (assignments s)) of
       [] \<Rightarrow> throwM (Unauthorized ''You are not currently assigned to this warehouse.'')
     | u # _ \<Rightarrow> returnM \<lparr>sn_access_token = jwt_sign j (accessClaims u w) now (hours 24), sn_user = u, sn_warehouseId = w\<rparr>) s = (Inr a, s')"
    by (auto simp: selectManager_def bindM_Inr_iff verifyTyp_run)
  from r obtain u us where us: "List.map_filter (currentManager t w s) (filter (\<lambda>a. ma_managerId a = m) (assignments s)) = u # us"
    and a: "a = \<lparr>sn_access_token = jwt_sign j (accessClaims u w) now (hours 24), sn_user = u, sn_warehouseId = w\<rparr>" "s' = s"
    by (auto split: list.splits)
  from us have "u \<in> set (List.map_filter (currentManager t w s) (filter (\<lambda>a. ma_managerId a = m) (assignments s)))" by simp
  then obtain x where "x \<in> set (assignments s)" "ma_managerId x = m" "currentManager t w s x = Some u"
    by (auto simp: set_map_filter)
  with p a show ?thesis by (auto simp: currentManager_Some verifyTyp_run dest: findUser_id)
qed


lemma find_row_map:
  "(\<And>r. key (h r) = key r) \<Longrightarrow> find_row key k (map h rows) = map_option h (find_row key k rows)"
  by (induction rows) (auto simp: find_row_def)

lemma offered_manager_enters:
  assumes "u \<in> set (List.map_filter (currentManager t w s) (assignments s))"
    and "verifyTyp j now tok TYP_SELECT_MGR s = (Inr (w, t), s)"
  shows "\<exists>a. selectManager j now tok (u_id u) s = (Inr a, s) \<and> sn_user a = u"
proof -
  let ?l = "List.map_filter (currentManager t w s) (filter (\<lambda>a. ma_managerId a = u_id u) (assignments s))"
  obtain a where a: "a \<in> set (assignments s)" "currentManager t w s a = Some u" using assms(1) by (auto simp: set_map_filter)
  then have "u_id u = ma_managerId a" by (auto simp: currentManager_Some dest: findUser_id)
  with a have u: "findUser (u_id u) s = Some u" and "u \<in> set ?l" by (auto simp: set_map_filter currentManager_Some)
  then obtain v us where l: "?l = v # us" by (cases ?l) auto
  then have "v \<in> set ?l" by simp
  then have "findUser (u_id u) s = Some v" unfolding set_map_filter by (auto simp: currentManager_Some)
  with u l assms(2) show ?thesis by (simp add: selectManager_def bindM_def getsM_def returnM_def)
qed

text \<open>
  C32. The first sign-in of a warehouse goes through. With the one-time credential the answer asks
  for a new password; with any strong one given within ten minutes the steps go on, the new
  password signs in from now on without that step, and every manager offered can enter with
  the token, until it expires.
\<close>

theorem first_sign_in_completes:
  assumes login: "warehouseLogin c j now e p s = (Inr (Must_Change w tok), s1)"
    and jwt: "\<And>cl t d t'. t \<le> t' \<Longrightarrow> t' < t + d \<Longrightarrow> jwt_verify j t' (jwt_sign j cl t d) = Some cl"
    and hash: "\<And>q. bcrypt_compare c q (bcrypt_hash c q)" "\<And>q. bcrypt_hash c q \<noteq> []"
    and sites: "distinct (map wh_id (warehouses s))" "list_all (\<lambda>x. wh_id x \<noteq> [] \<and> wh_tenantId x \<noteq> []) (warehouses s)"
    and strong: "isStrongPassword q" and t2: "now \<le> now2" "now2 < now + minutes 10" and t3: "now2 \<le> now3" "now3 < now2 + minutes 10"
  shows "\<exists>ms tok2 s2 tok3. changeWarehousePassword c j now2 tok q s1 = (Inr (Select w ms tok2), s2) \<and>
    warehouseLogin c j now4 e q s2 = (Inr (Select w ms tok3), s2) \<and>
    (\<forall>u \<in> set ms. \<exists>a. selectManager j now3 tok2 (u_id u) s2 = (Inr a, s2) \<and> sn_user a = u)"
proof -
  let ?e = "Some (lower (js_trim e))"
  from login obtain x h where x: "find_row wh_email ?e (warehouses s) = Some x" "wh_status x = WH_ACTIVE"
    and w: "w = wh_id x" "s1 = s" "tok = jwt_sign j (stepClaims TYP_CHANGE_PWD (wh_id x) (wh_tenantId x)) now (minutes 10)"
    by (auto simp: warehouseLogin_def bindM_Inr_iff selectStepResponse_def split: if_splits)
  define f where "f = (\<lambda>w :: warehouse. w\<lparr>wh_passwordHash := Some (bcrypt_hash c q), wh_passwordSetAt := Some now2, wh_mustChangePassword := False\<rparr>)"
  define s2 where "s2 = s\<lparr>warehouses := upd_row wh_id (wh_id x) f (warehouses s)\<rparr>"
  have mem: "x \<in> set (warehouses s)" using find_row_SomeD [OF x(1)] by simp
  then have row: "find_row wh_id (wh_id x) (warehouses s) = Some x" using sites(1) by (simp add: find_row_Some_iff)
  have ids: "wh_id x \<noteq> []" "wh_tenantId x \<noteq> []" using mem sites(2) by (simp_all add: list_all_iff)
  let ?ms = "List.map_filter (currentManager (wh_tenantId x) (wh_id x) s2) (assignments s2)"
  let ?tok = "\<lambda>n. jwt_sign j (stepClaims TYP_SELECT_MGR (wh_id x) (wh_tenantId x)) n (minutes 10)"
  have "verifyTyp j now2 tok TYP_CHANGE_PWD s = (Inr (wh_id x, wh_tenantId x), s)"
    using ids jwt [OF t2] by (simp add: verifyTyp_run w(3) stepClaims_def)
  then have change: "changeWarehousePassword c j now2 tok q s1 = (Inr (Select w ?ms (?tok now2)), s2)"
    using strong row by (simp add: changeWarehousePassword_def bindM_def failIfM_def transactM_def selectStepResponse_def getsM_def
        w(1,2) s2_def f_def)
  have "find_row wh_email ?e (warehouses s2) = Some (f x)"
    unfolding s2_def upd_row_def using x(1) by (simp add: find_row_map f_def)
  then have again: "warehouseLogin c j now4 e q s2 = (Inr (Select w ?ms (?tok now4)), s2)"
    using x(2) hash by (simp add: warehouseLogin_def bindM_def requireM_def failIfM_def getsM_def selectStepResponse_def truthy_opt_def
        f_def w(1))
  have "verifyTyp j now3 (?tok now2) TYP_SELECT_MGR s2 = (Inr (wh_id x, wh_tenantId x), s2)"
    using ids jwt [OF t3] by (simp add: verifyTyp_run stepClaims_def)
  then have "\<forall>u \<in> set ?ms. \<exists>a. selectManager j now3 (?tok now2) (u_id u) s2 = (Inr a, s2) \<and> sn_user a = u"
    by (blast intro: offered_manager_enters)
  with change again show ?thesis by blast
qed

section \<open>Worked sign-ins\<close>

text \<open>Tokens that carry their claims and life, coded as a number of strokes.\<close>

type_synonym coded_claims =
  "(string option \<times> uuid option \<times> string option \<times> string list \<times> uuid option \<times> uuid option) \<times> time \<times> time"

definition exJwt :: jwt where
  "exJwt = \<lparr>jwt_sign = (\<lambda>cl t d. replicate (to_nat (((cl_typ cl, cl_sub cl, cl_email cl, cl_roles cl, cl_tenantId cl,
       cl_warehouseId cl), t, d) :: coded_claims)) CHR ''|''),
     jwt_verify = (\<lambda>now tok. case (from_nat (length tok) :: coded_claims) of ((typ, sub, email, roles, tenant, site), t, d) \<Rightarrow>
       if t \<le> now \<and> now < t + d then Some \<lparr>cl_typ = typ, cl_sub = sub, cl_email = email, cl_roles = roles,
         cl_tenantId = tenant, cl_warehouseId = site\<rparr> else None)\<rparr>"

lemma exJwt_verify: "t \<le> t' \<Longrightarrow> t' < t + d \<Longrightarrow> jwt_verify exJwt t' (jwt_sign exJwt cl t d) = Some cl"
  by (simp add: exJwt_def)

text \<open>A verifier that reads every token as one of the selection step of the warehouse.\<close>

definition exGate :: jwt where
  "exGate = \<lparr>jwt_sign = (\<lambda>cl t d. ''tok''), jwt_verify = (\<lambda>now tok. Some (stepClaims TYP_SELECT_MGR ''w'' ''t''))\<rparr>"

theorem tenants_live_witness:
  "tenants_ok (tenants (fold tenant_called [Suspend_tenant ''t'', Reactivate_tenant ''t''] exStore0)) \<and>
   map tn_slug (tenants (fold tenant_called [Suspend_tenant ''t'', Reactivate_tenant ''t''] exStore0)) = [''t'']"
proof -
  let ?cs = "[Suspend_tenant ''t'', Reactivate_tenant ''t'']"
  have "tenants_ok (tenants exStore0)" "hd (tenants exStore0) \<in> set (tenants exStore0)" unfolding tenants_ok_def by code_simp+
  from tenants_live [OF this, of ?cs] have "tenants_ok (tenants (fold tenant_called ?cs exStore0))" by blast
  moreover have "map tn_slug (tenants (fold tenant_called ?cs exStore0)) = [''t'']" by code_simp
  ultimately show ?thesis by simp
qed

theorem suspension_locks_out_witness:
  "fst (login exCrypto exGate 5 ''adm@x.org'' ''pw'' (snd (suspendTenant ''t'' exStore0))) = Inl (BadRequest ''TENANT_SUSPENDED'') \<and>
   map_option u_id (case fst (login exCrypto exGate 5 ''ada@x.org'' ''pw'' (snd (suspendTenant ''t'' exStore0))) of
     Inl _ \<Rightarrow> None | Inr a \<Rightarrow> Some (lg_user a)) = Some ''ada''"
proof -
  let ?s1 = "snd (suspendTenant ''t'' exStore0)"
  have "case suspendTenant ''t'' exStore0 of (Inl _, _) \<Rightarrow> False | (Inr a, s') \<Rightarrow> True" by code_simp
  then obtain i where i: "suspendTenant ''t'' exStore0 = (Inr i, ?s1)" by (rule ran) simp
  have "case reactivateTenant ''t'' ?s1 of (Inl _, _) \<Rightarrow> False | (Inr a, s') \<Rightarrow> True" by code_simp
  then obtain k s2 where k: "reactivateTenant ''t'' ?s1 = (Inr k, s2)" by (rule ran)
  note locked = suspension_locks_out [OF i k, THEN conjunct1]
  have adm: "case fst (login exCrypto exGate 5 ''adm@x.org'' ''pw'' exStore0) of Inl _ \<Rightarrow> False
      | Inr a \<Rightarrow> u_tenantId (lg_user a) = ''t'' \<and> list_all (\<lambda>r. r = ''TENANT_ADMIN'') (u_roles (lg_user a))"
    and ada: "case fst (login exCrypto exGate 5 ''ada@x.org'' ''pw'' exStore0) of Inl _ \<Rightarrow> False
      | Inr a \<Rightarrow> u_id (lg_user a) = ''ada'' \<and> u_roles (lg_user a) = [''CLIENT'']" by code_simp+
  have "fst (login exCrypto exGate 5 ''adm@x.org'' ''pw'' ?s1) = Inl (BadRequest ''TENANT_SUSPENDED'')"
    unfolding locked using adm by (auto simp: tenantStaff_def list_all_iff split: sum.splits)
  moreover have "map_option u_id (case fst (login exCrypto exGate 5 ''ada@x.org'' ''pw'' ?s1) of
      Inl _ \<Rightarrow> None | Inr a \<Rightarrow> Some (lg_user a)) = Some ''ada''"
    unfolding locked using ada by (auto simp: tenantStaff_def split: sum.splits)
  ultimately show ?thesis by simp
qed

text \<open>\<open>ada\<close> asks for a link, and for another one; a link resets her password.\<close>

definition exForgot :: store where
  "exForgot = snd (forgotPassword exCrypto 10 None ''k1'' ''raw1'' ''ADA@x.org'' exStore0)"

definition exForgotTwice :: store where
  "exForgotTwice = snd (forgotPassword exCrypto 20 None ''k2'' ''raw2'' ''ada@x.org'' exForgot)"

definition exReset :: store where
  "exReset = snd (resetForgotten exCrypto 30 ''raw1'' ''Secret77'' exForgot)"

lemma exForgot_tokens: "tokens_ok (linksOut exForgot)" "map rt_tokenHash (linksOut exForgot) = [''raw1'']"
  unfolding tokens_ok_def by code_simp+


theorem newest_link_only_witness:
  "resetForgotten exCrypto 30 ''raw1'' ''Secret77'' exForgotTwice \<noteq> (Inr (), exForgot)"
proof -
  let ?f = "forgotPassword exCrypto 20 None ''k2'' ''raw2'' ''ada@x.org'' exForgot"
  have "case fst ?f of Inl _ \<Rightarrow> False | Inr _ \<Rightarrow> True" by code_simp
  then have f: "?f = (Inr (), exForgotTwice)" by (cases ?f) (auto simp: exForgotTwice_def split: sum.splits)
  have u: "find_row u_email (lower (js_trim ''ada@x.org'')) (users exForgot) = Some (hd (users exForgot))"
    "u_status (hd (users exForgot)) = USER_ACTIVE" and t: "hd (linksOut exForgot) \<in> set (linksOut exForgot)"
    "rt_userId (hd (linksOut exForgot)) = u_id (hd (users exForgot))"
    "rt_tokenHash (hd (linksOut exForgot)) = sha256 exCrypto ''raw1''" by code_simp+
  from newest_link_only [OF f exForgot_tokens(1) u t, of 30 _ "[]"] show ?thesis by simp
qed

theorem session_entitled_witness:
  "\<exists>a. selectManager exGate 5 ''tok'' ''mgr'' exStore0 = (Inr a, exStore0) \<and> u_id (sn_user a) = ''mgr'' \<and>
     u_status (sn_user a) = USER_ACTIVE \<and> sn_warehouseId a = ''w''"
proof -
  have "case selectManager exGate 5 ''tok'' ''mgr'' exStore0 of (Inl _, _) \<Rightarrow> False | (Inr a, s') \<Rightarrow> sn_warehouseId a = ''w''"
    by code_simp
  then obtain a s' where r: "selectManager exGate 5 ''tok'' ''mgr'' exStore0 = (Inr a, s')" and w: "sn_warehouseId a = ''w''" by (rule ran)
  from session_entitled [OF r] r w show ?thesis by blast
qed


text \<open>The warehouse before its first sign-in.\<close>

definition exFresh :: store where
  "exFresh = exStore0\<lparr>warehouses := map (\<lambda>w. w\<lparr>wh_mustChangePassword := True\<rparr>) (warehouses exStore0)\<rparr>"

lemma exFresh_login:
  "warehouseLogin exCrypto exJwt 5 ''w@x.org'' ''Secret12'' exFresh =
     (Inr (Must_Change ''w'' (jwt_sign exJwt (stepClaims TYP_CHANGE_PWD ''w'' ''t'') 5 (minutes 10))), exFresh)"
proof -
  let ?w = "hd (warehouses exFresh)"
  have "find_row wh_email (Some (lower (js_trim ''w@x.org''))) (warehouses exFresh) = Some ?w" "wh_id ?w = ''w''" "wh_tenantId ?w = ''t''"
    "truthy_opt (wh_passwordHash ?w) = Some ''#Secret12''" "wh_status ?w = WH_ACTIVE" "wh_mustChangePassword ?w"
    "bcrypt_compare exCrypto ''Secret12'' ''#Secret12''" by code_simp+
  then show ?thesis by (simp add: warehouseLogin_def bindM_def getsM_def requireM_def failIfM_def returnM_def)
qed

theorem first_sign_in_completes_witness:
  "\<exists>tok ms tok2 s2. fst (warehouseLogin exCrypto exJwt 5 ''w@x.org'' ''Secret12'' exFresh) = Inr (Must_Change ''w'' tok) \<and>
     changeWarehousePassword exCrypto exJwt 50 tok ''Granary99'' exFresh = (Inr (Select ''w'' ms tok2), s2) \<and>
     (\<exists>tok3. warehouseLogin exCrypto exJwt 70 ''w@x.org'' ''Granary99'' s2 = (Inr (Select ''w'' ms tok3), s2))"
proof -
  have hash: "bcrypt_compare exCrypto q (bcrypt_hash exCrypto q)" "bcrypt_hash exCrypto q \<noteq> []" for q
    by (simp_all add: exCrypto_def)
  have sites: "distinct (map wh_id (warehouses exFresh))" "list_all (\<lambda>x. wh_id x \<noteq> [] \<and> wh_tenantId x \<noteq> []) (warehouses exFresh)"
    and strong: "isStrongPassword ''Granary99''"
    and t: "(5::time) \<le> 50" "50 < 5 + minutes 10" "(50::time) \<le> 60" "60 < 50 + minutes 10" by code_simp+
  from first_sign_in_completes [OF exFresh_login exJwt_verify hash sites strong t, of 70] show ?thesis
    unfolding exFresh_login by auto
qed

end
