(* ===== verification/Clients.thy ===== *)
theory Clients
  imports Authentication Accounts Deposits Withdrawals
begin

text \<open>
  The client registry of a warehouse manager, \<open>src/warehouse-manager/warehouse-manager.service.ts\<close>:
  registration with directors and documents, edits, the identifiers NIN and BVN unique within
  a tenant, which clients a manager sees, and the lookup by identifier with its rate limit.
  The login address and the temporary password are derived as for managers; only the text of
  the refusal of an address differs. The detail of one client (\<open>getClient\<close>) and the charts
  are left out.

  The storage service is a parameter: the public base address and the keys that exist. The
  columns only copied from the request are given by name in \<open>details\<close>.
\<close>

section \<open>Requests\<close>

record director_dto =
  dt_ref :: "string option"
  dt_firstName :: string
  dt_lastName :: string
  dt_details :: json

record document_dto =
  du_type :: string
  du_scope :: document_scope
  du_url :: string
  du_directorRef :: "string option"
  du_fileName :: "string option"
  du_fileSize :: "int option"
  du_mimeType :: "string option"

record create_client_dto =
  cc_mode :: "client_mode option"
  cc_firstName :: string
  cc_lastName :: string
  cc_email :: "string option"
  cc_phoneNumber :: "string option"
  cc_gender :: "string option"
  cc_dateOfBirth :: "time option"
  cc_residentialAddress :: "string option"
  cc_profilePhotoUrl :: "string option"
  cc_idDocumentUrl :: "string option"
  cc_type :: "client_type option"
  cc_nin :: "string option"
  cc_bvn :: "string option"
  cc_nationalId :: "string option"
  cc_idNumber :: "string option"
  cc_rcNumber :: "string option"
  cc_companyName :: "string option"
  cc_companyCategory :: "string option"
  cc_companyCategoryOther :: "string option"
  cc_details :: json
  cc_focusCommodityIds :: "uuid list"
  cc_directors :: "director_dto list"
  cc_documents :: "document_dto list"

section \<open>Checks\<close>

definition blank :: "string option \<Rightarrow> bool" where
  "blank t \<longleftrightarrow> (case t of None \<Rightarrow> True | Some x \<Rightarrow> js_trim x = [])"

definition organisationError :: "create_client_dto \<Rightarrow> err option" where
  "organisationError dto =
     (if blank (cc_rcNumber dto) then Some (BadRequest ''rcNumber is required for ORGANIZATION clients.'')
      else if blank (cc_companyName dto) then Some (BadRequest ''companyName is required for ORGANIZATION clients.'')
      else if cc_companyCategory dto = Some ''OTHER'' \<and> blank (cc_companyCategoryOther dto)
      then Some (BadRequest ''companyCategoryOther is required when companyCategory = OTHER.'')
      else None)"

definition refuseM :: "err option \<Rightarrow> unit handler" where
  "refuseM e = (case e of None \<Rightarrow> returnM () | Some x \<Rightarrow> throwM x)"

definition generateClientCode :: "nat \<Rightarrow> uuid \<Rightarrow> store \<Rightarrow> string" where
  "generateClientCode year tenantId s =
     runningCode ''CLT'' year (length (filter (\<lambda>p. cf_tenantId p = tenantId) (clientProfiles s)))"

definition focusKnown :: "uuid \<Rightarrow> uuid list \<Rightarrow> store \<Rightarrow> bool" where
  "focusKnown tenantId ids s \<longleftrightarrow>
     length (filter (\<lambda>c. co_tenantId c = tenantId \<and> co_id c \<in> set ids) (commodities s)) = length ids"

definition requireFocus :: "uuid \<Rightarrow> uuid list \<Rightarrow> unit handler" where
  "requireFocus tenantId ids =
     bindM (getsM (focusKnown tenantId ids)) (\<lambda>known.
       failIfM (ids \<noteq> [] \<and> \<not> known) (BadRequest ''One or more focusCommodityIds are invalid for this tenant''))"

text \<open>Another profile of the tenant with the value; an edit leaves out the client's own.\<close>

definition clashing ::
    "(client_profile \<Rightarrow> string option) \<Rightarrow> uuid \<Rightarrow> string option \<Rightarrow> uuid option \<Rightarrow> store \<Rightarrow> bool" where
  "clashing column tenantId value excludeUserId s \<longleftrightarrow>
     (case truthy_opt value of None \<Rightarrow> False
      | Some v \<Rightarrow> list_ex (\<lambda>p. cf_tenantId p = tenantId \<and> column p = Some v \<and>
          (case truthy_opt excludeUserId of None \<Rightarrow> True | Some u \<Rightarrow> cf_userId p \<noteq> u)) (clientProfiles s))"

definition assertIdentifiersUnique :: "uuid \<Rightarrow> string option \<Rightarrow> string option \<Rightarrow> uuid option \<Rightarrow> unit handler" where
  "assertIdentifiersUnique tenantId nin bvn excludeUserId =
     bindM (getsM (clashing cf_nin tenantId nin excludeUserId)) (\<lambda>n.
     bindM (failIfM n (Conflict ''NIN_ALREADY_IN_USE'')) (\<lambda>_.
     bindM (getsM (clashing cf_bvn tenantId bvn excludeUserId)) (\<lambda>b.
       failIfM b (Conflict ''BVN_ALREADY_IN_USE''))))"

definition refsOf :: "director_dto list \<Rightarrow> string list" where
  "refsOf ds = List.map_filter (\<lambda>d. truthy_opt (dt_ref d)) ds"

text \<open>\<open>refs\<close> is absent when an edit leaves the directors alone: then any reference passes.\<close>

definition documentError :: "string list option \<Rightarrow> document_dto list \<Rightarrow> err option" where
  "documentError refs docs =
     (case find (\<lambda>d. du_scope d = SCOPE_DIRECTOR \<and> (case truthy_opt (du_directorRef d) of
           None \<Rightarrow> True | Some r \<Rightarrow> (case refs of None \<Rightarrow> False | Some rs \<Rightarrow> r \<notin> set rs))) docs of
        None \<Rightarrow> None
      | Some d \<Rightarrow> Some (BadRequest (if truthy_opt (du_directorRef d) = None
          then ''documents with scope=DIRECTOR must include directorRef.''
          else ''documents[].directorRef does not match any director.ref in this payload.'')))"

record storage =
  sg_base :: string
  sg_exists :: "string \<Rightarrow> bool"

definition publicBaseUrl :: "storage \<Rightarrow> string" where
  "publicBaseUrl g = rev (dropWhile (\<lambda>ch. ch = CHR ''/'') (rev (sg_base g)))"

definition isOwnedUrl :: "storage \<Rightarrow> string \<Rightarrow> bool" where
  "isOwnedUrl g url \<longleftrightarrow> url \<noteq> [] \<and> take (length (publicBaseUrl g @ ''/files/'')) url = publicBaseUrl g @ ''/files/''"

definition extractKey :: "storage \<Rightarrow> string \<Rightarrow> string option" where
  "extractKey g url = (if isOwnedUrl g url then Some (drop (length (publicBaseUrl g @ ''/files/'')) url) else None)"

definition ownedUrlError :: "storage \<Rightarrow> string \<Rightarrow> err option" where
  "ownedUrlError g url = (case extractKey g url of
     None \<Rightarrow> Some (BadRequest ''File URL is not recognised by the storage service.'')
   | Some key \<Rightarrow> if sg_exists g key then None else Some (BadRequest ''File URL points to a missing object''))"

definition assertOwnedUrls :: "storage \<Rightarrow> string option list \<Rightarrow> unit handler" where
  "assertOwnedUrls g urls = forM (List.map_filter truthy_opt urls) (\<lambda>url. refuseM (ownedUrlError g url))"

section \<open>Registration\<close>

definition clientUser :: "crypto \<Rightarrow> uuid \<Rightarrow> uuid \<Rightarrow> string \<Rightarrow> string \<Rightarrow> create_client_dto \<Rightarrow> user" where
  "clientUser c i tenantId email tempPassword dto = user_defaults\<lparr>
     u_id := i, u_email := email, u_contactEmail := cc_email dto, u_password := bcrypt_hash c tempPassword,
     u_firstName := cc_firstName dto, u_lastName := cc_lastName dto, u_tenantId := tenantId,
     u_phoneNumber := cc_phoneNumber dto, u_gender := cc_gender dto, u_dateOfBirth := cc_dateOfBirth dto,
     u_residentialAddress := cc_residentialAddress dto, u_profilePhotoUrl := cc_profilePhotoUrl dto,
     u_roles := [''CLIENT'']\<rparr>"

definition photoDetails :: "string option \<Rightarrow> string option \<Rightarrow> json" where
  "photoDetails photo idDocument =
     (case photo of None \<Rightarrow> [] | Some u \<Rightarrow> [(''profilePhotoUrl'', u)]) @
     (case idDocument of None \<Rightarrow> [] | Some u \<Rightarrow> [(''idDocumentUrl'', u)])"

definition modeOf :: "create_client_dto \<Rightarrow> client_mode" where
  "modeOf dto = given (cc_mode dto) MODE_INDIVIDUAL"

definition newProfile :: "uuid \<Rightarrow> uuid \<Rightarrow> uuid \<Rightarrow> string \<Rightarrow> uuid \<Rightarrow> create_client_dto \<Rightarrow> client_profile" where
  "newProfile i userId tenantId clientCode managerUserId dto =
     \<lparr>cf_id = i, cf_userId = userId, cf_tenantId = tenantId, cf_clientCode = clientCode,
      cf_registeredByManagerId = Some managerUserId, cf_mode = modeOf dto,
      cf_type = given (cc_type dto) (if modeOf dto = MODE_ORGANIZATION then CT_COMPANY else CT_FARMER),
      cf_nin = cc_nin dto, cf_bvn = cc_bvn dto, cf_nationalId = cc_nationalId dto, cf_idNumber = cc_idNumber dto,
      cf_rcNumber = cc_rcNumber dto, cf_companyName = cc_companyName dto, cf_companyCategory = cc_companyCategory dto,
      cf_companyCategoryOther = cc_companyCategoryOther dto,
      cf_details = cc_details dto @ photoDetails (cc_profilePhotoUrl dto) (cc_idDocumentUrl dto)\<rparr>"

definition insertProfile :: "client_profile \<Rightarrow> store \<Rightarrow> err + client_profile \<times> store" where
  "insertProfile p s =
     (if cf_id p \<in> cf_id ` set (clientProfiles s) then Inl (Db (P2002 ''id''))
      else if cf_userId p \<in> cf_userId ` set (clientProfiles s) then Inl (Db (P2002 ''user_id''))
      else if cf_clientCode p \<in> cf_clientCode ` set (clientProfiles s) then Inl (Db (P2002 ''client_code''))
      else Inr (p, s\<lparr>clientProfiles := clientProfiles s @ [p]\<rparr>))"

definition newDirectors :: "(nat \<Rightarrow> uuid) \<Rightarrow> uuid \<Rightarrow> uuid \<Rightarrow> director_dto list \<Rightarrow> client_director list" where
  "newDirectors ids tenantId profileId ds =
     map (\<lambda>(k, d). \<lparr>dr_id = ids k, dr_tenantId = tenantId, dr_clientProfileId = profileId,
       dr_firstName = dt_firstName d, dr_lastName = dt_lastName d, dr_details = dt_details d\<rparr>) (enumerate 0 ds)"

text \<open>A later director of the same reference replaces the earlier in the map.\<close>

definition refToId :: "(nat \<Rightarrow> uuid) \<Rightarrow> director_dto list \<Rightarrow> string \<Rightarrow> uuid option" where
  "refToId ids ds = map_of (rev (concat (map (\<lambda>(k, d). case truthy_opt (dt_ref d) of
     None \<Rightarrow> [] | Some r \<Rightarrow> [(r, ids k)]) (enumerate 0 ds))))"

definition newDocuments ::
    "(nat \<Rightarrow> uuid) \<Rightarrow> uuid \<Rightarrow> uuid \<Rightarrow> (string \<Rightarrow> uuid option) \<Rightarrow> document_dto list \<Rightarrow> client_document list" where
  "newDocuments ids tenantId profileId scopeRef docs =
     map (\<lambda>(k, d). \<lparr>dc_id = ids k, dc_tenantId = tenantId, dc_clientProfileId = profileId, dc_type = du_type d,
       dc_scope = du_scope d,
       dc_scopeRefId = (if du_scope d = SCOPE_DIRECTOR then Option.bind (truthy_opt (du_directorRef d)) scopeRef else None),
       dc_url = du_url d, dc_fileName = du_fileName d, dc_fileSize = du_fileSize d, dc_mimeType = du_mimeType d\<rparr>)
       (enumerate 0 docs)"

definition newFocus :: "uuid \<Rightarrow> uuid \<Rightarrow> uuid list \<Rightarrow> focus_commodity list" where
  "newFocus tenantId profileId ids =
     map (\<lambda>k. \<lparr>fc_tenantId = tenantId, fc_clientProfileId = profileId, fc_commodityId = k\<rparr>) ids"

definition addRows ::
    "focus_commodity list \<Rightarrow> client_director list \<Rightarrow> client_document list \<Rightarrow> store \<Rightarrow> store" where
  "addRows fs ds docs s = s\<lparr>clientTables := (clientTables s)\<lparr>focusCommodities := focusCommodities (clientTables s) @ fs,
     directors := directors (clientTables s) @ ds, documents := documents (clientTables s) @ docs\<rparr>\<rparr>"

text \<open>The ids drawn: the user's, the profile's, then the directors' and the documents'.\<close>

definition registerTx ::
    "(nat \<Rightarrow> uuid) \<Rightarrow> uuid \<Rightarrow> uuid list \<Rightarrow> director_dto list \<Rightarrow> document_dto list \<Rightarrow> user \<Rightarrow> client_profile
     \<Rightarrow> store \<Rightarrow> err + client_profile \<times> store" where
  "registerTx ids tenantId focusIds ds docs u p s =
     andThen (insertUser u s) (\<lambda>(_, s1).
     andThen (insertProfile p s1) (\<lambda>(p, s2).
       let dirIds = (\<lambda>k. ids (k + 2)); docIds = (\<lambda>k. ids (k + 2 + length ds))
       in Inr (p, addRows (newFocus tenantId (cf_id p) focusIds) (newDirectors dirIds tenantId (cf_id p) ds)
         (newDocuments docIds tenantId (cf_id p) (refToId dirIds ds) docs) s2)))"

definition createClient ::
    "crypto \<Rightarrow> storage \<Rightarrow> nat \<Rightarrow> draws \<Rightarrow> (nat \<Rightarrow> uuid) \<Rightarrow> uuid \<Rightarrow> uuid \<Rightarrow> create_client_dto
     \<Rightarrow> (client_profile \<times> credentials) handler" where
  "createClient c g year draw ids tenantId managerUserId dto =
     bindM (requireRole ''CLIENT'') (\<lambda>_.
     bindM (refuseM (if modeOf dto = MODE_ORGANIZATION then organisationError dto else None)) (\<lambda>_.
     bindM (deriveLoginEmail (cc_firstName dto) (cc_lastName dto)) (\<lambda>email.
     let tempPassword = generateTempPassword draw;
         focusIds = firsts (cc_focusCommodityIds dto);
         ds = (if modeOf dto = MODE_ORGANIZATION then cc_directors dto else []);
         docs = (if modeOf dto = MODE_ORGANIZATION then cc_documents dto else [])
     in
     bindM (getsM (generateClientCode year tenantId)) (\<lambda>clientCode.
     bindM (requireFocus tenantId focusIds) (\<lambda>_.
     bindM (assertIdentifiersUnique tenantId (cc_nin dto) (cc_bvn dto) None) (\<lambda>_.
     bindM (refuseM (documentError (Some (refsOf ds)) docs)) (\<lambda>_.
     bindM (assertOwnedUrls g (cc_profilePhotoUrl dto # cc_idDocumentUrl dto # map (\<lambda>d. Some (du_url d)) docs)) (\<lambda>_.
     bindM (transactM (registerTx ids tenantId focusIds ds docs (clientUser c (ids 0) tenantId email tempPassword dto)
       (newProfile (ids 1) (ids 0) tenantId clientCode managerUserId dto))) (\<lambda>p.
     bindM (case truthy_opt (cc_email dto) of None \<Rightarrow> returnM () | Some e \<Rightarrow> credentialsMail e tempPassword) (\<lambda>_.
     bindM (notifyUser tenantId N_CLIENT_CREDENTIALS_ISSUED ''client'' (cf_userId p) (cf_userId p)) (\<lambda>_.
     bindM (notifyTenantAdmins tenantId N_CLIENT_REGISTERED ''client'' (cf_userId p)) (\<lambda>_.
       returnM (p, \<lparr>cr_email = email, cr_temporaryPassword = tempPassword\<rparr>)))))))))))))"

section \<open>Which clients a manager sees\<close>

text \<open>Registered by the manager, or with a receipt in scope, or attached there.\<close>

definition inClientScope :: "uuid list option \<Rightarrow> uuid \<Rightarrow> store \<Rightarrow> client_profile \<Rightarrow> bool" where
  "inClientScope scope managerUserId s p \<longleftrightarrow>
     (case scope of None \<Rightarrow> True
      | Some sites \<Rightarrow> cf_registeredByManagerId p = Some managerUserId \<or>
          list_ex (\<lambda>r. r_clientId r = cf_userId p \<and> r_warehouseId r \<in> set sites) (receipts s) \<or>
          list_ex (\<lambda>a. at_clientId a = cf_userId p \<and> at_warehouseId a \<in> set sites \<and> at_detachedAt a = None) (attachments s))"

definition visibleClients :: "uuid \<Rightarrow> uuid \<Rightarrow> string list \<Rightarrow> store \<Rightarrow> client_profile list" where
  "visibleClients tenantId managerUserId effective s =
     filter (\<lambda>p. cf_tenantId p = tenantId \<and>
       inClientScope (warehouseIds tenantId managerUserId effective s) managerUserId s p) (clientProfiles s)"

record client_query =
  cq_search :: "string option"
  cq_type :: "client_type option"
  cq_page :: "string option"
  cq_limit :: "string option"

definition clientFound :: "string \<Rightarrow> store \<Rightarrow> client_profile \<Rightarrow> bool" where
  "clientFound t s p \<longleftrightarrow> contains_insensitive t (cf_clientCode p) \<or>
     (case findUser (cf_userId p) s of None \<Rightarrow> False
      | Some u \<Rightarrow> contains_insensitive t (u_firstName u) \<or> contains_insensitive t (u_lastName u) \<or>
          contains_insensitive t (u_email u))"

definition inScopeReceipt :: "uuid \<Rightarrow> uuid list option \<Rightarrow> uuid \<Rightarrow> receipt \<Rightarrow> bool" where
  "inScopeReceipt tenantId scope clientId r \<longleftrightarrow> r_tenantId r = tenantId \<and> r_clientId r = clientId \<and>
     (case scope of None \<Rightarrow> True | Some sites \<Rightarrow> r_warehouseId r \<in> set sites)"

definition lastDeposit :: "uuid \<Rightarrow> uuid list option \<Rightarrow> uuid \<Rightarrow> store \<Rightarrow> time option" where
  "lastDeposit tenantId scope clientId s =
     (case map r_dateOfDeposit (filter (\<lambda>r. inScopeReceipt tenantId scope clientId r \<and> r_parentReceiptId r = None) (receipts s)) of
        [] \<Rightarrow> None
      | d # ds \<Rightarrow> Some (fold max ds d))"

text \<open>The storage fee accrued on one receipt in the warehouse, \<open>None\<close> without a policy or a conversion.\<close>

definition accruedFee :: "time \<Rightarrow> uuid \<Rightarrow> store \<Rightarrow> receipt \<Rightarrow> dec option" where
  "accruedFee now tenantId s r =
     (case (resolvePolicy tenantId (r_warehouseId r) (r_commodityId r) s, find_row co_id (r_commodityId r) (commodities s)) of
        (Inr p, Some k) \<Rightarrow> (case calculateFee p (r_quantity r) (co_unitOfMeasure k) (r_dateOfDeposit r) now (co_standardBagWeightKg k) of
            Inl _ \<Rightarrow> None | Inr fee \<Rightarrow> Some fee)
      | _ \<Rightarrow> None)"

definition outstandingFee :: "time \<Rightarrow> uuid \<Rightarrow> uuid list option \<Rightarrow> uuid \<Rightarrow> store \<Rightarrow> dec option" where
  "outstandingFee now tenantId scope clientId s =
     (case List.map_filter (accruedFee now tenantId s)
         (filter (\<lambda>r. inScopeReceipt tenantId scope clientId r \<and> r_status r \<in> set (ACTIVE # HELD)) (receipts s)) of
        [] \<Rightarrow> None
      | fees \<Rightarrow> Some (sum_list fees))"

record listed_client =
  lc_profile :: client_profile
  lc_user :: "user option"
  lc_totalReceipts :: nat
  lc_lastDeposit :: "time option"
  lc_outstandingFee :: "dec option"

text \<open>\<open>totalPages: Math.ceil(total / limit) || 1\<close>: an empty listing counts as one page.\<close>

definition atLeastOnePage :: "'r page handler \<Rightarrow> 'r page handler" where
  "atLeastOnePage m = bindM m (\<lambda>pg. returnM (pg\<lparr>pg_totalPages := max 1 (pg_totalPages pg)\<rparr>))"

definition listClients :: "time \<Rightarrow> uuid \<Rightarrow> uuid \<Rightarrow> string list \<Rightarrow> client_query \<Rightarrow> listed_client page handler" where
  "listClients now tenantId managerUserId effective q =
     atLeastOnePage (paginate (cq_page q) (cq_limit q) (\<lambda>s. map (\<lambda>p. let scope = warehouseIds tenantId managerUserId effective s in
         \<lparr>lc_profile = p, lc_user = findUser (cf_userId p) s,
          lc_totalReceipts = length (filter (\<lambda>r. r_clientId r = cf_userId p) (receipts s)),
          lc_lastDeposit = lastDeposit tenantId scope (cf_userId p) s,
          lc_outstandingFee = outstandingFee now tenantId scope (cf_userId p) s\<rparr>)
       (rev (filter (\<lambda>p. (case truthy_opt (cq_search q) of None \<Rightarrow> True | Some t \<Rightarrow> clientFound t s p) \<and>
           (case cq_type q of None \<Rightarrow> True | Some ty \<Rightarrow> cf_type p = ty)) (visibleClients tenantId managerUserId effective s)))))"

definition getClientStats :: "uuid \<Rightarrow> uuid \<Rightarrow> string list \<Rightarrow> (nat \<times> nat \<times> nat) handler" where
  "getClientStats tenantId managerUserId effective =
     getsM (\<lambda>s. let mine = visibleClients tenantId managerUserId effective s;
         withStatus = (\<lambda>sts. length (filter (\<lambda>p. case findUser (cf_userId p) s of None \<Rightarrow> False | Some u \<Rightarrow> u_status u \<in> set sts) mine))
       in (length mine, withStatus [USER_ACTIVE], withStatus [USER_INACTIVE, USER_SUSPENDED, USER_DEACTIVATED]))"

definition assertClientInScope :: "uuid \<Rightarrow> uuid \<Rightarrow> string list \<Rightarrow> uuid \<Rightarrow> unit handler" where
  "assertClientInScope tenantId managerUserId effective clientId =
     bindM (getsM (\<lambda>s. list_ex (\<lambda>p. cf_tenantId p = tenantId \<and> cf_userId p = clientId \<and>
         (case warehouseIds tenantId managerUserId effective s of None \<Rightarrow> True
          | Some sites \<Rightarrow> list_ex (\<lambda>r. r_clientId r = clientId \<and> r_warehouseId r \<in> set sites) (receipts s))) (clientProfiles s)))
       (\<lambda>ok. failIfM (\<not> ok) (Forbidden ''Client not in your warehouse scope or not found''))"

definition assertReceiptInScope :: "uuid \<Rightarrow> uuid \<Rightarrow> string list \<Rightarrow> uuid \<Rightarrow> unit handler" where
  "assertReceiptInScope tenantId managerUserId effective receiptId =
     bindM (getsM (\<lambda>s. list_ex (\<lambda>r. r_id r = receiptId \<and> r_tenantId r = tenantId \<and>
         (case warehouseIds tenantId managerUserId effective s of None \<Rightarrow> True | Some sites \<Rightarrow> r_warehouseId r \<in> set sites)) (receipts s)))
       (\<lambda>ok. failIfM (\<not> ok) (Forbidden ''Receipt not in your warehouse scope or not found''))"

section \<open>Acting for a client\<close>

definition actingFor :: "uuid \<Rightarrow> uuid \<Rightarrow> string list \<Rightarrow> uuid \<Rightarrow> uuid \<Rightarrow> unit handler" where
  "actingFor tenantId managerUserId effective clientId receiptId =
     bindM (assertClientInScope tenantId managerUserId effective clientId) (\<lambda>_.
       assertReceiptInScope tenantId managerUserId effective receiptId)"

definition requestClientTransactionOtp ::
    "crypto \<Rightarrow> time \<Rightarrow> uuid \<Rightarrow> nat \<Rightarrow> uuid \<Rightarrow> uuid \<Rightarrow> string list \<Rightarrow> uuid \<Rightarrow> otp_purpose \<Rightarrow> otp_ticket handler" where
  "requestClientTransactionOtp c now otpId draw tenantId managerUserId effective clientId purpose =
     bindM (assertClientInScope tenantId managerUserId effective clientId) (\<lambda>_.
       requestTransactionOtp c now otpId draw clientId purpose)"

definition createWithdrawalOnBehalf ::
    "crypto \<Rightarrow> time \<Rightarrow> uuid \<Rightarrow> string \<Rightarrow> uuid \<Rightarrow> uuid \<Rightarrow> string list \<Rightarrow> uuid \<Rightarrow> create_withdrawal_dto \<Rightarrow> withdrawal handler" where
  "createWithdrawalOnBehalf c now i reference tenantId managerUserId effective clientId dto =
     bindM (actingFor tenantId managerUserId effective clientId (cw_receiptId dto)) (\<lambda>_.
       createWithdrawalRequest c now i reference tenantId dto clientId True)"

definition createLoanOnBehalf ::
    "crypto \<Rightarrow> time \<Rightarrow> (nat \<Rightarrow> uuid) \<Rightarrow> string \<Rightarrow> uuid \<Rightarrow> uuid \<Rightarrow> string list \<Rightarrow> uuid \<Rightarrow> create_loan_dto \<Rightarrow> (loan \<times> uuid) handler" where
  "createLoanOnBehalf c now ids reference tenantId managerUserId effective clientId dto =
     bindM (actingFor tenantId managerUserId effective clientId (cl_receiptId dto)) (\<lambda>_.
       createLoan c now ids reference tenantId dto clientId (Some managerUserId) True)"

definition createTradeOnBehalf ::
    "crypto \<Rightarrow> time \<Rightarrow> (nat \<Rightarrow> uuid) \<Rightarrow> string \<Rightarrow> uuid \<Rightarrow> uuid \<Rightarrow> string list \<Rightarrow> uuid \<Rightarrow> create_trade_dto \<Rightarrow> (trade \<times> string) handler" where
  "createTradeOnBehalf c now ids reference tenantId managerUserId effective clientId dto =
     bindM (actingFor tenantId managerUserId effective clientId (ct_receiptId dto)) (\<lambda>_.
       createTrade c now ids reference tenantId dto clientId (Some managerUserId) True)"

definition dispatchWithdrawal :: "time \<Rightarrow> uuid \<Rightarrow> uuid \<Rightarrow> uuid \<Rightarrow> string list \<Rightarrow> uuid \<Rightarrow> completion handler" where
  "dispatchWithdrawal now evId tenantId managerUserId effective withdrawalId =
     bindM (getsM (\<lambda>s. find (\<lambda>w. w_id w = withdrawalId \<and> w_tenantId w = tenantId) (withdrawals s))) (\<lambda>found.
     bindM (requireM (NotFound ''Withdrawal not found'') found) (\<lambda>w.
     bindM (assertReceiptInScope tenantId managerUserId effective (w_receiptId w)) (\<lambda>_.
       completeWithdrawal now evId tenantId withdrawalId (Some managerUserId))))"

definition getClientEligibleReceipts ::
    "uuid \<Rightarrow> uuid \<Rightarrow> string list \<Rightarrow> uuid \<Rightarrow> eligible_view list handler" where
  "getClientEligibleReceipts tenantId managerUserId effective clientId =
     bindM (assertClientInScope tenantId managerUserId effective clientId) (\<lambda>_.
       getsM (\<lambda>s. getEligibleReceipts tenantId clientId (warehouseIds tenantId managerUserId effective s) None s))"

definition getClientPledgeableReceipts ::
    "uuid \<Rightarrow> uuid \<Rightarrow> string list \<Rightarrow> uuid \<Rightarrow> string option \<Rightarrow> pledgeable_view list handler" where
  "getClientPledgeableReceipts tenantId managerUserId effective clientId commodity =
     bindM (assertClientInScope tenantId managerUserId effective clientId) (\<lambda>_.
       getsM (\<lambda>s. getPledgeableReceipts tenantId clientId commodity (warehouseIds tenantId managerUserId effective s) s))"

section \<open>Edits\<close>

record update_client_dto =
  uc_firstName :: "string option"
  uc_lastName :: "string option"
  uc_phoneNumber :: "string option"
  uc_residentialAddress :: "string option"
  uc_profilePhotoUrl :: "string option"
  uc_type :: "client_type option"
  uc_nin :: "string option"
  uc_bvn :: "string option"
  uc_nationalId :: "string option"
  uc_idNumber :: "string option"
  uc_rcNumber :: "string option"
  uc_companyName :: "string option"
  uc_companyCategory :: "string option"
  uc_companyCategoryOther :: "string option"
  uc_details :: json
  uc_focusCommodityIds :: "uuid list option"
  uc_directors :: "director_dto list option"
  uc_documents :: "document_dto list option"

definition editedClientUser :: "update_client_dto \<Rightarrow> user \<Rightarrow> user" where
  "editedClientUser dto u = u\<lparr>u_firstName := given (uc_firstName dto) (u_firstName u),
     u_lastName := given (uc_lastName dto) (u_lastName u),
     u_phoneNumber := givenOpt (uc_phoneNumber dto) (u_phoneNumber u),
     u_residentialAddress := givenOpt (uc_residentialAddress dto) (u_residentialAddress u),
     u_profilePhotoUrl := (case uc_profilePhotoUrl dto of None \<Rightarrow> u_profilePhotoUrl u
       | Some url \<Rightarrow> if url = [] then None else Some url)\<rparr>"

definition editedDetails :: "json \<Rightarrow> json \<Rightarrow> json" where
  "editedDetails new old = filter (\<lambda>(k, _). k \<notin> fst ` set new) old @ new"

definition editedProfile :: "update_client_dto \<Rightarrow> client_profile \<Rightarrow> client_profile" where
  "editedProfile dto p = p\<lparr>cf_type := given (uc_type dto) (cf_type p), cf_nin := givenOpt (uc_nin dto) (cf_nin p),
     cf_bvn := givenOpt (uc_bvn dto) (cf_bvn p), cf_nationalId := givenOpt (uc_nationalId dto) (cf_nationalId p),
     cf_idNumber := givenOpt (uc_idNumber dto) (cf_idNumber p), cf_rcNumber := givenOpt (uc_rcNumber dto) (cf_rcNumber p),
     cf_companyName := givenOpt (uc_companyName dto) (cf_companyName p),
     cf_companyCategory := givenOpt (uc_companyCategory dto) (cf_companyCategory p),
     cf_companyCategoryOther := givenOpt (uc_companyCategoryOther dto) (cf_companyCategoryOther p),
     cf_details := editedDetails (uc_details dto @ photoDetails (uc_profilePhotoUrl dto) None) (cf_details p)\<rparr>"

text \<open>Each relation that is given replaces the rows of the profile; the others stay.\<close>

definition replaceRows ::
    "uuid \<Rightarrow> focus_commodity list option \<Rightarrow> client_director list option \<Rightarrow> client_document list option
     \<Rightarrow> client_tables \<Rightarrow> client_tables" where
  "replaceRows profileId fs ds docs t = t\<lparr>
     focusCommodities := (case fs of None \<Rightarrow> focusCommodities t
       | Some new \<Rightarrow> filter (\<lambda>f. fc_clientProfileId f \<noteq> profileId) (focusCommodities t) @ new),
     directors := (case ds of None \<Rightarrow> directors t
       | Some new \<Rightarrow> filter (\<lambda>d. dr_clientProfileId d \<noteq> profileId) (directors t) @ new),
     documents := (case docs of None \<Rightarrow> documents t
       | Some new \<Rightarrow> filter (\<lambda>d. dc_clientProfileId d \<noteq> profileId) (documents t) @ new)\<rparr>"

definition editScopeRef :: "(nat \<Rightarrow> uuid) \<Rightarrow> director_dto list option \<Rightarrow> string \<Rightarrow> uuid option" where
  "editScopeRef ids ds r = (case ds of None \<Rightarrow> Some r | Some l \<Rightarrow> Some (given (refToId ids l r) r))"

definition editClientTx ::
    "(nat \<Rightarrow> uuid) \<Rightarrow> uuid \<Rightarrow> client_profile \<Rightarrow> update_client_dto \<Rightarrow> uuid list option \<Rightarrow> store \<Rightarrow> store" where
  "editClientTx ids tenantId p dto focusIds s =
     (let docIds = (\<lambda>k. ids (k + (case uc_directors dto of None \<Rightarrow> 0 | Some ds \<Rightarrow> length ds)))
      in s\<lparr>users := upd_row u_id (cf_userId p) (editedClientUser dto) (users s),
        clientProfiles := upd_row cf_id (cf_id p) (editedProfile dto) (clientProfiles s),
        clientTables := replaceRows (cf_id p) (map_option (newFocus tenantId (cf_id p)) focusIds)
          (map_option (newDirectors ids tenantId (cf_id p)) (uc_directors dto))
          (map_option (newDocuments docIds tenantId (cf_id p) (editScopeRef ids (uc_directors dto))) (uc_documents dto))
          (clientTables s)\<rparr>)"

definition updateClient ::
    "storage \<Rightarrow> (nat \<Rightarrow> uuid) \<Rightarrow> uuid \<Rightarrow> uuid \<Rightarrow> string list \<Rightarrow> uuid \<Rightarrow> update_client_dto \<Rightarrow> unit handler" where
  "updateClient g ids tenantId managerUserId effective clientUserId dto =
     bindM (getsM (\<lambda>s. find (\<lambda>p. cf_userId p = clientUserId) (visibleClients tenantId managerUserId effective s))) (\<lambda>found.
     bindM (requireM (NotFound ''Client not found'') found) (\<lambda>p.
     bindM (assertIdentifiersUnique tenantId (uc_nin dto) (uc_bvn dto) (Some clientUserId)) (\<lambda>_.
     let focusIds = map_option firsts (uc_focusCommodityIds dto) in
     bindM (requireFocus tenantId (given focusIds [])) (\<lambda>_.
     bindM (refuseM (case uc_documents dto of None \<Rightarrow> None
       | Some docs \<Rightarrow> documentError (map_option refsOf (uc_directors dto)) docs)) (\<lambda>_.
     bindM (case uc_documents dto of None \<Rightarrow> returnM ()
       | Some docs \<Rightarrow> assertOwnedUrls g (map (\<lambda>d. Some (du_url d)) docs)) (\<lambda>_.
       modifyM (editClientTx ids tenantId p dto focusIds)))))))"

section \<open>Lookup by identifier\<close>

text \<open>
  The buckets of one instance of the service: per manager the times of the lookups of the
  last minute. The service has a request-scoped dependency
  (\<open>src/warehouse-manager/warehouse-scope.service.ts\<close>), so the framework makes a new
  instance, with empty buckets, for every request.
\<close>

definition LOOKUP_RATE_LIMIT_PER_MIN :: nat where "LOOKUP_RATE_LIMIT_PER_MIN = 10"

type_synonym buckets = "uuid \<Rightarrow> time list"

definition admitLookup :: "time \<Rightarrow> uuid \<Rightarrow> buckets \<Rightarrow> bool \<times> buckets" where
  "admitLookup now managerUserId b =
     (let recent = filter (\<lambda>t. now - 60000 \<le> t) (b managerUserId)
      in if LOOKUP_RATE_LIMIT_PER_MIN \<le> length recent then (False, b)
         else (True, b(managerUserId := recent @ [now])))"

record lookup_answer =
  lk_existsInScope :: bool
  lk_existsElsewhere :: bool
  lk_canAttach :: bool
  lk_identity :: "(uuid \<times> string \<times> string \<times> client_type \<times> client_mode) option"
  lk_presentInOtherWarehouses :: nat

definition identifies :: "string \<Rightarrow> client_profile \<Rightarrow> bool" where
  "identifies raw p \<longleftrightarrow> cf_nin p = Some raw \<or> cf_bvn p = Some raw \<or> cf_nationalId p = Some raw \<or> cf_idNumber p = Some raw"

definition displayName :: "store \<Rightarrow> client_profile \<Rightarrow> string" where
  "displayName s p =
     (let person = (case findUser (cf_userId p) s of None \<Rightarrow> [] | Some u \<Rightarrow> u_firstName u @ '' '' @ u_lastName u)
      in if cf_mode p = MODE_ORGANIZATION then given (cf_companyName p) person else person)"

definition presence :: "uuid \<Rightarrow> uuid \<Rightarrow> store \<Rightarrow> uuid list" where
  "presence tenantId clientId s =
     firsts (map at_warehouseId (filter (\<lambda>a. at_tenantId a = tenantId \<and> at_clientId a = clientId \<and> at_detachedAt a = None) (attachments s)) @
       map r_warehouseId (filter (\<lambda>r. r_tenantId r = tenantId \<and> r_clientId r = clientId) (receipts s)))"

definition lookupProfile :: "uuid \<Rightarrow> uuid \<Rightarrow> string list \<Rightarrow> string \<Rightarrow> uuid option \<Rightarrow> store \<Rightarrow> lookup_answer \<times> string \<times> uuid option" where
  "lookupProfile tenantId managerUserId effective raw warehouseId s =
     (case find (\<lambda>p. cf_tenantId p = tenantId \<and> identifies raw p) (clientProfiles s) of
        None \<Rightarrow> (\<lparr>lk_existsInScope = False, lk_existsElsewhere = False, lk_canAttach = False, lk_identity = None,
          lk_presentInOtherWarehouses = 0\<rparr>, ''NOT_FOUND'', None)
      | Some p \<Rightarrow>
          let here = inClientScope (warehouseIds tenantId managerUserId effective s) managerUserId s p
          in (\<lparr>lk_existsInScope = here, lk_existsElsewhere = \<not> here, lk_canAttach = \<not> here,
               lk_identity = Some (cf_userId p, cf_clientCode p, displayName s p, cf_type p, cf_mode p),
               lk_presentInOtherWarehouses = length (filter (\<lambda>w. truthy_opt warehouseId \<noteq> Some w) (presence tenantId (cf_userId p) s))\<rparr>,
              if here then ''FOUND_IN_SCOPE'' else ''FOUND_ELSEWHERE'', Some (cf_userId p)))"

definition auditLookup ::
    "crypto \<Rightarrow> uuid \<Rightarrow> uuid \<Rightarrow> string \<Rightarrow> uuid option \<Rightarrow> string \<Rightarrow> uuid option \<Rightarrow> unit handler" where
  "auditLookup c tenantId managerUserId raw warehouseId result matched =
     modifyM (\<lambda>s. s\<lparr>clientTables := (clientTables s)\<lparr>lookupAudits := lookupAudits (clientTables s) @
       [\<lparr>la_tenantId = tenantId, la_managerId = managerUserId, la_warehouseId = warehouseId,
         la_identifierType = (if length raw = 11 \<and> list_all is_digit raw then ''NIN_OR_BVN'' else ''OTHER''),
         la_identifierHash = sha256 c raw, la_result = result, la_matchedClientId = matched\<rparr>]\<rparr>\<rparr>)"

definition lookupClientByIdentifier ::
    "crypto \<Rightarrow> time \<Rightarrow> buckets \<Rightarrow> uuid \<Rightarrow> uuid \<Rightarrow> string list \<Rightarrow> string \<Rightarrow> uuid option \<Rightarrow> (lookup_answer \<times> buckets) handler" where
  "lookupClientByIdentifier c now b tenantId managerUserId effective identifier warehouseId =
     (let raw = js_trim identifier in
     bindM (failIfM (length raw < 6 \<or> 32 < length raw) (BadRequest ''Identifier must be between 6 and 32 characters'')) (\<lambda>_.
     case admitLookup now managerUserId b of (admitted, b') \<Rightarrow>
     bindM (failIfM (\<not> admitted) (Forbidden ''Too many lookups. Please wait a minute before trying again.'')) (\<lambda>_.
     bindM (getsM (lookupProfile tenantId managerUserId effective raw warehouseId)) (\<lambda>(answer, result, matched).
     bindM (auditLookup c tenantId managerUserId raw warehouseId result matched) (\<lambda>_.
       returnM (answer, b'))))))"

end
