(* ===== verification/Client_Properties.thy ===== *)
theory Client_Properties
  imports Access_Properties Clients
begin

text \<open>
  What the client registry guarantees: identifiers that stay unique, documents that refer to
  the client's own directors, and a registered client who is seen and can sign in.
\<close>

section \<open>A registration\<close>

lemma refuseM_run: "refuseM e s = (Inr (), s') \<longleftrightarrow> s' = s \<and> e = None"
  by (auto simp: refuseM_def split: option.split)

lemma check_reads: "reads (refuseM e)" "reads (requireFocus t ids)" "reads (assertIdentifiersUnique t n b ex)" "reads (assertOwnedUrls g us)"
proof -
  show r: "reads (refuseM e)" for e by (auto simp: reads_def refuseM_def confined_def split: option.splits)
  show "reads (requireFocus t ids)" "reads (assertIdentifiersUnique t n b ex)"
    unfolding requireFocus_def assertIdentifiersUnique_def by (intro reads_rules)+
  show "reads (assertOwnedUrls g us)" unfolding assertOwnedUrls_def by (intro reads_rules r)
qed

lemma read_run: "reads m \<Longrightarrow> m s = (Inr a, s') \<longleftrightarrow> s' = s \<and> m s = (Inr a, s)"
  by (auto dest: readsD)

lemma identifiers_run:
  "assertIdentifiersUnique t n b ex s = (Inr (), s') \<longleftrightarrow> s' = s \<and> \<not> clashing cf_nin t n ex s \<and> \<not> clashing cf_bvn t b ex s"
  by (auto simp: assertIdentifiersUnique_def bindM_Inr_iff)

lemmas check_states = check_reads [THEN readsD] manager_reads [THEN readsD]

lemma mailed: "(case e of None \<Rightarrow> returnM () | Some x \<Rightarrow> credentialsMail x pw) s = (Inr (), s') \<Longrightarrow> \<exists>ms. s' = s\<lparr>outbox := ms\<rparr>"
  by (cases e) (auto simp: credentialsMail_def intro: exI [of _ "outbox s"])

definition company :: "create_client_dto \<Rightarrow> 'a list \<Rightarrow> 'a list" where
  "company dto xs = (if modeOf dto = MODE_ORGANIZATION then xs else [])"

lemma createClient_steps:
  assumes "createClient c g year draw ids t m dto s = (Inr (p, cr), s')"
  obtains email code s1 where "\<not> clashing cf_nin t (cc_nin dto) None s" "\<not> clashing cf_bvn t (cc_bvn dto) None s"
    and "documentError (Some (refsOf (company dto (cc_directors dto)))) (company dto (cc_documents dto)) = None"
    and "registerTx ids t (firsts (cc_focusCommodityIds dto)) (company dto (cc_directors dto)) (company dto (cc_documents dto))
       (clientUser c (ids 0) t email (generateTempPassword draw) dto) (newProfile (ids 1) (ids 0) t code m dto) s = Inr (p, s1)"
    and "cr = \<lparr>cr_email = email, cr_temporaryPassword = generateTempPassword draw\<rparr>"
    and "users s' = users s1" "clientProfiles s' = clientProfiles s1" "clientTables s' = clientTables s1" "tenants s' = tenants s1"
proof -
  from assms obtain sa sb sc sd se sf email code s1 sg where r: "requireRole ''CLIENT'' s = (Inr (), sa)"
      "refuseM (if modeOf dto = MODE_ORGANIZATION then organisationError dto else None) sa = (Inr (), sb)"
      "deriveLoginEmail (cc_firstName dto) (cc_lastName dto) sb = (Inr email, sc)"
      "requireFocus t (firsts (cc_focusCommodityIds dto)) sc = (Inr (), sd)"
      "assertIdentifiersUnique t (cc_nin dto) (cc_bvn dto) None sd = (Inr (), se)"
      "documentError (Some (refsOf (company dto (cc_directors dto)))) (company dto (cc_documents dto)) = None"
      "assertOwnedUrls g (cc_profilePhotoUrl dto # cc_idDocumentUrl dto # map (\<lambda>d. Some (du_url d)) (company dto (cc_documents dto))) se = (Inr (), sf)"
      "registerTx ids t (firsts (cc_focusCommodityIds dto)) (company dto (cc_directors dto)) (company dto (cc_documents dto))
        (clientUser c (ids 0) t email (generateTempPassword draw) dto) (newProfile (ids 1) (ids 0) t code m dto) sf = Inr (p, s1)"
      "(case truthy_opt (cc_email dto) of None \<Rightarrow> returnM () | Some e \<Rightarrow> credentialsMail e (generateTempPassword draw)) s1 = (Inr (), sg)"
    and q: "cr = \<lparr>cr_email = email, cr_temporaryPassword = generateTempPassword draw\<rparr>"
      "\<exists>ns. s' = sg\<lparr>notifications := ns\<rparr>"
    unfolding createClient_def Let_def company_def [symmetric]
    by (clarsimp simp: bindM_Inr_iff refuseM_run [of "documentError _ _"] simp del: One_nat_def
        dest!: notifyUser_run notifyTenantAdmins_run) (rule that; (assumption | blast | rule refl)?)
  have st: "sa = s" "sb = s" "sc = s" "sd = s" "se = s" "sf = s"
    using r(1-5,7) by (auto dest!: check_states simp: identifiers_run)
  show thesis
    using that [of email code s1] r(5-8) q mailed [OF r(9)] by (auto simp: st identifiers_run)
qed

lemma insertProfile_run:
  "insertProfile p s = Inr (x, s') \<longleftrightarrow> x = p \<and> s' = s\<lparr>clientProfiles := clientProfiles s @ [p]\<rparr> \<and>
     cf_id p \<notin> cf_id ` set (clientProfiles s) \<and> cf_userId p \<notin> cf_userId ` set (clientProfiles s) \<and>
     cf_clientCode p \<notin> cf_clientCode ` set (clientProfiles s)"
  by (auto simp: insertProfile_def)

lemma registerTx_run:
  assumes "registerTx ids t fs ds docs u p s = Inr (x, s')"
  shows "x = p" and "users s' = users s @ [u]" and "\<not> emailTaken (u_email u) s" and "clientProfiles s' = clientProfiles s @ [p]"
    and "cf_id p \<notin> cf_id ` set (clientProfiles s)" and "cf_userId p \<notin> cf_userId ` set (clientProfiles s)"
    and "cf_clientCode p \<notin> cf_clientCode ` set (clientProfiles s)" and "tenants s' = tenants s"
    and "directors (clientTables s') = directors (clientTables s) @ newDirectors (\<lambda>k. ids (k + 2)) t (cf_id p) ds"
    and "documents (clientTables s') = documents (clientTables s) @
       newDocuments (\<lambda>k. ids (k + 2 + length ds)) t (cf_id p) (refToId (\<lambda>k. ids (k + 2)) ds) docs"
  using assms by (auto simp: registerTx_def andThen_Inr_iff insertUser_run insertProfile_run Let_def addRows_def)

text \<open>
  C33. A registered client is seen and signs in: the manager who registered a client sees the
  client at once, whatever warehouses are in scope, and the credentials handed over open a
  session of a client account, also while the tenant is suspended.
\<close>

theorem registered_client_enters:
  assumes "createClient c g year draw ids t m dto s = (Inr (p, cr), s')" and "\<And>q. bcrypt_compare c q (bcrypt_hash c q)"
  shows "p \<in> set (visibleClients t m effective s') \<and>
    (\<exists>a. login c j now (cr_email cr) (cr_temporaryPassword cr) s' = (Inr a, s') \<and> u_id (lg_user a) = cf_userId p \<and>
       u_roles (lg_user a) = [''CLIENT''] \<and> u_tenantId (lg_user a) = t)"
proof -
  from assms(1) obtain email code s1 where r: "registerTx ids t (firsts (cc_focusCommodityIds dto)) (company dto (cc_directors dto))
       (company dto (cc_documents dto)) (clientUser c (ids 0) t email (generateTempPassword draw) dto)
       (newProfile (ids 1) (ids 0) t code m dto) s = Inr (p, s1)"
    and cr: "cr = \<lparr>cr_email = email, cr_temporaryPassword = generateTempPassword draw\<rparr>"
    and s': "users s' = users s1" "clientProfiles s' = clientProfiles s1" by (rule createClient_steps)
  let ?u = "clientUser c (ids 0) t email (generateTempPassword draw) dto"
  note tx = registerTx_run [OF r]
  have "find_row u_email email (users s) = None" using tx(3) by (auto simp: find_row_None_iff emailTaken_def list_ex_iff clientUser_def)
  moreover have "find_row u_email email [?u] = Some ?u" by (simp add: find_row_def clientUser_def)
  ultimately have "find_row u_email email (users s') = Some ?u" by (simp add: s' tx(2) find_row_append)
  then have "\<exists>a. login c j now email (generateTempPassword draw) s' = (Inr a, s') \<and> lg_user a = ?u"
    by (simp add: login_run assms(2) staffSuspended_def clientUser_def user_defaults_def)
  moreover have "p \<in> set (visibleClients t m effective s')"
    by (auto simp: visibleClients_def s' tx(1,4) newProfile_def inClientScope_def split: option.split)
  ultimately show ?thesis by (auto simp: cr tx(1) newProfile_def clientUser_def user_defaults_def)
qed

section \<open>Identifiers\<close>

definition identified :: "(client_profile \<Rightarrow> string option) \<Rightarrow> client_profile list \<Rightarrow> bool" where
  "identified column ps \<longleftrightarrow>
     distinct (map (\<lambda>p. (cf_tenantId p, column p)) (filter (\<lambda>p. truthy_opt (column p) \<noteq> None) ps))"

definition clients_ok :: "client_profile list \<Rightarrow> bool" where
  "clients_ok ps \<longleftrightarrow> distinct (map cf_id ps) \<and> distinct (map cf_userId ps) \<and> distinct (map cf_clientCode ps) \<and>
     identified cf_nin ps \<and> identified cf_bvn ps"

lemma identified_append:
  assumes "identified column ps" and "\<not> clashing column (cf_tenantId p) (column p) None s" and "clientProfiles s = ps"
  shows "identified column (ps @ [p])"
  using assms by (auto simp: identified_def clashing_def truthy_opt_def list_ex_iff split: option.splits if_splits)

lemma clashing_given:
  "\<not> clashing column t v ex s \<Longrightarrow> truthy_opt v \<noteq> None \<Longrightarrow> ex = Some u \<Longrightarrow> p \<in> set (clientProfiles s) \<Longrightarrow>
     cf_userId p \<noteq> u \<Longrightarrow> cf_tenantId p = t \<Longrightarrow> column p \<noteq> v"
  by (auto simp: clashing_def truthy_opt_def list_ex_iff split: option.splits if_splits)

lemma identified_edit:
  assumes d: "distinct (map cf_userId ps)" and p: "p \<in> set ps" "cf_tenantId p = t" "cf_userId p = u"
    and f: "column (f p) = givenOpt v (column p)" "cf_tenantId (f p) = t"
    and c: "\<not> clashing column t v (Some u) s" "clientProfiles s = ps" and ids: "distinct (map cf_id ps)" and i: "identified column ps"
  shows "identified column (upd_row cf_id (cf_id p) f ps)"
proof -
  have one: "x = p" if "x \<in> set ps" "cf_id x = cf_id p" for x using that p(1) ids by (auto simp: distinct_map inj_on_def)
  obtain as bs where ps: "ps = as @ p # bs" using p(1) by (auto dest: split_list)
  have out: "cf_id x \<noteq> cf_id p" "cf_userId x \<noteq> u" if "x \<in> set as \<union> set bs" for x
    using that ids d p(3) unfolding ps by (auto simp: image_iff)
  have upd: "upd_row cf_id (cf_id p) f ps = as @ f p # bs"
    unfolding ps upd_row_def using out(1) by (auto intro!: map_idI)
  have "(t, column (f p)) \<notin> (\<lambda>x. (cf_tenantId x, column x)) ` {x \<in> set as \<union> set bs. truthy_opt (column x) \<noteq> None}"
    if tr: "truthy_opt (column (f p)) \<noteq> None"
  proof
    assume "(t, column (f p)) \<in> (\<lambda>x. (cf_tenantId x, column x)) ` {x \<in> set as \<union> set bs. truthy_opt (column x) \<noteq> None}"
    then obtain x where x: "x \<in> set as \<union> set bs" "cf_tenantId x = t" "column x = column (f p)" by (elim imageE CollectE conjE) simp
    show False
    proof (cases v)
      case None
      with x tr f(1) p(2) i show False by (auto simp: identified_def ps givenOpt_def image_iff)
    next
      case (Some w)
      with f(1) have "column (f p) = v" by (simp add: givenOpt_def)
      with clashing_given [OF c(1) _ refl, of x] x tr out(2) c(2) ps show False by auto
    qed
  qed
  moreover have "identified column (as @ bs)" using i by (auto simp: identified_def ps split: if_splits)
  ultimately show ?thesis unfolding upd by (auto simp: identified_def f(2))
qed

lemma updateClient_run:
  assumes "updateClient g ids t m effective u dto s = (r, s')"
  shows "s' = s \<or> (\<exists>p. p \<in> set (clientProfiles s) \<and> cf_tenantId p = t \<and> cf_userId p = u \<and>
    \<not> clashing cf_nin t (uc_nin dto) (Some u) s \<and> \<not> clashing cf_bvn t (uc_bvn dto) (Some u) s \<and>
    (\<forall>docs. uc_documents dto = Some docs \<longrightarrow> documentError (map_option refsOf (uc_directors dto)) docs = None) \<and>
    s' = editClientTx ids t p dto (map_option firsts (uc_focusCommodityIds dto)) s)"
proof (cases "s' = s")
  case False
  have rd: "reads (case x of None \<Rightarrow> returnM () | Some docs \<Rightarrow> assertOwnedUrls g (h docs))" for x :: "document_dto list option" and h
    by (cases x) (auto intro: check_reads reads_rules)
  show ?thesis
  proof (cases r)
    case (Inl e)
    with assms have "s' = s"
      unfolding updateClient_def Let_def
      by (auto simp: bindM_Inl_iff dest!: check_states readsD [OF rd])
    with False show ?thesis by simp
  next
    case (Inr a)
    then show ?thesis using assms unfolding updateClient_def Let_def
      by (auto simp: bindM_Inr_iff identifiers_run refuseM_run visibleClients_def dest!: check_states(1,2,4) readsD [OF rd] find_SomeD
          split: option.splits)
  qed
qed simp

text \<open>Handlers whose failures leave nothing behind: reads, one transaction, and calls that cannot fail.\<close>

definition all_or_nothing :: "'a handler \<Rightarrow> bool" where
  "all_or_nothing m \<longleftrightarrow> (\<forall>s e s'. m s = (Inl e, s') \<longrightarrow> s' = s)"

lemma all_or_nothing_read: "reads m \<Longrightarrow> (\<And>a. all_or_nothing (f a)) \<Longrightarrow> all_or_nothing (bindM m f)"
  by (auto simp: all_or_nothing_def bindM_Inl_iff dest: readsD)

lemma all_or_nothing_last: "(\<And>a s e s'. f a s \<noteq> (Inl e, s')) \<Longrightarrow> all_or_nothing (bindM (transactM t) f)"
  by (auto simp: all_or_nothing_def bindM_Inl_iff transactM_def split: sum.splits)

lemma createClient_fails: "createClient c g year draw ids t m dto s = (Inl e, s') \<Longrightarrow> s' = s"
proof -
  have "all_or_nothing (createClient c g year draw ids t m dto)"
    unfolding createClient_def Let_def
    by (intro all_or_nothing_read check_reads manager_reads reads_rules all_or_nothing_last)
      (auto simp: bindM_Inl_iff credentialsMail_def dest!: notifyUser_run notifyTenantAdmins_run split: option.splits)
  then show "createClient c g year draw ids t m dto s = (Inl e, s') \<Longrightarrow> s' = s" by (auto simp: all_or_nothing_def)
qed

text \<open>
  C34. Nobody is registered twice under one identifier: registrations and edits of clients, whether
  they succeed or fail, keep user, code and profile ids unique, and within each tenant no two
  clients share a NIN or a BVN.
\<close>

theorem identifiers_stay_unique:
  assumes "clients_ok (clientProfiles s)"
  shows "clients_ok (clientProfiles (snd (createClient c g year draw ids t m dto s))) \<and>
    clients_ok (clientProfiles (snd (updateClient g ids t m effective u edit s)))"
proof
  obtain r s' where run: "createClient c g year draw ids t m dto s = (r, s')" by fastforce
  show "clients_ok (clientProfiles (snd (createClient c g year draw ids t m dto s)))"
  proof (cases r)
    case (Inl e)
    with run assms show ?thesis by (auto dest: createClient_fails)
  next
    case (Inr x)
    then obtain p cr where "createClient c g year draw ids t m dto s = (Inr (p, cr), s')" using run by (cases x) simp
    then obtain email code s1 where k: "\<not> clashing cf_nin t (cc_nin dto) None s" "\<not> clashing cf_bvn t (cc_bvn dto) None s"
      and tx: "registerTx ids t (firsts (cc_focusCommodityIds dto)) (company dto (cc_directors dto)) (company dto (cc_documents dto))
         (clientUser c (ids 0) t email (generateTempPassword draw) dto) (newProfile (ids 1) (ids 0) t code m dto) s = Inr (p, s1)"
      and s': "clientProfiles s' = clientProfiles s1" by (rule createClient_steps)
    note tx = registerTx_run [OF tx]
    have p: "cf_tenantId p = t" "cf_nin p = cc_nin dto" "cf_bvn p = cc_bvn dto" by (simp_all add: tx(1) newProfile_def)
    have "identified cf_nin (clientProfiles s @ [p])" "identified cf_bvn (clientProfiles s @ [p])"
      using assms k identified_append [of cf_nin "clientProfiles s" p s] identified_append [of cf_bvn "clientProfiles s" p s]
      by (simp_all add: clients_ok_def p)
    then show ?thesis using assms tx(5-7) by (simp add: clients_ok_def run s' tx(1,4))
  qed
next
  obtain r s' where run: "updateClient g ids t m effective u edit s = (r, s')" by fastforce
  from updateClient_run [OF run] show "clients_ok (clientProfiles (snd (updateClient g ids t m effective u edit s)))"
  proof (elim disjE exE conjE)
    fix p assume p: "p \<in> set (clientProfiles s)" "cf_tenantId p = t" "cf_userId p = u"
      and k: "\<not> clashing cf_nin t (uc_nin edit) (Some u) s" "\<not> clashing cf_bvn t (uc_bvn edit) (Some u) s"
      and s': "s' = editClientTx ids t p edit (map_option firsts (uc_focusCommodityIds edit)) s"
    have ok: "distinct (map cf_id (clientProfiles s))" "distinct (map cf_userId (clientProfiles s))"
      "distinct (map cf_clientCode (clientProfiles s))" "identified cf_nin (clientProfiles s)" "identified cf_bvn (clientProfiles s)"
      using assms by (simp_all add: clients_ok_def)
    have e: "cf_nin (editedProfile edit p) = givenOpt (uc_nin edit) (cf_nin p)" "cf_bvn (editedProfile edit p) = givenOpt (uc_bvn edit) (cf_bvn p)"
      "cf_tenantId (editedProfile edit p) = t" and same: "cf_id (editedProfile edit x) = cf_id x"
        "cf_userId (editedProfile edit x) = cf_userId x" "cf_clientCode (editedProfile edit x) = cf_clientCode x" for x
      using p(2) by (simp_all add: editedProfile_def)
    have "clientProfiles s' = upd_row cf_id (cf_id p) (editedProfile edit) (clientProfiles s)"
      by (simp add: s' editClientTx_def Let_def)
    with identified_edit [where column = cf_nin and f = "editedProfile edit", OF ok(2) p e(1,3) k(1) refl ok(1,4)] identified_edit [where column = cf_bvn and f = "editedProfile edit", OF ok(2) p e(2,3) k(2) refl ok(1,5)] ok(1-3)
    show ?thesis by (simp add: run clients_ok_def map_upd_row same)
  qed (use assms run in simp)
qed

section \<open>Documents\<close>

definition documents_ok :: "client_tables \<Rightarrow> bool" where
  "documents_ok ct \<longleftrightarrow> list_all (\<lambda>d. dc_scope d = SCOPE_DIRECTOR \<longrightarrow>
     list_ex (\<lambda>r. dr_clientProfileId r = dc_clientProfileId d \<and> dc_scopeRefId d = Some (dr_id r)) (directors ct)) (documents ct)"

lemma refToId_known:
  assumes "r \<in> set (refsOf ds)"
  shows "\<exists>d \<in> set (newDirectors ids t i ds). refToId ids ds r = Some (dr_id d) \<and> dr_clientProfileId d = i"
proof -
  let ?l = "concat (map (\<lambda>(k, d). case truthy_opt (dt_ref d) of None \<Rightarrow> [] | Some r \<Rightarrow> [(r, ids k)]) (enumerate 0 ds))"
  from assms obtain d where d: "d \<in> set ds" "truthy_opt (dt_ref d) = Some r" by (auto simp: refsOf_def set_map_filter)
  then have "d \<in> snd ` set (enumerate 0 ds)" by (metis list.set_map map_snd_enumerate)
  then obtain k where "(k, d) \<in> set (enumerate 0 ds)" by auto
  with d(2) have "(r, ids k) \<in> set ?l" by (force split: option.splits)
  then have "map_of (rev ?l) r \<noteq> None" by (auto simp: map_of_eq_None_iff image_iff intro!: bexI)
  then obtain v where v: "refToId ids ds r = Some v" unfolding refToId_def by blast
  then have "(r, v) \<in> set ?l" unfolding refToId_def by (auto dest: map_of_SomeD)
  then obtain k' d' where "(k', d') \<in> set (enumerate 0 ds)" "v = ids k'" by (auto split: option.splits)
  with v show ?thesis by (force simp: newDirectors_def)
qed

lemma newDocuments_ok:
  assumes "documentError (Some (refsOf ds)) docs = None" and "d \<in> set (newDocuments ids' t i ref docs)" and "dc_scope d = SCOPE_DIRECTOR"
    and "\<And>r. r \<in> set (refsOf ds) \<Longrightarrow> ref r = refToId ids ds r"
  shows "dc_clientProfileId d = i \<and> (\<exists>x \<in> set (newDirectors ids t i ds). dc_scopeRefId d = Some (dr_id x) \<and> dr_clientProfileId x = i)"
proof -
  from assms(2,3) obtain k y where y: "(k, y) \<in> set (enumerate 0 docs)" "du_scope y = SCOPE_DIRECTOR" "dc_clientProfileId d = i"
    "dc_scopeRefId d = Option.bind (truthy_opt (du_directorRef y)) ref" by (auto simp: newDocuments_def)
  then have "y \<in> snd ` set (enumerate 0 docs)" by (metis image_eqI snd_conv)
  then have "y \<in> set docs" by (metis list.set_map map_snd_enumerate)
  with assms(1) y(2) obtain r where r: "truthy_opt (du_directorRef y) = Some r" "r \<in> set (refsOf ds)"
    by (auto simp: documentError_def find_None_iff split: option.splits)
  from refToId_known [where t = t and i = i and ids = ids, OF r(2)] assms(4) [OF r(2)] y(3,4) r(1) show ?thesis by auto
qed

lemma documents_ok_append:
  assumes "documents_ok ct" and "documentError (Some (refsOf ds)) docs = None"
    and "\<And>r. r \<in> set (refsOf ds) \<Longrightarrow> ref r = refToId ids ds r"
    and "set (directors ct') = set (directors ct) \<union> set (newDirectors ids t i ds)"
    and "set (documents ct') \<subseteq> set (documents ct) \<union> set (newDocuments ids' t i ref docs)"
  shows "documents_ok ct'"
  unfolding documents_ok_def list_all_iff list_ex_iff
proof (intro ballI impI)
  fix d assume d: "d \<in> set (documents ct')" "dc_scope d = SCOPE_DIRECTOR"
  let ?known = "\<lambda>rows. \<exists>x \<in> rows. dr_clientProfileId x = dc_clientProfileId d \<and> dc_scopeRefId d = Some (dr_id x)"
  have "?known (set (directors ct)) \<or> ?known (set (newDirectors ids t i ds))"
  proof (cases "d \<in> set (documents ct)")
    case True
    with assms(1) d(2) show ?thesis by (auto simp: documents_ok_def list_all_iff list_ex_iff)
  next
    case False
    with assms(5) d(1) have "d \<in> set (newDocuments ids' t i ref docs)" by blast
    from newDocuments_ok [where ids = ids, OF assms(2) this d(2) assms(3)] show ?thesis by auto
  qed
  then show "?known (set (directors ct'))" unfolding assms(4) by blast
qed

text \<open>
  C35. A document about a director refers to a director of the same client: a registration keeps
  this of all documents, and so does an edit that gives directors and documents together or
  neither.
\<close>

theorem documents_refer:
  assumes "documents_ok (clientTables s)" and "uc_directors edit = None \<longleftrightarrow> uc_documents edit = None"
  shows "documents_ok (clientTables (snd (createClient c g year draw ids t m dto s))) \<and>
    documents_ok (clientTables (snd (updateClient g ids t m effective u edit s)))"
proof
  obtain r s' where run: "createClient c g year draw ids t m dto s = (r, s')" by fastforce
  show "documents_ok (clientTables (snd (createClient c g year draw ids t m dto s)))"
  proof (cases r)
    case (Inl e)
    with run assms(1) show ?thesis by (auto dest: createClient_fails)
  next
    case (Inr x)
    then obtain p cr where "createClient c g year draw ids t m dto s = (Inr (p, cr), s')" using run by (cases x) simp
    then obtain email code s1 where k: "documentError (Some (refsOf (company dto (cc_directors dto)))) (company dto (cc_documents dto)) = None"
      and tx: "registerTx ids t (firsts (cc_focusCommodityIds dto)) (company dto (cc_directors dto)) (company dto (cc_documents dto))
         (clientUser c (ids 0) t email (generateTempPassword draw) dto) (newProfile (ids 1) (ids 0) t code m dto) s = Inr (p, s1)"
      and s': "clientTables s' = clientTables s1" by (rule createClient_steps)
    note tx = registerTx_run(1,9,10) [OF tx]
    show ?thesis unfolding run snd_conv s'
      by (rule documents_ok_append [where ids' = "\<lambda>j. ids (j + 2 + length (company dto (cc_directors dto)))",
            OF assms(1) k refl]) (auto simp: tx)
  qed
next
  obtain r s' where run: "updateClient g ids t m effective u edit s = (r, s')" by fastforce
  from updateClient_run [OF run] show "documents_ok (clientTables (snd (updateClient g ids t m effective u edit s)))"
  proof (elim disjE exE conjE)
    fix p assume k: "\<forall>docs. uc_documents edit = Some docs \<longrightarrow> documentError (map_option refsOf (uc_directors edit)) docs = None"
      and s': "s' = editClientTx ids t p edit (map_option firsts (uc_focusCommodityIds edit)) s"
    show ?thesis
    proof (cases "uc_documents edit")
      case None
      with assms show ?thesis by (simp add: run s' editClientTx_def Let_def replaceRows_def documents_ok_def)
    next
      case (Some docs)
      with assms(2) obtain ds where ds: "uc_directors edit = Some ds" by auto
      let ?ct = "clientTables s"
      let ?others = "?ct\<lparr>directors := filter (\<lambda>d. dr_clientProfileId d \<noteq> cf_id p) (directors ?ct),
        documents := filter (\<lambda>d. dc_clientProfileId d \<noteq> cf_id p) (documents ?ct)\<rparr>"
      have "documents_ok ?others" using assms(1) by (simp add: documents_ok_def list_all_iff list_ex_iff) metis
      moreover have "documentError (Some (refsOf ds)) docs = None" using k Some ds by simp
      moreover have "editScopeRef ids (Some ds) x = refToId ids ds x" if "x \<in> set (refsOf ds)" for x
        using refToId_known [where t = t and i = "cf_id p" and ids = ids, OF that] by (auto simp: editScopeRef_def given_def)
      ultimately show ?thesis unfolding run snd_conv
        by (rule documents_ok_append) (auto simp: s' editClientTx_def Let_def replaceRows_def Some ds)
    qed
  qed (use assms run in simp)
qed

section \<open>Worked registrations\<close>

definition exDirector :: director_dto where
  "exDirector = \<lparr>dt_ref = Some ''d1'', dt_firstName = ''Uche'', dt_lastName = ''Eze'', dt_details = []\<rparr>"

definition exIdPaper :: document_dto where
  "exIdPaper = \<lparr>du_type = ''ID_CARD'', du_scope = SCOPE_DIRECTOR, du_url = ''https://files.x/files/a.pdf'',
     du_directorRef = Some ''d1'', du_fileName = None, du_fileSize = None, du_mimeType = None\<rparr>"

definition exCompany :: create_client_dto where
  "exCompany = \<lparr>cc_mode = Some MODE_ORGANIZATION, cc_firstName = ''Uche'', cc_lastName = ''Eze'', cc_email = Some ''uche@y.org'',
     cc_phoneNumber = None, cc_gender = None, cc_dateOfBirth = None, cc_residentialAddress = None, cc_profilePhotoUrl = None,
     cc_idDocumentUrl = None, cc_type = None, cc_nin = Some ''22222222222'', cc_bvn = None, cc_nationalId = None, cc_idNumber = None,
     cc_rcNumber = Some ''RC1'', cc_companyName = Some ''Eze Grains'', cc_companyCategory = Some ''LTD'', cc_companyCategoryOther = None,
     cc_details = [], cc_focusCommodityIds = [''maize'', ''maize''], cc_directors = [exDirector], cc_documents = [exIdPaper]\<rparr>"

definition exStorage :: storage where
  "exStorage = \<lparr>sg_base = ''https://files.x/'', sg_exists = (\<lambda>key. key = ''a.pdf'')\<rparr>"

definition exCompanyStore :: store where
  "exCompanyStore = snd (createClient exCrypto exStorage 2025 exDraw (exIds CHR ''n'') ''t'' ''mgr'' exCompany exStore0)"

text \<open>The database after the registration, evaluated once.\<close>

lemma exCompanyStore_eval [code]: "exCompanyStore =
   exStore0\<lparr>users := users exStore0 @ [user_defaults\<lparr>u_id := ''n0'', u_tenantId := ''t'', u_email := ''uche.eze@securestore.com'',
     u_password := ''#Aa2!AAAAAAAA'', u_firstName := ''Uche'', u_lastName := ''Eze'', u_contactEmail := Some ''uche@y.org'',
     u_roles := [''CLIENT'']\<rparr>],
   notifications := [\<lparr>n_tenantId = ''t'', n_userId = ''n0'', n_type = N_CLIENT_CREDENTIALS_ISSUED,
       n_relatedEntityType = ''client'', n_relatedEntityId = ''n0''\<rparr>,
     \<lparr>n_tenantId = ''t'', n_userId = ''adm'', n_type = N_CLIENT_REGISTERED, n_relatedEntityType = ''client'',
       n_relatedEntityId = ''n0''\<rparr>],
   outbox := [(''uche@y.org'', ''Aa2!AAAAAAAA'')],
   clientProfiles := clientProfiles exStore0 @ [client_profile_defaults\<lparr>cf_id := ''n1'', cf_userId := ''n0'', cf_tenantId := ''t'',
     cf_clientCode := ''CLT-2025-0002'', cf_registeredByManagerId := Some ''mgr'', cf_mode := MODE_ORGANIZATION,
     cf_type := CT_COMPANY, cf_nin := Some ''22222222222'', cf_rcNumber := Some ''RC1'', cf_companyName := Some ''Eze Grains'',
     cf_companyCategory := Some ''LTD''\<rparr>],
   clientTables := \<lparr>directors = [\<lparr>dr_id = ''n2'', dr_tenantId = ''t'', dr_clientProfileId = ''n1'', dr_firstName = ''Uche'',
       dr_lastName = ''Eze'', dr_details = []\<rparr>],
     documents = [\<lparr>dc_id = ''n3'', dc_tenantId = ''t'', dc_clientProfileId = ''n1'', dc_type = ''ID_CARD'', dc_scope = SCOPE_DIRECTOR,
       dc_scopeRefId = Some ''n2'', dc_url = ''https://files.x/files/a.pdf'', dc_fileName = None, dc_fileSize = None,
       dc_mimeType = None\<rparr>],
     focusCommodities = [\<lparr>fc_tenantId = ''t'', fc_clientProfileId = ''n1'', fc_commodityId = ''maize''\<rparr>], lookupAudits = []\<rparr>\<rparr>"
  by code_simp

definition noEdit :: update_client_dto where
  "noEdit = \<lparr>uc_firstName = None, uc_lastName = None, uc_phoneNumber = None, uc_residentialAddress = None, uc_profilePhotoUrl = None,
     uc_type = None, uc_nin = None, uc_bvn = None, uc_nationalId = None, uc_idNumber = None, uc_rcNumber = None, uc_companyName = None,
     uc_companyCategory = None, uc_companyCategoryOther = None, uc_details = [], uc_focusCommodityIds = None, uc_directors = None,
     uc_documents = None\<rparr>"

theorem registered_client_enters_witness:
  "\<exists>p cr a. createClient exCrypto exStorage 2025 exDraw (exIds CHR ''n'') ''t'' ''mgr'' exCompany exStore0 = (Inr (p, cr), exCompanyStore) \<and>
     p \<in> set (visibleClients ''t'' ''mgr'' [''WAREHOUSE_MANAGER''] exCompanyStore) \<and>
     login exCrypto exGate 9 (cr_email cr) (cr_temporaryPassword cr) exCompanyStore = (Inr a, exCompanyStore) \<and>
     u_roles (lg_user a) = [''CLIENT'']"
proof -
  let ?m = "createClient exCrypto exStorage 2025 exDraw (exIds CHR ''n'') ''t'' ''mgr'' exCompany exStore0"
  have "case ?m of (Inl _, _) \<Rightarrow> False | (Inr a, s') \<Rightarrow> True" by code_simp
  then obtain x s' where "?m = (Inr x, s')" by (rule ran)
  then obtain p cr where r: "?m = (Inr (p, cr), exCompanyStore)" by (cases x) (simp add: exCompanyStore_def)
  have "bcrypt_compare exCrypto q (bcrypt_hash exCrypto q)" for q by (simp add: exCrypto_def)
  from registered_client_enters [OF r this, of "[''WAREHOUSE_MANAGER'']" exGate 9] r show ?thesis by blast
qed

theorem identifiers_stay_unique_witness:
  "clients_ok (clientProfiles exCompanyStore) \<and> map cf_nin (clientProfiles exCompanyStore) = [Some ''12345678901'', Some ''22222222222''] \<and>
   clientProfiles (snd (updateClient exStorage (exIds CHR ''u'') ''t'' ''mgr'' [] ''ada'' (noEdit\<lparr>uc_nin := Some ''22222222222''\<rparr>) exCompanyStore))
     = clientProfiles exCompanyStore"
proof -
  have ok: "clients_ok (clientProfiles exStore0)" unfolding clients_ok_def identified_def by code_simp
  from identifiers_stay_unique [OF ok] have "clients_ok (clientProfiles exCompanyStore)" by (simp add: exCompanyStore_def)
  moreover have "map cf_nin (clientProfiles exCompanyStore) = [Some ''12345678901'', Some ''22222222222'']" by code_simp
  moreover have "clientProfiles (snd (updateClient exStorage (exIds CHR ''u'') ''t'' ''mgr'' [] ''ada'' (noEdit\<lparr>uc_nin := Some ''22222222222''\<rparr>)
      exCompanyStore)) = clientProfiles exCompanyStore" by code_simp
  ultimately show ?thesis by blast
qed

theorem documents_refer_witness:
  "documents_ok (clientTables exCompanyStore) \<and>
   map (\<lambda>d. dc_scopeRefId d) (documents (clientTables exCompanyStore)) = map (\<lambda>d. Some (dr_id d)) (directors (clientTables exCompanyStore)) \<and>
   length (documents (clientTables exCompanyStore)) = 1"
proof -
  have ok: "documents_ok (clientTables exStore0)" by (simp add: documents_ok_def exStore0_def)
  from documents_refer [OF ok, of noEdit] have "documents_ok (clientTables exCompanyStore)"
    by (simp add: exCompanyStore_def noEdit_def)
  moreover have "map (\<lambda>d. dc_scopeRefId d) (documents (clientTables exCompanyStore)) = map (\<lambda>d. Some (dr_id d)) (directors (clientTables exCompanyStore))"
    "length (documents (clientTables exCompanyStore)) = 1" by code_simp+
  ultimately show ?thesis by blast
qed

end
