(* ===== verification/Receipt_Admin.thy ===== *)
theory Receipt_Admin
  imports Deposits Withdrawals
begin

text \<open>
  The read side of the administrator's receipt service,
  \<open>src/admin/services/admin-receipt.service.ts\<close>: the filtered receipt table, the detail, the
  queue of pending approvals, the counters, and what each row is shown with: the manager who
  filed it, the storage-fee policy in force, and the request holding it.

  The dates of the requests are not shown: the model keeps none for loans and trades.
\<close>

section \<open>What a row is shown with\<close>

text \<open>The service's own copy of the policy lookup: four scopes, the newest active policy of each.\<close>

fun firstPolicy :: "uuid \<Rightarrow> (uuid option \<times> uuid option) list \<Rightarrow> store \<Rightarrow> fee_policy option" where
  "firstPolicy tenantId [] s = None"
| "firstPolicy tenantId ((w, c) # cands) s =
     (case find (\<lambda>p. fp_tenantId p = tenantId \<and> fp_isActive p \<and> fp_warehouseId p = w \<and> fp_commodityId p = c)
             (rev (policies s)) of
        Some p \<Rightarrow> Some p
      | None \<Rightarrow> firstPolicy tenantId cands s)"

definition adminPolicy :: "uuid \<Rightarrow> uuid \<Rightarrow> uuid \<Rightarrow> store \<Rightarrow> fee_policy option" where
  "adminPolicy tenantId warehouseId commodityId =
     firstPolicy tenantId
       [(Some warehouseId, Some commodityId), (Some warehouseId, None), (None, Some commodityId), (None, None)]"

datatype request_kind = R_WITHDRAWAL | R_LOAN | R_TRADE

datatype request_status = RS_Withdrawal withdrawal_status | RS_Loan loan_status | RS_Trade trade_status

record request_info =
  ri_kind :: request_kind
  ri_id :: uuid
  ri_reference :: string
  ri_status :: request_status
  ri_quantity :: "dec option"
  ri_amount :: dec
  ri_paymentConfirmed :: "bool option"

definition PAID_STATES :: "withdrawal_status list" where
  "PAID_STATES = [WD_PAID_PENDING_APPROVAL, WD_APPROVED, WD_COMPLETED]"

definition ofWithdrawal :: "withdrawal \<Rightarrow> uuid \<times> request_info" where
  "ofWithdrawal w = (w_receiptId w, \<lparr>ri_kind = R_WITHDRAWAL, ri_id = w_id w, ri_reference = w_reference w,
     ri_status = RS_Withdrawal (w_status w), ri_quantity = Some (w_quantity w), ri_amount = w_totalFee w,
     ri_paymentConfirmed = Some (w_status w \<in> set PAID_STATES)\<rparr>)"

definition ofLoan :: "loan \<Rightarrow> uuid \<times> request_info" where
  "ofLoan l = (l_receiptId l, \<lparr>ri_kind = R_LOAN, ri_id = l_id l, ri_reference = l_reference l,
     ri_status = RS_Loan (l_status l), ri_quantity = None, ri_amount = l_amount l, ri_paymentConfirmed = None\<rparr>)"

definition ofTrade :: "trade \<Rightarrow> uuid \<times> request_info" where
  "ofTrade t = (t_receiptId t, \<lparr>ri_kind = R_TRADE, ri_id = t_id t, ri_reference = t_reference t,
     ri_status = RS_Trade (t_status t), ri_quantity = Some (t_quantity t), ri_amount = t_totalPrice t,
     ri_paymentConfirmed = None\<rparr>)"

text \<open>A later entry of the map replaces an earlier one of the same receipt.\<close>

definition loadHeldRequests :: "uuid \<Rightarrow> uuid list \<Rightarrow> store \<Rightarrow> uuid \<Rightarrow> request_info option" where
  "loadHeldRequests tenantId receiptIds s =
     map_of (rev
       (map ofWithdrawal (filter (\<lambda>w. w_tenantId w = tenantId \<and> w_receiptId w \<in> set receiptIds) (withdrawals s)) @
        map ofLoan (filter (\<lambda>l. l_tenantId l = tenantId \<and> l_receiptId l \<in> set receiptIds) (loans s)) @
        map ofTrade (filter (\<lambda>t. t_tenantId t = tenantId \<and> t_receiptId t \<in> set receiptIds) (trades s))))"

record admin_row =
  ar_receipt :: receipt
  ar_manager :: "user option"
  ar_storageFeePolicy :: "(fee_policy \<times> string) option"
  ar_group :: receipt_group
  ar_request :: "request_info option"

definition filedBy :: "receipt \<Rightarrow> store \<Rightarrow> user option" where
  "filedBy r s =
     (case r_sourceEventId r of None \<Rightarrow> None
      | Some e \<Rightarrow> (case find_row e_id e (events s) of None \<Rightarrow> None
        | Some ev \<Rightarrow> (case e_actorUserId ev of None \<Rightarrow> None | Some u \<Rightarrow> findUser u s)))"

definition enrich :: "uuid \<Rightarrow> (uuid \<Rightarrow> request_info option) \<Rightarrow> store \<Rightarrow> receipt \<Rightarrow> admin_row" where
  "enrich tenantId requestOf s r =
     \<lparr>ar_receipt = r, ar_manager = filedBy r s,
      ar_storageFeePolicy = map_option (\<lambda>p. (p, policyScope p)) (adminPolicy tenantId (r_warehouseId r) (r_commodityId r) s),
      ar_group = deriveGroup (r_status r) (r_approvalStatus r), ar_request = requestOf (r_id r)\<rparr>"

definition enrichAll :: "uuid \<Rightarrow> store \<Rightarrow> receipt list \<Rightarrow> admin_row list" where
  "enrichAll tenantId s rs =
     (let heldIds = map r_id (filter (\<lambda>r. r_status r \<in> set HELD) rs)
      in map (enrich tenantId (loadHeldRequests tenantId heldIds s) s) rs)"

section \<open>The receipt table\<close>

fun receipt_status_name :: "receipt_status \<Rightarrow> string" where
  "receipt_status_name ACTIVE = ''ACTIVE''"
| "receipt_status_name PENDING_APPROVAL = ''PENDING_APPROVAL''"
| "receipt_status_name HELD_WITHDRAWAL = ''HELD_WITHDRAWAL''"
| "receipt_status_name HELD_LOAN = ''HELD_LOAN''"
| "receipt_status_name HELD_TRADE = ''HELD_TRADE''"
| "receipt_status_name HELD_PLEDGE_PENDING = ''HELD_PLEDGE_PENDING''"
| "receipt_status_name HELD_LIEN = ''HELD_LIEN''"
| "receipt_status_name WITHDRAWN = ''WITHDRAWN''"
| "receipt_status_name TRADED_OUT = ''TRADED_OUT''"
| "receipt_status_name SEIZED = ''SEIZED''"
| "receipt_status_name EXPIRED = ''EXPIRED''"
| "receipt_status_name CANCELLED = ''CANCELLED''"
| "receipt_status_name SPLIT = ''SPLIT''"

definition all_receipt_statuses :: "receipt_status list" where
  "all_receipt_statuses = [ACTIVE, PENDING_APPROVAL] @ HELD @ CLOSED"

text \<open>The status filter: a group, else the name of a status, else everything but SPLIT.\<close>

definition statusFilter :: "string option \<Rightarrow> receipt_status \<Rightarrow> bool" where
  "statusFilter status st =
     (let t = map to_upper (case status of None \<Rightarrow> [] | Some q \<Rightarrow> q)
      in if t = ''ACTIVE'' then st \<in> set (statusesForGroup G_ACTIVE)
         else if t = ''CANCELLED'' then st \<in> set (statusesForGroup G_CANCELLED)
         else if t = ''LIENED'' \<or> t = ''PLEDGE'' then st \<in> set (statusesForGroup G_LIENED)
         else if t \<in> receipt_status_name ` set all_receipt_statuses then receipt_status_name st = t
         else st \<noteq> SPLIT)"

record receipt_query =
  rv_status :: "string option"
  rv_warehouseId :: "string option"
  rv_approvalStatus :: "approval_status option"
  rv_clientId :: "string option"
  rv_page :: "string option"
  rv_limit :: "string option"

definition adminMatches :: "uuid \<Rightarrow> receipt_query \<Rightarrow> receipt \<Rightarrow> bool" where
  "adminMatches tenantId q r \<longleftrightarrow> r_tenantId r = tenantId \<and> statusFilter (rv_status q) (r_status r) \<and>
     (case rv_approvalStatus q of None \<Rightarrow> True | Some a \<Rightarrow> r_approvalStatus r = a) \<and>
     (case truthy_opt (rv_warehouseId q) of None \<Rightarrow> True | Some w \<Rightarrow> r_warehouseId r = w) \<and>
     (case truthy_opt (rv_clientId q) of None \<Rightarrow> True | Some c \<Rightarrow> r_clientId r = c)"

text \<open>The page is not clamped; the limit is at most a hundred.\<close>

definition cappedPaginate :: "string option \<Rightarrow> string option \<Rightarrow> (store \<Rightarrow> 'r list) \<Rightarrow> 'r raw_page handler" where
  "cappedPaginate page limit rows =
     bindM (requireM (TypeError ''NaN'') (param page ''1'')) (\<lambda>p.
     bindM (requireM (TypeError ''NaN'') (param limit ''20'')) (\<lambda>l0.
     let l = min l0 100; skip = (p - 1) * l in
     bindM (failIfM (skip < 0) (TypeError ''skip'')) (\<lambda>_.
     bindM (getsM rows) (\<lambda>rs.
       returnM \<lparr>rw_data = raw_slice skip l rs, rw_total = length rs, rw_page = p, rw_limit = l,
         rw_totalPages = (if l = 0 then None else Some \<lceil>of_nat (length rs) / (of_int l :: rat)\<rceil>)\<rparr>))))"

definition getReceipts :: "uuid \<Rightarrow> receipt_query \<Rightarrow> admin_row raw_page handler" where
  "getReceipts tenantId q =
     bindM (cappedPaginate (rv_page q) (rv_limit q) (\<lambda>s. rev (filter (adminMatches tenantId q) (receipts s)))) (\<lambda>pg.
       getsM (\<lambda>s. \<lparr>rw_data = enrichAll tenantId s (rw_data pg), rw_total = rw_total pg, rw_page = rw_page pg,
         rw_limit = rw_limit pg, rw_totalPages = rw_totalPages pg\<rparr>))"

definition getReceiptById :: "uuid \<Rightarrow> uuid \<Rightarrow> admin_row handler" where
  "getReceiptById tenantId receiptId =
     bindM (getsM (\<lambda>s. find (\<lambda>r. r_id r = receiptId \<and> r_tenantId r = tenantId) (receipts s))) (\<lambda>r.
     bindM (requireM (NotFound ''Receipt not found'') r) (\<lambda>r.
       getsM (\<lambda>s. enrich tenantId (if r_status r \<in> set HELD then loadHeldRequests tenantId [r_id r] s else (\<lambda>_. None)) s r)))"

definition getPendingApprovals :: "uuid \<Rightarrow> store \<Rightarrow> admin_row list" where
  "getPendingApprovals tenantId s =
     enrichAll tenantId s (filter (\<lambda>r. r_tenantId r = tenantId \<and> r_approvalStatus r = PENDING) (receipts s))"

section \<open>Counters\<close>

record receipt_stats =
  sx_totalReceipts :: nat
  sx_activeReceipts :: nat
  sx_approvedReceipts :: nat
  sx_pendingReceipts :: nat
  sx_rejectedReceipts :: nat
  sx_pendingOrRejected :: nat

definition getReceiptStats :: "uuid \<Rightarrow> store \<Rightarrow> receipt_stats" where
  "getReceiptStats tenantId s =
     (let n = (\<lambda>P. length (filter (\<lambda>r. r_tenantId r = tenantId \<and> r_status r \<noteq> SPLIT \<and> P r) (receipts s)));
          pending = n (\<lambda>r. r_approvalStatus r = PENDING); rejected = n (\<lambda>r. r_approvalStatus r = REJECTED)
      in \<lparr>sx_totalReceipts = n (\<lambda>_. True), sx_activeReceipts = n (\<lambda>r. r_status r = ACTIVE),
          sx_approvedReceipts = n (\<lambda>r. r_approvalStatus r = APPROVED), sx_pendingReceipts = pending,
          sx_rejectedReceipts = rejected, sx_pendingOrRejected = pending + rejected\<rparr>)"

section \<open>Facts\<close>

text \<open>The two copies of the policy lookup agree.\<close>

lemma resolvePolicy_agrees: "adminPolicy t w c s = resolveStorageFeePolicy t w c s"
  by (simp add: adminPolicy_def resolveStorageFeePolicy_def Let_def split: option.split)

text \<open>The three approval counters partition the total.\<close>

lemma stats_partition:
  "sx_approvedReceipts (getReceiptStats t s) + sx_pendingOrRejected (getReceiptStats t s) = sx_totalReceipts (getReceiptStats t s)"
proof -
  have "length (filter P xs) = length (filter (\<lambda>r. P r \<and> r_approvalStatus r = APPROVED) xs) +
      (length (filter (\<lambda>r. P r \<and> r_approvalStatus r = PENDING) xs) + length (filter (\<lambda>r. P r \<and> r_approvalStatus r = REJECTED) xs))"
    for P and xs :: "receipt list"
  proof (induction xs)
    case (Cons x xs)
    then show ?case by (cases "r_approvalStatus x") auto
  qed simp
  from this [of "\<lambda>r. r_tenantId r = t \<and> r_status r \<noteq> SPLIT" "receipts s"] show ?thesis
    by (simp add: getReceiptStats_def Let_def conj_assoc)
qed

lemma receipt_status_name_inj: "receipt_status_name a = receipt_status_name b \<longleftrightarrow> a = b"
  by (cases a; cases b) simp_all

lemma all_receipt_statuses: "st \<in> set all_receipt_statuses"
  by (cases st) (simp_all add: all_receipt_statuses_def HELD_def CLOSED_def)

text \<open>The filter by the name of a status other than a group's shows exactly that status.\<close>

lemma statusFilter_name:
  assumes "st \<noteq> ACTIVE" and "st \<noteq> CANCELLED"
  shows "statusFilter (Some (receipt_status_name st)) x \<longleftrightarrow> x = st"
proof -
  have "list_all (\<lambda>st. map to_upper (receipt_status_name st) = receipt_status_name st) all_receipt_statuses" by code_simp
  with all_receipt_statuses [of st] have up: "map to_upper (receipt_status_name st) = receipt_status_name st"
    by (simp add: list_all_iff)
  have "receipt_status_name st \<noteq> ''ACTIVE''" "receipt_status_name st \<noteq> ''CANCELLED''"
    "receipt_status_name st \<noteq> ''LIENED''" "receipt_status_name st \<noteq> ''PLEDGE''"
    using assms by (cases st; simp)+
  moreover have "receipt_status_name st \<in> receipt_status_name ` set all_receipt_statuses"
    using all_receipt_statuses [of st] by simp
  ultimately show ?thesis
    by (simp add: statusFilter_def up receipt_status_name_inj)
qed

end
