(* ===== verification/Warehouse_Admin.thy ===== *)
theory Warehouse_Admin
  imports Managers Receipt_Admin
begin

text \<open>
  Warehouses as the administrator keeps them,
  \<open>src/admin/services/admin-warehouse.service.ts\<close>: the listings, the creation with its
  commodities and managers, edits, the commodities a warehouse accepts, bulk assignment of
  managers, and the credential the managers of a warehouse share.

  The bodies of the creation and of the edit are taken to hold the fields the service names:
  the controller declares them as \<open>any\<close> and the database client would write every other column
  they contain. A drawn number is an argument, as for the other temporary passwords.
\<close>

definition IN_WAREHOUSE_STATUSES :: "receipt_status list" where
  "IN_WAREHOUSE_STATUSES = ACTIVE # HELD"

definition warehouseOfTenant :: "uuid \<Rightarrow> uuid \<Rightarrow> store \<Rightarrow> warehouse option" where
  "warehouseOfTenant tenantId i s = find (\<lambda>w. wh_id w = i \<and> wh_tenantId w = tenantId) (warehouses s)"

definition requireWarehouse :: "uuid \<Rightarrow> uuid \<Rightarrow> warehouse handler" where
  "requireWarehouse tenantId i =
     bindM (getsM (warehouseOfTenant tenantId i)) (requireM (NotFound ''Warehouse not found''))"

section \<open>Listings\<close>

record warehouse_query =
  wq_status :: "warehouse_status option"
  wq_search :: "string option"
  wq_page :: "string option"
  wq_limit :: "string option"

definition warehouseMatches :: "uuid \<Rightarrow> warehouse_query \<Rightarrow> warehouse \<Rightarrow> bool" where
  "warehouseMatches tenantId q w \<longleftrightarrow> wh_tenantId w = tenantId \<and>
     (case wq_status q of None \<Rightarrow> True | Some st \<Rightarrow> wh_status w = st) \<and>
     (case truthy_opt (wq_search q) of None \<Rightarrow> True
      | Some t \<Rightarrow> contains_insensitive t (wh_name w) \<or>
          (case wh_code w of None \<Rightarrow> False | Some code \<Rightarrow> contains_insensitive t code) \<or>
          contains_insensitive t (wh_location w))"

text \<open>The relation \<open>managerAssignments\<close> of a warehouse, without the closed ones.\<close>

definition openManagers :: "uuid \<Rightarrow> store \<Rightarrow> user list" where
  "openManagers warehouseId s = List.map_filter (\<lambda>a. findUser (ma_managerId a) s)
     (filter (\<lambda>a. ma_warehouseId a = warehouseId \<and> ma_unassignedAt a = None) (assignments s))"

definition rootDeposits :: "uuid \<Rightarrow> uuid \<Rightarrow> store \<Rightarrow> nat" where
  "rootDeposits tenantId warehouseId s = length (filter (\<lambda>r. r_tenantId r = tenantId \<and>
     r_parentReceiptId r = None \<and> r_warehouseId r = warehouseId) (receipts s))"

record warehouse_row =
  wr_warehouse :: warehouse
  wr_managers :: "user list"
  wr_receipts :: nat

record warehouse_totals =
  wt_totalWarehouses :: nat
  wt_totalCapacityMt :: dec
  wt_totalUtilizationMt :: dec

definition warehouseTotals :: "uuid \<Rightarrow> store \<Rightarrow> warehouse_totals" where
  "warehouseTotals tenantId s =
     (let all = filter (\<lambda>w. wh_tenantId w = tenantId) (warehouses s)
      in \<lparr>wt_totalWarehouses = length all,
          wt_totalCapacityMt = sum_list (map (\<lambda>w. given (wh_capacityMt w) 0) all),
          wt_totalUtilizationMt = volume (filter (\<lambda>r. r_tenantId r = tenantId \<and>
            r_status r \<in> set IN_WAREHOUSE_STATUSES) (receipts s))\<rparr>)"

definition getWarehouses :: "uuid \<Rightarrow> warehouse_query \<Rightarrow> (warehouse_totals \<times> warehouse_row raw_page) handler" where
  "getWarehouses tenantId q =
     bindM (cappedPaginate (wq_page q) (wq_limit q) (\<lambda>s.
         map (\<lambda>w. \<lparr>wr_warehouse = w, wr_managers = openManagers (wh_id w) s, wr_receipts = rootDeposits tenantId (wh_id w) s\<rparr>)
           (rev (filter (warehouseMatches tenantId q) (warehouses s))))) (\<lambda>pg.
     bindM (getsM (warehouseTotals tenantId)) (\<lambda>totals. returnM (totals, pg)))"

record warehouse_summary =
  wy_totalClients :: nat
  wy_totalCommodityMt :: dec
  wy_totalReceipts :: nat
  wy_totalStorageFee :: dec
  wy_totalFeesBilled :: dec

definition warehouseSummary :: "uuid \<Rightarrow> uuid \<Rightarrow> store \<Rightarrow> warehouse_summary" where
  "warehouseSummary tenantId i s =
     (let present = filter (\<lambda>r. r_warehouseId r = i \<and> r_tenantId r = tenantId \<and>
            r_status r \<in> set IN_WAREHOUSE_STATUSES) (receipts s);
          billed = filter (\<lambda>w. w_tenantId w = tenantId \<and> w_status w = WD_COMPLETED \<and>
            map_option r_warehouseId (find_row r_id (w_receiptId w) (receipts s)) = Some i) (withdrawals s)
      in \<lparr>wy_totalClients = length (remdups (map r_clientId present)), wy_totalCommodityMt = volume present,
          wy_totalReceipts = rootDeposits tenantId i s,
          wy_totalStorageFee = sum_list (map w_storageFee billed), wy_totalFeesBilled = sum_list (map w_totalFee billed)\<rparr>)"

definition grouped :: "receipt \<Rightarrow> receipt \<times> receipt_group" where
  "grouped r = (r, deriveGroup (r_status r) (r_approvalStatus r))"

definition acceptedCommodities :: "uuid \<Rightarrow> (warehouse_commodity \<Rightarrow> bool) \<Rightarrow> store \<Rightarrow> (commodity \<times> dec) list" where
  "acceptedCommodities warehouseId also s =
     List.map_filter (\<lambda>l. map_option (\<lambda>c. (c, wc_storageFeePerUnit l)) (find_row co_id (wc_commodityId l) (commodities s)))
       (filter (\<lambda>l. wc_warehouseId l = warehouseId \<and> also l) (warehouseCommodities s))"

record warehouse_page =
  wp_warehouse :: warehouse
  wp_commodities :: "(commodity \<times> dec) list"
  wp_managers :: "user list"
  wp_summary :: warehouse_summary
  wp_recentReceipts :: "(receipt \<times> receipt_group) list"

definition getWarehouseById :: "uuid \<Rightarrow> uuid \<Rightarrow> warehouse_page handler" where
  "getWarehouseById tenantId i =
     bindM (requireWarehouse tenantId i) (\<lambda>w.
       getsM (\<lambda>s. \<lparr>wp_warehouse = w, wp_commodities = acceptedCommodities i (\<lambda>_. True) s, wp_managers = openManagers i s,
         wp_summary = warehouseSummary tenantId i s,
         wp_recentReceipts = map grouped (take 10 (rev (filter (\<lambda>r. r_warehouseId r = i \<and> r_tenantId r = tenantId \<and>
           r_status r \<noteq> SPLIT) (receipts s))))\<rparr>))"

text \<open>Of the query, the filters by warehouse and client are not looked at.\<close>

definition getWarehouseReceipts :: "uuid \<Rightarrow> uuid \<Rightarrow> receipt_query \<Rightarrow> (receipt \<times> receipt_group) raw_page handler" where
  "getWarehouseReceipts tenantId warehouseId q =
     bindM (requireWarehouse tenantId warehouseId) (\<lambda>_.
       cappedPaginate (rv_page q) (rv_limit q) (\<lambda>s. map grouped (rev (filter (\<lambda>r. r_warehouseId r = warehouseId \<and>
         r_tenantId r = tenantId \<and> statusFilter (rv_status q) (r_status r) \<and>
         (case rv_approvalStatus q of None \<Rightarrow> True | Some a \<Rightarrow> r_approvalStatus r = a)) (receipts s)))))"

definition getWarehouseCommodities :: "uuid \<Rightarrow> uuid \<Rightarrow> (commodity \<times> dec) list handler" where
  "getWarehouseCommodities tenantId warehouseId =
     bindM (requireWarehouse tenantId warehouseId) (\<lambda>_.
       getsM (acceptedCommodities warehouseId (\<lambda>l. wc_tenantId l = tenantId)))"

definition getWarehouseManagers :: "uuid \<Rightarrow> uuid \<Rightarrow> (manager_assignment \<times> user) list handler" where
  "getWarehouseManagers tenantId warehouseId =
     bindM (requireWarehouse tenantId warehouseId) (\<lambda>_.
       getsM (\<lambda>s. List.map_filter (\<lambda>a. map_option (Pair a) (findUser (ma_managerId a) s))
         (filter (\<lambda>a. ma_warehouseId a = warehouseId \<and> ma_tenantId a = tenantId \<and> ma_unassignedAt a = None) (assignments s))))"

section \<open>Creation and edits\<close>

record create_warehouse_dto =
  nh_name :: string
  nh_location :: string
  nh_code :: "string option"
  nh_type :: "string option"
  nh_state :: "string option"
  nh_address :: "string option"
  nh_capacityMt :: "dec option"
  nh_commodityIds :: "uuid list"
  nh_managerIds :: "uuid list"

text \<open>Codes and addresses are unique over all tenants; a warehouse without one clashes with none.\<close>

definition warehouseClash :: "warehouse \<Rightarrow> warehouse list \<Rightarrow> string option" where
  "warehouseClash w others =
     (if wh_id w \<in> wh_id ` set others then Some ''id''
      else if wh_code w \<noteq> None \<and> wh_code w \<in> wh_code ` set others then Some ''code''
      else if wh_email w \<noteq> None \<and> wh_email w \<in> wh_email ` set others then Some ''email''
      else None)"

definition newWarehouse :: "uuid \<Rightarrow> uuid \<Rightarrow> create_warehouse_dto \<Rightarrow> warehouse" where
  "newWarehouse i tenantId dto = warehouse_defaults\<lparr>wh_id := i, wh_tenantId := tenantId, wh_name := nh_name dto,
     wh_location := nh_location dto, wh_code := nh_code dto, wh_type := nh_type dto, wh_state := nh_state dto,
     wh_address := nh_address dto, wh_capacityMt := nh_capacityMt dto, wh_status := WH_ACTIVE\<rparr>"

text \<open>\<open>createMany\<close> with \<open>skipDuplicates\<close>: a row that clashes with one before it is left out.\<close>

fun insertSkipping :: "manager_assignment list \<Rightarrow> manager_assignment list \<Rightarrow> manager_assignment list" where
  "insertSkipping rows [] = rows"
| "insertSkipping rows (a # new) =
     insertSkipping (if ma_id a \<in> ma_id ` set rows \<or> assignmentKey a \<in> assignmentKey ` set rows then rows else rows @ [a]) new"

definition teamAssignments :: "(nat \<Rightarrow> uuid) \<Rightarrow> uuid \<Rightarrow> uuid \<Rightarrow> (uuid \<Rightarrow> uuid) \<Rightarrow> uuid list \<Rightarrow> manager_assignment list" where
  "teamAssignments ids tenantId warehouseId assignedBy managerIds =
     map (\<lambda>(k, m). \<lparr>ma_id = ids k, ma_tenantId = tenantId, ma_warehouseId = warehouseId, ma_managerId = m,
       ma_assignedBy = assignedBy m, ma_unassignedAt = None\<rparr>) (enumerate 0 managerIds)"

text \<open>
  \<open>ids 0\<close> is the identifier of the warehouse, the next ones those of its commodities, the rest
  those of its managers. The whole creation is one transaction.
\<close>

definition createWarehouse :: "(nat \<Rightarrow> uuid) \<Rightarrow> uuid \<Rightarrow> create_warehouse_dto \<Rightarrow> warehouse handler" where
  "createWarehouse ids tenantId dto =
     transactM (\<lambda>s.
       let w = newWarehouse (ids 0) tenantId dto; n = length (nh_commodityIds dto) in
       case warehouseClash w (warehouses s) of
         Some target \<Rightarrow> Inl (Db (P2002 target))
       | None \<Rightarrow>
           let s1 = s\<lparr>warehouses := warehouses s @ [w]\<rparr>;
               s2 = snd (forM (enumerate 1 (nh_commodityIds dto)) (\<lambda>(k, c). upsertAcceptance (ids k) tenantId c (wh_id w)) s1)
           in Inr (w, s2\<lparr>assignments := insertSkipping (assignments s2)
                (teamAssignments (\<lambda>k. ids (n + 1 + k)) tenantId (wh_id w) id (nh_managerIds dto))\<rparr>))"

definition writeWarehouse :: "uuid \<Rightarrow> (warehouse \<Rightarrow> warehouse) \<Rightarrow> warehouse handler" where
  "writeWarehouse i f =
     transactM (\<lambda>s. case find_row wh_id i (warehouses s) of
         None \<Rightarrow> Inl (Db Row_Missing)
       | Some w \<Rightarrow> (case warehouseClash (f w) (filter (\<lambda>x. wh_id x \<noteq> i) (warehouses s)) of
             Some target \<Rightarrow> Inl (Db (P2002 target))
           | None \<Rightarrow> Inr (f w, s\<lparr>warehouses := upd_row wh_id i f (warehouses s)\<rparr>)))"

record update_warehouse_dto =
  uh_name :: "string option"
  uh_location :: "string option"
  uh_code :: "string option"
  uh_type :: "string option"
  uh_state :: "string option"
  uh_address :: "string option"
  uh_capacityMt :: "dec option"
  uh_status :: "warehouse_status option"

definition editedWarehouse :: "update_warehouse_dto \<Rightarrow> warehouse \<Rightarrow> warehouse" where
  "editedWarehouse dto w = w\<lparr>wh_name := given (uh_name dto) (wh_name w), wh_location := given (uh_location dto) (wh_location w),
     wh_code := givenOpt (uh_code dto) (wh_code w), wh_type := givenOpt (uh_type dto) (wh_type w),
     wh_state := givenOpt (uh_state dto) (wh_state w), wh_address := givenOpt (uh_address dto) (wh_address w),
     wh_capacityMt := givenOpt (uh_capacityMt dto) (wh_capacityMt w), wh_status := given (uh_status dto) (wh_status w)\<rparr>"

definition updateWarehouse :: "uuid \<Rightarrow> uuid \<Rightarrow> update_warehouse_dto \<Rightarrow> warehouse handler" where
  "updateWarehouse tenantId i dto =
     bindM (requireWarehouse tenantId i) (\<lambda>_. writeWarehouse i (editedWarehouse dto))"

section \<open>Commodities of a warehouse\<close>

definition addCommodity :: "uuid \<Rightarrow> uuid \<Rightarrow> uuid \<Rightarrow> uuid \<Rightarrow> unit handler" where
  "addCommodity i tenantId warehouseId commodityId =
     bindM (getsM (\<lambda>s. (warehouseOfTenant tenantId warehouseId s, commodityOfTenant tenantId commodityId s))) (\<lambda>(w, c).
     bindM (failIfM (w = None) (NotFound ''Warehouse not found'')) (\<lambda>_.
     bindM (failIfM (c = None) (NotFound ''Commodity not found'')) (\<lambda>_.
       upsertAcceptance i tenantId commodityId warehouseId)))"

definition removeCommodity :: "uuid \<Rightarrow> uuid \<Rightarrow> uuid \<Rightarrow> warehouse_commodity handler" where
  "removeCommodity tenantId warehouseId commodityId =
     bindM (getsM (\<lambda>s. find (\<lambda>l. wc_warehouseId l = warehouseId \<and> wc_commodityId l = commodityId \<and>
         wc_tenantId l = tenantId) (warehouseCommodities s))) (\<lambda>found.
     bindM (requireM (NotFound ''Commodity not linked to this warehouse'') found) (\<lambda>l.
     bindM (getsM (\<lambda>s. list_ex (\<lambda>r. r_warehouseId r = warehouseId \<and> r_commodityId r = commodityId \<and>
         r_tenantId r = tenantId \<and> r_status r = ACTIVE) (receipts s))) (\<lambda>hasActiveReceipts.
     bindM (failIfM hasActiveReceipts
       (BadRequest ''Cannot remove commodity: there are active receipts for it in this warehouse'')) (\<lambda>_.
     bindM (modifyM (\<lambda>s. s\<lparr>warehouseCommodities := filter (\<lambda>x. wc_id x \<noteq> wc_id l) (warehouseCommodities s)\<rparr>)) (\<lambda>_.
       returnM l)))))"

section \<open>Managers of a warehouse\<close>

definition assignManagers :: "(nat \<Rightarrow> uuid) \<Rightarrow> uuid \<Rightarrow> uuid \<Rightarrow> uuid list \<Rightarrow> uuid \<Rightarrow> assign_result handler" where
  "assignManagers ids tenantId warehouseId managerIds assignedBy =
     bindM (requireWarehouse tenantId warehouseId) (\<lambda>_.
     bindM (getsM (\<lambda>s. map ma_managerId (filter (\<lambda>a. ma_warehouseId a = warehouseId \<and> ma_tenantId a = tenantId \<and>
         ma_unassignedAt a = None) (assignments s)))) (\<lambda>existing.
     let newIds = filter (\<lambda>m. m \<notin> set existing) managerIds in
     bindM (whenM (newIds \<noteq> [])
       (bindM (transactM (insertAssignments (teamAssignments ids tenantId warehouseId (\<lambda>_. assignedBy) newIds))) (\<lambda>_.
        bindM (writeWarehouse warehouseId (\<lambda>w. w\<lparr>wh_mustChangePassword := True\<rparr>)) (\<lambda>_. returnM ())))) (\<lambda>_.
       returnM \<lparr>as_assigned = length newIds, as_alreadyAssigned = length managerIds - length newIds\<rparr>)))"

section \<open>The shared credential\<close>

text \<open>The pattern \<open>^[^\s@]+@[^\s@]+\.[^\s@]+$\<close>: one at-sign, a dot inside the domain.\<close>

definition emailShape :: "string \<Rightarrow> bool" where
  "emailShape t \<longleftrightarrow>
     (case dropWhile (\<lambda>ch. ch \<noteq> CHR ''@'') t of
        [] \<Rightarrow> False
      | _ # domain \<Rightarrow> hd t \<noteq> CHR ''@'' \<and> CHR ''@'' \<notin> set domain \<and> list_all (\<lambda>ch. \<not> js_space ch) t \<and>
          CHR ''.'' \<in> set (butlast (tl domain)))"

text \<open>The four characters of the sets are drawn first.\<close>

definition generateInitialPassword :: "draws \<Rightarrow> string" where
  "generateInitialPassword draw =
     [pick draw 0 pwUpper, pick draw 1 pwLower, pick draw 2 pwDigits, pick draw 3 pwSymbols] @
     map (\<lambda>k. pick draw k (pwUpper @ pwLower @ pwDigits @ pwSymbols)) [4 ..< 10]"

definition setWarehouseCredentials ::
    "crypto \<Rightarrow> time \<Rightarrow> draws \<Rightarrow> uuid \<Rightarrow> uuid \<Rightarrow> string \<Rightarrow> string option \<Rightarrow> credentials handler" where
  "setWarehouseCredentials c now draw tenantId warehouseId rawEmail givenPassword =
     bindM (requireWarehouse tenantId warehouseId) (\<lambda>_.
     let email = lower (js_trim rawEmail) in
     bindM (failIfM (\<not> emailShape email) (BadRequest ''A valid email address is required.'')) (\<lambda>_.
     bindM (getsM (\<lambda>s. list_ex (\<lambda>w. wh_email w = Some email \<and> wh_id w \<noteq> warehouseId) (warehouses s))) (\<lambda>taken.
     bindM (failIfM taken (BadRequest ''That email is already in use by another warehouse.'')) (\<lambda>_.
     let password = given givenPassword (generateInitialPassword draw) in
     bindM (writeWarehouse warehouseId (\<lambda>w. w\<lparr>wh_email := Some email, wh_passwordHash := Some (bcrypt_hash c password),
         wh_passwordSetAt := Some now, wh_mustChangePassword := True\<rparr>)) (\<lambda>_.
       returnM \<lparr>cr_email = email, cr_temporaryPassword = password\<rparr>)))))"

definition resetWarehousePassword :: "crypto \<Rightarrow> time \<Rightarrow> draws \<Rightarrow> uuid \<Rightarrow> uuid \<Rightarrow> credentials handler" where
  "resetWarehousePassword c now draw tenantId warehouseId =
     bindM (requireWarehouse tenantId warehouseId) (\<lambda>w.
     bindM (requireM (BadRequest ''Set a warehouse email first via PATCH /admin/warehouses/:id/credentials.'')
         (truthy_opt (wh_email w))) (\<lambda>email.
     let password = generateInitialPassword draw in
     bindM (writeWarehouse warehouseId (\<lambda>w. w\<lparr>wh_passwordHash := Some (bcrypt_hash c password),
         wh_passwordSetAt := Some now, wh_mustChangePassword := True\<rparr>)) (\<lambda>_.
       returnM \<lparr>cr_email = email, cr_temporaryPassword = password\<rparr>)))"

end
