(* ===== verification/Warehouse_Properties.thy ===== *)
theory Warehouse_Properties
  imports Warehouse_Admin Access_Properties
begin

text \<open>
  What the administration of the warehouses guarantees: codes, addresses, acceptances and
  assignments that stay unique, and the hand-over of the credential the managers share.
\<close>

section \<open>Tables that stay well formed\<close>

definition same_site :: "warehouse \<Rightarrow> warehouse \<Rightarrow> bool" where
  "same_site w w' \<longleftrightarrow> wh_id w' = wh_id w \<and> wh_tenantId w' = wh_tenantId w"

definition sites_ok :: "warehouse list \<Rightarrow> bool" where
  "sites_ok ws \<longleftrightarrow> distinct (map wh_id ws) \<and> distinct (List.map_filter wh_code ws) \<and>
     distinct (List.map_filter wh_email ws)"

definition acceptances_ok :: "warehouse_commodity list \<Rightarrow> bool" where
  "acceptances_ok ls \<longleftrightarrow> distinct (map (\<lambda>l. (wc_warehouseId l, wc_commodityId l)) ls)"

definition siting :: "store \<Rightarrow> store \<Rightarrow> bool" where
  "siting s s' \<longleftrightarrow>
     (sites_ok (warehouses s) \<longrightarrow> sites_ok (warehouses s') \<and> grows same_site (warehouses s) (warehouses s')) \<and>
     (acceptances_ok (warehouseCommodities s) \<longrightarrow> acceptances_ok (warehouseCommodities s')) \<and>
     (assignments_ok (assignments s) \<longrightarrow> assignments_ok (assignments s'))"

interpretation site_life: lifecycle wh_id same_site
  by unfold_locales (auto simp: same_site_def)

interpretation sites_live: evolution siting
proof
  show "siting s s" for s by (simp add: siting_def site_life.grows_refl)
  show "siting s s' \<Longrightarrow> siting s' s'' \<Longrightarrow> siting s s''" for s s' s''
    by (auto simp: siting_def intro: site_life.grows_trans)
qed

lemma siting_aside:
  "warehouses s' = warehouses s \<Longrightarrow> acceptances_ok (warehouseCommodities s) \<longrightarrow> acceptances_ok (warehouseCommodities s')
   \<Longrightarrow> assignments_ok (assignments s) \<longrightarrow> assignments_ok (assignments s') \<Longrightarrow> siting s s'"
  by (simp add: siting_def site_life.grows_refl)

lemma map_filter_append [simp]: "List.map_filter f (xs @ ys) = List.map_filter f xs @ List.map_filter f ys"
  by (simp add: List.map_filter_def)

lemma map_filter_Cons [simp]:
  "List.map_filter f (x # xs) = (case f x of None \<Rightarrow> List.map_filter f xs | Some y \<Rightarrow> y # List.map_filter f xs)"
  by (simp add: List.map_filter_def split: option.split)

lemma in_map_filter: "y \<in> set (List.map_filter f xs) \<longleftrightarrow> Some y \<in> f ` set xs"
  by (force simp: set_map_filter image_iff)

text \<open>The row an update by key reaches, between the rows it leaves alone.\<close>

lemma upd_row_split:
  assumes "distinct (map key rows)" and "find_row key k rows = Some r"
  obtains a b where "rows = a @ r # b" "upd_row key k f rows = a @ f r # b" "filter (\<lambda>x. key x \<noteq> k) rows = a @ b"
proof -
  from assms have r: "r \<in> set rows" "key r = k" by (auto dest: find_row_SomeD)
  then obtain a b where ab: "rows = a @ r # b" by (meson split_list)
  with assms(1) r(2) have n: "k \<notin> key ` set a" "k \<notin> key ` set b" by auto
  then have "filter (\<lambda>x. key x \<noteq> k) a = a" "filter (\<lambda>x. key x \<noteq> k) b = b" by (auto intro!: filter_True)
  with ab r(2) have "filter (\<lambda>x. key x \<noteq> k) rows = a @ b" by simp
  moreover have "upd_row key k f [r] = [f r]" using r(2) by (simp add: upd_row_def)
  then have "upd_row key k f (a @ [r] @ b) = a @ [f r] @ b"
    by (simp only: upd_row_append upd_row_notin [OF n(1)] upd_row_notin [OF n(2)])
  ultimately show thesis using ab that by simp
qed

lemma column_upd:
  assumes "distinct (List.map_filter g (a @ w # b))" and "g v \<noteq> None \<Longrightarrow> g v \<notin> g ` set (a @ b)"
  shows "distinct (List.map_filter g (a @ v # b))"
proof (cases "g v")
  case None
  with assms(1) show ?thesis by (simp split: option.splits)
next
  case (Some y)
  with assms(2) have "y \<notin> set (List.map_filter g (a @ b))" unfolding in_map_filter by simp
  with assms(1) Some show ?thesis by (simp split: option.splits)
qed

lemma sites_ok_upd:
  assumes ok: "sites_ok ws" and r: "find_row wh_id i ws = Some w" and id: "wh_id (f w) = i"
    and free: "warehouseClash (f w) (filter (\<lambda>x. wh_id x \<noteq> i) ws) = None"
  shows "sites_ok (upd_row wh_id i f ws)"
proof -
  from ok have d: "distinct (map wh_id ws)" by (simp add: sites_ok_def)
  obtain a b where ab: "ws = a @ w # b" "upd_row wh_id i f ws = a @ f w # b" "filter (\<lambda>x. wh_id x \<noteq> i) ws = a @ b"
    by (rule upd_row_split [OF d r])
  have w: "wh_id w = i" using find_row_SomeD [OF r] by simp
  have "wh_id (f w) \<notin> wh_id ` set (a @ b)"
    "wh_code (f w) \<noteq> None \<Longrightarrow> wh_code (f w) \<notin> wh_code ` set (a @ b)"
    "wh_email (f w) \<noteq> None \<Longrightarrow> wh_email (f w) \<notin> wh_email ` set (a @ b)"
    using free unfolding ab(3) by (auto simp: warehouseClash_def split: if_splits)
  moreover have "distinct (map wh_id (a @ f w # b))" using d ab(1) id w by simp
  ultimately show ?thesis using ok column_upd [of wh_code a w b "f w"] column_upd [of wh_email a w b "f w"]
    unfolding sites_ok_def ab(2) unfolding ab(1) by blast
qed

lemma writeWarehouse_run:
  "writeWarehouse i f s = (Inr x, s') \<longleftrightarrow>
     (\<exists>w. find_row wh_id i (warehouses s) = Some w \<and> warehouseClash (f w) (filter (\<lambda>x. wh_id x \<noteq> i) (warehouses s)) = None \<and>
        x = f w \<and> s' = s\<lparr>warehouses := upd_row wh_id i f (warehouses s)\<rparr>)"
  by (auto simp: writeWarehouse_def split: option.splits)

lemma warehouses_write_siting:
  assumes "find_row wh_id i (warehouses s) = Some w" and "\<And>w. same_site w (f w)"
    and "warehouseClash (f w) (filter (\<lambda>x. wh_id x \<noteq> i) (warehouses s)) = None"
  shows "siting s (s\<lparr>warehouses := upd_row wh_id i f (warehouses s)\<rparr>)"
proof -
  have "wh_id (f w) = i" using find_row_SomeD [OF assms(1)] assms(2) [of w] by (simp add: same_site_def)
  moreover have "grows same_site (warehouses s) (upd_row wh_id i f (warehouses s))" if "sites_ok (warehouses s)"
    using that site_life.grows_upd_row(1) [OF _ assms(1), of f] assms(2) by (simp add: sites_ok_def)
  ultimately show ?thesis using sites_ok_upd [where f = f, OF _ assms(1) _ assms(3)] by (simp add: siting_def)
qed

lemma writeWarehouse_siting: "(\<And>w. same_site w (f w)) \<Longrightarrow> confined siting (writeWarehouse i f)"
  unfolding writeWarehouse_def
  by (rule sites_live.confined_transact) (auto simp: warehouses_write_siting split: option.splits)

text \<open>A new credential clashes with no other row when its address is nobody else's.\<close>

lemma no_clash:
  assumes "sites_ok ws" and "find_row wh_id i ws = Some w" and "wh_id (f w) = i" and "wh_code (f w) = wh_code w"
    and "wh_email (f w) = wh_email w \<or> (\<forall>x \<in> set ws. wh_id x \<noteq> i \<longrightarrow> wh_email x \<noteq> wh_email (f w))"
  shows "warehouseClash (f w) (filter (\<lambda>x. wh_id x \<noteq> i) ws) = None"
proof -
  from assms(1) have d: "distinct (map wh_id ws)" by (simp add: sites_ok_def)
  obtain a b where ab: "ws = a @ w # b" "filter (\<lambda>x. wh_id x \<noteq> i) ws = a @ b"
    by (rule upd_row_split [OF d assms(2), of f])
  have w: "wh_id w = i" using find_row_SomeD [OF assms(2)] by simp
  have column: "g w \<noteq> None \<Longrightarrow> g w \<notin> g ` set (a @ b)" if "distinct (List.map_filter g ws)" for g :: "warehouse \<Rightarrow> string option"
    using that unfolding ab(1) by (auto simp: in_map_filter split: option.splits)
  from assms(1) have code: "wh_code w = None \<or> wh_code w \<notin> wh_code ` set (a @ b)"
    and email: "wh_email w = None \<or> wh_email w \<notin> wh_email ` set (a @ b)"
    using column [of wh_code] column [of wh_email] unfolding sites_ok_def by blast+
  have n: "i \<notin> wh_id ` set (a @ b)" using d w unfolding ab(1) by auto
  have "wh_email (f w) \<notin> wh_email ` set (a @ b)" if "wh_email (f w) \<noteq> wh_email w"
  proof
    assume "wh_email (f w) \<in> wh_email ` set (a @ b)"
    then obtain x where "x \<in> set (a @ b)" "wh_email x = wh_email (f w)" by (metis imageE)
    moreover from this(1) n have "wh_id x \<noteq> i" by blast
    ultimately show False using assms(5) that unfolding ab(1) by auto
  qed
  with code email n show ?thesis unfolding ab(2) warehouseClash_def by (cases "wh_email (f w) = wh_email w") (auto simp: assms(3,4))
qed

section \<open>Every call of the administration\<close>

datatype site_call =
    Create_warehouse "nat \<Rightarrow> uuid" uuid create_warehouse_dto
  | Update_warehouse uuid uuid update_warehouse_dto
  | Add_commodity uuid uuid uuid uuid
  | Remove_commodity uuid uuid uuid
  | Assign_managers "nat \<Rightarrow> uuid" uuid uuid "uuid list" uuid
  | Set_credentials crypto time draws uuid uuid string "string option"
  | Reset_credentials crypto time draws uuid uuid
  | Change_credentials crypto jwt time string string

fun site_called :: "site_call \<Rightarrow> store \<Rightarrow> store" where
  "site_called (Create_warehouse ids t dto) s = snd (createWarehouse ids t dto s)"
| "site_called (Update_warehouse t i dto) s = snd (updateWarehouse t i dto s)"
| "site_called (Add_commodity i t w c) s = snd (addCommodity i t w c s)"
| "site_called (Remove_commodity t w c) s = snd (removeCommodity t w c s)"
| "site_called (Assign_managers ids t w ms who) s = snd (assignManagers ids t w ms who s)"
| "site_called (Set_credentials c now draw t w e p) s = snd (setWarehouseCredentials c now draw t w e p s)"
| "site_called (Reset_credentials c now draw t w) s = snd (resetWarehousePassword c now draw t w s)"
| "site_called (Change_credentials c j now tok p) s = snd (changeWarehousePassword c j now tok p s)"

lemma requireWarehouse_reads: "reads (requireWarehouse t i)"
  unfolding requireWarehouse_def by (intro reads_rules)

lemmas site_confined = sites_live.confined_rules requireWarehouse_reads [THEN sites_live.confined_reads]

lemma upsertAcceptance_siting: "confined siting (upsertAcceptance i t c w)"
  unfolding upsertAcceptance_def
  by (rule sites_live.confined_modify, rule siting_aside)
    (auto simp: acceptances_ok_def acceptsCommodity_def list_ex_iff)

lemma addCommodity_siting: "confined siting (addCommodity i t w c)"
  unfolding addCommodity_def by (intro site_confined confined_prod upsertAcceptance_siting)

lemma removeCommodity_siting: "confined siting (removeCommodity t w c)"
  unfolding removeCommodity_def
  by (intro site_confined sites_live.confined_modify siting_aside) (simp_all add: acceptances_ok_def distinct_map_filter)

lemma updateWarehouse_siting: "confined siting (updateWarehouse t i dto)"
  unfolding updateWarehouse_def
  by (intro site_confined writeWarehouse_siting) (simp add: same_site_def editedWarehouse_def)

lemma insertAssignments_siting: "insertAssignments new s = Inr (x, s') \<Longrightarrow> siting s s'"
  by (auto simp: insertAssignments_run intro!: siting_aside)

lemma assignManagers_siting: "confined siting (assignManagers ids t w ms who)"
  unfolding assignManagers_def Let_def
  by (intro site_confined sites_live.confined_transact writeWarehouse_siting insertAssignments_siting) (auto simp: same_site_def)

lemma credentials_siting:
  "confined siting (setWarehouseCredentials c now draw t w e p)" "confined siting (resetWarehousePassword c now draw t w)"
  unfolding setWarehouseCredentials_def resetWarehousePassword_def Let_def
  by (intro site_confined writeWarehouse_siting; simp add: same_site_def)+

lemma insertSkipping_ok: "assignments_ok rows \<Longrightarrow> assignments_ok (insertSkipping rows new)"
  by (induction rows new rule: insertSkipping.induct) (simp_all add: assignments_ok_def)

text \<open>A creation is three steps: the warehouse, its commodities, its managers.\<close>

context evolution
begin

lemma confined_steps: "R s s1 \<Longrightarrow> confined R m \<Longrightarrow> (\<And>s2. R s2 (g s2)) \<Longrightarrow> R s (g (snd (m s1)))"
  by (meson continues confined_snd)

end

lemma createWarehouse_confined:
  assumes ev: "evolution R"
    and new: "\<And>s w. warehouseClash w (warehouses s) = None \<Longrightarrow> R s (s\<lparr>warehouses := warehouses s @ [w]\<rparr>)"
    and link: "\<And>i t c w. confined R (upsertAcceptance i t c w)"
    and team: "\<And>s new. R s (s\<lparr>assignments := insertSkipping (assignments s) new\<rparr>)"
  shows "confined R (createWarehouse ids t dto)"
  unfolding createWarehouse_def Let_def
proof (rule evolution.confined_transact [OF ev], goal_cases)
  case (1 s x s')
  let ?w = "newWarehouse (ids 0) t dto"
  let ?m = "forM (enumerate 1 (nh_commodityIds dto)) (\<lambda>(k, c). upsertAcceptance (ids k) t c (wh_id ?w))"
  let ?g = "\<lambda>s2. s2\<lparr>assignments := insertSkipping (assignments s2)
      (teamAssignments (\<lambda>k. ids (length (nh_commodityIds dto) + 1 + k)) t (wh_id ?w) id (nh_managerIds dto))\<rparr>"
  from 1 have free: "warehouseClash ?w (warehouses s) = None" by (auto split: option.splits)
  with 1 have "(Inr (?w, ?g (snd (?m (s\<lparr>warehouses := warehouses s @ [?w]\<rparr>)))) :: err + warehouse \<times> store) = Inr (x, s')"
    by (simp only: option.case)
  then have s': "s' = ?g (snd (?m (s\<lparr>warehouses := warehouses s @ [?w]\<rparr>)))" by (metis Pair_inject sum.inject(2))
  have m: "confined R ?m" by (rule evolution.confined_for [OF ev]) (auto intro: link)
  show ?case unfolding s' by (rule evolution.confined_steps [where g = ?g, OF ev new [OF free] m team])
qed

lemma createWarehouse_siting: "confined siting (createWarehouse ids t dto)"
proof (rule createWarehouse_confined [OF sites_live.evolution_axioms _ upsertAcceptance_siting])
  show "warehouseClash w (warehouses s) = None \<Longrightarrow> siting s (s\<lparr>warehouses := warehouses s @ [w]\<rparr>)" for s w
    by (auto simp: siting_def sites_ok_def warehouseClash_def in_map_filter site_life.grows_append split: option.splits if_splits)
  show "siting s (s\<lparr>assignments := insertSkipping (assignments s) new\<rparr>)" for s new
    by (rule siting_aside) (simp_all add: insertSkipping_ok)
qed

lemma changeWarehousePassword_siting: "confined siting (changeWarehousePassword c j now tok p)"
proof -
  have "confined siting (verifyTyp j now tok ty)" for ty
    unfolding verifyTyp_def by (intro site_confined)
  moreover have "confined siting (selectStepResponse j now w t)" for w t
    unfolding selectStepResponse_def by (intro site_confined)
  moreover have "siting s (s\<lparr>warehouses := upd_row wh_id i (\<lambda>w. w\<lparr>wh_passwordHash := h, wh_passwordSetAt := n,
      wh_mustChangePassword := False\<rparr>) (warehouses s)\<rparr>)" if "find_row wh_id i (warehouses s) = Some w" for s i w h n
  proof -
    let ?f = "\<lambda>w. w\<lparr>wh_passwordHash := h, wh_passwordSetAt := n, wh_mustChangePassword := False\<rparr>"
    have "sites_ok (warehouses s) \<Longrightarrow> siting s (s\<lparr>warehouses := upd_row wh_id i ?f (warehouses s)\<rparr>)"
      using no_clash [of _ _ _ ?f] find_row_SomeD [OF that] that
      by (intro warehouses_write_siting [OF that]) (simp_all add: same_site_def)
    then show ?thesis by (auto simp: siting_def)
  qed
  ultimately show ?thesis unfolding changeWarehousePassword_def
    by (intro site_confined confined_prod sites_live.confined_transact) (auto split: option.splits)
qed

lemma site_called_siting: "siting s (site_called c s)"
  by (cases c) (simp_all add: sites_live.confined_snd createWarehouse_siting updateWarehouse_siting addCommodity_siting
      removeCommodity_siting assignManagers_siting credentials_siting changeWarehousePassword_siting)


section \<open>The credential of a team\<close>

definition offered :: "store \<Rightarrow> warehouse \<Rightarrow> user list" where
  "offered s w = List.map_filter (currentManager (wh_tenantId w) (wh_id w) s) (assignments s)"

definition siteAnswer :: "crypto \<Rightarrow> jwt \<Rightarrow> time \<Rightarrow> string \<Rightarrow> user list \<Rightarrow> warehouse \<Rightarrow> err + warehouse_answer" where
  "siteAnswer c j now p us w =
     (case truthy_opt (wh_passwordHash w) of
        None \<Rightarrow> Inl (Unauthorized ''Invalid warehouse credentials.'')
      | Some h \<Rightarrow>
          if wh_status w \<noteq> WH_ACTIVE then Inl (Unauthorized ''This warehouse is not active.'')
          else if \<not> bcrypt_compare c p h then Inl (Unauthorized ''Invalid warehouse credentials.'')
          else if wh_mustChangePassword w
          then Inr (Must_Change (wh_id w) (jwt_sign j (stepClaims TYP_CHANGE_PWD (wh_id w) (wh_tenantId w)) now (minutes 10)))
          else Inr (Select (wh_id w) us (jwt_sign j (stepClaims TYP_SELECT_MGR (wh_id w) (wh_tenantId w)) now (minutes 10))))"

lemma warehouseLogin_fst:
  "fst (warehouseLogin c j now e p s) =
     (case find_row wh_email (Some (lower (js_trim e))) (warehouses s) of
        None \<Rightarrow> Inl (Unauthorized ''Invalid warehouse credentials.'')
      | Some w \<Rightarrow> siteAnswer c j now p (offered s w) w)"
  by (simp add: warehouseLogin_def siteAnswer_def offered_def bindM_def getsM_def requireM_def failIfM_def throwM_def returnM_def
      selectStepResponse_def split: option.split)

lemma currentManager_same: "users s' = users s \<Longrightarrow> currentManager t w s' = currentManager t w s"
  by (simp add: fun_eq_iff currentManager_def findUser_def)

lemma find_row_Cons: "find_row key k (r # rows) = (if key r = k then Some r else find_row key k rows)"
  by (simp add: find_row_def)

lemma offered_same: "users s' = users s \<Longrightarrow> assignments s' = assignments s \<Longrightarrow> offered s' w = offered s w"
  by (simp add: offered_def currentManager_same [of s' s])

lemma warehouseOfTenant_row:
  assumes "sites_ok (warehouses s)" and "warehouseOfTenant t i s = Some v"
  shows "find_row wh_id i (warehouses s) = Some v \<and> wh_tenantId v = t \<and> wh_id v = i"
  using assms unfolding warehouseOfTenant_def sites_ok_def by (auto dest!: find_SomeD simp: find_row_Some_iff)

text \<open>Which row an address finds once the row \<open>i\<close> is rewritten.\<close>

lemma find_email_upd:
  assumes ok: "sites_ok ws" and w: "find_row wh_id i ws = Some w"
    and free: "\<forall>x \<in> set ws. wh_id x \<noteq> i \<longrightarrow> wh_email x \<noteq> wh_email (f w) \<or> wh_email x = None"
  shows "find_row wh_email (Some a) (upd_row wh_id i f ws) =
    (if wh_email (f w) = Some a then Some (f w) else if wh_email w = Some a then None
     else find_row wh_email (Some a) ws)"
proof -
  from ok have d: "distinct (map wh_id ws)" by (simp add: sites_ok_def)
  obtain A B where ab: "ws = A @ w # B" "upd_row wh_id i f ws = A @ f w # B" "filter (\<lambda>x. wh_id x \<noteq> i) ws = A @ B"
    by (rule upd_row_split [OF d w])
  have others: "x \<in> set ws \<and> wh_id x \<noteq> i" if "x \<in> set A \<union> set B" for x
    using that ab(3) by (metis (mono_tags, lifting) Un_iff mem_Collect_eq set_append set_filter)
  have w_only: "wh_email w = Some a \<Longrightarrow> find_row wh_email (Some a) A = None \<and> find_row wh_email (Some a) B = None"
    using ok unfolding sites_ok_def ab(1) find_row_None_iff by (auto simp: in_map_filter split: option.splits)
  have f_only: "wh_email (f w) = Some a \<Longrightarrow> find_row wh_email (Some a) A = None"
    using free others unfolding find_row_None_iff by force
  consider "wh_email (f w) = Some a" | "wh_email (f w) \<noteq> Some a" "wh_email w = Some a"
    | "wh_email (f w) \<noteq> Some a" "wh_email w \<noteq> Some a" by blast
  then show ?thesis unfolding ab(2) unfolding ab(1)
  proof cases
    case 1
    then show "find_row wh_email (Some a) (A @ f w # B) = (if wh_email (f w) = Some a then Some (f w) else if wh_email w = Some a
        then None else find_row wh_email (Some a) (A @ w # B))"
      using f_only unfolding find_row_append find_row_Cons by simp
  next
    case 2
    then show "find_row wh_email (Some a) (A @ f w # B) = (if wh_email (f w) = Some a then Some (f w) else if wh_email w = Some a
        then None else find_row wh_email (Some a) (A @ w # B))"
      using w_only unfolding find_row_append find_row_Cons by simp
  next
    case 3
    then show "find_row wh_email (Some a) (A @ f w # B) = (if wh_email (f w) = Some a then Some (f w) else if wh_email w = Some a
        then None else find_row wh_email (Some a) (A @ w # B))"
      unfolding find_row_append find_row_Cons by simp
  qed
qed

lemma teamAssignments_managers [simp]: "map ma_managerId (teamAssignments ids t w g ms) = ms"
  by (simp add: teamAssignments_def comp_def split_def)

lemma own_email:
  assumes "sites_ok ws" and "find_row wh_id i ws = Some w" and "x \<in> set ws" and "wh_id x \<noteq> i"
  shows "wh_email x \<noteq> wh_email w \<or> wh_email x = None"
proof -
  from assms(1) have d: "distinct (map wh_id ws)" by (simp add: sites_ok_def)
  obtain A B where ab: "ws = A @ w # B" "filter (\<lambda>x. wh_id x \<noteq> i) ws = A @ B"
    by (rule upd_row_split [OF d assms(2)])
  with assms(3,4) have "x \<in> set A \<union> set B" by (metis (mono_tags, lifting) mem_Collect_eq set_append set_filter)
  moreover have "wh_email w \<notin> wh_email ` (set A \<union> set B) \<or> wh_email w = None"
    using assms(1) unfolding sites_ok_def ab(1) by (cases "wh_email w") (auto simp: in_map_filter)
  ultimately show ?thesis by (metis imageI)
qed

lemma upd_row_id: "upd_row key k (\<lambda>x. x) rows = rows"
  by (simp add: upd_row_def)

text \<open>
  C37. A new credential replaces the old one, and nothing else. Once an administrator has set the
  address and password of a warehouse, that address and exactly that password lead to the
  compulsory change of password, if the warehouse is active; its former address is unknown; any
  other sign-in is answered as before.
\<close>

theorem credential_replaces:
  assumes run: "setWarehouseCredentials c now draw t i e0 p0 s = (Inr cr, s')" and ok: "sites_ok (warehouses s)"
    and hash: "\<And>q. bcrypt_hash c q \<noteq> []"
  shows "\<exists>w. find_row wh_id i (warehouses s) = Some w \<and> wh_tenantId w = t \<and> cr_email cr = lower (js_trim e0) \<and>
    cr_temporaryPassword cr = given p0 (generateInitialPassword draw) \<and>
    fst (warehouseLogin c j now' e p s') =
      (if lower (js_trim e) = cr_email cr then
         if wh_status w \<noteq> WH_ACTIVE then Inl (Unauthorized ''This warehouse is not active.'')
         else if bcrypt_compare c p (bcrypt_hash c (cr_temporaryPassword cr))
         then Inr (Must_Change i (jwt_sign j (stepClaims TYP_CHANGE_PWD i t) now' (minutes 10)))
         else Inl (Unauthorized ''Invalid warehouse credentials.'')
       else if wh_email w = Some (lower (js_trim e)) then Inl (Unauthorized ''Invalid warehouse credentials.'')
       else fst (warehouseLogin c j now' e p s))"
proof -
  define a where "a = lower (js_trim e0)"
  define q where "q = given p0 (generateInitialPassword draw)"
  define f where "f = (\<lambda>w :: warehouse. w\<lparr>wh_email := Some a, wh_passwordHash := Some (bcrypt_hash c q), wh_passwordSetAt := Some now,
      wh_mustChangePassword := True\<rparr>)"
  from run obtain v w where v: "warehouseOfTenant t i s = Some v" and w: "find_row wh_id i (warehouses s) = Some w"
    and free: "\<not> list_ex (\<lambda>w. wh_email w = Some a \<and> wh_id w \<noteq> i) (warehouses s)"
    and s': "s' = s\<lparr>warehouses := upd_row wh_id i f (warehouses s)\<rparr>" and cr: "cr = \<lparr>cr_email = a, cr_temporaryPassword = q\<rparr>"
    unfolding setWarehouseCredentials_def requireWarehouse_def Let_def
    by (auto simp: bindM_Inr_iff writeWarehouse_run a_def q_def f_def)
  have t: "wh_tenantId w = t" "wh_id w = i" using warehouseOfTenant_row [OF ok v] w by simp_all
  have f: "wh_email (f w) = Some a" by (simp add: f_def)
  have "find_row wh_email (Some (lower (js_trim e))) (warehouses s') =
      (if a = lower (js_trim e) then Some (f w) else if wh_email w = Some (lower (js_trim e)) then None
       else find_row wh_email (Some (lower (js_trim e))) (warehouses s))"
    using find_email_upd [OF ok w, of f "lower (js_trim e)"] free unfolding s' by (simp add: f list_ex_iff)
      (metis (no_types, lifting) f_def warehouse.select_convs(11) warehouse.surjective warehouse.update_convs)
  moreover have "offered s' = offered s" by (rule ext, rule offered_same) (simp_all add: s')
  moreover have "siteAnswer c j now' p us (f w) =
      (if wh_status w \<noteq> WH_ACTIVE then Inl (Unauthorized ''This warehouse is not active.'')
       else if bcrypt_compare c p (bcrypt_hash c q) then Inr (Must_Change i (jwt_sign j (stepClaims TYP_CHANGE_PWD i t) now' (minutes 10)))
       else Inl (Unauthorized ''Invalid warehouse credentials.''))"
for us
    using t hash by (simp add: siteAnswer_def f_def truthy_opt_def)
  ultimately show ?thesis
    using w t by (auto simp: warehouseLogin_fst cr a_def [symmetric] q_def [symmetric] split: option.split)
qed


section \<open>Generated passwords\<close>

lemma generateInitialPassword_ok:
  assumes "\<And>k n. 0 < n \<Longrightarrow> draw k n < n"
  shows "length (generateInitialPassword draw) = 10 \<and>
    list_all (\<lambda>chars. list_ex (\<lambda>c. c \<in> set chars) (generateInitialPassword draw)) [pwUpper, pwLower, pwDigits, pwSymbols] \<and>
    set (generateInitialPassword draw) \<subseteq> set (pwUpper @ pwLower @ pwDigits @ pwSymbols)"
proof -
  have ne: "pwUpper \<noteq> []" "pwLower \<noteq> []" "pwDigits \<noteq> []" "pwSymbols \<noteq> []"
    by (simp_all add: pwUpper_def pwLower_def pwDigits_def pwSymbols_def)
  note p = pick_in [of draw, OF assms]
  have "pick draw k (pwUpper @ pwLower @ pwDigits @ pwSymbols) \<in> set (pwUpper @ pwLower @ pwDigits @ pwSymbols)" for k
    by (rule p) (simp_all add: ne)
  then show ?thesis
    using p [OF _ ne(1)] p [OF _ ne(2)] p [OF _ ne(3)] p [OF _ ne(4)]
    by (auto simp: generateInitialPassword_def)
qed

text \<open>A password of eight of these characters, some of each kind, passes the check.\<close>

lemma strong_of_alphabets:
  assumes "8 \<le> length p" and "set p \<subseteq> set (pwUpper @ pwLower @ pwDigits @ pwSymbols)"
    and "list_all (\<lambda>chars. list_ex (\<lambda>c. c \<in> set chars) p) [pwUpper, pwLower, pwDigits, pwSymbols]"
  shows "isStrongPassword p"
proof -
  let ?plain = "\<lambda>ch. ch \<noteq> CHR 0x0A \<and> ch \<noteq> CHR 0x0D"
  have "list_all ?plain pwUpper" "list_all ?plain pwLower" "list_all ?plain pwDigits" "list_all ?plain pwSymbols"
    by (simp_all add: pwUpper_def pwLower_def pwDigits_def pwSymbols_def)
  then have all: "\<forall>ch \<in> set (pwUpper @ pwLower @ pwDigits @ pwSymbols). ?plain ch"
    unfolding list_all_iff set_append by (simp only: ball_Un simp_thms)
  have plain: "list_all ?plain p"
    unfolding list_all_iff by (rule ballI, rule bspec [OF all], erule subsetD [OF assms(2)])
  have sets: "list_all (between CHR ''A'' CHR ''Z'') pwUpper" "list_all (between CHR ''a'' CHR ''z'') pwLower" "list_all is_digit pwDigits"
    by code_simp+
  from assms(3) obtain u l d where "u \<in> set p" "u \<in> set pwUpper" "l \<in> set p" "l \<in> set pwLower" "d \<in> set p" "d \<in> set pwDigits"
    by (auto simp: list_ex_iff)
  with sets have "list_ex (between CHR ''A'' CHR ''Z'') p" "list_ex (between CHR ''a'' CHR ''z'') p" "list_ex is_digit p"
    unfolding list_all_iff list_ex_iff by blast+
  with plain assms(1) show ?thesis unfolding isStrongPassword_def by blast
qed

text \<open>
  C39. The passwords the backend makes up are strong. Whatever is drawn, the temporary password of an
  account has twelve characters and the initial one of a warehouse ten, each has a character of
  all four alphabets and none outside them, and both pass the check new passwords must pass.
\<close>

theorem generated_passwords_strong:
  assumes "\<And>k n. 0 < n \<Longrightarrow> draw k n < n"
  shows "length (generateTempPassword draw) = 12 \<and> length (generateInitialPassword draw) = 10 \<and>
    (\<forall>p \<in> {generateTempPassword draw, generateInitialPassword draw}. isStrongPassword p \<and>
      list_all (\<lambda>chars. list_ex (\<lambda>ch. ch \<in> set chars) p) [pwUpper, pwLower, pwDigits, pwSymbols] \<and>
      set p \<subseteq> set (pwUpper @ pwLower @ pwDigits @ pwSymbols))"
  using generateTempPassword_ok [of draw, OF assms] generateInitialPassword_ok [of draw, OF assms]
    strong_of_alphabets [of "generateTempPassword draw"] strong_of_alphabets [of "generateInitialPassword draw"]
  by (simp only: ball_simps insert_iff empty_iff simp_thms)

section \<open>Assignments once closed\<close>

lemma insertSkipping_grows: "grows same_assignment rows (insertSkipping rows new)"
proof (induction rows new rule: insertSkipping.induct)
  case (2 rows a new)
  let ?rows = "if ma_id a \<in> ma_id ` set rows \<or> assignmentKey a \<in> assignmentKey ` set rows then rows else rows @ [a]"
  have "grows same_assignment rows ?rows" by (simp add: assignment_life.grows_refl assignment_life.grows_append)
  from assignment_life.grows_trans [OF this 2] show ?case by simp
qed (simp add: assignment_life.grows_refl)

lemma requireWarehouse_staffing: "confined staffing (requireWarehouse t i)" "confined staffing (writeWarehouse i f)"
  "confined staffing (upsertAcceptance i t c w)"
  unfolding requireWarehouse_def writeWarehouse_def upsertAcceptance_def
  by (intro staff_confined staff.confined_transact staff.confined_modify staffing_same; auto split: option.splits)+

lemma createWarehouse_staffing: "confined staffing (createWarehouse ids t dto)"
  by (rule createWarehouse_confined [OF staff.evolution_axioms])
    (auto simp: staffing_def insertSkipping_grows insertSkipping_ok assignment_life.grows_refl requireWarehouse_staffing)

lemma changeWarehousePassword_staffing: "confined staffing (changeWarehousePassword c j now tok p)"
  unfolding changeWarehousePassword_def verifyTyp_def selectStepResponse_def
  by (intro staff_confined confined_prod staff.confined_transact staffing_same) (auto split: option.splits)

lemma site_called_staffing: "staffing s (site_called c s)"
proof -
  note rules = staff_confined requireWarehouse_staffing confined_prod
  have "confined staffing (updateWarehouse t i dto)" "confined staffing (addCommodity k t w co)" for t i dto k w co
    unfolding updateWarehouse_def addCommodity_def by (intro rules)+
  moreover have "confined staffing (removeCommodity t w co)" for t w co
    unfolding removeCommodity_def by (intro rules staff.confined_modify staffing_same) simp
  moreover have "confined staffing (assignManagers ids t w ms who)" for ids t w ms who
    unfolding assignManagers_def Let_def by (intro rules staff.confined_transact) (erule insertAssignments_staffing)
  moreover have "confined staffing (setWarehouseCredentials c now draw t w e pw)" "confined staffing (resetWarehousePassword c now draw t w)"
    for t w c now draw e pw
    unfolding setWarehouseCredentials_def resetWarehousePassword_def Let_def by (intro rules)+
  moreover note createWarehouse_staffing changeWarehousePassword_staffing
  ultimately show ?thesis by (cases c) (simp_all add: staff.confined_snd)
qed

text \<open>The two screens that assign managers, in any order of calls.\<close>

datatype desk_call = At_managers manager_call | At_warehouses site_call

fun desk_called :: "desk_call \<Rightarrow> store \<Rightarrow> store" where
  "desk_called (At_managers c) s = manager_called c s"
| "desk_called (At_warehouses c) s = site_called c s"

lemma desk_called_staffing: "staffing s (desk_called c s)"
  by (cases c) (simp_all add: manager_called_staffing site_called_staffing)

text \<open>
  C40. The unique key of an assignment outlives it. A warehouse once taken from a manager can never
  be given back, after any calls of the managers' and of the warehouses' screens: from either
  screen, every request that contains the pair is refused.
\<close>

theorem removed_for_good:
  assumes "a \<in> set (assignments s)" and "ma_unassignedAt a \<noteq> None" and "assignments_ok (assignments s)"
  shows "(ma_warehouseId a \<in> set sites \<longrightarrow>
      assignWarehouses ids t (ma_managerId a) sites who (fold desk_called cs s) \<noteq> (Inr r, s')) \<and>
    (ma_managerId a \<in> set ms \<longrightarrow>
      assignManagers ids t (ma_warehouseId a) ms who (fold desk_called cs s) \<noteq> (Inr r, s'))"
proof -
  let ?s = "fold desk_called cs s"
  have "staffing s ?s" by (rule staff.along) (rule desk_called_staffing)
  note closed = closed_staffing [OF assms this]
  from closed(1) obtain a' where a': "a' \<in> set (assignments ?s)" "ma_managerId a' = ma_managerId a"
    "ma_warehouseId a' = ma_warehouseId a" by blast
  have "ma_warehouseId a \<notin> set (openSites t (ma_managerId a) ?s)"
    using closed(2) by (fastforce simp: openSites_def openAssignments_def)
  with closed_assignment_blocks [OF a'(1,2), of sites t] a'(3)
  have "ma_warehouseId a \<in> set sites \<Longrightarrow> assignWarehouses ids t (ma_managerId a) sites who ?s \<noteq> (Inr r, s')" by simp
  moreover have "assignManagers ids t (ma_warehouseId a) ms who ?s \<noteq> (Inr r, s')" if m: "ma_managerId a \<in> set ms"
  proof
    assume run: "assignManagers ids t (ma_warehouseId a) ms who ?s = (Inr r, s')"
    define old where "old = map ma_managerId (filter (\<lambda>x. ma_warehouseId x = ma_warehouseId a \<and> ma_tenantId x = t \<and>
        ma_unassignedAt x = None) (assignments ?s))"
    let ?new = "filter (\<lambda>m. m \<notin> set old) ms"
    have new: "ma_managerId a \<in> set ?new" using closed(2) m by (force simp: old_def)
    then have "?new \<noteq> []" by (metis empty_iff empty_set)
    with run have "assignments_ok (assignments ?s @ teamAssignments ids t (ma_warehouseId a) (\<lambda>_. who) ?new)"
      unfolding assignManagers_def requireWarehouse_def Let_def old_def
      by (auto simp: bindM_Inr_iff insertAssignments_run whenM_def)
    moreover obtain b where b: "b \<in> set (teamAssignments ids t (ma_warehouseId a) (\<lambda>_. who) ?new)" "ma_managerId b = ma_managerId a"
      using new teamAssignments_managers [of ids t "ma_warehouseId a" "\<lambda>_. who" ?new] by (metis (no_types, lifting) imageE list.set_map)
    moreover from b(1) have "ma_warehouseId b = ma_warehouseId a" by (auto simp: teamAssignments_def)
    from this b(2) a' have "assignmentKey b = assignmentKey a'" by (simp add: assignmentKey_def)
    ultimately show False using a'(1) b(1) unfolding assignments_ok_def
      by (metis (no_types, lifting) disjoint_iff distinct_append imageI list.set_map map_append)
  qed
  ultimately show ?thesis by blast
qed

section \<open>Worked warehouses\<close>

definition exSiteCalls :: "site_call list" where
  "exSiteCalls =
     [Create_warehouse (exIds CHR ''x'') ''t'' \<lparr>nh_name = ''South'', nh_location = ''Jos'', nh_code = Some ''JOS'', nh_type = None,
        nh_state = None, nh_address = None, nh_capacityMt = Some 500, nh_commodityIds = [''maize'', ''maize''],
        nh_managerIds = [''mgr'', ''eve'', ''mgr'']\<rparr>,
      Set_credentials exCrypto 5 exDraw ''t'' ''x0'' ''  South@X.org '' None,
      Set_credentials exCrypto 6 exDraw ''t'' ''x0'' ''w@x.org'' None,
      Assign_managers (exIds CHR ''y'') ''t'' ''w'' [''eve'', ''mgr''] ''adm'',
      Remove_commodity ''t'' ''w'' ''maize'',
      Reset_credentials exCrypto 7 exDraw ''t'' ''w'']"


text \<open>The warehouse gets a new address: the new one asks for a change of password, the old one is unknown.\<close>

definition exReissued :: store where
  "exReissued = snd (setWarehouseCredentials exCrypto 5 exDraw ''t'' ''w'' '' Kano@X.org'' None exStore0)"

theorem credential_replaces_witness:
  "(\<exists>tok. fst (warehouseLogin exCrypto exJwt 9 ''kano@x.ORG'' ''Aa2!AAAAAA'' exReissued) = Inr (Must_Change ''w'' tok)) \<and>
   fst (warehouseLogin exCrypto exJwt 9 ''w@x.org'' ''Secret12'' exReissued) = Inl (Unauthorized ''Invalid warehouse credentials.'')"
proof -
  let ?run = "setWarehouseCredentials exCrypto 5 exDraw ''t'' ''w'' '' Kano@X.org'' None exStore0"
  have "case ?run of (Inl _, _) \<Rightarrow> False | (Inr a, s') \<Rightarrow> a = \<lparr>cr_email = ''kano@x.org'', cr_temporaryPassword = ''Aa2!AAAAAA''\<rparr>"
    by code_simp
  then obtain cr s' where r: "?run = (Inr cr, s')" and cr: "cr = \<lparr>cr_email = ''kano@x.org'', cr_temporaryPassword = ''Aa2!AAAAAA''\<rparr>"
    by (rule ran)
  then have s': "s' = exReissued" by (simp add: exReissued_def)
  have ok: "sites_ok (warehouses exStore0)" unfolding sites_ok_def by code_simp
  have hash: "bcrypt_hash exCrypto q \<noteq> []" "bcrypt_compare exCrypto q (bcrypt_hash exCrypto q)" for q by (simp_all add: exCrypto_def)
  have rows: "case find_row wh_id ''w'' (warehouses exStore0) of None \<Rightarrow> False
      | Some w \<Rightarrow> wh_status w = WH_ACTIVE \<and> wh_email w = Some ''w@x.org''"
    and e: "lower (js_trim ''kano@x.ORG'') = ''kano@x.org''" "lower (js_trim ''w@x.org'') = ''w@x.org''" by code_simp+
  note new = credential_replaces [OF r ok hash(1), unfolded s' cr credentials.simps]
  show ?thesis
  proof
    from new [of exJwt 9 "''kano@x.ORG''" "''Aa2!AAAAAA''"] rows hash(2)
    show "\<exists>tok. fst (warehouseLogin exCrypto exJwt 9 ''kano@x.ORG'' ''Aa2!AAAAAA'' exReissued) = Inr (Must_Change ''w'' tok)"
      unfolding e by auto
    from new [of exJwt 9 "''w@x.org''" "''Secret12''"] rows
    show "fst (warehouseLogin exCrypto exJwt 9 ''w@x.org'' ''Secret12'' exReissued) = Inl (Unauthorized ''Invalid warehouse credentials.'')"
      unfolding e by auto
  qed
qed

text \<open>A second manager joins the warehouse: its password, good before, must be changed.\<close>

definition exStaffed :: store where
  "exStaffed = exStore0\<lparr>users := users exStore0 @ [exUser ''new'' None [''WAREHOUSE_MANAGER'']]\<rparr>"


theorem removed_for_good_witness:
  "(\<exists>e s'. assignManagers (exIds CHR ''y'') ''t'' ''w'' [''new'', ''mgr''] ''adm'' (fold desk_called [At_warehouses (Reset_credentials exCrypto 7 exDraw ''t'' ''w'')] exClosed) = (Inl e, s')) \<and>
   (\<exists>e s'. assignWarehouses (exIds CHR ''y'') ''t'' ''mgr'' [''w''] ''adm'' (fold desk_called [At_managers (Suspend_manager ''t'' ''eve'')] exClosed) = (Inl e, s'))"
proof -
  let ?a = "hd (assignments exClosed)"
  have a: "?a \<in> set (assignments exClosed)" "ma_unassignedAt ?a \<noteq> None" and k: "ma_managerId ?a = ''mgr''" "ma_warehouseId ?a = ''w''"
    by code_simp+
  have ok: "assignments_ok (assignments exClosed)" unfolding assignments_ok_def by code_simp
  note gone = removed_for_good [OF a ok, unfolded k]
  have fails: "\<exists>e s'. m = (Inl e, s')" if "\<And>r s'. m \<noteq> (Inr r, s')" for m :: "(err + assign_result) \<times> store"
    using that by (cases m) (metis sum.exhaust)
  show ?thesis
  proof (intro conjI fails)
    show "assignManagers (exIds CHR ''y'') ''t'' ''w'' [''new'', ''mgr''] ''adm''
        (fold desk_called [At_warehouses (Reset_credentials exCrypto 7 exDraw ''t'' ''w'')] exClosed) \<noteq> (Inr r, s')" for r s'
      by (rule gone [THEN conjunct2, THEN mp]) simp
    show "assignWarehouses (exIds CHR ''y'') ''t'' ''mgr'' [''w''] ''adm''
        (fold desk_called [At_managers (Suspend_manager ''t'' ''eve'')] exClosed) \<noteq> (Inr r, s')" for r s'
      by (rule gone [THEN conjunct1, THEN mp]) simp
  qed
qed

theorem generated_passwords_strong_witness:
  "isStrongPassword ''Aa2!AAAAAA'' \<and> generateInitialPassword exDraw = ''Aa2!AAAAAA''"
proof -
  have "generateInitialPassword exDraw = ''Aa2!AAAAAA''" by code_simp
  with generated_passwords_strong [of exDraw] show ?thesis by (simp add: exDraw_def)
qed

end
