(* ===== verification/Observations.thy ===== *)
theory Observations
  imports Withdrawal_Properties Release_Properties Deposit_Properties Client_Properties Warehouse_Properties
begin

text \<open>
  Behaviours of the code a reader may not expect, each evaluated on the worked database: where
  a comment or a test promises something else, or where two services disagree.
\<close>

section \<open>Pledges and release requests\<close>

text \<open>
  A cancellation that had read the pledge before its acceptance: its release accepts any held
  row, so the collateral of the new lien is free again while the lien stays ACTIVE.
\<close>

lemma cancel_after_accept_frees_collateral:
  "let s = snd (cancelPledge_commit ''c9'' ''ada'' (hd (pledges exPledged)) exAccepted)
   in map p_status (pledges s) = [PL_CANCELLED] \<and> map (\<lambda>l. (ln_receiptId l, ln_status l)) (liens s) = [(''p2'', LN_ACTIVE)] \<and>
      map_option r_status (find_row r_id ''p2'' (receipts s)) = Some ACTIVE"
  by code_simp

text \<open>A user of an OFFBOARDED financier still turns a pending pledge into a lien.\<close>

lemma offboarded_financier_accepts:
  "let s = exPledged\<lparr>orgs := map (\<lambda>g. g\<lparr>fo_status := ORG_OFFBOARDED\<rparr>) (orgs exPledged)\<rparr>;
       s' = snd (acceptPledge exCrypto 200 (exIds CHR ''a'') ''fin'' ''p0'' ''123456'' None s)
   in map fo_status (orgs s') = [ORG_OFFBOARDED] \<and> map ln_status (liens s') = [LN_ACTIVE]"
  by code_simp

text \<open>
  Two lines of one request on the same lien are checked one by one: eight units become
  pending on a lien with four and a half.
\<close>

lemma duplicate_lines_exceed_lien:
  "let s = snd (createReleaseRequest 300 (exIds CHR ''q'') ''ada'' (exReleaseDto\<lparr>cr_lines :=
         [\<lparr>rd_lienId = ''a1'', rd_quantity = ''4''\<rparr>, \<lparr>rd_lienId = ''a1'', rd_quantity = ''4''\<rparr>]\<rparr>) exAccepted)
   in pendingFor ''a1'' s = 8 \<and> map ln_remainingQuantity (liens s) = [9 / 2]"
  by code_simp

text \<open>
  The request format admits four decimals, the receipt column keeps three: a pledge of half a
  thousandth over rounds both halves up and creates a thousandth.
\<close>

lemma half_thousandth_creates_volume:
  "let s = snd (createPledge None 100 (exIds CHR ''p'') ''ada'' (exPledgeDto\<lparr>cd_quantity := ''4.5005''\<rparr>) exStore)
   in map r_quantity (receipts s) = [10, 4501 / 1000, 55 / 10] \<and> map p_quantity (pledges s) = [45005 / 10000]"
  by code_simp

section \<open>Loans, trades, withdrawals\<close>

text \<open>A loan of \<open>eve\<close> is secured by a receipt of \<open>ada\<close>: the owner is not compared.\<close>

lemma foreign_receipt_secures_loan:
  "let s = snd (createLoan exCrypto 100 (exIds CHR ''l'') ''LN-1'' ''t'' exLoanDto ''eve'' None False exStore)
   in map (\<lambda>l. (l_clientId l, l_receiptId l)) (loans s) = [(''eve'', ''l2'')] \<and>
      map_option (\<lambda>r. (r_clientId r, r_status r)) (find_row r_id ''l2'' (receipts s)) = Some (''ada'', HELD_LOAN)"
  by code_simp

lemma foreign_receipt_is_listed:
  "let s = snd (createTrade exCrypto 100 (exIds CHR ''t'') ''TR-1'' ''t''
         \<lparr>ct_receiptId = ''r1'', ct_pin = None, ct_otp = None\<rparr> ''eve'' None False exStore)
   in map (\<lambda>t. (t_sellerId t, t_receiptId t, t_status t)) (trades s) = [(''eve'', ''t2'', TR_LISTED)] \<and>
      map_option r_clientId (find_row r_id ''t2'' (receipts s)) = Some ''ada''"
  by code_simp

text \<open>
  The second of two buyers replays the first one's transfer and is told that the goods are
  theirs, although goods and trade stay with the first.
\<close>

lemma second_buyer_told_success:
  "case settleTrade_commit 301 (exIds CHR ''u'') ''t'' ''t0'' ''adm'' (hd (trades exListed), exUser ''adm'' None []) exSold of
     (Inl _, _) \<Rightarrow> False
   | (Inr v, s) \<Rightarrow> st_status v = TR_SETTLED \<and> st_newOwner v = ''adm N'' \<and> map t_buyerId (trades s) = [Some ''eve''] \<and>
       map_option r_clientId (find_row r_id ''t2'' (receipts s)) = Some ''eve''"
  by code_simp

text \<open>
  Dispatch consumes the goods before it looks for a fee policy: without one the caller gets an
  error, the withdrawal stays APPROVED and unbilled, and the goods are gone.
\<close>

lemma dispatch_without_policy_consumes:
  "case completeWithdrawal 86400000 ''f0'' ''t'' ''w0'' (Some ''adm'') (exReady\<lparr>policies := []\<rparr>) of
     (Inr _, _) \<Rightarrow> False
   | (Inl _, s) \<Rightarrow> map (\<lambda>w. (w_status w, w_feesBilledAt w)) (withdrawals s) = [(WD_APPROVED, None)] \<and>
       map_option r_status (find_row r_id ''c1'' (receipts s)) = Some WITHDRAWN"
  by code_simp

section \<open>Receipt numbers\<close>

text \<open>
  A deposit's number ends in eight upper-case hexadecimal characters of its id; when all
  eight are letters they are taken for a suffix, and its children are numbered after the year.
\<close>

lemma all_letter_number_loses_identity: "baseReceiptNumber ''WR-2025-ABCDEFAB'' = ''WR-2025''"
  by code_simp

section \<open>Edits of deposits\<close>

text \<open>
  An edit of a pending deposit writes the receipt and not the ledger: the deposit event keeps
  the old quantity, and the replay check reports the tree.
\<close>

lemma edited_quantity_fails_replay:
  "let s = snd (editDeposit ''t'' ''mgr'' [] ''d1'' (exEdit\<lparr>ed_quantity := Some 12\<rparr>) exFiled)
   in map r_quantity (receipts s) = [12] \<and> map e_quantity (events s) = [10] \<and>
      replayVerify ''d1'' s = Some (False, [Genesis_Mismatch])"
  by code_simp

text \<open>
  A decimal is compared with a number by identity, so the same quantity counts as a change and
  is logged as one.
\<close>

lemma same_quantity_counts_as_change:
  "case editDeposit ''t'' ''mgr'' [] ''d1'' (exEdit\<lparr>ed_grade := None, ed_dateOfDeposit := None, ed_quantity := Some 10\<rparr>) exFiled of
     (Inl _, _) \<Rightarrow> False | (Inr a, s) \<Rightarrow> length (activities s) = length (activities exFiled) + 1"
  by code_simp

section \<open>Signing in\<close>

text \<open>
  The shared credential of a warehouse does not look at its tenant: a manager of a suspended
  tenant, whose personal login is refused, still enters through the warehouse.
\<close>

lemma suspended_manager_enters_through_warehouse:
  "let s = snd (suspendTenant ''t'' exStore0)
   in fst (login exCrypto exGate 5 ''mgr@x.org'' ''pw'' s) = Inl (BadRequest ''TENANT_SUSPENDED'') \<and>
      (case fst (warehouseLogin exCrypto exGate 5 ''w@x.org'' ''Secret12'' s) of Inl _ \<Rightarrow> False | Inr _ \<Rightarrow> True) \<and>
      (case fst (selectManager exGate 5 ''tok'' ''mgr'' s) of Inl _ \<Rightarrow> False | Inr a \<Rightarrow> u_id (sn_user a) = ''mgr'')"
  by code_simp

text \<open>
  A link is checked before the transaction that spends it, and the transaction does not check
  again: of two calls that checked in time both set a password, the later one wins.
\<close>

lemma two_resets_of_one_link:
  "let t = hd (linksOut exForgot); s = snd (resetPassword_commit exCrypto 30 ''Secret77'' t exForgot);
       s' = snd (resetPassword_commit exCrypto 31 ''Mallory7'' t s)
   in fst (resetPassword_check exCrypto 29 ''raw1'' ''Mallory7'' exForgot) = Inr t \<and>
      fst (resetPassword_commit exCrypto 31 ''Mallory7'' t s) = Inr () \<and>
      map_option u_password (findUser ''ada'' s') = Some ''#Mallory7''"
  by code_simp

text \<open>
  The managers' service assigns a warehouse without forcing a new shared password, which every
  new assignment is to do.
\<close>

lemma assignment_keeps_shared_password:
  "map ma_managerId (assignments exOpenedManager) = [''mgr'', ''eve''] \<and>
   map wh_mustChangePassword (warehouses exOpenedManager) = [False]"
  by code_simp

section \<open>Warehouses\<close>

text \<open>
  A commodity can be taken off a warehouse while goods of it are held there: only ACTIVE
  receipts are counted.
\<close>

lemma held_goods_left_behind:
  "map r_status (filter (\<lambda>r. r_warehouseId r = ''w'' \<and> r_commodityId r = ''maize'') (receipts exLent)) = [SPLIT, HELD_LOAN]"
  "warehouseCommodities (snd (removeCommodity ''t'' ''w'' ''maize'' exLent)) = []"
  by code_simp+

text \<open>The managers of a warehouse are assigned unseen: a client is assigned too.\<close>

lemma client_is_assigned:
  "map ma_managerId (assignments (snd (assignManagers (exIds CHR ''y'') ''t'' ''w'' [''ada''] ''adm'' exStore0))) =
     [''mgr'', ''ada'']"
  by code_simp

section \<open>Clients\<close>

text \<open>
  Client codes are counted per tenant but unique over all: the first client of a second
  tenant gets the code of the first tenant's first client, and the registration fails.
\<close>

lemma second_tenant_cannot_register:
  "fst (createClient exCrypto exStorage 2025 exDraw (exIds CHR ''n'') ''t2'' ''mgr2''
      (exCompany\<lparr>cc_focusCommodityIds := []\<rparr>) exStore0) = Inl (Db (P2002 ''client_code''))"
  by code_simp

text \<open>An edit that replaces the directors leaves documents about the old ones behind.\<close>

lemma replaced_director_dangles:
  "let s = snd (updateClient exStorage (exIds CHR ''u'') ''t'' ''mgr'' [] ''n0'' (noEdit\<lparr>uc_directors := Some [exDirector]\<rparr>) exCompanyStore)
   in map dr_id (directors (clientTables s)) = [''u0''] \<and> map dc_scopeRefId (documents (clientTables s)) = [Some ''n2''] \<and>
      \<not> documents_ok (clientTables s)"
  by code_simp

text \<open>An edit does not check that a new photograph is a file of the storage service.\<close>

lemma foreign_photo_accepted:
  "let url = ''https://evil.y/x.png'';
       r = updateClient exStorage (exIds CHR ''u'') ''t'' ''mgr'' [] ''ada'' (noEdit\<lparr>uc_profilePhotoUrl := Some url\<rparr>) exStore0
   in fst r = Inr () \<and> ownedUrlError exStorage url \<noteq> None \<and>
      map_option u_profilePhotoUrl (findUser ''ada'' (snd r)) = Some (Some url)"
  by code_simp

text \<open>
  The buckets of the rate limit belong to an instance of a request-scoped service: with the
  empty buckets every request starts from, no lookup is ever refused for its rate.
\<close>

lemma lookups_never_limited:
  "fst (lookupClientByIdentifier c now (\<lambda>_. []) t m effective i w s) \<noteq>
     Inl (Forbidden ''Too many lookups. Please wait a minute before trying again.'')"
  by (auto simp: lookupClientByIdentifier_def Let_def bindM_def failIfM_def getsM_def returnM_def auditLookup_def modifyM_def
      admitLookup_def LOOKUP_RATE_LIMIT_PER_MIN_def split: prod.splits sum.splits if_splits)

end
