(* ===== verification/Spec2Isabelle.thy ===== *)
theory Spec2Isabelle
  imports Inventory_Properties Collateral_Properties Release_Properties Withdrawal_Properties Deposit_Properties
    Registry_Properties Access_Properties Client_Properties Warehouse_Properties Receipt_Admin Observations
begin

text \<open>
  Verification of the secure-store backend (NestJS services over PostgreSQL, \<open>src/src\<close>; the
  tables are those of \<open>src/prisma/schema.prisma\<close>). The backend keeps the warehouse receipts of
  clients and everything that is done with them: deposits are filed, graded and approved;
  receipts are pledged, lent on, traded and withdrawn; financiers, managers, clients, tenants and
  warehouses are registered, and people sign in.

  \<^bold>\<open>How the parts fit.\<close> One service, the inventory ledger, changes the quantities and
  statuses of receipts; each change is a transaction that also appends an event under an
  idempotency key. The other services keep their own tables and call the ledger for the goods. So
  the development has one theory of what the ledger guarantees under any history of calls, and
  the services are shown to change receipts only through it (\<open>lawful\<close>, \<open>Service_Runs\<close>).

  \<^bold>\<open>The theories and the code they model.\<close>
  \<^item> \<open>Prelude\<close>, \<open>Lifecycle\<close>: failure inside a transaction (\<open>err + 'a \<times> 's\<close>, nothing is kept)
    and of a whole handler (\<open>('s, err, 'a) io\<close>, what was committed before stays), tables as lists
    of rows in order of creation, fixed-point columns, and the contracts \<open>evolution\<close> (what a handler
    may do to the state) and \<open>lifecycle\<close> (what a row may become) used by every component.
  \<^item> \<open>Inventory_Types\<close>, \<open>Receipt_Number\<close>, \<open>Transactions\<close>, \<open>Ledger\<close>, \<open>Recon\<close>, \<open>Query\<close>: \<open>inventory/\<close>.
    \<open>Ledger_Moves\<close>, \<open>Ledger_Runs\<close>, \<open>Ledger_Spec\<close> abstract the operations to three kinds of move, and
    state what any sequence of them keeps and what callers may rely on.
  \<^item> \<open>Store\<close>: all tables, the shared reads and writes, pagination, \<open>notifications/\<close> (the writing half).
  \<^item> \<open>Security\<close>: \<open>security/\<close> (PIN, one-time codes, the gate of transactions). \<open>Collateral_Base\<close>, \<open>Holding\<close>,
    \<open>Pledges\<close>, \<open>Pledge_Facts\<close>, \<open>Liens\<close>, \<open>Release_Requests\<close>: \<open>pledges/\<close>, \<open>liens/\<close>, \<open>release-requests/\<close>,
    \<open>commodity-prices/\<close>. \<open>Operations_Base\<close>, \<open>Loans\<close>, \<open>Trades\<close>, \<open>Withdrawals\<close>: \<open>loans/\<close>, \<open>trades/\<close>,
    \<open>withdrawals/\<close>, \<open>storage-fees/\<close>.
  \<^item> \<open>Grading\<close>, \<open>Grading_Service\<close>, \<open>Deposits\<close>, \<open>Receipt_Admin\<close>: \<open>grading/\<close>, the deposits of
    \<open>warehouse-manager/\<close>, \<open>admin/services/admin-receipt.service.ts\<close>.
  \<^item> \<open>Accounts\<close>, \<open>Managers\<close>, \<open>Financier_Orgs\<close>, \<open>Warehouse_Links\<close>, \<open>Tenants\<close>, \<open>Clients\<close>,
    \<open>Warehouse_Admin\<close>: \<open>admin-users/\<close>, \<open>managers/\<close>, \<open>financier-orgs/\<close>, \<open>warehouse-links/\<close>,
    \<open>admin-tenants/\<close>, the client registry of \<open>warehouse-manager/\<close>,
    \<open>admin/services/admin-warehouse.service.ts\<close>.
  \<^item> \<open>Authentication\<close>: \<open>auth/\<close> and the change of password of \<open>me/me.service.ts\<close>.
  A handler has the name of its method; its arguments are those of the method, preceded by what
  the call draws or reads from outside: the clock, fresh identifiers, random numbers, the hash and
  token functions. A method that checks in one step and commits in another is two definitions,
  \<open>_check\<close> and \<open>_commit\<close>, where other calls may run in between.

  \<^bold>\<open>What is shown.\<close>
  \<^item> Here and in \<open>Inventory_Properties\<close>: whatever calls are made in whatever order, from whatever stale
    snapshots, the receipt table is well formed, trees conserve mass up to a counted rounding, an
    operation happens at most once, receipts are never lost or renamed, and the reports of the
    reconciliation service are right.
  \<^item> \<open>Collateral_Properties\<close>, \<open>Release_Properties\<close>, \<open>Loan_Trade_Properties\<close>, \<open>Withdrawal_Properties\<close>: what
    each business operation does to goods and records, how often a code can be guessed, that
    requests stay within what is there, that the jobs reach everything stale.
  \<^item> \<open>Deposit_Properties\<close>: the grade of a sample against its declarative meaning, what filing and
    editing change.
  \<^item> \<open>Registry_Properties\<close>, \<open>Client_Properties\<close>, \<open>Warehouse_Properties\<close>: each registry as a system; any
    sequence of its calls keeps its unique columns and loses no row.
  \<^item> \<open>Access_Properties\<close>, \<open>Warehouse_Properties\<close>: who gets in, with what, and who no longer does.
  \<^item> \<open>Observations\<close>: evaluated examples of behaviour a comment, a test or another service contradicts.
  \<open>Worked_Example\<close> and \<open>Worked_Store\<close> hold the small databases the general statements are applied to.

  \<^bold>\<open>Bounds and fuel.\<close> Fuel is used only in the recursive SQL queries, which run at most as many
  rounds as there are receipts; no path of a well-formed tree is longer. The retries of a serializable
  transaction are as many as the code allows. The search for a login address and for a slug stop
  where the code stops, at 99.

  \<^bold>\<open>Idealisations.\<close> \<open>Decimal\<close> and \<open>Float\<close> columns are exact rationals; a fixed-point column rounds
  and overflows as declared, a \<open>Float\<close> does not round. Foreign keys are not checked. Lower-casing and
  case-insensitive search are those of ASCII. Statements of one handler run one after the other;
  interleaving is between handlers and between the two halves of a handler. Exceptions keep their
  class and the head of their message. The hash, token and storage functions are
  parameters; what a theorem needs of them it says. A request is taken to have the declared
  types. Order by creation time is the order of the table.

  \<^bold>\<open>Not modelled.\<close>
  \<^item> \<open>me/me.service.ts\<close> but for the password, and \<open>financier/financier-self.service.ts\<close>: profiles and
    listings of the signed-in user, projections of tables modelled here.
  \<^item> \<open>dashboard/\<close>, \<open>reports/\<close>, \<open>admin-overview/\<close>, the charts, listings and client detail of
    \<open>warehouse-manager/\<close>: sums grouped by calendar intervals for display, over creation dates the
    model of a receipt does not keep.
  \<^item> \<open>receipts/\<close>, \<open>transactions/\<close>, \<open>commodities/\<close>, the other services of \<open>admin/\<close>, \<open>users/\<close>, \<open>roles/\<close>:
    lookups and single-row updates without rules of their own.
  \<^item> The listing and marking of notifications, as the model's notifications have no identity; mail,
    upload and the storage providers, reference tables, filters, decorators, wiring.
\<close>

section \<open>Histories of the inventory ledger\<close>

text \<open>
  C1. Whatever calls the sessions of the backend make, in whatever order, starting from
  whatever stale snapshots, failing or replayed: the receipt table stays well formed. Ids and
  receipt numbers are unique, quantities fit their column, a row is a parent exactly when it
  is SPLIT, an ACTIVE row is approved, a parent is in the table before its children and in
  their tree, idempotency keys are used once, and every root has its DEPOSIT event.
\<close>

theorem history_well_formed: "ledger_wf (after_calls cs emptyLedger)"
  by (rule after_calls_empty(1))

text \<open>
  C2. If no call cuts a receipt at half a thousandth, every history conserves mass: for each
  root the reconciliation service finds the leaves adding up to the deposit, the replay check
  and the audit of the whole database pass.
\<close>

theorem history_reconciles:
  assumes "total_gain (map fst cs) = 0"
    and "rt \<in> set (receipts (after_calls cs emptyLedger))" and "r_parentReceiptId rt = None"
  shows "\<exists>rc. reconcileRoot (r_id rt) (after_calls cs emptyLedger) = Some rc \<and> rc_balanced rc \<and>
      rc_leafSum rc = r_quantity rt \<and>
      replayVerify (r_id rt) (after_calls cs emptyLedger) = Some (True, []) \<and>
      verifyAll tenantId (after_calls cs emptyLedger) = (True, [])"
proof -
  let ?s = "after_calls cs emptyLedger"
  have wf: "ledger_wf ?s" by (rule after_calls_empty(1))
  have near: "parents_near {0} ?s" and d: "drift (r_id rt) ?s = 0"
    using history_conserves [OF assms(1)] by blast+
  have "ids_unique ?s" "tree_ok ?s" using wf by (simp_all add: ledger_wf_def)
  from reconcileRoot_gap [OF this assms(2,3)] obtain rc where
    rc: "reconcileRoot (r_id rt) ?s = Some rc" "rc_balanced rc" "rc_gap rc = 0" "rc_rootQuantity rc = r_quantity rt"
    using d by auto
  then have "rc_leafSum rc = r_quantity rt"
    by (auto simp: reconcileRoot_def Let_def)
  with rc checks_pass [OF wf near assms(2,3)] verifyAll_pass [OF near] show ?thesis by blast
qed

text \<open>
  A deposit of ten, approved, four of it pledged: no tie, and the tree of \<open>r1\<close> reconciles.
\<close>

theorem history_reconciles_witness:
  "\<exists>rt \<in> set (receipts exHeld). \<exists>rc. reconcileRoot (r_id rt) exHeld = Some rc \<and> rc_balanced rc \<and>
      rc_leafSum rc = 10 \<and> replayVerify (r_id rt) exHeld = Some (True, []) \<and>
      verifyAll None exHeld = (True, [])"
proof -
  have gain: "total_gain (map fst exCalls) = 0" by code_simp
  have rt: "hd (receipts exHeld) \<in> set (receipts exHeld)" "r_parentReceiptId (hd (receipts exHeld)) = None"
    "r_quantity (hd (receipts exHeld)) = 10" by code_simp+
  show ?thesis
    using history_reconciles [OF gain, unfolded exCalls_held, OF rt(1,2), of None] rt by auto
qed

text \<open>
  C3. In general the leaves of a tree never add up to less than the deposit, and exceed it by
  at most a thousandth for each call that cuts at half a thousandth.
\<close>

theorem history_drift:
  "0 \<le> drift i (after_calls cs emptyLedger) \<and>
    drift i (after_calls cs emptyLedger) \<le> total_gain (map fst cs)"
  by (intro conjI after_calls_empty(2,3))



section \<open>Histories of the whole backend\<close>


text \<open>From the database without receipts: a deposit, its approval, a pledge, its acceptance.\<close>

definition exService :: "service_call list" where
  "exService = [Ledger_op (Call_deposit ''r1'' ''e1'' ''2025'' exDeposit) exStore0,
     Ledger_op (Call_approveReceipt ''e2'' 1 exApprove None None) exStore0,
     Pledging (Create_pledge None 100 (exIds CHR ''p'') ''ada'' exPledgeDto),
     Pledging (Accept_pledge exCrypto 200 (exIds CHR ''a'') ''fin'' ''p0'' ''123456'' None)]"


end
